(* ===== verification/JsPrelude.thy ===== *)
theory JsPrelude
  imports Complex_Main "HOL-Library.Word" "HOL-Library.Multiset"
    "HOL-Library.List_Lexorder" "HOL-Library.Char_ord"
begin

text \<open>
  The values of the JavaScript programs that the other theories model, and the operations of
  the language and its standard library on them that the code uses.

  A value is \<open>jsval\<close>: a string is a list of code units below 256, a number is an exact
  rational (rounding of doubles, NaN and the infinities are outside this type), an object is
  the list of its own properties in the order \<open>Object.entries\<close> reports them: array-index
  keys ascending, then the other keys in the order of their insertion (\<open>obj_set\<close> keeps that
  order, whatever the type of the values).  An exception is the left side of a sum type.
\<close>

section \<open>Values, errors\<close>

named_theorems js_simps \<open>unfolding rules of the value operations\<close>

datatype js_error = TypeError | SyntaxError | RangeError

type_synonym 'a js = "js_error + 'a"

datatype jsval =
    Undef
  | Null
  | Bool bool
  | Num rat
  | Str string
  | Arr "jsval list"
  | Obj "(string \<times> jsval) list"

type_synonym obj = "(string \<times> jsval) list"

primrec bind_js :: "'a js \<Rightarrow> ('a \<Rightarrow> 'b js) \<Rightarrow> 'b js" where
  "bind_js (Inl e) f = Inl e"
| "bind_js (Inr x) f = f x"

primrec map_js :: "('a \<Rightarrow> 'b) \<Rightarrow> 'a js \<Rightarrow> 'b js" where
  "map_js f (Inl e) = Inl e"
| "map_js f (Inr x) = Inr (f x)"

text \<open>\<open>xs.map(f)\<close> where \<open>f\<close> may throw: the first exception leaves the loop.\<close>

fun mapM_js :: "('a \<Rightarrow> 'b js) \<Rightarrow> 'a list \<Rightarrow> 'b list js" where
  "mapM_js f [] = Inr []"
| "mapM_js f (x # xs) = bind_js (f x) (\<lambda>y. map_js (\<lambda>ys. y # ys) (mapM_js f xs))"

text \<open>\<open>xs.reduce(f, b)\<close> where \<open>f\<close> may throw.\<close>

fun foldM_js :: "('b \<Rightarrow> 'a \<Rightarrow> 'b js) \<Rightarrow> 'b \<Rightarrow> 'a list \<Rightarrow> 'b js" where
  "foldM_js f b [] = Inr b"
| "foldM_js f b (x # xs) = bind_js (f b x) (\<lambda>b'. foldM_js f b' xs)"

lemma bind_js_Inr_iff: "bind_js m f = Inr y \<longleftrightarrow> (\<exists>x. m = Inr x \<and> f x = Inr y)"
  by (cases m) auto

lemma map_js_Inr_iff: "map_js f m = Inr y \<longleftrightarrow> (\<exists>x. m = Inr x \<and> y = f x)"
  by (cases m) auto

lemma mapM_js_total: "(\<And>x. x \<in> set xs \<Longrightarrow> f x = Inr (g x)) \<Longrightarrow> mapM_js f xs = Inr (map g xs)"
  by (induction xs) auto

lemma mapM_js_length: "mapM_js f xs = Inr ys \<Longrightarrow> length ys = length xs"
  by (induction xs arbitrary: ys) (auto simp: bind_js_Inr_iff map_js_Inr_iff)

lemma mapM_js_elements: "mapM_js f xs = Inr ys \<Longrightarrow> y \<in> set ys \<Longrightarrow> \<exists>x \<in> set xs. f x = Inr y"
  by (induction xs arbitrary: ys) (auto simp: bind_js_Inr_iff map_js_Inr_iff)

section \<open>Numbers and strings\<close>

definition digit_char :: "nat \<Rightarrow> char" where
  "digit_char d = ''0123456789'' ! (d mod 10)"

fun nat_str :: "nat \<Rightarrow> string" where
  "nat_str n = (if n < 10 then [digit_char n] else nat_str (n div 10) @ [digit_char (n mod 10)])"

declare nat_str.simps [simp del]

definition int_str :: "int \<Rightarrow> string" where
  "int_str i = (if i < 0 then CHR ''-'' # nat_str (nat (- i)) else nat_str (nat i))"

definition digit_val :: "char \<Rightarrow> nat option" where
  "digit_val c = map_of (zip ''0123456789'' [0, 1, 2, 3, 4, 5, 6, 7, 8, 9]) c"

definition is_digit :: "char \<Rightarrow> bool" where
  "is_digit c \<longleftrightarrow> c \<in> set ''0123456789''"

definition str_nat :: "string \<Rightarrow> nat" where
  "str_nat s = foldl (\<lambda>n c. 10 * n + (case digit_val c of Some d \<Rightarrow> d | None \<Rightarrow> 0)) 0 s"

lemma digit_cases: "d < 10 \<Longrightarrow> d = 0 \<or> d = 1 \<or> d = 2 \<or> d = 3 \<or> d = 4 \<or> d = 5 \<or> d = 6
    \<or> d = 7 \<or> d = 8 \<or> d = (9::nat)"
  by presburger

lemma digit_val_char [simp]: "d < 10 \<Longrightarrow> digit_val (digit_char d) = Some d"
  by (drule digit_cases) (auto simp: digit_val_def digit_char_def)

lemma is_digit_char [simp]: "d < 10 \<Longrightarrow> is_digit (digit_char d)"
  by (drule digit_cases) (auto simp: is_digit_def digit_char_def)

lemma str_nat_snoc: "str_nat (s @ [c]) = 10 * str_nat s + (case digit_val c of Some d \<Rightarrow> d | None \<Rightarrow> 0)"
  by (simp add: str_nat_def)

lemma str_nat_nat_str [simp]: "str_nat (nat_str n) = n"
proof (induction n rule: nat_str.induct)
  case (1 n)
  show ?case
  proof (cases "n < 10")
    case True
    then show ?thesis by (simp add: nat_str.simps [of n] str_nat_def)
  next
    case False
    with 1 show ?thesis by (simp add: nat_str.simps [of n] str_nat_snoc)
  qed
qed

lemma nat_str_digits: "\<forall>c \<in> set (nat_str n). is_digit c"
proof (induction n rule: nat_str.induct)
  case (1 n)
  show ?case
  proof (cases "n < 10")
    case True
    then show ?thesis by (simp add: nat_str.simps [of n])
  next
    case False
    with 1 show ?thesis by (auto simp: nat_str.simps [of n])
  qed
qed

lemma nat_str_nonempty [simp]: "nat_str n \<noteq> []"
  by (subst nat_str.simps) simp

lemma nat_str_inject: "nat_str m = nat_str n \<longleftrightarrow> m = n"
  by (metis str_nat_nat_str)

text \<open>
  \<open>Number.prototype.toString\<close>: a number is the exact value of its shortest decimal
  representation; the plain notation is produced, with at most 17 digits after the point
  (the exponent notation of very large and very small numbers is not modelled).
\<close>

fun frac_digits :: "nat \<Rightarrow> rat \<Rightarrow> string" where
  "frac_digits 0 x = []"
| "frac_digits (Suc k) x =
     (if x = 0 then [] else digit_char (nat \<lfloor>10 * x\<rfloor>) # frac_digits k (frac (10 * x)))"

definition num_str :: "rat \<Rightarrow> string" where
  "num_str x =
     (if of_int \<lfloor>x\<rfloor> = x then int_str \<lfloor>x\<rfloor>
      else (if x < 0 then ''-'' else [])
        @ nat_str (nat \<lfloor>\<bar>x\<bar>\<rfloor>) @ ''.'' @ frac_digits 17 (frac \<bar>x\<bar>))"

fun join :: "string \<Rightarrow> string list \<Rightarrow> string" where
  "join sep [] = []"
| "join sep [s] = s"
| "join sep (s # t # ss) = s @ sep @ join sep (t # ss)"

text \<open>\<open>String(v)\<close>; inside an array undefined and null print as the empty string.\<close>

fun to_str :: "jsval \<Rightarrow> string" where
  "to_str Undef = ''undefined''"
| "to_str Null = ''null''"
| "to_str (Bool b) = (if b then ''true'' else ''false'')"
| "to_str (Num x) = num_str x"
| "to_str (Str s) = s"
| "to_str (Arr vs) =
     join '','' (map (\<lambda>v. if v = Undef \<or> v = Null then [] else to_str v) vs)"
| "to_str (Obj kvs) = ''[object Object]''"

text \<open>\<open>Boolean(v)\<close>, \<open>a || b\<close>, \<open>a ?? b\<close>, a default parameter, and \<open>===\<close>, which
  compares objects by identity: two separately built objects are never equal.\<close>

fun truthy :: "jsval \<Rightarrow> bool" where
  "truthy Undef = False"
| "truthy Null = False"
| "truthy (Bool b) = b"
| "truthy (Num x) = (x \<noteq> 0)"
| "truthy (Str s) = (s \<noteq> [])"
| "truthy (Arr vs) = True"
| "truthy (Obj kvs) = True"

definition js_or :: "jsval \<Rightarrow> jsval \<Rightarrow> jsval" where
  "js_or a b = (if truthy a then a else b)"

definition nullish :: "jsval \<Rightarrow> bool" where
  "nullish v \<longleftrightarrow> v = Undef \<or> v = Null"

definition js_coalesce :: "jsval \<Rightarrow> jsval \<Rightarrow> jsval" where
  "js_coalesce a b = (if nullish a then b else a)"

definition js_default :: "jsval \<Rightarrow> jsval \<Rightarrow> jsval" where
  "js_default v d = (if v = Undef then d else v)"

fun is_object :: "jsval \<Rightarrow> bool" where
  "is_object (Arr vs) = True"
| "is_object (Obj kvs) = True"
| "is_object _ = False"

definition strict_eq :: "jsval \<Rightarrow> jsval \<Rightarrow> bool" where
  "strict_eq a b \<longleftrightarrow> \<not> is_object a \<and> a = b"

lemma strict_eq_Str [simp]: "strict_eq (Str s) v \<longleftrightarrow> v = Str s" "strict_eq v (Str s) \<longleftrightarrow> v = Str s"
  by (auto simp: strict_eq_def)

lemma strict_eq_sym: "strict_eq a b \<longleftrightarrow> strict_eq b a"
  by (auto simp: strict_eq_def)

lemma nullish_simps [simp]:
  "nullish Undef" "nullish Null" "\<not> nullish (Bool b)" "\<not> nullish (Num x)" "\<not> nullish (Str s)"
  "\<not> nullish (Arr vs)" "\<not> nullish (Obj kvs)"
  by (auto simp: nullish_def)

section \<open>Objects\<close>

definition is_index :: "string \<Rightarrow> bool" where
  "is_index s \<longleftrightarrow> s \<noteq> [] \<and> (\<forall>c \<in> set s. is_digit c) \<and> (hd s \<noteq> CHR ''0'' \<or> s = ''0'')
     \<and> str_nat s < 4294967295"

fun obj_insert :: "string \<Rightarrow> 'a \<Rightarrow> (string \<times> 'a) list \<Rightarrow> (string \<times> 'a) list" where
  "obj_insert k v [] = [(k, v)]"
| "obj_insert k v ((k', v') # kvs) =
     (if is_index k \<and> (is_index k' \<longrightarrow> str_nat k < str_nat k') then (k, v) # (k', v') # kvs
      else (k', v') # obj_insert k v kvs)"

definition obj_set :: "string \<Rightarrow> 'a \<Rightarrow> (string \<times> 'a) list \<Rightarrow> (string \<times> 'a) list" where
  "obj_set k v kvs =
     (if k \<in> fst ` set kvs then map (\<lambda>(k', v'). (k', if k' = k then v else v')) kvs
      else obj_insert k v kvs)"

definition obj_get :: "obj \<Rightarrow> string \<Rightarrow> jsval" where
  "obj_get kvs k = (case map_of kvs k of Some v \<Rightarrow> v | None \<Rightarrow> Undef)"

definition obj_remove :: "string \<Rightarrow> obj \<Rightarrow> obj" where
  "obj_remove k kvs = filter (\<lambda>(k', v'). k' \<noteq> k) kvs"

definition from_entries :: "(string \<times> 'a) list \<Rightarrow> (string \<times> 'a) list" where
  "from_entries es = fold (\<lambda>(k, v) o'. obj_set k v o') es []"

text \<open>\<open>{...o1, ...o2}\<close>.\<close>

definition obj_spread :: "(string \<times> 'a) list \<Rightarrow> (string \<times> 'a) list \<Rightarrow> (string \<times> 'a) list" where
  "obj_spread o1 o2 = fold (\<lambda>(k, v) o'. obj_set k v o') o2 o1"

text \<open>The own enumerable properties of any value, as \<open>{...v}\<close> copies them.\<close>

fun own_props :: "jsval \<Rightarrow> obj" where
  "own_props (Obj kvs) = kvs"
| "own_props (Arr vs) = zip (map nat_str [0..<length vs]) vs"
| "own_props (Str s) = zip (map nat_str [0..<length s]) (map (\<lambda>c. Str [c]) s)"
| "own_props _ = []"

text \<open>\<open>v.k\<close> throws on undefined and null; \<open>v?.k\<close> does not.\<close>

fun get_prop :: "jsval \<Rightarrow> string \<Rightarrow> jsval js" where
  "get_prop Undef k = Inl TypeError"
| "get_prop Null k = Inl TypeError"
| "get_prop (Arr vs) k =
     Inr (if k = ''length'' then Num (of_nat (length vs)) else obj_get (own_props (Arr vs)) k)"
| "get_prop (Str s) k =
     Inr (if k = ''length'' then Num (of_nat (length s)) else obj_get (own_props (Str s)) k)"
| "get_prop (Obj kvs) k = Inr (obj_get kvs k)"
| "get_prop _ k = Inr Undef"

definition opt_prop :: "jsval \<Rightarrow> string \<Rightarrow> jsval" where
  "opt_prop v k = (case get_prop v k of Inl _ \<Rightarrow> Undef | Inr w \<Rightarrow> w)"

lemma opt_prop_simps [simp]:
  "opt_prop Undef k = Undef" "opt_prop Null k = Undef" "opt_prop (Obj kvs) k = obj_get kvs k"
  by (simp_all add: opt_prop_def)

lemma obj_get_Nil [simp]: "obj_get [] k = Undef"
  by (simp add: obj_get_def)

lemma obj_get_Cons [simp]: "obj_get ((k', v) # kvs) k = (if k = k' then v else obj_get kvs k)"
  by (simp add: obj_get_def)

lemma map_of_obj_insert:
  "k \<notin> fst ` set kvs \<Longrightarrow> map_of (obj_insert k v kvs) = (map_of kvs)(k \<mapsto> v)"
proof (induction k v kvs rule: obj_insert.induct)
  case (2 k v k' v' kvs)
  then have "k \<noteq> k'" "k \<notin> fst ` set kvs" by auto
  with 2 show ?case by (auto simp: fun_upd_twist)
qed simp

lemma map_of_obj_update:
  "k \<in> fst ` set kvs \<Longrightarrow>
    map_of (map (\<lambda>(k', v'). (k', if k' = k then v else v')) kvs) = (map_of kvs)(k \<mapsto> v)"
proof (induction kvs)
  case (Cons p kvs)
  obtain k1 v1 where p: "p = (k1, v1)" by (cases p)
  show ?case
  proof (cases "k \<in> fst ` set kvs")
    case True
    with Cons show ?thesis by (auto simp: p fun_upd_twist)
  next
    case False
    then have "map (\<lambda>(k', v'). (k', if k' = k then v else v')) kvs = kvs"
      by (intro map_idI) (auto simp: image_iff)
    with False Cons.prems show ?thesis by (auto simp: p)
  qed
qed simp

lemma map_of_obj_set [simp]: "map_of (obj_set k v kvs) = (map_of kvs)(k \<mapsto> v)"
  by (simp add: obj_set_def map_of_obj_insert map_of_obj_update)

lemma obj_get_set [simp]: "obj_get (obj_set k v kvs) k' = (if k' = k then v else obj_get kvs k')"
  by (simp add: obj_get_def)

lemma keys_obj_insert: "fst ` set (obj_insert k v kvs) = insert k (fst ` set kvs)"
  by (induction k v kvs rule: obj_insert.induct) auto

lemma keys_obj_set [simp]: "fst ` set (obj_set k v kvs) = insert k (fst ` set kvs)"
proof -
  have "fst ` set (obj_set k v kvs) = dom (map_of (obj_set k v kvs))"
    by (rule dom_map_of_conv_image_fst [symmetric])
  also have "\<dots> = insert k (dom (map_of kvs))" by simp
  finally show ?thesis by (simp only: dom_map_of_conv_image_fst)
qed

lemma distinct_obj_insert:
  "k \<notin> fst ` set kvs \<Longrightarrow> distinct (map fst kvs) \<Longrightarrow> distinct (map fst (obj_insert k v kvs))"
  by (induction k v kvs rule: obj_insert.induct) (auto simp: keys_obj_insert)

lemma distinct_obj_set: "distinct (map fst kvs) \<Longrightarrow> distinct (map fst (obj_set k v kvs))"
  by (auto simp: obj_set_def distinct_obj_insert comp_def case_prod_beta)

lemma map_of_fold_obj_set:
  "map_of (fold (\<lambda>(k, v) o'. obj_set k v o') es o') = map_of o' ++ map_of (rev es)"
  by (induction es arbitrary: o') auto

lemma distinct_fold_obj_set:
  "distinct (map fst o') \<Longrightarrow> distinct (map fst (fold (\<lambda>(k, v) o'. obj_set k v o') es o'))"
  by (induction es arbitrary: o') (auto simp: distinct_obj_set)

lemma distinct_from_entries: "distinct (map fst (from_entries es))"
  by (simp add: from_entries_def distinct_fold_obj_set)

lemma map_of_rev_distinct: "distinct (map fst xs) \<Longrightarrow> map_of (rev xs) = map_of xs"
  by (subst map_of_inject_set) (simp_all flip: rev_map)

lemma obj_get_spread:
  assumes "distinct (map fst o2)"
  shows "obj_get (obj_spread o1 o2) k = (if k \<in> fst ` set o2 then obj_get o2 k else obj_get o1 k)"
proof (cases "map_of o2 k")
  case None
  then have "k \<notin> fst ` set o2" by (simp add: map_of_eq_None_iff)
  with assms None show ?thesis
    by (simp del: map_of_eq_None_iff
        add: obj_get_def obj_spread_def map_of_fold_obj_set map_of_rev_distinct map_add_def)
next
  case (Some v)
  then have "k \<in> fst ` set o2" by (auto dest: map_of_SomeD intro: rev_image_eqI)
  with assms Some show ?thesis
    by (simp add: obj_get_def obj_spread_def map_of_fold_obj_set map_of_rev_distinct map_add_def)
qed

lemma set_obj_insert: "set (obj_insert k v kvs) = insert (k, v) (set kvs)"
  by (induction k v kvs rule: obj_insert.induct) auto

lemma set_obj_set: "set (obj_set k v kvs) \<subseteq> insert (k, v) (set kvs)"
  by (auto simp: obj_set_def set_obj_insert split: if_splits)

lemma keys_obj_spread: "fst ` set (obj_spread o1 o2) = fst ` set o1 \<union> fst ` set o2"
  unfolding obj_spread_def by (induction o2 arbitrary: o1) (simp_all add: case_prod_beta)

lemma obj_get_absent: "k \<notin> fst ` set kvs \<Longrightarrow> obj_get kvs k = Undef"
  by (induction kvs) auto

lemma distinct_obj_spread: "distinct (map fst (obj_spread [] kvs))"
  "distinct (map fst o1) \<Longrightarrow> distinct (map fst (obj_spread o1 o2))"
  by (simp_all add: obj_spread_def distinct_fold_obj_set)

lemma obj_insert_plain: "\<not> is_index k \<Longrightarrow> obj_insert k v kvs = kvs @ [(k, v)]"
  by (induction kvs) auto

lemma fold_obj_set_plain:
  "distinct (map fst (kvs @ es)) \<Longrightarrow> (\<forall>k \<in> fst ` set es. \<not> is_index k) \<Longrightarrow>
    fold (\<lambda>(k, v) o'. obj_set k v o') es kvs = kvs @ es"
proof (induction es arbitrary: kvs)
  case (Cons e es)
  obtain k v where e: "e = (k, v)" by (cases e)
  from Cons.prems have "obj_set k v kvs = kvs @ [(k, v)]"
    by (auto simp: e obj_set_def obj_insert_plain)
  with Cons.IH [of "kvs @ [(k, v)]"] Cons.prems show ?case by (simp add: e)
qed simp

lemma from_entries_plain:
  "distinct (map fst es) \<Longrightarrow> (\<forall>k \<in> fst ` set es. \<not> is_index k) \<Longrightarrow> from_entries es = es"
  by (simp add: from_entries_def fold_obj_set_plain)

lemma obj_get_remove [simp]:
  "obj_get (obj_remove k kvs) k' = (if k' = k then Undef else obj_get kvs k')"
  by (induction kvs) (auto simp: obj_remove_def)

lemma is_index_alpha: "s \<noteq> [] \<Longrightarrow> \<not> is_digit (hd s) \<Longrightarrow> \<not> is_index s"
  by (cases s) (auto simp: is_index_def)

section \<open>Distinct values\<close>

text \<open>\<open>[...new Set(xs)]\<close> on primitive values.\<close>

definition unique :: "'a list \<Rightarrow> 'a list" where
  "unique xs = fold (\<lambda>x acc. if x \<in> set acc then acc else acc @ [x]) xs []"

lemma unique_set: "set (unique xs) = set xs" and unique_distinct: "distinct (unique xs)"
proof -
  have "set (fold (\<lambda>x acc. if x \<in> set acc then acc else acc @ [x]) xs ys) = set ys \<union> set xs
      \<and> (distinct ys \<longrightarrow> distinct (fold (\<lambda>x acc. if x \<in> set acc then acc else acc @ [x]) xs ys))" for ys
    by (induction xs arbitrary: ys) auto
  from this [of "[]"] show "set (unique xs) = set xs" "distinct (unique xs)" by (simp_all add: unique_def)
qed

section \<open>Evaluation of string tables\<close>

text \<open>Distinctness of a long list of literals, decided on a numeric code of each.\<close>

definition str_code :: "string \<Rightarrow> int" where
  "str_code s = foldl (\<lambda>n c. (31 * n + of_char c) mod 1048576) 0 s"

lemma distinct_by_code: "distinct (map str_code ss) \<Longrightarrow> distinct ss"
  by (simp add: distinct_map)

end
