(* ===== verification/JsonText.thy ===== *)
theory JsonText
  imports JsPrelude
begin

text \<open>
  \<open>JSON.stringify\<close> and \<open>JSON.parse\<close> on the values of \<^theory_text>\<open>JsPrelude\<close>.  The client sends
  option values as JSON text and parses them back from the responses, and it derives the cache
  key of a request from the JSON text of its parameters.

  The parser recurses on fuel; \<open>json_parse\<close> gives it more than twice the length of the text,
  and every recursive call either consumes a character or moves to a smaller construct, so the
  fuel is never what stops it.  A \<open>\u\<close> escape beyond the modelled code units is rejected.
\<close>

section \<open>JSON.stringify\<close>

definition hex_digit :: "nat \<Rightarrow> char" where
  "hex_digit d = ''0123456789abcdef'' ! (d mod 16)"

definition json_escape :: "char \<Rightarrow> string" where
  "json_escape c =
     (if c = CHR 0x22 then [CHR 0x5C, CHR 0x22]
      else if c = CHR 0x5C then [CHR 0x5C, CHR 0x5C]
      else if c = CHR 0x08 then [CHR 0x5C, CHR ''b'']
      else if c = CHR 0x09 then [CHR 0x5C, CHR ''t'']
      else if c = CHR 0x0A then [CHR 0x5C, CHR ''n'']
      else if c = CHR 0x0C then [CHR 0x5C, CHR ''f'']
      else if c = CHR 0x0D then [CHR 0x5C, CHR ''r'']
      else if (of_char c :: nat) < 32 then
        [CHR 0x5C, CHR ''u'', CHR ''0'', CHR ''0'', hex_digit (of_char c div 16), hex_digit (of_char c)]
      else [c])"

definition json_quote :: "string \<Rightarrow> string" where
  "json_quote s = CHR 0x22 # concat (map json_escape s) @ [CHR 0x22]"

text \<open>None is the value undefined; inside an array it prints as null, and a property with
  the value undefined is left out.\<close>

fun json_str :: "jsval \<Rightarrow> string option" where
  "json_str Undef = None"
| "json_str Null = Some ''null''"
| "json_str (Bool b) = Some (if b then ''true'' else ''false'')"
| "json_str (Num x) = Some (num_str x)"
| "json_str (Str s) = Some (json_quote s)"
| "json_str (Arr vs) = Some (CHR ''['' #
     join '','' (map (\<lambda>v. case json_str v of None \<Rightarrow> ''null'' | Some t \<Rightarrow> t) vs) @ '']'')"
| "json_str (Obj kvs) = Some (CHR ''{'' #
     join '','' (concat (map (\<lambda>kv. case json_str (snd kv) of None \<Rightarrow> []
        | Some t \<Rightarrow> [json_quote (fst kv) @ CHR '':'' # t]) kvs)) @ ''}'')"

definition json_stringify :: "jsval \<Rightarrow> jsval" where
  "json_stringify v = (case json_str v of Some t \<Rightarrow> Str t | None \<Rightarrow> Undef)"

section \<open>JSON.parse\<close>

definition is_ws :: "char \<Rightarrow> bool" where
  "is_ws c \<longleftrightarrow> c = CHR '' '' \<or> c = CHR 0x09 \<or> c = CHR 0x0A \<or> c = CHR 0x0D"

definition skip_ws :: "string \<Rightarrow> string" where
  "skip_ws s = dropWhile is_ws s"

definition hex_val :: "char \<Rightarrow> nat option" where
  "hex_val c = map_of (zip ''0123456789abcdefABCDEF'' [0, 1, 2, 3, 4, 5, 6, 7, 8, 9, 10, 11, 12, 13, 14, 15, 10, 11, 12, 13, 14, 15]) c"

definition simple_escape :: "char \<Rightarrow> char option" where
  "simple_escape c = map_of
     [(CHR 0x22, CHR 0x22), (CHR 0x5C, CHR 0x5C), (CHR ''/'', CHR ''/''), (CHR ''b'', CHR 0x08),
      (CHR ''f'', CHR 0x0C), (CHR ''n'', CHR 0x0A), (CHR ''r'', CHR 0x0D), (CHR ''t'', CHR 0x09)] c"

definition unicode_escape :: "string \<Rightarrow> char option" where
  "unicode_escape ds = (case map hex_val ds of
     [Some a, Some b, Some c, Some d] \<Rightarrow>
       (let n = ((a * 16 + b) * 16 + c) * 16 + d in if n < 256 then Some (char_of n) else None)
   | _ \<Rightarrow> None)"

text \<open>The characters of a string up to its closing quote, and the rest of the text.\<close>

fun parse_chars :: "string \<Rightarrow> (string \<times> string) option" where
  "parse_chars [] = None"
| "parse_chars (c # cs) =
     (if c = CHR 0x22 then Some ([], cs)
      else if c = CHR 0x5C then
        (case cs of
           [] \<Rightarrow> None
         | e # es \<Rightarrow>
             if e = CHR ''u'' then
               (case es of
                  h1 # h2 # h3 # h4 # r \<Rightarrow>
                    (case unicode_escape [h1, h2, h3, h4] of
                       Some d \<Rightarrow> map_option (\<lambda>(t, r'). (d # t, r')) (parse_chars r)
                     | None \<Rightarrow> None)
                | _ \<Rightarrow> None)
             else (case simple_escape e of
                     Some d \<Rightarrow> map_option (\<lambda>(t, r'). (d # t, r')) (parse_chars es)
                   | None \<Rightarrow> None))
      else if (of_char c :: nat) < 32 then None
      else map_option (\<lambda>(t, r'). (c # t, r')) (parse_chars cs))"

definition parse_fraction :: "string \<Rightarrow> (rat \<times> string) option" where
  "parse_fraction s = (case s of
     [] \<Rightarrow> Some (0, [])
   | d # r \<Rightarrow>
       if d = CHR ''.'' then
         (let ds = takeWhile is_digit r in
          if ds = [] then None
          else Some (of_nat (str_nat ds) / 10 ^ length ds, dropWhile is_digit r))
       else Some (0, s))"

definition parse_exponent :: "string \<Rightarrow> (rat \<times> string) option" where
  "parse_exponent s = (case s of
     [] \<Rightarrow> Some (1, [])
   | e # r \<Rightarrow>
       if e = CHR ''e'' \<or> e = CHR ''E'' then
         (let neg = (r \<noteq> [] \<and> hd r = CHR ''-'');
              r1 = (if r \<noteq> [] \<and> (hd r = CHR ''-'' \<or> hd r = CHR ''+'') then tl r else r);
              ds = takeWhile is_digit r1;
              p = 10 ^ str_nat ds
          in if ds = [] then None
             else Some (if neg then 1 / p else p, dropWhile is_digit r1))
       else Some (1, s))"

definition parse_unsigned :: "string \<Rightarrow> (rat \<times> string) option" where
  "parse_unsigned s =
     (let ds = takeWhile is_digit s in
      if ds = [] \<or> (hd ds = CHR ''0'' \<and> length ds > 1) then None
      else (case parse_fraction (dropWhile is_digit s) of
              None \<Rightarrow> None
            | Some (f, r) \<Rightarrow> (case parse_exponent r of
                None \<Rightarrow> None
              | Some (p, r') \<Rightarrow> Some ((of_nat (str_nat ds) + f) * p, r'))))"

definition parse_number :: "string \<Rightarrow> (rat \<times> string) option" where
  "parse_number s =
     (if s \<noteq> [] \<and> hd s = CHR ''-''
      then map_option (\<lambda>(x, r'). (- x, r')) (parse_unsigned (tl s))
      else parse_unsigned s)"

definition parse_word :: "string \<Rightarrow> jsval \<Rightarrow> string \<Rightarrow> (jsval \<times> string) option" where
  "parse_word w v s = (if take (length w) s = w then Some (v, drop (length w) s) else None)"

definition eat :: "char \<Rightarrow> string \<Rightarrow> string option" where
  "eat c s = (case skip_ws s of [] \<Rightarrow> None | d # r \<Rightarrow> if d = c then Some r else None)"

fun parse_value :: "nat \<Rightarrow> string \<Rightarrow> (jsval \<times> string) option"
and parse_elems :: "nat \<Rightarrow> string \<Rightarrow> (jsval list \<times> string) option"
and parse_members :: "nat \<Rightarrow> string \<Rightarrow> ((string \<times> jsval) list \<times> string) option" where
  "parse_value 0 s = None"
| "parse_value (Suc n) s =
     (case skip_ws s of
        [] \<Rightarrow> None
      | c # r \<Rightarrow>
          if c = CHR 0x22 then map_option (\<lambda>(t, r'). (Str t, r')) (parse_chars r)
          else if c = CHR ''['' then
            (case eat (CHR '']'') r of
               Some r' \<Rightarrow> Some (Arr [], r')
             | None \<Rightarrow> map_option (\<lambda>(vs, r'). (Arr vs, r')) (parse_elems n r))
          else if c = CHR ''{'' then
            (case eat (CHR ''}'') r of
               Some r' \<Rightarrow> Some (Obj [], r')
             | None \<Rightarrow> map_option (\<lambda>(kvs, r'). (Obj (from_entries kvs), r')) (parse_members n r))
          else if c = CHR ''n'' then parse_word ''null'' Null (c # r)
          else if c = CHR ''t'' then parse_word ''true'' (Bool True) (c # r)
          else if c = CHR ''f'' then parse_word ''false'' (Bool False) (c # r)
          else map_option (\<lambda>(x, r'). (Num x, r')) (parse_number (c # r)))"
| "parse_elems 0 s = None"
| "parse_elems (Suc n) s =
     (case parse_value n s of
        None \<Rightarrow> None
      | Some (v, r) \<Rightarrow>
          (case eat (CHR '']'') r of
             Some r' \<Rightarrow> Some ([v], r')
           | None \<Rightarrow>
               (case eat (CHR '','') r of
                  Some r' \<Rightarrow> map_option (\<lambda>(vs, r''). (v # vs, r'')) (parse_elems n r')
                | None \<Rightarrow> None)))"
| "parse_members 0 s = None"
| "parse_members (Suc n) s =
     (case Option.bind (eat (CHR 0x22) s) parse_chars of
        None \<Rightarrow> None
      | Some (k, r1) \<Rightarrow>
          (case Option.bind (eat (CHR '':'') r1) (parse_value n) of
             None \<Rightarrow> None
           | Some (v, r3) \<Rightarrow>
               (case eat (CHR ''}'') r3 of
                  Some r' \<Rightarrow> Some ([(k, v)], r')
                | None \<Rightarrow>
                    (case eat (CHR '','') r3 of
                       Some r' \<Rightarrow> map_option (\<lambda>(kvs, r''). ((k, v) # kvs, r'')) (parse_members n r')
                     | None \<Rightarrow> None))))"

definition json_parse :: "string \<Rightarrow> jsval js" where
  "json_parse s =
     (case parse_value (2 * length s + 2) s of
        Some (v, r) \<Rightarrow> if skip_ws r = [] then Inr v else Inl SyntaxError
      | None \<Rightarrow> Inl SyntaxError)"

section \<open>Reading back what was written\<close>

text \<open>The values JSON text can carry: no undefined, whole numbers, and objects whose
  properties are in the order the language gives them.\<close>

fun json_ok :: "jsval \<Rightarrow> bool" where
  "json_ok Undef = False"
| "json_ok (Num x) = (of_int \<lfloor>x\<rfloor> = x)"
| "json_ok (Arr vs) = list_all json_ok vs"
| "json_ok (Obj kvs) = (list_all (\<lambda>kv. json_ok (snd kv)) kvs \<and> from_entries kvs = kvs)"
| "json_ok v = True"

definition stops :: "string \<Rightarrow> bool" where
  "stops r \<longleftrightarrow> r = [] \<or> hd r = CHR '','' \<or> hd r = CHR '']'' \<or> hd r = CHR ''}''"

lemma stops_simps [simp]:
  "stops []" "stops (CHR '','' # r)" "stops (CHR '']'' # r)" "stops (CHR ''}'' # r)"
  by (simp_all add: stops_def)

lemma hex_cases: "d < 16 \<Longrightarrow> d = 0 \<or> d = 1 \<or> d = 2 \<or> d = 3 \<or> d = 4 \<or> d = 5 \<or> d = 6
    \<or> d = 7 \<or> d = 8 \<or> d = 9 \<or> d = 10 \<or> d = 11 \<or> d = 12 \<or> d = 13 \<or> d = 14 \<or> d = (15::nat)"
  by presburger

lemma hex_val_digit [simp]: "d < 16 \<Longrightarrow> hex_val (hex_digit d) = Some d"
  by (drule hex_cases) (elim disjE; simp add: hex_val_def hex_digit_def)

lemma hex_digit_mod: "hex_digit (d mod 16) = hex_digit d"
  by (simp add: hex_digit_def)

lemma unicode_escape_low:
  "n < 32 \<Longrightarrow> unicode_escape [CHR ''0'', CHR ''0'', hex_digit (n div 16), hex_digit n] = Some (char_of n)"
proof -
  assume n: "n < 32"
  have "hex_val (CHR ''0'') = Some 0" by (simp add: hex_val_def)
  moreover have "hex_val (hex_digit n) = Some (n mod 16)"
    using hex_val_digit [of "n mod 16"] by (simp add: hex_digit_mod)
  moreover have "n div 16 * 16 + n mod 16 = n" by simp
  ultimately show ?thesis using n by (simp add: unicode_escape_def Let_def)
qed

lemma parse_chars_escape:
  "parse_chars (json_escape c @ s) = map_option (\<lambda>(t, r). (c # t, r)) (parse_chars s)"
proof (cases "(of_char c :: nat) < 32")
  case True
  then show ?thesis
    by (simp add: json_escape_def simple_escape_def unicode_escape_low)
next
  case False
  then show ?thesis by (simp add: json_escape_def simple_escape_def)
qed

lemma parse_chars_quote: "parse_chars (concat (map json_escape s) @ CHR 0x22 # r) = Some (s, r)"
  by (induction s) (simp_all add: parse_chars_escape)

lemma skip_ws_simp [simp]: "\<not> is_ws c \<Longrightarrow> skip_ws (c # s) = c # s"
  by (simp add: skip_ws_def)

lemma eat_simps [simp]:
  "\<not> is_ws d \<Longrightarrow> eat c (d # r) = (if d = c then Some r else None)" "eat c [] = None"
  by (simp_all add: eat_def skip_ws_def)

lemma nat_str_leading_zero: "hd (nat_str n) = CHR ''0'' \<Longrightarrow> n = 0"
proof (induction n rule: nat_str.induct)
  case (1 n)
  show ?case
  proof (cases "n < 10")
    case True
    with 1 have "digit_val (digit_char n) = digit_val (CHR ''0'')"
      by (simp add: nat_str.simps [of n])
    moreover have "digit_val (CHR ''0'') = Some 0" by (simp add: digit_val_def)
    ultimately show ?thesis using True by simp
  next
    case False
    with 1 have "n div 10 = 0" by (simp add: nat_str.simps [of n])
    with False show ?thesis by simp
  qed
qed

lemma nat_str_0: "nat_str 0 = ''0''"
  by (simp add: nat_str.simps digit_char_def)

lemma hd_nat_str_digit: "is_digit (hd (nat_str n))"
  using nat_str_digits [of n] hd_in_set [OF nat_str_nonempty] by blast

lemma not_digit_simps [simp]:
  "\<not> is_digit (CHR '','')" "\<not> is_digit (CHR '']'')" "\<not> is_digit (CHR ''}'')"
  "\<not> is_digit (CHR ''-'')"
  by (simp_all add: is_digit_def)

lemma stops_no_digit: "stops r \<Longrightarrow> r = [] \<or> \<not> is_digit (hd r)"
  by (auto simp: stops_def)

lemma takeWhile_nat_str:
  "stops r \<Longrightarrow> takeWhile is_digit (nat_str n @ r) = nat_str n \<and> dropWhile is_digit (nat_str n @ r) = r"
  using nat_str_digits [of n] stops_no_digit [of r]
  by (cases r) (auto simp: takeWhile_append dropWhile_append)

lemma parse_rest_number: "stops r \<Longrightarrow> parse_fraction r = Some (0, r) \<and> parse_exponent r = Some (1, r)"
  by (cases r) (auto simp: stops_def parse_fraction_def parse_exponent_def)

lemma parse_unsigned_nat_str: "stops r \<Longrightarrow> parse_unsigned (nat_str n @ r) = Some (of_nat n, r)"
proof -
  assume "stops r"
  moreover have "\<not> (hd (nat_str n) = CHR ''0'' \<and> length (nat_str n) > 1)"
    using nat_str_leading_zero [of n] nat_str_0 by auto
  ultimately show ?thesis
    by (auto simp: parse_unsigned_def takeWhile_nat_str parse_rest_number Let_def)
qed

lemma parse_number_int_str: "stops r \<Longrightarrow> parse_number (int_str i @ r) = Some (of_int i, r)"
proof -
  assume r: "stops r"
  have "hd (nat_str (nat i) @ r) \<noteq> CHR ''-''"
    using hd_nat_str_digit [of "nat i"] by auto
  with r show ?thesis
    by (auto simp: parse_number_def int_str_def parse_unsigned_nat_str)
qed

text \<open>The first character of a printed value.\<close>

definition value_start :: "char \<Rightarrow> bool" where
  "value_start c \<longleftrightarrow> c \<in> set ''[{ntf-0123456789'' \<or> c = CHR 0x22"

lemma value_start_other:
  "value_start c \<Longrightarrow> \<not> is_ws c \<and> c \<noteq> CHR '']'' \<and> c \<noteq> CHR ''}'' \<and> c \<noteq> CHR '',''"
  by (auto simp: value_start_def is_ws_def)

lemma int_str_start: "\<exists>c t. int_str i = c # t \<and> (is_digit c \<or> c = CHR ''-'')"
proof (cases "i < 0")
  case True
  then show ?thesis by (simp add: int_str_def)
next
  case False
  then show ?thesis using hd_nat_str_digit [of "nat i"]
    by (cases "nat_str (nat i)") (auto simp: int_str_def)
qed

lemma digit_value_start: "is_digit c \<Longrightarrow> value_start c"
  by (auto simp: is_digit_def value_start_def)

lemma value_start_simps [simp]:
  "value_start (CHR 0x22)" "value_start (CHR ''['')" "value_start (CHR ''{'')"
  "value_start (CHR ''n'')" "value_start (CHR ''t'')" "value_start (CHR ''f'')"
  "value_start (CHR ''-'')"
  by (simp_all add: value_start_def)

lemma json_str_start: "json_ok v \<Longrightarrow> \<exists>c u. json_str v = Some (c # u) \<and> value_start c"
proof (cases v)
  case (Num x)
  assume "json_ok v"
  with Num int_str_start [of "\<lfloor>x\<rfloor>"] show ?thesis
    by (auto simp: num_str_def intro: digit_value_start)
next
  case (Bool b)
  then show ?thesis by (cases b) simp_all
qed (simp_all add: json_quote_def)

lemma json_str_total: "json_ok v \<Longrightarrow> \<exists>t. json_str v = Some t"
  by (cases v) simp_all

lemma eat_value_start:
  "value_start c \<Longrightarrow> c \<noteq> d \<Longrightarrow> eat d (c # u) = None"
  using value_start_other [of c] by simp

text \<open>The inner loops read back the printed items when the parser reads back each item.\<close>

lemma parse_elems_join:
  assumes "vs \<noteq> []"
    and "\<And>v t r m. v \<in> set vs \<Longrightarrow> json_str v = Some t \<Longrightarrow> 2 * length t \<le> m \<Longrightarrow> stops r \<Longrightarrow>
      parse_value (Suc m) (t @ r) = Some (v, r)"
    and "\<forall>v \<in> set vs. json_ok v"
    and "2 * length (join '','' (map (\<lambda>v. the (json_str v)) vs)) + 1 \<le> n"
  shows "parse_elems (Suc n) (join '','' (map (\<lambda>v. the (json_str v)) vs) @ CHR '']'' # r) = Some (vs, r)"
  using assms
proof (induction vs arbitrary: n rule: list_nonempty_induct)
  case (single v)
  then obtain t m where t: "json_str v = Some t" and m: "n = Suc m"
    using json_str_total [of v] by (cases n) auto
  then have "parse_value n (t @ CHR '']'' # r) = Some (v, CHR '']'' # r)"
    using single by auto
  with t show ?case by (simp add: is_ws_def)
next
  case (cons v vs)
  then obtain t where t: "json_str v = Some t" using json_str_total [of v] by auto
  let ?J = "join '','' (map (\<lambda>v. the (json_str v)) vs)"
  have split: "join '','' (map (\<lambda>v. the (json_str v)) (v # vs)) = t @ CHR '','' # ?J"
    using cons.hyps t by (cases vs) auto
  from cons.prems(3) split obtain m k where n: "n = Suc m" and m: "m = Suc k"
    and k: "2 * length t \<le> m" "2 * length ?J + 1 \<le> m"
    by (cases n; cases "n - 1") auto
  have "parse_value n (t @ CHR '','' # ?J @ CHR '']'' # r) = Some (v, CHR '','' # ?J @ CHR '']'' # r)"
    using cons.prems(1) [of v t m] t k n by auto
  moreover have "parse_elems n (?J @ CHR '']'' # r) = Some (vs, r)"
    unfolding n using cons.IH [of m] cons.prems k by auto
  ultimately show ?case unfolding split by (simp add: is_ws_def)
qed

definition member_text :: "string \<times> jsval \<Rightarrow> string" where
  "member_text kv = json_quote (fst kv) @ CHR '':'' # the (json_str (snd kv))"

lemma eat_quote [simp]: "eat (CHR 0x22) (CHR 0x22 # r) = Some r"
  by (simp add: is_ws_def)

lemma not_ws_simps [simp]:
  "\<not> is_ws (CHR '','')" "\<not> is_ws (CHR '']'')" "\<not> is_ws (CHR ''}'')" "\<not> is_ws (CHR '':'')"
  by (simp_all add: is_ws_def)

lemma parse_members_join:
  assumes "kvs \<noteq> []"
    and "\<And>k v t r m. (k, v) \<in> set kvs \<Longrightarrow> json_str v = Some t \<Longrightarrow> 2 * length t \<le> m \<Longrightarrow> stops r \<Longrightarrow>
      parse_value (Suc m) (t @ r) = Some (v, r)"
    and "\<forall>kv \<in> set kvs. json_ok (snd kv)"
    and "2 * length (join '','' (map member_text kvs)) + 1 \<le> n"
  shows "parse_members (Suc n) (join '','' (map member_text kvs) @ CHR ''}'' # r) = Some (kvs, r)"
  using assms
proof (induction kvs arbitrary: n rule: list_nonempty_induct)
  case (single kv)
  obtain k v where kv: "kv = (k, v)" by (cases kv)
  with single obtain t m where t: "json_str v = Some t" and m: "n = Suc m"
    using json_str_total [of v] by (cases n) auto
  then have "parse_value n (t @ CHR ''}'' # r) = Some (v, CHR ''}'' # r)"
    using single by (auto simp: kv member_text_def)
  with t show ?case by (simp add: kv member_text_def json_quote_def parse_chars_quote)
next
  case (cons kv kvs)
  obtain k v where kv: "kv = (k, v)" by (cases kv)
  with cons obtain t where t: "json_str v = Some t" using json_str_total [of v] by auto
  let ?J = "join '','' (map member_text kvs)"
  have split: "join '','' (map member_text (kv # kvs)) = json_quote k @ CHR '':'' # t @ CHR '','' # ?J"
    using cons.hyps t by (cases kvs) (auto simp: kv member_text_def)
  from cons.prems(3) split obtain m j where n: "n = Suc m" and m: "m = Suc j"
    and j: "2 * length t \<le> m" "2 * length ?J + 1 \<le> m"
    by (cases n; cases "n - 1") auto
  have "parse_value n (t @ CHR '','' # ?J @ CHR ''}'' # r) = Some (v, CHR '','' # ?J @ CHR ''}'' # r)"
    using cons.prems(1) [of k v t m] t j n by (auto simp: kv)
  moreover have "parse_members n (?J @ CHR ''}'' # r) = Some (kvs, r)"
    unfolding n by (rule cons.IH [OF _ _ j(2)], rule cons.prems(1)) (use cons.prems(2) in auto)
  ultimately show ?case unfolding split
    by (simp add: kv json_quote_def parse_chars_quote)
qed

lemma json_str_Arr: "list_all json_ok vs \<Longrightarrow>
    json_str (Arr vs) = Some (CHR ''['' # join '','' (map (\<lambda>v. the (json_str v)) vs) @ '']'')"
proof -
  assume ok: "list_all json_ok vs"
  have eq: "map (\<lambda>v. case json_str v of None \<Rightarrow> ''null'' | Some t \<Rightarrow> t) vs = map (\<lambda>v. the (json_str v)) vs"
  proof (rule map_cong [OF refl])
    fix v assume "v \<in> set vs"
    with ok obtain t where "json_str v = Some t"
      using json_str_total [of v] by (auto simp: list_all_iff)
    then show "(case json_str v of None \<Rightarrow> ''null'' | Some t \<Rightarrow> t) = the (json_str v)" by simp
  qed
  show ?thesis by (simp only: json_str.simps eq)
qed

lemma json_str_Obj: "list_all (\<lambda>kv. json_ok (snd kv)) kvs \<Longrightarrow>
    json_str (Obj kvs) = Some (CHR ''{'' # join '','' (map member_text kvs) @ ''}'')"
proof -
  assume ok: "list_all (\<lambda>kv. json_ok (snd kv)) kvs"
  have "concat (map (\<lambda>kv. case json_str (snd kv) of None \<Rightarrow> []
      | Some t \<Rightarrow> [json_quote (fst kv) @ CHR '':'' # t]) kvs) = map member_text kvs"
    using ok
  proof (induction kvs)
    case (Cons kv kvs)
    then obtain t where "json_str (snd kv) = Some t" using json_str_total [of "snd kv"] by auto
    with Cons show ?case by (simp add: member_text_def)
  qed simp
  then show ?thesis by simp
qed

lemma parse_value_json_str:
  "json_ok v \<Longrightarrow> json_str v = Some t \<Longrightarrow> 2 * length t \<le> n \<Longrightarrow> stops r \<Longrightarrow>
    parse_value (Suc n) (t @ r) = Some (v, r)"
proof (induction v arbitrary: t r n)
  case Undef
  then show ?case by simp
next
  case Null
  then have "t = ''null''" by simp
  then show ?case by (simp add: is_ws_def parse_word_def)
next
  case (Bool b)
  then have "t = (if b then ''true'' else ''false'')" by simp
  then show ?case by (simp add: is_ws_def parse_word_def)
next
  case (Num x)
  then have t: "t = int_str \<lfloor>x\<rfloor>" and x: "of_int \<lfloor>x\<rfloor> = x" by (auto simp: num_str_def)
  obtain c u where c: "int_str \<lfloor>x\<rfloor> = c # u" "is_digit c \<or> c = CHR ''-''"
    using int_str_start by blast
  then have "\<not> is_ws c" "c \<noteq> CHR 0x22" "c \<notin> set ''[{ntf''"
    by (auto simp: is_digit_def is_ws_def)
  with Num(4) parse_number_int_str [of r "\<lfloor>x\<rfloor>"] show ?case
    by (simp add: t c x)
next
  case (Str s)
  then have "t = json_quote s" by simp
  then show ?case by (simp add: is_ws_def json_quote_def parse_chars_quote)
next
  case (Arr vs)
  let ?J = "join '','' (map (\<lambda>v. the (json_str v)) vs)"
  from Arr.prems have t: "t = CHR ''['' # ?J @ '']''" by (simp add: json_str_Arr del: json_str.simps)
  show ?case
  proof (cases "vs = []")
    case True
    then show ?thesis by (simp add: t is_ws_def)
  next
    case False
    then obtain c u where "?J = c # u" "value_start c"
      using json_str_start [of "hd vs"] Arr.prems(1)
      by (cases vs; cases "tl vs") (auto simp: list_all_iff)
    then have "eat (CHR '']'') (?J @ '']'' @ r) = None" 
      using eat_value_start value_start_other by auto
    moreover have "parse_elems n (?J @ '']'' @ r) = Some (vs, r)"
      using parse_elems_join [OF False, of "n - 1" r] Arr t by (cases n) (auto simp: list_all_iff)
    ultimately show ?thesis by (simp add: t is_ws_def)
  qed
next
  case (Obj kvs)
  let ?J = "join '','' (map member_text kvs)"
  from Obj.prems have t: "t = CHR ''{'' # ?J @ ''}''" by (simp add: json_str_Obj del: json_str.simps)
  show ?case
  proof (cases "kvs = []")
    case True
    then show ?thesis by (simp add: t is_ws_def)
  next
    case False
    then obtain u where "?J = CHR 0x22 # u"
      by (cases kvs; cases "tl kvs") (auto simp: member_text_def json_quote_def)
    then have "eat (CHR ''}'') (?J @ CHR ''}'' # r) = None" by (simp add: is_ws_def)
    moreover have "parse_members n (?J @ CHR ''}'' # r) = Some (kvs, r)"
    proof -
      from Obj.prems(3) t obtain m where m: "n = Suc m" "2 * length ?J + 1 \<le> m" by (cases n) auto
      show ?thesis
        unfolding m(1)
      proof (rule parse_members_join [OF False _ _ m(2)])
        show "\<forall>kv \<in> set kvs. json_ok (snd kv)" using Obj.prems(1) by (simp add: list_all_iff)
      next
        fix k v t r m
        assume "(k, v) \<in> set kvs" "json_str v = Some t" "2 * length t \<le> m" "stops r"
        with Obj.IH [of "(k, v)" v t m r] Obj.prems(1)
        show "parse_value (Suc m) (t @ r) = Some (v, r)" by (auto simp: list_all_iff)
      qed
    qed
    ultimately show ?thesis using Obj.prems(1) by (simp add: t is_ws_def)
  qed
qed

theorem json_parse_str: "json_ok v \<Longrightarrow> json_str v = Some t \<Longrightarrow> json_parse t = Inr v"
  using parse_value_json_str [of v t "2 * length t + 1" "[]"]
  by (simp add: json_parse_def skip_ws_def)


section \<open>The fuel is enough\<close>

text \<open>Every part of the parser consumes a part of the text, so fuel beyond twice the length of
  the text never changes the result.\<close>

lemma dropWhile_length_le: "length (dropWhile p s) \<le> length s"
  by (induction s) auto

lemma skip_ws_length: "length (skip_ws s) \<le> length s"
  by (simp add: skip_ws_def dropWhile_length_le)

lemma eat_length: "eat c s = Some r \<Longrightarrow> length r < length s"
  using skip_ws_length [of s] by (auto simp: eat_def split: list.splits if_splits)

lemma parse_chars_length: "parse_chars s = Some (t, r) \<Longrightarrow> length r < length s"
proof (induction s arbitrary: t r rule: length_induct)
  case (1 s)
  then have IH: "\<And>s' t r. parse_chars s' = Some (t, r) \<Longrightarrow> length s' < length s \<Longrightarrow> length r < length s'"
    by blast
  from "1.prems" show ?case
    by (cases s) (auto split: if_splits list.splits option.splits dest!: IH)
qed

lemma parse_fraction_length: "parse_fraction s = Some (x, r) \<Longrightarrow> length r \<le> length s"
  using dropWhile_length_le [of is_digit "tl s"]
  by (auto simp: parse_fraction_def Let_def split: list.splits if_splits)

lemma parse_exponent_length: "parse_exponent s = Some (x, r) \<Longrightarrow> length r \<le> length s"
proof (cases s)
  case (Cons e u)
  moreover assume "parse_exponent s = Some (x, r)"
  moreover have "length (dropWhile is_digit (tl u)) \<le> Suc (length u)"
    by (rule order.trans [OF dropWhile_length_le]) simp
  moreover have "length (dropWhile is_digit u) \<le> Suc (length u)"
    by (rule order.trans [OF dropWhile_length_le]) simp
  ultimately show ?thesis by (auto simp: parse_exponent_def Let_def split: if_splits)
qed (auto simp: parse_exponent_def)

lemma parse_unsigned_length: "parse_unsigned s = Some (x, r) \<Longrightarrow> length r < length s"
proof -
  assume p: "parse_unsigned s = Some (x, r)"
  then have "takeWhile is_digit s \<noteq> []" by (auto simp: parse_unsigned_def Let_def)
  then have "length (dropWhile is_digit s) < length s"
    by (metis append_Nil length_append length_greater_0_conv less_add_same_cancel2 takeWhile_dropWhile_id)
  with p show ?thesis
    by (auto simp: parse_unsigned_def Let_def split: if_splits option.splits
        dest!: parse_fraction_length parse_exponent_length)
qed

lemma parse_number_length: "parse_number s = Some (x, r) \<Longrightarrow> length r < length s"
  by (cases s) (auto simp: parse_number_def split: if_splits dest!: parse_unsigned_length)

lemma parse_word_length: "parse_word (c # w) v s = Some (x, r) \<Longrightarrow> length r < length s"
  by (cases s) (auto simp: parse_word_def split: if_splits)

lemmas parse_lengths = eat_length parse_chars_length parse_number_length parse_word_length

lemma parse_length:
  "parse_value n s = Some (v, r) \<Longrightarrow> length r < length s"
  "parse_elems n s = Some (vs, r) \<Longrightarrow> length r < length s"
  "parse_members n s = Some (kvs, r) \<Longrightarrow> length r < length s"
proof (induction n s and n s and n s arbitrary: v r and vs r and kvs r
    rule: parse_value_parse_elems_parse_members.induct)
  case (2 n s)
  show ?case
  proof (cases "skip_ws s")
    case Nil
    with "2.prems" show ?thesis by simp
  next
    case (Cons c u)
    then have u: "length u < length s" using skip_ws_length [of s] by simp
    have "length r < Suc (length u)"
      using "2.prems" "2.IH" Cons
      by (auto split: if_splits option.splits dest!: parse_lengths) fastforce+
    with u show ?thesis by simp
  qed
next
  case (4 n s)
  from "4.prems" obtain w q where w: "parse_value n s = Some (w, q)" by (auto split: option.splits)
  with "4.IH"(1) have "length q < length s" by blast
  with "4.prems" "4.IH"(2) [OF w refl] w show ?case
    by (fastforce split: option.splits dest!: eat_length)
next
  case (6 n s)
  from "6.prems" obtain q0 k r1 q1 w r3 where
    q: "eat (CHR 0x22) s = Some q0" "parse_chars q0 = Some (k, r1)" "eat (CHR '':'') r1 = Some q1"
      "parse_value n q1 = Some (w, r3)"
    by (auto split: option.splits simp: bind_eq_Some_conv)
  with "6.IH"(1) [of "(k, r1)" k r1 q1] have "length r3 < length q1" by (simp add: bind_eq_Some_conv)
  with q have len: "length r3 < length s" by (auto dest!: eat_length parse_chars_length)
  show ?case
  proof (cases "eat (CHR ''}'') r3")
    case None
    with "6.prems" q obtain r4 kvs' where r4: "eat (CHR '','') r3 = Some r4"
      "parse_members n r4 = Some (kvs', r)" by (auto split: option.splits)
    with "6.IH"(2) [of "(k, r1)" k r1 "(w, r3)" w r3 r4] None q have "length r < length r4"
      by (simp add: bind_eq_Some_conv)
    with r4 len show ?thesis by (auto dest!: eat_length)
  next
    case (Some r4)
    with "6.prems" q len show ?thesis by (auto dest!: eat_length)
  qed
qed simp_all

lemma parse_value_step:
  assumes e: "\<And>s. 2 * length s + 1 < n \<Longrightarrow> parse_elems (Suc n) s = parse_elems n s"
    and m: "\<And>s. 2 * length s + 1 < n \<Longrightarrow> parse_members (Suc n) s = parse_members n s"
    and s: "2 * length s < Suc n"
  shows "parse_value (Suc (Suc n)) s = parse_value (Suc n) s"
proof (cases "skip_ws s")
  case (Cons c u)
  with s skip_ws_length [of s] have "2 * length u + 1 < n" by simp
  with Cons show ?thesis by (simp only: parse_value.simps list.case e m)
qed simp

lemma parse_elems_step:
  assumes v: "\<And>s. 2 * length s < n \<Longrightarrow> parse_value (Suc n) s = parse_value n s"
    and e: "\<And>s. 2 * length s + 1 < n \<Longrightarrow> parse_elems (Suc n) s = parse_elems n s"
    and s: "2 * length s + 1 < Suc n"
  shows "parse_elems (Suc (Suc n)) s = parse_elems (Suc n) s"
proof -
  have pv: "parse_value (Suc n) s = parse_value n s" using s v [of s] by simp
  show ?thesis
  proof (cases "\<exists>w q r'. parse_value n s = Some (w, q) \<and> eat (CHR '','') q = Some r'")
    case True
    then obtain w q r' where q: "parse_value n s = Some (w, q)" "eat (CHR '','') q = Some r'" by blast
    with s have "2 * length r' + 1 < n" by (auto dest!: eat_length parse_length(1))
    with q pv e [of r'] show ?thesis by (simp only: parse_elems.simps(2) option.case prod.case)
  next
    case False
    then show ?thesis unfolding parse_elems.simps pv by (auto split: option.splits)
  qed
qed

lemma parse_members_step:
  assumes v: "\<And>s. 2 * length s < n \<Longrightarrow> parse_value (Suc n) s = parse_value n s"
    and m: "\<And>s. 2 * length s + 1 < n \<Longrightarrow> parse_members (Suc n) s = parse_members n s"
    and s: "2 * length s + 1 < Suc n"
  shows "parse_members (Suc (Suc n)) s = parse_members (Suc n) s"
proof (cases "Option.bind (eat (CHR 0x22) s) parse_chars")
  case None
  then show ?thesis by (simp only: parse_members.simps option.case)
next
  case (Some p)
  obtain k r1 where p: "p = (k, r1)" by (cases p)
  with Some have r1: "length r1 < length s"
    by (auto simp: bind_eq_Some_conv dest!: eat_length parse_chars_length)
  have pv: "Option.bind (eat (CHR '':'') r1) (parse_value (Suc n))
      = Option.bind (eat (CHR '':'') r1) (parse_value n)"
    using r1 s v by (cases "eat (CHR '':'') r1") (auto dest!: eat_length)
  show ?thesis
  proof (cases "\<exists>w r3 r4. Option.bind (eat (CHR '':'') r1) (parse_value n) = Some (w, r3)
      \<and> eat (CHR '','') r3 = Some r4")
    case True
    then obtain w r3 r4 where q: "Option.bind (eat (CHR '':'') r1) (parse_value n) = Some (w, r3)"
      "eat (CHR '','') r3 = Some r4" by blast
    with r1 s have "2 * length r4 + 1 < n"
      by (auto simp: bind_eq_Some_conv dest!: eat_length parse_length(1))
    with Some p q pv m [of r4] show ?thesis
      by (simp only: parse_members.simps(2) option.case prod.case)
  next
    case False
    then show ?thesis unfolding parse_members.simps Some p option.case prod.case pv
      by (auto split: option.splits)
  qed
qed

lemma parse_enough_fuel:
  "(\<forall>s. 2 * length s < n \<longrightarrow> parse_value (Suc n) s = parse_value n s) \<and>
   (\<forall>s. 2 * length s + 1 < n \<longrightarrow> parse_elems (Suc n) s = parse_elems n s) \<and>
   (\<forall>s. 2 * length s + 1 < n \<longrightarrow> parse_members (Suc n) s = parse_members n s)"
proof (induction n)
  case (Suc n)
  then show ?case
    by (intro conjI allI impI parse_value_step parse_elems_step parse_members_step) blast+
qed simp

lemma parse_value_fuel: "2 * length s < n \<Longrightarrow> n \<le> m \<Longrightarrow> parse_value m s = parse_value n s"
proof (induction m)
  case (Suc m)
  show ?case
  proof (cases "n \<le> m")
    case True
    with Suc have "parse_value m s = parse_value n s" "2 * length s < m" by auto
    with parse_enough_fuel [of m] show ?thesis by metis
  next
    case False
    with Suc.prems show ?thesis by (metis le_SucE)
  qed
qed simp

end
