(* ===== verification/ApiUtils.thy ===== *)
theory ApiUtils
  imports JsonText
begin

text \<open>
  \<open>api/utils.ts\<close>, \<open>api/constants.ts\<close>, the part of \<open>api/actionCreators.ts\<close> that
  builds success actions, and the helpers of \<open>utils/strings.ts\<close> and \<open>utils/objects.ts\<close> the
  API layer rests on: the request record every action creator returns (\<open>apiAction\<close>), and the
  cache key of a request, a 32-bit hash of the sorted JSON text of its parameters.
\<close>

section \<open>Actions and requests\<close>

record action =
  act_type :: string
  act_label :: string
  act_payload :: jsval

record api_request =
  rq_url :: string
  rq_method :: string
  rq_params :: jsval
  rq_onSuccess :: "(jsval \<Rightarrow> string \<Rightarrow> action) option"
  rq_entityId :: jsval
  rq_label :: string
  rq_ttl :: int
  rq_hash :: jsval
  rq_errorHandlerType :: string
  rq_successHandlerType :: string
  rq_successHandlerPayload :: jsval
  rq_headersOverride :: obj
  rq_affectedRequests :: "string list"
  rq_allowMultipleRequests :: bool

definition SECOND :: int where "SECOND = 1000"
definition MINUTE :: int where "MINUTE = 60 * SECOND"
definition HALF_HOUR :: int where "HALF_HOUR = 30 * MINUTE"
definition HOUR :: int where "HOUR = 2 * HALF_HOUR"

lemmas duration_defs = SECOND_def MINUTE_def HALF_HOUR_def HOUR_def

definition ERROR_HANDLER_TYPE_ALERT :: string where
  "ERROR_HANDLER_TYPE_ALERT = ''ERROR_HANDLER_TYPE_ALERT''"
definition ERROR_HANDLER_TYPE_LOCAL :: string where
  "ERROR_HANDLER_TYPE_LOCAL = ''ERROR_HANDLER_TYPE_LOCAL''"
definition SUCCESS_HANDLER_TYPE_ALERT :: string where
  "SUCCESS_HANDLER_TYPE_ALERT = ''SUCCESS_HANDLER_TYPE_ALERT''"
definition SUCCESS_HANDLER_TYPE_LOCAL :: string where
  "SUCCESS_HANDLER_TYPE_LOCAL = ''SUCCESS_HANDLER_TYPE_LOCAL''"

lemmas handler_type_defs = ERROR_HANDLER_TYPE_ALERT_def ERROR_HANDLER_TYPE_LOCAL_def
  SUCCESS_HANDLER_TYPE_ALERT_def SUCCESS_HANDLER_TYPE_LOCAL_def

text \<open>\<open>import.meta.env.DEV\<close> is fixed by the build: the argument \<open>dev\<close>.\<close>

definition getApiUrl :: "bool \<Rightarrow> string \<Rightarrow> string \<Rightarrow> string" where
  "getApiUrl dev client version =
     (let baseUrl = ''/'' @ client @ ''/'' @ version in if dev then ''/api'' @ baseUrl else baseUrl)"

text \<open>The caller names the fields it gives; every other field keeps its default.\<close>

definition apiAction :: "(api_request \<Rightarrow> api_request) \<Rightarrow> api_request" where
  "apiAction given = given
     \<lparr>rq_url = '''', rq_method = ''POST'', rq_params = Null, rq_onSuccess = None,
      rq_entityId = Str '''', rq_label = '''', rq_ttl = 0, rq_hash = Num 0,
      rq_errorHandlerType = ERROR_HANDLER_TYPE_ALERT,
      rq_successHandlerType = SUCCESS_HANDLER_TYPE_LOCAL,
      rq_successHandlerPayload = Undef, rq_headersOverride = [], rq_affectedRequests = [],
      rq_allowMultipleRequests = False\<rparr>"

definition handleSuccess :: "string \<Rightarrow> jsval \<Rightarrow> string \<Rightarrow> action" where
  "handleSuccess type data label = \<lparr>act_type = type, act_label = label, act_payload = data\<rparr>"

section \<open>The cache key\<close>

text \<open>
  \<open>getHash\<close>: \<open>Math.imul\<close>, the addition and \<open>| 0\<close> keep the loop variable a 32-bit
  integer; it starts undefined, which \<open>Math.imul\<close> reads as 0, and stays so on the empty string.
\<close>

fun getHash_loop :: "32 word option \<Rightarrow> string \<Rightarrow> 32 word option" where
  "getHash_loop h [] = h"
| "getHash_loop h (c # cs) =
     getHash_loop (Some (31 * (case h of None \<Rightarrow> 0 | Some w \<Rightarrow> w) + of_nat (of_char c))) cs"

definition getHash :: "string \<Rightarrow> jsval" where
  "getHash s = (case getHash_loop None s of None \<Rightarrow> Undef | Some w \<Rightarrow> Num (of_int (sint w)))"

text \<open>\<open>Array.prototype.sort\<close> without a comparator: stable, by \<open>String(v)\<close>, undefined last.\<close>

definition js_sort :: "jsval list \<Rightarrow> jsval list" where
  "js_sort vs = sort_key to_str (filter (\<lambda>v. v \<noteq> Undef) vs) @ filter (\<lambda>v. v = Undef) vs"

definition sort_inner :: "jsval \<Rightarrow> jsval" where
  "sort_inner v = (case v of Arr vs \<Rightarrow> Arr (js_sort vs) | _ \<Rightarrow> v)"

definition entry_key :: "string \<times> jsval \<Rightarrow> string" where
  "entry_key kv = to_str (Arr [Str (fst kv), snd kv])"

definition sortValue :: "jsval \<Rightarrow> jsval" where
  "sortValue v = (case v of
     Arr vs \<Rightarrow> Arr (js_sort vs)
   | Obj kvs \<Rightarrow> Obj (from_entries (sort_key entry_key (map (\<lambda>(k, w). (k, sort_inner w)) kvs)))
   | _ \<Rightarrow> js_coalesce v (Obj []))"

definition sortedStringify :: "jsval \<Rightarrow> string option" where
  "sortedStringify v = json_str (sortValue v)"

definition hashParams :: "jsval \<Rightarrow> jsval" where
  "hashParams params = (case sortedStringify params of Some t \<Rightarrow> getHash t | None \<Rightarrow> Undef)"

text \<open>\<open>[paramValue].flat()\<close> and the comparison of two sets of search parameters.\<close>

definition flat_param :: "jsval \<Rightarrow> jsval" where
  "flat_param v = (case v of Arr vs \<Rightarrow> Arr vs | _ \<Rightarrow> Arr [v])"

definition convertSearchParamValuesToArray :: "obj \<Rightarrow> obj" where
  "convertSearchParamValuesToArray ps = from_entries (map (\<lambda>(k, v). (k, flat_param v)) ps)"

definition removeUndefinedValues :: "obj \<Rightarrow> obj" where
  "removeUndefinedValues ps = from_entries (filter (\<lambda>(k, v). v \<noteq> Undef) ps)"

definition areSearchParamsEqual :: "obj \<Rightarrow> obj \<Rightarrow> bool" where
  "areSearchParamsEqual p1 p2 \<longleftrightarrow>
     strict_eq (hashParams (Obj (convertSearchParamValuesToArray (removeUndefinedValues p1))))
       (hashParams (Obj (convertSearchParamValuesToArray (removeUndefinedValues p2))))"

subsection \<open>The hash as a polynomial\<close>

definition code_poly :: "string \<Rightarrow> nat" where
  "code_poly s = foldl (\<lambda>a c. 31 * a + of_char c) 0 s"

lemma getHash_loop_Some:
  "getHash_loop (Some w) s = Some (foldl (\<lambda>a c. 31 * a + of_nat (of_char c)) w s)"
  by (induction s arbitrary: w) auto

lemma foldl_of_nat:
  "foldl (\<lambda>a c. 31 * a + of_nat (of_char c)) (of_nat n) s
     = (of_nat (foldl (\<lambda>a c. 31 * a + of_char c) n s) :: 32 word)"
proof (induction s arbitrary: n)
  case (Cons c s)
  from Cons.IH [of "31 * n + of_char c"] show ?case by simp
qed simp

lemma getHash_poly: "s \<noteq> [] \<Longrightarrow> getHash s = Num (of_int (sint (of_nat (code_poly s) :: 32 word)))"
  using foldl_of_nat [of 0 s]
  by (cases s) (simp_all add: getHash_def getHash_loop_Some code_poly_def)

lemma code_poly_sum: "code_poly s = (\<Sum>j < length s. of_char (s ! j) * 31 ^ (length s - 1 - j))"
proof (induction s rule: rev_induct)
  case (snoc c s)
  have "(\<Sum>j < length s. of_char ((s @ [c]) ! j) * 31 ^ (length s - j)) = 31 * (\<Sum>j < length s. of_char (s ! j) * 31 ^ (length s - 1 - j) :: nat)"
    unfolding sum_distrib_left by (rule sum.cong) (auto simp: nth_append simp flip: power_Suc)
  with snoc show ?case by (simp add: code_poly_def)
qed (simp add: code_poly_def)

lemma getHash_Nil: "getHash [] = Undef"
  by (simp add: getHash_def)

lemma getHash_range: "s \<noteq> [] \<Longrightarrow> \<exists>i. getHash s = Num (of_int i) \<and> - (2 ^ 31) \<le> i \<and> i < 2 ^ 31"
proof -
  assume "s \<noteq> []"
  moreover have "- (2 ^ 31) \<le> sint w \<and> sint w < 2 ^ 31" for w :: "32 word"
    using sint_ge [of w] sint_lt [of w] by simp
  ultimately show ?thesis by (metis getHash_poly)
qed

lemma sortValue_defined: "sortValue v \<noteq> Undef"
  by (cases v) (auto simp: sortValue_def js_coalesce_def)

lemma json_str_nonempty: "v \<noteq> Undef \<Longrightarrow> \<exists>c t. json_str v = Some (c # t)"
proof (cases v)
  case (Num x)
  obtain c t where "int_str \<lfloor>x\<rfloor> = c # t" using int_str_start by blast
  moreover have "num_str x \<noteq> []" by (auto simp: num_str_def int_str_def)
  ultimately show ?thesis using Num by (cases "num_str x") auto
next
  case (Bool b)
  then show ?thesis by (cases b) simp_all
qed (simp_all add: json_quote_def)

lemma hashParams_int32: "\<exists>i. hashParams v = Num (of_int i) \<and> - (2 ^ 31) \<le> i \<and> i < 2 ^ 31"
proof -
  obtain c t where "json_str (sortValue v) = Some (c # t)"
    using json_str_nonempty [OF sortValue_defined] by blast
  then show ?thesis using getHash_range [of "c # t"]
    by (simp add: hashParams_def sortedStringify_def)
qed

subsection \<open>The key does not depend on the order of the parameters\<close>

lemma entry_key_comma:
  "\<exists>r. entry_key (k, v) = k @ CHR '','' # r"
  by (simp add: entry_key_def)

lemma comma_split_inj:
  "CHR '','' \<notin> set k1 \<Longrightarrow> CHR '','' \<notin> set k2 \<Longrightarrow> k1 @ CHR '','' # r1 = k2 @ CHR '','' # r2 \<Longrightarrow> k1 = k2"
  by (induction k1 arbitrary: k2; rename_tac k2, case_tac k2) auto

lemma entry_key_inj:
  assumes "distinct (map fst kvs)" "\<forall>k \<in> fst ` set kvs. CHR '','' \<notin> set k"
  shows "inj_on entry_key (set kvs)"
proof (rule inj_onI)
  fix p q assume p: "p \<in> set kvs" and q: "q \<in> set kvs" and eq: "entry_key p = entry_key q"
  obtain r1 r2 where "entry_key p = fst p @ CHR '','' # r1" "entry_key q = fst q @ CHR '','' # r2"
    using entry_key_comma [of "fst p" "snd p"] entry_key_comma [of "fst q" "snd q"] by auto
  with eq p q assms(2) have "fst p = fst q"
    using comma_split_inj [of "fst p" "fst q" r1 r2] by auto
  with assms(1) p q show "p = q" by (metis prod.collapse eq_key_imp_eq_value)
qed

lemma sort_key_perm:
  "mset xs = mset ys \<Longrightarrow> inj_on f (set xs) \<Longrightarrow> sort_key f xs = sort_key f ys"
  by (rule sort_key_inj_key_eq) simp_all

lemma sortValue_perm:
  assumes "mset kvs = mset kvs'" "distinct (map fst kvs)"
    and "\<forall>k \<in> fst ` set kvs. CHR '','' \<notin> set k"
  shows "sortValue (Obj kvs) = sortValue (Obj kvs')"
proof -
  let ?f = "map (\<lambda>(k, w). (k, sort_inner w))"
  have keys: "map fst (?f kvs) = map fst kvs" by auto
  then have "fst ` set (?f kvs) = fst ` set kvs" by (metis list.set_map)
  with keys assms(2,3) have "inj_on entry_key (set (?f kvs))"
    by (intro entry_key_inj) (simp_all only:)
  moreover have "mset (?f kvs) = mset (?f kvs')" using assms(1) by simp
  ultimately have "sort_key entry_key (?f kvs) = sort_key entry_key (?f kvs')"
    by (intro sort_key_perm)
  then show ?thesis by (simp add: sortValue_def)
qed

lemma hashParams_perm:
  assumes "mset kvs = mset kvs'" "distinct (map fst kvs)"
    and "\<forall>k \<in> fst ` set kvs. CHR '','' \<notin> set k"
  shows "hashParams (Obj kvs) = hashParams (Obj kvs')"
  using sortValue_perm [OF assms] by (simp add: hashParams_def sortedStringify_def)

end
