(* ===== verification/ApiReducer.thy ===== *)
theory ApiReducer
  imports ApiUtils
begin

text \<open>
  The status slice of the store: \<open>api/actionCreators.ts\<close> and \<open>api/reducer.ts\<close>.  Each request
  label has an entry with its loading flag, the cache key and the entity of its latest start,
  the time its data expires, and the outcome of its latest settlement.

  In the source the entries and the two fields \<open>latestErrorLabel\<close> and
  \<open>latestSuccessHandledLabel\<close> are properties of one object; the labels of the action creators
  are upper-case constants, so the entries are a map of their own here.  A field that an entry
  does not have yet is None (\<open>hash\<close> and \<open>entityId\<close> are then undefined).  The clock, read by
  the success case, is the argument \<open>now\<close> in milliseconds.
\<close>

section \<open>Actions and state\<close>

record success_payload =
  sp_label :: string
  sp_response :: jsval
  sp_ttl :: int
  sp_successHandlerType :: string
  sp_messageParams :: jsval
  sp_alertSeverity :: jsval
  sp_code :: jsval

datatype api_action =
    API_START string jsval jsval
  | API_END string
  | ACCESS_DENIED jsval
  | API_ERROR string jsval string
  | API_SUCCESS success_payload
  | RESET_TTL string

definition apiStart :: "string \<Rightarrow> jsval \<Rightarrow> jsval \<Rightarrow> api_action" where
  "apiStart label hash entityId = API_START label hash entityId"

definition apiEnd :: "string \<Rightarrow> api_action" where
  "apiEnd label = API_END label"

definition accessDenied :: "jsval \<Rightarrow> api_action" where
  "accessDenied url = ACCESS_DENIED url"

definition apiError :: "string \<Rightarrow> jsval \<Rightarrow> string \<Rightarrow> api_action" where
  "apiError label response errorHandlerType = API_ERROR label response errorHandlerType"

definition apiSuccess :: "success_payload \<Rightarrow> api_action" where
  "apiSuccess payload = API_SUCCESS payload"

definition resetTtl :: "string \<Rightarrow> api_action" where
  "resetTtl label = RESET_TTL label"

lemmas api_action_defs = apiStart_def apiEnd_def apiError_def apiSuccess_def resetTtl_def

record api_status =
  isError :: bool
  errorHandlerType :: "string option"
  successHandlerType :: "string option"
  response :: jsval

record api_entry =
  isLoading :: "bool option"
  hash :: jsval
  entityId :: jsval
  timestamp :: "int option"
  status :: "api_status option"

record api_state =
  latestErrorLabel :: string
  latestSuccessHandledLabel :: string
  entries :: "string \<rightharpoonup> api_entry"

definition api_init :: api_state where
  "api_init = \<lparr>latestErrorLabel = '''', latestSuccessHandledLabel = '''', entries = Map.empty\<rparr>"

definition no_entry :: api_entry where
  "no_entry = \<lparr>isLoading = None, hash = Undef, entityId = Undef, timestamp = None, status = None\<rparr>"

text \<open>\<open>...state[label]\<close> and \<open>state[label] || {}\<close>.\<close>

definition entry_of :: "api_state \<Rightarrow> string \<Rightarrow> api_entry" where
  "entry_of st l = (case entries st l of None \<Rightarrow> no_entry | Some e \<Rightarrow> e)"

definition set_entry :: "api_state \<Rightarrow> string \<Rightarrow> api_entry \<Rightarrow> api_state" where
  "set_entry st l e = st\<lparr>entries := (entries st)(l \<mapsto> e)\<rparr>"

definition no_status :: api_status where
  "no_status = \<lparr>isError = False, errorHandlerType = None, successHandlerType = None, response = Undef\<rparr>"

definition status_of :: "api_entry \<Rightarrow> api_status" where
  "status_of e = (case status e of None \<Rightarrow> no_status | Some s \<Rightarrow> s)"

section \<open>The reducer\<close>

definition on_start :: "api_state \<Rightarrow> string \<Rightarrow> jsval \<Rightarrow> jsval \<Rightarrow> api_state" where
  "on_start st l h i =
     set_entry st l ((entry_of st l)\<lparr>isLoading := Some True, hash := h, entityId := i\<rparr>)"

definition on_end :: "api_state \<Rightarrow> string \<Rightarrow> api_state" where
  "on_end st l = set_entry st l ((entry_of st l)\<lparr>isLoading := Some False\<rparr>)"

definition success_response :: "success_payload \<Rightarrow> jsval \<Rightarrow> jsval" where
  "success_response p statusText =
     Obj [(''data'', Obj [(''success'', Obj
       [(''statusText'', statusText), (''code'', sp_code p), (''messageParams'', sp_messageParams p),
        (''reason'', Str (sp_label p)), (''alertSeverity'', sp_alertSeverity p)])])]"

definition on_success :: "int \<Rightarrow> api_state \<Rightarrow> success_payload \<Rightarrow> api_state js" where
  "on_success now st p =
     map_js (\<lambda>statusText.
       let l = sp_label p;
         st' = set_entry st l ((entry_of st l)
           \<lparr>timestamp := Some (now + sp_ttl p),
            status := Some ((status_of (entry_of st l))
              \<lparr>isError := False, successHandlerType := Some (sp_successHandlerType p),
               response := success_response p statusText\<rparr>)\<rparr>)
       in if sp_successHandlerType p = SUCCESS_HANDLER_TYPE_ALERT
          then st'\<lparr>latestSuccessHandledLabel := l\<rparr> else st')
     (get_prop (sp_response p) ''statusText'')"

definition on_error :: "api_state \<Rightarrow> string \<Rightarrow> jsval \<Rightarrow> string \<Rightarrow> api_state js" where
  "on_error st l resp handlerType =
     bind_js (get_prop resp ''config'') (\<lambda>config.
     bind_js (get_prop config ''url'') (\<lambda>url.
     map_js (\<lambda>params.
       (set_entry st l ((entry_of st l)
         \<lparr>status := Some ((status_of (entry_of st l))
            \<lparr>isError := True, errorHandlerType := Some handlerType,
             response := Obj (obj_spread (obj_spread [] (own_props resp))
               [(''config'', Obj [(''url'', url), (''params'', Obj (obj_spread [] (own_props params)))])])\<rparr>)\<rparr>))
       \<lparr>latestErrorLabel := l\<rparr>)
     (get_prop config ''params'')))"

definition on_reset_ttl :: "api_state \<Rightarrow> string \<Rightarrow> api_state" where
  "on_reset_ttl st l = set_entry st l ((entry_of st l)\<lparr>timestamp := Some 0\<rparr>)"

fun api_reducer :: "int \<Rightarrow> api_state \<Rightarrow> api_action \<Rightarrow> api_state js" where
  "api_reducer now st (API_START l h i) = Inr (on_start st l h i)"
| "api_reducer now st (API_END l) = Inr (on_end st l)"
| "api_reducer now st (API_SUCCESS p) = on_success now st p"
| "api_reducer now st (API_ERROR l r t) = on_error st l r t"
| "api_reducer now st (RESET_TTL l) = Inr (on_reset_ttl st l)"
| "api_reducer now st (ACCESS_DENIED u) = Inr st"

section \<open>Entries after an action\<close>

lemma entry_of_set_entry [simp]:
  "entry_of (set_entry st l e) l' = (if l' = l then e else entry_of st l')"
  by (simp add: entry_of_def set_entry_def)

lemma entry_of_update [simp]:
  "entry_of (st\<lparr>latestErrorLabel := x\<rparr>) = entry_of st"
  "entry_of (st\<lparr>latestSuccessHandledLabel := x\<rparr>) = entry_of st"
  by (simp_all add: entry_of_def fun_eq_iff)

lemma entry_of_init [simp]: "entry_of api_init l = no_entry"
  by (simp add: entry_of_def api_init_def)

lemma entry_of_on_start [simp]:
  "entry_of (on_start st l h i) l' =
    (if l' = l then (entry_of st l)\<lparr>isLoading := Some True, hash := h, entityId := i\<rparr> else entry_of st l')"
  by (simp add: on_start_def)

lemma entry_of_on_end [simp]:
  "entry_of (on_end st l) l' =
    (if l' = l then (entry_of st l)\<lparr>isLoading := Some False\<rparr> else entry_of st l')"
  by (simp add: on_end_def)

lemma entry_of_on_reset_ttl [simp]:
  "entry_of (on_reset_ttl st l) l' =
    (if l' = l then (entry_of st l)\<lparr>timestamp := Some 0\<rparr> else entry_of st l')"
  by (simp add: on_reset_ttl_def)

text \<open>What a settlement leaves alone: the loading flag, the key and the entity of every entry.\<close>

lemma on_success_entry:
  assumes "on_success now st p = Inr st'"
  shows "isLoading (entry_of st' l) = isLoading (entry_of st l)"
    and "hash (entry_of st' l) = hash (entry_of st l)"
    and "entityId (entry_of st' l) = entityId (entry_of st l)"
    and "l \<noteq> sp_label p \<Longrightarrow> entry_of st' l = entry_of st l"
    and "timestamp (entry_of st' (sp_label p)) = Some (now + sp_ttl p)"
    and "map_option isError (status (entry_of st' (sp_label p))) = Some False"
  using assms by (auto simp: on_success_def map_js_Inr_iff Let_def split: if_splits)

lemma on_error_entry:
  assumes "on_error st l' r t = Inr st'"
  shows "isLoading (entry_of st' l) = isLoading (entry_of st l)"
    and "hash (entry_of st' l) = hash (entry_of st l)"
    and "entityId (entry_of st' l) = entityId (entry_of st l)"
    and "timestamp (entry_of st' l) = timestamp (entry_of st l)"
    and "l \<noteq> l' \<Longrightarrow> entry_of st' l = entry_of st l"
    and "map_option isError (status (entry_of st' l')) = Some True"
    and "latestErrorLabel st' = l'"
  using assms by (auto simp: on_error_def bind_js_Inr_iff map_js_Inr_iff)

fun action_label :: "api_action \<Rightarrow> string option" where
  "action_label (API_START l h i) = Some l"
| "action_label (API_END l) = Some l"
| "action_label (API_SUCCESS p) = Some (sp_label p)"
| "action_label (API_ERROR l r t) = Some l"
| "action_label (RESET_TTL l) = Some l"
| "action_label (ACCESS_DENIED u) = None"

lemma api_reducer_frame:
  "api_reducer now st a = Inr st' \<Longrightarrow> action_label a \<noteq> Some l \<Longrightarrow> entry_of st' l = entry_of st l"
  by (cases a) (auto dest: on_success_entry(4) [OF _ not_sym] on_error_entry(5) [OF _ not_sym])

end
