(* ===== verification/UiReducers.thy ===== *)
theory UiReducers
  imports ApiUtils
begin

text \<open>
  The slices of the store that keep the state of the user interface: alerts, date ranges, the
  scope, the menus, the tours, the controls and selections of the pages.  Each reducer of the
  source is a function of its own on the state of its slice; \<open>ui_action\<close> has one constructor
  for each action type, with the fields of the action its creator builds.
\<close>

section \<open>Actions\<close>

datatype ui_action =
    UPDATE_ORGANIZATION_TOP_ALERT string obj
  | SET_DATE jsval jsval string
  | SET_EXPANDED_ROW jsval jsval
  | SET_EXPANDED_ROWS jsval
  | UPDATE_COLLAPSED_MENU_ITEMS jsval
  | UPDATE_MAIN_MENU_STATE jsval
  | CHANGE_SORT_GROUPS_BY jsval
  | CHANGE_PERIOD_TYPE jsval
  | SET_SCOPE_ID jsval
  | ADD_SIZE obj
  | REMOVE_SIZE obj
  | RESET_SELECTION
  | SAVE_HIDDEN_COLUMNS string jsval
  | SET_OVERVIEW_BREAKDOWN string jsval
  | SET_SELECTED_TASK_LEADERBOARD_ID string jsval
  | SET_TASK_RUNS_DASHBOARD string jsval
  | SET_CATEGORY jsval
  | SET_SERVICE jsval
  | SET_VIEW jsval
  | PIN_RECOMMENDATION string
  | UNPIN_RECOMMENDATION string
  | INITIALIZE obj
  | UPDATE_SHOW_LESS_THAN_VALUE jsval
  | UPDATE_SHOW_WEEKENDS jsval
  | START_TOUR string jsval
  | UPDATE_TOUR_STEP string jsval
  | FINISH_TOUR string

section \<open>Alerts of an organization\<close>

type_synonym alerts_state = "string \<rightharpoonup> obj list"

definition updateAlertState :: "obj list \<Rightarrow> obj \<Rightarrow> obj list" where
  "updateAlertState alerts newAlertState =
     map (\<lambda>currentAlertState.
       if strict_eq (obj_get currentAlertState ''id'') (obj_get newAlertState ''id'')
       then obj_spread (obj_spread [] currentAlertState) newAlertState else currentAlertState) alerts"

definition addAlertState :: "obj list \<Rightarrow> obj \<Rightarrow> obj list" where
  "addAlertState alerts newAlertState = alerts @ [newAlertState]"

definition alertExists :: "obj list \<Rightarrow> obj \<Rightarrow> bool" where
  "alertExists alerts alert \<longleftrightarrow>
     list_ex (\<lambda>a. strict_eq (obj_get a ''id'') (obj_get alert ''id'')) alerts"

definition alerts_reducer :: "alerts_state \<Rightarrow> ui_action \<Rightarrow> alerts_state" where
  "alerts_reducer state action = (case action of
     UPDATE_ORGANIZATION_TOP_ALERT organizationId alert \<Rightarrow>
       (let currentOrganizationAlerts = (case state organizationId of None \<Rightarrow> [] | Some as \<Rightarrow> as) in
        state(organizationId \<mapsto>
          if alertExists currentOrganizationAlerts alert
          then updateAlertState currentOrganizationAlerts alert
          else addAlertState currentOrganizationAlerts alert))
   | _ \<Rightarrow> state)"

section \<open>Slices that store a value\<close>

record date_range =
  startDate :: jsval
  endDate :: jsval

type_synonym range_state = "string \<rightharpoonup> date_range"

definition range_reducer :: "range_state \<Rightarrow> ui_action \<Rightarrow> range_state" where
  "range_reducer state action = (case action of
     SET_DATE s e label \<Rightarrow> state(label \<mapsto> \<lparr>startDate = s, endDate = e\<rparr>)
   | _ \<Rightarrow> state)"

definition pools_table_reducer :: "jsval \<Rightarrow> ui_action \<Rightarrow> jsval" where
  "pools_table_reducer state action = (case action of SET_EXPANDED_ROWS v \<Rightarrow> v | _ \<Rightarrow> state)"

definition collapsed_menu_reducer :: "jsval \<Rightarrow> ui_action \<Rightarrow> jsval" where
  "collapsed_menu_reducer state action =
     (case action of UPDATE_COLLAPSED_MENU_ITEMS v \<Rightarrow> v | _ \<Rightarrow> state)"

definition main_menu_reducer :: "jsval \<Rightarrow> ui_action \<Rightarrow> jsval" where
  "main_menu_reducer state action = (case action of UPDATE_MAIN_MENU_STATE v \<Rightarrow> v | _ \<Rightarrow> state)"

definition sort_groups_by_reducer :: "jsval \<Rightarrow> ui_action \<Rightarrow> jsval" where
  "sort_groups_by_reducer state action =
     (case action of CHANGE_SORT_GROUPS_BY v \<Rightarrow> v | _ \<Rightarrow> state)"

definition period_type_reducer :: "jsval \<Rightarrow> ui_action \<Rightarrow> jsval" where
  "period_type_reducer state action = (case action of CHANGE_PERIOD_TYPE v \<Rightarrow> v | _ \<Rightarrow> state)"

definition scope_id_reducer :: "jsval \<Rightarrow> ui_action \<Rightarrow> jsval" where
  "scope_id_reducer state action = (case action of SET_SCOPE_ID v \<Rightarrow> v | _ \<Rightarrow> state)"

definition show_less_than_value_reducer :: "jsval \<Rightarrow> ui_action \<Rightarrow> jsval" where
  "show_less_than_value_reducer state action =
     (case action of UPDATE_SHOW_LESS_THAN_VALUE v \<Rightarrow> v | _ \<Rightarrow> state)"

definition show_weekends_reducer :: "jsval \<Rightarrow> ui_action \<Rightarrow> jsval" where
  "show_weekends_reducer state action =
     (case action of UPDATE_SHOW_WEEKENDS v \<Rightarrow> v | _ \<Rightarrow> state)"

definition initialize_reducer :: "obj \<Rightarrow> ui_action \<Rightarrow> obj" where
  "initialize_reducer state action =
     (case action of INITIALIZE v \<Rightarrow> obj_spread (obj_spread [] state) v | _ \<Rightarrow> state)"

definition columns_reducer :: "(string \<rightharpoonup> jsval) \<Rightarrow> ui_action \<Rightarrow> (string \<rightharpoonup> jsval)" where
  "columns_reducer state action =
     (case action of SAVE_HIDDEN_COLUMNS tableUID cs \<Rightarrow> state(tableUID \<mapsto> cs) | _ \<Rightarrow> state)"

definition task_runs_dashboard_reducer :: "(string \<rightharpoonup> jsval) \<Rightarrow> ui_action \<Rightarrow> (string \<rightharpoonup> jsval)" where
  "task_runs_dashboard_reducer state action =
     (case action of SET_TASK_RUNS_DASHBOARD taskId d \<Rightarrow> state(taskId \<mapsto> d) | _ \<Rightarrow> state)"

text \<open>\<open>{ ...state, [k]: v }\<close> of an object.\<close>

definition with_key :: "obj \<Rightarrow> string \<Rightarrow> jsval \<Rightarrow> obj" where
  "with_key state k v = obj_spread (obj_spread [] state) [(k, v)]"

definition controls_state_reducer :: "obj \<Rightarrow> ui_action \<Rightarrow> obj" where
  "controls_state_reducer state action = (case action of
     SET_CATEGORY v \<Rightarrow> with_key state ''category'' v
   | SET_SERVICE v \<Rightarrow> with_key state ''service'' v
   | SET_VIEW v \<Rightarrow> with_key state ''view'' v
   | _ \<Rightarrow> state)"

section \<open>Task pages, selections, tours\<close>

type_synonym task_breakdown_state = "string \<rightharpoonup> obj"

definition task_breakdown_reducer ::
  "task_breakdown_state \<Rightarrow> ui_action \<Rightarrow> task_breakdown_state" where
  "task_breakdown_reducer state action =
     (let current = (\<lambda>taskId. case state taskId of None \<Rightarrow> [] | Some b \<Rightarrow> b) in
      case action of
        SET_OVERVIEW_BREAKDOWN taskId bs \<Rightarrow>
          state(taskId \<mapsto> with_key (current taskId) ''runs_breakdown'' bs)
      | SET_SELECTED_TASK_LEADERBOARD_ID taskId i \<Rightarrow>
          state(taskId \<mapsto> with_key (current taskId) ''leaderboard_id'' i)
      | _ \<Rightarrow> state)"

definition selected_sizes_reducer :: "obj list \<Rightarrow> ui_action \<Rightarrow> obj list" where
  "selected_sizes_reducer state action = (case action of
     ADD_SIZE size' \<Rightarrow> state @ [size']
   | REMOVE_SIZE size' \<Rightarrow>
       filter (\<lambda>flavor. \<not> strict_eq (obj_get flavor ''id'') (obj_get size' ''id'')) state
   | RESET_SELECTION \<Rightarrow> []
   | _ \<Rightarrow> state)"

definition pinned_recommendations_reducer :: "string list \<Rightarrow> ui_action \<Rightarrow> string list" where
  "pinned_recommendations_reducer state action = (case action of
     PIN_RECOMMENDATION t \<Rightarrow> if t \<notin> set state then t # state else state
   | UNPIN_RECOMMENDATION t \<Rightarrow> filter (\<lambda>recommendationType. recommendationType \<noteq> t) state
   | _ \<Rightarrow> state)"

record tour =
  isOpen :: bool
  isFinished :: bool
  stepId :: jsval

definition tour_init :: "string \<rightharpoonup> tour" where
  "tour_init = [''productTour'' \<mapsto> \<lparr>isOpen = False, isFinished = False, stepId = Undef\<rparr>,
     ''environmentsTour'' \<mapsto> \<lparr>isOpen = False, isFinished = False, stepId = Undef\<rparr>]"

definition tour_reducer :: "(string \<rightharpoonup> tour) \<Rightarrow> ui_action \<Rightarrow> (string \<rightharpoonup> tour)" where
  "tour_reducer state action = (case action of
     START_TOUR label step \<Rightarrow> state(label \<mapsto> \<lparr>isOpen = True, isFinished = False, stepId = step\<rparr>)
   | UPDATE_TOUR_STEP label step \<Rightarrow>
       state(label \<mapsto> \<lparr>isOpen = True, isFinished = False, stepId = step\<rparr>)
   | FINISH_TOUR label \<Rightarrow> state(label \<mapsto> \<lparr>isOpen = False, isFinished = True, stepId = Undef\<rparr>)
   | _ \<Rightarrow> state)"

section \<open>Invariants of the slices\<close>

text \<open>The pinned recommendations are a list without repetitions.\<close>

lemma pinned_distinct:
  "distinct state \<Longrightarrow> distinct (pinned_recommendations_reducer state a)"
  by (cases a) (auto simp: pinned_recommendations_reducer_def)

lemma pinned_set:
  "set (pinned_recommendations_reducer state (PIN_RECOMMENDATION t)) = insert t (set state)"
  "set (pinned_recommendations_reducer state (UNPIN_RECOMMENDATION t)) = set state - {t}"
  by (auto simp: pinned_recommendations_reducer_def)

text \<open>
  An organization has at most one alert of each id; an alert is an object whose id is a
  primitive value.
\<close>

definition alert_ids :: "obj list \<Rightarrow> jsval list" where
  "alert_ids as = map (\<lambda>a. obj_get a ''id'') as"

definition alert_ok :: "obj \<Rightarrow> bool" where
  "alert_ok a \<longleftrightarrow> distinct (map fst a) \<and> \<not> is_object (obj_get a ''id'')"

definition alerts_ok :: "obj list \<Rightarrow> bool" where
  "alerts_ok as \<longleftrightarrow> distinct (alert_ids as) \<and> list_all alert_ok as"

lemma updated_alert:
  assumes "alert_ok a" "alert_ok alert" "strict_eq (obj_get a ''id'') (obj_get alert ''id'')"
  shows "alert_ok (obj_spread (obj_spread [] a) alert)"
    and "obj_get (obj_spread (obj_spread [] a) alert) ''id'' = obj_get a ''id''"
proof -
  have "obj_get (obj_spread [] a) ''id'' = obj_get a ''id''"
    using assms(1) by (auto simp: alert_ok_def obj_get_spread obj_get_absent)
  then show i: "obj_get (obj_spread (obj_spread [] a) alert) ''id'' = obj_get a ''id''"
    using assms(2,3) by (auto simp: alert_ok_def obj_get_spread strict_eq_def)
  show "alert_ok (obj_spread (obj_spread [] a) alert)"
    using assms(1) i by (simp add: alert_ok_def distinct_obj_spread)
qed

lemma updateAlert_ids:
  "list_all alert_ok as \<Longrightarrow> alert_ok alert \<Longrightarrow> alert_ids (updateAlertState as alert) = alert_ids as"
  by (induction as) (auto simp: alert_ids_def updateAlertState_def updated_alert(2))

lemma updateAlert_ok:
  "list_all alert_ok as \<Longrightarrow> alert_ok alert \<Longrightarrow> list_all alert_ok (updateAlertState as alert)"
  by (induction as) (auto simp: updateAlertState_def updated_alert(1))

lemma alertExists_ids: "alert_ok alert \<Longrightarrow> alertExists as alert \<longleftrightarrow> obj_get alert ''id'' \<in> set (alert_ids as)"
  by (induction as) (auto simp: alertExists_def alert_ids_def alert_ok_def strict_eq_def)

lemma alerts_ok_step:
  assumes "alerts_ok as" "alert_ok alert"
  shows "alerts_ok (if alertExists as alert then updateAlertState as alert else addAlertState as alert)"
  using assms
  by (auto simp: alerts_ok_def updateAlert_ids updateAlert_ok alertExists_ids addAlertState_def)
    (simp_all add: alert_ids_def)

end
