(* ===== verification/RestReducer.thy ===== *)
theory RestReducer
  imports ApiUtils
begin

text \<open>
  The reducer of the response data, \<open>api/restapi/reducer.ts\<close>.  Its state maps the label of a
  request to the data kept for it.  The switch of the source is the table \<open>restapi_cases\<close> from
  an action type to the code of its case; the reducer runs the first case of that type and
  leaves the state alone when there is none.  A case that reads a property of undefined throws:
  the result is then the left side of the sum.
\<close>

type_synonym data_state = "string \<rightharpoonup> jsval"
type_synonym reducer_case = "data_state \<Rightarrow> action \<Rightarrow> data_state js"

section \<open>What the cases share\<close>

definition current :: "data_state \<Rightarrow> string \<Rightarrow> jsval" where
  "current st l = (case st l of None \<Rightarrow> Undef | Some v \<Rightarrow> v)"

text \<open>\<open>{ ...state, [action.label]: v }\<close>.\<close>

definition put :: "data_state \<Rightarrow> action \<Rightarrow> jsval \<Rightarrow> data_state" where
  "put st a v = st(act_label a \<mapsto> v)"

text \<open>The receiver of \<open>.map\<close> and \<open>.filter\<close>, and what \<open>[...v]\<close> iterates over.\<close>

definition as_array :: "jsval \<Rightarrow> jsval list js" where
  "as_array v = (case v of Arr vs \<Rightarrow> Inr vs | _ \<Rightarrow> Inl TypeError)"

definition iterate :: "jsval \<Rightarrow> jsval list js" where
  "iterate v = (case v of Arr vs \<Rightarrow> Inr vs | Str s \<Rightarrow> Inr (map (\<lambda>c. Str [c]) s) | _ \<Rightarrow> Inl TypeError)"

definition entries_js :: "jsval \<Rightarrow> obj js" where
  "entries_js v = (if nullish v then Inl TypeError else Inr (own_props v))"

fun filterM_js :: "('a \<Rightarrow> bool js) \<Rightarrow> 'a list \<Rightarrow> 'a list js" where
  "filterM_js p [] = Inr []"
| "filterM_js p (x # xs) =
     bind_js (p x) (\<lambda>b. map_js (\<lambda>ys. if b then x # ys else ys) (filterM_js p xs))"

text \<open>\<open>const { k = d } = v\<close>.\<close>

definition get_default :: "jsval \<Rightarrow> string \<Rightarrow> jsval \<Rightarrow> jsval js" where
  "get_default v k d = map_js (\<lambda>w. js_default w d) (get_prop v k)"

definition store_payload :: reducer_case where
  "store_payload st a = Inr (put st a (act_payload a))"

definition store_spread :: reducer_case where
  "store_spread st a = Inr (put st a (Obj (obj_spread [] (own_props (act_payload a)))))"

definition store_as :: "string \<Rightarrow> reducer_case" where
  "store_as k st a = Inr (put st a (Obj [(k, act_payload a)]))"

definition store_prop :: "string \<Rightarrow> reducer_case" where
  "store_prop k st a = map_js (put st a) (get_prop (act_payload a) k)"

definition store_prop_as :: "string \<Rightarrow> string \<Rightarrow> reducer_case" where
  "store_prop_as k' k st a = map_js (\<lambda>v. put st a (Obj [(k', v)])) (get_prop (act_payload a) k)"

definition store_default_as :: "string \<Rightarrow> string \<Rightarrow> reducer_case" where
  "store_default_as k' k st a =
     map_js (\<lambda>v. put st a (Obj [(k', v)])) (get_default (act_payload a) k (Arr []))"

definition store_default :: "string \<Rightarrow> reducer_case" where
  "store_default k st a = map_js (put st a) (get_default (act_payload a) k (Arr []))"

section \<open>The cases with code of their own\<close>

definition case_DELETE_POOL :: reducer_case where
  "case_DELETE_POOL st a =
     bind_js (get_prop (current st (act_label a)) ''pool'') (\<lambda>pool.
     bind_js (get_prop pool ''children'') (\<lambda>children.
     bind_js (if nullish children then Inr Undef
              else bind_js (as_array children) (\<lambda>cs.
                map_js Arr (filterM_js (\<lambda>c.
                  bind_js (get_prop c ''id'') (\<lambda>childId.
                  map_js (\<lambda>i. \<not> strict_eq childId i) (get_prop (act_payload a) ''id''))) cs)))
       (\<lambda>children'. Inr (put st a
         (Obj [(''pool'', Obj (obj_spread (obj_spread [] (own_props pool))
            [(''children'', children')]))])))))"

text \<open>\<open>reformatBreakdown\<close> of \<open>utils/api.ts\<close>: each inner object becomes an array of its bodies,
  each with its key as \<open>id\<close> (which a property \<open>id\<close> of the body overrides).\<close>

definition reformatBreakdown :: "jsval \<Rightarrow> jsval js" where
  "reformatBreakdown breakdown =
     bind_js (entries_js breakdown) (\<lambda>es.
     map_js (\<lambda>es'. Obj (from_entries es'))
       (mapM_js (\<lambda>(secondsTimestamp, breakdownsData).
          map_js (\<lambda>bs. (secondsTimestamp,
              Arr (map (\<lambda>(i, body). Obj (obj_spread [(''id'', Str i)] (own_props body))) bs)))
            (entries_js breakdownsData)) es))"

definition case_COST_EXPLORER :: reducer_case where
  "case_COST_EXPLORER st a =
     bind_js (get_prop (act_payload a) ''expenses'') (\<lambda>expenses.
     bind_js (get_prop expenses ''breakdown'') (\<lambda>breakdown.
     bind_js (entries_js breakdown) (\<lambda>es.
       Inr (put st a (Obj [(''expenses'',
         Obj (obj_spread (obj_spread [] (own_props expenses))
           [(''breakdown'', Obj (from_entries (map (\<lambda>(sTimestamp, expenseNumber).
              (sTimestamp, Arr [Obj [(''name'', Str ''expenses''), (''expense'', expenseNumber)]])) es)))]))])))))"

definition case_SET_POOL_POLICY :: reducer_case where
  "case_SET_POOL_POLICY st a =
     (let policy = act_payload a in
      bind_js (get_default (current st (act_label a)) ''poolPolicies'' (Arr [])) (\<lambda>poolPolicies.
      bind_js (as_array poolPolicies) (\<lambda>ps.
      map_js (\<lambda>currentPolicies. put st a (Obj [(''poolPolicies'', Arr (currentPolicies @ [policy]))]))
        (filterM_js (\<lambda>p. bind_js (get_prop p ''type'') (\<lambda>t.
           map_js (\<lambda>t'. \<not> strict_eq t t') (get_prop policy ''type''))) ps))))"

text \<open>\<open>const { resource: { details: { constraints = {} } = {} } = {} } = v\<close>.\<close>

definition constraints_of :: "jsval \<Rightarrow> jsval js" where
  "constraints_of v =
     bind_js (get_default v ''resource'' (Obj [])) (\<lambda>resource.
     bind_js (get_default resource ''details'' (Obj [])) (\<lambda>details.
     get_default details ''constraints'' (Obj [])))"

text \<open>The resource of \<open>v\<close> with its constraints replaced; \<open>v.resource.details\<close> throws when there
  is no resource.\<close>

definition with_constraints :: "jsval \<Rightarrow> obj \<Rightarrow> jsval js" where
  "with_constraints v cs =
     bind_js (get_prop v ''resource'') (\<lambda>resource.
     map_js (\<lambda>details. Obj [(''resource'', Obj (obj_spread (obj_spread [] (own_props resource))
         [(''details'', Obj (obj_spread (obj_spread [] (own_props details)) [(''constraints'', Obj cs)]))]))])
       (get_prop resource ''details''))"

definition case_SET_RESOURCE_CONSTRAINT :: reducer_case where
  "case_SET_RESOURCE_CONSTRAINT st a =
     bind_js (constraints_of (current st (act_label a))) (\<lambda>constraints.
     bind_js (entries_js constraints) (\<lambda>cs.
     bind_js (filterM_js (\<lambda>(key, c). map_js (\<lambda>t. \<not> strict_eq (Str key) t)
         (get_prop (act_payload a) ''type'')) cs) (\<lambda>kept.
     bind_js (get_prop (act_payload a) ''type'') (\<lambda>type.
     map_js (put st a) (with_constraints (current st (act_label a))
       (obj_spread (from_entries kept) [(to_str type, act_payload a)]))))))"

definition case_DELETE_RESOURCE_CONSTRAINT :: reducer_case where
  "case_DELETE_RESOURCE_CONSTRAINT st a =
     bind_js (constraints_of (current st (act_label a))) (\<lambda>constraints.
     bind_js (entries_js constraints) (\<lambda>cs.
     bind_js (filterM_js (\<lambda>(key, c). map_js (\<lambda>i. \<not> strict_eq i (act_payload a)) (get_prop c ''id'')) cs)
       (\<lambda>kept. map_js (put st a)
         (with_constraints (current st (act_label a)) (from_entries kept)))))"

definition case_SET_OPTIMIZATIONS :: reducer_case where
  "case_SET_OPTIMIZATIONS st a =
     Inr (put st a (Obj [(''optimizations'',
       Obj (obj_spread
         (obj_spread [] (own_props (js_coalesce (opt_prop (current st (act_label a)) ''optimizations'') (Obj []))))
         (own_props (act_payload a))))]))"

definition case_SET_LIVE_DEMO :: reducer_case where
  "case_SET_LIVE_DEMO st a =
     (let liveDemo = js_or (current st (act_label a)) (Obj []) in
      Inr (put st a (Obj (obj_spread (obj_spread [] (own_props liveDemo)) (own_props (act_payload a))))))"

definition case_SET_CLUSTER_TYPES :: reducer_case where
  "case_SET_CLUSTER_TYPES st a =
     bind_js (get_prop (act_payload a) ''cluster_types'') (\<lambda>types.
     map_js (\<lambda>ts. put st a (Obj [(''clusterTypes'', Arr ts)])) (iterate types))"

definition append_payload :: reducer_case where
  "append_payload st a =
     map_js (\<lambda>vs. put st a (Arr (vs @ [act_payload a])))
       (iterate (js_coalesce (current st (act_label a)) (Arr [])))"

text \<open>\<open>removeObjects(array, key, value)\<close> of \<open>utils/arrays.ts\<close>.\<close>

definition removeObjects :: "jsval \<Rightarrow> string \<Rightarrow> jsval \<Rightarrow> jsval js" where
  "removeObjects array key v =
     bind_js (as_array array) (\<lambda>xs.
     map_js Arr (filterM_js (\<lambda>x. map_js (\<lambda>w. \<not> strict_eq w v) (get_prop x key)) xs))"

definition case_DELETE_WEBHOOK :: reducer_case where
  "case_DELETE_WEBHOOK st a =
     map_js (put st a)
       (removeObjects (js_coalesce (current st (act_label a)) (Arr [])) ''id'' (act_payload a))"

definition case_UPDATE_SSH_KEY :: reducer_case where
  "case_UPDATE_SSH_KEY st a =
     bind_js (as_array (js_coalesce (current st (act_label a)) (Arr []))) (\<lambda>ks.
     map_js (\<lambda>ks'. put st a (Arr ks'))
       (mapM_js (\<lambda>key. bind_js (get_prop key ''id'') (\<lambda>i.
          map_js (\<lambda>j. Obj (obj_spread (obj_spread [] (own_props key))
              [(''default'', Bool (strict_eq i j))])) (get_prop (act_payload a) ''id''))) ks))"

definition case_SET_OPTIMIZATION_OPTIONS :: reducer_case where
  "case_SET_OPTIMIZATION_OPTIONS st a =
     bind_js (get_prop (act_payload a) ''value'') (\<lambda>v. map_js (put st a) (json_parse (to_str v)))"

definition case_UPDATE_ENVIRONMENT_PROPERTY :: reducer_case where
  "case_UPDATE_ENVIRONMENT_PROPERTY st a =
     map_js (\<lambda>resource. put st a (Obj [(''resource'',
         Obj (obj_spread (obj_spread [] (own_props resource)) (own_props (act_payload a))))]))
       (get_prop (current st (act_label a)) ''resource'')"

definition case_UPDATE_ENVIRONMENT_SSH_REQUIREMENT :: reducer_case where
  "case_UPDATE_ENVIRONMENT_SSH_REQUIREMENT st a =
     bind_js (get_prop (current st (act_label a)) ''resource'') (\<lambda>resource.
     map_js (\<lambda>ssh_only. put st a (Obj [(''resource'',
         Obj (obj_spread (obj_spread [] (own_props resource)) [(''ssh_only'', ssh_only)]))]))
       (get_prop (act_payload a) ''ssh_only''))"

definition case_SET_EXPENSES_DAILY_BREAKDOWN :: reducer_case where
  "case_SET_EXPENSES_DAILY_BREAKDOWN st a =
     bind_js (get_prop (act_payload a) ''breakdown'') (\<lambda>breakdown.
     map_js (\<lambda>b. put st a (Obj (obj_spread (obj_spread [] (own_props (act_payload a)))
         [(''breakdown'', b)])))
       (reformatBreakdown breakdown))"

text \<open>\<open>x.id === p.id && x.type === p.type\<close>: the second comparison is evaluated only after the
  first succeeded.\<close>

definition same_id_and_type :: "jsval \<Rightarrow> jsval \<Rightarrow> bool js" where
  "same_id_and_type x p =
     bind_js (get_prop x ''id'') (\<lambda>i. bind_js (get_prop p ''id'') (\<lambda>j.
     if \<not> strict_eq i j then Inr False
     else bind_js (get_prop x ''type'') (\<lambda>t. map_js (strict_eq t) (get_prop p ''type''))))"

definition case_UPDATE_GLOBAL :: reducer_case where
  "case_UPDATE_GLOBAL st a =
     bind_js (as_array (current st (act_label a))) (\<lambda>xs.
     map_js (\<lambda>ys. put st a (Arr ys))
       (mapM_js (\<lambda>x. map_js (\<lambda>same. if same
            then Obj (obj_spread (obj_spread [] (own_props x)) (own_props (act_payload a))) else x)
          (same_id_and_type x (act_payload a))) xs))"

definition case_UPDATE_ML_LEADERBOARD :: reducer_case where
  "case_UPDATE_ML_LEADERBOARD st a =
     (let leaderboards = current st ''GET_ML_LEADERBOARDS'' in
      bind_js (if nullish leaderboards then Inr [] else
        bind_js (as_array leaderboards) (mapM_js (\<lambda>datum.
          bind_js (get_prop datum ''id'') (\<lambda>i.
          map_js (\<lambda>j. if strict_eq i j
              then Obj (obj_spread (obj_spread [] (own_props datum)) (own_props (act_payload a)))
              else datum) (get_prop (act_payload a) ''id'')))))
      (\<lambda>updated. Inr (put (st(''GET_ML_LEADERBOARDS'' \<mapsto> Arr updated)) a (act_payload a))))"

definition case_SET_ORGANIZATION_CLOUD_RESOURCES :: reducer_case where
  "case_SET_ORGANIZATION_CLOUD_RESOURCES st a =
     map_js (\<lambda>d. put st a (js_coalesce d (Arr []))) (get_prop (act_payload a) ''data'')"

section \<open>The table of cases and the reducer\<close>

definition restapi_cases_1 :: "(string \<times> reducer_case) list" where
  "restapi_cases_1 =
    [(''SET_ORGANIZATION_OPTIONS'', store_prop ''options''),
     (''SET_ORGANIZATION_OPTION'', store_prop ''value''),
     (''UPDATE_POOL_EXPENSES_EXPORT'', store_payload),
     (''SET_POOL'', store_as ''pool''),
     (''DELETE_POOL'', case_DELETE_POOL),
     (''SET_SPLIT_RESOURCES'', store_as ''splitResources''),
     (''SET_AVAILABLE_POOLS'', store_default_as ''pools'' ''pools''),
     (''SET_POOL_OWNERS'', store_default_as ''poolOwners'' ''employees''),
     (''SET_AUTHORIZED_EMPLOYEES'', store_default_as ''employees'' ''employees''),
     (''SET_EMPLOYEES'', store_default_as ''employees'' ''employees''),
     (''SET_ORGANIZATIONS_OVERVIEW'', store_payload),
     (''SET_ORGANIZATION_EXPENSES'', store_payload),
     (''SET_ORGANIZATION_CONSTRAINTS'', store_payload),
     (''SET_ORGANIZATION_CONSTRAINT'', store_payload),
     (''UPDATE_ORGANIZATION_CONSTRAINT'', store_payload),
     (''SET_POOL_EXPENSES_BREAKDOWN'', store_prop_as ''expenses'' ''expenses''),
     (''SET_CLOUDS_EXPENSES'', store_prop_as ''expenses'' ''expenses''),
     (''SET_EMPLOYEES_EXPENSES'', store_prop_as ''expenses'' ''expenses''),
     (''SET_REGION_EXPENSES'', store_prop_as ''expenses'' ''expenses''),
     (''SET_TRAFFIC_EXPENSES'', store_as ''expenses''),
     (''SET_COST_EXPLORER_POOL_EXPENSES'', case_COST_EXPLORER),
     (''SET_INVITATION'', store_as ''invitation'')]"

definition restapi_cases_2 :: "(string \<times> reducer_case) list" where
  "restapi_cases_2 =
    [(''SET_RAW_EXPENSES'', store_payload),
     (''SET_CLEAN_EXPENSES'', store_payload),
     (''SET_EXPENSES_SUMMARY'', store_payload),
     (''SET_AVAILABLE_FILTERS'', store_payload),
     (''SET_RESOURCE_COUNT_BREAKDOWN'', store_spread),
     (''SET_TAGS_BREAKDOWN'', store_payload),
     (''SET_ASSIGNMENT_RULE'', store_as ''assignmentRule''),
     (''SET_ASSIGNMENT_RULES'', store_as ''assignmentRules''),
     (''SET_K8S_RIGHTSIZING'', store_as ''k8sRightsizing''),
     (''SET_RESOURCE'', store_as ''resource''),
     (''SET_POOL_POLICIES'', store_prop_as ''poolPolicies'' ''policies''),
     (''SET_POOL_POLICY'', case_SET_POOL_POLICY),
     (''SET_RESOURCE_CONSTRAINT'', case_SET_RESOURCE_CONSTRAINT),
     (''DELETE_RESOURCE_CONSTRAINT'', case_DELETE_RESOURCE_CONSTRAINT),
     (''SET_RESOURCE_LIMIT_HITS'', store_prop_as ''limitHits'' ''limit_hits''),
     (''SET_OPTIMIZATIONS'', case_SET_OPTIMIZATIONS)]"

definition restapi_cases_3 :: "(string \<times> reducer_case) list" where
  "restapi_cases_3 =
    [(''SET_OPTIMIZATIONS_OVERVIEW'', store_payload),
     (''SET_OPTIMIZATION_DETAILS'', store_payload),
     (''SET_ML_OPTIMIZATION_DETAILS'', store_payload),
     (''SET_LIVE_DEMO'', case_SET_LIVE_DEMO),
     (''SET_TTL_ANALYSIS'', store_payload),
     (''SET_FINOPS_CHECKLIST'', store_payload),
     (''SET_RECOMMENDATIONS_DOWNLOAD_OPTIONS'', store_payload),
     (''SET_CLUSTER_TYPES'', case_SET_CLUSTER_TYPES),
     (''SET_ENVIRONMENTS'', store_prop ''data''),
     (''SET_ENVIRONMENT_BOOKINGS'', store_prop ''bookings''),
     (''SET_WEBHOOKS'', store_prop ''webhooks''),
     (''CREATE_WEBHOOK'', append_payload),
     (''UPDATE_WEBHOOK'', append_payload),
     (''DELETE_WEBHOOK'', case_DELETE_WEBHOOK),
     (''SET_SSH_KEYS'', store_prop ''ssh_keys''),
     (''CREATE_SSH_KEY'', append_payload),
     (''UPDATE_SSH_KEY'', case_UPDATE_SSH_KEY),
     (''SET_DATA_SOURCE_NODES'', store_payload),
     (''SET_RESOURCE_METRICS'', store_payload),
     (''SET_RESOURCE_COST_MODEL'', store_payload),
     (''SET_DATASOURCE_SKUS'', store_payload),
     (''SET_OPTIMIZATION_OPTIONS'', case_SET_OPTIMIZATION_OPTIONS),
     (''SET_ORGANIZATION_CALENDAR'', store_payload)]"

definition restapi_cases_4 :: "(string \<times> reducer_case) list" where
  "restapi_cases_4 =
    [(''UPDATE_ENVIRONMENT_PROPERTY'', case_UPDATE_ENVIRONMENT_PROPERTY),
     (''UPDATE_ENVIRONMENT_SSH_REQUIREMENT'', case_UPDATE_ENVIRONMENT_SSH_REQUIREMENT),
     (''SET_EXPENSES_DAILY_BREAKDOWN'', case_SET_EXPENSES_DAILY_BREAKDOWN),
     (''SET_GLOBAL_POOL_POLICIES'', store_default ''resource_policies''),
     (''SET_GLOBAL_RESOURCE_CONSTRAINTS'', store_default ''resource_constraints''),
     (''UPDATE_GLOBAL_POOL_POLICY'', case_UPDATE_GLOBAL),
     (''UPDATE_GLOBAL_RESOURCE_CONSTRAINT'', case_UPDATE_GLOBAL),
     (''SET_ARCHIVED_OPTIMIZATIONS_COUNT'', store_payload),
     (''SET_ARCHIVED_OPTIMIZATIONS_BREAKDOWN'', store_payload),
     (''SET_ARCHIVED_OPTIMIZATION_DETAILS'', store_payload),
     (''SET_ML_TASKS'', store_payload),
     (''SET_ML_LEADERBOARD_TEMPLATE'', store_payload),
     (''SET_ML_LEADERBOARD_CANDIDATES'', store_payload),
     (''SET_ML_DATASETS'', store_payload),
     (''SET_ML_DATASET'', store_payload),
     (''SET_ML_METRICS'', store_payload),
     (''SET_ML_GLOBAL_METRIC'', store_payload),
     (''SET_PROFILING_TOKEN'', store_payload),
     (''SET_ML_EXECUTORS'', store_payload),
     (''SET_ML_EXECUTORS_BREAKDOWN'', store_payload)]"

definition restapi_cases_5 :: "(string \<times> reducer_case) list" where
  "restapi_cases_5 =
    [(''SET_ML_TASK'', store_payload),
     (''SET_ML_TASK_RUNS'', store_payload),
     (''SET_ML_RUN_DETAILS'', store_payload),
     (''SET_ML_RUN_DETAILS_BREAKDOWN'', store_payload),
     (''SET_ML_TASK_RECOMMENDATIONS'', store_payload),
     (''SET_ML_RUNSET_TEMPLATES'', store_payload),
     (''SET_ML_RUNSET_TEMPLATE'', store_payload),
     (''SET_ML_RUNSETS'', store_payload),
     (''SET_ML_RUNSET'', store_payload),
     (''SET_ML_RUNSETS_RUNS'', store_payload),
     (''SET_ML_RUNSET_EXECUTORS'', store_payload),
     (''SET_ML_ARTIFACTS'', store_payload),
     (''SET_ML_ARTIFACT'', store_payload),
     (''SET_ORGANIZATION_BI_EXPORTS'', store_payload),
     (''SET_BI_EXPORT'', store_payload),
     (''SET_ORGANIZATION_CLOUD_RESOURCES'', case_SET_ORGANIZATION_CLOUD_RESOURCES),
     (''SET_ORGANIZATION_GEMINIS'', store_payload),
     (''SET_GEMINI'', store_payload),
     (''SET_S3_DUPLICATES_ORGANIZATION_SETTINGS'', store_payload),
     (''SET_POWER_SCHEDULES'', store_payload),
     (''SET_ML_TASK_RUNS_BULK'', store_payload),
     (''SET_POWER_SCHEDULE'', store_payload),
     (''SET_LAYOUTS'', store_payload),
     (''SET_ML_LEADERBOARDS'', store_payload)]"

definition restapi_cases_6 :: "(string \<times> reducer_case) list" where
  "restapi_cases_6 =
    [(''SET_ML_LEADERBOARD'', store_payload),
     (''UPDATE_ML_LEADERBOARD'', case_UPDATE_ML_LEADERBOARD),
     (''SET_LAYOUT'', store_spread),
     (''CREATE_LAYOUT'', store_spread),
     (''SET_RESERVED_INSTANCES_BREAKDOWN'', store_payload),
     (''SET_SAVING_PLANS_BREAKDOWN'', store_payload),
     (''SET_ML_MODELS'', store_spread),
     (''SET_ML_TASK_MODEL_VERSIONS'', store_payload),
     (''SET_ML_DATASET_LABELS'', store_payload),
     (''SET_ML_TASK_TAGS'', store_payload),
     (''CREATE_ML_LEADERBOARD'', store_payload)]"

definition restapi_cases :: "(string \<times> reducer_case) list" where
  "restapi_cases = restapi_cases_1 @ restapi_cases_2 @ restapi_cases_3 @ restapi_cases_4 @ restapi_cases_5 @ restapi_cases_6"

definition restapi_reducer :: "data_state \<Rightarrow> action \<Rightarrow> data_state js" where
  "restapi_reducer st a =
     (case map_of restapi_cases (act_type a) of Some f \<Rightarrow> f st a | None \<Rightarrow> Inr st)"

lemmas restapi_cases_defs = restapi_cases_def restapi_cases_1_def restapi_cases_2_def
  restapi_cases_3_def restapi_cases_4_def restapi_cases_5_def restapi_cases_6_def

lemmas store_defs = store_payload_def store_spread_def store_as_def store_prop_def
  store_prop_as_def store_default_as_def store_default_def append_payload_def

subsection \<open>The reducer writes the slot of the action's label\<close>

text \<open>A case is \<open>slotwise\<close> when all it can do is store one value in the slot of the action's label.\<close>

definition slotwise :: "reducer_case \<Rightarrow> bool" where
  "slotwise f \<longleftrightarrow> (\<forall>st a st'. f st a = Inr st' \<longrightarrow> (\<exists>v. st' = put st a v))"

lemma slotwiseI: "(\<And>st a st'. f st a = Inr st' \<Longrightarrow> \<exists>v. st' = put st a v) \<Longrightarrow> slotwise f"
  by (auto simp: slotwise_def)

lemma store_slotwise:
  "slotwise store_payload" "slotwise store_spread" "slotwise (store_as k)"
  "slotwise (store_prop k)" "slotwise (store_prop_as k' k)" "slotwise (store_default_as k' k)"
  "slotwise (store_default k)" "slotwise append_payload"
  by (auto intro!: slotwiseI simp: store_defs map_js_Inr_iff)

lemma slotwise_map: "slotwise (\<lambda>st a. map_js (\<lambda>x. put st a (f st a x)) (m st a))"
  by (auto intro!: slotwiseI simp: map_js_Inr_iff)

lemma slotwise_bind: "(\<And>x. slotwise (\<lambda>st a. k st a x)) \<Longrightarrow> slotwise (\<lambda>st a. bind_js (m st a) (k st a))"
  unfolding slotwise_def by (metis bind_js_Inr_iff)

lemma slotwise_put: "slotwise (\<lambda>st a. Inr (put st a (f st a)))"
  by (auto simp: slotwise_def)

lemmas slotwise_intros = slotwise_put slotwise_map slotwise_bind

lemmas case_defs =
  case_DELETE_POOL_def case_COST_EXPLORER_def case_SET_POOL_POLICY_def
  case_SET_RESOURCE_CONSTRAINT_def case_DELETE_RESOURCE_CONSTRAINT_def
  case_SET_OPTIMIZATIONS_def case_SET_LIVE_DEMO_def case_SET_CLUSTER_TYPES_def
  case_DELETE_WEBHOOK_def case_UPDATE_SSH_KEY_def case_SET_OPTIMIZATION_OPTIONS_def
  case_UPDATE_ENVIRONMENT_PROPERTY_def case_UPDATE_ENVIRONMENT_SSH_REQUIREMENT_def
  case_SET_EXPENSES_DAILY_BREAKDOWN_def case_UPDATE_GLOBAL_def
  case_SET_ORGANIZATION_CLOUD_RESOURCES_def

lemma case_slotwise:
  "slotwise case_DELETE_POOL" "slotwise case_COST_EXPLORER" "slotwise case_SET_POOL_POLICY"
  "slotwise case_SET_RESOURCE_CONSTRAINT" "slotwise case_DELETE_RESOURCE_CONSTRAINT"
  "slotwise case_SET_OPTIMIZATIONS" "slotwise case_SET_LIVE_DEMO"
  "slotwise case_SET_CLUSTER_TYPES" "slotwise case_DELETE_WEBHOOK"
  "slotwise case_UPDATE_SSH_KEY" "slotwise case_SET_OPTIMIZATION_OPTIONS"
  "slotwise case_UPDATE_ENVIRONMENT_PROPERTY"
  "slotwise case_UPDATE_ENVIRONMENT_SSH_REQUIREMENT"
  "slotwise case_SET_EXPENSES_DAILY_BREAKDOWN" "slotwise case_UPDATE_GLOBAL"
  "slotwise case_SET_ORGANIZATION_CLOUD_RESOURCES"
  by (simp_all only: slotwise_def case_defs Let_def bind_js_Inr_iff map_js_Inr_iff sum.inject) blast+

definition slotwise_row :: "string \<times> reducer_case \<Rightarrow> bool" where
  "slotwise_row c \<longleftrightarrow> slotwise (snd c) \<or> fst c = ''UPDATE_ML_LEADERBOARD''"

lemma slotwise_rowI:
  "slotwise f \<Longrightarrow> slotwise_row (t, f)" "slotwise_row (''UPDATE_ML_LEADERBOARD'', f)"
  by (simp_all add: slotwise_row_def)

lemma restapi_cases_slotwise: "list_all slotwise_row restapi_cases"
  by (simp only: restapi_cases_defs append_Cons append_Nil list.pred_inject
      slotwise_rowI store_slotwise case_slotwise simp_thms)

definition handled_types :: "string list" where
  "handled_types =
    [''SET_ORGANIZATION_OPTIONS'', ''SET_ORGANIZATION_OPTION'',
     ''UPDATE_POOL_EXPENSES_EXPORT'', ''SET_POOL'', ''DELETE_POOL'',
     ''SET_SPLIT_RESOURCES'', ''SET_AVAILABLE_POOLS'', ''SET_POOL_OWNERS'',
     ''SET_AUTHORIZED_EMPLOYEES'', ''SET_EMPLOYEES'', ''SET_ORGANIZATIONS_OVERVIEW'',
     ''SET_ORGANIZATION_EXPENSES'', ''SET_ORGANIZATION_CONSTRAINTS'',
     ''SET_ORGANIZATION_CONSTRAINT'', ''UPDATE_ORGANIZATION_CONSTRAINT'',
     ''SET_POOL_EXPENSES_BREAKDOWN'', ''SET_CLOUDS_EXPENSES'', ''SET_EMPLOYEES_EXPENSES'',
     ''SET_REGION_EXPENSES'', ''SET_TRAFFIC_EXPENSES'', ''SET_COST_EXPLORER_POOL_EXPENSES'',
     ''SET_INVITATION'', ''SET_RAW_EXPENSES'', ''SET_CLEAN_EXPENSES'',
     ''SET_EXPENSES_SUMMARY'', ''SET_AVAILABLE_FILTERS'', ''SET_RESOURCE_COUNT_BREAKDOWN'',
     ''SET_TAGS_BREAKDOWN'', ''SET_ASSIGNMENT_RULE'', ''SET_ASSIGNMENT_RULES'',
     ''SET_K8S_RIGHTSIZING'', ''SET_RESOURCE'', ''SET_POOL_POLICIES'', ''SET_POOL_POLICY'',
     ''SET_RESOURCE_CONSTRAINT'', ''DELETE_RESOURCE_CONSTRAINT'',
     ''SET_RESOURCE_LIMIT_HITS'', ''SET_OPTIMIZATIONS'', ''SET_OPTIMIZATIONS_OVERVIEW'',
     ''SET_OPTIMIZATION_DETAILS'', ''SET_ML_OPTIMIZATION_DETAILS'', ''SET_LIVE_DEMO'',
     ''SET_TTL_ANALYSIS'', ''SET_FINOPS_CHECKLIST'',
     ''SET_RECOMMENDATIONS_DOWNLOAD_OPTIONS'', ''SET_CLUSTER_TYPES'', ''SET_ENVIRONMENTS'',
     ''SET_ENVIRONMENT_BOOKINGS'', ''SET_WEBHOOKS'', ''CREATE_WEBHOOK'', ''UPDATE_WEBHOOK'',
     ''DELETE_WEBHOOK'', ''SET_SSH_KEYS'', ''CREATE_SSH_KEY'', ''UPDATE_SSH_KEY'',
     ''SET_DATA_SOURCE_NODES'', ''SET_RESOURCE_METRICS'', ''SET_RESOURCE_COST_MODEL'',
     ''SET_DATASOURCE_SKUS'', ''SET_OPTIMIZATION_OPTIONS'', ''SET_ORGANIZATION_CALENDAR'',
     ''UPDATE_ENVIRONMENT_PROPERTY'', ''UPDATE_ENVIRONMENT_SSH_REQUIREMENT'',
     ''SET_EXPENSES_DAILY_BREAKDOWN'', ''SET_GLOBAL_POOL_POLICIES'',
     ''SET_GLOBAL_RESOURCE_CONSTRAINTS'', ''UPDATE_GLOBAL_POOL_POLICY'',
     ''UPDATE_GLOBAL_RESOURCE_CONSTRAINT'', ''SET_ARCHIVED_OPTIMIZATIONS_COUNT'',
     ''SET_ARCHIVED_OPTIMIZATIONS_BREAKDOWN'', ''SET_ARCHIVED_OPTIMIZATION_DETAILS'',
     ''SET_ML_TASKS'', ''SET_ML_LEADERBOARD_TEMPLATE'', ''SET_ML_LEADERBOARD_CANDIDATES'',
     ''SET_ML_DATASETS'', ''SET_ML_DATASET'', ''SET_ML_METRICS'', ''SET_ML_GLOBAL_METRIC'',
     ''SET_PROFILING_TOKEN'', ''SET_ML_EXECUTORS'', ''SET_ML_EXECUTORS_BREAKDOWN'',
     ''SET_ML_TASK'', ''SET_ML_TASK_RUNS'', ''SET_ML_RUN_DETAILS'',
     ''SET_ML_RUN_DETAILS_BREAKDOWN'', ''SET_ML_TASK_RECOMMENDATIONS'',
     ''SET_ML_RUNSET_TEMPLATES'', ''SET_ML_RUNSET_TEMPLATE'', ''SET_ML_RUNSETS'',
     ''SET_ML_RUNSET'', ''SET_ML_RUNSETS_RUNS'', ''SET_ML_RUNSET_EXECUTORS'',
     ''SET_ML_ARTIFACTS'', ''SET_ML_ARTIFACT'', ''SET_ORGANIZATION_BI_EXPORTS'',
     ''SET_BI_EXPORT'', ''SET_ORGANIZATION_CLOUD_RESOURCES'', ''SET_ORGANIZATION_GEMINIS'',
     ''SET_GEMINI'', ''SET_S3_DUPLICATES_ORGANIZATION_SETTINGS'', ''SET_POWER_SCHEDULES'',
     ''SET_ML_TASK_RUNS_BULK'', ''SET_POWER_SCHEDULE'', ''SET_LAYOUTS'',
     ''SET_ML_LEADERBOARDS'', ''SET_ML_LEADERBOARD'', ''UPDATE_ML_LEADERBOARD'',
     ''SET_LAYOUT'', ''CREATE_LAYOUT'', ''SET_RESERVED_INSTANCES_BREAKDOWN'',
     ''SET_SAVING_PLANS_BREAKDOWN'', ''SET_ML_MODELS'', ''SET_ML_TASK_MODEL_VERSIONS'',
     ''SET_ML_DATASET_LABELS'', ''SET_ML_TASK_TAGS'', ''CREATE_ML_LEADERBOARD'']"

lemma handled_types: "map fst restapi_cases = handled_types"
  by (simp only: restapi_cases_defs handled_types_def append_Cons append_Nil list.map fst_conv)

lemma handled_types_codes: "distinct (map str_code handled_types)"
  by code_simp

lemma handled_types_distinct: "distinct handled_types"
  by (rule distinct_by_code [OF handled_types_codes])

section \<open>The contract of a data reducer\<close>

text \<open>
  The store holds three data slices (\<open>restapi\<close>, \<open>auth\<close>, \<open>jira_bus\<close>), each with a reducer of
  this form.  \<open>handled\<close> lists the types of its cases, \<open>extra\<close> the slots a type writes besides
  the one of the action's label.
\<close>

locale data_slice =
  fixes red :: "data_state \<Rightarrow> action \<Rightarrow> data_state js"
    and handled :: "string list"
    and extra :: "string \<Rightarrow> string list"
  assumes ignores: "act_type a \<notin> set handled \<Longrightarrow> red st a = Inr st"
    and frame: "red st a = Inr st' \<Longrightarrow> l \<noteq> act_label a \<Longrightarrow> l \<notin> set (extra (act_type a)) \<Longrightarrow> st' l = st l"
    and keeps: "red st a = Inr st' \<Longrightarrow> dom st \<subseteq> dom st'"
    and stores: "red st a = Inr st' \<Longrightarrow> act_type a \<in> set handled \<Longrightarrow> act_label a \<in> dom st'"
begin

definition untouched :: "string \<Rightarrow> action \<Rightarrow> bool" where
  "untouched l a \<longleftrightarrow>
     act_type a \<notin> set handled \<or> (l \<noteq> act_label a \<and> l \<notin> set (extra (act_type a)))"

lemma step_untouched: "red st a = Inr st' \<Longrightarrow> untouched l a \<Longrightarrow> st' l = st l"
  unfolding untouched_def using ignores frame by fastforce

lemma run_untouched:
  "foldM_js red st as = Inr st' \<Longrightarrow> list_all (untouched l) as \<Longrightarrow> st' l = st l"
proof (induction as arbitrary: st)
  case (Cons a as)
  then obtain st1 where "red st a = Inr st1" "foldM_js red st1 as = Inr st'"
    by (auto simp: bind_js_Inr_iff)
  with Cons step_untouched show ?case by fastforce
qed simp

lemma run_keeps: "foldM_js red st as = Inr st' \<Longrightarrow> dom st \<subseteq> dom st'"
proof (induction as arbitrary: st)
  case (Cons a as)
  then obtain st1 where "red st a = Inr st1" "foldM_js red st1 as = Inr st'"
    by (auto simp: bind_js_Inr_iff)
  with Cons keeps show ?case by blast
qed simp

lemma run_stores:
  "foldM_js red st as = Inr st' \<Longrightarrow> a \<in> set as \<Longrightarrow> act_type a \<in> set handled \<Longrightarrow> act_label a \<in> dom st'"
proof (induction as arbitrary: st)
  case (Cons b as)
  then obtain st1 where st1: "red st b = Inr st1" "foldM_js red st1 as = Inr st'"
    by (auto simp: bind_js_Inr_iff)
  show ?case
  proof (cases "a = b")
    case True
    with Cons.prems(3) stores st1(1) run_keeps [OF st1(2)] show ?thesis by blast
  next
    case False
    with Cons st1(2) show ?thesis by simp
  qed
qed simp

end

text \<open>A reducer whose cases are all \<open>slotwise\<close> keeps the contract with no extra slot.\<close>

lemma put_slice:
  assumes "\<And>st a. act_type a \<notin> set handled \<Longrightarrow> red st a = Inr st"
    and "\<And>st a st'. red st a = Inr st' \<Longrightarrow> act_type a \<in> set handled \<Longrightarrow> \<exists>v. st' = put st a v"
  shows "data_slice red handled (\<lambda>_. [])"
proof
  fix a :: action and st st' :: data_state and l :: string
  show "act_type a \<notin> set handled \<Longrightarrow> red st a = Inr st" by (rule assms(1))
  assume run: "red st a = Inr st'"
  show "l \<noteq> act_label a \<Longrightarrow> l \<notin> set [] \<Longrightarrow> st' l = st l" "dom st \<subseteq> dom st'"
    "act_type a \<in> set handled \<Longrightarrow> act_label a \<in> dom st'"
    using run assms(1) [of a st] assms(2) [OF run]
    by (cases "act_type a \<in> set handled"; auto simp: put_def)+
qed

subsection \<open>The REST slice keeps the contract\<close>

definition restapi_extra :: "string \<Rightarrow> string list" where
  "restapi_extra t = (if t = ''UPDATE_ML_LEADERBOARD'' then [''GET_ML_LEADERBOARDS''] else [])"

lemma restapi_reducer_ignores: "act_type a \<notin> set handled_types \<Longrightarrow> restapi_reducer st a = Inr st"
  by (simp add: restapi_reducer_def map_of_eq_None_iff [THEN iffD2] flip: handled_types)

lemma leaderboard_case:
  "map_of restapi_cases ''UPDATE_ML_LEADERBOARD'' = Some case_UPDATE_ML_LEADERBOARD"
  by (simp add: restapi_cases_defs)

lemma restapi_reducer_shape:
  assumes "restapi_reducer st a = Inr st'" "act_type a \<in> set handled_types"
  shows "\<exists>v. st' = put st a v \<or>
    (act_type a = ''UPDATE_ML_LEADERBOARD'' \<and> (\<exists>w. st' = put (st(''GET_ML_LEADERBOARDS'' \<mapsto> w)) a v))"
proof (cases "act_type a = ''UPDATE_ML_LEADERBOARD''")
  case True
  with assms(1) have "case_UPDATE_ML_LEADERBOARD st a = Inr st'"
    by (simp add: restapi_reducer_def leaderboard_case)
  with True show ?thesis
    by (auto simp: case_UPDATE_ML_LEADERBOARD_def Let_def bind_js_Inr_iff)
next
  case False
  from assms(2) obtain f where f: "map_of restapi_cases (act_type a) = Some f"
    by (metis handled_types map_of_eq_None_iff not_Some_eq image_set)
  then have "slotwise_row (act_type a, f)"
    using restapi_cases_slotwise by (auto simp: list_all_iff dest: map_of_SomeD)
  with False f assms(1) show ?thesis
    by (auto simp: slotwise_row_def slotwise_def restapi_reducer_def)
qed

interpretation restapi: data_slice restapi_reducer handled_types restapi_extra
proof
  fix a :: action and st st' :: data_state and l :: string
  show "act_type a \<notin> set handled_types \<Longrightarrow> restapi_reducer st a = Inr st"
    by (rule restapi_reducer_ignores)
  assume run: "restapi_reducer st a = Inr st'"
  show "l \<noteq> act_label a \<Longrightarrow> l \<notin> set (restapi_extra (act_type a)) \<Longrightarrow> st' l = st l"
    using run restapi_reducer_ignores [of a st] restapi_reducer_shape [OF run]
    by (cases "act_type a \<in> set handled_types") (auto simp: put_def restapi_extra_def)
  show "dom st \<subseteq> dom st'"
    using run restapi_reducer_ignores [of a st] restapi_reducer_shape [OF run]
    by (cases "act_type a \<in> set handled_types") (auto simp: put_def)
  show "act_type a \<in> set handled_types \<Longrightarrow> act_label a \<in> dom st'"
    using restapi_reducer_shape [OF run] by (auto simp: put_def)
qed

end
