(* ===== verification/AuthApi.thy ===== *)
theory AuthApi
  imports RestReducer
begin

text \<open>
  The clients of the auth service (\<open>api/auth\<close>) and of the Jira bus (\<open>api/jira_bus\<close>): their
  action creators, the success handler of the sign-in, and their reducers.  The auth reducer
  reads the caveats of a macaroon token (\<open>utils/macaroons.ts\<close>); the third-party
  \<open>node-macaroons\<close> parser is the parameter \<open>caveats_of\<close>, which maps a token to the value of
  \<open>deserialize(token).getCaveats()\<close> or to the exception it throws.

  The contract every data reducer keeps is the locale \<open>data_slice\<close>.
\<close>

section \<open>Action creators\<close>

definition AUTH_API_URL :: string where
  "AUTH_API_URL = getApiUrl False ''auth'' ''v2''"

definition JIRA_API_URL :: string where
  "JIRA_API_URL = getApiUrl False ''jira_bus'' ''v2''"

definition onSuccessSignIn :: "jsval \<Rightarrow> string \<Rightarrow> action" where
  "onSuccessSignIn data label =
     \<lparr>act_type = ''SET_TOKEN'', act_label = ''GET_TOKEN'', act_payload = data\<rparr>"

definition getToken :: "jsval \<Rightarrow> jsval \<Rightarrow> jsval \<Rightarrow> api_request" where
  "getToken email password code =
     apiAction (\<lambda>r. r\<lparr>rq_url := AUTH_API_URL @ ''/tokens'',
       rq_onSuccess := Some (handleSuccess ''SET_TOKEN''),
       rq_label := ''GET_TOKEN'',
       rq_params := Obj [(''email'', email), (''password'', password), (''verification_code'', code)]\<rparr>)"

definition signIn :: "jsval \<Rightarrow> obj \<Rightarrow> api_request" where
  "signIn provider params =
     apiAction (\<lambda>r. r\<lparr>rq_url := AUTH_API_URL @ ''/signin'',
       rq_onSuccess := Some onSuccessSignIn,
       rq_label := ''SIGN_IN'',
       rq_params := Obj (obj_spread [(''provider'', provider)] params)\<rparr>)"

definition createUser :: "jsval \<Rightarrow> jsval \<Rightarrow> jsval \<Rightarrow> api_request" where
  "createUser name email password =
     apiAction (\<lambda>r. r\<lparr>rq_url := AUTH_API_URL @ ''/users'',
       rq_onSuccess := Some (handleSuccess ''CREATE_USER''),
       rq_label := ''CREATE_USER'',
       rq_params := Obj [(''display_name'', name), (''email'', email), (''password'', password)]\<rparr>)"

definition updateUser :: "jsval \<Rightarrow> obj \<Rightarrow> api_request" where
  "updateUser userId params =
     apiAction (\<lambda>r. r\<lparr>rq_url := AUTH_API_URL @ ''/users/'' @ to_str userId,
       rq_method := ''PATCH'',
       rq_label := ''UPDATE_USER'',
       rq_params := Obj [(''display_name'', obj_get params ''name''), (''password'', obj_get params ''password'')]\<rparr>)"

definition getUser :: "jsval \<Rightarrow> api_request" where
  "getUser userId =
     apiAction (\<lambda>r. r\<lparr>rq_url := AUTH_API_URL @ ''/users/'' @ to_str userId,
       rq_method := ''GET'',
       rq_onSuccess := Some (handleSuccess ''SET_USER''),
       rq_label := ''GET_USER'',
       rq_ttl := 30 * MINUTE\<rparr>)"

definition getResourceAllowedActions :: "jsval \<Rightarrow> api_request" where
  "getResourceAllowedActions params =
     apiAction (\<lambda>r. r\<lparr>rq_url := AUTH_API_URL @ ''/allowed_actions'',
       rq_method := ''GET'',
       rq_onSuccess := Some (handleSuccess ''SET_ALLOWED_ACTIONS''),
       rq_label := ''GET_RESOURCE_ALLOWED_ACTIONS'',
       rq_hash := hashParams params,
       rq_params := Obj [(''cloud_resource'', params)],
       rq_ttl := 30 * MINUTE\<rparr>)"

definition getPoolAllowedActions :: "jsval \<Rightarrow> api_request" where
  "getPoolAllowedActions params =
     apiAction (\<lambda>r. r\<lparr>rq_url := AUTH_API_URL @ ''/allowed_actions'',
       rq_method := ''GET'',
       rq_onSuccess := Some (handleSuccess ''SET_ALLOWED_ACTIONS''),
       rq_label := ''GET_POOL_ALLOWED_ACTIONS'',
       rq_hash := hashParams params,
       rq_params := Obj [(''pool'', params)],
       rq_ttl := 30 * MINUTE\<rparr>)"

definition resetPassword :: "jsval \<Rightarrow> api_request" where
  "resetPassword email =
     apiAction (\<lambda>r. r\<lparr>rq_url := AUTH_API_URL @ ''/restore_password'',
       rq_method := ''POST'',
       rq_label := ''RESET_PASSWORD'',
       rq_params := Obj [(''email'', email)]\<rparr>)"

definition updateUserAssignment :: "jsval \<Rightarrow> api_request" where
  "updateUserAssignment secret =
     apiAction (\<lambda>r. r\<lparr>rq_url := JIRA_API_URL @ ''/user_assignment'',
       rq_method := ''PATCH'',
       rq_label := ''UPDATE_USER_ASSIGNMENT'',
       rq_params := Obj [(''secret'', secret)],
       rq_errorHandlerType := ERROR_HANDLER_TYPE_LOCAL\<rparr>)"

definition getJiraOrganizationStatus :: "jsval \<Rightarrow> api_request" where
  "getJiraOrganizationStatus organizationId =
     apiAction (\<lambda>r. r\<lparr>rq_url := JIRA_API_URL @ ''/organization/'' @ to_str organizationId @ ''/status'',
       rq_method := ''GET'',
       rq_onSuccess := Some (handleSuccess ''SET_JIRA_ORGANIZATION_STATUS''),
       rq_ttl := 10 * MINUTE,
       rq_label := ''GET_JIRA_ORGANIZATION_STATUS'',
       rq_hash := hashParams organizationId\<rparr>)"

lemmas auth_action_defs = getToken_def signIn_def createUser_def updateUser_def getUser_def
  getResourceAllowedActions_def getPoolAllowedActions_def resetPassword_def
  updateUserAssignment_def getJiraOrganizationStatus_def

section \<open>Caveats of a token\<close>

definition to_lower :: "char \<Rightarrow> char" where
  "to_lower c = (if 65 \<le> (of_char c :: nat) \<and> of_char c \<le> (90 :: nat)
     then char_of (of_char c + (32 :: nat)) else c)"

text \<open>\<open>booleanStringToBoolean\<close> (\<open>utils/strings.ts\<close>) of a string.\<close>

definition booleanStringToBoolean :: "string \<Rightarrow> jsval" where
  "booleanStringToBoolean s =
     (let t = map to_lower s in
      if t = ''true'' then Bool True else if t = ''false'' then Bool False else Str s)"

text \<open>\<open>s.split(c)\<close> for a separator of one character.\<close>

fun split_char :: "char \<Rightarrow> string \<Rightarrow> string list" where
  "split_char c [] = [[]]"
| "split_char c (d # s) =
     (case split_char c s of
        [] \<Rightarrow> []
      | w # ws \<Rightarrow> if d = c then [] # w # ws else (d # w) # ws)"

definition processCaveat :: "obj \<Rightarrow> jsval \<Rightarrow> obj js" where
  "processCaveat result caveat =
     bind_js (get_default caveat ''_identifier'' (Str '':'')) (\<lambda>identifier.
     case identifier of
       Str s \<Rightarrow> (case split_char CHR '':'' s of
           key # value # _ \<Rightarrow> Inr (obj_spread result [(key, booleanStringToBoolean value)])
         | _ \<Rightarrow> Inl TypeError)
     | _ \<Rightarrow> Inl TypeError)"

definition processCaveats :: "jsval \<Rightarrow> obj js" where
  "processCaveats caveats =
     bind_js (as_array (js_coalesce caveats (Arr []))) (foldM_js processCaveat [])"

section \<open>The reducers\<close>

definition case_SET_TOKEN :: "(jsval \<Rightarrow> jsval js) \<Rightarrow> reducer_case" where
  "case_SET_TOKEN caveats_of st a =
     bind_js (get_prop (act_payload a) ''token'') (\<lambda>token.
     bind_js (get_prop (act_payload a) ''user_id'') (\<lambda>userId.
     bind_js (get_prop (act_payload a) ''user_email'') (\<lambda>userEmail.
     bind_js (caveats_of token) (\<lambda>cs.
     map_js (\<lambda>caveats. put st a (Obj (obj_spread
         [(''userId'', userId), (''userEmail'', userEmail), (''token'', token)] caveats)))
       (processCaveats cs)))))"

definition case_SET_USER :: reducer_case where
  "case_SET_USER st a =
     bind_js (get_prop (act_payload a) ''display_name'') (\<lambda>name.
     map_js (\<lambda>email. put st a (Obj [(''name'', name), (''email'', email)]))
       (get_prop (act_payload a) ''email''))"

definition case_SET_ALLOWED_ACTIONS :: reducer_case where
  "case_SET_ALLOWED_ACTIONS st a =
     map_js (\<lambda>actions. put st a (Obj [(''allowedActions'',
         Obj (obj_spread
           (obj_spread [] (own_props (opt_prop (current st (act_label a)) ''allowedActions'')))
           (own_props actions)))]))
       (get_prop (act_payload a) ''allowed_actions'')"

definition auth_reducer :: "(jsval \<Rightarrow> jsval js) \<Rightarrow> reducer_case" where
  "auth_reducer caveats_of st a =
     (if act_type a = ''SET_TOKEN'' then case_SET_TOKEN caveats_of st a
      else if act_type a = ''SET_USER'' then case_SET_USER st a
      else if act_type a = ''SET_ALLOWED_ACTIONS'' then case_SET_ALLOWED_ACTIONS st a
      else Inr st)"

definition jira_bus_reducer :: reducer_case where
  "jira_bus_reducer st a =
     (if act_type a = ''SET_JIRA_ORGANIZATION_STATUS'' then store_payload st a else Inr st)"

text \<open>Both reducers keep the contract of a data slice.\<close>

definition auth_types :: "string list" where
  "auth_types = [''SET_TOKEN'', ''SET_USER'', ''SET_ALLOWED_ACTIONS'']"

definition jira_bus_types :: "string list" where
  "jira_bus_types = [''SET_JIRA_ORGANIZATION_STATUS'']"

lemma auth_case_slotwise:
  "slotwise (case_SET_TOKEN caveats_of)" "slotwise case_SET_USER" "slotwise case_SET_ALLOWED_ACTIONS"
  by (simp_all only: slotwise_def case_SET_TOKEN_def case_SET_USER_def case_SET_ALLOWED_ACTIONS_def
      bind_js_Inr_iff map_js_Inr_iff) blast+

interpretation auth: data_slice "auth_reducer caveats_of" auth_types "\<lambda>_. []" for caveats_of
  by (rule put_slice)
    (use auth_case_slotwise in \<open>auto simp: auth_reducer_def auth_types_def slotwise_def split: if_splits\<close>)

interpretation jira_bus: data_slice jira_bus_reducer jira_bus_types "\<lambda>_. []"
  by (rule put_slice)
    (auto simp: jira_bus_reducer_def jira_bus_types_def store_payload_def split: if_splits)

end
