(* ===== verification/Store.thy ===== *)
theory Store
  imports ApiReducer UiReducers AuthApi
begin

text \<open>
  The redux store, \<open>reducers.ts\<close>: its slices as a record, and the root reducer, which on
  \<open>RESET\<close> (\<open>reducers/route\<close>) forgets the slices that hold data of the signed-in user before it
  runs the reducer of every slice.  An exception of one slice's reducer is an exception of the
  dispatch; the store is then unchanged.

  \<open>redux-persist\<close>, which wraps the root reducer and the auth reducer to save them and adds the
  bookkeeping field \<open>_persist\<close>, is not part of the model; neither is the removal of the saved
  auth slice from the browser's storage.
\<close>

section \<open>State and actions\<close>

record store =
  st_initial :: obj
  st_api :: api_state
  st_auth :: data_state
  st_restapi :: data_state
  st_jira_bus :: data_state
  st_resourcesSortGroupsBy :: jsval
  st_organizationId :: jsval
  st_rangeDates :: range_state
  st_expandedPoolRows :: jsval
  st_columns :: "string \<rightharpoonup> jsval"
  st_alerts :: alerts_state
  st_expensesBreakdownPeriodType :: jsval
  st_showWeekends :: jsval
  st_showLessThanValue :: jsval
  st_isExistingUser :: jsval
  st_tours :: "string \<rightharpoonup> tour"
  st_collapsedMenuItems :: jsval
  st_pinnedRecommendations :: "string list"
  st_mainMenuExpanded :: jsval
  st_taskBreakdown :: task_breakdown_state
  st_selectedSizes :: "obj list"
  st_controlsState :: obj
  st_taskRunsDashboard :: "string \<rightharpoonup> jsval"

text \<open>The initial state of every reducer.\<close>

definition store_init :: store where
  "store_init =
    \<lparr>st_initial = [], st_api = api_init, st_auth = Map.empty, st_restapi = Map.empty,
     st_jira_bus = Map.empty, st_resourcesSortGroupsBy = Str ''totalExpenses'',
     st_organizationId = Str '''', st_rangeDates = Map.empty, st_expandedPoolRows = Arr [],
     st_columns = Map.empty, st_alerts = Map.empty,
     st_expensesBreakdownPeriodType = Str ''daily'', st_showWeekends = Bool True,
     st_showLessThanValue = Bool True, st_isExistingUser = Bool False, st_tours = tour_init,
     st_collapsedMenuItems = Arr [Str ''sandbox''], st_pinnedRecommendations = [],
     st_mainMenuExpanded = Bool True, st_taskBreakdown = Map.empty, st_selectedSizes = [],
     st_controlsState = [], st_taskRunsDashboard = Map.empty\<rparr>"

datatype redux_action =
    API api_request
  | Api api_action
  | Data action
  | Ui ui_action
  | RESET

section \<open>Reducers\<close>

definition data_step :: "reducer_case \<Rightarrow> data_state \<Rightarrow> redux_action \<Rightarrow> data_state js" where
  "data_step red st a = (case a of Data x \<Rightarrow> red st x | _ \<Rightarrow> Inr st)"

definition api_step :: "int \<Rightarrow> api_state \<Rightarrow> redux_action \<Rightarrow> api_state js" where
  "api_step now st a = (case a of Api x \<Rightarrow> api_reducer now st x | _ \<Rightarrow> Inr st)"

definition ui_step :: "('s \<Rightarrow> ui_action \<Rightarrow> 's) \<Rightarrow> 's \<Rightarrow> redux_action \<Rightarrow> 's" where
  "ui_step red st a = (case a of Ui x \<Rightarrow> red st x | _ \<Rightarrow> st)"

definition ui_slices :: "store \<Rightarrow> redux_action \<Rightarrow> store" where
  "ui_slices st a = st
    \<lparr>st_initial := ui_step initialize_reducer (st_initial st) a,
     st_resourcesSortGroupsBy := ui_step sort_groups_by_reducer (st_resourcesSortGroupsBy st) a,
     st_organizationId := ui_step scope_id_reducer (st_organizationId st) a,
     st_rangeDates := ui_step range_reducer (st_rangeDates st) a,
     st_expandedPoolRows := ui_step pools_table_reducer (st_expandedPoolRows st) a,
     st_columns := ui_step columns_reducer (st_columns st) a,
     st_alerts := ui_step alerts_reducer (st_alerts st) a,
     st_expensesBreakdownPeriodType := ui_step period_type_reducer (st_expensesBreakdownPeriodType st) a,
     st_showWeekends := ui_step show_weekends_reducer (st_showWeekends st) a,
     st_showLessThanValue := ui_step show_less_than_value_reducer (st_showLessThanValue st) a,
     st_isExistingUser := js_or (st_isExistingUser st) (Bool False),
     st_tours := ui_step tour_reducer (st_tours st) a,
     st_collapsedMenuItems := ui_step collapsed_menu_reducer (st_collapsedMenuItems st) a,
     st_pinnedRecommendations := ui_step pinned_recommendations_reducer (st_pinnedRecommendations st) a,
     st_mainMenuExpanded := ui_step main_menu_reducer (st_mainMenuExpanded st) a,
     st_taskBreakdown := ui_step task_breakdown_reducer (st_taskBreakdown st) a,
     st_selectedSizes := ui_step selected_sizes_reducer (st_selectedSizes st) a,
     st_controlsState := ui_step controls_state_reducer (st_controlsState st) a,
     st_taskRunsDashboard := ui_step task_runs_dashboard_reducer (st_taskRunsDashboard st) a\<rparr>"

definition app_reducer :: "(jsval \<Rightarrow> jsval js) \<Rightarrow> int \<Rightarrow> store \<Rightarrow> redux_action \<Rightarrow> store js" where
  "app_reducer caveats_of now st a =
     bind_js (api_step now (st_api st) a) (\<lambda>api.
     bind_js (data_step (auth_reducer caveats_of) (st_auth st) a) (\<lambda>auth.
     bind_js (data_step restapi_reducer (st_restapi st) a) (\<lambda>restapi.
     map_js (\<lambda>jira. (ui_slices st a)
         \<lparr>st_api := api, st_auth := auth, st_restapi := restapi, st_jira_bus := jira\<rparr>)
       (data_step jira_bus_reducer (st_jira_bus st) a))))"

text \<open>The slices that \<open>RESET\<close> drops start again from their initial state.\<close>

definition sign_out_state :: "store \<Rightarrow> store" where
  "sign_out_state st = st
    \<lparr>st_initial := st_initial store_init, st_api := api_init, st_auth := Map.empty,
     st_restapi := Map.empty, st_jira_bus := Map.empty, st_rangeDates := Map.empty,
     st_expandedPoolRows := st_expandedPoolRows store_init,
     st_controlsState := [], st_columns := Map.empty, st_selectedSizes := []\<rparr>"

definition root_reducer :: "(jsval \<Rightarrow> jsval js) \<Rightarrow> int \<Rightarrow> store \<Rightarrow> redux_action \<Rightarrow> store js" where
  "root_reducer caveats_of now st a =
     app_reducer caveats_of now (case a of RESET \<Rightarrow> sign_out_state st | _ \<Rightarrow> st) a"

section \<open>What an action changes\<close>

lemmas step_defs = data_step_def api_step_def ui_step_def

lemma ui_slices_data [simp]:
  "st_api (ui_slices st a) = st_api st" "st_auth (ui_slices st a) = st_auth st"
  "st_restapi (ui_slices st a) = st_restapi st" "st_jira_bus (ui_slices st a) = st_jira_bus st"
  by (simp_all add: ui_slices_def)

definition data_slices :: "store \<Rightarrow> data_state \<times> data_state \<times> data_state" where
  "data_slices st = (st_auth st, st_restapi st, st_jira_bus st)"

lemma root_api_action:
  "root_reducer cav now st (Api a) = Inr st' \<Longrightarrow>
    api_reducer now (st_api st) a = Inr (st_api st') \<and> data_slices st' = data_slices st"
  by (auto simp: root_reducer_def app_reducer_def step_defs bind_js_Inr_iff data_slices_def)

lemma root_api_total:
  "api_reducer now (st_api st) a = Inr s \<Longrightarrow> \<exists>st'. root_reducer cav now st (Api a) = Inr st' \<and> st_api st' = s"
  by (simp add: root_reducer_def app_reducer_def step_defs)

lemma root_data_action:
  "root_reducer cav now st (Data a) = Inr st' \<Longrightarrow>
    st_api st' = st_api st \<and> auth_reducer cav (st_auth st) a = Inr (st_auth st')
    \<and> restapi_reducer (st_restapi st) a = Inr (st_restapi st')
    \<and> jira_bus_reducer (st_jira_bus st) a = Inr (st_jira_bus st')"
  by (auto simp: root_reducer_def app_reducer_def step_defs bind_js_Inr_iff map_js_Inr_iff)

lemma root_ui_action:
  "\<exists>st'. root_reducer cav now st (Ui a) = Inr st' \<and> st_api st' = st_api st \<and> data_slices st' = data_slices st"
  by (simp add: root_reducer_def app_reducer_def step_defs data_slices_def)

lemma root_API_action:
  "\<exists>st'. root_reducer cav now st (API r) = Inr st' \<and> st_api st' = st_api st \<and> data_slices st' = data_slices st"
  by (simp add: root_reducer_def app_reducer_def step_defs data_slices_def)

lemma root_reset:
  "\<exists>st'. root_reducer cav now st RESET = Inr st' \<and> st_api st' = api_init
    \<and> data_slices st' = (Map.empty, Map.empty, Map.empty)"
  by (simp add: root_reducer_def app_reducer_def step_defs data_slices_def sign_out_state_def)

end
