(* ===== verification/RequestManager.thy ===== *)
theory RequestManager
  imports ApiUtils "HOL-Library.AList"
begin

text \<open>
  \<open>utils/requestManager.ts\<close>: the registry of requests in flight.  \<open>pendingRequests\<close> is an
  object from request ids to labels, kept as the list of its entries in insertion order (the ids
  are UUIDs, which are no array indices).  The abort controller of a request is a shared object:
  the transport still observes its signal after the entry is gone, so the ids whose controller
  was aborted are a field of their own.  \<open>affectedRequests\<close> maps a label to the set of labels
  whose data its success makes stale, in insertion order.

  The part of the interface the middleware relies on is the locale \<open>request_tracker\<close>.
\<close>

section \<open>State and operations\<close>

record request_manager =
  pendingRequests :: "(string \<times> string) list"
  abortedRequests :: "string list"
  affectedRequests :: "string \<rightharpoonup> string list"

definition rm_init :: request_manager where
  "rm_init = \<lparr>pendingRequests = [], abortedRequests = [], affectedRequests = Map.empty\<rparr>"

text \<open>\<open>Set.prototype.add\<close> on the elements in insertion order.\<close>

definition set_add :: "string list \<Rightarrow> string \<Rightarrow> string list" where
  "set_add xs x = (if x \<in> set xs then xs else xs @ [x])"

definition getAffectedRequests :: "string \<Rightarrow> request_manager \<Rightarrow> string list" where
  "getAffectedRequests apiLabel rm =
     (case affectedRequests rm apiLabel of None \<Rightarrow> [] | Some ls \<Rightarrow> ls)"

definition addAffectedRequest :: "string \<Rightarrow> string list \<Rightarrow> request_manager \<Rightarrow> request_manager" where
  "addAffectedRequest effectSourceLabel affectedLabels rm =
     fold (\<lambda>affectedLabel rm. rm\<lparr>affectedRequests := (affectedRequests rm)
       (effectSourceLabel \<mapsto> set_add (getAffectedRequests effectSourceLabel rm) affectedLabel)\<rparr>)
     affectedLabels rm"

definition removeKey :: "string \<Rightarrow> (string \<times> 'a) list \<Rightarrow> (string \<times> 'a) list" where
  "removeKey k kvs = filter (\<lambda>(k', v). k' \<noteq> k) kvs"

text \<open>A new controller, not aborted, is stored under the id.\<close>

definition addPendingRequest :: "string \<Rightarrow> string \<Rightarrow> request_manager \<Rightarrow> request_manager" where
  "addPendingRequest requestId label rm =
     rm\<lparr>pendingRequests := AList.update requestId label (pendingRequests rm),
        abortedRequests := removeAll requestId (abortedRequests rm)\<rparr>"

definition hasPendingRequest :: "string \<Rightarrow> request_manager \<Rightarrow> bool" where
  "hasPendingRequest label rm \<longleftrightarrow> list_ex (\<lambda>(i, l). l = label) (pendingRequests rm)"

definition removePendingRequest :: "string \<Rightarrow> request_manager \<Rightarrow> request_manager" where
  "removePendingRequest requestId rm =
     rm\<lparr>pendingRequests := removeKey requestId (pendingRequests rm)\<rparr>"

definition cancelPendingRequest :: "string \<Rightarrow> request_manager \<Rightarrow> request_manager js" where
  "cancelPendingRequest requestId rm =
     (case map_of (pendingRequests rm) requestId of
        None \<Rightarrow> Inl TypeError
      | Some l \<Rightarrow> Inr (removePendingRequest requestId
          (rm\<lparr>abortedRequests := requestId # abortedRequests rm\<rparr>)))"

text \<open>The loops run over the entries as they were before the first removal.\<close>

definition cancelPreviousPendingRequests :: "string \<Rightarrow> request_manager \<Rightarrow> request_manager js" where
  "cancelPreviousPendingRequests label rm =
     foldM_js (\<lambda>rm (requestId, l). if l = label then cancelPendingRequest requestId rm else Inr rm)
       rm (pendingRequests rm)"

definition cancelAllPendingRequests :: "request_manager \<Rightarrow> request_manager js" where
  "cancelAllPendingRequests rm =
     foldM_js (\<lambda>rm (requestId, l). cancelPendingRequest requestId rm) rm (pendingRequests rm)"

section \<open>The contract of a request tracker\<close>

text \<open>
  What the middleware needs of the registry: \<open>view\<close> is the map from the ids in flight to their
  labels, \<open>aborted\<close> the ids whose signal fired.  Cancelling a label never throws.
\<close>

locale request_tracker =
  fixes inv :: "'t \<Rightarrow> bool"
    and view :: "'t \<Rightarrow> ('i \<rightharpoonup> 'l)"
    and aborted :: "'t \<Rightarrow> 'i set"
    and has :: "'l \<Rightarrow> 't \<Rightarrow> bool"
    and add :: "'i \<Rightarrow> 'l \<Rightarrow> 't \<Rightarrow> 't"
    and remove :: "'i \<Rightarrow> 't \<Rightarrow> 't"
    and cancel :: "'l \<Rightarrow> 't \<Rightarrow> 't js"
  assumes has_view: "inv t \<Longrightarrow> has l t \<longleftrightarrow> l \<in> ran (view t)"
    and add_inv: "inv t \<Longrightarrow> inv (add i l t)"
    and add_view: "inv t \<Longrightarrow> view (add i l t) = (view t)(i \<mapsto> l)"
    and add_aborted: "inv t \<Longrightarrow> aborted (add i l t) = aborted t - {i}"
    and remove_inv: "inv t \<Longrightarrow> inv (remove i t)"
    and remove_view: "inv t \<Longrightarrow> view (remove i t) = (view t)(i := None)"
    and remove_aborted: "inv t \<Longrightarrow> aborted (remove i t) = aborted t"
    and cancel_total: "inv t \<Longrightarrow> \<exists>t'. cancel l t = Inr t'"
    and cancel_inv: "inv t \<Longrightarrow> cancel l t = Inr t' \<Longrightarrow> inv t'"
    and cancel_view: "inv t \<Longrightarrow> cancel l t = Inr t' \<Longrightarrow>
      view t' = (\<lambda>i. if view t i = Some l then None else view t i)"
    and cancel_aborted: "inv t \<Longrightarrow> cancel l t = Inr t' \<Longrightarrow>
      aborted t' = aborted t \<union> {i. view t i = Some l}"
begin

lemma not_has_cancelled: "inv t \<Longrightarrow> cancel l t = Inr t' \<Longrightarrow> \<not> has l t'"
  by (auto simp: has_view cancel_inv cancel_view ran_def split: if_splits)

lemma has_other_cancelled:
  "inv t \<Longrightarrow> cancel l t = Inr t' \<Longrightarrow> l' \<noteq> l \<Longrightarrow> has l' t' \<longleftrightarrow> has l' t"
  by (simp add: has_view cancel_inv cancel_view ran_def) (metis option.inject)

text \<open>Cancelling the label and adding one request leaves exactly that request of the label.\<close>

lemma replace_view:
  assumes "inv t" "cancel l t = Inr t'" "view (add i l t') j = Some l"
  shows "j = i"
  using assms by (auto simp: add_view cancel_inv cancel_view split: if_splits)

lemma replace_aborts:
  assumes "inv t" "cancel l t = Inr t'" "view t j = Some l" "j \<noteq> i"
  shows "j \<in> aborted (add i l t')"
  using assms by (auto simp: add_aborted cancel_inv cancel_aborted)

lemma has_after_add: "inv t \<Longrightarrow> has l (add i l t)"
  by (simp add: has_view add_inv add_view ran_def) (metis fun_upd_same)

lemma has_after_remove:
  "inv t \<Longrightarrow> has l (remove i t) \<longleftrightarrow> (\<exists>j. j \<noteq> i \<and> view t j = Some l)"
  by (auto simp: has_view remove_inv remove_view ran_def)

end

section \<open>The registry keeps the contract\<close>

definition rm_inv :: "request_manager \<Rightarrow> bool" where
  "rm_inv rm \<longleftrightarrow> distinct (map fst (pendingRequests rm))"

definition rm_view :: "request_manager \<Rightarrow> (string \<rightharpoonup> string)" where
  "rm_view rm = map_of (pendingRequests rm)"

definition rm_aborted :: "request_manager \<Rightarrow> string set" where
  "rm_aborted rm = set (abortedRequests rm)"

lemma map_of_removeKey [simp]: "map_of (removeKey k kvs) = (map_of kvs)(k := None)"
  by (induction kvs) (auto simp: removeKey_def fun_eq_iff)

lemma distinct_removeKey: "distinct (map fst kvs) \<Longrightarrow> distinct (map fst (removeKey k kvs))"
  by (simp add: removeKey_def distinct_map_filter)

lemma rm_init_inv [simp]: "rm_inv rm_init"
  by (simp add: rm_inv_def rm_init_def)

lemma pending_view: "rm_inv rm \<Longrightarrow> (i, l) \<in> set (pendingRequests rm) \<longleftrightarrow> rm_view rm i = Some l"
  by (simp add: rm_inv_def rm_view_def)

lemma cancelPendingRequest_pending:
  "rm_view rm i = Some l \<Longrightarrow> cancelPendingRequest i rm =
    Inr (rm\<lparr>pendingRequests := removeKey i (pendingRequests rm),
           abortedRequests := i # abortedRequests rm\<rparr>)"
  by (simp add: cancelPendingRequest_def removePendingRequest_def rm_view_def)

text \<open>
  A loop of cancellations over entries with distinct, pending ids: every one of them succeeds.
  \<open>P\<close> selects the entries to cancel.
\<close>

lemma cancel_loop:
  assumes "distinct (map fst es)" "\<And>i l. (i, l) \<in> set es \<Longrightarrow> rm_view rm i = Some l" "rm_inv rm"
  shows "\<exists>rm'. foldM_js (\<lambda>rm (i, l). if P l then cancelPendingRequest i rm else Inr rm) rm es = Inr rm'
    \<and> rm_inv rm'
    \<and> rm_view rm' = (\<lambda>i. if \<exists>l. (i, l) \<in> set es \<and> P l then None else rm_view rm i)
    \<and> rm_aborted rm' = rm_aborted rm \<union> {i. \<exists>l. (i, l) \<in> set es \<and> P l}
    \<and> affectedRequests rm' = affectedRequests rm"
  using assms
proof (induction es arbitrary: rm)
  case (Cons e es)
  obtain i l where e: "e = (i, l)" by (cases e)
  let ?rm1 = "if P l then rm\<lparr>pendingRequests := removeKey i (pendingRequests rm),
           abortedRequests := i # abortedRequests rm\<rparr> else rm"
  have step: "(if P l then cancelPendingRequest i rm else Inr rm) = Inr ?rm1"
    using Cons.prems(2) [of i l] by (simp add: e cancelPendingRequest_pending)
  have other: "rm_view ?rm1 j = Some m" if "(j, m) \<in> set es" for j m
    using Cons.prems(1,2) that by (force simp: e rm_view_def)
  have inv: "rm_inv ?rm1"
    using Cons.prems(3) by (simp add: rm_inv_def distinct_removeKey)
  from Cons.IH [OF _ other inv] Cons.prems(1)
  obtain rm' where rm': "foldM_js (\<lambda>rm (i, l). if P l then cancelPendingRequest i rm else Inr rm) ?rm1 es = Inr rm'"
    "rm_inv rm'" "rm_view rm' = (\<lambda>i. if \<exists>l. (i, l) \<in> set es \<and> P l then None else rm_view ?rm1 i)"
    "rm_aborted rm' = rm_aborted ?rm1 \<union> {i. \<exists>l. (i, l) \<in> set es \<and> P l}"
    "affectedRequests rm' = affectedRequests ?rm1" by (auto simp: e)
  have "rm_view rm' = (\<lambda>j. if \<exists>m. (j, m) \<in> set (e # es) \<and> P m then None else rm_view rm j)"
    unfolding rm'(3) by (auto simp: e rm_view_def fun_eq_iff)
  moreover have "rm_aborted rm' = rm_aborted rm \<union> {j. \<exists>m. (j, m) \<in> set (e # es) \<and> P m}"
    unfolding rm'(4) by (auto simp: e rm_aborted_def)
  ultimately show ?case using rm'(1,2,5) by (simp add: e step)
qed (simp add: fun_eq_iff)

lemma cancelPrevious_spec:
  assumes "rm_inv rm"
  shows "\<exists>rm'. cancelPreviousPendingRequests label rm = Inr rm' \<and> rm_inv rm'
    \<and> rm_view rm' = (\<lambda>i. if rm_view rm i = Some label then None else rm_view rm i)
    \<and> rm_aborted rm' = rm_aborted rm \<union> {i. rm_view rm i = Some label}
    \<and> affectedRequests rm' = affectedRequests rm"
  using cancel_loop [of "pendingRequests rm" rm "\<lambda>l. l = label"] assms
  by (auto simp: cancelPreviousPendingRequests_def rm_inv_def pending_view [OF assms])

lemma cancelAll_spec:
  assumes "rm_inv rm"
  shows "\<exists>rm'. cancelAllPendingRequests rm = Inr rm' \<and> rm_inv rm' \<and> rm_view rm' = Map.empty
    \<and> rm_aborted rm' = rm_aborted rm \<union> dom (rm_view rm)
    \<and> affectedRequests rm' = affectedRequests rm"
proof -
  have "(\<exists>l. (i, l) \<in> set (pendingRequests rm)) \<longleftrightarrow> rm_view rm i \<noteq> None" for i
    using assms by (auto simp: pending_view)
  with cancel_loop [of "pendingRequests rm" rm "\<lambda>l. True"] assms show ?thesis
    by (auto simp: cancelAllPendingRequests_def rm_inv_def pending_view [OF assms] fun_eq_iff dom_def)
qed

lemma hasPending_view: "rm_inv rm \<Longrightarrow> hasPendingRequest l rm \<longleftrightarrow> l \<in> ran (rm_view rm)"
  by (auto simp: hasPendingRequest_def list_ex_iff pending_view ran_def)

interpretation rm: request_tracker rm_inv rm_view rm_aborted
    hasPendingRequest addPendingRequest removePendingRequest cancelPreviousPendingRequests
proof
  fix t t' :: request_manager and i l :: string
  assume inv: "rm_inv t"
  show "hasPendingRequest l t \<longleftrightarrow> l \<in> ran (rm_view t)" using inv by (rule hasPending_view)
  show "rm_inv (addPendingRequest i l t)" "rm_inv (removePendingRequest i t)"
    using inv by (simp_all add: rm_inv_def addPendingRequest_def removePendingRequest_def
        distinct_update distinct_removeKey)
  show "rm_view (addPendingRequest i l t) = (rm_view t)(i \<mapsto> l)"
    "rm_view (removePendingRequest i t) = (rm_view t)(i := None)"
    by (simp_all add: rm_view_def addPendingRequest_def removePendingRequest_def update_conv')
  show "rm_aborted (addPendingRequest i l t) = rm_aborted t - {i}"
    "rm_aborted (removePendingRequest i t) = rm_aborted t"
    by (auto simp: rm_aborted_def addPendingRequest_def removePendingRequest_def)
  show "\<exists>t'. cancelPreviousPendingRequests l t = Inr t'"
    using cancelPrevious_spec [OF inv] by blast
  assume "cancelPreviousPendingRequests l t = Inr t'"
  with cancelPrevious_spec [OF inv, of l] show "rm_inv t'"
    "rm_view t' = (\<lambda>i. if rm_view t i = Some l then None else rm_view t i)"
    "rm_aborted t' = rm_aborted t \<union> {i. rm_view t i = Some l}"
    by auto
qed

text \<open>The affected labels of a source accumulate over its requests.\<close>

lemma set_set_add [simp]: "set (set_add xs x) = insert x (set xs)"
  by (auto simp: set_add_def)

lemma addAffected_labels:
  "set (getAffectedRequests l (addAffectedRequest s ls rm)) =
    (if l = s then set ls else {}) \<union> set (getAffectedRequests l rm)"
proof (induction ls arbitrary: rm)
  case (Cons x ls)
  show ?case
    unfolding addAffectedRequest_def fold_simps comp_def Cons.IH [unfolded addAffectedRequest_def]
    by (auto simp: getAffectedRequests_def)
qed (simp add: addAffectedRequest_def)

lemma addAffected_frame [simp]:
  "pendingRequests (addAffectedRequest s ls rm) = pendingRequests rm"
  "abortedRequests (addAffectedRequest s ls rm) = abortedRequests rm"
  unfolding addAffectedRequest_def by (induction ls arbitrary: rm) auto

end
