(* ===== verification/SuccessCodes.thy ===== *)
theory SuccessCodes
  imports ApiUtils
begin

text \<open>
  \<open>utils/successCodes.ts\<close>: the alert shown after a successful request, its code, the values
  its message interpolates, and its severity, looked up by the label of the request.
\<close>

record success_settings =
  ss_code :: string
  ss_getMessageParams :: "(jsval \<Rightarrow> jsval \<Rightarrow> jsval \<Rightarrow> jsval js) option"
  ss_getSeverity :: "(jsval \<Rightarrow> jsval \<Rightarrow> jsval \<Rightarrow> jsval js) option"

definition SEVERITY_ERROR :: jsval where "SEVERITY_ERROR = Str ''error''"
definition SEVERITY_SUCCESS :: jsval where "SEVERITY_SUCCESS = Str ''success''"

lemmas severity_defs = SEVERITY_ERROR_def SEVERITY_SUCCESS_def

definition defaultSettings :: success_settings where
  "defaultSettings = \<lparr>ss_code = ''FE0000'', ss_getMessageParams = None, ss_getSeverity = None\<rparr>"

definition with_code :: "string \<Rightarrow> success_settings" where
  "with_code c = \<lparr>ss_code = c, ss_getMessageParams = None, ss_getSeverity = None\<rparr>"

text \<open>\<open>response.data?.k?.length\<close>.\<close>

definition response_length :: "string \<Rightarrow> jsval \<Rightarrow> jsval js" where
  "response_length k resp = map_js (\<lambda>data. opt_prop (opt_prop data k) ''length'') (get_prop resp ''data'')"

text \<open>
  \<open>+\<close> of two numbers, and otherwise the concatenation of the texts (the lists of a response
  have numeric lengths; the sum of other values that are not strings is not modelled).
\<close>

definition js_add :: "jsval \<Rightarrow> jsval \<Rightarrow> jsval" where
  "js_add a b = (case (a, b) of (Num x, Num y) \<Rightarrow> Num (x + y) | _ \<Rightarrow> Str (to_str a @ to_str b))"

definition bulk_severity :: "jsval \<Rightarrow> jsval \<Rightarrow> jsval \<Rightarrow> jsval js" where
  "bulk_severity params resp payload =
     map_js (\<lambda>n. if strict_eq n (Num 0) then SEVERITY_ERROR else SEVERITY_SUCCESS)
       (response_length ''succeeded'' resp)"

definition bulk_message_params :: "jsval \<Rightarrow> jsval \<Rightarrow> jsval \<Rightarrow> jsval js" where
  "bulk_message_params params resp payload =
     bind_js (response_length ''succeeded'' resp) (\<lambda>s.
     map_js (\<lambda>u. let successfully = js_coalesce s (Num 0); unsuccessfully = js_coalesce u (Num 0) in
         Arr [successfully, js_add successfully unsuccessfully])
       (response_length ''failed'' resp))"

definition bulk_settings :: "string \<Rightarrow> success_settings" where
  "bulk_settings c = \<lparr>ss_code = c, ss_getMessageParams = Some bulk_message_params,
     ss_getSeverity = Some bulk_severity\<rparr>"

definition invitations_params :: "jsval \<Rightarrow> jsval \<Rightarrow> jsval \<Rightarrow> jsval js" where
  "invitations_params params resp payload =
     bind_js (get_prop params ''invites'') (\<lambda>invites.
     if nullish invites then Inl TypeError
     else Inr (Arr [Num (of_nat (length (own_props invites)))]))"

definition labelToSuccessSettingsMap :: "(string \<times> success_settings) list" where
  "labelToSuccessSettingsMap =
    [(''UPLOAD_CLOUD_REPORT'', with_code ''FE0001''),
     (''UPLOAD_CODE_REPORT'', with_code ''FE0001''),
     (''CREATE_INVITATIONS'', (with_code ''FE0003'')\<lparr>ss_getMessageParams := Some invitations_params\<rparr>),
     (''MARK_RESOURCES_AS_ENVIRONMENTS'', bulk_settings ''FE0006''),
     (''CREATE_ASSIGNMENT_RULE'', (with_code ''FE0007'')
       \<lparr>ss_getMessageParams := Some (\<lambda>params _ _. map_js (\<lambda>name. Arr [name]) (get_prop params ''name''))\<rparr>),
     (''DELETE_EMPLOYEE'', with_code ''FE0008''),
     (''UPDATE_ORGANIZATION_OPTION'', with_code ''FE0009''),
     (''UPDATE_OPTIMIZATION_OPTIONS'', (with_code ''FE0010'')
       \<lparr>ss_getMessageParams := Some (\<lambda>_ _ payload. map_js (\<lambda>t. Arr [t]) (get_prop payload ''settingType''))\<rparr>),
     (''STOP_ML_RUNSET'', with_code ''FE0011''),
     (''ATTACH_INSTANCES_TO_SCHEDULE'', bulk_settings ''FE0012''),
     (''REMOVE_INSTANCES_FROM_SCHEDULE'', bulk_settings ''FE0013'')]"

definition getSuccessAlertSettingsByLabel :: "string \<Rightarrow> success_settings" where
  "getSuccessAlertSettingsByLabel label =
     (case map_of labelToSuccessSettingsMap label of Some s \<Rightarrow> s | None \<Rightarrow> defaultSettings)"

definition messageParams :: "success_settings \<Rightarrow> jsval \<Rightarrow> jsval \<Rightarrow> jsval \<Rightarrow> jsval js" where
  "messageParams s params resp payload =
     (case ss_getMessageParams s of Some f \<Rightarrow> f params resp payload | None \<Rightarrow> Inr (Arr []))"

definition alertSeverity :: "success_settings \<Rightarrow> jsval \<Rightarrow> jsval \<Rightarrow> jsval \<Rightarrow> jsval js" where
  "alertSeverity s params resp payload =
     (case ss_getSeverity s of Some f \<Rightarrow> f params resp payload | None \<Rightarrow> Inr SEVERITY_SUCCESS)"

section \<open>Bulk operations report what failed\<close>

lemma response_length_list:
  "opt_prop d k = Arr vs \<Longrightarrow>
    response_length k (Obj [(''data'', d)]) = Inr (Num (of_nat (length vs)))"
  by (simp add: response_length_def opt_prop_def split: sum.splits)

lemma bulk_message_params_lists:
  assumes "resp = Obj [(''data'', d)]" "opt_prop d ''succeeded'' = Arr ss" "opt_prop d ''failed'' = Arr fs"
  shows "bulk_message_params params resp payload =
      Inr (Arr [Num (of_nat (length ss)), Num (of_nat (length ss + length fs))])"
    and "bulk_severity params resp payload =
      Inr (if ss = [] then SEVERITY_ERROR else SEVERITY_SUCCESS)"
  using assms
  by (simp_all add: bulk_message_params_def bulk_severity_def response_length_list js_coalesce_def
      js_add_def strict_eq_def)

lemma bulk_labels:
  "getSuccessAlertSettingsByLabel ''MARK_RESOURCES_AS_ENVIRONMENTS'' = bulk_settings ''FE0006''"
  "getSuccessAlertSettingsByLabel ''ATTACH_INSTANCES_TO_SCHEDULE'' = bulk_settings ''FE0012''"
  "getSuccessAlertSettingsByLabel ''REMOVE_INSTANCES_FROM_SCHEDULE'' = bulk_settings ''FE0013''"
  by (simp_all add: getSuccessAlertSettingsByLabel_def labelToSuccessSettingsMap_def)

lemma bulk_label_settings:
  "l \<in> {''MARK_RESOURCES_AS_ENVIRONMENTS'', ''ATTACH_INSTANCES_TO_SCHEDULE'', ''REMOVE_INSTANCES_FROM_SCHEDULE''}
    \<Longrightarrow> \<exists>c. getSuccessAlertSettingsByLabel l = bulk_settings c"
  by (elim insertE emptyE) (simp_all only: bulk_labels, blast+)

lemma bulk_settings_report:
  "messageParams (bulk_settings c) = bulk_message_params"
  "alertSeverity (bulk_settings c) = bulk_severity"
  by (simp_all add: fun_eq_iff messageParams_def alertSeverity_def bulk_settings_def)

end
