(* ===== verification/Middleware.thy ===== *)
theory Middleware
  imports Store RequestManager SuccessCodes
begin

text \<open>
  \<open>middleware/api.ts\<close>: what dispatching a request does, and the callbacks that run when the
  transport (axios) settles it.  A request goes through the phases

    Queued \<rightarrow> Flying \<rightarrow> Responded or Failed \<rightarrow> Settled \<rightarrow> Finished

  one microtask at a time, interleaved with those of other requests, with actions of the user
  interface and with the clock.  The transport is the environment of the step relation: any
  response or failure may arrive for a request whose signal was not aborted, and an aborted
  request in flight can only fail.  Request ids (\<open>uuid\<close>) are fresh.
\<close>

section \<open>The request handed to the transport\<close>

record axios_config =
  cf_url :: string
  cf_method :: string
  cf_headers :: obj
  cf_authorization :: string
  cf_label :: string
  cf_params :: "jsval option"
  cf_data :: "jsval option"
  cf_affectedRequests :: "string list"

text \<open>\<open>state?.initial ?? {}\<close> is the slice \<open>st_initial\<close>; the parameters of GET and DELETE go to
  the query string, those of the other methods to the body.\<close>

definition build_config :: "api_request \<Rightarrow> store \<Rightarrow> axios_config" where
  "build_config rq st =
     (let accessToken = obj_get (st_initial st) ''token'';
        inQuery = rq_method rq \<in> {''GET'', ''DELETE''}
      in \<lparr>cf_url = rq_url rq, cf_method = rq_method rq, cf_headers = rq_headersOverride rq,
          cf_authorization = ''Bearer '' @ to_str accessToken, cf_label = rq_label rq,
          cf_params = (if inQuery then Some (rq_params rq) else None),
          cf_data = (if inQuery then None else Some (rq_params rq)),
          cf_affectedRequests = rq_affectedRequests rq\<rparr>)"

section \<open>State\<close>

text \<open>What reaches the catch callback: an error that carries the server's response, one that does
  not (with the URL of its config), or an exception of the then callback.\<close>

datatype failure = HttpError jsval | NoResponse string | Thrown js_error

datatype phase = Queued | Flying | Responded jsval | Failed failure | Settled | Finished

record flight =
  fl_request :: api_request
  fl_config :: axios_config
  fl_userEmail :: jsval
  fl_phase :: phase

record world =
  w_store :: store
  w_requests :: request_manager
  w_flights :: "string \<rightharpoonup> flight"
  w_now :: int

definition world_init :: "int \<Rightarrow> world" where
  "world_init now = \<lparr>w_store = store_init, w_requests = rm_init, w_flights = Map.empty, w_now = now\<rparr>"

definition fl_label :: "flight \<Rightarrow> string" where
  "fl_label fl = rq_label (fl_request fl)"

section \<open>Operations\<close>

text \<open>The middleware on an action of type API.\<close>

definition handle_request ::
  "(jsval \<Rightarrow> jsval js) \<Rightarrow> string \<Rightarrow> api_request \<Rightarrow> world \<Rightarrow> world js" where
  "handle_request cav requestId rq w =
     bind_js (root_reducer cav (w_now w) (w_store w) (API rq)) (\<lambda>st.
     let label = rq_label rq; rm = w_requests w in
     if label = '''' then Inr (w\<lparr>w_store := st\<rparr>)
     else
       bind_js (if \<not> rq_allowMultipleRequests rq \<and> hasPendingRequest label rm
                then cancelPreviousPendingRequests label rm else Inr rm) (\<lambda>rm'.
       map_js (\<lambda>st'. w
          \<lparr>w_store := st',
           w_requests := addPendingRequest requestId label rm',
           w_flights := (w_flights w)(requestId \<mapsto>
             \<lparr>fl_request = rq, fl_config = build_config rq st,
              fl_userEmail = obj_get (st_initial st) ''user_email'', fl_phase = Queued\<rparr>)\<rparr>)
         (root_reducer cav (w_now w) st (Api (apiStart label (rq_hash rq) (rq_entityId rq))))))"

text \<open>Dispatches in sequence, up to the first that throws.\<close>

fun dispatch_all ::
  "(jsval \<Rightarrow> jsval js) \<Rightarrow> int \<Rightarrow> store \<Rightarrow> redux_action list \<Rightarrow> store \<times> js_error option" where
  "dispatch_all cav now st [] = (st, None)"
| "dispatch_all cav now st (a # as) =
     (case root_reducer cav now st a of
        Inl e \<Rightarrow> (st, Some e)
      | Inr st' \<Rightarrow> dispatch_all cav now st' as)"

definition success_action :: "api_request \<Rightarrow> jsval \<Rightarrow> redux_action js" where
  "success_action rq resp =
     (let settings = getSuccessAlertSettingsByLabel (rq_label rq) in
      bind_js (messageParams settings (rq_params rq) resp (rq_successHandlerPayload rq)) (\<lambda>mp.
      map_js (\<lambda>severity. Api (apiSuccess
          \<lparr>sp_label = rq_label rq, sp_response = resp, sp_ttl = rq_ttl rq,
           sp_successHandlerType = rq_successHandlerType rq, sp_messageParams = mp,
           sp_alertSeverity = severity, sp_code = Str (ss_code settings)\<rparr>))
        (alertSeverity settings (rq_params rq) resp (rq_successHandlerPayload rq))))"

definition then_callback ::
  "(jsval \<Rightarrow> jsval js) \<Rightarrow> int \<Rightarrow> request_manager \<Rightarrow> api_request \<Rightarrow> jsval \<Rightarrow> store \<Rightarrow> store \<times> js_error option" where
  "then_callback cav now rm rq resp st =
     (case (case rq_onSuccess rq of
              None \<Rightarrow> Inr st
            | Some onSuccess \<Rightarrow> bind_js (get_prop resp ''data'') (\<lambda>data.
                root_reducer cav now st (Data (onSuccess data (rq_label rq))))) of
        Inl e \<Rightarrow> (st, Some e)
      | Inr st1 \<Rightarrow>
         (case dispatch_all cav now st1
                 (map (\<lambda>apiLabel. Api (resetTtl apiLabel)) (getAffectedRequests (rq_label rq) rm)) of
            (st2, Some e) \<Rightarrow> (st2, Some e)
          | (st2, None) \<Rightarrow>
             (case bind_js (success_action rq resp) (root_reducer cav now st2) of
                Inl e \<Rightarrow> (st2, Some e)
              | Inr st3 \<Rightarrow> (st3, None))))"

text \<open>\<open>signOut\<close> of \<open>utils/api.ts\<close>, less its write to the address bar.\<close>

definition signOut ::
  "(jsval \<Rightarrow> jsval js) \<Rightarrow> int \<Rightarrow> store \<times> request_manager \<Rightarrow> (store \<times> request_manager) js" where
  "signOut cav now = (\<lambda>(st, rm).
     bind_js (root_reducer cav now st RESET) (\<lambda>st'.
     map_js (\<lambda>rm'. (st', rm')) (cancelAllPendingRequests rm)))"

definition no_response :: "string \<Rightarrow> jsval" where
  "no_response url = Obj [(''config'', Obj [(''url'', Str url), (''params'', Obj [])])]"

text \<open>A dispatch at the end of a callback; when it throws the store is unchanged and the promise
  of the caller is rejected.\<close>

definition dispatch_last :: "(jsval \<Rightarrow> jsval js) \<Rightarrow> int \<Rightarrow> redux_action \<Rightarrow> store \<Rightarrow> store" where
  "dispatch_last cav now a st = (case root_reducer cav now st a of Inl e \<Rightarrow> st | Inr st' \<Rightarrow> st')"

text \<open>An exception of the then callback has no \<open>config\<close>: reading \<open>error.config.url\<close> throws, and
  nothing is dispatched.\<close>

definition catch_callback ::
  "(jsval \<Rightarrow> jsval js) \<Rightarrow> int \<Rightarrow> api_request \<Rightarrow> failure \<Rightarrow> store \<times> request_manager \<Rightarrow> store \<times> request_manager" where
  "catch_callback cav now rq f = (\<lambda>(st, rm).
     case f of
       Thrown e \<Rightarrow> (st, rm)
     | NoResponse url \<Rightarrow>
         (dispatch_last cav now
            (Api (apiError (rq_label rq) (no_response url) (rq_errorHandlerType rq))) st, rm)
     | HttpError resp \<Rightarrow>
         (case (if opt_prop resp ''status'' = Num 401 then signOut cav now (st, rm) else Inr (st, rm)) of
            Inl e \<Rightarrow> (st, rm)
          | Inr (st', rm') \<Rightarrow>
             (dispatch_last cav now
                (Api (apiError (rq_label rq) resp (rq_errorHandlerType rq))) st', rm')))"

definition finally_callback ::
  "(jsval \<Rightarrow> jsval js) \<Rightarrow> int \<Rightarrow> string \<Rightarrow> string \<Rightarrow> store \<times> request_manager \<Rightarrow> store \<times> request_manager" where
  "finally_callback cav now requestId label = (\<lambda>(st, rm).
     let rm' = removePendingRequest requestId rm in
     (if \<not> hasPendingRequest label rm' then dispatch_last cav now (Api (apiEnd label)) st else st, rm'))"

section \<open>Steps\<close>

definition set_phase :: "string \<Rightarrow> phase \<Rightarrow> world \<Rightarrow> world" where
  "set_phase i p w = w\<lparr>w_flights :=
     (w_flights w)(i := map_option (\<lambda>fl. fl\<lparr>fl_phase := p\<rparr>) (w_flights w i))\<rparr>"

definition do_intercept :: "string \<Rightarrow> flight \<Rightarrow> world \<Rightarrow> world" where
  "do_intercept i fl w = set_phase i Flying
     (w\<lparr>w_requests := addAffectedRequest (cf_label (fl_config fl)) (cf_affectedRequests (fl_config fl))
        (w_requests w)\<rparr>)"

definition do_then :: "(jsval \<Rightarrow> jsval js) \<Rightarrow> string \<Rightarrow> flight \<Rightarrow> jsval \<Rightarrow> world \<Rightarrow> world" where
  "do_then cav i fl resp w =
     (case then_callback cav (w_now w) (w_requests w) (fl_request fl) resp (w_store w) of
        (st, e) \<Rightarrow> set_phase i (case e of None \<Rightarrow> Settled | Some e \<Rightarrow> Failed (Thrown e)) (w\<lparr>w_store := st\<rparr>))"

definition do_catch :: "(jsval \<Rightarrow> jsval js) \<Rightarrow> string \<Rightarrow> flight \<Rightarrow> failure \<Rightarrow> world \<Rightarrow> world" where
  "do_catch cav i fl f w =
     (case catch_callback cav (w_now w) (fl_request fl) f (w_store w, w_requests w) of
        (st, rm) \<Rightarrow> set_phase i Settled (w\<lparr>w_store := st, w_requests := rm\<rparr>))"

definition do_finally :: "(jsval \<Rightarrow> jsval js) \<Rightarrow> string \<Rightarrow> flight \<Rightarrow> world \<Rightarrow> world" where
  "do_finally cav i fl w =
     (case finally_callback cav (w_now w) i (fl_label fl) (w_store w, w_requests w) of
        (st, rm) \<Rightarrow> set_phase i Finished (w\<lparr>w_store := st, w_requests := rm\<rparr>))"

text \<open>
  \<open>bare\<close> says whether components may dispatch \<open>reset()\<close> without cancelling the pending requests
  (as the live demo pages do) besides through \<open>signOut\<close>.
\<close>

inductive step :: "(jsval \<Rightarrow> jsval js) \<Rightarrow> bool \<Rightarrow> world \<Rightarrow> world \<Rightarrow> bool"
  for cav :: "jsval \<Rightarrow> jsval js" and bare :: bool where
  request: "w_flights w i = None \<Longrightarrow> handle_request cav i rq w = Inr w' \<Longrightarrow> step cav bare w w'"
| intercept: "w_flights w i = Some fl \<Longrightarrow> fl_phase fl = Queued \<Longrightarrow>
    step cav bare w (do_intercept i fl w)"
| respond: "w_flights w i = Some fl \<Longrightarrow> fl_phase fl = Flying \<Longrightarrow> i \<notin> rm_aborted (w_requests w) \<Longrightarrow>
    step cav bare w (set_phase i (Responded resp) w)"
| fail: "w_flights w i = Some fl \<Longrightarrow> fl_phase fl = Flying \<Longrightarrow> i \<notin> rm_aborted (w_requests w) \<Longrightarrow>
    f = HttpError resp \<or> f = NoResponse (cf_url (fl_config fl)) \<Longrightarrow>
    step cav bare w (set_phase i (Failed f) w)"
| abort: "w_flights w i = Some fl \<Longrightarrow> fl_phase fl = Flying \<Longrightarrow> i \<in> rm_aborted (w_requests w) \<Longrightarrow>
    step cav bare w (set_phase i (Failed (NoResponse (cf_url (fl_config fl)))) w)"
| then_cb: "w_flights w i = Some fl \<Longrightarrow> fl_phase fl = Responded resp \<Longrightarrow>
    step cav bare w (do_then cav i fl resp w)"
| catch_cb: "w_flights w i = Some fl \<Longrightarrow> fl_phase fl = Failed f \<Longrightarrow>
    step cav bare w (do_catch cav i fl f w)"
| finally_cb: "w_flights w i = Some fl \<Longrightarrow> fl_phase fl = Settled \<Longrightarrow>
    step cav bare w (do_finally cav i fl w)"
| tick: "0 \<le> d \<Longrightarrow> step cav bare w (w\<lparr>w_now := w_now w + d\<rparr>)"
| ui: "root_reducer cav (w_now w) (w_store w) (Ui a) = Inr st \<Longrightarrow> step cav bare w (w\<lparr>w_store := st\<rparr>)"
| refetch: "root_reducer cav (w_now w) (w_store w) (Api (resetTtl l)) = Inr st \<Longrightarrow>
    step cav bare w (w\<lparr>w_store := st\<rparr>)"
| sign_out: "signOut cav (w_now w) (w_store w, w_requests w) = Inr (st, rm) \<Longrightarrow>
    step cav bare w (w\<lparr>w_store := st, w_requests := rm\<rparr>)"
| bare_reset: "bare \<Longrightarrow> root_reducer cav (w_now w) (w_store w) RESET = Inr st \<Longrightarrow>
    step cav bare w (w\<lparr>w_store := st\<rparr>)"

definition reachable :: "(jsval \<Rightarrow> jsval js) \<Rightarrow> bool \<Rightarrow> world \<Rightarrow> bool" where
  "reachable cav bare w \<longleftrightarrow> (\<exists>now. (step cav bare)\<^sup>*\<^sup>* (world_init now) w)"

lemma reachable_induct [consumes 1, case_names init step]:
  assumes "reachable cav bare w"
    and "\<And>now. P (world_init now)"
    and "\<And>w w'. reachable cav bare w \<Longrightarrow> P w \<Longrightarrow> step cav bare w w' \<Longrightarrow> P w'"
  shows "P w"
proof -
  obtain now where run: "(step cav bare)\<^sup>*\<^sup>* (world_init now) w"
    using assms(1) by (auto simp: reachable_def)
  then show ?thesis
    by induction (use assms(2,3) in \<open>auto simp: reachable_def\<close>)
qed

end
