(* ===== verification/MiddlewareInv.thy ===== *)
theory MiddlewareInv
  imports Middleware
begin

text \<open>
  The invariants of the request life cycle: the registry, the phases of the requests and the
  loading flags agree in every reachable world.
\<close>

section \<open>What the callbacks leave alone\<close>

definition loading :: "store \<Rightarrow> string \<Rightarrow> bool" where
  "loading st l \<longleftrightarrow> isLoading (entry_of (st_api st) l) = Some True"

text \<open>Two stores agree on what the start and the end of requests write.\<close>

definition same_flags :: "store \<Rightarrow> store \<Rightarrow> bool" where
  "same_flags st st' \<longleftrightarrow> (\<forall>l.
     isLoading (entry_of (st_api st') l) = isLoading (entry_of (st_api st) l)
     \<and> hash (entry_of (st_api st') l) = hash (entry_of (st_api st) l)
     \<and> entityId (entry_of (st_api st') l) = entityId (entry_of (st_api st) l))"

lemma same_flags_refl [simp, intro]: "same_flags st st"
  by (simp add: same_flags_def)

lemma same_flags_trans: "same_flags a b \<Longrightarrow> same_flags b c \<Longrightarrow> same_flags a c"
  by (simp add: same_flags_def)

lemma same_flags_api: "st_api st' = st_api st \<Longrightarrow> same_flags st st'"
  by (simp add: same_flags_def)

lemma same_flags_loading: "same_flags st st' \<Longrightarrow> loading st' l = loading st l"
  by (simp add: same_flags_def loading_def)

lemma same_flags_hash: "same_flags st st' \<Longrightarrow> hash (entry_of (st_api st') l) = hash (entry_of (st_api st) l)"
  by (simp add: same_flags_def)

lemma reset_ttl_dispatch:
  "\<exists>st'. root_reducer cav now st (Api (resetTtl l)) = Inr st' \<and> same_flags st st'
    \<and> data_slices st' = data_slices st \<and> st_api st' = on_reset_ttl (st_api st) l"
  using root_api_total [of now st "resetTtl l" "on_reset_ttl (st_api st) l" cav]
  by (auto simp: resetTtl_def same_flags_def dest: root_api_action)

text \<open>The loop over the affected labels never throws, and expires exactly those labels.\<close>

lemma reset_loop:
  "\<exists>st'. dispatch_all cav now st (map (\<lambda>l. Api (resetTtl l)) ls) = (st', None) \<and> same_flags st st'
    \<and> data_slices st' = data_slices st
    \<and> (\<forall>l. entry_of (st_api st') l =
        (if l \<in> set ls then (entry_of (st_api st) l)\<lparr>timestamp := Some 0\<rparr> else entry_of (st_api st) l))"
proof (induction ls arbitrary: st)
  case (Cons l ls)
  obtain st1 where st1: "root_reducer cav now st (Api (resetTtl l)) = Inr st1" "same_flags st st1"
    "data_slices st1 = data_slices st" "st_api st1 = on_reset_ttl (st_api st) l"
    using reset_ttl_dispatch by blast
  obtain st' where st': "dispatch_all cav now st1 (map (\<lambda>l. Api (resetTtl l)) ls) = (st', None)"
    "same_flags st1 st'" "data_slices st' = data_slices st1"
    "\<forall>k. entry_of (st_api st') k =
        (if k \<in> set ls then (entry_of (st_api st1) k)\<lparr>timestamp := Some 0\<rparr> else entry_of (st_api st1) k)"
    using Cons.IH by blast
  have "same_flags st st'" using st1(2) st'(2) by (rule same_flags_trans)
  with st1 st' show ?case by auto
qed auto

lemma success_dispatch:
  assumes "bind_js (success_action rq resp) (root_reducer cav now st) = Inr st'"
  shows "same_flags st st'" "data_slices st' = data_slices st"
    "timestamp (entry_of (st_api st') (rq_label rq)) = Some (now + rq_ttl rq)"
    "map_option isError (status (entry_of (st_api st') (rq_label rq))) = Some False"
    "l \<noteq> rq_label rq \<Longrightarrow> entry_of (st_api st') l = entry_of (st_api st) l"
proof -
  obtain p where p: "sp_label p = rq_label rq" "sp_ttl p = rq_ttl rq"
    "root_reducer cav now st (Api (API_SUCCESS p)) = Inr st'"
    using assms that unfolding success_action_def Let_def bind_js_Inr_iff map_js_Inr_iff apiSuccess_def
    by (metis success_payload.select_convs(1,3))
  from root_api_action [OF p(3)] have api: "on_success now (st_api st) p = Inr (st_api st')"
    and data: "data_slices st' = data_slices st" by simp_all
  note entry = on_success_entry [OF api]
  show "same_flags st st'" by (simp add: same_flags_def entry)
  show "data_slices st' = data_slices st" by (rule data)
  show "timestamp (entry_of (st_api st') (rq_label rq)) = Some (now + rq_ttl rq)"
    "map_option isError (status (entry_of (st_api st') (rq_label rq))) = Some False"
    using entry(5,6) p(1,2) by simp_all
  show "l \<noteq> rq_label rq \<Longrightarrow> entry_of (st_api st') l = entry_of (st_api st) l"
    using entry(4) p(1) by simp
qed

lemma then_flags:
  assumes "then_callback cav now rm rq resp st = (st', e)"
  shows "same_flags st st'"
proof -
  define first where "first = (case rq_onSuccess rq of None \<Rightarrow> Inr st
    | Some onSuccess \<Rightarrow> bind_js (get_prop resp ''data'') (\<lambda>data.
        root_reducer cav now st (Data (onSuccess data (rq_label rq)))))"
  show ?thesis
  proof (cases first)
    case (Inl e')
    with assms show ?thesis by (simp add: then_callback_def first_def)
  next
    case (Inr st1)
    then have f1: "same_flags st st1"
      by (auto simp: first_def bind_js_Inr_iff intro!: same_flags_api dest!: root_data_action
          split: option.splits)
    obtain st2 where st2: "dispatch_all cav now st1
        (map (\<lambda>l. Api (resetTtl l)) (getAffectedRequests (rq_label rq) rm)) = (st2, None)"
      "same_flags st1 st2" using reset_loop by blast
    have "same_flags st2 st'"
      using assms Inr st2(1) success_dispatch(1)
      by (auto simp: then_callback_def first_def [symmetric] split: sum.splits)
    with f1 st2(2) show ?thesis by (blast intro: same_flags_trans)
  qed
qed

lemma dispatch_last_error:
  "same_flags st (dispatch_last cav now (Api (apiError l r t)) st)
    \<and> data_slices (dispatch_last cav now (Api (apiError l r t)) st) = data_slices st"
  by (auto simp: dispatch_last_def apiError_def same_flags_def on_error_entry
      dest!: root_api_action split: sum.splits)

lemma dispatch_last_error_loading [simp]:
  "loading (dispatch_last cav now (Api (apiError l r t)) st) l' = loading st l'"
  using dispatch_last_error by (rule same_flags_loading [OF conjunct1])

lemma dispatch_last_end:
  "loading (dispatch_last cav now (Api (apiEnd l)) st) l' \<longleftrightarrow> l' \<noteq> l \<and> loading st l'"
  "data_slices (dispatch_last cav now (Api (apiEnd l)) st) = data_slices st"
  "hash (entry_of (st_api (dispatch_last cav now (Api (apiEnd l)) st)) l') = hash (entry_of (st_api st) l')"
  using root_api_total [of now st "apiEnd l" "on_end (st_api st) l" cav]
  by (auto simp: dispatch_last_def apiEnd_def loading_def dest: root_api_action split: if_splits)

lemma signOut_total:
  assumes "rm_inv rm"
  shows "\<exists>st' rm'. signOut cav now (st, rm) = Inr (st', rm') \<and> st_api st' = api_init
    \<and> data_slices st' = (Map.empty, Map.empty, Map.empty) \<and> rm_inv rm' \<and> rm_view rm' = Map.empty
    \<and> rm_aborted rm' = rm_aborted rm \<union> dom (rm_view rm)"
  using root_reset [of cav now st] cancelAll_spec [OF assms] by (auto simp: signOut_def)

section \<open>The steps, seen from the registry and the loading flags\<close>

text \<open>The labels of the requests that are not finished.\<close>

definition live :: "world \<Rightarrow> (string \<rightharpoonup> string)" where
  "live w i = (case w_flights w i of None \<Rightarrow> None
     | Some fl \<Rightarrow> if fl_phase fl = Finished then None else Some (fl_label fl))"

text \<open>The requests started so far, and the cache key of the latest start of each label.\<close>

definition started :: "world \<Rightarrow> (string \<rightharpoonup> api_request)" where
  "started w i = map_option fl_request (w_flights w i)"

definition cache_key :: "store \<Rightarrow> string \<Rightarrow> jsval" where
  "cache_key st l = hash (entry_of (st_api st) l)"

definition quiet :: "world \<Rightarrow> world \<Rightarrow> bool" where
  "quiet w w' \<longleftrightarrow> live w' = live w \<and> started w' = started w
     \<and> rm_inv (w_requests w') = rm_inv (w_requests w)
     \<and> rm_view (w_requests w') = rm_view (w_requests w)
     \<and> rm_aborted (w_requests w') = rm_aborted (w_requests w)
     \<and> same_flags (w_store w) (w_store w')"

definition starts :: "string \<Rightarrow> api_request \<Rightarrow> world \<Rightarrow> world \<Rightarrow> bool" where
  "starts i rq w w' \<longleftrightarrow> started w i = None
     \<and> live w' = (live w)(i \<mapsto> rq_label rq) \<and> started w' = (started w)(i \<mapsto> rq)
     \<and> rm_inv (w_requests w')
     \<and> (\<exists>C. (C = {} \<and> rq_allowMultipleRequests rq \<or> C = {j. rm_view (w_requests w) j = Some (rq_label rq)})
          \<and> rm_view (w_requests w') = (\<lambda>j. if j \<in> C then None else rm_view (w_requests w) j)(i \<mapsto> rq_label rq)
          \<and> rm_aborted (w_requests w') = (rm_aborted (w_requests w) \<union> C) - {i})
     \<and> (\<forall>l'. loading (w_store w') l' \<longleftrightarrow> l' = rq_label rq \<or> loading (w_store w) l')
     \<and> cache_key (w_store w') = (cache_key (w_store w))(rq_label rq := rq_hash rq)"

definition finishes :: "string \<Rightarrow> string \<Rightarrow> world \<Rightarrow> world \<Rightarrow> bool" where
  "finishes i l w w' \<longleftrightarrow> live w i = Some l
     \<and> live w' = (live w)(i := None) \<and> started w' = started w
     \<and> w_requests w' = removePendingRequest i (w_requests w)
     \<and> (\<forall>l'. loading (w_store w') l' \<longleftrightarrow>
          loading (w_store w) l' \<and> (l' = l \<longrightarrow> hasPendingRequest l (w_requests w')))
     \<and> cache_key (w_store w') = cache_key (w_store w)"

definition clears :: "world \<Rightarrow> world \<Rightarrow> bool" where
  "clears w w' \<longleftrightarrow> live w' = live w \<and> started w' = started w
     \<and> rm_inv (w_requests w') \<and> rm_view (w_requests w') = Map.empty
     \<and> rm_aborted (w_requests w') = rm_aborted (w_requests w) \<union> dom (rm_view (w_requests w))
     \<and> (\<forall>l. \<not> loading (w_store w') l)"

definition resets :: "world \<Rightarrow> world \<Rightarrow> bool" where
  "resets w w' \<longleftrightarrow> w_flights w' = w_flights w \<and> w_requests w' = w_requests w
     \<and> (\<forall>l. \<not> loading (w_store w') l)"

lemma started_None: "started w i = None \<longleftrightarrow> w_flights w i = None"
  by (simp add: started_def)

lemma live_started: "live w i = Some l \<Longrightarrow> \<exists>rq. started w i = Some rq \<and> rq_label rq = l"
  by (auto simp: live_def started_def fl_label_def split: option.splits if_splits)

lemma dom_live: "dom (live w) \<subseteq> dom (started w)"
  using live_started by fast

lemma live_set_phase:
  "live (set_phase i p w) = (if w_flights w i = None then live w else
     (live w)(i := if p = Finished then None else map_option fl_label (w_flights w i)))"
  by (auto simp: live_def set_phase_def fl_label_def fun_eq_iff split: option.splits)

lemma live_same: "w_flights w i = Some fl \<Longrightarrow> fl_phase fl \<noteq> Finished \<Longrightarrow>
    p \<noteq> Finished \<Longrightarrow> live (set_phase i p w) = live w"
  by (auto simp: live_set_phase live_def fun_eq_iff)

lemma set_phase_simps [simp]:
  "started (set_phase i p w) = started w"
  "w_requests (set_phase i p w) = w_requests w" "w_store (set_phase i p w) = w_store w"
  by (auto simp: set_phase_def started_def fun_eq_iff option.map_comp comp_def)

lemma live_update [simp]:
  "live (w\<lparr>w_store := st\<rparr>) = live w" "live (w\<lparr>w_requests := rm\<rparr>) = live w"
  "live (w\<lparr>w_now := t\<rparr>) = live w"
  "started (w\<lparr>w_store := st\<rparr>) = started w" "started (w\<lparr>w_requests := rm\<rparr>) = started w"
  "started (w\<lparr>w_now := t\<rparr>) = started w"
  by (simp_all add: live_def started_def fun_eq_iff)

lemma loading_init: "st_api st = api_init \<Longrightarrow> \<not> loading st l"
  by (simp add: loading_def no_entry_def)

lemma quiet_phase:
  "w_flights w i = Some fl \<Longrightarrow> fl_phase fl \<noteq> Finished \<Longrightarrow> p \<noteq> Finished \<Longrightarrow> quiet w (set_phase i p w)"
  by (simp add: quiet_def live_same)

definition new_flight :: "api_request \<Rightarrow> store \<Rightarrow> flight" where
  "new_flight rq st = \<lparr>fl_request = rq, fl_config = build_config rq st,
     fl_userEmail = obj_get (st_initial st) ''user_email'', fl_phase = Queued\<rparr>"

text \<open>The registry before the new request is added: the earlier requests of the label are gone,
  unless there is none or the request allows others beside it.\<close>

definition makes_room :: "api_request \<Rightarrow> request_manager \<Rightarrow> request_manager \<Rightarrow> bool" where
  "makes_room rq rm rm' \<longleftrightarrow>
     (if \<not> rq_allowMultipleRequests rq \<and> hasPendingRequest (rq_label rq) rm
      then cancelPreviousPendingRequests (rq_label rq) rm = Inr rm' else rm' = rm)"

lemma makes_room_view:
  assumes "rm_inv rm" "makes_room rq rm rm'"
  shows "rm_inv rm' \<and> (\<exists>C. (C = {} \<and> rq_allowMultipleRequests rq \<or> C = {j. rm_view rm j = Some (rq_label rq)})
    \<and> rm_view rm' = (\<lambda>j. if j \<in> C then None else rm_view rm j) \<and> rm_aborted rm' = rm_aborted rm \<union> C)"
proof (cases "\<not> rq_allowMultipleRequests rq \<and> hasPendingRequest (rq_label rq) rm")
  case True
  with assms(2) have "cancelPreviousPendingRequests (rq_label rq) rm = Inr rm'"
    by (simp add: makes_room_def)
  with rm.cancel_inv [OF assms(1)] rm.cancel_view [OF assms(1)] rm.cancel_aborted [OF assms(1)]
  show ?thesis by (intro conjI exI [of _ "{j. rm_view rm j = Some (rq_label rq)}"]) simp_all
next
  case False
  with assms(2) have "rm' = rm" by (auto simp: makes_room_def)
  moreover have "{j. rm_view rm j = Some (rq_label rq)} = {}" if "\<not> rq_allowMultipleRequests rq"
    using False that assms(1) by (auto simp: rm.has_view ran_def)
  ultimately show ?thesis using assms(1) by (intro conjI exI [of _ "{}"]) auto
qed

lemma handle_request_started:
  assumes "handle_request cav i rq w = Inr w'" "rq_label rq \<noteq> []"
  shows "\<exists>st rm st'. makes_room rq (w_requests w) rm
    \<and> st_api st = st_api (w_store w) \<and> data_slices st = data_slices (w_store w)
    \<and> root_reducer cav (w_now w) st (Api (apiStart (rq_label rq) (rq_hash rq) (rq_entityId rq))) = Inr st'
    \<and> w' = w\<lparr>w_store := st', w_requests := addPendingRequest i (rq_label rq) rm,
         w_flights := (w_flights w)(i \<mapsto> new_flight rq st)\<rparr>"
proof -
  obtain st where st: "root_reducer cav (w_now w) (w_store w) (API rq) = Inr st"
    "st_api st = st_api (w_store w)" "data_slices st = data_slices (w_store w)"
    using root_API_action by blast
  show ?thesis
    using assms st
    by (cases "\<not> rq_allowMultipleRequests rq \<and> hasPendingRequest (rq_label rq) (w_requests w)")
      (auto simp: handle_request_def makes_room_def new_flight_def Let_def bind_js_Inr_iff map_js_Inr_iff)
qed

lemma quiet_loading: "quiet w w' \<Longrightarrow> loading (w_store w') l = loading (w_store w) l"
  by (rule same_flags_loading) (simp add: quiet_def)

lemma handle_request_shape:
  assumes "w_flights w i = None" "handle_request cav i rq w = Inr w'" "rm_inv (w_requests w)"
  shows "quiet w w' \<or> starts i rq w w'"
proof -
  obtain st where st: "root_reducer cav (w_now w) (w_store w) (API rq) = Inr st"
    "st_api st = st_api (w_store w)" using root_API_action by blast
  show ?thesis
  proof (cases "rq_label rq = []")
    case True
    with assms st have "w' = w\<lparr>w_store := st\<rparr>" by (simp add: handle_request_def)
    with st(2) show ?thesis by (simp add: quiet_def same_flags_api)
  next
    case False
    with handle_request_started [OF assms(2)] obtain st rm st' where
      rm: "makes_room rq (w_requests w) rm" and api0: "st_api st = st_api (w_store w)"
      and st': "root_reducer cav (w_now w) st (Api (apiStart (rq_label rq) (rq_hash rq) (rq_entityId rq))) = Inr st'"
      and w': "w' = w\<lparr>w_store := st', w_requests := addPendingRequest i (rq_label rq) rm,
         w_flights := (w_flights w)(i \<mapsto> new_flight rq st)\<rparr>"
      by blast
    from root_api_action [OF st'] have api: "st_api st' = on_start (st_api st) (rq_label rq) (rq_hash rq) (rq_entityId rq)"
      by (simp add: apiStart_def)
    have "live w' = (live w)(i \<mapsto> rq_label rq)"
      by (auto simp: w' live_def fl_label_def new_flight_def fun_eq_iff)
    moreover have "loading (w_store w') l' \<longleftrightarrow> l' = rq_label rq \<or> loading (w_store w) l'" for l'
      by (simp add: loading_def w' api api0)
    moreover have "rm_inv (w_requests w')"
      using makes_room_view [OF assms(3) rm] by (simp add: w' rm.add_inv)
    moreover have "\<exists>C. (C = {} \<and> rq_allowMultipleRequests rq \<or> C = {j. rm_view (w_requests w) j = Some (rq_label rq)})
      \<and> rm_view (w_requests w') = (\<lambda>j. if j \<in> C then None else rm_view (w_requests w) j)(i \<mapsto> rq_label rq)
      \<and> rm_aborted (w_requests w') = (rm_aborted (w_requests w) \<union> C) - {i}"
      using makes_room_view [OF assms(3) rm]
      by (elim conjE exE) (rule exI, rule conjI, assumption, simp add: w' rm.add_view rm.add_aborted)
    moreover have "started w i = None" "started w' = (started w)(i \<mapsto> rq)"
      using assms(1) by (auto simp: w' started_def new_flight_def fun_eq_iff)
    moreover have "cache_key (w_store w') = (cache_key (w_store w))(rq_label rq := rq_hash rq)"
      by (simp add: w' cache_key_def api api0 fun_eq_iff)
    ultimately have "starts i rq w w'" by (simp add: starts_def)
    then show ?thesis ..
  qed
qed

lemma do_then_shape:
  assumes "w_flights w i = Some fl" "fl_phase fl = Responded resp"
  shows "quiet w (do_then cav i fl resp w)"
proof -
  obtain st e where run: "then_callback cav (w_now w) (w_requests w) (fl_request fl) resp (w_store w) = (st, e)"
    by (cases "then_callback cav (w_now w) (w_requests w) (fl_request fl) resp (w_store w)") auto
  then show ?thesis
    using then_flags [OF run] live_same [of "w\<lparr>w_store := st\<rparr>" i fl] assms
    by (auto simp: do_then_def quiet_def split: option.splits)
qed

lemma catch_shape:
  assumes "rm_inv rm" "catch_callback cav now rq f (st, rm) = (st', rm')"
  shows "(rm' = rm \<and> same_flags st st') \<or>
    ((\<forall>l. \<not> loading st' l) \<and> rm_inv rm' \<and> rm_view rm' = Map.empty
      \<and> rm_aborted rm' = rm_aborted rm \<union> dom (rm_view rm))"
proof (cases f)
  case (HttpError resp)
  show ?thesis
  proof (cases "opt_prop resp ''status'' = Num 401")
    case True
    obtain st1 rm1 where "signOut cav now (st, rm) = Inr (st1, rm1)" "st_api st1 = api_init"
      "rm_inv rm1" "rm_view rm1 = Map.empty" "rm_aborted rm1 = rm_aborted rm \<union> dom (rm_view rm)"
      using signOut_total [OF assms(1)] by blast
    then show ?thesis
      using assms(2) HttpError True by (auto simp: catch_callback_def loading_init)
  next
    case False
    then show ?thesis using assms(2) HttpError dispatch_last_error by (auto simp: catch_callback_def)
  qed
qed (use assms(2) dispatch_last_error in \<open>auto simp: catch_callback_def\<close>)

lemma do_catch_shape:
  assumes "w_flights w i = Some fl" "fl_phase fl = Failed f" "rm_inv (w_requests w)"
  shows "quiet w (do_catch cav i fl f w) \<or> clears w (do_catch cav i fl f w)"
proof -
  obtain st rm where run: "catch_callback cav (w_now w) (fl_request fl) f (w_store w, w_requests w) = (st, rm)"
    by (cases "catch_callback cav (w_now w) (fl_request fl) f (w_store w, w_requests w)") auto
  then have w': "do_catch cav i fl f w = set_phase i Settled (w\<lparr>w_store := st, w_requests := rm\<rparr>)"
    by (simp add: do_catch_def)
  have "live (do_catch cav i fl f w) = live w"
    using live_same [of "w\<lparr>w_store := st, w_requests := rm\<rparr>" i fl] assms by (simp add: w')
  with catch_shape [OF assms(3) run] assms(3) show ?thesis
    by (auto simp: w' quiet_def clears_def)
qed

lemma do_finally_shape:
  assumes "w_flights w i = Some fl" "fl_phase fl = Settled"
  shows "finishes i (fl_label fl) w (do_finally cav i fl w)"
proof -
  obtain st rm where run: "finally_callback cav (w_now w) i (fl_label fl) (w_store w, w_requests w) = (st, rm)"
    by (cases "finally_callback cav (w_now w) i (fl_label fl) (w_store w, w_requests w)") auto
  then have rm: "rm = removePendingRequest i (w_requests w)"
    and load: "loading st l' \<longleftrightarrow> loading (w_store w) l' \<and> (l' = fl_label fl \<longrightarrow> hasPendingRequest (fl_label fl) rm)"
    and key: "cache_key st l' = cache_key (w_store w) l'" for l'
    by (auto simp: finally_callback_def Let_def dispatch_last_end cache_key_def split: if_splits)
  have "live (do_finally cav i fl w) = (live w)(i := None)"
    using run assms by (simp add: do_finally_def live_set_phase)
  moreover have "live w i = Some (fl_label fl)" using assms by (simp add: live_def)
  ultimately show ?thesis using run by (auto simp: do_finally_def finishes_def rm load key)
qed

lemma step_shape:
  assumes "step cav bare w w'" "rm_inv (w_requests w)"
  shows "quiet w w' \<or> (\<exists>i rq. starts i rq w w') \<or> (\<exists>i l. finishes i l w w') \<or> clears w w' \<or> (bare \<and> resets w w')"
  using assms(1)
proof cases
  case (request i rq)
  then show ?thesis using handle_request_shape assms(2) by blast
next
  case (intercept i fl)
  then have "live w' = live w"
    using live_same [of "w\<lparr>w_requests := addAffectedRequest (cf_label (fl_config fl))
        (cf_affectedRequests (fl_config fl)) (w_requests w)\<rparr>" i fl Flying]
    by (simp add: do_intercept_def)
  with intercept show ?thesis
    by (simp add: quiet_def do_intercept_def rm_inv_def rm_view_def rm_aborted_def)
next
  case (then_cb i fl resp)
  then show ?thesis using do_then_shape by simp
next
  case (catch_cb i fl f)
  then show ?thesis using do_catch_shape assms(2) by blast
next
  case (finally_cb i fl)
  then show ?thesis using do_finally_shape by blast
next
  case (ui a st)
  then show ?thesis using root_ui_action [of cav "w_now w" "w_store w" a]
    by (auto simp: quiet_def same_flags_api)
next
  case (refetch l st)
  then show ?thesis using reset_ttl_dispatch [of cav "w_now w" "w_store w" l]
    by (auto simp: quiet_def)
next
  case (sign_out st rm)
  then show ?thesis using signOut_total [OF assms(2), of cav "w_now w" "w_store w"]
    by (auto simp: clears_def loading_init)
next
  case (bare_reset st)
  then show ?thesis using root_reset [of cav "w_now w" "w_store w"]
    by (auto simp: resets_def loading_init)
next
  case (respond i fl resp)
  then show ?thesis using quiet_phase [of w i fl] by simp
next
  case (fail i fl f resp)
  then show ?thesis using quiet_phase [of w i fl] by simp
next
  case (abort i fl)
  then show ?thesis using quiet_phase [of w i fl] by simp
next
  case (tick d)
  then show ?thesis by (simp add: quiet_def)
qed

section \<open>The registry tracks the live requests\<close>

text \<open>
  An id is pending exactly when its request is live and was not aborted; ids of the registry and
  aborted ids are ids of requests.
\<close>

definition tracked :: "world \<Rightarrow> bool" where
  "tracked w \<longleftrightarrow> rm_inv (w_requests w)
     \<and> rm_aborted (w_requests w) \<subseteq> dom (started w)
     \<and> rm_view (w_requests w) = (\<lambda>i. if i \<in> rm_aborted (w_requests w) then None else live w i)"

lemma tracked_init: "tracked (world_init now)"
  by (simp add: tracked_def world_init_def rm_init_def rm_inv_def rm_view_def rm_aborted_def live_def
      fun_eq_iff)

lemma tracked_step:
  assumes "tracked w" "step cav bare w w'"
  shows "tracked w'"
proof -
  have inv: "rm_inv (w_requests w)" using assms(1) by (simp add: tracked_def)
  from step_shape [OF assms(2) inv] show ?thesis
  proof (elim disjE exE)
    assume "quiet w w'"
    with assms(1) show ?thesis by (simp add: tracked_def quiet_def cong: if_cong)
  next
    fix i rq assume st: "starts i rq w w'"
    let ?l = "rq_label rq"
    obtain C where C: "C = {} \<or> C = {j. rm_view (w_requests w) j = Some ?l}"
      "rm_view (w_requests w') = (\<lambda>j. if j \<in> C then None else rm_view (w_requests w) j)(i \<mapsto> ?l)"
      "rm_aborted (w_requests w') = (rm_aborted (w_requests w) \<union> C) - {i}"
      using st by (auto simp: starts_def)
    have "C \<subseteq> dom (live w)"
      using C(1) assms(1) by (auto simp: tracked_def split: if_splits)
    then have "rm_aborted (w_requests w') \<subseteq> dom (started w)"
      using C(3) assms(1) dom_live [of w] by (auto simp: tracked_def)
    moreover have "rm_inv (w_requests w')" "live w' = (live w)(i \<mapsto> ?l)"
      "started w' = (started w)(i \<mapsto> rq)" using st by (simp_all add: starts_def)
    moreover have "rm_view (w_requests w') j = (if j \<in> rm_aborted (w_requests w') then None else ((live w)(i \<mapsto> ?l)) j)" for j
    proof (cases "j = i \<or> j \<in> C")
      case False
      with C(2,3) assms(1) show ?thesis by (simp add: tracked_def)
    qed (auto simp: C(2,3))
    ultimately show ?thesis using assms(1) by (auto simp: tracked_def)
  next
    fix i l assume fin: "finishes i l w w'"
    then have rm': "w_requests w' = removePendingRequest i (w_requests w)" by (simp add: finishes_def)
    have v: "rm_inv (w_requests w')" "rm_aborted (w_requests w') = rm_aborted (w_requests w)"
      "rm_view (w_requests w') = (rm_view (w_requests w))(i := None)"
      unfolding rm' using inv by (simp_all add: rm.remove_inv rm.remove_view rm.remove_aborted)
    have "live w' = (live w)(i := None)" "started w' = started w"
      using fin by (simp_all add: finishes_def)
    with v assms(1) show ?thesis by (auto simp: tracked_def)
  next
    assume cl: "clears w w'"
    have v: "rm_view (w_requests w) j = (if j \<in> rm_aborted (w_requests w) then None else live w j)" for j
      using assms(1) by (simp add: tracked_def)
    then have "dom (rm_view (w_requests w)) \<subseteq> dom (live w)" by (auto split: if_splits)
    then have "rm_aborted (w_requests w') \<subseteq> dom (started w')"
      using cl assms(1) dom_live [of w] unfolding tracked_def clears_def by auto
    moreover have "(if j \<in> rm_aborted (w_requests w') then None else live w' j) = None" for j
      using cl v [of j] by (auto simp: clears_def)
    ultimately show ?thesis using cl assms(1) by (simp add: tracked_def clears_def)
  next
    assume "bare \<and> resets w w'"
    then have "live w' = live w" "started w' = started w" "w_requests w' = w_requests w"
      by (auto simp: live_def started_def resets_def)
    with assms(1) show ?thesis by (simp add: tracked_def cong: if_cong)
  qed
qed

lemma reachable_tracked: "reachable cav bare w \<Longrightarrow> tracked w"
  by (induction rule: reachable_induct) (auto simp: tracked_init intro: tracked_step)

section \<open>Loading flags\<close>

text \<open>A label that shows as loading has a live request.\<close>

definition loading_backed :: "world \<Rightarrow> bool" where
  "loading_backed w \<longleftrightarrow> (\<forall>l. loading (w_store w) l \<longrightarrow> l \<in> ran (live w))"

lemma world_init_simps [simp]:
  "w_store (world_init now) = store_init" "w_requests (world_init now) = rm_init"
  "w_flights (world_init now) = Map.empty" "w_now (world_init now) = now"
  "st_api store_init = api_init" "rm_view rm_init = Map.empty" "rm_aborted rm_init = {}"
  by (simp_all add: world_init_def store_init_def rm_init_def rm_view_def rm_aborted_def)

lemma loading_backed_step:
  assumes "tracked w" "loading_backed w" "step cav bare w w'"
  shows "loading_backed w'"
proof -
  have inv: "rm_inv (w_requests w)" using assms(1) by (simp add: tracked_def)
  have "tracked w'" by (rule tracked_step [OF assms(1,3)])
  from step_shape [OF assms(3) inv] show ?thesis
  proof (elim disjE exE)
    assume "quiet w w'"
    with assms(2) show ?thesis by (simp add: loading_backed_def quiet_loading) (simp add: quiet_def)
  next
    fix i rq assume st: "starts i rq w w'"
    then have "live w i = None" by (simp add: starts_def live_def started_None)
    then have "ran (live w') = insert (rq_label rq) (ran (live w))" using st by (simp add: starts_def)
    with st assms(2) show ?thesis by (simp add: loading_backed_def starts_def)
  next
    fix i l assume fin: "finishes i l w w'"
    show ?thesis
    proof (unfold loading_backed_def, intro allI impI)
      fix l' assume "loading (w_store w') l'"
      with fin have l': "loading (w_store w) l'" "l' = l \<longrightarrow> l \<in> ran (rm_view (w_requests w'))"
        using \<open>tracked w'\<close> by (auto simp: finishes_def tracked_def rm.has_view)
      show "l' \<in> ran (live w')"
      proof (cases "l' = l")
        case True
        with l'(2) \<open>tracked w'\<close> show ?thesis by (auto simp: tracked_def ran_def split: if_splits)
      next
        case False
        with l'(1) assms(2) obtain j where "live w j = Some l'"
          by (auto simp: loading_backed_def ran_def)
        then have "live w' j = Some l'" using False fin by (auto simp: finishes_def)
        then show ?thesis by (rule ranI)
      qed
    qed
  qed (auto simp: loading_backed_def clears_def resets_def)
qed

lemma reachable_loading_backed: "reachable cav bare w \<Longrightarrow> loading_backed w"
  by (induction rule: reachable_induct)
    (simp add: loading_backed_def loading_init, rule loading_backed_step [OF reachable_tracked])

text \<open>A label with a pending request shows as loading, when no component resets the store behind
  the registry's back.\<close>

definition pending_shown :: "world \<Rightarrow> bool" where
  "pending_shown w \<longleftrightarrow> (\<forall>l \<in> ran (rm_view (w_requests w)). loading (w_store w) l)"

lemma pending_shown_step:
  assumes "tracked w" "pending_shown w" "step cav False w w'"
  shows "pending_shown w'"
proof -
  have inv: "rm_inv (w_requests w)" using assms(1) by (simp add: tracked_def)
  from step_shape [OF assms(3) inv] show ?thesis
  proof (elim disjE exE)
    assume "quiet w w'"
    with assms(2) show ?thesis by (simp add: pending_shown_def quiet_loading) (simp add: quiet_def)
  next
    fix i rq assume st: "starts i rq w w'"
    have "rm_view (w_requests w') j = Some l' \<Longrightarrow> l' = rq_label rq \<or> rm_view (w_requests w) j = Some l'" for j l'
      using st by (auto simp: starts_def split: if_splits)
    then have "ran (rm_view (w_requests w')) \<subseteq> insert (rq_label rq) (ran (rm_view (w_requests w)))"
      unfolding ran_def by blast
    with st assms(2) show ?thesis unfolding pending_shown_def starts_def by blast
  next
    fix i l assume fin: "finishes i l w w'"
    then have rm': "w_requests w' = removePendingRequest i (w_requests w)" by (simp add: finishes_def)
    have "ran (rm_view (w_requests w')) \<subseteq> ran (rm_view (w_requests w))"
      unfolding rm' using inv by (auto simp: rm.remove_view ran_def split: if_splits)
    moreover have "hasPendingRequest l' (w_requests w')" if "l' \<in> ran (rm_view (w_requests w'))" for l'
      using that inv by (simp add: rm' rm.has_view rm.remove_inv)
    ultimately show ?thesis using fin assms(2) unfolding pending_shown_def finishes_def by blast
  qed (auto simp: pending_shown_def clears_def)
qed

lemma reachable_pending_shown: "reachable cav False w \<Longrightarrow> pending_shown w"
  by (induction rule: reachable_induct)
    (simp add: pending_shown_def, rule pending_shown_step [OF reachable_tracked])

end
