(* ===== verification/MiddlewareFlow.thy ===== *)
theory MiddlewareFlow
  imports MiddlewareInv
begin

text \<open>
  What follows from the invariants for the flow of requests: one request of a label at a time,
  the cache key belongs to it, a superseded request never delivers, and every request can be
  driven to its end.
\<close>

section \<open>Requests started so far\<close>

lemma resets_started: "resets w w' \<Longrightarrow> started w' = started w"
  by (simp add: started_def resets_def fun_eq_iff)

lemma step_started:
  assumes "tracked w" "step cav bare w w'"
  shows "started w \<subseteq>\<^sub>m started w'"
proof -
  have inv: "rm_inv (w_requests w)" using assms(1) by (simp add: tracked_def)
  have "started w \<subseteq>\<^sub>m (started w)(i \<mapsto> rq)" if "started w i = None" for i rq
    using that by (auto simp: map_le_def)
  with step_shape [OF assms(2) inv] show ?thesis
    using resets_started [of w w']
    by (elim disjE exE) (simp_all add: quiet_def starts_def finishes_def clears_def)
qed

lemma pending_label:
  "tracked w \<Longrightarrow> rm_view (w_requests w) i = Some l \<Longrightarrow> started w i = Some rq \<Longrightarrow> rq_label rq = l"
  using live_started [of w i l] by (auto simp: tracked_def split: if_splits)

section \<open>One request of a label at a time\<close>

text \<open>Of two pending requests with one label, one allows others beside it.\<close>

definition exclusive :: "world \<Rightarrow> bool" where
  "exclusive w \<longleftrightarrow> (\<forall>i j l ri rj. i \<noteq> j \<longrightarrow>
     rm_view (w_requests w) i = Some l \<longrightarrow> rm_view (w_requests w) j = Some l \<longrightarrow>
     started w i = Some ri \<longrightarrow> started w j = Some rj \<longrightarrow>
     rq_allowMultipleRequests ri \<or> rq_allowMultipleRequests rj)"

lemma exclusive_shrink:
  assumes "exclusive w" "started w' = started w"
    "rm_view (w_requests w') \<subseteq>\<^sub>m rm_view (w_requests w)"
  shows "exclusive w'"
proof -
  have "rm_view (w_requests w) i = Some l" if "rm_view (w_requests w') i = Some l" for i l
    using assms(3) that unfolding map_le_def by (metis domI)
  with assms(1,2) show ?thesis unfolding exclusive_def by metis
qed

lemma exclusive_start:
  assumes "exclusive w" "tracked w" "starts i rq w w'"
  shows "exclusive w'"
proof (unfold exclusive_def, intro allI impI)
  fix j k l rj rk
  assume neq: "j \<noteq> k" and vj: "rm_view (w_requests w') j = Some l" and vk: "rm_view (w_requests w') k = Some l"
    and sj: "started w' j = Some rj" and sk: "started w' k = Some rk"
  obtain C where C: "C = {} \<and> rq_allowMultipleRequests rq \<or> C = {j. rm_view (w_requests w) j = Some (rq_label rq)}"
    "rm_view (w_requests w') = (\<lambda>j. if j \<in> C then None else rm_view (w_requests w) j)(i \<mapsto> rq_label rq)"
    using assms(3) by (auto simp: starts_def)
  have st: "started w' = (started w)(i \<mapsto> rq)" using assms(3) by (simp add: starts_def)
  have old: "rm_view (w_requests w) n = Some l \<and> started w n = Some r \<and> (l = rq_label rq \<longrightarrow> rq_allowMultipleRequests rq)"
    if "n \<noteq> i" "rm_view (w_requests w') n = Some l" "started w' n = Some r" for n r
    using that C st by (auto split: if_splits)
  have new: "r = rq \<and> l = rq_label rq" if "rm_view (w_requests w') i = Some l" "started w' i = Some r" for r
    using that C(2) st by simp
  consider "j \<noteq> i" "k \<noteq> i" | "j = i" "k \<noteq> i" | "j \<noteq> i" "k = i" using neq by blast
  then show "rq_allowMultipleRequests rj \<or> rq_allowMultipleRequests rk"
  proof cases
    case 1
    with old [OF _ vj sj] old [OF _ vk sk] assms(1) neq show ?thesis unfolding exclusive_def by blast
  next
    case 2
    then have "rj = rq \<and> l = rq_label rq" using new vj sj by simp
    with old [OF 2(2) vk sk] show ?thesis by simp
  next
    case 3
    then have "rk = rq \<and> l = rq_label rq" using new vk sk by simp
    with old [OF 3(1) vj sj] show ?thesis by simp
  qed
qed

lemma exclusive_step:
  assumes "tracked w" "exclusive w" "step cav bare w w'"
  shows "exclusive w'"
proof -
  have inv: "rm_inv (w_requests w)" using assms(1) by (simp add: tracked_def)
  from step_shape [OF assms(3) inv] show ?thesis
  proof (elim disjE exE)
    assume "quiet w w'"
    then show ?thesis by (intro exclusive_shrink [OF assms(2)]) (simp_all add: quiet_def)
  next
    fix i rq assume "starts i rq w w'"
    with assms(1,2) show ?thesis by (blast intro: exclusive_start)
  next
    fix i l assume "finishes i l w w'"
    with inv show ?thesis
      by (intro exclusive_shrink [OF assms(2)]) (auto simp: finishes_def rm.remove_view map_le_def)
  next
    assume "clears w w'"
    then show ?thesis by (intro exclusive_shrink [OF assms(2)]) (simp_all add: clears_def)
  next
    assume "bare \<and> resets w w'"
    then show ?thesis by (intro exclusive_shrink [OF assms(2)]) (simp_all add: resets_started, simp add: resets_def)
  qed
qed

lemma reachable_exclusive: "reachable cav bare w \<Longrightarrow> exclusive w"
proof (induction rule: reachable_induct)
  case (step w w')
  then show ?case by (blast intro: exclusive_step reachable_tracked)
qed (simp add: exclusive_def)

section \<open>The cache key of the pending request\<close>

text \<open>Every request of the label started so far is of the kind that supersedes the earlier ones.\<close>

definition single_flight :: "world \<Rightarrow> string \<Rightarrow> bool" where
  "single_flight w l \<longleftrightarrow>
     (\<forall>i rq. started w i = Some rq \<longrightarrow> rq_label rq = l \<longrightarrow> \<not> rq_allowMultipleRequests rq)"

definition keyed :: "world \<Rightarrow> bool" where
  "keyed w \<longleftrightarrow> (\<forall>i l rq. rm_view (w_requests w) i = Some l \<longrightarrow> started w i = Some rq \<longrightarrow>
     single_flight w l \<longrightarrow> cache_key (w_store w) l = rq_hash rq)"

lemma keyed_step:
  assumes "tracked w" "keyed w" "step cav False w w'"
  shows "keyed w'"
proof -
  have inv: "rm_inv (w_requests w)" using assms(1) by (simp add: tracked_def)
  from step_shape [OF assms(3) inv] show ?thesis
  proof (elim disjE exE)
    assume q: "quiet w w'"
    then have "cache_key (w_store w') = cache_key (w_store w)"
      by (auto simp: quiet_def cache_key_def same_flags_hash)
    with q assms(2) show ?thesis by (simp add: keyed_def quiet_def single_flight_def)
  next
    fix i rq assume st: "starts i rq w w'"
    then obtain C where C: "C = {} \<and> rq_allowMultipleRequests rq \<or> C = {j. rm_view (w_requests w) j = Some (rq_label rq)}"
      "rm_view (w_requests w') = (\<lambda>j. if j \<in> C then None else rm_view (w_requests w) j)(i \<mapsto> rq_label rq)"
      by (auto simp: starts_def)
    have s: "started w' = (started w)(i \<mapsto> rq)" "started w i = None"
      "cache_key (w_store w') = (cache_key (w_store w))(rq_label rq := rq_hash rq)"
      using st by (simp_all add: starts_def)
    show ?thesis
    proof (unfold keyed_def, intro allI impI)
      fix j l r assume v: "rm_view (w_requests w') j = Some l" "started w' j = Some r" "single_flight w' l"
      have "started w n = Some r' \<Longrightarrow> started w' n = Some r'" for n r' using s(1,2) by auto
      with v(3) have sf: "single_flight w l" unfolding single_flight_def by blast
      show "cache_key (w_store w') l = rq_hash r"
      proof (cases "j = i")
        case True
        with v(1,2) C(2) s(1,3) show ?thesis by simp
      next
        case False
        with v(1) C(2) have old: "rm_view (w_requests w) j = Some l" "j \<notin> C" by (auto split: if_splits)
        have "l \<noteq> rq_label rq"
        proof
          assume "l = rq_label rq"
          then have "\<not> rq_allowMultipleRequests rq" using v(3) s(1) unfolding single_flight_def by (metis fun_upd_same)
          with C(1) old \<open>l = rq_label rq\<close> show False by simp
        qed
        with old(1) v(2) False s sf assms(2) show ?thesis by (simp add: keyed_def)
      qed
    qed
  next
    fix i l assume "finishes i l w w'"
    with assms(2) inv show ?thesis
      by (auto simp: keyed_def finishes_def rm.remove_view single_flight_def split: if_splits)
  qed (auto simp: keyed_def clears_def)
qed

lemma reachable_keyed: "reachable cav False w \<Longrightarrow> keyed w"
proof (induction rule: reachable_induct)
  case (step w w')
  then show ?case by (blast intro: keyed_step reachable_tracked)
qed (simp add: keyed_def)

section \<open>A superseded request never delivers\<close>

text \<open>A request whose signal was aborted before its response arrived: from then on it can only
  fail without a response.\<close>

definition undelivered :: "phase \<Rightarrow> bool" where
  "undelivered p \<longleftrightarrow> (case p of Responded _ \<Rightarrow> False | Failed f \<Rightarrow> (\<exists>u. f = NoResponse u) | _ \<Rightarrow> True)"

definition doomed :: "world \<Rightarrow> string \<Rightarrow> bool" where
  "doomed w i \<longleftrightarrow> i \<in> rm_aborted (w_requests w)
     \<and> (\<exists>fl. w_flights w i = Some fl \<and> undelivered (fl_phase fl))"

lemma step_aborted:
  assumes "tracked w" "step cav bare w w'" "i \<in> rm_aborted (w_requests w)"
  shows "i \<in> rm_aborted (w_requests w')"
proof -
  have inv: "rm_inv (w_requests w)" and s: "started w i \<noteq> None"
    using assms(1,3) by (auto simp: tracked_def)
  from step_shape [OF assms(2) inv] show ?thesis
  proof (elim disjE exE)
    fix j rq assume "starts j rq w w'"
    with s assms(3) show ?thesis by (auto simp: starts_def)
  next
    fix j l assume "finishes j l w w'"
    with inv assms(3) show ?thesis by (simp add: finishes_def rm.remove_aborted)
  qed (use assms(3) in \<open>auto simp: quiet_def clears_def resets_def\<close>)
qed

lemma phase_after_set:
  "w_flights (set_phase j p w) i =
    (if i = j then map_option (\<lambda>fl. fl\<lparr>fl_phase := p\<rparr>) (w_flights w j) else w_flights w i)"
  by (simp add: set_phase_def)

lemma do_flights:
  "w_flights (do_intercept j fl w) = w_flights (set_phase j Flying w)"
  "\<exists>p. (p = Settled \<or> (\<exists>e. p = Failed (Thrown e)))
    \<and> w_flights (do_then cav j fl resp w) = w_flights (set_phase j p w)"
  "w_flights (do_catch cav j fl f w) = w_flights (set_phase j Settled w)"
  "w_flights (do_finally cav j fl w) = w_flights (set_phase j Finished w)"
  by (auto simp: do_intercept_def do_then_def do_catch_def do_finally_def set_phase_def
      split: prod.split option.split)

lemma doomed_step:
  assumes "tracked w" "step cav bare w w'" "doomed w i"
  shows "doomed w' i"
proof -
  obtain fl where fl: "w_flights w i = Some fl" "undelivered (fl_phase fl)"
    and ab: "i \<in> rm_aborted (w_requests w)" using assms(3) by (auto simp: doomed_def)
  have "\<exists>fl. w_flights w' i = Some fl \<and> undelivered (fl_phase fl)"
    using assms(2)
  proof cases
    case (request j rq)
    then have "j \<noteq> i" using fl(1) by auto
    with request fl show ?thesis
      by (cases "rq_label rq = []")
        (auto simp: handle_request_def bind_js_Inr_iff map_js_Inr_iff Let_def dest!: handle_request_started)
  next
    case (intercept j fl')
    with fl show ?thesis by (auto simp: do_flights phase_after_set undelivered_def)
  next
    case (then_cb j fl' resp)
    then have "j \<noteq> i" using fl by (auto simp: undelivered_def)
    moreover obtain p where "w_flights w' = w_flights (set_phase j p w)"
      using do_flights(2) then_cb(1) by blast
    ultimately show ?thesis using fl by (auto simp: phase_after_set)
  next
    case (catch_cb j fl' f)
    with fl show ?thesis by (auto simp: do_flights phase_after_set undelivered_def)
  next
    case (finally_cb j fl')
    with fl show ?thesis by (auto simp: do_flights phase_after_set undelivered_def)
  qed (use fl ab in \<open>auto simp: phase_after_set undelivered_def\<close>)
  with step_aborted [OF assms(1,2) ab] show ?thesis by (simp add: doomed_def)
qed

lemma tracked_steps: "(step cav bare)\<^sup>*\<^sup>* w w' \<Longrightarrow> tracked w \<Longrightarrow> tracked w'"
  by (induction rule: rtranclp_induct) (auto intro: tracked_step)

lemma doomed_steps: "(step cav bare)\<^sup>*\<^sup>* w w' \<Longrightarrow> tracked w \<Longrightarrow> doomed w i \<Longrightarrow> doomed w' i"
proof (induction rule: rtranclp_induct)
  case (step w1 w2)
  then show ?case using tracked_steps doomed_step by blast
qed simp

section \<open>Every request can be driven to its end\<close>

lemma set_phase_flight: "w_flights w i = Some fl \<Longrightarrow>
    w_flights (set_phase i p w) i = Some (fl\<lparr>fl_phase := p\<rparr>)"
  by (simp add: set_phase_def)

text \<open>One step of a live request: it finishes, or stays live in a later phase.\<close>

fun phase_rank :: "phase \<Rightarrow> nat" where
  "phase_rank Queued = 5"
| "phase_rank Flying = 4"
| "phase_rank (Responded r) = 3"
| "phase_rank (Failed f) = 2"
| "phase_rank Settled = 1"
| "phase_rank Finished = 0"

lemma later_phase:
  assumes "w_flights w i = Some fl" "w_flights w' = w_flights (set_phase i p w)"
    "phase_rank p < phase_rank (fl_phase fl)"
  shows "\<exists>fl'. w_flights w' i = Some fl' \<and> phase_rank (fl_phase fl') < phase_rank (fl_phase fl)
    \<and> (\<forall>j. j \<noteq> i \<longrightarrow> live w' j = live w j)"
  using assms by (auto simp: live_def phase_after_set)

lemma advance:
  assumes "w_flights w i = Some fl" "fl_phase fl \<noteq> Finished"
  shows "\<exists>w' fl'. step cav bare w w' \<and> w_flights w' i = Some fl'
    \<and> phase_rank (fl_phase fl') < phase_rank (fl_phase fl)
    \<and> (\<forall>j. j \<noteq> i \<longrightarrow> live w' j = live w j)"
proof -
  have "\<exists>w' p. step cav bare w w' \<and> w_flights w' = w_flights (set_phase i p w)
      \<and> phase_rank p < phase_rank (fl_phase fl)"
  proof (cases "fl_phase fl")
    case Queued
    with step.intercept [OF assms(1)] do_flights(1) show ?thesis by fastforce
  next
    case Flying
    with step.abort [OF assms(1)] step.respond [OF assms(1)] show ?thesis by fastforce
  next
    case (Responded resp)
    with step.then_cb [OF assms(1)] do_flights(2) [of cav i fl resp w] show ?thesis by fastforce
  next
    case (Failed f)
    with step.catch_cb [OF assms(1)] do_flights(3) show ?thesis by fastforce
  next
    case Settled
    with step.finally_cb [OF assms(1)] do_flights(4) show ?thesis by fastforce
  qed (use assms(2) in simp)
  with later_phase [OF assms(1)] show ?thesis by blast
qed

lemma drain_one:
  assumes "w_flights w i = Some fl"
  shows "\<exists>w'. (step cav bare)\<^sup>*\<^sup>* w w' \<and> live w' = (live w)(i := None)"
  using assms
proof (induction "phase_rank (fl_phase fl)" arbitrary: w fl rule: less_induct)
  case less
  show ?case
  proof (cases "fl_phase fl = Finished")
    case True
    with less.prems have "live w' = (live w)(i := None)" if "w' = w" for w'
      using that by (auto simp: live_def fun_eq_iff)
    then show ?thesis by blast
  next
    case False
    from advance [OF less.prems False] obtain w1 fl1 where
      w1: "step cav bare w w1" "w_flights w1 i = Some fl1" "phase_rank (fl_phase fl1) < phase_rank (fl_phase fl)"
      "\<forall>j. j \<noteq> i \<longrightarrow> live w1 j = live w j" by blast
    from less.hyps [OF w1(3,2)] obtain w' where
      "(step cav bare)\<^sup>*\<^sup>* w1 w'" "live w' = (live w1)(i := None)" by blast
    with w1(1,4) show ?thesis
      by (intro exI [of _ w']) (auto simp: fun_eq_iff intro: converse_rtranclp_into_rtranclp)
  qed
qed

lemma drain:
  assumes "finite (dom (live w))"
  shows "\<exists>w'. (step cav bare)\<^sup>*\<^sup>* w w' \<and> live w' = Map.empty"
  using assms
proof (induction "card (dom (live w))" arbitrary: w rule: less_induct)
  case less
  show ?case
  proof (cases "live w = Map.empty")
    case False
    then obtain i l where i: "live w i = Some l" by fastforce
    then obtain fl where "w_flights w i = Some fl" by (auto simp: live_def split: option.splits)
    from drain_one [OF this] obtain w1 where
      w1: "(step cav bare)\<^sup>*\<^sup>* w w1" "live w1 = (live w)(i := None)" by blast
    have "dom (live w1) = dom (live w) - {i}" using w1(2) by auto
    then have "dom (live w1) \<subset> dom (live w)" using i by auto
    then have "card (dom (live w1)) < card (dom (live w))" "finite (dom (live w1))"
      using less.prems psubset_card_mono [of "dom (live w)" "dom (live w1)"] finite_subset [of "dom (live w1)" "dom (live w)"]
      by (simp_all add: psubset_eq)
    from less.hyps [OF this] w1(1) show ?thesis by (blast intro: rtranclp_trans)
  qed blast
qed

lemma finite_step:
  assumes "tracked w" "step cav bare w w'" "finite (dom (live w))"
  shows "finite (dom (live w'))"
proof -
  have inv: "rm_inv (w_requests w)" using assms(1) by (simp add: tracked_def)
  from step_shape [OF assms(2) inv] show ?thesis
  proof (elim disjE exE)
    assume "bare \<and> resets w w'"
    then have "live w' = live w" by (simp add: resets_def live_def fun_eq_iff)
    with assms(3) show ?thesis by simp
  qed (use assms(3) in \<open>auto simp: quiet_def starts_def finishes_def clears_def\<close>)
qed

lemma reachable_finite: "reachable cav bare w \<Longrightarrow> finite (dom (live w))"
proof (induction rule: reachable_induct)
  case (step w w')
  then show ?case by (blast intro: finite_step reachable_tracked)
qed (simp add: live_def dom_def)

lemma reachable_steps: "reachable cav bare w \<Longrightarrow> (step cav bare)\<^sup>*\<^sup>* w w' \<Longrightarrow> reachable cav bare w'"
  unfolding reachable_def by (blast intro: rtranclp_trans)

end
