(* ===== verification/ApiHooks.thy ===== *)
theory ApiHooks
  imports MiddlewareFlow
begin

text \<open>
  What components read of the request state: the hooks \<open>useApiState\<close>, \<open>useApiData\<close>,
  \<open>useLastResult\<close>, \<open>useIsLoading\<close>, \<open>useShouldRenderLoader\<close>, \<open>useApiSendState\<close> and the helpers of
  \<open>utils/api.ts\<close>.  A hook is the value its selectors compute from the store; the clock that
  \<open>isTtlExpired\<close> reads is the argument \<open>now\<close>.
\<close>

section \<open>Selectors\<close>

text \<open>\<open>state?.[API]?.[label]?.status?.isError\<close>: None is undefined.\<close>

definition is_error :: "string \<Rightarrow> store \<Rightarrow> bool option" where
  "is_error label st = map_option isError (status (entry_of (st_api st) label))"

definition isTtlExpired :: "int \<Rightarrow> int \<Rightarrow> bool" where
  "isTtlExpired now expires = (now > expires)"

text \<open>Whether \<open>checkError\<close> and the thunk of \<open>rejectOnError\<close> reject.\<close>

definition checkError_rejects :: "string \<Rightarrow> store \<Rightarrow> bool" where
  "checkError_rejects label st \<longleftrightarrow> is_error label st = Some True"

record api_hook =
  hk_isLoading :: bool
  hk_isError :: bool
  hk_shouldInvoke :: bool
  hk_entityId :: jsval
  hk_isDataReady :: bool

definition useApiState :: "int \<Rightarrow> store \<Rightarrow> string \<Rightarrow> jsval \<Rightarrow> api_hook" where
  "useApiState now st targetAction requestParams =
     (let e = entry_of (st_api st) targetAction;
        loading = (case isLoading e of None \<Rightarrow> False | Some b \<Rightarrow> b);
        error = (case is_error targetAction st of None \<Rightarrow> False | Some b \<Rightarrow> b);
        entity = js_coalesce (entityId e) (Str '''');
        expires = (case timestamp e of None \<Rightarrow> 0 | Some t \<Rightarrow> t);
        key = js_coalesce (hash e) (Num 0);
        paramsUpdated = (requestParams \<noteq> Undef \<and> \<not> strict_eq (hashParams requestParams) key);
        ttlExpired = isTtlExpired now expires;
        shouldInvoke = (paramsUpdated \<or> ttlExpired)
      in \<lparr>hk_isLoading = loading, hk_isError = error, hk_shouldInvoke = shouldInvoke,
          hk_entityId = entity, hk_isDataReady = (\<not> loading \<and> \<not> shouldInvoke)\<rparr>)"

text \<open>\<open>{ ...restapi, ...auth, ...jiraBus }[label] || defaultValue\<close>.\<close>

definition useApiData :: "store \<Rightarrow> string \<Rightarrow> jsval \<Rightarrow> jsval" where
  "useApiData st label defaultValue =
     js_or (current (st_restapi st ++ st_auth st ++ st_jira_bus st) label) defaultValue"

datatype last_result =
    LAST_UNKNOWN
  | LAST_ERROR jsval "string option"
  | LAST_SUCCESS jsval "string option"

definition useLastResult :: "store \<Rightarrow> string \<Rightarrow> last_result" where
  "useLastResult st targetAction =
     (case status (entry_of (st_api st) targetAction) of
        None \<Rightarrow> LAST_UNKNOWN
      | Some s \<Rightarrow> if isError s then LAST_ERROR (response s) (errorHandlerType s)
          else LAST_SUCCESS (response s) (successHandlerType s))"

definition useIsLoading :: "store \<Rightarrow> string list \<Rightarrow> bool" where
  "useIsLoading st labels \<longleftrightarrow>
     list_ex (\<lambda>l. isLoading (entry_of (st_api st) l) = Some True) labels"

definition useShouldRenderLoader :: "bool \<Rightarrow> bool list \<Rightarrow> bool" where
  "useShouldRenderLoader isInitialMount loadingStates \<longleftrightarrow>
     isInitialMount \<or> list_ex (\<lambda>loadingState. loadingState) loadingStates"

section \<open>The state of a form submission\<close>

text \<open>
  \<open>useApiSendState\<close> keeps a flag \<open>componentJustMounted\<close> (a ref) and \<open>sendState\<close>.  Its effect
  depends on the object \<open>lastResult\<close>, which \<open>useLastResult\<close> builds anew in every render: the
  effect runs after each render (\<open>after_render\<close>).
\<close>

datatype send_status = UNKNOWN | ERROR | SUCCESS

record send_state =
  componentJustMounted :: bool
  sendState :: send_status

definition send_init :: send_state where
  "send_init = \<lparr>componentJustMounted = True, sendState = UNKNOWN\<rparr>"

definition result_status :: "last_result \<Rightarrow> send_status" where
  "result_status r = (case r of LAST_UNKNOWN \<Rightarrow> UNKNOWN | LAST_ERROR _ _ \<Rightarrow> ERROR | LAST_SUCCESS _ _ \<Rightarrow> SUCCESS)"

definition after_render :: "last_result \<Rightarrow> send_state \<Rightarrow> send_state" where
  "after_render r s = (if componentJustMounted s then s else s\<lparr>sendState := result_status r\<rparr>)"

definition onSubmit :: "send_state \<Rightarrow> send_state" where
  "onSubmit s = s\<lparr>sendState := UNKNOWN, componentJustMounted := False\<rparr>"

definition onResend :: "send_state \<Rightarrow> send_state" where
  "onResend s = s\<lparr>sendState := UNKNOWN, componentJustMounted := True\<rparr>"

section \<open>Facts about the hooks\<close>

lemma hashParams_Num: "\<exists>x. hashParams v = Num x"
  using hashParams_int32 [of v] by auto

lemma shouldInvoke_iff:
  "hk_shouldInvoke (useApiState now st l p) \<longleftrightarrow>
    (p \<noteq> Undef \<and> \<not> strict_eq (hashParams p) (js_coalesce (cache_key st l) (Num 0))) \<or>
    now > (case timestamp (entry_of (st_api st) l) of None \<Rightarrow> 0 | Some t \<Rightarrow> t)"
  by (simp add: useApiState_def Let_def isTtlExpired_def cache_key_def)

lemma key_matches: "cache_key st l = hashParams p \<Longrightarrow>
    strict_eq (hashParams p) (js_coalesce (cache_key st l) (Num 0))"
  using hashParams_Num [of p] by (auto simp: js_coalesce_def strict_eq_def)

lemma hk_isLoading_iff: "hk_isLoading (useApiState now st l p) \<longleftrightarrow> loading st l"
  by (auto simp: useApiState_def loading_def Let_def split: option.splits)

lemma reachable_loading_live:
  "reachable cav bare w \<Longrightarrow> hk_isLoading (useApiState now (w_store w) l p) \<Longrightarrow> \<exists>i. live w i = Some l"
  using reachable_loading_backed [of cav bare w]
  by (auto simp: hk_isLoading_iff loading_backed_def ran_def)

text \<open>A then callback that runs to its end: the data is stored, the affected labels expire, and
  the label's own entry is fresh for the time to live.\<close>

lemma then_done:
  assumes "then_callback cav now rm rq resp st = (st', None)"
  shows "timestamp (entry_of (st_api st') (rq_label rq)) = Some (now + rq_ttl rq)"
    and "is_error (rq_label rq) st' = Some False"
    and "l \<in> set (getAffectedRequests (rq_label rq) rm) \<Longrightarrow> l \<noteq> rq_label rq \<Longrightarrow>
      timestamp (entry_of (st_api st') l) = Some 0"
    and "l \<notin> set (getAffectedRequests (rq_label rq) rm) \<Longrightarrow> l \<noteq> rq_label rq \<Longrightarrow>
      entry_of (st_api st') l = entry_of (st_api st) l"
    and "rq_onSuccess rq = None \<Longrightarrow> data_slices st' = data_slices st"
    and "rq_onSuccess rq = Some f \<Longrightarrow> \<exists>data st1. get_prop resp ''data'' = Inr data
      \<and> root_reducer cav now st (Data (f data (rq_label rq))) = Inr st1
      \<and> data_slices st' = data_slices st1"
proof -
  define first where "first = (case rq_onSuccess rq of None \<Rightarrow> Inr st
    | Some onSuccess \<Rightarrow> bind_js (get_prop resp ''data'') (\<lambda>data.
        root_reducer cav now st (Data (onSuccess data (rq_label rq)))))"
  obtain st1 where st1: "first = Inr st1"
    using assms by (cases first) (auto simp: then_callback_def first_def [symmetric])
  then have api1: "st_api st1 = st_api st"
    by (auto simp: first_def bind_js_Inr_iff dest!: root_data_action split: option.splits)
  obtain st2 where st2: "dispatch_all cav now st1
      (map (\<lambda>l. Api (resetTtl l)) (getAffectedRequests (rq_label rq) rm)) = (st2, None)"
    "data_slices st2 = data_slices st1"
    "\<forall>l. entry_of (st_api st2) l = (if l \<in> set (getAffectedRequests (rq_label rq) rm)
       then (entry_of (st_api st1) l)\<lparr>timestamp := Some 0\<rparr> else entry_of (st_api st1) l)"
    using reset_loop by blast
  have st3: "bind_js (success_action rq resp) (root_reducer cav now st2) = Inr st'"
    using assms st1 st2(1)
    by (auto simp: then_callback_def first_def [symmetric] split: sum.splits)
  note ends = success_dispatch [OF st3]
  show "timestamp (entry_of (st_api st') (rq_label rq)) = Some (now + rq_ttl rq)"
    "is_error (rq_label rq) st' = Some False"
    using ends(3,4) by (simp_all add: is_error_def)
  show "l \<in> set (getAffectedRequests (rq_label rq) rm) \<Longrightarrow> l \<noteq> rq_label rq \<Longrightarrow>
      timestamp (entry_of (st_api st') l) = Some 0"
    "l \<notin> set (getAffectedRequests (rq_label rq) rm) \<Longrightarrow> l \<noteq> rq_label rq \<Longrightarrow>
      entry_of (st_api st') l = entry_of (st_api st) l"
    using ends(5) st2(3) api1 by simp_all
  show "rq_onSuccess rq = None \<Longrightarrow> data_slices st' = data_slices st"
    using ends(2) st2(2) st1 by (simp add: first_def)
  show "rq_onSuccess rq = Some f \<Longrightarrow> \<exists>data st1. get_prop resp ''data'' = Inr data
      \<and> root_reducer cav now st (Data (f data (rq_label rq))) = Inr st1
      \<and> data_slices st' = data_slices st1"
    using ends(2) st2(2) st1 by (auto simp: first_def bind_js_Inr_iff)
qed

end
