(* ===== verification/Scenarios.thy ===== *)
theory Scenarios
  imports ApiHooks
begin

text \<open>
  Concrete runs of the middleware on requests of the auth client, used to instantiate the
  properties.  The token parser is the constant \<open>demo_cav\<close>.
\<close>

definition demo_cav :: "jsval \<Rightarrow> jsval js" where
  "demo_cav token = Inr (Arr [])"

text \<open>The world after a request was dispatched.\<close>

definition after_request :: "string \<Rightarrow> api_request \<Rightarrow> world \<Rightarrow> world" where
  "after_request i rq w = (case handle_request demo_cav i rq w of Inl e \<Rightarrow> w | Inr w' \<Rightarrow> w')"

lemma makes_room_total: "rm_inv rm \<Longrightarrow> \<exists>rm'. makes_room rq rm rm'"
  using rm.cancel_total by (auto simp: makes_room_def)

lemma handle_request_total:
  assumes "rm_inv (w_requests w)"
  shows "\<exists>w'. handle_request cav i rq w = Inr w'"
proof -
  obtain st where st: "root_reducer cav (w_now w) (w_store w) (API rq) = Inr st"
    using root_API_action by blast
  obtain rm where rm: "makes_room rq (w_requests w) rm"
    using makes_room_total [OF assms] by blast
  obtain st' where "root_reducer cav (w_now w) st (Api (apiStart (rq_label rq) (rq_hash rq) (rq_entityId rq))) = Inr st'"
    using root_api_total [of "w_now w" st "apiStart (rq_label rq) (rq_hash rq) (rq_entityId rq)"]
    by (auto simp: apiStart_def)
  with st rm show ?thesis by (simp add: handle_request_def makes_room_def Let_def split: if_splits)
qed

lemma reachable_init: "reachable cav bare (world_init now)"
  by (auto simp: reachable_def)

lemma reachable_step: "reachable cav bare w \<Longrightarrow> step cav bare w w' \<Longrightarrow> reachable cav bare w'"
  unfolding reachable_def by (blast intro: rtranclp.rtrancl_into_rtrancl)

lemma reachable_request:
  assumes "reachable demo_cav bare w" "w_flights w i = None"
  shows "reachable demo_cav bare (after_request i rq w)"
proof -
  have "rm_inv (w_requests w)" using reachable_tracked [OF assms(1)] by (simp add: tracked_def)
  then obtain w' where "handle_request demo_cav i rq w = Inr w'"
    using handle_request_total by blast
  then show ?thesis using reachable_step [OF assms(1) step.request] assms(2)
    by (simp add: after_request_def)
qed

lemma after_request_started:
  assumes "reachable demo_cav bare w" "rq_label rq \<noteq> []"
  shows "started (after_request i rq w) = (started w)(i \<mapsto> rq)"
    and "\<exists>st. w_flights (after_request i rq w) = (w_flights w)(i \<mapsto> new_flight rq st)"
proof -
  have "rm_inv (w_requests w)" using reachable_tracked [OF assms(1)] by (simp add: tracked_def)
  then obtain w' where w': "handle_request demo_cav i rq w = Inr w'"
    using handle_request_total by blast
  then have "after_request i rq w = w'" by (simp add: after_request_def)
  with handle_request_started [OF w' assms(2)]
  show "\<exists>st. w_flights (after_request i rq w) = (w_flights w)(i \<mapsto> new_flight rq st)" by auto
  then show "started (after_request i rq w) = (started w)(i \<mapsto> rq)"
    by (auto simp: started_def new_flight_def fun_eq_iff)
qed

text \<open>A request of the kind that is superseded, and one that allows others beside it.\<close>

definition demo_user :: api_request where
  "demo_user = getUser (Str ''u1'')"

definition demo_multi :: api_request where
  "demo_multi = apiAction (\<lambda>r. r\<lparr>rq_label := ''GET_USER'', rq_allowMultipleRequests := True\<rparr>)"

definition demo_org :: api_request where
  "demo_org = getPoolAllowedActions (Str ''p1'')"

lemma demo_labels [simp]:
  "rq_label demo_user = ''GET_USER''" "rq_label demo_multi = ''GET_USER''"
  "rq_label demo_org = ''GET_POOL_ALLOWED_ACTIONS''"
  by (simp_all add: demo_user_def demo_multi_def demo_org_def auth_action_defs apiAction_def)

definition ok_response :: "obj \<Rightarrow> jsval" where
  "ok_response data = Obj [(''data'', Obj data), (''status'', Num 200), (''statusText'', Str ''OK'')]"

definition error_response :: "rat \<Rightarrow> jsval" where
  "error_response code = Obj [(''status'', Num code), (''config'', Obj [(''url'', Str ''/u'')])]"

definition user_data :: obj where
  "user_data = [(''display_name'', Str ''Ann''), (''email'', Str ''ann@x'')]"

end
