(* ===== verification/Deliveries.thy ===== *)
theory Deliveries
  imports Scenarios
begin

text \<open>
  The outcomes of a request as the store shows them: a superseding request dooms the earlier
  one, a failure keeps the data, an unauthorized response signs the user out, an exception of
  the success callback leaves no trace.
\<close>

section \<open>Superseding\<close>

lemma request_dooms:
  assumes "tracked w" "w_flights w i = Some fl" "undelivered (fl_phase fl)"
    "rm_view (w_requests w) i = Some (rq_label rq)" "\<not> rq_allowMultipleRequests rq" "rq_label rq \<noteq> []"
    "w_flights w j = None" "handle_request cav j rq w = Inr w'"
  shows "doomed w' i"
proof -
  have inv: "rm_inv (w_requests w)" using assms(1) by (simp add: tracked_def)
  obtain st rm st' where rm: "makes_room rq (w_requests w) rm" and
    w': "w' = w\<lparr>w_store := st', w_requests := addPendingRequest j (rq_label rq) rm,
         w_flights := (w_flights w)(j \<mapsto> new_flight rq st)\<rparr>"
    using handle_request_started [OF assms(8,6)] by blast
  have "i \<noteq> j" using assms(2,7) by auto
  moreover have "i \<in> rm_aborted rm"
    using makes_room_view [OF inv rm] assms(4,5) by auto
  moreover have "rm_inv rm" using makes_room_view [OF inv rm] by blast
  ultimately have "i \<in> rm_aborted (w_requests w')" by (simp add: w' rm.add_aborted)
  with \<open>i \<noteq> j\<close> assms(2,3) show ?thesis by (simp add: doomed_def w')
qed

section \<open>Failures\<close>

text \<open>The failures after which the user stays signed in.\<close>

definition benign :: "failure \<Rightarrow> bool" where
  "benign f \<longleftrightarrow> (case f of HttpError resp \<Rightarrow> opt_prop resp ''status'' \<noteq> Num 401 | _ \<Rightarrow> True)"

lemma error_keeps:
  "timestamp (entry_of (st_api (dispatch_last cav now (Api (apiError l' r t)) st)) l)
      = timestamp (entry_of (st_api st) l)
    \<and> (l \<noteq> l' \<longrightarrow> entry_of (st_api (dispatch_last cav now (Api (apiError l' r t)) st)) l
      = entry_of (st_api st) l)"
proof (cases "root_reducer cav now st (Api (apiError l' r t))")
  case (Inr st')
  then have "on_error (st_api st) l' r t = Inr (st_api st')"
    using root_api_action [of cav now st "apiError l' r t" st'] by (simp add: apiError_def)
  note e = on_error_entry [OF this]
  show ?thesis using e(4) [of l] e(5) [of l] Inr by (auto simp: dispatch_last_def)
qed (simp add: dispatch_last_def)

lemma catch_benign:
  assumes "benign f" "catch_callback cav now rq f (st, rm) = (st', rm')"
  shows "rm' = rm" "data_slices st' = data_slices st" "same_flags st st'"
    "timestamp (entry_of (st_api st') l) = timestamp (entry_of (st_api st) l)"
    "l \<noteq> rq_label rq \<Longrightarrow> entry_of (st_api st') l = entry_of (st_api st) l"
  using assms dispatch_last_error [of st cav now] error_keeps [of cav now]
  by (auto simp: benign_def catch_callback_def split: failure.splits)

text \<open>An error response carries the configuration of its request.\<close>

definition has_config :: "jsval \<Rightarrow> bool" where
  "has_config resp \<longleftrightarrow> (\<exists>c. get_prop resp ''config'' = Inr (Obj c))"

lemma apiError_recorded:
  assumes "has_config resp"
  shows "is_error l (dispatch_last cav now (Api (apiError l resp t)) st) = Some True"
proof -
  obtain c where c: "get_prop resp ''config'' = Inr (Obj c)" using assms by (auto simp: has_config_def)
  then obtain s where s: "on_error (st_api st) l resp t = Inr s" by (simp add: on_error_def)
  then obtain st' where "root_reducer cav now st (Api (apiError l resp t)) = Inr st'" "st_api st' = s"
    using root_api_total [of now st "apiError l resp t" s cav] by (auto simp: apiError_def)
  with on_error_entry(6) [OF s] show ?thesis by (simp add: dispatch_last_def is_error_def)
qed

lemma no_response_config [simp]: "has_config (no_response url)"
  by (simp add: has_config_def no_response_def)

lemma catch_unauthorized:
  assumes "rm_inv rm" "opt_prop resp ''status'' = Num 401"
    "catch_callback cav now rq (HttpError resp) (st, rm) = (st', rm')"
  shows "data_slices st' = (Map.empty, Map.empty, Map.empty)" "rm_view rm' = Map.empty"
    "rm_aborted rm' = rm_aborted rm \<union> dom (rm_view rm)"
    "l \<noteq> rq_label rq \<Longrightarrow> entry_of (st_api st') l = no_entry"
    "\<not> loading st' l"
proof -
  obtain st1 where so: "signOut cav now (st, rm) = Inr (st1, rm')" "st_api st1 = api_init"
    "data_slices st1 = (Map.empty, Map.empty, Map.empty)" "rm_view rm' = Map.empty"
    "rm_aborted rm' = rm_aborted rm \<union> dom (rm_view rm)"
    and st': "st' = dispatch_last cav now (Api (apiError (rq_label rq) resp (rq_errorHandlerType rq))) st1"
    using signOut_total [OF assms(1), of cav now st] assms(2,3)
    by (auto simp: catch_callback_def)
  show "data_slices st' = (Map.empty, Map.empty, Map.empty)"
    using so(3) dispatch_last_error by (simp add: st')
  show "rm_view rm' = Map.empty" "rm_aborted rm' = rm_aborted rm \<union> dom (rm_view rm)"
    by (fact so(4), fact so(5))
  show "l \<noteq> rq_label rq \<Longrightarrow> entry_of (st_api st') l = no_entry"
    using error_keeps [of cav now "rq_label rq"] by (simp add: st' so(2))
  show "\<not> loading st' l" using so(2) by (simp add: st' loading_init)
qed

section \<open>An exception of the success callback\<close>

lemma then_throws:
  assumes "rq_onSuccess rq = Some f" "get_prop resp ''data'' = Inr data"
    "root_reducer cav now st (Data (f data (rq_label rq))) = Inl e"
  shows "then_callback cav now rm rq resp st = (st, Some e)"
  using assms by (simp add: then_callback_def)

lemma end_keeps:
  "timestamp (entry_of (st_api (dispatch_last cav now (Api (apiEnd l')) st)) l) = timestamp (entry_of (st_api st) l)"
  "status (entry_of (st_api (dispatch_last cav now (Api (apiEnd l')) st)) l) = status (entry_of (st_api st) l)"
  using root_api_total [of now st "apiEnd l'" "on_end (st_api st) l'" cav]
  by (auto simp: dispatch_last_def apiEnd_def dest: root_api_action)

text \<open>A success keeps the key its request was started with, and sets the expiry.\<close>

lemma refreshed:
  assumes "reachable cav False w" "w_flights w i = Some fl"
    "rm_view (w_requests w) i = Some l" "single_flight w l"
    "then_callback cav (w_now w) (w_requests w) (fl_request fl) resp (w_store w) = (st, None)"
  shows "rq_label (fl_request fl) = l"
    and "cache_key st l = rq_hash (fl_request fl)"
    and "timestamp (entry_of (st_api st) l) = Some (w_now w + rq_ttl (fl_request fl))"
proof -
  let ?rq = "fl_request fl"
  have s: "started w i = Some ?rq" using assms(2) by (simp add: started_def)
  show l: "rq_label ?rq = l"
    using pending_label [OF reachable_tracked [OF assms(1)] assms(3) s] .
  have "cache_key (w_store w) l = rq_hash ?rq"
    using reachable_keyed [OF assms(1)] assms(3,4) s unfolding keyed_def by blast
  then show "cache_key st l = rq_hash ?rq"
    using then_flags [OF assms(5)] by (simp add: cache_key_def same_flags_hash)
  show "timestamp (entry_of (st_api st) l) = Some (w_now w + rq_ttl ?rq)"
    using then_done(1) [OF assms(5)] l by simp
qed

lemma fresh_until_ttl:
  assumes "cache_key st l = h" "timestamp (entry_of (st_api st) l) = Some t" "p = Undef \<or> hashParams p = h"
  shows "hk_shouldInvoke (useApiState now st l p) \<longleftrightarrow> now > t"
  using assms key_matches [of st l p] by (auto simp: shouldInvoke_iff)

text \<open>What the callbacks of a request leave as the status of its label.\<close>

definition reported :: "failure \<Rightarrow> bool" where
  "reported f \<longleftrightarrow> benign f \<and> (case f of HttpError resp \<Rightarrow> has_config resp | NoResponse _ \<Rightarrow> True | Thrown _ \<Rightarrow> False)"

lemma set_phase_store [simp]: "w_store (set_phase i p w) = w_store w"
  by (simp add: set_phase_def)

lemma catch_records:
  "reported f \<Longrightarrow> is_error (rq_label (fl_request fl)) (w_store (do_catch cav i fl f w)) = Some True"
  by (auto simp: reported_def benign_def do_catch_def catch_callback_def apiError_recorded split: failure.splits)

lemma then_records:
  "then_callback cav (w_now w) (w_requests w) (fl_request fl) resp (w_store w) = (st, None) \<Longrightarrow>
    is_error (rq_label (fl_request fl)) (w_store (do_then cav i fl resp w)) = Some False"
  using then_done(2) by (simp add: do_then_def)

lemma finally_keeps_error: "is_error l (w_store (do_finally cav i fl w)) = is_error l (w_store w)"
  by (simp add: do_finally_def finally_callback_def Let_def is_error_def end_keeps)

section \<open>Runs of one request\<close>

text \<open>The steps of the microtasks of one request, as functions.\<close>

definition intercept_step :: "string \<Rightarrow> world \<Rightarrow> world" where
  "intercept_step i w = (case w_flights w i of Some fl \<Rightarrow> do_intercept i fl w | None \<Rightarrow> w)"

definition respond_step :: "string \<Rightarrow> jsval \<Rightarrow> world \<Rightarrow> world" where
  "respond_step i resp w = set_phase i (Responded resp) w"

definition fail_step :: "string \<Rightarrow> jsval \<Rightarrow> world \<Rightarrow> world" where
  "fail_step i resp w = set_phase i (Failed (HttpError resp)) w"

definition then_step :: "string \<Rightarrow> world \<Rightarrow> world" where
  "then_step i w = (case w_flights w i of
     Some fl \<Rightarrow> (case fl_phase fl of Responded resp \<Rightarrow> do_then demo_cav i fl resp w | _ \<Rightarrow> w)
   | None \<Rightarrow> w)"

definition catch_step :: "string \<Rightarrow> world \<Rightarrow> world" where
  "catch_step i w = (case w_flights w i of
     Some fl \<Rightarrow> (case fl_phase fl of Failed f \<Rightarrow> do_catch demo_cav i fl f w | _ \<Rightarrow> w)
   | None \<Rightarrow> w)"

definition finally_step :: "string \<Rightarrow> world \<Rightarrow> world" where
  "finally_step i w = (case w_flights w i of
     Some fl \<Rightarrow> (case fl_phase fl of Settled \<Rightarrow> do_finally demo_cav i fl w | _ \<Rightarrow> w)
   | None \<Rightarrow> w)"

definition in_phase :: "world \<Rightarrow> string \<Rightarrow> (phase \<Rightarrow> bool) \<Rightarrow> bool" where
  "in_phase w i P \<longleftrightarrow> (case w_flights w i of None \<Rightarrow> False | Some fl \<Rightarrow> P (fl_phase fl))"

fun is_queued :: "phase \<Rightarrow> bool" where "is_queued Queued = True" | "is_queued _ = False"
fun is_flying :: "phase \<Rightarrow> bool" where "is_flying Flying = True" | "is_flying _ = False"

lemma reachable_intercept:
  assumes "reachable cav bare w" "in_phase w i is_queued"
  shows "reachable cav bare (intercept_step i w)"
proof -
  obtain fl where "w_flights w i = Some fl" "fl_phase fl = Queued"
    using assms(2) by (auto simp: in_phase_def split: option.splits elim!: is_queued.elims)
  then show ?thesis using reachable_step [OF assms(1) step.intercept] by (simp add: intercept_step_def)
qed

lemma flying_flight: "in_phase w i is_flying \<Longrightarrow> \<exists>fl. w_flights w i = Some fl \<and> fl_phase fl = Flying"
  by (auto simp: in_phase_def split: option.splits elim!: is_flying.elims)

lemma reachable_respond:
  assumes "reachable cav bare w" "in_phase w i is_flying" "i \<notin> rm_aborted (w_requests w)"
  shows "reachable cav bare (respond_step i resp w)"
  using flying_flight [OF assms(2)] reachable_step [OF assms(1) step.respond] assms(3)
  by (auto simp: respond_step_def)

lemma reachable_fail:
  assumes "reachable cav bare w" "in_phase w i is_flying" "i \<notin> rm_aborted (w_requests w)"
  shows "reachable cav bare (fail_step i resp w)"
  using flying_flight [OF assms(2)] reachable_step [OF assms(1) step.fail] assms(3)
  by (auto simp: fail_step_def)

lemma reachable_then: "reachable demo_cav bare w \<Longrightarrow> reachable demo_cav bare (then_step i w)"
  using reachable_step [OF _ step.then_cb] by (auto simp: then_step_def split: option.split phase.split)

lemma reachable_catch: "reachable demo_cav bare w \<Longrightarrow> reachable demo_cav bare (catch_step i w)"
  using reachable_step [OF _ step.catch_cb] by (auto simp: catch_step_def split: option.split phase.split)

lemma reachable_finally: "reachable demo_cav bare w \<Longrightarrow> reachable demo_cav bare (finally_step i w)"
  using reachable_step [OF _ step.finally_cb] by (auto simp: finally_step_def split: option.split phase.split)

end
