(* ===== verification/DemoRuns.thy ===== *)
theory DemoRuns
  imports Deliveries
begin

text \<open>
  Reachable worlds of concrete runs, at which the properties of the request flow are
  instantiated: \<open>r1\<close> asks for a user, \<open>r2\<close> follows it.
\<close>

definition w_one :: world where
  "w_one = after_request ''r1'' demo_user (world_init 0)"

definition w_two :: world where
  "w_two = after_request ''r2'' demo_multi w_one"

definition w_flying :: world where
  "w_flying = intercept_step ''r1'' w_one"

definition w_responded :: world where
  "w_responded = respond_step ''r1'' (ok_response user_data) w_flying"

definition w_delivered :: world where
  "w_delivered = then_step ''r1'' w_responded"

definition w_finished :: world where
  "w_finished = finally_step ''r1'' w_delivered"

text \<open>A success response whose body is missing, which the user reducer cannot read.\<close>

definition w_broken :: world where
  "w_broken = respond_step ''r1'' (Obj [(''data'', Undef)]) w_flying"

lemma w_one_reachable: "reachable demo_cav bare w_one"
  unfolding w_one_def by (intro reachable_request reachable_init) code_simp

lemma w_two_reachable: "reachable demo_cav bare w_two"
  unfolding w_two_def by (intro reachable_request w_one_reachable) code_simp

lemma w_flying_reachable: "reachable demo_cav bare w_flying"
  unfolding w_flying_def by (intro reachable_intercept w_one_reachable) code_simp

lemma flying_ok: "in_phase w_flying ''r1'' is_flying" "''r1'' \<notin> rm_aborted (w_requests w_flying)"
  by code_simp+

lemma w_responded_reachable: "reachable demo_cav bare w_responded"
  unfolding w_responded_def by (intro reachable_respond w_flying_reachable flying_ok)

lemma w_broken_reachable: "reachable demo_cav bare w_broken"
  unfolding w_broken_def by (intro reachable_respond w_flying_reachable flying_ok)

lemma w_delivered_reachable: "reachable demo_cav bare w_delivered"
  unfolding w_delivered_def by (intro reachable_then w_responded_reachable)

lemma w_finished_reachable: "reachable demo_cav bare w_finished"
  unfolding w_finished_def by (intro reachable_finally w_delivered_reachable)

lemma demo_started:
  "started w_one = [''r1'' \<mapsto> demo_user]"
  "started w_two = [''r1'' \<mapsto> demo_user, ''r2'' \<mapsto> demo_multi]"
  "started w_flying = [''r1'' \<mapsto> demo_user]" "started w_responded = [''r1'' \<mapsto> demo_user]"
proof -
  show one: "started w_one = [''r1'' \<mapsto> demo_user]"
    by (simp add: w_one_def after_request_started(1) [OF reachable_init] started_def fun_eq_iff)
  show "started w_two = [''r1'' \<mapsto> demo_user, ''r2'' \<mapsto> demo_multi]"
    by (simp add: w_two_def after_request_started(1) [OF w_one_reachable] one)
  show fl: "started w_flying = [''r1'' \<mapsto> demo_user]"
    unfolding one [symmetric] by (simp add: w_flying_def intercept_step_def do_intercept_def
        split: option.split)
  show "started w_responded = [''r1'' \<mapsto> demo_user]"
    by (simp add: w_responded_def respond_step_def fl)
qed

text \<open>The flight of the first request, phase by phase.\<close>

definition demo_flight :: "phase \<Rightarrow> flight" where
  "demo_flight p = (new_flight demo_user store_init)\<lparr>fl_phase := p\<rparr>"

lemma demo_flights:
  "w_flights w_one ''r1'' = Some (demo_flight Queued)"
  "w_flights w_flying ''r1'' = Some (demo_flight Flying)"
  "w_flights w_responded ''r1'' = Some (demo_flight (Responded (ok_response user_data)))"
  "w_flights w_broken ''r1'' = Some (demo_flight (Responded (Obj [(''data'', Undef)])))"
proof -
  have "root_reducer demo_cav 0 store_init (API demo_user) = Inr store_init"
    by (simp add: root_reducer_def app_reducer_def step_defs ui_slices_def store_init_def
        js_or_def)
  then show one: "w_flights w_one ''r1'' = Some (demo_flight Queued)"
    using root_api_total [of 0 store_init "apiStart (rq_label demo_user) (rq_hash demo_user) (rq_entityId demo_user)" _ demo_cav]
    by (auto simp: w_one_def after_request_def handle_request_def demo_flight_def new_flight_def
        hasPendingRequest_def rm_init_def apiStart_def Let_def)
  show fl: "w_flights w_flying ''r1'' = Some (demo_flight Flying)"
    by (simp add: w_flying_def intercept_step_def one do_flights phase_after_set)
      (simp add: demo_flight_def)
  show "w_flights w_responded ''r1'' = Some (demo_flight (Responded (ok_response user_data)))"
    "w_flights w_broken ''r1'' = Some (demo_flight (Responded (Obj [(''data'', Undef)])))"
    by (simp_all add: w_responded_def w_broken_def respond_step_def fl phase_after_set)
      (simp_all add: demo_flight_def)
qed

lemma demo_flight_simps [simp]:
  "fl_phase (demo_flight p) = p" "fl_request (demo_flight p) = demo_user"
  by (simp_all add: demo_flight_def new_flight_def)

lemma demo_then:
  "then_callback demo_cav (w_now w_responded) (w_requests w_responded)
      (fl_request (demo_flight (Responded (ok_response user_data)))) (ok_response user_data) (w_store w_responded)
    = (w_store w_delivered, None)"
proof -
  let ?run = "then_callback demo_cav (w_now w_responded) (w_requests w_responded) demo_user
      (ok_response user_data) (w_store w_responded)"
  have "snd ?run = None" by code_simp
  moreover have "w_store w_delivered = fst ?run"
    by (simp add: w_delivered_def then_step_def demo_flights do_then_def split: prod.split option.split)
  ultimately show ?thesis by (simp add: prod_eq_iff)
qed

section \<open>A reset behind the registry's back\<close>

definition reset_step :: "world \<Rightarrow> world" where
  "reset_step w = w\<lparr>w_store := dispatch_last demo_cav (w_now w) RESET (w_store w)\<rparr>"

definition w_reset :: world where
  "w_reset = reset_step w_flying"

definition w_leaked :: world where
  "w_leaked = then_step ''r1'' (respond_step ''r1'' (ok_response user_data) w_reset)"

lemma reset_step: "step demo_cav True w (reset_step w)"
  using step.bare_reset [of True demo_cav w] root_reset [of demo_cav "w_now w" "w_store w"]
  by (auto simp: reset_step_def dispatch_last_def)

lemma w_reset_reachable: "reachable demo_cav True w_reset"
  unfolding w_reset_def by (rule reachable_step [OF w_flying_reachable reset_step])

lemma then_step_steps: "(step demo_cav bare)\<^sup>*\<^sup>* w (then_step i w)"
  using step.then_cb [of w i] by (auto simp: then_step_def split: option.split phase.split)

lemma w_leaked_steps: "(step demo_cav True)\<^sup>*\<^sup>* w_reset w_leaked"
proof -
  have "in_phase w_reset ''r1'' is_flying" "''r1'' \<notin> rm_aborted (w_requests w_reset)" by code_simp+
  then have "step demo_cav True w_reset (respond_step ''r1'' (ok_response user_data) w_reset)"
    unfolding respond_step_def using flying_flight step.respond by blast
  then show ?thesis
    unfolding w_leaked_def by (rule converse_rtranclp_into_rtranclp) (rule then_step_steps)
qed

lemma w_leaked_started: "started w_leaked = started w_reset"
  by (simp add: w_leaked_def then_step_def respond_step_def do_then_def split: option.split phase.split prod.split)

section \<open>A request with other parameters that fails\<close>

definition w_pool :: world where
  "w_pool = finally_step ''r1'' (then_step ''r1'' (respond_step ''r1'' (ok_response [(''allowed_actions'', Obj [])])
     (intercept_step ''r1'' (after_request ''r1'' demo_org (world_init 0)))))"

definition w_refetched :: world where
  "w_refetched = intercept_step ''r2'' (after_request ''r2'' (getPoolAllowedActions (Str ''p2'')) w_pool)"

definition w_refailed :: world where
  "w_refailed = fail_step ''r2'' (error_response 500) w_refetched"

lemma pool_label [simp]: "rq_label (getPoolAllowedActions p) = ''GET_POOL_ALLOWED_ACTIONS''"
  "rq_allowMultipleRequests (getPoolAllowedActions p) = False"
  by (simp_all add: getPoolAllowedActions_def apiAction_def)

lemma w_pool_reachable: "reachable demo_cav bare w_pool"
  unfolding w_pool_def
  by (intro reachable_finally reachable_then reachable_respond reachable_intercept reachable_request reachable_init)
    code_simp+

lemma started_steps [simp]:
  "started (then_step i w) = started w" "started (finally_step i w) = started w"
  "started (respond_step i r w) = started w" "started (fail_step i r w) = started w"
  "started (intercept_step i w) = started w"
  by (auto simp: then_step_def finally_step_def respond_step_def fail_step_def intercept_step_def
      do_then_def do_finally_def do_intercept_def split: option.split phase.split prod.split)

lemma w_pool_started: "started w_pool = [''r1'' \<mapsto> demo_org]"
  by (simp add: w_pool_def after_request_started(1) [OF reachable_init] demo_org_def started_def fun_eq_iff)

lemma w_refetched_reachable: "reachable demo_cav bare w_refetched"
  unfolding w_refetched_def
  by (intro reachable_intercept reachable_request w_pool_reachable) (code_simp, code_simp)

lemma w_refailed_reachable: "reachable demo_cav bare w_refailed"
  unfolding w_refailed_def by (intro reachable_fail w_refetched_reachable) (code_simp, code_simp)

lemma w_refailed_started:
  "started w_refailed = [''r1'' \<mapsto> demo_org, ''r2'' \<mapsto> getPoolAllowedActions (Str ''p2'')]"
  by (simp add: w_refailed_def w_refetched_def after_request_started(1) [OF w_pool_reachable] w_pool_started)

lemma w_refailed_single: "single_flight w_refailed ''GET_POOL_ALLOWED_ACTIONS''"
  by (auto simp: single_flight_def w_refailed_started demo_org_def split: if_splits)

lemma w_refailed_flight:
  "\<exists>st. w_flights w_refailed ''r2'' = Some ((new_flight (getPoolAllowedActions (Str ''p2'')) st)
      \<lparr>fl_phase := Failed (HttpError (error_response 500))\<rparr>)"
proof -
  obtain st where "w_flights (after_request ''r2'' (getPoolAllowedActions (Str ''p2'')) w_pool) ''r2''
      = Some (new_flight (getPoolAllowedActions (Str ''p2'')) st)"
    using after_request_started(2) [OF w_pool_reachable, of "getPoolAllowedActions (Str ''p2'')" "''r2''"] by auto
  then show ?thesis
    by (auto simp: w_refailed_def fail_step_def w_refetched_def intercept_step_def do_flights phase_after_set)
qed

end
