(* ===== verification/DataCases.thy ===== *)
theory DataCases
  imports AuthApi
begin

text \<open>
  What the cases of the data reducers do to the collections they keep: lists of objects that
  are identified by one of their properties, seen as maps from that property's value.
\<close>

section \<open>Keyed collections\<close>

definition key_of :: "string \<Rightarrow> obj \<Rightarrow> jsval" where
  "key_of k p = obj_get p k"

definition by_key :: "string \<Rightarrow> obj list \<Rightarrow> (jsval \<rightharpoonup> obj)" where
  "by_key k ps = map_of (map (\<lambda>p. (obj_get p k, p)) ps)"

text \<open>The keys are primitive values (compared by \<open>===\<close> as values) and pairwise different.\<close>

definition keyed_list :: "string \<Rightarrow> obj list \<Rightarrow> bool" where
  "keyed_list k ps \<longleftrightarrow> distinct (map (key_of k) ps) \<and> list_all (\<lambda>p. \<not> is_object (key_of k p)) ps"

lemma filterM_js_total:
  "(\<And>x. x \<in> set xs \<Longrightarrow> f x = Inr (g x)) \<Longrightarrow> filterM_js f xs = Inr (filter g xs)"
  by (induction xs) auto

lemma filterM_objects:
  assumes "\<And>p. f (Obj p) = Inr (g p)"
  shows "filterM_js f (map Obj ps) = Inr (map Obj (filter g ps))"
  by (induction ps) (auto simp: assms)

lemma by_key_simps [simp]:
  "by_key k [] = Map.empty" "by_key k (p # ps) = (by_key k ps)(obj_get p k \<mapsto> p)"
  by (simp_all add: by_key_def)

lemma by_key_append: "by_key k (ps @ qs) = by_key k qs ++ by_key k ps"
  by (simp add: by_key_def)

lemma by_key_filter:
  "by_key k (filter (\<lambda>p. obj_get p k \<noteq> v) ps) = (by_key k ps)(v := None)"
  by (induction ps) (auto simp: fun_eq_iff)

lemma strict_filter:
  "list_all (\<lambda>p. \<not> is_object (key_of k p)) ps \<Longrightarrow>
    filter (\<lambda>p. \<not> strict_eq (obj_get p k) v) ps = filter (\<lambda>p. obj_get p k \<noteq> v) ps"
  by (induction ps) (auto simp: strict_eq_def key_of_def)

lemma keyed_filter: "keyed_list k ps \<Longrightarrow> keyed_list k (filter P ps)"
  by (auto simp: keyed_list_def distinct_map_filter list_all_iff)

text \<open>Removing the element with the payload's key and adding the payload at the end is an update
  of the map, and keeps the keys different.\<close>

lemma upsert_map:
  assumes "keyed_list k ps"
  shows "by_key k (filter (\<lambda>p. \<not> strict_eq (obj_get p k) (obj_get q k)) ps @ [q])
    = (by_key k ps)(obj_get q k \<mapsto> q)"
proof -
  have "list_all (\<lambda>p. \<not> is_object (key_of k p)) ps" using assms by (simp add: keyed_list_def)
  then show ?thesis by (simp add: strict_filter by_key_append by_key_filter map_add_def fun_eq_iff
      split: option.split)
qed

lemma upsert_keyed:
  assumes "keyed_list k ps" "\<not> is_object (obj_get q k)"
  shows "keyed_list k (filter (\<lambda>p. \<not> strict_eq (obj_get p k) (obj_get q k)) ps @ [q])"
  using assms by (auto simp: keyed_list_def distinct_map_filter list_all_iff key_of_def strict_eq_def)

section \<open>Cases on collections\<close>

lemma restapi_case:
  "map_of restapi_cases t = Some f \<Longrightarrow> act_type a = t \<Longrightarrow> restapi_reducer st a = f st a"
  by (simp add: restapi_reducer_def)

lemma case_lookup:
  "map_of restapi_cases ''SET_POOL_POLICY'' = Some case_SET_POOL_POLICY"
  "map_of restapi_cases ''DELETE_POOL'' = Some case_DELETE_POOL"
  "map_of restapi_cases ''DELETE_WEBHOOK'' = Some case_DELETE_WEBHOOK"
  "map_of restapi_cases ''UPDATE_WEBHOOK'' = Some append_payload"
  "map_of restapi_cases ''SET_RESOURCE_CONSTRAINT'' = Some case_SET_RESOURCE_CONSTRAINT"
  "map_of restapi_cases ''DELETE_RESOURCE_CONSTRAINT'' = Some case_DELETE_RESOURCE_CONSTRAINT"
  "map_of restapi_cases ''SET_OPTIMIZATION_OPTIONS'' = Some case_SET_OPTIMIZATION_OPTIONS"
  "map_of restapi_cases ''UPDATE_GLOBAL_POOL_POLICY'' = Some case_UPDATE_GLOBAL"
  "map_of restapi_cases ''UPDATE_SSH_KEY'' = Some case_UPDATE_SSH_KEY"
  by (simp_all add: restapi_cases_defs)

lemma set_pool_policy:
  assumes "act_type a = ''SET_POOL_POLICY''" "act_payload a = Obj q"
    "current st (act_label a) = Obj kvs" "obj_get kvs ''poolPolicies'' = Arr (map Obj ps)"
  shows "restapi_reducer st a = Inr (put st a (Obj [(''poolPolicies'', Arr (map Obj
    (filter (\<lambda>p. \<not> strict_eq (obj_get p ''type'') (obj_get q ''type'')) ps @ [q])))]))"
  using assms
  by (simp add: restapi_case [OF case_lookup(1)] case_SET_POOL_POLICY_def Let_def get_default_def
      js_default_def as_array_def filterM_objects)

lemma delete_webhook:
  assumes "act_type a = ''DELETE_WEBHOOK''" "current st (act_label a) = Arr (map Obj ps)"
  shows "restapi_reducer st a = Inr (put st a
    (Arr (map Obj (filter (\<lambda>p. \<not> strict_eq (obj_get p ''id'') (act_payload a)) ps))))"
  using assms
  by (simp add: restapi_case [OF case_lookup(3)] case_DELETE_WEBHOOK_def removeObjects_def
      js_coalesce_def as_array_def filterM_objects)

lemma update_webhook:
  assumes "act_type a = ''UPDATE_WEBHOOK''" "act_payload a = Obj q" "current st (act_label a) = Arr (map Obj ps)"
  shows "restapi_reducer st a = Inr (put st a (Arr (map Obj (ps @ [q]))))"
  using assms
  by (simp add: restapi_case [OF case_lookup(4)] append_payload_def js_coalesce_def iterate_def)

lemma delete_pool:
  assumes "act_type a = ''DELETE_POOL''" "current st (act_label a) = Obj kvs"
    "obj_get kvs ''pool'' = Obj pool" "obj_get pool ''children'' = Arr (map Obj cs)"
    "act_payload a = Obj [(''id'', v)]"
  shows "restapi_reducer st a = Inr (put st a (Obj [(''pool'', Obj (obj_spread (obj_spread [] pool)
    [(''children'', Arr (map Obj (filter (\<lambda>c. \<not> strict_eq (obj_get c ''id'') v) cs)))]))]))"
  using assms
  by (simp add: restapi_case [OF case_lookup(2)] case_DELETE_POOL_def as_array_def filterM_objects)

text \<open>\<open>UPDATE_SSH_KEY\<close>: exactly the key of the payload becomes the default.\<close>

lemma mapM_objects:
  assumes "\<And>p. f (Obj p) = Inr (Obj (g p))"
  shows "mapM_js f (map Obj ps) = Inr (map Obj (map g ps))"
  by (induction ps) (auto simp: assms)

lemma update_ssh_key:
  assumes "act_type a = ''UPDATE_SSH_KEY''" "act_payload a = Obj q" "current st (act_label a) = Arr (map Obj ps)"
  shows "restapi_reducer st a = Inr (put st a (Arr (map Obj (map (\<lambda>key.
    obj_spread (obj_spread [] key) [(''default'', Bool (strict_eq (obj_get key ''id'') (obj_get q ''id'')))]) ps))))"
  using assms
  by (simp add: restapi_case [OF case_lookup(9)] case_UPDATE_SSH_KEY_def js_coalesce_def as_array_def mapM_objects)

text \<open>\<open>UPDATE_GLOBAL_*\<close>: the payload is merged into the element with its id and type.\<close>

lemma update_global:
  assumes "act_type a = ''UPDATE_GLOBAL_POOL_POLICY''" "act_payload a = Obj q"
    "current st (act_label a) = Arr (map Obj ps)"
  shows "restapi_reducer st a = Inr (put st a (Arr (map Obj (map (\<lambda>p.
    if strict_eq (obj_get p ''id'') (obj_get q ''id'') \<and> strict_eq (obj_get p ''type'') (obj_get q ''type'')
    then obj_spread (obj_spread [] p) q else p) ps))))"
proof -
  let ?g = "\<lambda>p. if strict_eq (obj_get p ''id'') (obj_get q ''id'') \<and> strict_eq (obj_get p ''type'') (obj_get q ''type'')
    then obj_spread (obj_spread [] p) q else p"
  let ?f = "\<lambda>x. map_js (\<lambda>same. if same then Obj (obj_spread (obj_spread [] (own_props x)) (own_props (Obj q))) else x)
          (same_id_and_type x (Obj q))"
  have "?f (Obj p) = Inr (Obj (?g p))" for p by (auto simp: same_id_and_type_def)
  then have "mapM_js ?f (map Obj ps) = Inr (map Obj (map ?g ps))" by (rule mapM_objects)
  with assms(1,3) show ?thesis
    unfolding restapi_case [OF case_lookup(8) assms(1)] case_UPDATE_GLOBAL_def assms(2)
    by (simp add: as_array_def)
qed

text \<open>\<open>UPDATE_ML_LEADERBOARD\<close>: the payload is merged into the element of the list with its id, and
  stored.\<close>

lemma update_leaderboard:
  assumes "act_type a = ''UPDATE_ML_LEADERBOARD''" "act_payload a = Obj q"
    "current st ''GET_ML_LEADERBOARDS'' = Arr (map Obj ps)"
  shows "restapi_reducer st a = Inr (put (st(''GET_ML_LEADERBOARDS'' \<mapsto> Arr (map Obj (map (\<lambda>p.
    if strict_eq (obj_get p ''id'') (obj_get q ''id'') then obj_spread (obj_spread [] p) q else p) ps)))) a (Obj q))"
proof -
  let ?g = "\<lambda>p. if strict_eq (obj_get p ''id'') (obj_get q ''id'') then obj_spread (obj_spread [] p) q else p"
  let ?f = "\<lambda>datum. bind_js (get_prop datum ''id'') (\<lambda>i. map_js (\<lambda>j. if strict_eq i j
      then Obj (obj_spread (obj_spread [] (own_props datum)) (own_props (Obj q))) else datum) (get_prop (Obj q) ''id''))"
  have "?f (Obj p) = Inr (Obj (?g p))" for p by simp
  then have "mapM_js ?f (map Obj ps) = Inr (map Obj (map ?g ps))" by (rule mapM_objects)
  with assms(3) show ?thesis
    unfolding restapi_case [OF leaderboard_case assms(1)] case_UPDATE_ML_LEADERBOARD_def Let_def assms(2)
    by (simp add: as_array_def)
qed

section \<open>Options as text\<close>

lemma set_optimization_options:
  assumes "act_type a = ''SET_OPTIMIZATION_OPTIONS''" "act_payload a = Obj [(''value'', json_stringify v)]" "json_ok v"
  shows "restapi_reducer st a = Inr (put st a v)"
proof -
  obtain t where "json_str v = Some t" using json_str_total [OF assms(3)] by blast
  with json_parse_str [OF assms(3)] assms show ?thesis
    by (simp add: restapi_case [OF case_lookup(7)] case_SET_OPTIMIZATION_OPTIONS_def json_stringify_def)
qed

section \<open>Constraints of a resource\<close>

text \<open>The value kept for a resource whose constraints are \<open>cs\<close>.\<close>

definition has_constraints :: "jsval \<Rightarrow> obj \<Rightarrow> bool" where
  "has_constraints v cs \<longleftrightarrow> (\<exists>kvs resource details. v = Obj kvs \<and> obj_get kvs ''resource'' = Obj resource
     \<and> obj_get resource ''details'' = Obj details \<and> obj_get details ''constraints'' = Obj cs)"

lemma constraints_of_has: "has_constraints v cs \<Longrightarrow> constraints_of v = Inr (Obj cs)"
  by (auto simp: has_constraints_def constraints_of_def get_default_def js_default_def)

lemma obj_get_spread_one [simp]: "obj_get (obj_spread o1 [(k, v)]) k' = (if k' = k then v else obj_get o1 k')"
  by (simp add: obj_get_spread)

lemma with_constraints_has:
  assumes "has_constraints v cs"
  shows "\<exists>v'. with_constraints v cs' = Inr v' \<and> has_constraints v' cs'"
  using assms by (auto simp: has_constraints_def with_constraints_def)

lemma obj_get_from_entries: "distinct (map fst es) \<Longrightarrow> obj_get (from_entries es) k = obj_get es k"
  by (simp add: obj_get_def from_entries_def map_of_fold_obj_set map_of_rev_distinct)

lemma obj_get_filter_keys:
  "obj_get (filter (\<lambda>(k', c). k' \<noteq> t) cs) k = (if k = t then Undef else obj_get cs k)"
  by (induction cs) auto

lemma distinct_filter_keys: "distinct (map fst cs) \<Longrightarrow> distinct (map fst (filter P cs))"
  by (simp add: distinct_map_filter)

lemma set_resource_constraint:
  assumes "act_type a = ''SET_RESOURCE_CONSTRAINT''" "act_payload a = Obj q" "obj_get q ''type'' = Str t"
    "has_constraints (current st (act_label a)) cs" "distinct (map fst cs)"
  shows "\<exists>v cs'. restapi_reducer st a = Inr (put st a v) \<and> has_constraints v cs'
    \<and> (\<forall>k. obj_get cs' k = (if k = t then Obj q else obj_get cs k))"
proof -
  let ?kept = "filter (\<lambda>(k', c). k' \<noteq> t) cs"
  let ?new = "obj_spread (from_entries ?kept) [(t, Obj q)]"
  obtain v where v: "with_constraints (current st (act_label a)) ?new = Inr v" "has_constraints v ?new"
    using with_constraints_has [OF assms(4)] by blast
  have "filterM_js (\<lambda>(key, c). map_js (\<lambda>t. \<not> strict_eq (Str key) t) (get_prop (Obj q) ''type'')) cs = Inr ?kept"
    by (rule filterM_js_total) (use assms(3) in auto)
  then have "restapi_reducer st a = Inr (put st a v)"
    unfolding restapi_case [OF case_lookup(5) assms(1)] case_SET_RESOURCE_CONSTRAINT_def assms(2)
    using v(1) assms(3) by (simp add: constraints_of_has [OF assms(4)] entries_js_def)
  moreover have "obj_get ?new k = (if k = t then Obj q else obj_get cs k)" for k
    using distinct_filter_keys [OF assms(5)] by (simp add: obj_get_from_entries obj_get_filter_keys)
  ultimately show ?thesis using v(2) by blast
qed

lemma obj_get_filter_values:
  "distinct (map fst cs) \<Longrightarrow> obj_get (filter (\<lambda>(k', c). P c) cs) k =
    (if k \<in> fst ` set cs \<and> P (obj_get cs k) then obj_get cs k else Undef)"
proof (induction cs)
  case (Cons e cs)
  obtain j c where e: "e = (j, c)" by (cases e)
  show ?case
  proof (cases "k = j")
    case True
    then have "k \<notin> fst ` set cs" using Cons.prems by (simp add: e)
    with True Cons show ?thesis by (simp add: e)
  qed (use Cons in \<open>simp add: e\<close>)
qed simp

lemma delete_resource_constraint:
  assumes "act_type a = ''DELETE_RESOURCE_CONSTRAINT''" "\<forall>(k, c) \<in> set cs. \<exists>p. c = Obj p"
    "has_constraints (current st (act_label a)) cs" "distinct (map fst cs)"
  shows "\<exists>v cs'. restapi_reducer st a = Inr (put st a v) \<and> has_constraints v cs'
    \<and> (\<forall>k. obj_get cs' k = (if strict_eq (opt_prop (obj_get cs k) ''id'') (act_payload a) then Undef else obj_get cs k))"
proof -
  let ?P = "\<lambda>c. \<not> strict_eq (opt_prop c ''id'') (act_payload a)"
  let ?new = "from_entries (filter (\<lambda>(k, c). ?P c) cs)"
  obtain v where v: "with_constraints (current st (act_label a)) ?new = Inr v" "has_constraints v ?new"
    using with_constraints_has [OF assms(3)] by blast
  have "filterM_js (\<lambda>(key, c). map_js (\<lambda>i. \<not> strict_eq i (act_payload a)) (get_prop c ''id'')) cs
      = Inr (filter (\<lambda>(k, c). ?P c) cs)"
    by (rule filterM_js_total) (use assms(2) in fastforce)
  then have "restapi_reducer st a = Inr (put st a v)"
    unfolding restapi_case [OF case_lookup(6) assms(1)] case_DELETE_RESOURCE_CONSTRAINT_def
    using v(1) by (simp add: constraints_of_has [OF assms(3)] entries_js_def)
  moreover have "obj_get ?new k = (if strict_eq (opt_prop (obj_get cs k) ''id'') (act_payload a) then Undef else obj_get cs k)" for k
    using distinct_filter_keys [OF assms(4)] obj_get_filter_values [OF assms(4), of ?P k] obj_get_absent [of k cs]
    by (auto simp: obj_get_from_entries)
  ultimately show ?thesis using v(2) by blast
qed

section \<open>Breakdowns\<close>

definition breakdown_row :: "jsval \<Rightarrow> jsval" where
  "breakdown_row data = Arr (map (\<lambda>(i, body). Obj (obj_spread [(''id'', Str i)] (own_props body))) (own_props data))"

lemma obj_get_map_values:
  "t \<in> fst ` set es \<Longrightarrow> obj_get (map (\<lambda>(t, d). (t, f d)) es) t = f (obj_get es t)"
  by (induction es) force+

lemma reformatBreakdown_lookup:
  assumes "distinct (map fst es)" "\<forall>(t, d) \<in> set es. \<not> nullish d"
  shows "\<exists>es'. reformatBreakdown (Obj es) = Inr (Obj es') \<and> fst ` set es' = fst ` set es
    \<and> (\<forall>t \<in> fst ` set es. obj_get es' t = breakdown_row (obj_get es t))"
proof -
  let ?rows = "map (\<lambda>(t, d). (t, breakdown_row d)) es"
  let ?f = "\<lambda>(secondsTimestamp, breakdownsData).
          map_js (\<lambda>bs. (secondsTimestamp,
              Arr (map (\<lambda>(i, body). Obj (obj_spread [(''id'', Str i)] (own_props body))) bs)))
            (entries_js breakdownsData)"
  have "?f (t, d) = Inr (t, breakdown_row d)" if "(t, d) \<in> set es" for t d
    using assms(2) that by (auto simp: entries_js_def breakdown_row_def)
  then have "mapM_js ?f es = Inr ?rows" by (intro mapM_js_total) auto
  then have run: "reformatBreakdown (Obj es) = Inr (Obj (from_entries ?rows))"
    by (simp add: reformatBreakdown_def entries_js_def)
  have keys: "map fst ?rows = map fst es" by auto
  have "obj_get ?rows t = breakdown_row (obj_get es t)" if "t \<in> fst ` set es" for t
    using that by (rule obj_get_map_values)
  moreover have "dom (map_of (from_entries ?rows)) = fst ` set es"
    unfolding from_entries_def map_of_fold_obj_set
    by (simp add: dom_map_of_conv_image_fst image_image case_prod_beta)
  then have "fst ` set (from_entries ?rows) = fst ` set es" by (simp only: dom_map_of_conv_image_fst)
  moreover have "obj_get (from_entries ?rows) t = obj_get ?rows t" for t
    using keys assms(1) by (intro obj_get_from_entries) (simp only:)
  ultimately show ?thesis using run by auto
qed

section \<open>The auth slice\<close>

lemma split_char_no_sep: "c \<notin> set s \<Longrightarrow> split_char c s = [s]"
  by (induction s) auto

lemma split_char_nonempty [simp]: "split_char c s \<noteq> []"
  by (induction s) (auto split: list.split)

lemma split_char_sep: "c \<notin> set k \<Longrightarrow> split_char c (k @ c # s) = k # split_char c s"
  by (induction k) (auto split: list.split)

definition caveat :: "string \<times> string \<Rightarrow> jsval" where
  "caveat kv = Obj [(''_identifier'', Str (fst kv @ CHR '':'' # snd kv))]"

definition plain_caveat :: "string \<times> string \<Rightarrow> bool" where
  "plain_caveat kv \<longleftrightarrow> CHR '':'' \<notin> set (fst kv) \<and> CHR '':'' \<notin> set (snd kv)"

lemma processCaveat_plain:
  "plain_caveat kv \<Longrightarrow> processCaveat r (caveat kv) = Inr (obj_spread r [(fst kv, booleanStringToBoolean (snd kv))])"
  by (simp add: processCaveat_def caveat_def plain_caveat_def get_default_def js_default_def
      split_char_sep split_char_no_sep)

text \<open>Every caveat is a property of the result; of two with one key the later counts.\<close>

lemma fold_caveats:
  "list_all plain_caveat kvs \<Longrightarrow> \<exists>r'. foldM_js processCaveat r (map caveat kvs) = Inr r'
    \<and> (\<forall>k. obj_get r' k = (case map_of (rev kvs) k of Some v \<Rightarrow> booleanStringToBoolean v | None \<Rightarrow> obj_get r k))"
proof (induction kvs arbitrary: r)
  case (Cons kv kvs)
  let ?r1 = "obj_spread r [(fst kv, booleanStringToBoolean (snd kv))]"
  obtain r' where "foldM_js processCaveat ?r1 (map caveat kvs) = Inr r'"
    "\<forall>k. obj_get r' k = (case map_of (rev kvs) k of Some v \<Rightarrow> booleanStringToBoolean v | None \<Rightarrow> obj_get ?r1 k)"
    using Cons.IH [of ?r1] Cons.prems by auto
  with Cons.prems show ?case
    by (auto simp: processCaveat_plain map_add_def split: option.split)
qed simp

lemma set_allowed_actions:
  assumes "act_payload a = Obj [(''allowed_actions'', Obj new)]" "distinct (map fst new)"
    "current st (act_label a) = Obj [(''allowedActions'', Obj old)]" "distinct (map fst old)"
  shows "\<exists>as. case_SET_ALLOWED_ACTIONS st a = Inr (put st a (Obj [(''allowedActions'', Obj as)]))
    \<and> (\<forall>k. obj_get as k = (if k \<in> fst ` set new then obj_get new k else obj_get old k))"
proof -
  have "obj_get (obj_spread [] old) k = obj_get old k" for k
    using assms(4) by (auto simp: obj_get_spread obj_get_absent)
  then show ?thesis
    using assms
    by (intro exI [of _ "obj_spread (obj_spread [] old) new"]) (simp add: case_SET_ALLOWED_ACTIONS_def obj_get_spread)
qed

end
