(* ===== verification/RestHandlers.thy ===== *)
theory RestHandlers
  imports ApiUtils
begin

text \<open>
  The success handlers of \<open>api/restapi/handlers.ts\<close>: the redux action a mutation's response
  becomes.  Unlike \<open>handleSuccess\<close> they write under the label of the request whose data they
  change, not under the label of the mutation.
\<close>

definition onUpdateOrganizationOption :: "jsval \<Rightarrow> string \<Rightarrow> action" where
  "onUpdateOrganizationOption data label =
     \<lparr>act_type = ''SET_ORGANIZATION_OPTION'', act_label = ''GET_ORGANIZATION_OPTION'', act_payload = data\<rparr>"

definition onSuccessUpdateInvitation :: "jsval \<Rightarrow> string \<Rightarrow> action" where
  "onSuccessUpdateInvitation data label =
     \<lparr>act_type = ''SET_INVITATION'', act_label = ''GET_INVITATION'', act_payload = Obj []\<rparr>"

definition onSuccessDeletePool :: "jsval \<Rightarrow> jsval \<Rightarrow> string \<Rightarrow> action" where
  "onSuccessDeletePool id_arg data label =
     \<lparr>act_type = ''DELETE_POOL'', act_label = ''GET_POOL'', act_payload = Obj [(''id'', id_arg)]\<rparr>"

definition onSuccessCreatePoolPolicy :: "jsval \<Rightarrow> string \<Rightarrow> action" where
  "onSuccessCreatePoolPolicy data label =
     \<lparr>act_type = ''SET_POOL_POLICY'', act_label = ''GET_POOL_POLICIES'', act_payload = data\<rparr>"

definition onSuccessCreateResourceConstraint :: "jsval \<Rightarrow> string \<Rightarrow> action" where
  "onSuccessCreateResourceConstraint data label =
     \<lparr>act_type = ''SET_RESOURCE_CONSTRAINT'', act_label = ''GET_RESOURCE'', act_payload = data\<rparr>"

definition onSuccessUpdateGlobalPoolPolicyLimit :: "jsval \<Rightarrow> string \<Rightarrow> action" where
  "onSuccessUpdateGlobalPoolPolicyLimit data label =
     \<lparr>act_type = ''UPDATE_GLOBAL_POOL_POLICY'', act_label = ''GET_GLOBAL_POOL_POLICIES'', act_payload = data\<rparr>"

definition onSuccessUpdateGlobalResourceConstraintLimit :: "jsval \<Rightarrow> string \<Rightarrow> action" where
  "onSuccessUpdateGlobalResourceConstraintLimit data label =
     \<lparr>act_type = ''UPDATE_GLOBAL_RESOURCE_CONSTRAINT'', act_label = ''GET_GLOBAL_RESOURCE_CONSTRAINTS'', act_payload = data\<rparr>"

definition onSuccessUpdateGlobalPoolPolicyActivity :: "jsval \<Rightarrow> string \<Rightarrow> action" where
  "onSuccessUpdateGlobalPoolPolicyActivity data label =
     \<lparr>act_type = ''UPDATE_GLOBAL_POOL_POLICY'', act_label = ''GET_GLOBAL_POOL_POLICIES'', act_payload = data\<rparr>"

definition onSuccessDeleteResourceConstraint :: "jsval \<Rightarrow> action" where
  "onSuccessDeleteResourceConstraint id_arg = \<lparr>act_type = ''DELETE_RESOURCE_CONSTRAINT'', act_label = ''GET_RESOURCE'', act_payload = id_arg\<rparr>"

definition onSuccessGetOptimizationsOverview :: "jsval \<Rightarrow> string \<Rightarrow> action" where
  "onSuccessGetOptimizationsOverview data label =
     \<lparr>act_type = ''SET_OPTIMIZATIONS_OVERVIEW'', act_label = ''GET_OPTIMIZATIONS_OVERVIEW'', act_payload = data\<rparr>"

definition onSuccessGetOptimizationDetails :: "jsval \<Rightarrow> string \<Rightarrow> action" where
  "onSuccessGetOptimizationDetails data label =
     \<lparr>act_type = ''SET_OPTIMIZATION_DETAILS'', act_label = ''GET_OPTIMIZATION_DETAILS'', act_payload = data\<rparr>"

definition onSuccessGetMLOptimizationDetails :: "jsval \<Rightarrow> string \<Rightarrow> action" where
  "onSuccessGetMLOptimizationDetails data label =
     \<lparr>act_type = ''SET_ML_OPTIMIZATION_DETAILS'', act_label = ''GET_ML_OPTIMIZATION_DETAILS'', act_payload = data\<rparr>"

definition onSuccessUpdateOptimizations :: "jsval \<Rightarrow> string \<Rightarrow> action" where
  "onSuccessUpdateOptimizations data label =
     \<lparr>act_type = ''SET_OPTIMIZATIONS'', act_label = ''GET_OPTIMIZATIONS'', act_payload = Obj
       [(''last_completed'', opt_prop data ''last_completed''), (''next_run'', opt_prop data ''next_run'')]\<rparr>"

definition onSuccessCreateSshKey :: "jsval \<Rightarrow> string \<Rightarrow> action" where
  "onSuccessCreateSshKey data label =
     \<lparr>act_type = ''CREATE_SSH_KEY'', act_label = ''GET_SSH_KEYS'', act_payload = data\<rparr>"

definition onSuccessUpdateSshKey :: "jsval \<Rightarrow> string \<Rightarrow> action" where
  "onSuccessUpdateSshKey data label =
     \<lparr>act_type = ''UPDATE_SSH_KEY'', act_label = ''GET_SSH_KEYS'', act_payload = data\<rparr>"

definition onSuccessCreateLiveDemo :: "jsval \<Rightarrow> string \<Rightarrow> action" where
  "onSuccessCreateLiveDemo data label =
     \<lparr>act_type = ''SET_LIVE_DEMO'', act_label = ''GET_LIVE_DEMO'', act_payload = data\<rparr>"

definition onSuccessUpdateAssignmentRulePriority :: "jsval \<Rightarrow> string \<Rightarrow> action" where
  "onSuccessUpdateAssignmentRulePriority data label =
     \<lparr>act_type = ''SET_ASSIGNMENT_RULES'', act_label = ''GET_ASSIGNMENT_RULES'', act_payload = data\<rparr>"

definition onFinOpsChecklist :: "jsval \<Rightarrow> string \<Rightarrow> action" where
  "onFinOpsChecklist data label =
     \<lparr>act_type = ''SET_FINOPS_CHECKLIST'', act_label = ''GET_FINOPS_CHECKLIST'', act_payload = data\<rparr>"

definition onSuccessExportLinkChange :: "jsval \<Rightarrow> string \<Rightarrow> action" where
  "onSuccessExportLinkChange data label =
     \<lparr>act_type = ''UPDATE_POOL_EXPENSES_EXPORT'', act_label = ''UPDATE_POOL_EXPENSES_EXPORT'', act_payload = data\<rparr>"

definition onSuccessUpdateEnvironmentProperty :: "jsval \<Rightarrow> string \<Rightarrow> action" where
  "onSuccessUpdateEnvironmentProperty data label =
     \<lparr>act_type = ''UPDATE_ENVIRONMENT_PROPERTY'', act_label = ''GET_RESOURCE'', act_payload = data\<rparr>"

definition onSuccessUpdateEnvironmentSshRequirement :: "jsval \<Rightarrow> string \<Rightarrow> action" where
  "onSuccessUpdateEnvironmentSshRequirement data label =
     \<lparr>act_type = ''UPDATE_ENVIRONMENT_SSH_REQUIREMENT'', act_label = ''GET_RESOURCE'', act_payload = data\<rparr>"

definition onSuccessCreateWebhook :: "jsval \<Rightarrow> string \<Rightarrow> action" where
  "onSuccessCreateWebhook data label =
     \<lparr>act_type = ''CREATE_WEBHOOK'', act_label = ''GET_WEBHOOKS'', act_payload = data\<rparr>"

definition onSuccessUpdateWebhook :: "jsval \<Rightarrow> string \<Rightarrow> action" where
  "onSuccessUpdateWebhook data label =
     \<lparr>act_type = ''UPDATE_WEBHOOK'', act_label = ''GET_WEBHOOKS'', act_payload = data\<rparr>"

definition onSuccessDeleteWebhook :: "jsval \<Rightarrow> jsval \<Rightarrow> string \<Rightarrow> action" where
  "onSuccessDeleteWebhook id_arg data label =
     \<lparr>act_type = ''DELETE_WEBHOOK'', act_label = ''GET_WEBHOOKS'', act_payload = id_arg\<rparr>"

definition onSuccessUpdateAnomaly :: "jsval \<Rightarrow> string \<Rightarrow> action" where
  "onSuccessUpdateAnomaly data label =
     \<lparr>act_type = ''UPDATE_ORGANIZATION_CONSTRAINT'', act_label = ''GET_ORGANIZATION_CONSTRAINT'', act_payload = data\<rparr>"

definition onUpdateMlTask :: "jsval \<Rightarrow> string \<Rightarrow> action" where
  "onUpdateMlTask data label =
     \<lparr>act_type = ''SET_ML_TASK'', act_label = ''GET_ML_TASK'', act_payload = data\<rparr>"

definition onUpdateMlArtifact :: "jsval \<Rightarrow> string \<Rightarrow> action" where
  "onUpdateMlArtifact data label =
     \<lparr>act_type = ''SET_ML_ARTIFACT'', act_label = ''GET_ML_ARTIFACT'', act_payload = data\<rparr>"

definition onUpdateMlModel :: "jsval \<Rightarrow> string \<Rightarrow> action" where
  "onUpdateMlModel data label =
     \<lparr>act_type = ''SET_ML_MODELS'', act_label = ''GET_ML_MODEL'', act_payload = data\<rparr>"

definition onUpdateMlRunsetTemplate :: "jsval \<Rightarrow> string \<Rightarrow> action" where
  "onUpdateMlRunsetTemplate data label =
     \<lparr>act_type = ''SET_ML_RUNSET_TEMPLATE'', act_label = ''GET_ML_RUNSET_TEMPLATE'', act_payload = data\<rparr>"

definition onUpdateBIExport :: "jsval \<Rightarrow> string \<Rightarrow> action" where
  "onUpdateBIExport data label =
     \<lparr>act_type = ''SET_BI_EXPORT'', act_label = ''GET_BI_EXPORT'', act_payload = data\<rparr>"

definition onUpdateS3DuplicatesOrganizationSettings :: "jsval \<Rightarrow> string \<Rightarrow> action" where
  "onUpdateS3DuplicatesOrganizationSettings data label =
     \<lparr>act_type = ''UPDATE_S3_DUPLICATES_ORGANIZATION_SETTINGS'', act_label = ''GET_S3_DUPLICATES_ORGANIZATION_SETTINGS'', act_payload = data\<rparr>"

definition onUpdateMlLeaderboard :: "jsval \<Rightarrow> string \<Rightarrow> action" where
  "onUpdateMlLeaderboard data label =
     \<lparr>act_type = ''UPDATE_ML_LEADERBOARD'', act_label = ''GET_ML_LEADERBOARD'', act_payload = data\<rparr>"

definition onUpdatePowerSchedule :: "jsval \<Rightarrow> string \<Rightarrow> action" where
  "onUpdatePowerSchedule data label =
     \<lparr>act_type = ''SET_POWER_SCHEDULE'', act_label = ''GET_POWER_SCHEDULE'', act_payload = data\<rparr>"

definition onSuccessCreateMlLeaderboard :: "jsval \<Rightarrow> string \<Rightarrow> action" where
  "onSuccessCreateMlLeaderboard data label =
     \<lparr>act_type = ''CREATE_ML_LEADERBOARD'', act_label = ''CREATE_ML_LEADERBOARD'', act_payload = data\<rparr>"

lemmas handler_defs = handleSuccess_def
  onUpdateOrganizationOption_def onSuccessUpdateInvitation_def onSuccessDeletePool_def
  onSuccessCreatePoolPolicy_def onSuccessCreateResourceConstraint_def onSuccessUpdateGlobalPoolPolicyLimit_def
  onSuccessUpdateGlobalResourceConstraintLimit_def onSuccessUpdateGlobalPoolPolicyActivity_def onSuccessDeleteResourceConstraint_def
  onSuccessGetOptimizationsOverview_def onSuccessGetOptimizationDetails_def onSuccessGetMLOptimizationDetails_def
  onSuccessUpdateOptimizations_def onSuccessCreateSshKey_def onSuccessUpdateSshKey_def
  onSuccessCreateLiveDemo_def onSuccessUpdateAssignmentRulePriority_def onFinOpsChecklist_def
  onSuccessExportLinkChange_def onSuccessUpdateEnvironmentProperty_def onSuccessUpdateEnvironmentSshRequirement_def
  onSuccessCreateWebhook_def onSuccessUpdateWebhook_def onSuccessDeleteWebhook_def
  onSuccessUpdateAnomaly_def onUpdateMlTask_def onUpdateMlArtifact_def
  onUpdateMlModel_def onUpdateMlRunsetTemplate_def onUpdateBIExport_def
  onUpdateS3DuplicatesOrganizationSettings_def onUpdateMlLeaderboard_def onUpdatePowerSchedule_def
  onSuccessCreateMlLeaderboard_def

end
