(* ===== verification/RestActionsOrg.thy ===== *)
theory RestActionsOrg
  imports RestHandlers
begin

text \<open>
  Action creators of \<open>api/restapi/actionCreators.ts\<close>, lines 348 to 1076.  Organizations, pools, expenses, employees, assignment rules and pool policies.
  An argument whose properties the source reads is an object (type \<open>obj\<close>, the empty list
  when it is omitted and its default is the empty object); any other argument is a value.
\<close>

definition API_URL :: string where
  "API_URL = getApiUrl False ''restapi'' ''v2''"

definition getOrganizationOptions :: "jsval \<Rightarrow> jsval \<Rightarrow> api_request" where
  "getOrganizationOptions organizationId withValues =
     (let withValues = js_default withValues (Bool False)
      in apiAction (\<lambda>r. r\<lparr>rq_url := API_URL @ ''/organizations/'' @ to_str organizationId
         @ ''/options'',
       rq_method := ''GET'',
       rq_ttl := 5 * MINUTE,
       rq_onSuccess := Some (handleSuccess ''SET_ORGANIZATION_OPTIONS''),
       rq_hash := hashParams (Obj [(''organizationId'', organizationId), (''withValues'', withValues)]),
       rq_label := ''GET_ORGANIZATION_OPTIONS'',
       rq_params := Obj [(''with_values'', withValues)]\<rparr>))"

definition getOrganizationOption :: "jsval \<Rightarrow> jsval \<Rightarrow> api_request" where
  "getOrganizationOption organizationId name =
     apiAction (\<lambda>r. r\<lparr>rq_url := API_URL @ ''/organizations/'' @ to_str organizationId
         @ ''/options/'' @ to_str name,
       rq_method := ''GET'',
       rq_ttl := 5 * MINUTE,
       rq_onSuccess := Some (handleSuccess ''SET_ORGANIZATION_OPTION''),
       rq_hash := hashParams (Obj [(''organizationId'', organizationId), (''name'', name)]),
       rq_label := ''GET_ORGANIZATION_OPTION''\<rparr>)"

definition deleteOrganizationOption :: "jsval \<Rightarrow> jsval \<Rightarrow> api_request" where
  "deleteOrganizationOption organizationId name =
     apiAction (\<lambda>r. r\<lparr>rq_url := API_URL @ ''/organizations/'' @ to_str organizationId
         @ ''/options/'' @ to_str name,
       rq_method := ''DELETE'',
       rq_label := ''DELETE_ORGANIZATION_OPTION'',
       rq_affectedRequests := [''GET_ORGANIZATION_OPTIONS'']\<rparr>)"

definition updateOrganizationOption :: "jsval \<Rightarrow> jsval \<Rightarrow> jsval \<Rightarrow> api_request" where
  "updateOrganizationOption organizationId name value =
     apiAction (\<lambda>r. r\<lparr>rq_url := API_URL @ ''/organizations/'' @ to_str organizationId
         @ ''/options/'' @ to_str name,
       rq_method := ''PATCH'',
       rq_onSuccess := Some onUpdateOrganizationOption,
       rq_successHandlerType := SUCCESS_HANDLER_TYPE_ALERT,
       rq_label := ''UPDATE_ORGANIZATION_OPTION'',
       rq_affectedRequests := [''GET_ORGANIZATION_OPTIONS''],
       rq_params := Obj [(''value'', json_stringify value)]\<rparr>)"

definition createOrganizationOption :: "jsval \<Rightarrow> jsval \<Rightarrow> jsval \<Rightarrow> api_request" where
  "createOrganizationOption organizationId name value =
     apiAction (\<lambda>r. r\<lparr>rq_url := API_URL @ ''/organizations/'' @ to_str organizationId
         @ ''/options/'' @ to_str name,
       rq_method := ''PATCH'',
       rq_label := ''CREATE_ORGANIZATION_OPTION'',
       rq_affectedRequests := [''GET_ORGANIZATION_OPTIONS''],
       rq_params := Obj [(''value'', json_stringify value)]\<rparr>)"

definition getOrganizationConstraints :: "jsval \<Rightarrow> obj \<Rightarrow> api_request" where
  "getOrganizationConstraints organizationId params =
     apiAction (\<lambda>r. r\<lparr>rq_url := API_URL @ ''/organizations/'' @ to_str organizationId
         @ ''/organization_constraints'',
       rq_method := ''GET'',
       rq_ttl := 5 * MINUTE,
       rq_onSuccess := Some (handleSuccess ''SET_ORGANIZATION_CONSTRAINTS''),
       rq_hash := hashParams (Obj (obj_spread params [(''organizationId'', organizationId)])),
       rq_label := ''GET_ORGANIZATION_CONSTRAINTS'',
       rq_params := Obj params\<rparr>)"

definition createOrganizationConstraint :: "jsval \<Rightarrow> jsval \<Rightarrow> api_request" where
  "createOrganizationConstraint organizationId params =
     apiAction (\<lambda>r. r\<lparr>rq_url := API_URL @ ''/organizations/'' @ to_str organizationId
         @ ''/organization_constraints'',
       rq_method := ''POST'',
       rq_label := ''CREATE_ORGANIZATION_CONSTRAINT'',
       rq_affectedRequests := [''GET_ORGANIZATION_CONSTRAINTS''],
       rq_params := params\<rparr>)"

definition getOrganizationConstraint :: "jsval \<Rightarrow> api_request" where
  "getOrganizationConstraint id_arg =
     apiAction (\<lambda>r. r\<lparr>rq_url := API_URL @ ''/organization_constraints/'' @ to_str id_arg,
       rq_method := ''GET'',
       rq_ttl := 5 * MINUTE,
       rq_onSuccess := Some (handleSuccess ''SET_ORGANIZATION_CONSTRAINT''),
       rq_hash := hashParams id_arg,
       rq_label := ''GET_ORGANIZATION_CONSTRAINT''\<rparr>)"

definition deleteOrganizationConstraint :: "jsval \<Rightarrow> api_request" where
  "deleteOrganizationConstraint id_arg =
     apiAction (\<lambda>r. r\<lparr>rq_url := API_URL @ ''/organization_constraints/'' @ to_str id_arg,
       rq_method := ''DELETE'',
       rq_label := ''DELETE_ORGANIZATION_CONSTRAINT'',
       rq_affectedRequests := [''GET_ORGANIZATION_CONSTRAINTS'']\<rparr>)"

definition updateOrganizationConstraint :: "jsval \<Rightarrow> jsval \<Rightarrow> api_request" where
  "updateOrganizationConstraint id_arg params =
     apiAction (\<lambda>r. r\<lparr>rq_url := API_URL @ ''/organization_constraints/'' @ to_str id_arg,
       rq_method := ''PATCH'',
       rq_label := ''UPDATE_ORGANIZATION_CONSTRAINT'',
       rq_affectedRequests := [''GET_ORGANIZATION_CONSTRAINTS''],
       rq_onSuccess := Some onSuccessUpdateAnomaly,
       rq_params := params\<rparr>)"

definition uploadCloudReport :: "jsval \<Rightarrow> jsval \<Rightarrow> api_request" where
  "uploadCloudReport cloudAccountId file =
     apiAction (\<lambda>r. r\<lparr>rq_url := API_URL @ ''/cloud_accounts/'' @ to_str cloudAccountId
         @ ''/report_upload'',
       rq_method := ''POST'',
       rq_headersOverride := [(''Content-Type'', Str ''application/octet-stream'')],
       rq_label := ''UPLOAD_CLOUD_REPORT'',
       rq_successHandlerType := SUCCESS_HANDLER_TYPE_ALERT,
       rq_params := file\<rparr>)"

definition uploadCodeReport :: "jsval \<Rightarrow> jsval \<Rightarrow> api_request" where
  "uploadCodeReport organizationId file =
     apiAction (\<lambda>r. r\<lparr>rq_url := API_URL @ ''/organizations/'' @ to_str organizationId
         @ ''/code_report_upload'',
       rq_method := ''POST'',
       rq_headersOverride := [(''Content-Type'', Str ''application/octet-stream'')],
       rq_label := ''UPLOAD_CODE_REPORT'',
       rq_successHandlerType := SUCCESS_HANDLER_TYPE_ALERT,
       rq_params := file\<rparr>)"

definition submitForAudit :: "jsval \<Rightarrow> api_request" where
  "submitForAudit organizationId =
     apiAction (\<lambda>r. r\<lparr>rq_url := API_URL @ ''/organizations/'' @ to_str organizationId
         @ ''/submit_for_audit'',
       rq_method := ''POST'',
       rq_label := ''SUBMIT_FOR_AUDIT''\<rparr>)"

definition updateDataSource :: "jsval \<Rightarrow> jsval \<Rightarrow> api_request" where
  "updateDataSource id_arg params =
     apiAction (\<lambda>r. r\<lparr>rq_url := API_URL @ ''/cloud_accounts/'' @ to_str id_arg,
       rq_method := ''PATCH'',
       rq_label := ''UPDATE_DATA_SOURCE'',
       rq_affectedRequests := [''GET_DATA_SOURCE_NODES''],
       rq_params := params\<rparr>)"

definition getPool :: "jsval \<Rightarrow> jsval \<Rightarrow> jsval \<Rightarrow> api_request" where
  "getPool poolId children details =
     (let children = js_default children (Bool False);
          details = js_default details (Bool False)
      in apiAction (\<lambda>r. r\<lparr>rq_url := API_URL @ ''/pools/'' @ to_str poolId,
       rq_method := ''GET'',
       rq_onSuccess := Some (handleSuccess ''SET_POOL''),
       rq_label := ''GET_POOL'',
       rq_ttl := 30 * MINUTE,
       rq_hash := hashParams (Obj [(''poolId'', poolId), (''children'', children),
         (''details'', details)]),
       rq_params := Obj [(''children'', children), (''details'', details)]\<rparr>))"

definition getPoolExpensesRange :: "jsval \<Rightarrow> jsval \<Rightarrow> jsval \<Rightarrow> api_request" where
  "getPoolExpensesRange poolId startDate endDate =
     apiAction (\<lambda>r. r\<lparr>rq_url := API_URL @ ''/pools/'' @ to_str poolId,
       rq_method := ''GET'',
       rq_onSuccess := Some (handleSuccess ''SET_POOL''),
       rq_label := ''GET_POOL_EXPENSES_RANGE'',
       rq_ttl := 30 * MINUTE,
       rq_hash := hashParams (Obj [(''poolId'', poolId), (''startDate'', startDate),
         (''endDate'', endDate)]),
       rq_params := Obj [(''children'', Bool True), (''details'', Bool True),
         (''start_date'', startDate), (''end_date'', endDate)]\<rparr>)"

definition createPool :: "jsval \<Rightarrow> obj \<Rightarrow> api_request" where
  "createPool organizationId params =
     apiAction (\<lambda>r. r\<lparr>rq_url := API_URL @ ''/organizations/'' @ to_str organizationId @ ''/pools'',
       rq_method := ''POST'',
       rq_successHandlerType := SUCCESS_HANDLER_TYPE_ALERT,
       rq_affectedRequests := [''GET_AVAILABLE_POOLS'', ''GET_AVAILABLE_FILTERS'', ''GET_POOL''],
       rq_label := ''CREATE_POOL'',
       rq_params := Obj [(''name'', obj_get params ''name''),
         (''parent_id'', obj_get params ''parentId''), (''limit'', obj_get params ''limit''),
         (''purpose'', obj_get params ''type''),
         (''auto_extension'', obj_get params ''autoExtension''),
         (''default_owner_id'', obj_get params ''defaultOwnerId'')]\<rparr>)"

definition updatePool :: "jsval \<Rightarrow> jsval \<Rightarrow> jsval \<Rightarrow> jsval \<Rightarrow> jsval \<Rightarrow> jsval \<Rightarrow> api_request" where
  "updatePool id_arg name limit_arg defaultOwnerId type_arg autoExtension =
     apiAction (\<lambda>r. r\<lparr>rq_url := API_URL @ ''/pools/'' @ to_str id_arg,
       rq_method := ''PATCH'',
       rq_label := ''UPDATE_POOL'',
       rq_affectedRequests := [''GET_ASSIGNMENT_RULES'', ''GET_AVAILABLE_POOLS'',
         ''GET_CLEAN_EXPENSES'', ''GET_POOLS_EXPENSES'', ''GET_ASSIGNMENT_RULES'',
         ''GET_ORGANIZATION_EXPENSES'', ''GET_ORGANIZATIONS_OVERVIEW'', ''GET_RESOURCE'', ''GET_POOL''],
       rq_params := Obj [(''name'', name), (''limit'', limit_arg),
         (''default_owner_id'', defaultOwnerId), (''purpose'', type_arg),
         (''auto_extension'', autoExtension)]\<rparr>)"

definition deletePool :: "jsval \<Rightarrow> api_request" where
  "deletePool id_arg =
     apiAction (\<lambda>r. r\<lparr>rq_url := API_URL @ ''/pools/'' @ to_str id_arg,
       rq_method := ''DELETE'',
       rq_onSuccess := Some (onSuccessDeletePool id_arg),
       rq_affectedRequests := [''GET_AVAILABLE_FILTERS''],
       rq_label := ''DELETE_POOL''\<rparr>)"

definition updateOrganization :: "jsval \<Rightarrow> jsval \<Rightarrow> api_request" where
  "updateOrganization organizationId params =
     apiAction (\<lambda>r. r\<lparr>rq_url := API_URL @ ''/organizations/'' @ to_str organizationId,
       rq_method := ''PATCH'',
       rq_label := ''UPDATE_ORGANIZATION'',
       rq_params := params\<rparr>)"

definition getOrganizationsOverview :: "jsval \<Rightarrow> api_request" where
  "getOrganizationsOverview details =
     (let details = js_default details (Bool True)
      in apiAction (\<lambda>r. r\<lparr>rq_url := API_URL @ ''/organizations_overview'',
       rq_method := ''GET'',
       rq_onSuccess := Some (handleSuccess ''SET_ORGANIZATIONS_OVERVIEW''),
       rq_ttl := 5 * MINUTE,
       rq_label := ''GET_ORGANIZATIONS_OVERVIEW'',
       rq_hash := hashParams (Obj [(''details'', details)]),
       rq_params := Obj [(''details'', details)]\<rparr>))"

definition getPoolExpenses :: "jsval \<Rightarrow> obj \<Rightarrow> api_request" where
  "getPoolExpenses poolId params =
     apiAction (\<lambda>r. r\<lparr>rq_url := API_URL @ ''/pools_expenses/'' @ to_str poolId,
       rq_method := ''GET'',
       rq_onSuccess := (if truthy (obj_get params ''filterBy'') then Some (handleSuccess ''SET_POOL_EXPENSES_BREAKDOWN'') else Some (handleSuccess ''SET_COST_EXPLORER_POOL_EXPENSES'')),
       rq_label := ''GET_POOLS_EXPENSES'',
       rq_ttl := MINUTE,
       rq_hash := hashParams (Obj (obj_spread params [(''poolId'', poolId)])),
       rq_params := Obj [(''start_date'', obj_get params ''startDate''),
         (''end_date'', obj_get params ''endDate''), (''filter_by'', obj_get params ''filterBy'')]\<rparr>)"

definition getCloudsExpenses :: "jsval \<Rightarrow> obj \<Rightarrow> api_request" where
  "getCloudsExpenses cloudAccountId params =
     apiAction (\<lambda>r. r\<lparr>rq_url := API_URL @ ''/clouds_expenses/'' @ to_str cloudAccountId,
       rq_method := ''GET'',
       rq_onSuccess := Some (handleSuccess ''SET_CLOUDS_EXPENSES''),
       rq_label := ''GET_CLOUDS_EXPENSES'',
       rq_ttl := MINUTE,
       rq_hash := hashParams (Obj (obj_spread params [(''cloudAccountId'', cloudAccountId)])),
       rq_params := Obj [(''start_date'', obj_get params ''startDate''),
         (''end_date'', obj_get params ''endDate''), (''filter_by'', obj_get params ''filterBy'')]\<rparr>)"

definition getEmployeesExpenses :: "jsval \<Rightarrow> obj \<Rightarrow> api_request" where
  "getEmployeesExpenses employeeId params =
     apiAction (\<lambda>r. r\<lparr>rq_url := API_URL @ ''/employees_expenses/'' @ to_str employeeId,
       rq_method := ''GET'',
       rq_onSuccess := Some (handleSuccess ''SET_EMPLOYEES_EXPENSES''),
       rq_label := ''GET_EMPLOYEES_EXPENSES'',
       rq_ttl := MINUTE,
       rq_hash := hashParams (Obj (obj_spread params [(''employeeId'', employeeId)])),
       rq_params := Obj [(''start_date'', obj_get params ''startDate''),
         (''end_date'', obj_get params ''endDate''), (''filter_by'', obj_get params ''filterBy'')]\<rparr>)"

definition createInvitations :: "jsval \<Rightarrow> api_request" where
  "createInvitations invitations =
     apiAction (\<lambda>r. r\<lparr>rq_url := API_URL @ ''/invites'',
       rq_method := ''POST'',
       rq_label := ''CREATE_INVITATIONS'',
       rq_successHandlerType := SUCCESS_HANDLER_TYPE_ALERT,
       rq_params := Obj [(''invites'', invitations)]\<rparr>)"

definition getInvitation :: "jsval \<Rightarrow> api_request" where
  "getInvitation inviteId =
     apiAction (\<lambda>r. r\<lparr>rq_url := API_URL @ ''/invites/'' @ to_str inviteId,
       rq_method := ''GET'',
       rq_onSuccess := Some (handleSuccess ''SET_INVITATION''),
       rq_label := ''GET_INVITATION''\<rparr>)"

definition splitResources :: "jsval \<Rightarrow> jsval \<Rightarrow> api_request" where
  "splitResources organizationId ids =
     apiAction (\<lambda>r. r\<lparr>rq_url := API_URL @ ''/organizations/'' @ to_str organizationId
         @ ''/split_resources/assign'',
       rq_method := ''POST'',
       rq_onSuccess := Some (handleSuccess ''SET_SPLIT_RESOURCES''),
       rq_label := ''GET_SPLIT_RESOURCES'',
       rq_params := ids\<rparr>)"

definition getAvailablePools :: "jsval \<Rightarrow> obj \<Rightarrow> api_request" where
  "getAvailablePools organizationId params =
     apiAction (\<lambda>r. r\<lparr>rq_url := API_URL @ ''/organizations/'' @ to_str organizationId @ ''/pools'',
       rq_method := ''GET'',
       rq_onSuccess := Some (handleSuccess ''SET_AVAILABLE_POOLS''),
       rq_label := ''GET_AVAILABLE_POOLS'',
       rq_ttl := 30 * MINUTE,
       rq_hash := hashParams (Obj (obj_spread params [(''organizationId'', organizationId)])),
       rq_params := Obj [(''permission'', js_or (obj_get params ''permission'') (Arr [Str ''INFO_ORGANIZATION''])), (''condition'', obj_get params ''condition'')]\<rparr>)"

definition getPoolOwners :: "jsval \<Rightarrow> jsval \<Rightarrow> api_request" where
  "getPoolOwners poolId excludeMyself =
     (let excludeMyself = js_default excludeMyself (Bool False)
      in apiAction (\<lambda>r. r\<lparr>rq_url := API_URL @ ''/pools/'' @ to_str poolId @ ''/employees'',
       rq_method := ''GET'',
       rq_onSuccess := Some (handleSuccess ''SET_POOL_OWNERS''),
       rq_label := ''GET_POOL_OWNERS'',
       rq_ttl := MINUTE,
       rq_hash := hashParams (Obj [(''poolId'', poolId), (''excludeMyself'', excludeMyself)]),
       rq_params := Obj [(''exclude_myself'', excludeMyself)]\<rparr>))"

definition getAuthorizedEmployees :: "jsval \<Rightarrow> obj \<Rightarrow> api_request" where
  "getAuthorizedEmployees organizationId params =
     apiAction (\<lambda>r. r\<lparr>rq_url := API_URL @ ''/organizations/'' @ to_str organizationId
         @ ''/authorized_employees'',
       rq_method := ''GET'',
       rq_onSuccess := Some (handleSuccess ''SET_AUTHORIZED_EMPLOYEES''),
       rq_label := ''GET_AUTHORIZED_EMPLOYEES'',
       rq_ttl := 5 * MINUTE,
       rq_hash := hashParams (Obj (obj_spread params [(''organizationId'', organizationId)])),
       rq_params := Obj [(''object_type'', obj_get params ''objectType''),
         (''object_id'', obj_get params ''objectId''),
         (''permission'', js_or (obj_get params ''permission'') (Arr [Str ''INFO_ORGANIZATION'']))]\<rparr>)"

definition getEmployees :: "jsval \<Rightarrow> jsval \<Rightarrow> jsval \<Rightarrow> api_request" where
  "getEmployees organizationId roles excludeMyself =
     (let roles = js_default roles (Bool False);
          excludeMyself = js_default excludeMyself (Bool False)
      in apiAction (\<lambda>r. r\<lparr>rq_url := API_URL @ ''/organizations/'' @ to_str organizationId
         @ ''/employees'',
       rq_method := ''GET'',
       rq_onSuccess := Some (handleSuccess ''SET_EMPLOYEES''),
       rq_label := ''GET_EMPLOYEES'',
       rq_ttl := MINUTE,
       rq_hash := hashParams (Obj [(''organizationId'', organizationId), (''roles'', roles)]),
       rq_params := Obj [(''roles'', roles), (''exclude_myself'', excludeMyself)]\<rparr>))"

definition deleteEmployee :: "jsval \<Rightarrow> jsval \<Rightarrow> api_request" where
  "deleteEmployee employeeId newOwnerId =
     apiAction (\<lambda>r. r\<lparr>rq_url := API_URL @ ''/employees/'' @ to_str employeeId,
       rq_method := ''DELETE'',
       rq_label := ''DELETE_EMPLOYEE'',
       rq_successHandlerType := SUCCESS_HANDLER_TYPE_ALERT,
       rq_affectedRequests := [''GET_EMPLOYEES'', ''GET_AUTHORIZED_EMPLOYEES''],
       rq_params := Obj [(''new_owner_id'', newOwnerId)]\<rparr>)"

definition getOrganizationExpenses :: "jsval \<Rightarrow> api_request" where
  "getOrganizationExpenses organizationId =
     apiAction (\<lambda>r. r\<lparr>rq_url := API_URL @ ''/organizations/'' @ to_str organizationId
         @ ''/pool_expenses'',
       rq_method := ''GET'',
       rq_onSuccess := Some (handleSuccess ''SET_ORGANIZATION_EXPENSES''),
       rq_label := ''GET_ORGANIZATION_EXPENSES'',
       rq_ttl := MINUTE,
       rq_hash := hashParams organizationId\<rparr>)"

definition getRawExpenses :: "jsval \<Rightarrow> obj \<Rightarrow> api_request" where
  "getRawExpenses resourceId params =
     apiAction (\<lambda>r. r\<lparr>rq_url := API_URL @ ''/resources/'' @ to_str resourceId @ ''/raw_expenses'',
       rq_method := ''GET'',
       rq_onSuccess := Some (handleSuccess ''SET_RAW_EXPENSES''),
       rq_label := ''GET_RAW_EXPENSES'',
       rq_ttl := 5 * MINUTE,
       rq_hash := hashParams (Obj (obj_spread params [(''resourceId'', resourceId)])),
       rq_params := Obj [(''start_date'', obj_get params ''startDate''),
         (''end_date'', obj_get params ''endDate'')]\<rparr>)"

definition getCleanExpenses :: "jsval \<Rightarrow> obj \<Rightarrow> api_request" where
  "getCleanExpenses organizationId params =
     apiAction (\<lambda>r. r\<lparr>rq_url := API_URL @ ''/organizations/'' @ to_str organizationId
         @ ''/clean_expenses'',
       rq_method := ''GET'',
       rq_onSuccess := Some (handleSuccess ''SET_CLEAN_EXPENSES''),
       rq_label := ''GET_CLEAN_EXPENSES'',
       rq_ttl := 5 * MINUTE,
       rq_hash := hashParams (Obj (obj_spread [(''organizationId'', organizationId)] params)),
       rq_params := Obj params\<rparr>)"

definition getExpensesSummary :: "jsval \<Rightarrow> obj \<Rightarrow> api_request" where
  "getExpensesSummary organizationId params =
     apiAction (\<lambda>r. r\<lparr>rq_url := API_URL @ ''/organizations/'' @ to_str organizationId
         @ ''/summary_expenses'',
       rq_method := ''GET'',
       rq_onSuccess := Some (handleSuccess ''SET_EXPENSES_SUMMARY''),
       rq_label := ''GET_EXPENSES_SUMMARY'',
       rq_ttl := 5 * MINUTE,
       rq_hash := hashParams (Obj (obj_spread [(''organizationId'', organizationId)] params)),
       rq_params := Obj params\<rparr>)"

definition getAvailableFilters :: "jsval \<Rightarrow> obj \<Rightarrow> api_request" where
  "getAvailableFilters organizationId params =
     apiAction (\<lambda>r. r\<lparr>rq_url := API_URL @ ''/organizations/'' @ to_str organizationId
         @ ''/available_filters'',
       rq_method := ''GET'',
       rq_onSuccess := Some (handleSuccess ''SET_AVAILABLE_FILTERS''),
       rq_label := ''GET_AVAILABLE_FILTERS'',
       rq_ttl := 5 * MINUTE,
       rq_hash := hashParams (Obj (obj_spread [(''organizationId'', organizationId)] params)),
       rq_params := Obj params\<rparr>)"

definition getResourceCountBreakdown :: "jsval \<Rightarrow> obj \<Rightarrow> api_request" where
  "getResourceCountBreakdown organizationId params =
     apiAction (\<lambda>r. r\<lparr>rq_url := API_URL @ ''/organizations/'' @ to_str organizationId
         @ ''/resources_count'',
       rq_method := ''GET'',
       rq_onSuccess := Some (handleSuccess ''SET_RESOURCE_COUNT_BREAKDOWN''),
       rq_label := ''GET_RESOURCE_COUNT_BREAKDOWN'',
       rq_ttl := 5 * MINUTE,
       rq_hash := hashParams (Obj (obj_spread [(''organizationId'', organizationId)] params)),
       rq_params := Obj params\<rparr>)"

definition getTagsBreakdown :: "jsval \<Rightarrow> obj \<Rightarrow> api_request" where
  "getTagsBreakdown organizationId params =
     apiAction (\<lambda>r. r\<lparr>rq_url := API_URL @ ''/organizations/'' @ to_str organizationId
         @ ''/breakdown_tags'',
       rq_method := ''GET'',
       rq_onSuccess := Some (handleSuccess ''SET_TAGS_BREAKDOWN''),
       rq_label := ''GET_TAGS_BREAKDOWN'',
       rq_ttl := 5 * MINUTE,
       rq_hash := hashParams (Obj (obj_spread [(''organizationId'', organizationId)] params)),
       rq_params := Obj params\<rparr>)"

definition getRegionExpenses :: "jsval \<Rightarrow> obj \<Rightarrow> api_request" where
  "getRegionExpenses organizationId params =
     apiAction (\<lambda>r. r\<lparr>rq_url := API_URL @ ''/organizations/'' @ to_str organizationId
         @ ''/region_expenses'',
       rq_method := ''GET'',
       rq_onSuccess := Some (handleSuccess ''SET_REGION_EXPENSES''),
       rq_label := ''GET_REGION_EXPENSES'',
       rq_ttl := MINUTE,
       rq_hash := hashParams (Obj (obj_spread params [(''organizationId'', organizationId)])),
       rq_params := Obj [(''start_date'', obj_get params ''startDate''),
         (''end_date'', obj_get params ''endDate'')]\<rparr>)"

definition getTrafficExpenses :: "jsval \<Rightarrow> obj \<Rightarrow> api_request" where
  "getTrafficExpenses organizationId params =
     apiAction (\<lambda>r. r\<lparr>rq_url := API_URL @ ''/organizations/'' @ to_str organizationId
         @ ''/traffic_expenses'',
       rq_method := ''GET'',
       rq_onSuccess := Some (handleSuccess ''SET_TRAFFIC_EXPENSES''),
       rq_label := ''GET_TRAFFIC_EXPENSES'',
       rq_ttl := 5 * MINUTE,
       rq_hash := hashParams (Obj (obj_spread params [(''organizationId'', organizationId)])),
       rq_params := Obj [(''start_date'', obj_get params ''startDate''),
         (''end_date'', obj_get params ''endDate''), (''_id'', obj_get params ''resourceId'')]\<rparr>)"

definition getAssignmentRules :: "jsval \<Rightarrow> obj \<Rightarrow> api_request" where
  "getAssignmentRules organizationId params =
     apiAction (\<lambda>r. r\<lparr>rq_url := API_URL @ ''/organizations/'' @ to_str organizationId @ ''/rules'',
       rq_method := ''GET'',
       rq_onSuccess := Some (handleSuccess ''SET_ASSIGNMENT_RULES''),
       rq_label := ''GET_ASSIGNMENT_RULES'',
       rq_ttl := MINUTE,
       rq_hash := hashParams (Obj (obj_spread params [(''organizationId'', organizationId)])),
       rq_params := Obj [(''pool_id'', obj_get params ''poolId''),
         (''owner_id'', obj_get params ''ownerId'')]\<rparr>)"

definition getK8sRightsizing :: "jsval \<Rightarrow> obj \<Rightarrow> api_request" where
  "getK8sRightsizing organizationId params =
     apiAction (\<lambda>r. r\<lparr>rq_url := API_URL @ ''/organizations/'' @ to_str organizationId
         @ ''/k8s_rightsizing'',
       rq_method := ''GET'',
       rq_onSuccess := Some (handleSuccess ''SET_K8S_RIGHTSIZING''),
       rq_label := ''GET_K8S_RIGHTSIZING'',
       rq_ttl := 5 * MINUTE,
       rq_hash := hashParams (Obj (obj_spread params [(''organizationId'', organizationId)])),
       rq_params := Obj [(''start_date'', obj_get params ''startDate''),
         (''end_date'', obj_get params ''endDate'')]\<rparr>)"

definition updateAssignmentRulePriority :: "jsval \<Rightarrow> jsval \<Rightarrow> api_request" where
  "updateAssignmentRulePriority assignmentRuleId action_arg =
     apiAction (\<lambda>r. r\<lparr>rq_url := API_URL @ ''/rules/'' @ to_str assignmentRuleId @ ''/priority'',
       rq_method := ''PATCH'',
       rq_onSuccess := Some onSuccessUpdateAssignmentRulePriority,
       rq_label := ''UPDATE_ASSIGNMENT_RULE_PRIORITY'',
       rq_params := Obj [(''action'', action_arg)]\<rparr>)"

definition getAssignmentRule :: "jsval \<Rightarrow> api_request" where
  "getAssignmentRule assignmentRuleId =
     apiAction (\<lambda>r. r\<lparr>rq_url := API_URL @ ''/rules/'' @ to_str assignmentRuleId,
       rq_method := ''GET'',
       rq_onSuccess := Some (handleSuccess ''SET_ASSIGNMENT_RULE''),
       rq_label := ''GET_ASSIGNMENT_RULE''\<rparr>)"

definition createAssignmentRule :: "jsval \<Rightarrow> obj \<Rightarrow> api_request" where
  "createAssignmentRule organizationId params =
     apiAction (\<lambda>r. r\<lparr>rq_url := API_URL @ ''/organizations/'' @ to_str organizationId @ ''/rules'',
       rq_method := ''POST'',
       rq_label := ''CREATE_ASSIGNMENT_RULE'',
       rq_affectedRequests := [''GET_ASSIGNMENT_RULES''],
       rq_successHandlerType := SUCCESS_HANDLER_TYPE_ALERT,
       rq_params := Obj [(''name'', obj_get params ''name''),
         (''active'', obj_get params ''active''), (''pool_id'', obj_get params ''poolId''),
         (''owner_id'', obj_get params ''ownerId''), (''operator'', obj_get params ''operator''),
         (''conditions'', obj_get params ''conditions'')]\<rparr>)"

definition updateAssignmentRule :: "jsval \<Rightarrow> obj \<Rightarrow> api_request" where
  "updateAssignmentRule assignmentRuleId params =
     apiAction (\<lambda>r. r\<lparr>rq_url := API_URL @ ''/rules/'' @ to_str assignmentRuleId,
       rq_method := ''PATCH'',
       rq_label := ''UPDATE_ASSIGNMENT_RULE'',
       rq_affectedRequests := [''GET_ASSIGNMENT_RULES''],
       rq_params := Obj [(''active'', obj_get params ''active''),
         (''name'', obj_get params ''name''), (''operator'', obj_get params ''operator''),
         (''conditions'', obj_get params ''conditions''), (''pool_id'', obj_get params ''poolId''),
         (''owner_id'', obj_get params ''ownerId'')]\<rparr>)"

definition deleteAssignmentRule :: "jsval \<Rightarrow> api_request" where
  "deleteAssignmentRule ruleId =
     apiAction (\<lambda>r. r\<lparr>rq_url := API_URL @ ''/rules/'' @ to_str ruleId,
       rq_method := ''DELETE'',
       rq_label := ''DELETE_ASSIGNMENT_RULE'',
       rq_affectedRequests := [''GET_ASSIGNMENT_RULES'']\<rparr>)"

definition getResource :: "jsval \<Rightarrow> jsval \<Rightarrow> api_request" where
  "getResource resourceId details =
     (let details = js_default details (Bool False)
      in apiAction (\<lambda>r. r\<lparr>rq_url := API_URL @ ''/cloud_resources/'' @ to_str resourceId,
       rq_method := ''GET'',
       rq_onSuccess := Some (handleSuccess ''SET_RESOURCE''),
       rq_label := ''GET_RESOURCE'',
       rq_ttl := 5 * MINUTE,
       rq_hash := hashParams (Obj [(''resourceId'', resourceId), (''details'', details)]),
       rq_params := Obj [(''details'', details)]\<rparr>))"

definition getPoolPolicies :: "jsval \<Rightarrow> api_request" where
  "getPoolPolicies poolId =
     apiAction (\<lambda>r. r\<lparr>rq_url := API_URL @ ''/pools/'' @ to_str poolId @ ''/policies'',
       rq_method := ''GET'',
       rq_onSuccess := Some (handleSuccess ''SET_POOL_POLICIES''),
       rq_label := ''GET_POOL_POLICIES'',
       rq_ttl := MINUTE,
       rq_hash := hashParams (Obj [(''poolId'', poolId)])\<rparr>)"

definition createPoolPolicyBase ::
  "jsval \<Rightarrow> obj \<Rightarrow> (jsval \<Rightarrow> string \<Rightarrow> action) option \<Rightarrow> string \<Rightarrow> string list \<Rightarrow> api_request" where
  "createPoolPolicyBase poolId params onSuccess label_arg affectedRequests =
     apiAction (\<lambda>r. r\<lparr>rq_url := API_URL @ ''/pools/'' @ to_str poolId @ ''/policies'',
       rq_method := ''POST'',
       rq_label := label_arg,
       rq_onSuccess := onSuccess,
       rq_params := Obj [(''active'', Bool True), (''limit'', obj_get params ''limit''),
         (''type'', obj_get params ''type'')],
       rq_affectedRequests := ''GET_GLOBAL_POOL_POLICIES'' # affectedRequests\<rparr>)"

definition createGlobalPoolPolicy :: "jsval \<Rightarrow> obj \<Rightarrow> api_request" where
  "createGlobalPoolPolicy poolId params =
     createPoolPolicyBase poolId params None ''CREATE_GLOBAL_POOL_POLICY'' [''GET_POOL_POLICIES'']"

definition createPoolPolicy :: "jsval \<Rightarrow> obj \<Rightarrow> api_request" where
  "createPoolPolicy poolId params =
     createPoolPolicyBase poolId params (Some onSuccessCreatePoolPolicy) ''CREATE_POOL_POLICY'' [''GET_POOL'']"

definition createExpensesExport :: "jsval \<Rightarrow> api_request" where
  "createExpensesExport poolId =
     apiAction (\<lambda>r. r\<lparr>rq_url := API_URL @ ''/pools/'' @ to_str poolId @ ''/expenses_export'',
       rq_method := ''POST'',
       rq_onSuccess := Some onSuccessExportLinkChange,
       rq_label := ''CREATE_POOL_EXPENSES_EXPORT'',
       rq_affectedRequests := [''GET_POOL'']\<rparr>)"

definition deleteExpensesExport :: "jsval \<Rightarrow> api_request" where
  "deleteExpensesExport poolId =
     apiAction (\<lambda>r. r\<lparr>rq_url := API_URL @ ''/pools/'' @ to_str poolId @ ''/expenses_export'',
       rq_method := ''DELETE'',
       rq_onSuccess := Some onSuccessExportLinkChange,
       rq_label := ''DELETE_POOL_EXPENSES_EXPORT'',
       rq_affectedRequests := [''GET_POOL'']\<rparr>)"

definition updatePoolPolicyLimitBase ::
  "jsval \<Rightarrow> jsval \<Rightarrow> (jsval \<Rightarrow> string \<Rightarrow> action) option \<Rightarrow> string \<Rightarrow> string list \<Rightarrow> bool \<Rightarrow> api_request" where
  "updatePoolPolicyLimitBase policyId params onSuccess label_arg affectedRequests allowMultipleRequests =
     apiAction (\<lambda>r. r\<lparr>rq_url := API_URL @ ''/policies/'' @ to_str policyId,
       rq_method := ''PATCH'',
       rq_label := label_arg,
       rq_onSuccess := onSuccess,
       rq_entityId := policyId,
       rq_affectedRequests := ''GET_RESOURCE'' # affectedRequests,
       rq_params := params,
       rq_allowMultipleRequests := allowMultipleRequests\<rparr>)"

definition updatePoolPolicyLimit :: "jsval \<Rightarrow> jsval \<Rightarrow> api_request" where
  "updatePoolPolicyLimit policyId limit_arg =
     updatePoolPolicyLimitBase policyId (Obj [(''limit'', limit_arg)]) (Some onSuccessCreatePoolPolicy)
       ''UPDATE_POOL_POLICY_LIMIT'' [''GET_GLOBAL_POOL_POLICIES'', ''GET_POOL''] False"

definition updateGlobalPoolPolicyLimit :: "jsval \<Rightarrow> jsval \<Rightarrow> api_request" where
  "updateGlobalPoolPolicyLimit policyId limit_arg =
     updatePoolPolicyLimitBase policyId (Obj [(''limit'', limit_arg)])
       (Some onSuccessUpdateGlobalPoolPolicyLimit)
       ''UPDATE_GLOBAL_POOL_POLICY_LIMIT'' [''GET_POOL_POLICIES''] True"

definition updatePoolPolicyActivityBase ::
  "jsval \<Rightarrow> jsval \<Rightarrow> string list \<Rightarrow> (jsval \<Rightarrow> string \<Rightarrow> action) option \<Rightarrow> string \<Rightarrow> bool \<Rightarrow> api_request" where
  "updatePoolPolicyActivityBase policyId params affectedRequests onSuccess label_arg allowMultipleRequests =
     apiAction (\<lambda>r. r\<lparr>rq_url := API_URL @ ''/policies/'' @ to_str policyId,
       rq_method := ''PATCH'',
       rq_label := label_arg,
       rq_onSuccess := onSuccess,
       rq_entityId := policyId,
       rq_affectedRequests := [''GET_RESOURCE'', ''GET_POOL''] @ affectedRequests,
       rq_params := params,
       rq_allowMultipleRequests := allowMultipleRequests\<rparr>)"

definition updatePoolPolicyActivity :: "jsval \<Rightarrow> jsval \<Rightarrow> api_request" where
  "updatePoolPolicyActivity policyId active =
     updatePoolPolicyActivityBase policyId (Obj [(''active'', active)]) [''GET_GLOBAL_POOL_POLICIES'']
       (Some onSuccessCreatePoolPolicy) ''UPDATE_POOL_POLICY_ACTIVITY'' False"

definition updateGlobalPoolPolicyActivity :: "jsval \<Rightarrow> jsval \<Rightarrow> api_request" where
  "updateGlobalPoolPolicyActivity policyId active =
     updatePoolPolicyActivityBase policyId (Obj [(''active'', active)]) [''GET_POOL_POLICIES'']
       (Some onSuccessUpdateGlobalPoolPolicyActivity) ''UPDATE_GLOBAL_POOL_POLICY_ACTIVITY'' True"

lemmas org_action_defs =
  getOrganizationOptions_def getOrganizationOption_def deleteOrganizationOption_def
  updateOrganizationOption_def createOrganizationOption_def getOrganizationConstraints_def
  createOrganizationConstraint_def getOrganizationConstraint_def deleteOrganizationConstraint_def
  updateOrganizationConstraint_def uploadCloudReport_def uploadCodeReport_def
  submitForAudit_def updateDataSource_def getPool_def
  getPoolExpensesRange_def createPool_def updatePool_def
  deletePool_def updateOrganization_def getOrganizationsOverview_def
  getPoolExpenses_def getCloudsExpenses_def getEmployeesExpenses_def
  createInvitations_def getInvitation_def splitResources_def
  getAvailablePools_def getPoolOwners_def getAuthorizedEmployees_def
  getEmployees_def deleteEmployee_def getOrganizationExpenses_def
  getRawExpenses_def getCleanExpenses_def getExpensesSummary_def
  getAvailableFilters_def getResourceCountBreakdown_def getTagsBreakdown_def
  getRegionExpenses_def getTrafficExpenses_def getAssignmentRules_def
  getK8sRightsizing_def updateAssignmentRulePriority_def getAssignmentRule_def
  createAssignmentRule_def updateAssignmentRule_def deleteAssignmentRule_def
  getResource_def getPoolPolicies_def createPoolPolicyBase_def
  createGlobalPoolPolicy_def createPoolPolicy_def createExpensesExport_def
  deleteExpensesExport_def updatePoolPolicyLimitBase_def updatePoolPolicyLimit_def
  updateGlobalPoolPolicyLimit_def updatePoolPolicyActivityBase_def updatePoolPolicyActivity_def
  updateGlobalPoolPolicyActivity_def

end
