(* ===== verification/RestActionsResources.thy ===== *)
theory RestActionsResources
  imports RestActionsOrg
begin

text \<open>
  Action creators of \<open>api/restapi/actionCreators.ts\<close>, lines 1078 to 1799.  Resource constraints, recommendations, environments, cost models, webhooks, keys, bookings and calendars.
  An argument whose properties the source reads is an object (type \<open>obj\<close>, the empty list
  when it is omitted and its default is the empty object); any other argument is a value.
\<close>

definition createResourceConstraint :: "string \<Rightarrow> jsval \<Rightarrow> obj \<Rightarrow> api_request" where
  "createResourceConstraint label_arg resourceId params =
     apiAction (\<lambda>r. r\<lparr>rq_url := API_URL @ ''/cloud_resources/'' @ to_str resourceId @ ''/constraints'',
       rq_method := ''POST'',
       rq_label := label_arg,
       rq_onSuccess := Some onSuccessCreateResourceConstraint,
       rq_params := Obj [(''limit'', obj_get params ''limit''), (''type'', obj_get params ''type'')]\<rparr>)"

definition createTotalExpenseLimitResourceConstraint :: "jsval \<Rightarrow> jsval \<Rightarrow> api_request" where
  "createTotalExpenseLimitResourceConstraint resourceId limit_arg =
     apiAction (\<lambda>r. r\<lparr>rq_url := API_URL @ ''/cloud_resources/'' @ to_str resourceId @ ''/constraints'',
       rq_method := ''POST'',
       rq_label := ''CREATE_TOTAL_EXPENSE_LIMIT_RESOURCE_CONSTRAINT'',
       rq_onSuccess := Some onSuccessCreateResourceConstraint,
       rq_params := Obj [(''limit'', limit_arg), (''type'', Str ''total_expense_limit'')],
       rq_affectedRequests := [''GET_GLOBAL_RESOURCE_CONSTRAINTS'']\<rparr>)"

definition createDailyExpenseLimitResourceConstraint :: "jsval \<Rightarrow> jsval \<Rightarrow> api_request" where
  "createDailyExpenseLimitResourceConstraint resourceId limit_arg =
     apiAction (\<lambda>r. r\<lparr>rq_url := API_URL @ ''/cloud_resources/'' @ to_str resourceId @ ''/constraints'',
       rq_method := ''POST'',
       rq_label := ''CREATE_DAILY_EXPENSE_LIMIT_RESOURCE_CONSTRAINT'',
       rq_onSuccess := Some onSuccessCreateResourceConstraint,
       rq_params := Obj [(''limit'', limit_arg), (''type'', Str ''daily_expense_limit'')],
       rq_affectedRequests := [''GET_GLOBAL_RESOURCE_CONSTRAINTS'']\<rparr>)"

definition createTtlResourceConstraint :: "jsval \<Rightarrow> jsval \<Rightarrow> api_request" where
  "createTtlResourceConstraint resourceId limit_arg =
     apiAction (\<lambda>r. r\<lparr>rq_url := API_URL @ ''/cloud_resources/'' @ to_str resourceId @ ''/constraints'',
       rq_method := ''POST'',
       rq_label := ''CREATE_TTL_RESOURCE_CONSTRAINT'',
       rq_onSuccess := Some onSuccessCreateResourceConstraint,
       rq_params := Obj [(''limit'', limit_arg), (''type'', Str ''ttl'')],
       rq_affectedRequests := [''GET_GLOBAL_RESOURCE_CONSTRAINTS'']\<rparr>)"

definition updateGlobalResourceConstraintLimit :: "jsval \<Rightarrow> jsval \<Rightarrow> api_request" where
  "updateGlobalResourceConstraintLimit constraintId limit_arg =
     apiAction (\<lambda>r. r\<lparr>rq_url := API_URL @ ''/constraints/'' @ to_str constraintId,
       rq_method := ''PATCH'',
       rq_label := ''UPDATE_GLOBAL_RESOURCE_CONSTRAINT_LIMIT'',
       rq_onSuccess := Some onSuccessUpdateGlobalResourceConstraintLimit,
       rq_params := Obj [(''limit'', limit_arg)],
       rq_affectedRequests := [''GET_RESOURCE''],
       rq_allowMultipleRequests := True\<rparr>)"

definition updateResourceConstraint :: "string \<Rightarrow> jsval \<Rightarrow> jsval \<Rightarrow> api_request" where
  "updateResourceConstraint label_arg constraintId limit_arg =
     apiAction (\<lambda>r. r\<lparr>rq_url := API_URL @ ''/constraints/'' @ to_str constraintId,
       rq_method := ''PATCH'',
       rq_label := label_arg,
       rq_onSuccess := Some onSuccessCreateResourceConstraint,
       rq_params := Obj [(''limit'', limit_arg)],
       rq_affectedRequests := [''GET_GLOBAL_RESOURCE_CONSTRAINTS'']\<rparr>)"

definition updateTtlResourceConstraint :: "jsval \<Rightarrow> jsval \<Rightarrow> api_request" where
  "updateTtlResourceConstraint =
     updateResourceConstraint ''UPDATE_TTL_RESOURCE_CONSTRAINT''"

definition updateTotalExpenseLimitResourceConstraint :: "jsval \<Rightarrow> jsval \<Rightarrow> api_request" where
  "updateTotalExpenseLimitResourceConstraint =
     updateResourceConstraint ''UPDATE_TOTAL_EXPENSE_LIMIT_RESOURCE_CONSTRAINT''"

definition updateDailyExpenseLimitResourceConstraint :: "jsval \<Rightarrow> jsval \<Rightarrow> api_request" where
  "updateDailyExpenseLimitResourceConstraint =
     updateResourceConstraint ''UPDATE_DAILY_EXPENSE_LIMIT_RESOURCE_CONSTRAINT''"

definition deleteResourceConstraintBase ::
  "jsval \<Rightarrow> (jsval \<Rightarrow> string \<Rightarrow> action) option \<Rightarrow> string \<Rightarrow> string list \<Rightarrow> api_request" where
  "deleteResourceConstraintBase constraintId onSuccess label_arg affectedRequests =
     apiAction (\<lambda>r. r\<lparr>rq_url := API_URL @ ''/constraints/'' @ to_str constraintId,
       rq_method := ''DELETE'',
       rq_onSuccess := onSuccess,
       rq_entityId := constraintId,
       rq_label := label_arg,
       rq_affectedRequests := affectedRequests\<rparr>)"

definition deleteResourceConstraint :: "jsval \<Rightarrow> api_request" where
  "deleteResourceConstraint constraintId =
     deleteResourceConstraintBase constraintId
       (Some (\<lambda>data label. onSuccessDeleteResourceConstraint constraintId)) ''DELETE_RESOURCE_CONSTRAINT'' []"

definition deleteGlobalResourceConstraint :: "jsval \<Rightarrow> api_request" where
  "deleteGlobalResourceConstraint constraintId =
     deleteResourceConstraintBase constraintId None ''DELETE_GLOBAL_RESOURCE_CONSTRAINT''
       [''GET_GLOBAL_RESOURCE_CONSTRAINTS'']"

definition getResourceLimitHits :: "jsval \<Rightarrow> api_request" where
  "getResourceLimitHits resourceId =
     apiAction (\<lambda>r. r\<lparr>rq_url := API_URL @ ''/cloud_resources/'' @ to_str resourceId @ ''/limit_hits'',
       rq_method := ''GET'',
       rq_onSuccess := Some (handleSuccess ''SET_RESOURCE_LIMIT_HITS''),
       rq_label := ''GET_RESOURCE_LIMIT_HITS'',
       rq_ttl := MINUTE,
       rq_hash := hashParams (Obj [(''resourceId'', resourceId)])\<rparr>)"

definition getOptimizationDetails :: "jsval \<Rightarrow> obj \<Rightarrow> api_request" where
  "getOptimizationDetails organizationId params =
     apiAction (\<lambda>r. r\<lparr>rq_url := API_URL @ ''/organizations/'' @ to_str organizationId
         @ ''/optimizations'',
       rq_method := ''GET'',
       rq_onSuccess := Some onSuccessGetOptimizationDetails,
       rq_label := ''GET_OPTIMIZATION_DETAILS'',
       rq_hash := hashParams (Obj (obj_spread [(''organizationId'', organizationId)] params)),
       rq_ttl := 5 * MINUTE,
       rq_params := Obj [(''type'', obj_get params ''type''),
         (''limit'', obj_get params ''limit''), (''status'', obj_get params ''status''),
         (''cloud_account_id'', obj_get params ''cloudAccountIds'')]\<rparr>)"

definition getOptimizationsOverview :: "jsval \<Rightarrow> jsval \<Rightarrow> api_request" where
  "getOptimizationsOverview organizationId cloudAccountIds =
     (let cloudAccountIds = js_default cloudAccountIds (Arr [])
      in apiAction (\<lambda>r. r\<lparr>rq_url := API_URL @ ''/organizations/'' @ to_str organizationId
         @ ''/optimizations'',
       rq_method := ''GET'',
       rq_onSuccess := Some onSuccessGetOptimizationsOverview,
       rq_label := ''GET_OPTIMIZATIONS_OVERVIEW'',
       rq_hash := hashParams (Obj [(''organizationId'', organizationId),
         (''cloudAccountIds'', cloudAccountIds)]),
       rq_ttl := 5 * MINUTE,
       rq_params := Obj [(''limit'', Num 3), (''overview'', Bool True),
         (''cloud_account_id'', cloudAccountIds)]\<rparr>))"

definition getOptimizationOptions :: "jsval \<Rightarrow> jsval \<Rightarrow> api_request" where
  "getOptimizationOptions organizationId recommendationType =
     apiAction (\<lambda>r. r\<lparr>rq_url := API_URL @ ''/organizations/'' @ to_str organizationId
         @ ''/options/recommendation_'' @ to_str recommendationType,
       rq_method := ''GET'',
       rq_hash := hashParams (Obj [(''organizationId'', organizationId),
         (''recommendationType'', recommendationType)]),
       rq_ttl := 5 * MINUTE,
       rq_onSuccess := Some (handleSuccess ''SET_OPTIMIZATION_OPTIONS''),
       rq_label := ''GET_OPTIMIZATION_OPTIONS''\<rparr>)"

definition updateOptimizationOptions :: "jsval \<Rightarrow> obj \<Rightarrow> jsval \<Rightarrow> api_request" where
  "updateOptimizationOptions settingType pathParams params =
     (let organizationId = obj_get pathParams ''organizationId'';
          recommendationType = obj_get pathParams ''recommendationType''
      in apiAction (\<lambda>r. r\<lparr>rq_url := API_URL @ ''/organizations/'' @ to_str organizationId
           @ ''/options/recommendation_'' @ to_str recommendationType,
       rq_method := ''PATCH'',
       rq_affectedRequests := [''GET_OPTIMIZATIONS'', ''GET_OPTIMIZATIONS_OVERVIEW'',
         ''GET_ORGANIZATION_OPTIONS''],
       rq_successHandlerType := SUCCESS_HANDLER_TYPE_ALERT,
       rq_successHandlerPayload := Obj [(''settingType'', settingType)],
       rq_label := ''UPDATE_OPTIMIZATION_OPTIONS'',
       rq_params := params\<rparr>))"

definition updateOptimizations :: "jsval \<Rightarrow> obj \<Rightarrow> api_request" where
  "updateOptimizations checklistId params =
     apiAction (\<lambda>r. r\<lparr>rq_url := API_URL @ ''/checklists/'' @ to_str checklistId,
       rq_method := ''PATCH'',
       rq_label := ''UPDATE_OPTIMIZATIONS'',
       rq_onSuccess := Some onSuccessUpdateOptimizations,
       rq_affectedRequests := [''GET_OPTIMIZATIONS_OVERVIEW''],
       rq_params := Obj [(''next_run'', obj_get params ''nextRun'')]\<rparr>)"

definition getLiveDemo :: "api_request" where
  "getLiveDemo =
     apiAction (\<lambda>r. r\<lparr>rq_url := API_URL @ ''/live_demo'',
       rq_method := ''GET'',
       rq_onSuccess := Some (handleSuccess ''SET_LIVE_DEMO''),
       rq_label := ''GET_LIVE_DEMO'',
       rq_errorHandlerType := ERROR_HANDLER_TYPE_LOCAL\<rparr>)"

definition createLiveDemo :: "jsval \<Rightarrow> jsval \<Rightarrow> api_request" where
  "createLiveDemo email subscribeToNewsletter =
     apiAction (\<lambda>r. r\<lparr>rq_url := API_URL @ ''/live_demo'',
       rq_method := ''POST'',
       rq_onSuccess := Some onSuccessCreateLiveDemo,
       rq_label := ''CREATE_LIVE_DEMO'',
       rq_errorHandlerType := ERROR_HANDLER_TYPE_LOCAL,
       rq_params := Obj [(''email'', email), (''subscribe'', subscribeToNewsletter)]\<rparr>)"

definition getTtlAnalysis :: "jsval \<Rightarrow> obj \<Rightarrow> api_request" where
  "getTtlAnalysis poolId params =
     apiAction (\<lambda>r. r\<lparr>rq_url := API_URL @ ''/pools/'' @ to_str poolId @ ''/ttl_analysis'',
       rq_method := ''GET'',
       rq_onSuccess := Some (handleSuccess ''SET_TTL_ANALYSIS''),
       rq_label := ''GET_TTL_ANALYSIS'',
       rq_params := Obj [(''start_date'', obj_get params ''startDate''),
         (''end_date'', obj_get params ''endDate''), (''ttl'', obj_get params ''ttl'')]\<rparr>)"

definition applyAssignmentRules :: "jsval \<Rightarrow> obj \<Rightarrow> api_request" where
  "applyAssignmentRules organizationId params =
     apiAction (\<lambda>r. r\<lparr>rq_url := API_URL @ ''/organizations/'' @ to_str organizationId
         @ ''/rules_apply'',
       rq_method := ''POST'',
       rq_label := ''APPLY_ASSIGNMENT_RULES'',
       rq_affectedRequests := [''GET_CLEAN_EXPENSES''],
       rq_params := Obj [(''pool_id'', obj_get params ''poolId''),
         (''include_children'', obj_get params ''includeChildren'')]\<rparr>)"

definition updateResourceVisibility :: "jsval \<Rightarrow> obj \<Rightarrow> api_request" where
  "updateResourceVisibility resourceId params =
     apiAction (\<lambda>r. r\<lparr>rq_url := API_URL @ ''/resources/'' @ to_str resourceId @ ''/optimizations'',
       rq_method := ''PATCH'',
       rq_label := ''UPDATE_RESOURCE_VISIBILITY'',
       rq_affectedRequests := [''GET_RESOURCE'', ''GET_ML_OPTIMIZATION_DETAILS'',
         ''GET_ML_TASK_RECOMMENDATIONS'', ''GET_OPTIMIZATION_DETAILS'', ''GET_OPTIMIZATIONS_OVERVIEW''],
       rq_params := Obj [(''action'', obj_get params ''action''),
         (''recommendation'', obj_get params ''recommendation'')]\<rparr>)"

definition getFinOpsChecklist :: "jsval \<Rightarrow> api_request" where
  "getFinOpsChecklist organizationId =
     apiAction (\<lambda>r. r\<lparr>rq_url := API_URL @ ''/organizations/'' @ to_str organizationId
         @ ''/options/finops_checklist'',
       rq_method := ''GET'',
       rq_onSuccess := Some (handleSuccess ''SET_FINOPS_CHECKLIST''),
       rq_ttl := HALF_HOUR,
       rq_hash := hashParams organizationId,
       rq_label := ''GET_FINOPS_CHECKLIST''\<rparr>)"

definition updateFinOpsChecklist :: "jsval \<Rightarrow> jsval \<Rightarrow> api_request" where
  "updateFinOpsChecklist organizationId value =
     apiAction (\<lambda>r. r\<lparr>rq_url := API_URL @ ''/organizations/'' @ to_str organizationId
         @ ''/options/finops_checklist'',
       rq_method := ''PATCH'',
       rq_label := ''UPDATE_FINOPS_CHECKLIST'',
       rq_onSuccess := Some onFinOpsChecklist,
       rq_params := Obj [(''value'', json_stringify value)]\<rparr>)"

definition getRecommendationsDownloadLimit :: "jsval \<Rightarrow> api_request" where
  "getRecommendationsDownloadLimit organizationId =
     apiAction (\<lambda>r. r\<lparr>rq_url := API_URL @ ''/organizations/'' @ to_str organizationId
         @ ''/options/recommendations_download_options'',
       rq_method := ''GET'',
       rq_onSuccess := Some (handleSuccess ''SET_RECOMMENDATIONS_DOWNLOAD_OPTIONS''),
       rq_ttl := HOUR,
       rq_hash := hashParams organizationId,
       rq_label := ''GET_RECOMMENDATIONS_DOWNLOAD_OPTIONS''\<rparr>)"

definition getClusterTypes :: "jsval \<Rightarrow> api_request" where
  "getClusterTypes organizationId =
     apiAction (\<lambda>r. r\<lparr>rq_url := API_URL @ ''/organizations/'' @ to_str organizationId
         @ ''/cluster_types'',
       rq_method := ''GET'',
       rq_onSuccess := Some (handleSuccess ''SET_CLUSTER_TYPES''),
       rq_label := ''GET_CLUSTER_TYPES'',
       rq_ttl := MINUTE,
       rq_hash := hashParams organizationId\<rparr>)"

definition createClusterType :: "jsval \<Rightarrow> obj \<Rightarrow> api_request" where
  "createClusterType organizationId params =
     apiAction (\<lambda>r. r\<lparr>rq_url := API_URL @ ''/organizations/'' @ to_str organizationId
         @ ''/cluster_types'',
       rq_method := ''POST'',
       rq_label := ''CREATE_CLUSTER_TYPE'',
       rq_affectedRequests := [''GET_CLUSTER_TYPES'', ''GET_CLEAN_EXPENSES'',
         ''GET_EXPENSES_DAILY_BREAKDOWN'', ''GET_RESOURCE_COUNT_BREAKDOWN''],
       rq_params := Obj [(''name'', obj_get params ''name''),
         (''tag_key'', obj_get params ''tagKey'')]\<rparr>)"

definition deleteClusterType :: "jsval \<Rightarrow> api_request" where
  "deleteClusterType clusterTypeId =
     apiAction (\<lambda>r. r\<lparr>rq_url := API_URL @ ''/cluster_types/'' @ to_str clusterTypeId,
       rq_method := ''DELETE'',
       rq_label := ''DELETE_CLUSTER_TYPE'',
       rq_affectedRequests := [''GET_CLUSTER_TYPES'', ''GET_CLEAN_EXPENSES'',
         ''GET_EXPENSES_DAILY_BREAKDOWN'', ''GET_RESOURCE_COUNT_BREAKDOWN'']\<rparr>)"

definition updateClusterTypePriority :: "jsval \<Rightarrow> jsval \<Rightarrow> api_request" where
  "updateClusterTypePriority clusterTypeId action_arg =
     apiAction (\<lambda>r. r\<lparr>rq_url := API_URL @ ''/cluster_types/'' @ to_str clusterTypeId @ ''/priority'',
       rq_method := ''PATCH'',
       rq_label := ''UPDATE_CLUSTER_TYPE_PRIORITY'',
       rq_affectedRequests := [''GET_CLUSTER_TYPES'', ''GET_CLEAN_EXPENSES'',
         ''GET_EXPENSES_DAILY_BREAKDOWN'', ''GET_RESOURCE_COUNT_BREAKDOWN''],
       rq_params := Obj [(''action'', action_arg)]\<rparr>)"

definition applyClusterTypes :: "jsval \<Rightarrow> api_request" where
  "applyClusterTypes organizationId =
     apiAction (\<lambda>r. r\<lparr>rq_url := API_URL @ ''/organizations/'' @ to_str organizationId
         @ ''/cluster_types_apply'',
       rq_method := ''POST'',
       rq_label := ''APPLY_CLUSTER_TYPES'',
       rq_affectedRequests := [''GET_CLEAN_EXPENSES'', ''GET_EXPENSES_DAILY_BREAKDOWN'',
         ''GET_RESOURCE_COUNT_BREAKDOWN'', ''GET_AVAILABLE_FILTERS''],
       rq_params := Obj []\<rparr>)"

definition getEnvironments :: "jsval \<Rightarrow> api_request" where
  "getEnvironments organizationId =
     apiAction (\<lambda>r. r\<lparr>rq_url := API_URL @ ''/organizations/'' @ to_str organizationId
         @ ''/shareable_resources'',
       rq_method := ''GET'',
       rq_onSuccess := Some (handleSuccess ''SET_ENVIRONMENTS''),
       rq_label := ''GET_ENVIRONMENTS'',
       rq_ttl := MINUTE,
       rq_hash := hashParams organizationId\<rparr>)"

definition createEnvironment :: "jsval \<Rightarrow> obj \<Rightarrow> api_request" where
  "createEnvironment organizationId params =
     apiAction (\<lambda>r. r\<lparr>rq_url := API_URL @ ''/organizations/'' @ to_str organizationId
         @ ''/environment_resources'',
       rq_method := ''POST'',
       rq_label := ''CREATE_ENVIRONMENT'',
       rq_affectedRequests := [''GET_ENVIRONMENTS'', ''GET_CLEAN_EXPENSES'',
         ''GET_EXPENSES_DAILY_BREAKDOWN'', ''GET_RESOURCE_COUNT_BREAKDOWN''],
       rq_params := Obj [(''name'', obj_get params ''name''),
         (''resource_type'', obj_get params ''resourceType''), (''tags'', Obj []),
         (''env_properties'', obj_get params ''properties''),
         (''ssh_only'', obj_get params ''requireSshKey'')]\<rparr>)"

definition deleteEnvironment :: "jsval \<Rightarrow> api_request" where
  "deleteEnvironment environmentId =
     apiAction (\<lambda>r. r\<lparr>rq_url := API_URL @ ''/environment_resources/'' @ to_str environmentId,
       rq_method := ''DELETE'',
       rq_label := ''DELETE_ENVIRONMENT'',
       rq_affectedRequests := [''GET_ENVIRONMENTS'', ''GET_CLEAN_EXPENSES'',
         ''GET_EXPENSES_SUMMARY'', ''GET_EXPENSES_DAILY_BREAKDOWN'',
         ''GET_RESOURCE_COUNT_BREAKDOWN'']\<rparr>)"

definition updateEnvironmentActivity :: "jsval \<Rightarrow> jsval \<Rightarrow> api_request" where
  "updateEnvironmentActivity environmentId isActive =
     apiAction (\<lambda>r. r\<lparr>rq_url := API_URL @ ''/environment_resources/'' @ to_str environmentId,
       rq_method := ''PATCH'',
       rq_label := ''UPDATE_ENVIRONMENT_ACTIVITY'',
       rq_entityId := environmentId,
       rq_affectedRequests := [''GET_ENVIRONMENTS'', ''GET_CLEAN_EXPENSES'',
         ''GET_EXPENSES_DAILY_BREAKDOWN'', ''GET_RESOURCE_COUNT_BREAKDOWN'', ''GET_RESOURCE''],
       rq_params := Obj [(''active'', isActive)]\<rparr>)"

definition updateEnvironmentSshRequirement :: "jsval \<Rightarrow> jsval \<Rightarrow> api_request" where
  "updateEnvironmentSshRequirement environmentId requireSshKey =
     apiAction (\<lambda>r. r\<lparr>rq_url := API_URL @ ''/environment_resources/'' @ to_str environmentId,
       rq_method := ''PATCH'',
       rq_label := ''UPDATE_ENVIRONMENT_SSH_REQUIREMENT'',
       rq_onSuccess := Some onSuccessUpdateEnvironmentSshRequirement,
       rq_entityId := environmentId,
       rq_affectedRequests := [''GET_ENVIRONMENTS'', ''GET_CLEAN_EXPENSES'',
         ''GET_EXPENSES_DAILY_BREAKDOWN'', ''GET_RESOURCE_COUNT_BREAKDOWN''],
       rq_params := Obj [(''ssh_only'', requireSshKey)]\<rparr>)"

definition updateEnvironmentProperty :: "jsval \<Rightarrow> jsval \<Rightarrow> jsval \<Rightarrow> api_request" where
  "updateEnvironmentProperty environmentId propertyName propertyValue =
     apiAction (\<lambda>r. r\<lparr>rq_url := API_URL @ ''/cloud_resources/'' @ to_str environmentId,
       rq_method := ''PATCH'',
       rq_onSuccess := Some onSuccessUpdateEnvironmentProperty,
       rq_allowMultipleRequests := True,
       rq_label := ''UPDATE_ENVIRONMENT_PROPERTY'',
       rq_entityId := propertyName,
       rq_affectedRequests := [''GET_ENVIRONMENTS''],
       rq_params := Obj [(''env_properties'', Obj [(to_str propertyName, propertyValue)])]\<rparr>)"

definition getDataSourceNodes :: "jsval \<Rightarrow> api_request" where
  "getDataSourceNodes cloudAccountId =
     apiAction (\<lambda>r. r\<lparr>rq_url := API_URL @ ''/cloud_accounts/'' @ to_str cloudAccountId @ ''/nodes'',
       rq_method := ''GET'',
       rq_label := ''GET_DATA_SOURCE_NODES'',
       rq_ttl := MINUTE,
       rq_hash := hashParams cloudAccountId,
       rq_onSuccess := Some (handleSuccess ''SET_DATA_SOURCE_NODES'')\<rparr>)"

definition getResourceMetrics :: "jsval \<Rightarrow> obj \<Rightarrow> api_request" where
  "getResourceMetrics resourceId params =
     apiAction (\<lambda>r. r\<lparr>rq_url := API_URL @ ''/cloud_resources/'' @ to_str resourceId @ ''/metrics'',
       rq_method := ''GET'',
       rq_label := ''GET_RESOURCE_METRICS'',
       rq_ttl := MINUTE,
       rq_hash := hashParams (Obj (obj_spread params [(''resourceId'', resourceId)])),
       rq_onSuccess := Some (handleSuccess ''SET_RESOURCE_METRICS''),
       rq_params := Obj [(''start_date'', obj_get params ''startDate''),
         (''end_date'', obj_get params ''endDate'')]\<rparr>)"

definition getResourceCostModel :: "jsval \<Rightarrow> api_request" where
  "getResourceCostModel resourceId =
     apiAction (\<lambda>r. r\<lparr>rq_url := API_URL @ ''/resource_cost_models/'' @ to_str resourceId,
       rq_method := ''GET'',
       rq_label := ''GET_RESOURCE_COST_MODEL'',
       rq_ttl := MINUTE,
       rq_hash := hashParams resourceId,
       rq_onSuccess := Some (handleSuccess ''SET_RESOURCE_COST_MODEL'')\<rparr>)"

definition updateResourceCostModel :: "jsval \<Rightarrow> obj \<Rightarrow> api_request" where
  "updateResourceCostModel resourceId params =
     apiAction (\<lambda>r. r\<lparr>rq_url := API_URL @ ''/resource_cost_models/'' @ to_str resourceId,
       rq_method := ''PATCH'',
       rq_label := ''UPDATE_RESOURCE_COST_MODEL'',
       rq_affectedRequests := [''GET_RESOURCE_COST_MODEL''],
       rq_params := Obj [(''value'', Obj [(''hourly_cost'', obj_get params ''hourlyPrice'')])]\<rparr>)"

definition getDataSourceSkus :: "jsval \<Rightarrow> api_request" where
  "getDataSourceSkus dataSourceId =
     apiAction (\<lambda>r. r\<lparr>rq_url := API_URL @ ''/sku_cost_models/'' @ to_str dataSourceId,
       rq_method := ''GET'',
       rq_label := ''GET_DATASOURCE_SKUS'',
       rq_ttl := 30 * MINUTE,
       rq_hash := hashParams dataSourceId,
       rq_onSuccess := Some (handleSuccess ''SET_DATASOURCE_SKUS''),
       rq_params := Obj [(''details'', Bool True)]\<rparr>)"

definition updateDataSourceSku :: "jsval \<Rightarrow> jsval \<Rightarrow> api_request" where
  "updateDataSourceSku dataSourceId value =
     apiAction (\<lambda>r. r\<lparr>rq_url := API_URL @ ''/sku_cost_models/'' @ to_str dataSourceId,
       rq_method := ''PATCH'',
       rq_label := ''UPDATE_DATASOURCE_SKU'',
       rq_affectedRequests := [''GET_DATASOURCE_SKUS''],
       rq_params := Obj [(''value'', value)]\<rparr>)"

definition markResourcesAsEnvironments :: "jsval \<Rightarrow> jsval \<Rightarrow> api_request" where
  "markResourcesAsEnvironments organizationId resourceIds =
     apiAction (\<lambda>r. r\<lparr>rq_url := API_URL @ ''/organizations/'' @ to_str organizationId
         @ ''/shareable/bulk'',
       rq_method := ''POST'',
       rq_label := ''MARK_RESOURCES_AS_ENVIRONMENTS'',
       rq_successHandlerType := SUCCESS_HANDLER_TYPE_ALERT,
       rq_affectedRequests := [''GET_CLEAN_EXPENSES'', ''GET_ENVIRONMENTS'',
         ''GET_EXPENSES_DAILY_BREAKDOWN'', ''GET_RESOURCE_COUNT_BREAKDOWN''],
       rq_params := Obj [(''resource_ids'', resourceIds)]\<rparr>)"

definition getEnvironmentBookings :: "jsval \<Rightarrow> api_request" where
  "getEnvironmentBookings resourceId =
     apiAction (\<lambda>r. r\<lparr>rq_url := API_URL @ ''/shareable/'' @ to_str resourceId @ ''/bookings'',
       rq_method := ''GET'',
       rq_label := ''GET_ENVIRONMENT_BOOKINGS'',
       rq_ttl := 5 * MINUTE,
       rq_hash := hashParams resourceId,
       rq_onSuccess := Some (handleSuccess ''SET_ENVIRONMENT_BOOKINGS'')\<rparr>)"

definition updateBooking :: "jsval \<Rightarrow> jsval \<Rightarrow> api_request" where
  "updateBooking bookingId releasedAt =
     apiAction (\<lambda>r. r\<lparr>rq_url := API_URL @ ''/shareable/'' @ to_str bookingId,
       rq_method := ''PATCH'',
       rq_label := ''UPDATE_BOOKING'',
       rq_affectedRequests := [''GET_CLEAN_EXPENSES'', ''GET_ENVIRONMENTS'',
         ''GET_EXPENSES_DAILY_BREAKDOWN'', ''GET_RESOURCE_COUNT_BREAKDOWN''],
       rq_params := Obj [(''released_at'', releasedAt)]\<rparr>)"

definition deleteBooking :: "jsval \<Rightarrow> api_request" where
  "deleteBooking bookingId =
     apiAction (\<lambda>r. r\<lparr>rq_url := API_URL @ ''/shareable/'' @ to_str bookingId,
       rq_method := ''DELETE'',
       rq_label := ''DELETE_BOOKING'',
       rq_affectedRequests := [''GET_CLEAN_EXPENSES'', ''GET_ENVIRONMENTS'',
         ''GET_EXPENSES_DAILY_BREAKDOWN'', ''GET_RESOURCE_COUNT_BREAKDOWN'']\<rparr>)"

definition getWebhooks :: "jsval \<Rightarrow> obj \<Rightarrow> api_request" where
  "getWebhooks organizationId params =
     apiAction (\<lambda>r. r\<lparr>rq_url := API_URL @ ''/organizations/'' @ to_str organizationId @ ''/webhooks'',
       rq_method := ''GET'',
       rq_label := ''GET_WEBHOOKS'',
       rq_ttl := 5 * MINUTE,
       rq_hash := hashParams (Obj (obj_spread params [(''organizationId'', organizationId)])),
       rq_onSuccess := Some (handleSuccess ''SET_WEBHOOKS''),
       rq_params := Obj [(''object_id'', obj_get params ''objectId''),
         (''object_type'', obj_get params ''objectType'')]\<rparr>)"

definition createWebhook :: "jsval \<Rightarrow> obj \<Rightarrow> api_request" where
  "createWebhook organizationId params =
     apiAction (\<lambda>r. r\<lparr>rq_url := API_URL @ ''/organizations/'' @ to_str organizationId @ ''/webhooks'',
       rq_label := ''CREATE_WEBHOOK'',
       rq_onSuccess := Some onSuccessCreateWebhook,
       rq_params := Obj [(''object_type'', obj_get params ''objectType''),
         (''object_id'', obj_get params ''objectId''), (''action'', obj_get params ''action''),
         (''url'', obj_get params ''url'')]\<rparr>)"

definition updateWebhook :: "jsval \<Rightarrow> obj \<Rightarrow> api_request" where
  "updateWebhook webhookId params =
     apiAction (\<lambda>r. r\<lparr>rq_url := API_URL @ ''/webhooks/'' @ to_str webhookId,
       rq_method := ''PATCH'',
       rq_label := ''UPDATE_WEBHOOK'',
       rq_onSuccess := Some onSuccessUpdateWebhook,
       rq_params := Obj [(''url'', obj_get params ''url''), (''active'', obj_get params ''active'')]\<rparr>)"

definition deleteWebhook :: "jsval \<Rightarrow> api_request" where
  "deleteWebhook webhookId =
     apiAction (\<lambda>r. r\<lparr>rq_url := API_URL @ ''/webhooks/'' @ to_str webhookId,
       rq_method := ''DELETE'',
       rq_label := ''DELETE_WEBHOOK'',
       rq_onSuccess := Some (onSuccessDeleteWebhook webhookId)\<rparr>)"

definition getSshKeys :: "jsval \<Rightarrow> api_request" where
  "getSshKeys employeeId =
     apiAction (\<lambda>r. r\<lparr>rq_url := API_URL @ ''/employees/'' @ to_str employeeId @ ''/ssh_keys'',
       rq_method := ''GET'',
       rq_label := ''GET_SSH_KEYS'',
       rq_ttl := 5 * MINUTE,
       rq_hash := hashParams employeeId,
       rq_onSuccess := Some (handleSuccess ''SET_SSH_KEYS'')\<rparr>)"

definition createSshKey :: "jsval \<Rightarrow> obj \<Rightarrow> api_request" where
  "createSshKey employeeId params =
     apiAction (\<lambda>r. r\<lparr>rq_url := API_URL @ ''/employees/'' @ to_str employeeId @ ''/ssh_keys'',
       rq_label := ''CREATE_SSH_KEY'',
       rq_params := Obj [(''name'', obj_get params ''name''), (''key'', obj_get params ''key'')],
       rq_onSuccess := Some onSuccessCreateSshKey\<rparr>)"

definition updateSshKey :: "jsval \<Rightarrow> obj \<Rightarrow> api_request" where
  "updateSshKey sshKeyId params =
     apiAction (\<lambda>r. r\<lparr>rq_url := API_URL @ ''/ssh_keys/'' @ to_str sshKeyId,
       rq_method := ''PATCH'',
       rq_label := ''UPDATE_SSH_KEY'',
       rq_affectedRequests := [''GET_EMPLOYEES''],
       rq_params := Obj [(''name'', obj_get params ''name''),
         (''default'', obj_get params ''default'')],
       rq_onSuccess := Some onSuccessUpdateSshKey\<rparr>)"

definition deleteSshKey :: "jsval \<Rightarrow> api_request" where
  "deleteSshKey sshKeyId =
     apiAction (\<lambda>r. r\<lparr>rq_url := API_URL @ ''/ssh_keys/'' @ to_str sshKeyId,
       rq_method := ''DELETE'',
       rq_label := ''DELETE_SSH_KEY'',
       rq_affectedRequests := [''GET_SSH_KEYS'']\<rparr>)"

definition updateResource :: "jsval \<Rightarrow> jsval \<Rightarrow> api_request" where
  "updateResource resourceId shareable =
     apiAction (\<lambda>r. r\<lparr>rq_url := API_URL @ ''/cloud_resources/'' @ to_str resourceId,
       rq_method := ''PATCH'',
       rq_label := ''UPDATE_RESOURCE'',
       rq_affectedRequests := [''GET_RESOURCE'', ''GET_ENVIRONMENTS''],
       rq_params := Obj [(''shareable'', shareable)]\<rparr>)"

definition bookEnvironment :: "jsval \<Rightarrow> obj \<Rightarrow> api_request" where
  "bookEnvironment organizationId params =
     apiAction (\<lambda>r. r\<lparr>rq_url := API_URL @ ''/organizations/'' @ to_str organizationId
         @ ''/shareable_book'',
       rq_method := ''POST'',
       rq_label := ''BOOK_ENVIRONMENT'',
       rq_affectedRequests := [''GET_ENVIRONMENTS'', ''GET_ENVIRONMENT_BOOKINGS''],
       rq_params := Obj [(''resource_id'', obj_get params ''resourceId''),
         (''acquired_by_id'', obj_get params ''bookedBy''),
         (''acquired_since'', obj_get params ''bookSince''),
         (''released_at'', obj_get params ''bookUntil''),
         (''ssh_key_id'', obj_get params ''sshKeyId'')]\<rparr>)"

definition getOrganizationCalendar :: "jsval \<Rightarrow> api_request" where
  "getOrganizationCalendar organizationId =
     apiAction (\<lambda>r. r\<lparr>rq_url := API_URL @ ''/organization_calendars/'' @ to_str organizationId,
       rq_method := ''GET'',
       rq_label := ''GET_ORGANIZATION_CALENDAR'',
       rq_ttl := MINUTE * 10,
       rq_hash := hashParams organizationId,
       rq_onSuccess := Some (handleSuccess ''SET_ORGANIZATION_CALENDAR'')\<rparr>)"

definition calendarSynchronization :: "jsval \<Rightarrow> jsval \<Rightarrow> api_request" where
  "calendarSynchronization organizationId calendarId =
     apiAction (\<lambda>r. r\<lparr>rq_url := API_URL @ ''/calendar_synchronizations'',
       rq_method := ''POST'',
       rq_label := ''CALENDAR_SYNCHRONIZATION'',
       rq_affectedRequests := [''GET_ORGANIZATION_CALENDAR''],
       rq_params := Obj [(''organization_id'', organizationId), (''calendar_id'', calendarId)]\<rparr>)"

definition deleteCalendarSynchronization :: "jsval \<Rightarrow> api_request" where
  "deleteCalendarSynchronization id_arg =
     apiAction (\<lambda>r. r\<lparr>rq_url := API_URL @ ''/calendar_synchronizations/'' @ to_str id_arg,
       rq_method := ''DELETE'',
       rq_label := ''DELETE_CALENDAR_SYNCHRONIZATION'',
       rq_affectedRequests := [''GET_ORGANIZATION_CALENDAR'']\<rparr>)"

definition getDailyExpensesBreakdown :: "jsval \<Rightarrow> obj \<Rightarrow> api_request" where
  "getDailyExpensesBreakdown organizationId params =
     apiAction (\<lambda>r. r\<lparr>rq_url := API_URL @ ''/organizations/'' @ to_str organizationId
         @ ''/breakdown_expenses'',
       rq_method := ''GET'',
       rq_onSuccess := Some (handleSuccess ''SET_EXPENSES_DAILY_BREAKDOWN''),
       rq_label := ''GET_EXPENSES_DAILY_BREAKDOWN'',
       rq_ttl := 5 * MINUTE,
       rq_hash := hashParams (Obj (obj_spread [(''organizationId'', organizationId)] params)),
       rq_params := Obj params\<rparr>)"

definition getGlobalPoolPolicies :: "jsval \<Rightarrow> obj \<Rightarrow> api_request" where
  "getGlobalPoolPolicies organizationId params =
     apiAction (\<lambda>r. r\<lparr>rq_url := API_URL @ ''/organizations/'' @ to_str organizationId
         @ ''/resource_policies'',
       rq_method := ''GET'',
       rq_label := ''GET_GLOBAL_POOL_POLICIES'',
       rq_ttl := 5 * MINUTE,
       rq_hash := hashParams (Obj (obj_spread [(''organizationId'', organizationId)] params)),
       rq_onSuccess := Some (handleSuccess ''SET_GLOBAL_POOL_POLICIES''),
       rq_params := Obj params\<rparr>)"

definition getGlobalResourceConstraints :: "jsval \<Rightarrow> obj \<Rightarrow> api_request" where
  "getGlobalResourceConstraints organizationId params =
     apiAction (\<lambda>r. r\<lparr>rq_url := API_URL @ ''/organizations/'' @ to_str organizationId
         @ ''/resource_constraints'',
       rq_method := ''GET'',
       rq_label := ''GET_GLOBAL_RESOURCE_CONSTRAINTS'',
       rq_ttl := 5 * MINUTE,
       rq_hash := hashParams (Obj (obj_spread [(''organizationId'', organizationId)] params)),
       rq_onSuccess := Some (handleSuccess ''SET_GLOBAL_RESOURCE_CONSTRAINTS''),
       rq_params := Obj params\<rparr>)"

definition getArchivedOptimizationsCount :: "jsval \<Rightarrow> obj \<Rightarrow> api_request" where
  "getArchivedOptimizationsCount organizationId params =
     apiAction (\<lambda>r. r\<lparr>rq_url := API_URL @ ''/organizations/'' @ to_str organizationId
         @ ''/archived_recommendations_count'',
       rq_method := ''GET'',
       rq_label := ''GET_ARCHIVED_OPTIMIZATIONS_COUNT'',
       rq_ttl := 5 * MINUTE,
       rq_hash := hashParams (Obj (obj_spread [(''organizationId'', organizationId)] params)),
       rq_onSuccess := Some (handleSuccess ''SET_ARCHIVED_OPTIMIZATIONS_COUNT''),
       rq_params := Obj [(''start_date'', obj_get params ''startDate''),
         (''end_date'', obj_get params ''endDate'')]\<rparr>)"

lemmas resource_action_defs =
  createResourceConstraint_def createTotalExpenseLimitResourceConstraint_def createDailyExpenseLimitResourceConstraint_def
  createTtlResourceConstraint_def updateGlobalResourceConstraintLimit_def updateResourceConstraint_def
  updateTtlResourceConstraint_def updateTotalExpenseLimitResourceConstraint_def updateDailyExpenseLimitResourceConstraint_def
  deleteResourceConstraintBase_def deleteResourceConstraint_def deleteGlobalResourceConstraint_def
  getResourceLimitHits_def getOptimizationDetails_def getOptimizationsOverview_def
  getOptimizationOptions_def updateOptimizationOptions_def updateOptimizations_def
  getLiveDemo_def createLiveDemo_def getTtlAnalysis_def
  applyAssignmentRules_def updateResourceVisibility_def getFinOpsChecklist_def
  updateFinOpsChecklist_def getRecommendationsDownloadLimit_def getClusterTypes_def
  createClusterType_def deleteClusterType_def updateClusterTypePriority_def
  applyClusterTypes_def getEnvironments_def createEnvironment_def
  deleteEnvironment_def updateEnvironmentActivity_def updateEnvironmentSshRequirement_def
  updateEnvironmentProperty_def getDataSourceNodes_def getResourceMetrics_def
  getResourceCostModel_def updateResourceCostModel_def getDataSourceSkus_def
  updateDataSourceSku_def markResourcesAsEnvironments_def getEnvironmentBookings_def
  updateBooking_def deleteBooking_def getWebhooks_def
  createWebhook_def updateWebhook_def deleteWebhook_def
  getSshKeys_def createSshKey_def updateSshKey_def
  deleteSshKey_def updateResource_def bookEnvironment_def
  getOrganizationCalendar_def calendarSynchronization_def deleteCalendarSynchronization_def
  getDailyExpensesBreakdown_def getGlobalPoolPolicies_def getGlobalResourceConstraints_def
  getArchivedOptimizationsCount_def

end
