(* ===== verification/RestActionsMl.thy ===== *)
theory RestActionsMl
  imports RestActionsResources
begin

text \<open>
  Action creators of \<open>api/restapi/actionCreators.ts\<close>, lines 1801 to 2342.  Archived recommendations and machine learning: tasks, leaderboards, datasets, models, metrics, artifacts.
  An argument whose properties the source reads is an object (type \<open>obj\<close>, the empty list
  when it is omitted and its default is the empty object); any other argument is a value.
\<close>

definition getArchivedOptimizationsBreakdown :: "jsval \<Rightarrow> obj \<Rightarrow> api_request" where
  "getArchivedOptimizationsBreakdown organizationId params =
     apiAction (\<lambda>r. r\<lparr>rq_url := API_URL @ ''/organizations/'' @ to_str organizationId
         @ ''/breakdown_archived_recommendations'',
       rq_method := ''GET'',
       rq_label := ''GET_ARCHIVED_OPTIMIZATIONS_BREAKDOWN'',
       rq_ttl := 5 * MINUTE,
       rq_hash := hashParams (Obj (obj_spread [(''organizationId'', organizationId)] params)),
       rq_onSuccess := Some (handleSuccess ''SET_ARCHIVED_OPTIMIZATIONS_BREAKDOWN''),
       rq_params := Obj [(''start_date'', obj_get params ''startDate''),
         (''end_date'', obj_get params ''endDate'')]\<rparr>)"

definition getArchivedOptimizationDetails :: "jsval \<Rightarrow> obj \<Rightarrow> api_request" where
  "getArchivedOptimizationDetails organizationId params =
     apiAction (\<lambda>r. r\<lparr>rq_url := API_URL @ ''/organizations/'' @ to_str organizationId
         @ ''/archived_recommendations_details'',
       rq_method := ''GET'',
       rq_label := ''GET_ARCHIVED_OPTIMIZATION_DETAILS'',
       rq_ttl := 5 * MINUTE,
       rq_hash := hashParams (Obj (obj_spread [(''organizationId'', organizationId)] params)),
       rq_onSuccess := Some (handleSuccess ''SET_ARCHIVED_OPTIMIZATION_DETAILS''),
       rq_params := Obj [(''archived_at'', obj_get params ''archivedAt''),
         (''reason'', obj_get params ''reason''), (''type'', obj_get params ''type''),
         (''limit'', obj_get params ''limit'')]\<rparr>)"

definition getMlTasks :: "jsval \<Rightarrow> api_request" where
  "getMlTasks organizationId =
     apiAction (\<lambda>r. r\<lparr>rq_url := API_URL @ ''/organizations/'' @ to_str organizationId @ ''/tasks'',
       rq_method := ''GET'',
       rq_ttl := 5 * MINUTE,
       rq_onSuccess := Some (handleSuccess ''SET_ML_TASKS''),
       rq_hash := hashParams organizationId,
       rq_label := ''GET_ML_TASKS''\<rparr>)"

definition getMlLeaderboardTemplate :: "jsval \<Rightarrow> jsval \<Rightarrow> api_request" where
  "getMlLeaderboardTemplate organizationId taskId =
     apiAction (\<lambda>r. r\<lparr>rq_url := API_URL @ ''/organizations/'' @ to_str organizationId @ ''/tasks/''
         @ to_str taskId @ ''/leaderboard_template'',
       rq_method := ''GET'',
       rq_ttl := 30 * MINUTE,
       rq_onSuccess := Some (handleSuccess ''SET_ML_LEADERBOARD_TEMPLATE''),
       rq_hash := hashParams (Obj [(''organizationId'', organizationId), (''taskId'', taskId)]),
       rq_label := ''GET_ML_LEADERBOARD_TEMPLATE''\<rparr>)"

definition createMlLeaderboardTemplate :: "jsval \<Rightarrow> jsval \<Rightarrow> obj \<Rightarrow> api_request" where
  "createMlLeaderboardTemplate organizationId taskId params =
     apiAction (\<lambda>r. r\<lparr>rq_url := API_URL @ ''/organizations/'' @ to_str organizationId @ ''/tasks/''
         @ to_str taskId @ ''/leaderboard_template'',
       rq_method := ''POST'',
       rq_label := ''CREATE_ML_LEADERBOARD_TEMPLATE'',
       rq_affectedRequests := [''GET_ML_LEADERBOARD_TEMPLATE''],
       rq_params := Obj [(''filters'', obj_get params ''filters''),
         (''group_by_hp'', obj_get params ''groupByHyperparameters''),
         (''grouping_tags'', obj_get params ''groupingTags''),
         (''other_metrics'', obj_get params ''otherMetrics''),
         (''primary_metric'', obj_get params ''primaryMetric''),
         (''dataset_coverage_rules'', obj_get params ''datasetCoverageRules'')]\<rparr>)"

definition updateMlLeaderboardTemplate :: "jsval \<Rightarrow> jsval \<Rightarrow> obj \<Rightarrow> api_request" where
  "updateMlLeaderboardTemplate organizationId taskId params =
     apiAction (\<lambda>r. r\<lparr>rq_url := API_URL @ ''/organizations/'' @ to_str organizationId @ ''/tasks/''
         @ to_str taskId @ ''/leaderboard_template'',
       rq_method := ''PATCH'',
       rq_label := ''UPDATE_ML_LEADERBOARD_TEMPLATE'',
       rq_affectedRequests := [''GET_ML_LEADERBOARD_CANDIDATES'', ''GET_ML_LEADERBOARD_TEMPLATE''],
       rq_params := Obj [(''filters'', obj_get params ''filters''),
         (''group_by_hp'', obj_get params ''groupByHyperparameters''),
         (''grouping_tags'', obj_get params ''groupingTags''),
         (''other_metrics'', obj_get params ''otherMetrics''),
         (''primary_metric'', obj_get params ''primaryMetric''),
         (''dataset_coverage_rules'', obj_get params ''datasetCoverageRules'')]\<rparr>)"

definition getMlLeaderboards :: "jsval \<Rightarrow> jsval \<Rightarrow> api_request" where
  "getMlLeaderboards organizationId leaderboardTemplateId =
     apiAction (\<lambda>r. r\<lparr>rq_url := API_URL @ ''/organizations/'' @ to_str organizationId
         @ ''/leaderboard_templates/'' @ to_str leaderboardTemplateId @ ''/leaderboards'',
       rq_method := ''GET'',
       rq_ttl := 5 * MINUTE,
       rq_onSuccess := Some (handleSuccess ''SET_ML_LEADERBOARDS''),
       rq_hash := hashParams (Obj [(''organizationId'', organizationId),
         (''leaderboardTemplateId'', leaderboardTemplateId)]),
       rq_label := ''GET_ML_LEADERBOARDS''\<rparr>)"

definition getMlLeaderboard :: "jsval \<Rightarrow> jsval \<Rightarrow> api_request" where
  "getMlLeaderboard organizationId leaderboardId =
     apiAction (\<lambda>r. r\<lparr>rq_url := API_URL @ ''/organizations/'' @ to_str organizationId
         @ ''/leaderboards/'' @ to_str leaderboardId,
       rq_method := ''GET'',
       rq_ttl := 5 * MINUTE,
       rq_onSuccess := Some (handleSuccess ''SET_ML_LEADERBOARD''),
       rq_hash := hashParams (Obj [(''organizationId'', organizationId),
         (''leaderboardId'', leaderboardId)]),
       rq_label := ''GET_ML_LEADERBOARD''\<rparr>)"

definition createMlLeaderboard :: "jsval \<Rightarrow> jsval \<Rightarrow> obj \<Rightarrow> api_request" where
  "createMlLeaderboard organizationId leaderboardTemplateId params =
     apiAction (\<lambda>r. r\<lparr>rq_url := API_URL @ ''/organizations/'' @ to_str organizationId
         @ ''/leaderboard_templates/'' @ to_str leaderboardTemplateId @ ''/leaderboards'',
       rq_method := ''POST'',
       rq_label := ''CREATE_ML_LEADERBOARD'',
       rq_onSuccess := Some onSuccessCreateMlLeaderboard,
       rq_params := Obj [(''name'', obj_get params ''name''),
         (''dataset_ids'', obj_get params ''datasetIds''),
         (''filters'', obj_get params ''filters''),
         (''group_by_hp'', obj_get params ''groupByHyperparameters''),
         (''grouping_tags'', obj_get params ''groupingTags''),
         (''other_metrics'', obj_get params ''otherMetrics''),
         (''primary_metric'', obj_get params ''primaryMetric''),
         (''dataset_coverage_rules'', obj_get params ''datasetCoverageRules'')]\<rparr>)"

definition updateMlLeaderboard :: "jsval \<Rightarrow> jsval \<Rightarrow> obj \<Rightarrow> api_request" where
  "updateMlLeaderboard organizationId leaderboardId params =
     apiAction (\<lambda>r. r\<lparr>rq_url := API_URL @ ''/organizations/'' @ to_str organizationId
         @ ''/leaderboards/'' @ to_str leaderboardId,
       rq_method := ''PATCH'',
       rq_label := ''UPDATE_ML_LEADERBOARD'',
       rq_onSuccess := Some onUpdateMlLeaderboard,
       rq_params := Obj [(''name'', obj_get params ''name''),
         (''dataset_ids'', obj_get params ''datasetIds''),
         (''filters'', obj_get params ''filters''),
         (''group_by_hp'', obj_get params ''groupByHyperparameters''),
         (''grouping_tags'', obj_get params ''groupingTags''),
         (''other_metrics'', obj_get params ''otherMetrics''),
         (''primary_metric'', obj_get params ''primaryMetric''),
         (''dataset_coverage_rules'', obj_get params ''datasetCoverageRules'')]\<rparr>)"

definition deleteMlLeaderboard :: "jsval \<Rightarrow> jsval \<Rightarrow> api_request" where
  "deleteMlLeaderboard organizationId leaderboardId =
     apiAction (\<lambda>r. r\<lparr>rq_url := API_URL @ ''/organizations/'' @ to_str organizationId
         @ ''/leaderboards/'' @ to_str leaderboardId,
       rq_method := ''DELETE'',
       rq_label := ''DELETE_ML_LEADERBOARD'',
       rq_affectedRequests := [''GET_ML_LEADERBOARD_TEMPLATE'']\<rparr>)"

definition getMlLeaderboardCandidates :: "jsval \<Rightarrow> jsval \<Rightarrow> api_request" where
  "getMlLeaderboardCandidates organizationId leaderboardId =
     apiAction (\<lambda>r. r\<lparr>rq_url := API_URL @ ''/organizations/'' @ to_str organizationId
         @ ''/leaderboards/'' @ to_str leaderboardId @ ''/generate'',
       rq_method := ''GET'',
       rq_ttl := 5 * MINUTE,
       rq_onSuccess := Some (handleSuccess ''SET_ML_LEADERBOARD_CANDIDATES''),
       rq_hash := hashParams (Obj [(''organizationId'', organizationId),
         (''leaderboardId'', leaderboardId)]),
       rq_label := ''GET_ML_LEADERBOARD_CANDIDATES''\<rparr>)"

definition getMlDatasets :: "jsval \<Rightarrow> api_request" where
  "getMlDatasets organizationId =
     apiAction (\<lambda>r. r\<lparr>rq_url := API_URL @ ''/organizations/'' @ to_str organizationId @ ''/datasets'',
       rq_method := ''GET'',
       rq_ttl := 30 * MINUTE,
       rq_onSuccess := Some (handleSuccess ''SET_ML_DATASETS''),
       rq_hash := hashParams organizationId,
       rq_label := ''GET_ML_DATASETS''\<rparr>)"

definition getMlDataset :: "jsval \<Rightarrow> jsval \<Rightarrow> api_request" where
  "getMlDataset organizationId datasetId =
     apiAction (\<lambda>r. r\<lparr>rq_url := API_URL @ ''/organizations/'' @ to_str organizationId
         @ ''/datasets/'' @ to_str datasetId,
       rq_method := ''GET'',
       rq_ttl := 30 * MINUTE,
       rq_onSuccess := Some (handleSuccess ''SET_ML_DATASET''),
       rq_hash := hashParams organizationId,
       rq_label := ''GET_ML_DATASET''\<rparr>)"

definition getMlDatasetLabels :: "jsval \<Rightarrow> api_request" where
  "getMlDatasetLabels organizationId =
     apiAction (\<lambda>r. r\<lparr>rq_url := API_URL @ ''/organizations/'' @ to_str organizationId @ ''/labels'',
       rq_method := ''GET'',
       rq_ttl := 30 * MINUTE,
       rq_onSuccess := Some (handleSuccess ''SET_ML_DATASET_LABELS''),
       rq_hash := hashParams organizationId,
       rq_label := ''GET_ML_DATASET_LABELS''\<rparr>)"

definition createMlDataset :: "jsval \<Rightarrow> jsval \<Rightarrow> api_request" where
  "createMlDataset organizationId params =
     apiAction (\<lambda>r. r\<lparr>rq_url := API_URL @ ''/organizations/'' @ to_str organizationId @ ''/datasets'',
       rq_method := ''POST'',
       rq_label := ''CREATE_ML_DATASET'',
       rq_params := params,
       rq_affectedRequests := [''GET_ML_DATASETS'']\<rparr>)"

definition updateMlDataset :: "jsval \<Rightarrow> jsval \<Rightarrow> jsval \<Rightarrow> api_request" where
  "updateMlDataset organizationId datasetId params =
     apiAction (\<lambda>r. r\<lparr>rq_url := API_URL @ ''/organizations/'' @ to_str organizationId
         @ ''/datasets/'' @ to_str datasetId,
       rq_method := ''PATCH'',
       rq_label := ''UPDATE_ML_DATASET'',
       rq_params := params,
       rq_affectedRequests := [''GET_ML_DATASET'', ''GET_ML_DATASETS'']\<rparr>)"

definition deleteMlDataset :: "jsval \<Rightarrow> jsval \<Rightarrow> api_request" where
  "deleteMlDataset organizationId datasetId =
     apiAction (\<lambda>r. r\<lparr>rq_url := API_URL @ ''/organizations/'' @ to_str organizationId
         @ ''/datasets/'' @ to_str datasetId,
       rq_method := ''DELETE'',
       rq_label := ''DELETE_ML_DATASET'',
       rq_affectedRequests := [''GET_ML_DATASETS'']\<rparr>)"

definition getMlTaskRecommendations :: "jsval \<Rightarrow> jsval \<Rightarrow> api_request" where
  "getMlTaskRecommendations organizationId taskId =
     apiAction (\<lambda>r. r\<lparr>rq_url := API_URL @ ''/organizations/'' @ to_str organizationId @ ''/tasks/''
         @ to_str taskId @ ''/optimizations'',
       rq_method := ''GET'',
       rq_ttl := 5 * MINUTE,
       rq_onSuccess := Some (handleSuccess ''SET_ML_TASK_RECOMMENDATIONS''),
       rq_hash := hashParams (Obj [(''organizationId'', organizationId), (''taskId'', taskId)]),
       rq_label := ''GET_ML_TASK_RECOMMENDATIONS''\<rparr>)"

definition getMlTaskRecommendationDetails :: "jsval \<Rightarrow> jsval \<Rightarrow> obj \<Rightarrow> api_request" where
  "getMlTaskRecommendationDetails organizationId taskId params =
     apiAction (\<lambda>r. r\<lparr>rq_url := API_URL @ ''/organizations/'' @ to_str organizationId @ ''/tasks/''
         @ to_str taskId @ ''/optimizations'',
       rq_method := ''GET'',
       rq_onSuccess := Some onSuccessGetMLOptimizationDetails,
       rq_label := ''GET_ML_OPTIMIZATION_DETAILS'',
       rq_hash := hashParams (Obj (obj_spread [(''organizationId'', organizationId),
         (''taskId'', taskId)] params)),
       rq_ttl := 5 * MINUTE,
       rq_params := Obj [(''type'', obj_get params ''type''),
         (''status'', obj_get params ''status'')]\<rparr>)"

definition getMlTask :: "jsval \<Rightarrow> jsval \<Rightarrow> api_request" where
  "getMlTask organizationId taskId =
     apiAction (\<lambda>r. r\<lparr>rq_url := API_URL @ ''/organizations/'' @ to_str organizationId @ ''/tasks/''
         @ to_str taskId,
       rq_method := ''GET'',
       rq_ttl := 5 * MINUTE,
       rq_onSuccess := Some (handleSuccess ''SET_ML_TASK''),
       rq_hash := hashParams (Obj [(''organizationId'', organizationId), (''taskId'', taskId)]),
       rq_label := ''GET_ML_TASK''\<rparr>)"

definition getMlTaskRuns :: "jsval \<Rightarrow> jsval \<Rightarrow> api_request" where
  "getMlTaskRuns organizationId taskId =
     apiAction (\<lambda>r. r\<lparr>rq_url := API_URL @ ''/organizations/'' @ to_str organizationId @ ''/tasks/''
         @ to_str taskId @ ''/runs'',
       rq_method := ''GET'',
       rq_ttl := 5 * MINUTE,
       rq_onSuccess := Some (handleSuccess ''SET_ML_TASK_RUNS''),
       rq_hash := hashParams (Obj [(''organizationId'', organizationId), (''taskId'', taskId)]),
       rq_label := ''GET_ML_TASK_RUNS''\<rparr>)"

definition getMlTaskTags :: "jsval \<Rightarrow> jsval \<Rightarrow> api_request" where
  "getMlTaskTags organizationId taskId =
     apiAction (\<lambda>r. r\<lparr>rq_url := API_URL @ ''/organizations/'' @ to_str organizationId @ ''/tasks/''
         @ to_str taskId @ ''/tags'',
       rq_method := ''GET'',
       rq_ttl := 5 * MINUTE,
       rq_onSuccess := Some (handleSuccess ''SET_ML_TASK_TAGS''),
       rq_hash := hashParams (Obj [(''organizationId'', organizationId), (''taskId'', taskId)]),
       rq_label := ''GET_ML_TASK_TAGS''\<rparr>)"

definition getMlTaskRunsBulk :: "jsval \<Rightarrow> jsval \<Rightarrow> jsval \<Rightarrow> api_request" where
  "getMlTaskRunsBulk organizationId taskId runIds =
     apiAction (\<lambda>r. r\<lparr>rq_url := API_URL @ ''/organizations/'' @ to_str organizationId @ ''/tasks/''
         @ to_str taskId @ ''/runs/bulk'',
       rq_method := ''GET'',
       rq_ttl := 5 * MINUTE,
       rq_onSuccess := Some (handleSuccess ''SET_ML_TASK_RUNS_BULK''),
       rq_hash := hashParams (Obj [(''organizationId'', organizationId), (''taskId'', taskId),
         (''runIds'', runIds)]),
       rq_label := ''GET_ML_TASK_RUNS_BULK'',
       rq_params := Obj [(''run_id'', runIds)]\<rparr>)"

definition getMlRunDetails :: "jsval \<Rightarrow> jsval \<Rightarrow> obj \<Rightarrow> api_request" where
  "getMlRunDetails organizationId runId params =
     apiAction (\<lambda>r. r\<lparr>rq_url := API_URL @ ''/organizations/'' @ to_str organizationId @ ''/runs/''
         @ to_str runId,
       rq_method := ''GET'',
       rq_ttl := 5 * MINUTE,
       rq_onSuccess := Some (handleSuccess ''SET_ML_RUN_DETAILS''),
       rq_hash := hashParams (Obj [(''organizationId'', organizationId), (''runId'', runId)]),
       rq_label := ''GET_ML_RUN_DETAILS'',
       rq_params := Obj [(''token'', obj_get params ''arceeToken'')]\<rparr>)"

definition getMlRunDetailsBreakdown :: "jsval \<Rightarrow> jsval \<Rightarrow> obj \<Rightarrow> api_request" where
  "getMlRunDetailsBreakdown organizationId runId params =
     apiAction (\<lambda>r. r\<lparr>rq_url := API_URL @ ''/organizations/'' @ to_str organizationId @ ''/runs/''
         @ to_str runId @ ''/breakdown'',
       rq_method := ''GET'',
       rq_ttl := 5 * MINUTE,
       rq_onSuccess := Some (handleSuccess ''SET_ML_RUN_DETAILS_BREAKDOWN''),
       rq_hash := hashParams (Obj [(''organizationId'', organizationId), (''runId'', runId)]),
       rq_label := ''GET_ML_RUN_DETAILS_BREAKDOWN'',
       rq_params := Obj [(''token'', obj_get params ''arceeToken'')]\<rparr>)"

definition createMlTask :: "jsval \<Rightarrow> jsval \<Rightarrow> api_request" where
  "createMlTask organizationId params =
     apiAction (\<lambda>r. r\<lparr>rq_url := API_URL @ ''/organizations/'' @ to_str organizationId @ ''/tasks'',
       rq_method := ''POST'',
       rq_label := ''CREATE_ML_TASK'',
       rq_params := params,
       rq_affectedRequests := [''GET_ML_TASKS'']\<rparr>)"

definition updateMlTask :: "jsval \<Rightarrow> jsval \<Rightarrow> jsval \<Rightarrow> api_request" where
  "updateMlTask organizationId taskId params =
     apiAction (\<lambda>r. r\<lparr>rq_url := API_URL @ ''/organizations/'' @ to_str organizationId @ ''/tasks/''
         @ to_str taskId,
       rq_method := ''PATCH'',
       rq_label := ''UPDATE_ML_TASK'',
       rq_onSuccess := Some onUpdateMlTask,
       rq_params := params,
       rq_affectedRequests := [''GET_ML_TASKS'']\<rparr>)"

definition deleteMlTask :: "jsval \<Rightarrow> jsval \<Rightarrow> api_request" where
  "deleteMlTask organizationId taskId =
     apiAction (\<lambda>r. r\<lparr>rq_url := API_URL @ ''/organizations/'' @ to_str organizationId @ ''/tasks/''
         @ to_str taskId,
       rq_method := ''DELETE'',
       rq_label := ''DELETE_ML_TASK'',
       rq_affectedRequests := [''GET_ML_TASKS'']\<rparr>)"

definition getMlTaskModelVersions :: "jsval \<Rightarrow> jsval \<Rightarrow> api_request" where
  "getMlTaskModelVersions organizationId taskId =
     apiAction (\<lambda>r. r\<lparr>rq_url := API_URL @ ''/organizations/'' @ to_str organizationId @ ''/tasks/''
         @ to_str taskId @ ''/model_versions'',
       rq_method := ''GET'',
       rq_ttl := 5 * MINUTE,
       rq_onSuccess := Some (handleSuccess ''SET_ML_TASK_MODEL_VERSIONS''),
       rq_label := ''GET_ML_TASK_MODEL_VERSIONS''\<rparr>)"

definition getMlModels :: "jsval \<Rightarrow> api_request" where
  "getMlModels organizationId =
     apiAction (\<lambda>r. r\<lparr>rq_url := API_URL @ ''/organizations/'' @ to_str organizationId @ ''/models'',
       rq_method := ''GET'',
       rq_ttl := 5 * MINUTE,
       rq_onSuccess := Some (handleSuccess ''SET_ML_MODELS''),
       rq_hash := hashParams organizationId,
       rq_label := ''GET_ML_MODELS''\<rparr>)"

definition getMlModel :: "jsval \<Rightarrow> jsval \<Rightarrow> api_request" where
  "getMlModel organizationId modelId =
     apiAction (\<lambda>r. r\<lparr>rq_url := API_URL @ ''/organizations/'' @ to_str organizationId
         @ ''/models/'' @ to_str modelId,
       rq_method := ''GET'',
       rq_ttl := 5 * MINUTE,
       rq_onSuccess := Some (handleSuccess ''SET_ML_MODELS''),
       rq_hash := hashParams (Obj [(''organizationId'', organizationId), (''modelId'', modelId)]),
       rq_label := ''GET_ML_MODEL''\<rparr>)"

definition createMlModel :: "jsval \<Rightarrow> jsval \<Rightarrow> api_request" where
  "createMlModel organizationId params =
     apiAction (\<lambda>r. r\<lparr>rq_url := API_URL @ ''/organizations/'' @ to_str organizationId @ ''/models'',
       rq_method := ''POST'',
       rq_label := ''CREATE_ML_MODEL'',
       rq_params := params,
       rq_affectedRequests := [''GET_ML_MODELS'']\<rparr>)"

definition updateMlModel :: "jsval \<Rightarrow> jsval \<Rightarrow> jsval \<Rightarrow> api_request" where
  "updateMlModel organizationId modelId params =
     apiAction (\<lambda>r. r\<lparr>rq_url := API_URL @ ''/organizations/'' @ to_str organizationId
         @ ''/models/'' @ to_str modelId,
       rq_method := ''PATCH'',
       rq_label := ''UPDATE_ML_MODEL'',
       rq_onSuccess := Some onUpdateMlModel,
       rq_params := params,
       rq_affectedRequests := [''GET_ML_MODELS'']\<rparr>)"

definition deleteMlModel :: "jsval \<Rightarrow> jsval \<Rightarrow> api_request" where
  "deleteMlModel organizationId modelId =
     apiAction (\<lambda>r. r\<lparr>rq_url := API_URL @ ''/organizations/'' @ to_str organizationId
         @ ''/models/'' @ to_str modelId,
       rq_method := ''DELETE'',
       rq_label := ''DELETE_ML_MODEL'',
       rq_affectedRequests := [''GET_ML_MODELS'']\<rparr>)"

definition updateMlModelVersion :: "jsval \<Rightarrow> jsval \<Rightarrow> jsval \<Rightarrow> jsval \<Rightarrow> api_request" where
  "updateMlModelVersion organizationId modelId runId params =
     apiAction (\<lambda>r. r\<lparr>rq_url := API_URL @ ''/organizations/'' @ to_str organizationId @ ''/runs/''
         @ to_str runId @ ''/models/'' @ to_str modelId @ ''/version'',
       rq_method := ''PATCH'',
       rq_label := ''UPDATE_ML_MODEL_VERSION'',
       rq_params := params,
       rq_affectedRequests := [''GET_ML_MODEL'', ''GET_ML_MODELS'']\<rparr>)"

definition getMlMetrics :: "jsval \<Rightarrow> api_request" where
  "getMlMetrics organizationId =
     apiAction (\<lambda>r. r\<lparr>rq_url := API_URL @ ''/organizations/'' @ to_str organizationId @ ''/metrics'',
       rq_method := ''GET'',
       rq_label := ''GET_ML_METRICS'',
       rq_ttl := 5 * MINUTE,
       rq_hash := hashParams (Obj [(''organizationId'', organizationId)]),
       rq_errorHandlerType := ERROR_HANDLER_TYPE_LOCAL,
       rq_onSuccess := Some (handleSuccess ''SET_ML_METRICS'')\<rparr>)"

definition getMlMetric :: "jsval \<Rightarrow> jsval \<Rightarrow> api_request" where
  "getMlMetric organizationId metricId =
     apiAction (\<lambda>r. r\<lparr>rq_url := API_URL @ ''/organizations/'' @ to_str organizationId
         @ ''/metrics/'' @ to_str metricId,
       rq_method := ''GET'',
       rq_label := ''GET_ML_GLOBAL_METRIC'',
       rq_ttl := 5 * MINUTE,
       rq_hash := hashParams (Obj [(''organizationId'', organizationId), (''metricId'', metricId)]),
       rq_onSuccess := Some (handleSuccess ''SET_ML_GLOBAL_METRIC'')\<rparr>)"

definition createMlMetric :: "jsval \<Rightarrow> jsval \<Rightarrow> api_request" where
  "createMlMetric organizationId params =
     apiAction (\<lambda>r. r\<lparr>rq_url := API_URL @ ''/organizations/'' @ to_str organizationId @ ''/metrics'',
       rq_method := ''POST'',
       rq_label := ''CREATE_GLOBAL_METRIC'',
       rq_params := params,
       rq_affectedRequests := [''GET_ML_METRICS'']\<rparr>)"

definition updateMlMetric :: "jsval \<Rightarrow> jsval \<Rightarrow> jsval \<Rightarrow> api_request" where
  "updateMlMetric organizationId metricId params =
     apiAction (\<lambda>r. r\<lparr>rq_url := API_URL @ ''/organizations/'' @ to_str organizationId
         @ ''/metrics/'' @ to_str metricId,
       rq_method := ''PATCH'',
       rq_label := ''UPDATE_GLOBAL_METRIC'',
       rq_affectedRequests := [''GET_ML_METRICS''],
       rq_params := params\<rparr>)"

definition deleteMlMetric :: "jsval \<Rightarrow> jsval \<Rightarrow> api_request" where
  "deleteMlMetric organizationId metricId =
     apiAction (\<lambda>r. r\<lparr>rq_url := API_URL @ ''/organizations/'' @ to_str organizationId
         @ ''/metrics/'' @ to_str metricId,
       rq_method := ''DELETE'',
       rq_label := ''DELETE_GLOBAL_METRIC'',
       rq_affectedRequests := [''GET_ML_METRICS'']\<rparr>)"

definition getProfilingToken :: "jsval \<Rightarrow> api_request" where
  "getProfilingToken organizationId =
     apiAction (\<lambda>r. r\<lparr>rq_url := API_URL @ ''/organizations/'' @ to_str organizationId
         @ ''/profiling_token'',
       rq_method := ''GET'',
       rq_label := ''GET_PROFILING_TOKEN'',
       rq_ttl := 5 * MINUTE,
       rq_hash := hashParams (Obj [(''organizationId'', organizationId)]),
       rq_onSuccess := Some (handleSuccess ''SET_PROFILING_TOKEN'')\<rparr>)"

definition getMlExecutors :: "jsval \<Rightarrow> obj \<Rightarrow> api_request" where
  "getMlExecutors organizationId params =
     apiAction (\<lambda>r. r\<lparr>rq_url := API_URL @ ''/organizations/'' @ to_str organizationId @ ''/executors'',
       rq_method := ''GET'',
       rq_label := ''GET_ML_EXECUTORS'',
       rq_ttl := 5 * MINUTE,
       rq_hash := hashParams (Obj (obj_spread [(''organizationId'', organizationId)] params)),
       rq_onSuccess := Some (handleSuccess ''SET_ML_EXECUTORS''),
       rq_params := Obj [(''task_id'', obj_get params ''taskIds''),
         (''run_id'', obj_get params ''runIds''), (''token'', obj_get params ''arceeToken'')]\<rparr>)"

definition getMlExecutorsBreakdown :: "jsval \<Rightarrow> api_request" where
  "getMlExecutorsBreakdown organizationId =
     apiAction (\<lambda>r. r\<lparr>rq_url := API_URL @ ''/organizations/'' @ to_str organizationId
         @ ''/executors_breakdown'',
       rq_method := ''GET'',
       rq_onSuccess := Some (handleSuccess ''SET_ML_EXECUTORS_BREAKDOWN''),
       rq_label := ''GET_ML_EXECUTORS_BREAKDOWN'',
       rq_ttl := 5 * MINUTE,
       rq_hash := hashParams organizationId\<rparr>)"

definition getMlArtifacts :: "jsval \<Rightarrow> obj \<Rightarrow> api_request" where
  "getMlArtifacts organizationId params =
     apiAction (\<lambda>r. r\<lparr>rq_url := API_URL @ ''/organizations/'' @ to_str organizationId @ ''/artifacts'',
       rq_method := ''GET'',
       rq_ttl := 5 * MINUTE,
       rq_onSuccess := Some (handleSuccess ''SET_ML_ARTIFACTS''),
       rq_hash := hashParams (Obj (obj_spread [(''organizationId'', organizationId)] params)),
       rq_label := ''GET_ML_ARTIFACTS'',
       rq_params := Obj [(''limit'', obj_get params ''limit''),
         (''run_id'', obj_get params ''runId''), (''offset'', obj_get params ''offset''),
         (''text_like'', obj_get params ''textLike''),
         (''created_at_gt'', obj_get params ''createdAtGt''),
         (''created_at_lt'', obj_get params ''createdAtLt''),
         (''task_id'', obj_get params ''taskId''), (''token'', obj_get params ''arceeToken'')]\<rparr>)"

definition getMlArtifact :: "jsval \<Rightarrow> jsval \<Rightarrow> api_request" where
  "getMlArtifact organizationId artifactId =
     apiAction (\<lambda>r. r\<lparr>rq_url := API_URL @ ''/organizations/'' @ to_str organizationId
         @ ''/artifacts/'' @ to_str artifactId,
       rq_method := ''GET'',
       rq_ttl := 5 * MINUTE,
       rq_onSuccess := Some (handleSuccess ''SET_ML_ARTIFACT''),
       rq_hash := hashParams (Obj [(''organizationId'', organizationId), (''artifactId'', artifactId)]),
       rq_label := ''GET_ML_ARTIFACT''\<rparr>)"

definition updateMlArtifact :: "jsval \<Rightarrow> jsval \<Rightarrow> jsval \<Rightarrow> api_request" where
  "updateMlArtifact organizationId artifactId params =
     apiAction (\<lambda>r. r\<lparr>rq_url := API_URL @ ''/organizations/'' @ to_str organizationId
         @ ''/artifacts/'' @ to_str artifactId,
       rq_method := ''PATCH'',
       rq_label := ''UPDATE_ML_ARTIFACT'',
       rq_onSuccess := Some onUpdateMlArtifact,
       rq_params := params,
       rq_affectedRequests := [''GET_ML_ARTIFACTS'']\<rparr>)"

definition createMlArtifact :: "jsval \<Rightarrow> obj \<Rightarrow> api_request" where
  "createMlArtifact organizationId params =
     apiAction (\<lambda>r. r\<lparr>rq_url := API_URL @ ''/organizations/'' @ to_str organizationId @ ''/artifacts'',
       rq_method := ''POST'',
       rq_label := ''CREATE_ML_ARTIFACT'',
       rq_params := Obj [(''name'', obj_get params ''name''), (''path'', obj_get params ''path''),
         (''description'', obj_get params ''description''), (''tags'', obj_get params ''tags''),
         (''run_id'', obj_get params ''runId'')],
       rq_affectedRequests := [''GET_ML_ARTIFACTS'']\<rparr>)"

definition deleteMlArtifact :: "jsval \<Rightarrow> jsval \<Rightarrow> api_request" where
  "deleteMlArtifact organizationId artifactId =
     apiAction (\<lambda>r. r\<lparr>rq_url := API_URL @ ''/organizations/'' @ to_str organizationId
         @ ''/artifacts/'' @ to_str artifactId,
       rq_method := ''DELETE'',
       rq_label := ''DELETE_ML_ARTIFACT'',
       rq_affectedRequests := [''GET_ML_ARTIFACTS'']\<rparr>)"

lemmas ml_action_defs =
  getArchivedOptimizationsBreakdown_def getArchivedOptimizationDetails_def getMlTasks_def
  getMlLeaderboardTemplate_def createMlLeaderboardTemplate_def updateMlLeaderboardTemplate_def
  getMlLeaderboards_def getMlLeaderboard_def createMlLeaderboard_def
  updateMlLeaderboard_def deleteMlLeaderboard_def getMlLeaderboardCandidates_def
  getMlDatasets_def getMlDataset_def getMlDatasetLabels_def
  createMlDataset_def updateMlDataset_def deleteMlDataset_def
  getMlTaskRecommendations_def getMlTaskRecommendationDetails_def getMlTask_def
  getMlTaskRuns_def getMlTaskTags_def getMlTaskRunsBulk_def
  getMlRunDetails_def getMlRunDetailsBreakdown_def createMlTask_def
  updateMlTask_def deleteMlTask_def getMlTaskModelVersions_def
  getMlModels_def getMlModel_def createMlModel_def
  updateMlModel_def deleteMlModel_def updateMlModelVersion_def
  getMlMetrics_def getMlMetric_def createMlMetric_def
  updateMlMetric_def deleteMlMetric_def getProfilingToken_def
  getMlExecutors_def getMlExecutorsBreakdown_def getMlArtifacts_def
  getMlArtifact_def updateMlArtifact_def createMlArtifact_def
  deleteMlArtifact_def

end
