(* ===== verification/RestActionsOps.thy ===== *)
theory RestActionsOps
  imports RestActionsMl
begin

text \<open>
  Action creators of \<open>api/restapi/actionCreators.ts\<close>, lines 2344 to 2765.  Commitments, runsets, BI exports, S3 duplicates, power schedules, layouts, account recovery.
  An argument whose properties the source reads is an object (type \<open>obj\<close>, the empty list
  when it is omitted and its default is the empty object); any other argument is a value.
\<close>

definition getReservedInstancesBreakdown :: "jsval \<Rightarrow> obj \<Rightarrow> api_request" where
  "getReservedInstancesBreakdown organizationId params =
     apiAction (\<lambda>r. r\<lparr>rq_url := API_URL @ ''/organizations/'' @ to_str organizationId
         @ ''/ri_breakdown'',
       rq_method := ''GET'',
       rq_onSuccess := Some (handleSuccess ''SET_RESERVED_INSTANCES_BREAKDOWN''),
       rq_label := ''GET_RESERVED_INSTANCES_BREAKDOWN'',
       rq_ttl := 5 * MINUTE,
       rq_hash := hashParams (Obj (obj_spread [(''organizationId'', organizationId)] params)),
       rq_params := Obj [(''cloud_account_id'', obj_get params ''dataSourceIds''),
         (''start_date'', obj_get params ''startDate''), (''end_date'', obj_get params ''endDate'')]\<rparr>)"

definition getSavingPlansBreakdown :: "jsval \<Rightarrow> obj \<Rightarrow> api_request" where
  "getSavingPlansBreakdown organizationId params =
     apiAction (\<lambda>r. r\<lparr>rq_url := API_URL @ ''/organizations/'' @ to_str organizationId
         @ ''/sp_breakdown'',
       rq_method := ''GET'',
       rq_onSuccess := Some (handleSuccess ''SET_SAVING_PLANS_BREAKDOWN''),
       rq_label := ''GET_SAVING_PLANS_BREAKDOWN'',
       rq_ttl := 5 * MINUTE,
       rq_hash := hashParams (Obj (obj_spread [(''organizationId'', organizationId)] params)),
       rq_params := Obj [(''cloud_account_id'', obj_get params ''dataSourceIds''),
         (''start_date'', obj_get params ''startDate''), (''end_date'', obj_get params ''endDate'')]\<rparr>)"

definition getMlRunsetTemplates :: "jsval \<Rightarrow> api_request" where
  "getMlRunsetTemplates organizationId =
     apiAction (\<lambda>r. r\<lparr>rq_url := API_URL @ ''/organizations/'' @ to_str organizationId
         @ ''/templates_overview'',
       rq_method := ''GET'',
       rq_onSuccess := Some (handleSuccess ''SET_ML_RUNSET_TEMPLATES''),
       rq_hash := hashParams (Obj [(''organizationId'', organizationId)]),
       rq_label := ''GET_ML_RUNSET_TEMPLATES'',
       rq_ttl := 5 * MINUTE\<rparr>)"

definition getMlRunsetTemplate :: "jsval \<Rightarrow> jsval \<Rightarrow> api_request" where
  "getMlRunsetTemplate organizationId runsetTemplateId =
     apiAction (\<lambda>r. r\<lparr>rq_url := API_URL @ ''/organizations/'' @ to_str organizationId
         @ ''/templates/'' @ to_str runsetTemplateId,
       rq_method := ''GET'',
       rq_hash := hashParams (Obj [(''organizationId'', organizationId),
         (''runsetTemplateId'', runsetTemplateId)]),
       rq_onSuccess := Some (handleSuccess ''SET_ML_RUNSET_TEMPLATE''),
       rq_label := ''GET_ML_RUNSET_TEMPLATE'',
       rq_ttl := 5 * MINUTE\<rparr>)"

definition createMlRunsetTemplate :: "jsval \<Rightarrow> jsval \<Rightarrow> api_request" where
  "createMlRunsetTemplate organizationId params =
     apiAction (\<lambda>r. r\<lparr>rq_url := API_URL @ ''/organizations/'' @ to_str organizationId @ ''/templates'',
       rq_method := ''POST'',
       rq_label := ''CREATE_ML_RUNSET_TEMPLATE'',
       rq_params := params,
       rq_affectedRequests := [''GET_ML_RUNSET_TEMPLATES'']\<rparr>)"

definition updateMlRunsetTemplate :: "jsval \<Rightarrow> jsval \<Rightarrow> jsval \<Rightarrow> api_request" where
  "updateMlRunsetTemplate organizationId runsetTemplateId params =
     apiAction (\<lambda>r. r\<lparr>rq_url := API_URL @ ''/organizations/'' @ to_str organizationId
         @ ''/templates/'' @ to_str runsetTemplateId,
       rq_method := ''PATCH'',
       rq_label := ''UPDATE_ML_RUNSET_TEMPLATE'',
       rq_onSuccess := Some onUpdateMlRunsetTemplate,
       rq_params := params,
       rq_affectedRequests := [''GET_ML_RUNSET_TEMPLATES'']\<rparr>)"

definition deleteMlRunsetTemplate :: "jsval \<Rightarrow> jsval \<Rightarrow> api_request" where
  "deleteMlRunsetTemplate organizationId runsetTemplateId =
     apiAction (\<lambda>r. r\<lparr>rq_url := API_URL @ ''/organizations/'' @ to_str organizationId
         @ ''/templates/'' @ to_str runsetTemplateId,
       rq_method := ''DELETE'',
       rq_label := ''DELETE_ML_RUNSET_TEMPLATE'',
       rq_affectedRequests := [''GET_ML_RUNSET_TEMPLATES'']\<rparr>)"

definition getMlRunsets :: "jsval \<Rightarrow> jsval \<Rightarrow> api_request" where
  "getMlRunsets organizationId runsetTemplateId =
     apiAction (\<lambda>r. r\<lparr>rq_url := API_URL @ ''/organizations/'' @ to_str organizationId
         @ ''/templates/'' @ to_str runsetTemplateId @ ''/runsets'',
       rq_method := ''GET'',
       rq_hash := hashParams (Obj [(''organizationId'', organizationId),
         (''runsetTemplateId'', runsetTemplateId)]),
       rq_onSuccess := Some (handleSuccess ''SET_ML_RUNSETS''),
       rq_label := ''GET_ML_RUNSETS'',
       rq_ttl := 5 * MINUTE\<rparr>)"

definition getMlRunset :: "jsval \<Rightarrow> jsval \<Rightarrow> api_request" where
  "getMlRunset organizationId runsetId =
     apiAction (\<lambda>r. r\<lparr>rq_url := API_URL @ ''/organizations/'' @ to_str organizationId
         @ ''/runsets/'' @ to_str runsetId,
       rq_method := ''GET'',
       rq_hash := hashParams (Obj [(''organizationId'', organizationId), (''runsetId'', runsetId)]),
       rq_onSuccess := Some (handleSuccess ''SET_ML_RUNSET''),
       rq_label := ''GET_ML_RUNSET'',
       rq_ttl := 5 * MINUTE\<rparr>)"

definition createMlRunset :: "jsval \<Rightarrow> jsval \<Rightarrow> jsval \<Rightarrow> api_request" where
  "createMlRunset organizationId runsetTemplateId params =
     apiAction (\<lambda>r. r\<lparr>rq_url := API_URL @ ''/organizations/'' @ to_str organizationId
         @ ''/templates/'' @ to_str runsetTemplateId @ ''/runsets'',
       rq_method := ''POST'',
       rq_label := ''CREATE_ML_RUNSET'',
       rq_params := params,
       rq_affectedRequests := [''GET_ML_RUNSETS'']\<rparr>)"

definition stopMlRunset :: "jsval \<Rightarrow> jsval \<Rightarrow> api_request" where
  "stopMlRunset organizationId runsetId =
     apiAction (\<lambda>r. r\<lparr>rq_url := API_URL @ ''/organizations/'' @ to_str organizationId
         @ ''/runsets/'' @ to_str runsetId,
       rq_method := ''PATCH'',
       rq_label := ''STOP_ML_RUNSET'',
       rq_successHandlerType := SUCCESS_HANDLER_TYPE_ALERT,
       rq_params := Obj [(''action'', Str ''stop'')],
       rq_affectedRequests := [''GET_ML_RUNSET'', ''GET_ML_RUNSETS'']\<rparr>)"

definition getMlRunsetsRuns :: "jsval \<Rightarrow> jsval \<Rightarrow> api_request" where
  "getMlRunsetsRuns organizationId runsetId =
     apiAction (\<lambda>r. r\<lparr>rq_url := API_URL @ ''/organizations/'' @ to_str organizationId
         @ ''/runsets/'' @ to_str runsetId @ ''/runs'',
       rq_method := ''GET'',
       rq_hash := hashParams (Obj [(''organizationId'', organizationId), (''runsetId'', runsetId)]),
       rq_onSuccess := Some (handleSuccess ''SET_ML_RUNSETS_RUNS''),
       rq_label := ''GET_ML_RUNSETS_RUNS'',
       rq_ttl := 5 * MINUTE\<rparr>)"

definition getMlRunsetExecutors :: "jsval \<Rightarrow> jsval \<Rightarrow> api_request" where
  "getMlRunsetExecutors organizationId runsetId =
     apiAction (\<lambda>r. r\<lparr>rq_url := API_URL @ ''/organizations/'' @ to_str organizationId
         @ ''/runsets/'' @ to_str runsetId @ ''/runners'',
       rq_method := ''GET'',
       rq_hash := hashParams (Obj [(''organizationId'', organizationId), (''runsetId'', runsetId)]),
       rq_onSuccess := Some (handleSuccess ''SET_ML_RUNSET_EXECUTORS''),
       rq_label := ''GET_ML_RUNSET_EXECUTORS'',
       rq_ttl := 5 * MINUTE\<rparr>)"

definition getOrganizationBIExports :: "jsval \<Rightarrow> api_request" where
  "getOrganizationBIExports organizationId =
     apiAction (\<lambda>r. r\<lparr>rq_url := API_URL @ ''/organizations/'' @ to_str organizationId @ ''/bi'',
       rq_method := ''GET'',
       rq_hash := hashParams (Obj [(''organizationId'', organizationId)]),
       rq_onSuccess := Some (handleSuccess ''SET_ORGANIZATION_BI_EXPORTS''),
       rq_label := ''GET_ORGANIZATION_BI_EXPORT'',
       rq_ttl := 5 * MINUTE\<rparr>)"

definition createOrganizationBIExports :: "jsval \<Rightarrow> jsval \<Rightarrow> api_request" where
  "createOrganizationBIExports organizationId params =
     apiAction (\<lambda>r. r\<lparr>rq_url := API_URL @ ''/organizations/'' @ to_str organizationId @ ''/bi'',
       rq_method := ''POST'',
       rq_label := ''CREATE_ORGANIZATION_BI_EXPORT'',
       rq_params := params,
       rq_affectedRequests := [''GET_ORGANIZATION_BI_EXPORT'']\<rparr>)"

definition getBIExport :: "jsval \<Rightarrow> api_request" where
  "getBIExport biExportId =
     apiAction (\<lambda>r. r\<lparr>rq_url := API_URL @ ''/bi/'' @ to_str biExportId,
       rq_method := ''GET'',
       rq_hash := hashParams (Obj [(''biExportId'', biExportId)]),
       rq_label := ''GET_BI_EXPORT'',
       rq_onSuccess := Some (handleSuccess ''SET_BI_EXPORT''),
       rq_ttl := 5 * MINUTE\<rparr>)"

definition updateBIExport :: "jsval \<Rightarrow> jsval \<Rightarrow> api_request" where
  "updateBIExport biExportId params =
     apiAction (\<lambda>r. r\<lparr>rq_url := API_URL @ ''/bi/'' @ to_str biExportId,
       rq_method := ''PATCH'',
       rq_label := ''UPDATE_BI_EXPORT'',
       rq_onSuccess := Some onUpdateBIExport,
       rq_affectedRequests := [''GET_ORGANIZATION_BI_EXPORT''],
       rq_params := params\<rparr>)"

definition deleteBIExport :: "jsval \<Rightarrow> api_request" where
  "deleteBIExport biExportId =
     apiAction (\<lambda>r. r\<lparr>rq_url := API_URL @ ''/bi/'' @ to_str biExportId,
       rq_method := ''DELETE'',
       rq_label := ''DELETE_BI_EXPORT'',
       rq_affectedRequests := [''GET_ORGANIZATION_BI_EXPORT'']\<rparr>)"

definition getS3DuplicatesOrganizationSettings :: "jsval \<Rightarrow> api_request" where
  "getS3DuplicatesOrganizationSettings organizationId =
     apiAction (\<lambda>r. r\<lparr>rq_url := API_URL @ ''/organizations/'' @ to_str organizationId
         @ ''/options/s3_duplicates_settings'',
       rq_method := ''GET'',
       rq_ttl := HOUR,
       rq_onSuccess := Some (handleSuccess ''SET_S3_DUPLICATES_ORGANIZATION_SETTINGS''),
       rq_hash := hashParams organizationId,
       rq_label := ''GET_S3_DUPLICATES_ORGANIZATION_SETTINGS''\<rparr>)"

definition updateS3DuplicatesOrganizationSettings :: "jsval \<Rightarrow> jsval \<Rightarrow> api_request" where
  "updateS3DuplicatesOrganizationSettings organizationId value =
     apiAction (\<lambda>r. r\<lparr>rq_url := API_URL @ ''/organizations/'' @ to_str organizationId
         @ ''/options/s3_duplicates_settings'',
       rq_method := ''PATCH'',
       rq_onSuccess := Some onUpdateS3DuplicatesOrganizationSettings,
       rq_successHandlerType := SUCCESS_HANDLER_TYPE_ALERT,
       rq_label := ''UPDATE_S3_DUPLICATES_ORGANIZATION_SETTINGS'',
       rq_affectedRequests := [''GET_S3_DUPLICATES_ORGANIZATION_SETTINGS''],
       rq_params := Obj [(''value'', json_stringify value)]\<rparr>)"

definition getOrganizationCloudResources :: "jsval \<Rightarrow> jsval \<Rightarrow> api_request" where
  "getOrganizationCloudResources organizationId params =
     apiAction (\<lambda>r. r\<lparr>rq_url := API_URL @ ''/organizations/'' @ to_str organizationId
         @ ''/cloud_resources'',
       rq_method := ''GET'',
       rq_hash := hashParams (Obj [(''organizationId'', organizationId), (''params'', params)]),
       rq_onSuccess := Some (handleSuccess ''SET_ORGANIZATION_CLOUD_RESOURCES''),
       rq_label := ''GET_ORGANIZATION_CLOUD_RESOURCES'',
       rq_ttl := 5 * MINUTE,
       rq_params := params\<rparr>)"

definition getOrganizationGeminis :: "jsval \<Rightarrow> api_request" where
  "getOrganizationGeminis organizationId =
     apiAction (\<lambda>r. r\<lparr>rq_url := API_URL @ ''/organizations/'' @ to_str organizationId @ ''/geminis'',
       rq_method := ''GET'',
       rq_hash := hashParams (Obj [(''organizationId'', organizationId)]),
       rq_onSuccess := Some (handleSuccess ''SET_ORGANIZATION_GEMINIS''),
       rq_label := ''GET_ORGANIZATION_GEMINIS'',
       rq_ttl := 5 * MINUTE\<rparr>)"

definition getGemini :: "jsval \<Rightarrow> api_request" where
  "getGemini checkId =
     apiAction (\<lambda>r. r\<lparr>rq_url := API_URL @ ''/geminis/'' @ to_str checkId,
       rq_method := ''GET'',
       rq_hash := hashParams (Obj [(''checkId'', checkId)]),
       rq_onSuccess := Some (handleSuccess ''SET_GEMINI''),
       rq_label := ''GET_GEMINI'',
       rq_ttl := 5 * MINUTE\<rparr>)"

definition createOrganizationGemini :: "jsval \<Rightarrow> jsval \<Rightarrow> api_request" where
  "createOrganizationGemini organizationId params =
     apiAction (\<lambda>r. r\<lparr>rq_url := API_URL @ ''/organizations/'' @ to_str organizationId @ ''/geminis'',
       rq_method := ''POST'',
       rq_label := ''CREATE_ORGANIZATION_GEMINI'',
       rq_affectedRequests := [''GET_ORGANIZATION_GEMINIS''],
       rq_params := params\<rparr>)"

definition createSurvey :: "jsval \<Rightarrow> jsval \<Rightarrow> jsval \<Rightarrow> api_request" where
  "createSurvey organizationId type_arg payload =
     apiAction (\<lambda>r. r\<lparr>rq_url := API_URL @ ''/organizations/'' @ to_str organizationId
         @ ''/disconnect_survey'',
       rq_method := ''POST'',
       rq_label := ''CREATE_SURVEY'',
       rq_params := Obj [(''survey_type'', type_arg), (''payload'', payload)]\<rparr>)"

definition getPowerSchedules :: "jsval \<Rightarrow> api_request" where
  "getPowerSchedules organizationId =
     apiAction (\<lambda>r. r\<lparr>rq_url := API_URL @ ''/organizations/'' @ to_str organizationId
         @ ''/power_schedules'',
       rq_method := ''GET'',
       rq_ttl := 5 * MINUTE,
       rq_onSuccess := Some (handleSuccess ''SET_POWER_SCHEDULES''),
       rq_hash := hashParams organizationId,
       rq_label := ''GET_POWER_SCHEDULES''\<rparr>)"

definition getPowerSchedule :: "jsval \<Rightarrow> api_request" where
  "getPowerSchedule powerScheduleId =
     apiAction (\<lambda>r. r\<lparr>rq_url := API_URL @ ''/power_schedules/'' @ to_str powerScheduleId,
       rq_method := ''GET'',
       rq_ttl := 5 * MINUTE,
       rq_onSuccess := Some (handleSuccess ''SET_POWER_SCHEDULE''),
       rq_hash := hashParams powerScheduleId,
       rq_label := ''GET_POWER_SCHEDULE''\<rparr>)"

definition createPowerSchedule :: "jsval \<Rightarrow> jsval \<Rightarrow> api_request" where
  "createPowerSchedule organizationId params =
     apiAction (\<lambda>r. r\<lparr>rq_url := API_URL @ ''/organizations/'' @ to_str organizationId
         @ ''/power_schedules'',
       rq_method := ''POST'',
       rq_label := ''CREATE_POWER_SCHEDULES'',
       rq_affectedRequests := [''GET_POWER_SCHEDULES''],
       rq_params := params\<rparr>)"

definition deletePowerSchedule :: "jsval \<Rightarrow> api_request" where
  "deletePowerSchedule powerScheduleId =
     apiAction (\<lambda>r. r\<lparr>rq_url := API_URL @ ''/power_schedules/'' @ to_str powerScheduleId,
       rq_method := ''DELETE'',
       rq_label := ''DELETE_POWER_SCHEDULE'',
       rq_affectedRequests := [''GET_POWER_SCHEDULES'']\<rparr>)"

definition updatePowerSchedule :: "jsval \<Rightarrow> jsval \<Rightarrow> api_request" where
  "updatePowerSchedule powerScheduleId params =
     apiAction (\<lambda>r. r\<lparr>rq_url := API_URL @ ''/power_schedules/'' @ to_str powerScheduleId,
       rq_method := ''PATCH'',
       rq_label := ''UPDATE_POWER_SCHEDULE'',
       rq_onSuccess := Some onUpdatePowerSchedule,
       rq_entityId := powerScheduleId,
       rq_affectedRequests := [''GET_POWER_SCHEDULES''],
       rq_params := params\<rparr>)"

definition attachInstancesToSchedule :: "jsval \<Rightarrow> jsval \<Rightarrow> api_request" where
  "attachInstancesToSchedule powerScheduleId instancesToAttach =
     apiAction (\<lambda>r. r\<lparr>rq_url := API_URL @ ''/power_schedules/'' @ to_str powerScheduleId @ ''/actions'',
       rq_method := ''POST'',
       rq_label := ''ATTACH_INSTANCES_TO_SCHEDULE'',
       rq_successHandlerType := SUCCESS_HANDLER_TYPE_ALERT,
       rq_affectedRequests := [''GET_POWER_SCHEDULE'', ''GET_POWER_SCHEDULES''],
       rq_params := Obj [(''action'', Str ''attach''), (''instance_id'', instancesToAttach)]\<rparr>)"

definition removeInstancesFromSchedule :: "jsval \<Rightarrow> jsval \<Rightarrow> api_request" where
  "removeInstancesFromSchedule powerScheduleId instancesToRemove =
     apiAction (\<lambda>r. r\<lparr>rq_url := API_URL @ ''/power_schedules/'' @ to_str powerScheduleId @ ''/actions'',
       rq_method := ''POST'',
       rq_label := ''REMOVE_INSTANCES_FROM_SCHEDULE'',
       rq_successHandlerType := SUCCESS_HANDLER_TYPE_ALERT,
       rq_affectedRequests := [''GET_POWER_SCHEDULE'', ''GET_POWER_SCHEDULES''],
       rq_params := Obj [(''action'', Str ''detach''), (''instance_id'', instancesToRemove)]\<rparr>)"

definition getLayouts :: "jsval \<Rightarrow> jsval \<Rightarrow> jsval \<Rightarrow> jsval \<Rightarrow> jsval \<Rightarrow> api_request" where
  "getLayouts organizationId layoutType entityId includeShared arceeToken =
     apiAction (\<lambda>r. r\<lparr>rq_url := API_URL @ ''/organizations/'' @ to_str organizationId @ ''/layouts'',
       rq_method := ''GET'',
       rq_hash := hashParams (Obj [(''organizationId'', organizationId),
         (''layoutType'', layoutType), (''entityId'', entityId),
         (''includeShared'', includeShared), (''token'', arceeToken)]),
       rq_onSuccess := Some (handleSuccess ''SET_LAYOUTS''),
       rq_label := ''GET_LAYOUTS'',
       rq_ttl := 5 * MINUTE,
       rq_params := Obj [(''layout_type'', layoutType), (''entity_id'', entityId),
         (''include_shared'', includeShared), (''token'', arceeToken)]\<rparr>)"

definition getLayout :: "jsval \<Rightarrow> jsval \<Rightarrow> obj \<Rightarrow> api_request" where
  "getLayout organizationId layoutId params =
     apiAction (\<lambda>r. r\<lparr>rq_url := API_URL @ ''/organizations/'' @ to_str organizationId
         @ ''/layouts/'' @ to_str layoutId,
       rq_method := ''GET'',
       rq_hash := hashParams (Obj [(''organizationId'', organizationId), (''layoutId'', layoutId)]),
       rq_onSuccess := Some (handleSuccess ''SET_LAYOUT''),
       rq_entityId := layoutId,
       rq_label := ''GET_LAYOUT'',
       rq_ttl := 5 * MINUTE,
       rq_params := Obj [(''token'', obj_get params ''arceeToken'')]\<rparr>)"

definition createLayout :: "jsval \<Rightarrow> obj \<Rightarrow> api_request" where
  "createLayout organizationId params =
     apiAction (\<lambda>r. r\<lparr>rq_url := API_URL @ ''/organizations/'' @ to_str organizationId @ ''/layouts'',
       rq_method := ''POST'',
       rq_label := ''CREATE_LAYOUT'',
       rq_affectedRequests := [''GET_LAYOUTS''],
       rq_onSuccess := Some (handleSuccess ''CREATE_LAYOUT''),
       rq_params := Obj [(''name'', obj_get params ''name''),
         (''shared'', obj_get params ''shared''), (''data'', obj_get params ''data''),
         (''type'', obj_get params ''type''), (''entity_id'', obj_get params ''entityId'')]\<rparr>)"

definition updateLayout :: "jsval \<Rightarrow> jsval \<Rightarrow> obj \<Rightarrow> api_request" where
  "updateLayout organizationId layoutId params =
     apiAction (\<lambda>r. r\<lparr>rq_url := API_URL @ ''/organizations/'' @ to_str organizationId
         @ ''/layouts/'' @ to_str layoutId,
       rq_method := ''PATCH'',
       rq_label := ''UPDATE_LAYOUT'',
       rq_affectedRequests := [''GET_LAYOUTS'', ''GET_LAYOUT''],
       rq_params := Obj [(''name'', obj_get params ''name''),
         (''shared'', obj_get params ''shared''), (''data'', obj_get params ''data'')]\<rparr>)"

definition deleteLayout :: "jsval \<Rightarrow> jsval \<Rightarrow> api_request" where
  "deleteLayout organizationId layoutId =
     apiAction (\<lambda>r. r\<lparr>rq_url := API_URL @ ''/organizations/'' @ to_str organizationId
         @ ''/layouts/'' @ to_str layoutId,
       rq_method := ''DELETE'',
       rq_label := ''DELETE_LAYOUT'',
       rq_affectedRequests := [''GET_LAYOUTS''],
       rq_entityId := layoutId\<rparr>)"

definition restorePassword :: "obj \<Rightarrow> api_request" where
  "restorePassword params =
     apiAction (\<lambda>r. r\<lparr>rq_url := API_URL @ ''/restore_password'',
       rq_method := ''POST'',
       rq_label := ''RESTORE_PASSWORD'',
       rq_params := Obj [(''email'', obj_get params ''email''),
         (''link_params'', obj_get params ''linkParams'')]\<rparr>)"

definition verifyEmail :: "obj \<Rightarrow> api_request" where
  "verifyEmail params =
     apiAction (\<lambda>r. r\<lparr>rq_url := API_URL @ ''/verify_email'',
       rq_method := ''POST'',
       rq_label := ''VERIFY_EMAIL'',
       rq_params := Obj [(''email'', obj_get params ''email''),
         (''link_params'', obj_get params ''linkParams'')]\<rparr>)"

lemmas ops_action_defs =
  getReservedInstancesBreakdown_def getSavingPlansBreakdown_def getMlRunsetTemplates_def
  getMlRunsetTemplate_def createMlRunsetTemplate_def updateMlRunsetTemplate_def
  deleteMlRunsetTemplate_def getMlRunsets_def getMlRunset_def
  createMlRunset_def stopMlRunset_def getMlRunsetsRuns_def
  getMlRunsetExecutors_def getOrganizationBIExports_def createOrganizationBIExports_def
  getBIExport_def updateBIExport_def deleteBIExport_def
  getS3DuplicatesOrganizationSettings_def updateS3DuplicatesOrganizationSettings_def getOrganizationCloudResources_def
  getOrganizationGeminis_def getGemini_def createOrganizationGemini_def
  createSurvey_def getPowerSchedules_def getPowerSchedule_def
  createPowerSchedule_def deletePowerSchedule_def updatePowerSchedule_def
  attachInstancesToSchedule_def removeInstancesFromSchedule_def getLayouts_def
  getLayout_def createLayout_def updateLayout_def
  deleteLayout_def restorePassword_def verifyEmail_def

end
