(* ===== verification/Catalogue.thy ===== *)
theory Catalogue
  imports DataCases RestActionsOrg RestActionsResources RestActionsMl RestActionsOps
begin

text \<open>
  The requests the program can build: one introduction rule for each exported action creator,
  for all its arguments.  What every request has in common is proved once over these rules.
\<close>

section \<open>The action creators\<close>

inductive created_org :: "api_request \<Rightarrow> bool" where
  c_getOrganizationOptions: "created_org (getOrganizationOptions x1 x2)"
| c_getOrganizationOption: "created_org (getOrganizationOption x1 x2)"
| c_deleteOrganizationOption: "created_org (deleteOrganizationOption x1 x2)"
| c_updateOrganizationOption: "created_org (updateOrganizationOption x1 x2 x3)"
| c_createOrganizationOption: "created_org (createOrganizationOption x1 x2 x3)"
| c_getOrganizationConstraints: "created_org (getOrganizationConstraints x1 x2)"
| c_createOrganizationConstraint: "created_org (createOrganizationConstraint x1 x2)"
| c_getOrganizationConstraint: "created_org (getOrganizationConstraint x1)"
| c_deleteOrganizationConstraint: "created_org (deleteOrganizationConstraint x1)"
| c_updateOrganizationConstraint: "created_org (updateOrganizationConstraint x1 x2)"
| c_uploadCloudReport: "created_org (uploadCloudReport x1 x2)"
| c_uploadCodeReport: "created_org (uploadCodeReport x1 x2)"
| c_submitForAudit: "created_org (submitForAudit x1)"
| c_updateDataSource: "created_org (updateDataSource x1 x2)"
| c_getPool: "created_org (getPool x1 x2 x3)"
| c_getPoolExpensesRange: "created_org (getPoolExpensesRange x1 x2 x3)"
| c_createPool: "created_org (createPool x1 x2)"
| c_updatePool: "created_org (updatePool x1 x2 x3 x4 x5 x6)"
| c_deletePool: "created_org (deletePool x1)"
| c_updateOrganization: "created_org (updateOrganization x1 x2)"
| c_getOrganizationsOverview: "created_org (getOrganizationsOverview x1)"
| c_getPoolExpenses: "created_org (getPoolExpenses x1 x2)"
| c_getCloudsExpenses: "created_org (getCloudsExpenses x1 x2)"
| c_getEmployeesExpenses: "created_org (getEmployeesExpenses x1 x2)"
| c_createInvitations: "created_org (createInvitations x1)"
| c_getInvitation: "created_org (getInvitation x1)"
| c_splitResources: "created_org (splitResources x1 x2)"
| c_getAvailablePools: "created_org (getAvailablePools x1 x2)"
| c_getPoolOwners: "created_org (getPoolOwners x1 x2)"
| c_getAuthorizedEmployees: "created_org (getAuthorizedEmployees x1 x2)"
| c_getEmployees: "created_org (getEmployees x1 x2 x3)"
| c_deleteEmployee: "created_org (deleteEmployee x1 x2)"
| c_getOrganizationExpenses: "created_org (getOrganizationExpenses x1)"
| c_getRawExpenses: "created_org (getRawExpenses x1 x2)"
| c_getCleanExpenses: "created_org (getCleanExpenses x1 x2)"
| c_getExpensesSummary: "created_org (getExpensesSummary x1 x2)"
| c_getAvailableFilters: "created_org (getAvailableFilters x1 x2)"
| c_getResourceCountBreakdown: "created_org (getResourceCountBreakdown x1 x2)"
| c_getTagsBreakdown: "created_org (getTagsBreakdown x1 x2)"
| c_getRegionExpenses: "created_org (getRegionExpenses x1 x2)"
| c_getTrafficExpenses: "created_org (getTrafficExpenses x1 x2)"
| c_getAssignmentRules: "created_org (getAssignmentRules x1 x2)"
| c_getK8sRightsizing: "created_org (getK8sRightsizing x1 x2)"
| c_updateAssignmentRulePriority: "created_org (updateAssignmentRulePriority x1 x2)"
| c_getAssignmentRule: "created_org (getAssignmentRule x1)"
| c_createAssignmentRule: "created_org (createAssignmentRule x1 x2)"
| c_updateAssignmentRule: "created_org (updateAssignmentRule x1 x2)"
| c_deleteAssignmentRule: "created_org (deleteAssignmentRule x1)"
| c_getResource: "created_org (getResource x1 x2)"
| c_getPoolPolicies: "created_org (getPoolPolicies x1)"
| c_createGlobalPoolPolicy: "created_org (createGlobalPoolPolicy x1 x2)"
| c_createPoolPolicy: "created_org (createPoolPolicy x1 x2)"
| c_createExpensesExport: "created_org (createExpensesExport x1)"
| c_deleteExpensesExport: "created_org (deleteExpensesExport x1)"
| c_updatePoolPolicyLimit: "created_org (updatePoolPolicyLimit x1 x2)"
| c_updateGlobalPoolPolicyLimit: "created_org (updateGlobalPoolPolicyLimit x1 x2)"
| c_updatePoolPolicyActivity: "created_org (updatePoolPolicyActivity x1 x2)"
| c_updateGlobalPoolPolicyActivity: "created_org (updateGlobalPoolPolicyActivity x1 x2)"

inductive created_resources :: "api_request \<Rightarrow> bool" where
  c_createTotalExpenseLimitResourceConstraint: "created_resources (createTotalExpenseLimitResourceConstraint x1 x2)"
| c_createDailyExpenseLimitResourceConstraint: "created_resources (createDailyExpenseLimitResourceConstraint x1 x2)"
| c_createTtlResourceConstraint: "created_resources (createTtlResourceConstraint x1 x2)"
| c_updateGlobalResourceConstraintLimit: "created_resources (updateGlobalResourceConstraintLimit x1 x2)"
| c_updateTtlResourceConstraint: "created_resources (updateTtlResourceConstraint x1 x2)"
| c_updateTotalExpenseLimitResourceConstraint: "created_resources (updateTotalExpenseLimitResourceConstraint x1 x2)"
| c_updateDailyExpenseLimitResourceConstraint: "created_resources (updateDailyExpenseLimitResourceConstraint x1 x2)"
| c_deleteResourceConstraint: "created_resources (deleteResourceConstraint x1)"
| c_deleteGlobalResourceConstraint: "created_resources (deleteGlobalResourceConstraint x1)"
| c_getResourceLimitHits: "created_resources (getResourceLimitHits x1)"
| c_getOptimizationDetails: "created_resources (getOptimizationDetails x1 x2)"
| c_getOptimizationsOverview: "created_resources (getOptimizationsOverview x1 x2)"
| c_getOptimizationOptions: "created_resources (getOptimizationOptions x1 x2)"
| c_updateOptimizationOptions: "created_resources (updateOptimizationOptions x1 x2 x3)"
| c_updateOptimizations: "created_resources (updateOptimizations x1 x2)"
| c_getLiveDemo: "created_resources (getLiveDemo)"
| c_createLiveDemo: "created_resources (createLiveDemo x1 x2)"
| c_getTtlAnalysis: "created_resources (getTtlAnalysis x1 x2)"
| c_applyAssignmentRules: "created_resources (applyAssignmentRules x1 x2)"
| c_updateResourceVisibility: "created_resources (updateResourceVisibility x1 x2)"
| c_getFinOpsChecklist: "created_resources (getFinOpsChecklist x1)"
| c_updateFinOpsChecklist: "created_resources (updateFinOpsChecklist x1 x2)"
| c_getRecommendationsDownloadLimit: "created_resources (getRecommendationsDownloadLimit x1)"
| c_getClusterTypes: "created_resources (getClusterTypes x1)"
| c_createClusterType: "created_resources (createClusterType x1 x2)"
| c_deleteClusterType: "created_resources (deleteClusterType x1)"
| c_updateClusterTypePriority: "created_resources (updateClusterTypePriority x1 x2)"
| c_applyClusterTypes: "created_resources (applyClusterTypes x1)"
| c_getEnvironments: "created_resources (getEnvironments x1)"
| c_createEnvironment: "created_resources (createEnvironment x1 x2)"
| c_deleteEnvironment: "created_resources (deleteEnvironment x1)"
| c_updateEnvironmentActivity: "created_resources (updateEnvironmentActivity x1 x2)"
| c_updateEnvironmentSshRequirement: "created_resources (updateEnvironmentSshRequirement x1 x2)"
| c_updateEnvironmentProperty: "created_resources (updateEnvironmentProperty x1 x2 x3)"
| c_getDataSourceNodes: "created_resources (getDataSourceNodes x1)"
| c_getResourceMetrics: "created_resources (getResourceMetrics x1 x2)"
| c_getResourceCostModel: "created_resources (getResourceCostModel x1)"
| c_updateResourceCostModel: "created_resources (updateResourceCostModel x1 x2)"
| c_getDataSourceSkus: "created_resources (getDataSourceSkus x1)"
| c_updateDataSourceSku: "created_resources (updateDataSourceSku x1 x2)"
| c_markResourcesAsEnvironments: "created_resources (markResourcesAsEnvironments x1 x2)"
| c_getEnvironmentBookings: "created_resources (getEnvironmentBookings x1)"
| c_updateBooking: "created_resources (updateBooking x1 x2)"
| c_deleteBooking: "created_resources (deleteBooking x1)"
| c_getWebhooks: "created_resources (getWebhooks x1 x2)"
| c_createWebhook: "created_resources (createWebhook x1 x2)"
| c_updateWebhook: "created_resources (updateWebhook x1 x2)"
| c_deleteWebhook: "created_resources (deleteWebhook x1)"
| c_getSshKeys: "created_resources (getSshKeys x1)"
| c_createSshKey: "created_resources (createSshKey x1 x2)"
| c_updateSshKey: "created_resources (updateSshKey x1 x2)"
| c_deleteSshKey: "created_resources (deleteSshKey x1)"
| c_updateResource: "created_resources (updateResource x1 x2)"
| c_bookEnvironment: "created_resources (bookEnvironment x1 x2)"
| c_getOrganizationCalendar: "created_resources (getOrganizationCalendar x1)"
| c_calendarSynchronization: "created_resources (calendarSynchronization x1 x2)"
| c_deleteCalendarSynchronization: "created_resources (deleteCalendarSynchronization x1)"
| c_getDailyExpensesBreakdown: "created_resources (getDailyExpensesBreakdown x1 x2)"
| c_getGlobalPoolPolicies: "created_resources (getGlobalPoolPolicies x1 x2)"
| c_getGlobalResourceConstraints: "created_resources (getGlobalResourceConstraints x1 x2)"
| c_getArchivedOptimizationsCount: "created_resources (getArchivedOptimizationsCount x1 x2)"

inductive created_ml :: "api_request \<Rightarrow> bool" where
  c_getArchivedOptimizationsBreakdown: "created_ml (getArchivedOptimizationsBreakdown x1 x2)"
| c_getArchivedOptimizationDetails: "created_ml (getArchivedOptimizationDetails x1 x2)"
| c_getMlTasks: "created_ml (getMlTasks x1)"
| c_getMlLeaderboardTemplate: "created_ml (getMlLeaderboardTemplate x1 x2)"
| c_createMlLeaderboardTemplate: "created_ml (createMlLeaderboardTemplate x1 x2 x3)"
| c_updateMlLeaderboardTemplate: "created_ml (updateMlLeaderboardTemplate x1 x2 x3)"
| c_getMlLeaderboards: "created_ml (getMlLeaderboards x1 x2)"
| c_getMlLeaderboard: "created_ml (getMlLeaderboard x1 x2)"
| c_createMlLeaderboard: "created_ml (createMlLeaderboard x1 x2 x3)"
| c_updateMlLeaderboard: "created_ml (updateMlLeaderboard x1 x2 x3)"
| c_deleteMlLeaderboard: "created_ml (deleteMlLeaderboard x1 x2)"
| c_getMlLeaderboardCandidates: "created_ml (getMlLeaderboardCandidates x1 x2)"
| c_getMlDatasets: "created_ml (getMlDatasets x1)"
| c_getMlDataset: "created_ml (getMlDataset x1 x2)"
| c_getMlDatasetLabels: "created_ml (getMlDatasetLabels x1)"
| c_createMlDataset: "created_ml (createMlDataset x1 x2)"
| c_updateMlDataset: "created_ml (updateMlDataset x1 x2 x3)"
| c_deleteMlDataset: "created_ml (deleteMlDataset x1 x2)"
| c_getMlTaskRecommendations: "created_ml (getMlTaskRecommendations x1 x2)"
| c_getMlTaskRecommendationDetails: "created_ml (getMlTaskRecommendationDetails x1 x2 x3)"
| c_getMlTask: "created_ml (getMlTask x1 x2)"
| c_getMlTaskRuns: "created_ml (getMlTaskRuns x1 x2)"
| c_getMlTaskTags: "created_ml (getMlTaskTags x1 x2)"
| c_getMlTaskRunsBulk: "created_ml (getMlTaskRunsBulk x1 x2 x3)"
| c_getMlRunDetails: "created_ml (getMlRunDetails x1 x2 x3)"
| c_getMlRunDetailsBreakdown: "created_ml (getMlRunDetailsBreakdown x1 x2 x3)"
| c_createMlTask: "created_ml (createMlTask x1 x2)"
| c_updateMlTask: "created_ml (updateMlTask x1 x2 x3)"
| c_deleteMlTask: "created_ml (deleteMlTask x1 x2)"
| c_getMlTaskModelVersions: "created_ml (getMlTaskModelVersions x1 x2)"
| c_getMlModels: "created_ml (getMlModels x1)"
| c_getMlModel: "created_ml (getMlModel x1 x2)"
| c_createMlModel: "created_ml (createMlModel x1 x2)"
| c_updateMlModel: "created_ml (updateMlModel x1 x2 x3)"
| c_deleteMlModel: "created_ml (deleteMlModel x1 x2)"
| c_updateMlModelVersion: "created_ml (updateMlModelVersion x1 x2 x3 x4)"
| c_getMlMetrics: "created_ml (getMlMetrics x1)"
| c_getMlMetric: "created_ml (getMlMetric x1 x2)"
| c_createMlMetric: "created_ml (createMlMetric x1 x2)"
| c_updateMlMetric: "created_ml (updateMlMetric x1 x2 x3)"
| c_deleteMlMetric: "created_ml (deleteMlMetric x1 x2)"
| c_getProfilingToken: "created_ml (getProfilingToken x1)"
| c_getMlExecutors: "created_ml (getMlExecutors x1 x2)"
| c_getMlExecutorsBreakdown: "created_ml (getMlExecutorsBreakdown x1)"
| c_getMlArtifacts: "created_ml (getMlArtifacts x1 x2)"
| c_getMlArtifact: "created_ml (getMlArtifact x1 x2)"
| c_updateMlArtifact: "created_ml (updateMlArtifact x1 x2 x3)"
| c_createMlArtifact: "created_ml (createMlArtifact x1 x2)"
| c_deleteMlArtifact: "created_ml (deleteMlArtifact x1 x2)"

inductive created_ops :: "api_request \<Rightarrow> bool" where
  c_getReservedInstancesBreakdown: "created_ops (getReservedInstancesBreakdown x1 x2)"
| c_getSavingPlansBreakdown: "created_ops (getSavingPlansBreakdown x1 x2)"
| c_getMlRunsetTemplates: "created_ops (getMlRunsetTemplates x1)"
| c_getMlRunsetTemplate: "created_ops (getMlRunsetTemplate x1 x2)"
| c_createMlRunsetTemplate: "created_ops (createMlRunsetTemplate x1 x2)"
| c_updateMlRunsetTemplate: "created_ops (updateMlRunsetTemplate x1 x2 x3)"
| c_deleteMlRunsetTemplate: "created_ops (deleteMlRunsetTemplate x1 x2)"
| c_getMlRunsets: "created_ops (getMlRunsets x1 x2)"
| c_getMlRunset: "created_ops (getMlRunset x1 x2)"
| c_createMlRunset: "created_ops (createMlRunset x1 x2 x3)"
| c_stopMlRunset: "created_ops (stopMlRunset x1 x2)"
| c_getMlRunsetsRuns: "created_ops (getMlRunsetsRuns x1 x2)"
| c_getMlRunsetExecutors: "created_ops (getMlRunsetExecutors x1 x2)"
| c_getOrganizationBIExports: "created_ops (getOrganizationBIExports x1)"
| c_createOrganizationBIExports: "created_ops (createOrganizationBIExports x1 x2)"
| c_getBIExport: "created_ops (getBIExport x1)"
| c_updateBIExport: "created_ops (updateBIExport x1 x2)"
| c_deleteBIExport: "created_ops (deleteBIExport x1)"
| c_getS3DuplicatesOrganizationSettings: "created_ops (getS3DuplicatesOrganizationSettings x1)"
| c_updateS3DuplicatesOrganizationSettings: "created_ops (updateS3DuplicatesOrganizationSettings x1 x2)"
| c_getOrganizationCloudResources: "created_ops (getOrganizationCloudResources x1 x2)"
| c_getOrganizationGeminis: "created_ops (getOrganizationGeminis x1)"
| c_getGemini: "created_ops (getGemini x1)"
| c_createOrganizationGemini: "created_ops (createOrganizationGemini x1 x2)"
| c_createSurvey: "created_ops (createSurvey x1 x2 x3)"
| c_getPowerSchedules: "created_ops (getPowerSchedules x1)"
| c_getPowerSchedule: "created_ops (getPowerSchedule x1)"
| c_createPowerSchedule: "created_ops (createPowerSchedule x1 x2)"
| c_deletePowerSchedule: "created_ops (deletePowerSchedule x1)"
| c_updatePowerSchedule: "created_ops (updatePowerSchedule x1 x2)"
| c_attachInstancesToSchedule: "created_ops (attachInstancesToSchedule x1 x2)"
| c_removeInstancesFromSchedule: "created_ops (removeInstancesFromSchedule x1 x2)"
| c_getLayouts: "created_ops (getLayouts x1 x2 x3 x4 x5)"
| c_getLayout: "created_ops (getLayout x1 x2 x3)"
| c_createLayout: "created_ops (createLayout x1 x2)"
| c_updateLayout: "created_ops (updateLayout x1 x2 x3)"
| c_deleteLayout: "created_ops (deleteLayout x1 x2)"
| c_restorePassword: "created_ops (restorePassword x1)"
| c_verifyEmail: "created_ops (verifyEmail x1)"

inductive created_auth :: "api_request \<Rightarrow> bool" where
  c_getToken: "created_auth (getToken x1 x2 x3)"
| c_signIn: "created_auth (signIn x1 x2)"
| c_createUser: "created_auth (createUser x1 x2 x3)"
| c_updateUser: "created_auth (updateUser x1 x2)"
| c_getUser: "created_auth (getUser x1)"
| c_getResourceAllowedActions: "created_auth (getResourceAllowedActions x1)"
| c_getPoolAllowedActions: "created_auth (getPoolAllowedActions x1)"
| c_resetPassword: "created_auth (resetPassword x1)"
| c_updateUserAssignment: "created_auth (updateUserAssignment x1)"
| c_getJiraOrganizationStatus: "created_auth (getJiraOrganizationStatus x1)"

definition created :: "api_request \<Rightarrow> bool" where
  "created r \<longleftrightarrow> created_org r \<or> created_resources r \<or> created_ml r \<or> created_ops r \<or> created_auth r"

lemma created_cases:
  assumes "\<And>r. created_org r \<Longrightarrow> P r" "\<And>r. created_resources r \<Longrightarrow> P r"
    "\<And>r. created_ml r \<Longrightarrow> P r" "\<And>r. created_ops r \<Longrightarrow> P r" "\<And>r. created_auth r \<Longrightarrow> P r"
  shows "created r \<Longrightarrow> P r"
  using assms by (auto simp: created_def)

section \<open>What all requests have in common\<close>

text \<open>A label, a method, no negative time to live; only a GET request is cached, supersedes the
  earlier ones of its label, and makes no other data stale.\<close>

definition well_formed :: "api_request \<Rightarrow> bool" where
  "well_formed r \<longleftrightarrow> rq_label r \<noteq> [] \<and> rq_method r \<in> {''GET'', ''POST'', ''PUT'', ''PATCH'', ''DELETE''}
     \<and> 0 \<le> rq_ttl r
     \<and> (0 < rq_ttl r \<longrightarrow> rq_method r = ''GET'' \<and> \<not> rq_allowMultipleRequests r \<and> rq_affectedRequests r = [])"

lemma org_well_formed: "created_org r \<Longrightarrow> well_formed r"
  by (induction rule: created_org.induct) (simp_all add: well_formed_def org_action_defs apiAction_def Let_def duration_defs)

lemma resources_well_formed: "created_resources r \<Longrightarrow> well_formed r"
  by (induction rule: created_resources.induct) (simp_all add: well_formed_def resource_action_defs apiAction_def Let_def duration_defs)

lemma ml_well_formed: "created_ml r \<Longrightarrow> well_formed r"
  by (induction rule: created_ml.induct) (simp_all add: well_formed_def ml_action_defs apiAction_def Let_def duration_defs)

lemma ops_well_formed: "created_ops r \<Longrightarrow> well_formed r"
  by (induction rule: created_ops.induct) (simp_all add: well_formed_def ops_action_defs apiAction_def Let_def duration_defs)

lemma auth_well_formed: "created_auth r \<Longrightarrow> well_formed r"
  by (induction rule: created_auth.induct) (simp_all add: well_formed_def auth_action_defs apiAction_def Let_def duration_defs)

text \<open>The action a success becomes has a case in one of the data reducers, but for two requests.\<close>

definition all_types :: "string list" where
  "all_types = handled_types @ auth_types @ jira_bus_types"

definition has_case :: "string \<Rightarrow> bool" where
  "has_case t \<longleftrightarrow> t \<in> set all_types"

lemma has_case_all: "list_all has_case all_types"
  by (simp add: list_all_iff has_case_def)

lemmas has_case_facts = has_case_all [unfolded all_types_def handled_types_def auth_types_def
  jira_bus_types_def append_Cons append_Nil list.pred_inject]

definition success_handled :: "api_request \<Rightarrow> bool" where
  "success_handled r \<longleftrightarrow>
     (\<forall>f d. rq_onSuccess r = Some f \<longrightarrow> has_case (act_type (f d (rq_label r))))
     \<or> rq_label r \<in> {''UPDATE_S3_DUPLICATES_ORGANIZATION_SETTINGS'', ''CREATE_USER''}"

lemma org_success_handled: "created_org r \<Longrightarrow> success_handled r"
  by (induction rule: created_org.induct) (simp_all add: success_handled_def org_action_defs apiAction_def Let_def has_case_facts handler_defs onSuccessSignIn_def)

lemma resources_success_handled: "created_resources r \<Longrightarrow> success_handled r"
  by (induction rule: created_resources.induct) (simp_all add: success_handled_def resource_action_defs apiAction_def Let_def has_case_facts handler_defs onSuccessSignIn_def)

lemma ml_success_handled: "created_ml r \<Longrightarrow> success_handled r"
  by (induction rule: created_ml.induct) (simp_all add: success_handled_def ml_action_defs apiAction_def Let_def has_case_facts handler_defs onSuccessSignIn_def)

lemma ops_success_handled: "created_ops r \<Longrightarrow> success_handled r"
  by (induction rule: created_ops.induct) (simp_all add: success_handled_def ops_action_defs apiAction_def Let_def has_case_facts handler_defs onSuccessSignIn_def)

lemma auth_success_handled: "created_auth r \<Longrightarrow> success_handled r"
  by (induction rule: created_auth.induct) (simp_all add: success_handled_def auth_action_defs apiAction_def Let_def has_case_facts handler_defs onSuccessSignIn_def)

text \<open>A GET request writes its own slot; a cached one carries the hash of its parameters.\<close>

definition is_key :: "jsval \<Rightarrow> bool" where
  "is_key h \<longleftrightarrow> (\<exists>p. h = hashParams p)"

lemma is_key_hash [simp]: "is_key (hashParams p)"
  by (auto simp: is_key_def)

definition reads_own_slot :: "api_request \<Rightarrow> bool" where
  "reads_own_slot r \<longleftrightarrow> rq_method r = ''GET'' \<longrightarrow>
     (\<forall>f d. rq_onSuccess r = Some f \<longrightarrow> act_label (f d (rq_label r)) = rq_label r)"

lemma org_reads_own_slot: "created_org r \<Longrightarrow> reads_own_slot r"
  by (induction rule: created_org.induct) (simp_all add: reads_own_slot_def org_action_defs apiAction_def Let_def handler_defs)

lemma resources_reads_own_slot: "created_resources r \<Longrightarrow> reads_own_slot r"
  by (induction rule: created_resources.induct) (simp_all add: reads_own_slot_def resource_action_defs apiAction_def Let_def handler_defs)

lemma ml_reads_own_slot: "created_ml r \<Longrightarrow> reads_own_slot r"
  by (induction rule: created_ml.induct) (simp_all add: reads_own_slot_def ml_action_defs apiAction_def Let_def handler_defs)

lemma ops_reads_own_slot: "created_ops r \<Longrightarrow> reads_own_slot r"
  by (induction rule: created_ops.induct) (simp_all add: reads_own_slot_def ops_action_defs apiAction_def Let_def handler_defs)

lemma auth_reads_own_slot: "created_auth r \<Longrightarrow> reads_own_slot r"
  by (induction rule: created_auth.induct) (simp_all add: reads_own_slot_def auth_action_defs apiAction_def Let_def handler_defs)

definition cached_by_key :: "api_request \<Rightarrow> bool" where
  "cached_by_key r \<longleftrightarrow> 0 < rq_ttl r \<longrightarrow> is_key (rq_hash r)
     \<or> rq_label r \<in> {''GET_USER'', ''GET_ML_TASK_MODEL_VERSIONS''}"

lemma org_cached_by_key: "created_org r \<Longrightarrow> cached_by_key r"
  by (induction rule: created_org.induct) (simp_all add: cached_by_key_def org_action_defs apiAction_def Let_def duration_defs)

lemma resources_cached_by_key: "created_resources r \<Longrightarrow> cached_by_key r"
  by (induction rule: created_resources.induct) (simp_all add: cached_by_key_def resource_action_defs apiAction_def Let_def duration_defs)

lemma ml_cached_by_key: "created_ml r \<Longrightarrow> cached_by_key r"
  by (induction rule: created_ml.induct) (simp_all add: cached_by_key_def ml_action_defs apiAction_def Let_def duration_defs)

lemma ops_cached_by_key: "created_ops r \<Longrightarrow> cached_by_key r"
  by (induction rule: created_ops.induct) (simp_all add: cached_by_key_def ops_action_defs apiAction_def Let_def duration_defs)

lemma auth_cached_by_key: "created_auth r \<Longrightarrow> cached_by_key r"
  by (induction rule: created_auth.induct) (simp_all add: cached_by_key_def auth_action_defs apiAction_def Let_def duration_defs)

text \<open>The labels a mutation makes stale, or writes to, are labels of GET requests.\<close>

definition is_get_label :: "string \<Rightarrow> bool" where
  "is_get_label l \<longleftrightarrow> (\<exists>r. created r \<and> rq_method r = ''GET'' \<and> rq_label r = l)"

lemma is_get_labelI: "created r \<Longrightarrow> rq_method r = ''GET'' \<Longrightarrow> rq_label r = l \<Longrightarrow> is_get_label l"
  by (auto simp: is_get_label_def)

lemma created_intros:
  "created_org r \<Longrightarrow> created r" "created_resources r \<Longrightarrow> created r" "created_ml r \<Longrightarrow> created r"
  "created_ops r \<Longrightarrow> created r" "created_auth r \<Longrightarrow> created r"
  by (simp_all add: created_def)

lemma is_get_GET_ASSIGNMENT_RULES: "is_get_label ''GET_ASSIGNMENT_RULES''"
  by (rule is_get_labelI [OF created_intros(1) [OF c_getAssignmentRules]]) (simp_all add: getAssignmentRules_def apiAction_def Let_def)

lemma is_get_GET_AUTHORIZED_EMPLOYEES: "is_get_label ''GET_AUTHORIZED_EMPLOYEES''"
  by (rule is_get_labelI [OF created_intros(1) [OF c_getAuthorizedEmployees]]) (simp_all add: getAuthorizedEmployees_def apiAction_def Let_def)

lemma is_get_GET_AVAILABLE_FILTERS: "is_get_label ''GET_AVAILABLE_FILTERS''"
  by (rule is_get_labelI [OF created_intros(1) [OF c_getAvailableFilters]]) (simp_all add: getAvailableFilters_def apiAction_def Let_def)

lemma is_get_GET_AVAILABLE_POOLS: "is_get_label ''GET_AVAILABLE_POOLS''"
  by (rule is_get_labelI [OF created_intros(1) [OF c_getAvailablePools]]) (simp_all add: getAvailablePools_def apiAction_def Let_def)

lemma is_get_GET_BI_EXPORT: "is_get_label ''GET_BI_EXPORT''"
  by (rule is_get_labelI [OF created_intros(4) [OF c_getBIExport]]) (simp_all add: getBIExport_def apiAction_def Let_def)

lemma is_get_GET_CLEAN_EXPENSES: "is_get_label ''GET_CLEAN_EXPENSES''"
  by (rule is_get_labelI [OF created_intros(1) [OF c_getCleanExpenses]]) (simp_all add: getCleanExpenses_def apiAction_def Let_def)

lemma is_get_GET_CLUSTER_TYPES: "is_get_label ''GET_CLUSTER_TYPES''"
  by (rule is_get_labelI [OF created_intros(2) [OF c_getClusterTypes]]) (simp_all add: getClusterTypes_def apiAction_def Let_def)

lemma is_get_GET_DATASOURCE_SKUS: "is_get_label ''GET_DATASOURCE_SKUS''"
  by (rule is_get_labelI [OF created_intros(2) [OF c_getDataSourceSkus]]) (simp_all add: getDataSourceSkus_def apiAction_def Let_def)

lemma is_get_GET_DATA_SOURCE_NODES: "is_get_label ''GET_DATA_SOURCE_NODES''"
  by (rule is_get_labelI [OF created_intros(2) [OF c_getDataSourceNodes]]) (simp_all add: getDataSourceNodes_def apiAction_def Let_def)

lemma is_get_GET_EMPLOYEES: "is_get_label ''GET_EMPLOYEES''"
  by (rule is_get_labelI [OF created_intros(1) [OF c_getEmployees]]) (simp_all add: getEmployees_def apiAction_def Let_def)

lemma is_get_GET_ENVIRONMENTS: "is_get_label ''GET_ENVIRONMENTS''"
  by (rule is_get_labelI [OF created_intros(2) [OF c_getEnvironments]]) (simp_all add: getEnvironments_def apiAction_def Let_def)

lemma is_get_GET_ENVIRONMENT_BOOKINGS: "is_get_label ''GET_ENVIRONMENT_BOOKINGS''"
  by (rule is_get_labelI [OF created_intros(2) [OF c_getEnvironmentBookings]]) (simp_all add: getEnvironmentBookings_def apiAction_def Let_def)

lemma is_get_GET_EXPENSES_DAILY_BREAKDOWN: "is_get_label ''GET_EXPENSES_DAILY_BREAKDOWN''"
  by (rule is_get_labelI [OF created_intros(2) [OF c_getDailyExpensesBreakdown]]) (simp_all add: getDailyExpensesBreakdown_def apiAction_def Let_def)

lemma is_get_GET_EXPENSES_SUMMARY: "is_get_label ''GET_EXPENSES_SUMMARY''"
  by (rule is_get_labelI [OF created_intros(1) [OF c_getExpensesSummary]]) (simp_all add: getExpensesSummary_def apiAction_def Let_def)

lemma is_get_GET_FINOPS_CHECKLIST: "is_get_label ''GET_FINOPS_CHECKLIST''"
  by (rule is_get_labelI [OF created_intros(2) [OF c_getFinOpsChecklist]]) (simp_all add: getFinOpsChecklist_def apiAction_def Let_def)

lemma is_get_GET_GLOBAL_POOL_POLICIES: "is_get_label ''GET_GLOBAL_POOL_POLICIES''"
  by (rule is_get_labelI [OF created_intros(2) [OF c_getGlobalPoolPolicies]]) (simp_all add: getGlobalPoolPolicies_def apiAction_def Let_def)

lemma is_get_GET_GLOBAL_RESOURCE_CONSTRAINTS: "is_get_label ''GET_GLOBAL_RESOURCE_CONSTRAINTS''"
  by (rule is_get_labelI [OF created_intros(2) [OF c_getGlobalResourceConstraints]]) (simp_all add: getGlobalResourceConstraints_def apiAction_def Let_def)

lemma is_get_GET_INVITATION: "is_get_label ''GET_INVITATION''"
  by (rule is_get_labelI [OF created_intros(1) [OF c_getInvitation]]) (simp_all add: getInvitation_def apiAction_def Let_def)

lemma is_get_GET_LAYOUT: "is_get_label ''GET_LAYOUT''"
  by (rule is_get_labelI [OF created_intros(4) [OF c_getLayout]]) (simp_all add: getLayout_def apiAction_def Let_def)

lemma is_get_GET_LAYOUTS: "is_get_label ''GET_LAYOUTS''"
  by (rule is_get_labelI [OF created_intros(4) [OF c_getLayouts]]) (simp_all add: getLayouts_def apiAction_def Let_def)

lemma is_get_GET_LIVE_DEMO: "is_get_label ''GET_LIVE_DEMO''"
  by (rule is_get_labelI [OF created_intros(2) [OF c_getLiveDemo]]) (simp_all add: getLiveDemo_def apiAction_def Let_def)

lemma is_get_GET_ML_ARTIFACT: "is_get_label ''GET_ML_ARTIFACT''"
  by (rule is_get_labelI [OF created_intros(3) [OF c_getMlArtifact]]) (simp_all add: getMlArtifact_def apiAction_def Let_def)

lemma is_get_GET_ML_ARTIFACTS: "is_get_label ''GET_ML_ARTIFACTS''"
  by (rule is_get_labelI [OF created_intros(3) [OF c_getMlArtifacts]]) (simp_all add: getMlArtifacts_def apiAction_def Let_def)

lemma is_get_GET_ML_DATASET: "is_get_label ''GET_ML_DATASET''"
  by (rule is_get_labelI [OF created_intros(3) [OF c_getMlDataset]]) (simp_all add: getMlDataset_def apiAction_def Let_def)

lemma is_get_GET_ML_DATASETS: "is_get_label ''GET_ML_DATASETS''"
  by (rule is_get_labelI [OF created_intros(3) [OF c_getMlDatasets]]) (simp_all add: getMlDatasets_def apiAction_def Let_def)

lemma is_get_GET_ML_LEADERBOARD: "is_get_label ''GET_ML_LEADERBOARD''"
  by (rule is_get_labelI [OF created_intros(3) [OF c_getMlLeaderboard]]) (simp_all add: getMlLeaderboard_def apiAction_def Let_def)

lemma is_get_GET_ML_LEADERBOARD_CANDIDATES: "is_get_label ''GET_ML_LEADERBOARD_CANDIDATES''"
  by (rule is_get_labelI [OF created_intros(3) [OF c_getMlLeaderboardCandidates]]) (simp_all add: getMlLeaderboardCandidates_def apiAction_def Let_def)

lemma is_get_GET_ML_LEADERBOARD_TEMPLATE: "is_get_label ''GET_ML_LEADERBOARD_TEMPLATE''"
  by (rule is_get_labelI [OF created_intros(3) [OF c_getMlLeaderboardTemplate]]) (simp_all add: getMlLeaderboardTemplate_def apiAction_def Let_def)

lemma is_get_GET_ML_METRICS: "is_get_label ''GET_ML_METRICS''"
  by (rule is_get_labelI [OF created_intros(3) [OF c_getMlMetrics]]) (simp_all add: getMlMetrics_def apiAction_def Let_def)

lemma is_get_GET_ML_MODEL: "is_get_label ''GET_ML_MODEL''"
  by (rule is_get_labelI [OF created_intros(3) [OF c_getMlModel]]) (simp_all add: getMlModel_def apiAction_def Let_def)

lemma is_get_GET_ML_MODELS: "is_get_label ''GET_ML_MODELS''"
  by (rule is_get_labelI [OF created_intros(3) [OF c_getMlModels]]) (simp_all add: getMlModels_def apiAction_def Let_def)

lemma is_get_GET_ML_OPTIMIZATION_DETAILS: "is_get_label ''GET_ML_OPTIMIZATION_DETAILS''"
  by (rule is_get_labelI [OF created_intros(3) [OF c_getMlTaskRecommendationDetails]]) (simp_all add: getMlTaskRecommendationDetails_def apiAction_def Let_def)

lemma is_get_GET_ML_RUNSET: "is_get_label ''GET_ML_RUNSET''"
  by (rule is_get_labelI [OF created_intros(4) [OF c_getMlRunset]]) (simp_all add: getMlRunset_def apiAction_def Let_def)

lemma is_get_GET_ML_RUNSETS: "is_get_label ''GET_ML_RUNSETS''"
  by (rule is_get_labelI [OF created_intros(4) [OF c_getMlRunsets]]) (simp_all add: getMlRunsets_def apiAction_def Let_def)

lemma is_get_GET_ML_RUNSET_TEMPLATE: "is_get_label ''GET_ML_RUNSET_TEMPLATE''"
  by (rule is_get_labelI [OF created_intros(4) [OF c_getMlRunsetTemplate]]) (simp_all add: getMlRunsetTemplate_def apiAction_def Let_def)

lemma is_get_GET_ML_RUNSET_TEMPLATES: "is_get_label ''GET_ML_RUNSET_TEMPLATES''"
  by (rule is_get_labelI [OF created_intros(4) [OF c_getMlRunsetTemplates]]) (simp_all add: getMlRunsetTemplates_def apiAction_def Let_def)

lemma is_get_GET_ML_TASK: "is_get_label ''GET_ML_TASK''"
  by (rule is_get_labelI [OF created_intros(3) [OF c_getMlTask]]) (simp_all add: getMlTask_def apiAction_def Let_def)

lemma is_get_GET_ML_TASKS: "is_get_label ''GET_ML_TASKS''"
  by (rule is_get_labelI [OF created_intros(3) [OF c_getMlTasks]]) (simp_all add: getMlTasks_def apiAction_def Let_def)

lemma is_get_GET_ML_TASK_RECOMMENDATIONS: "is_get_label ''GET_ML_TASK_RECOMMENDATIONS''"
  by (rule is_get_labelI [OF created_intros(3) [OF c_getMlTaskRecommendations]]) (simp_all add: getMlTaskRecommendations_def apiAction_def Let_def)

lemma is_get_GET_OPTIMIZATIONS_OVERVIEW: "is_get_label ''GET_OPTIMIZATIONS_OVERVIEW''"
  by (rule is_get_labelI [OF created_intros(2) [OF c_getOptimizationsOverview]]) (simp_all add: getOptimizationsOverview_def apiAction_def Let_def)

lemma is_get_GET_OPTIMIZATION_DETAILS: "is_get_label ''GET_OPTIMIZATION_DETAILS''"
  by (rule is_get_labelI [OF created_intros(2) [OF c_getOptimizationDetails]]) (simp_all add: getOptimizationDetails_def apiAction_def Let_def)

lemma is_get_GET_ORGANIZATIONS_OVERVIEW: "is_get_label ''GET_ORGANIZATIONS_OVERVIEW''"
  by (rule is_get_labelI [OF created_intros(1) [OF c_getOrganizationsOverview]]) (simp_all add: getOrganizationsOverview_def apiAction_def Let_def)

lemma is_get_GET_ORGANIZATION_BI_EXPORT: "is_get_label ''GET_ORGANIZATION_BI_EXPORT''"
  by (rule is_get_labelI [OF created_intros(4) [OF c_getOrganizationBIExports]]) (simp_all add: getOrganizationBIExports_def apiAction_def Let_def)

lemma is_get_GET_ORGANIZATION_CALENDAR: "is_get_label ''GET_ORGANIZATION_CALENDAR''"
  by (rule is_get_labelI [OF created_intros(2) [OF c_getOrganizationCalendar]]) (simp_all add: getOrganizationCalendar_def apiAction_def Let_def)

lemma is_get_GET_ORGANIZATION_CONSTRAINT: "is_get_label ''GET_ORGANIZATION_CONSTRAINT''"
  by (rule is_get_labelI [OF created_intros(1) [OF c_getOrganizationConstraint]]) (simp_all add: getOrganizationConstraint_def apiAction_def Let_def)

lemma is_get_GET_ORGANIZATION_CONSTRAINTS: "is_get_label ''GET_ORGANIZATION_CONSTRAINTS''"
  by (rule is_get_labelI [OF created_intros(1) [OF c_getOrganizationConstraints]]) (simp_all add: getOrganizationConstraints_def apiAction_def Let_def)

lemma is_get_GET_ORGANIZATION_EXPENSES: "is_get_label ''GET_ORGANIZATION_EXPENSES''"
  by (rule is_get_labelI [OF created_intros(1) [OF c_getOrganizationExpenses]]) (simp_all add: getOrganizationExpenses_def apiAction_def Let_def)

lemma is_get_GET_ORGANIZATION_GEMINIS: "is_get_label ''GET_ORGANIZATION_GEMINIS''"
  by (rule is_get_labelI [OF created_intros(4) [OF c_getOrganizationGeminis]]) (simp_all add: getOrganizationGeminis_def apiAction_def Let_def)

lemma is_get_GET_ORGANIZATION_OPTION: "is_get_label ''GET_ORGANIZATION_OPTION''"
  by (rule is_get_labelI [OF created_intros(1) [OF c_getOrganizationOption]]) (simp_all add: getOrganizationOption_def apiAction_def Let_def)

lemma is_get_GET_ORGANIZATION_OPTIONS: "is_get_label ''GET_ORGANIZATION_OPTIONS''"
  by (rule is_get_labelI [OF created_intros(1) [OF c_getOrganizationOptions]]) (simp_all add: getOrganizationOptions_def apiAction_def Let_def)

lemma is_get_GET_POOL: "is_get_label ''GET_POOL''"
  by (rule is_get_labelI [OF created_intros(1) [OF c_getPool]]) (simp_all add: getPool_def apiAction_def Let_def)

lemma is_get_GET_POOLS_EXPENSES: "is_get_label ''GET_POOLS_EXPENSES''"
  by (rule is_get_labelI [OF created_intros(1) [OF c_getPoolExpenses]]) (simp_all add: getPoolExpenses_def apiAction_def Let_def)

lemma is_get_GET_POOL_POLICIES: "is_get_label ''GET_POOL_POLICIES''"
  by (rule is_get_labelI [OF created_intros(1) [OF c_getPoolPolicies]]) (simp_all add: getPoolPolicies_def apiAction_def Let_def)

lemma is_get_GET_POWER_SCHEDULE: "is_get_label ''GET_POWER_SCHEDULE''"
  by (rule is_get_labelI [OF created_intros(4) [OF c_getPowerSchedule]]) (simp_all add: getPowerSchedule_def apiAction_def Let_def)

lemma is_get_GET_POWER_SCHEDULES: "is_get_label ''GET_POWER_SCHEDULES''"
  by (rule is_get_labelI [OF created_intros(4) [OF c_getPowerSchedules]]) (simp_all add: getPowerSchedules_def apiAction_def Let_def)

lemma is_get_GET_RESOURCE: "is_get_label ''GET_RESOURCE''"
  by (rule is_get_labelI [OF created_intros(1) [OF c_getResource]]) (simp_all add: getResource_def apiAction_def Let_def)

lemma is_get_GET_RESOURCE_COST_MODEL: "is_get_label ''GET_RESOURCE_COST_MODEL''"
  by (rule is_get_labelI [OF created_intros(2) [OF c_getResourceCostModel]]) (simp_all add: getResourceCostModel_def apiAction_def Let_def)

lemma is_get_GET_RESOURCE_COUNT_BREAKDOWN: "is_get_label ''GET_RESOURCE_COUNT_BREAKDOWN''"
  by (rule is_get_labelI [OF created_intros(1) [OF c_getResourceCountBreakdown]]) (simp_all add: getResourceCountBreakdown_def apiAction_def Let_def)

lemma is_get_GET_S3_DUPLICATES_ORGANIZATION_SETTINGS: "is_get_label ''GET_S3_DUPLICATES_ORGANIZATION_SETTINGS''"
  by (rule is_get_labelI [OF created_intros(4) [OF c_getS3DuplicatesOrganizationSettings]]) (simp_all add: getS3DuplicatesOrganizationSettings_def apiAction_def Let_def)

lemma is_get_GET_SSH_KEYS: "is_get_label ''GET_SSH_KEYS''"
  by (rule is_get_labelI [OF created_intros(2) [OF c_getSshKeys]]) (simp_all add: getSshKeys_def apiAction_def Let_def)

lemma is_get_GET_WEBHOOKS: "is_get_label ''GET_WEBHOOKS''"
  by (rule is_get_labelI [OF created_intros(2) [OF c_getWebhooks]]) (simp_all add: getWebhooks_def apiAction_def Let_def)

lemmas is_get_facts =
  is_get_GET_ASSIGNMENT_RULES is_get_GET_AUTHORIZED_EMPLOYEES is_get_GET_AVAILABLE_FILTERS
  is_get_GET_AVAILABLE_POOLS is_get_GET_BI_EXPORT is_get_GET_CLEAN_EXPENSES
  is_get_GET_CLUSTER_TYPES is_get_GET_DATASOURCE_SKUS is_get_GET_DATA_SOURCE_NODES
  is_get_GET_EMPLOYEES is_get_GET_ENVIRONMENTS is_get_GET_ENVIRONMENT_BOOKINGS
  is_get_GET_EXPENSES_DAILY_BREAKDOWN is_get_GET_EXPENSES_SUMMARY is_get_GET_FINOPS_CHECKLIST
  is_get_GET_GLOBAL_POOL_POLICIES is_get_GET_GLOBAL_RESOURCE_CONSTRAINTS is_get_GET_INVITATION
  is_get_GET_LAYOUT is_get_GET_LAYOUTS is_get_GET_LIVE_DEMO
  is_get_GET_ML_ARTIFACT is_get_GET_ML_ARTIFACTS is_get_GET_ML_DATASET
  is_get_GET_ML_DATASETS is_get_GET_ML_LEADERBOARD is_get_GET_ML_LEADERBOARD_CANDIDATES
  is_get_GET_ML_LEADERBOARD_TEMPLATE is_get_GET_ML_METRICS is_get_GET_ML_MODEL
  is_get_GET_ML_MODELS is_get_GET_ML_OPTIMIZATION_DETAILS is_get_GET_ML_RUNSET
  is_get_GET_ML_RUNSETS is_get_GET_ML_RUNSET_TEMPLATE is_get_GET_ML_RUNSET_TEMPLATES
  is_get_GET_ML_TASK is_get_GET_ML_TASKS is_get_GET_ML_TASK_RECOMMENDATIONS
  is_get_GET_OPTIMIZATIONS_OVERVIEW is_get_GET_OPTIMIZATION_DETAILS is_get_GET_ORGANIZATIONS_OVERVIEW
  is_get_GET_ORGANIZATION_BI_EXPORT is_get_GET_ORGANIZATION_CALENDAR is_get_GET_ORGANIZATION_CONSTRAINT
  is_get_GET_ORGANIZATION_CONSTRAINTS is_get_GET_ORGANIZATION_EXPENSES is_get_GET_ORGANIZATION_GEMINIS
  is_get_GET_ORGANIZATION_OPTION is_get_GET_ORGANIZATION_OPTIONS is_get_GET_POOL
  is_get_GET_POOLS_EXPENSES is_get_GET_POOL_POLICIES is_get_GET_POWER_SCHEDULE
  is_get_GET_POWER_SCHEDULES is_get_GET_RESOURCE is_get_GET_RESOURCE_COST_MODEL
  is_get_GET_RESOURCE_COUNT_BREAKDOWN is_get_GET_S3_DUPLICATES_ORGANIZATION_SETTINGS is_get_GET_SSH_KEYS
  is_get_GET_WEBHOOKS

definition affects_getters :: "api_request \<Rightarrow> bool" where
  "affects_getters r \<longleftrightarrow> list_all (\<lambda>l. is_get_label l \<or> l = ''GET_OPTIMIZATIONS'') (rq_affectedRequests r)"

lemma org_affects_getters: "created_org r \<Longrightarrow> affects_getters r"
  by (induction rule: created_org.induct) (simp_all add: affects_getters_def org_action_defs apiAction_def Let_def is_get_facts)

lemma resources_affects_getters: "created_resources r \<Longrightarrow> affects_getters r"
  by (induction rule: created_resources.induct) (simp_all add: affects_getters_def resource_action_defs apiAction_def Let_def is_get_facts)

lemma ml_affects_getters: "created_ml r \<Longrightarrow> affects_getters r"
  by (induction rule: created_ml.induct) (simp_all add: affects_getters_def ml_action_defs apiAction_def Let_def is_get_facts)

lemma ops_affects_getters: "created_ops r \<Longrightarrow> affects_getters r"
  by (induction rule: created_ops.induct) (simp_all add: affects_getters_def ops_action_defs apiAction_def Let_def is_get_facts)

lemma auth_affects_getters: "created_auth r \<Longrightarrow> affects_getters r"
  by (induction rule: created_auth.induct) (simp_all add: affects_getters_def auth_action_defs apiAction_def Let_def is_get_facts)

definition writes_getters :: "api_request \<Rightarrow> bool" where
  "writes_getters r \<longleftrightarrow> (\<forall>f d. rq_onSuccess r = Some f \<longrightarrow>
     (let l = act_label (f d (rq_label r)) in l = rq_label r \<or> is_get_label l \<or>
        l \<in> {''GET_TOKEN'', ''GET_OPTIMIZATIONS'', ''CREATE_ML_LEADERBOARD'', ''UPDATE_POOL_EXPENSES_EXPORT''}))"

lemma org_writes_getters: "created_org r \<Longrightarrow> writes_getters r"
  by (induction rule: created_org.induct) (simp_all add: writes_getters_def org_action_defs apiAction_def Let_def is_get_facts handler_defs onSuccessSignIn_def)

lemma resources_writes_getters: "created_resources r \<Longrightarrow> writes_getters r"
  by (induction rule: created_resources.induct) (simp_all add: writes_getters_def resource_action_defs apiAction_def Let_def is_get_facts handler_defs onSuccessSignIn_def)

lemma ml_writes_getters: "created_ml r \<Longrightarrow> writes_getters r"
  by (induction rule: created_ml.induct) (simp_all add: writes_getters_def ml_action_defs apiAction_def Let_def is_get_facts handler_defs onSuccessSignIn_def)

lemma ops_writes_getters: "created_ops r \<Longrightarrow> writes_getters r"
  by (induction rule: created_ops.induct) (simp_all add: writes_getters_def ops_action_defs apiAction_def Let_def is_get_facts handler_defs onSuccessSignIn_def)

lemma auth_writes_getters: "created_auth r \<Longrightarrow> writes_getters r"
  by (induction rule: created_auth.induct) (simp_all add: writes_getters_def auth_action_defs apiAction_def Let_def is_get_facts handler_defs onSuccessSignIn_def)

section \<open>Every created request\<close>

lemma created_all:
  assumes "created r"
  shows "well_formed r" "success_handled r" "reads_own_slot r" "cached_by_key r" "affects_getters r"
    "writes_getters r"
  using assms
  by (auto simp: created_def
      dest: org_well_formed resources_well_formed ml_well_formed ops_well_formed auth_well_formed
        org_success_handled resources_success_handled ml_success_handled ops_success_handled auth_success_handled
        org_reads_own_slot resources_reads_own_slot ml_reads_own_slot ops_reads_own_slot auth_reads_own_slot
        org_cached_by_key resources_cached_by_key ml_cached_by_key ops_cached_by_key auth_cached_by_key
        org_affects_getters resources_affects_getters ml_affects_getters ops_affects_getters auth_affects_getters
        org_writes_getters resources_writes_getters ml_writes_getters ops_writes_getters auth_writes_getters)

end
