(* ===== verification/ServiceFilters.thy ===== *)
theory ServiceFilters
  imports Catalogue
begin

text \<open>
  The filters of the expenses pages as parameters of the API (\<open>services/AvailableFiltersService.ts\<close>,
  \<open>services/CleanExpensesService.ts\<close>): the names of the search parameters, and the values of the
  filter objects.
\<close>

definition mapAvailableFilterKeys :: "obj \<Rightarrow> obj" where
  "mapAvailableFilterKeys params =
    [(''cloud_account_id'', obj_get params ''cloudAccountId''),
     (''pool_id'', obj_get params ''poolId''),
     (''owner_id'', obj_get params ''ownerId''),
     (''region'', obj_get params ''region''),
     (''service_name'', obj_get params ''serviceName''),
     (''resource_type'', obj_get params ''resourceType''),
     (''active'', obj_get params ''active''),
     (''recommendations'', obj_get params ''recommendations''),
     (''constraint_violated'', obj_get params ''constraintViolated''),
     (''first_seen_gte'', obj_get params ''firstSeenFrom''),
     (''first_seen_lte'', obj_get params ''firstSeenTo''),
     (''last_seen_gte'', obj_get params ''lastSeenFrom''),
     (''last_seen_lte'', obj_get params ''lastSeenTo''),
     (''tag'', obj_get params ''tag''),
     (''without_tag'', obj_get params ''withoutTag''),
     (''meta'', obj_get params ''meta''),
     (''traffic_from'', obj_get params ''networkTrafficFrom''),
     (''traffic_to'', obj_get params ''networkTrafficTo''),
     (''k8s_node'', obj_get params ''k8sNode''),
     (''k8s_service'', obj_get params ''k8sService''),
     (''k8s_namespace'', obj_get params ''k8sNamespace'')]"

definition mapCleanExpensesFilterParamsToApiParams :: "obj \<Rightarrow> obj" where
  "mapCleanExpensesFilterParamsToApiParams params =
     obj_spread [(''start_date'', obj_get params ''startDate''), (''end_date'', obj_get params ''endDate'')]
       (mapAvailableFilterKeys params)"

definition mapCleanExpensesRequestParamsToApiParams :: "obj \<Rightarrow> obj" where
  "mapCleanExpensesRequestParamsToApiParams params =
     obj_spread (mapCleanExpensesFilterParamsToApiParams params)
       [(''limit'', obj_get params ''limit''), (''format'', obj_get params ''format'')]"

definition resources_count_params :: "jsval \<Rightarrow> obj \<Rightarrow> obj" where
  "resources_count_params breakdownBy filterParams =
     obj_spread (mapCleanExpensesFilterParamsToApiParams filterParams) [(''breakdown_by'', breakdownBy)]"

definition tags_breakdown_params :: "obj \<Rightarrow> obj" where
  "tags_breakdown_params filterParams = obj_spread [] (mapCleanExpensesFilterParamsToApiParams filterParams)"

text \<open>
  \<open>getObjectValue\<close>: the getter is the name of a property, or the two properties of the template
  \<open>`${obj.a}:${obj.b}`\<close>.  The nil UUID is a constant of a third-party package, the argument
  \<open>EMPTY_UUID\<close>.
\<close>

datatype getter = Key string | Template string string

definition getObjectValue :: "jsval \<Rightarrow> getter \<Rightarrow> jsval \<Rightarrow> jsval js" where
  "getObjectValue EMPTY_UUID getter x =
     (if x = Null then Inr EMPTY_UUID
      else case getter of
          Template a b \<Rightarrow> bind_js (get_prop x a) (\<lambda>u. map_js (\<lambda>v. Str (to_str u @ '':'' @ to_str v)) (get_prop x b))
        | Key k \<Rightarrow> get_prop x k)"

text \<open>\<open>v?.map(getObjectValue(getter))\<close>.\<close>

definition map_filter_values :: "jsval \<Rightarrow> getter \<Rightarrow> jsval \<Rightarrow> jsval js" where
  "map_filter_values EMPTY_UUID getter v =
     (if nullish v then Inr Undef
      else bind_js (as_array v) (\<lambda>xs. map_js Arr (mapM_js (getObjectValue EMPTY_UUID getter) xs)))"

definition mapFiltersToApiParams :: "jsval \<Rightarrow> obj \<Rightarrow> obj js" where
  "mapFiltersToApiParams EMPTY_UUID filters =
     mapM_js (\<lambda>(k, f, g). map_js (Pair k) (case g of
          None \<Rightarrow> Inr (obj_get filters f)
        | Some getter \<Rightarrow> map_filter_values EMPTY_UUID getter (obj_get filters f)))
      [(''cloud_account_id'', ''cloud_account'', Some (Key ''id'')),
       (''pool_id'', ''pool'', Some (Key ''id'')),
       (''owner_id'', ''owner'', Some (Key ''id'')),
       (''region'', ''region'', Some (Key ''name'')),
       (''service_name'', ''service_name'', Some (Key ''name'')),
       (''resource_type'', ''resource_type'', Some (Template ''name'' ''type'')),
       (''active'', ''active'', None),
       (''recommendations'', ''recommendations'', None),
       (''constraint_violated'', ''constraint_violated'', None),
       (''first_seen_gte'', ''firstSeenFrom'', None),
       (''first_seen_lte'', ''firstSeenTo'', None),
       (''last_seen_gte'', ''lastSeenFrom'', None),
       (''last_seen_lte'', ''lastSeenTo'', None),
       (''tag'', ''tag'', None),
       (''without_tag'', ''without_tag'', None),
       (''meta'', ''meta'', None),
       (''traffic_from'', ''traffic_from'', Some (Template ''name'' ''cloud_type'')),
       (''traffic_to'', ''traffic_to'', Some (Template ''name'' ''cloud_type'')),
       (''k8s_node'', ''k8s_node'', Some (Key ''name'')),
       (''k8s_service'', ''k8s_service'', Some (Key ''name'')),
       (''k8s_namespace'', ''k8s_namespace'', Some (Key ''name''))]"

text \<open>Both maps send the same parameters.\<close>

lemma mapM_js_keys:
  "mapM_js (\<lambda>(k, f, g). map_js (Pair k) (h f g)) xs = Inr ys \<Longrightarrow> map fst ys = map fst xs"
  by (induction xs arbitrary: ys) (auto simp: bind_js_Inr_iff map_js_Inr_iff)

lemma filter_params_agree:
  "mapFiltersToApiParams EMPTY_UUID filters = Inr ps \<Longrightarrow>
    map fst ps = map fst (mapAvailableFilterKeys params)"
  unfolding mapFiltersToApiParams_def by (drule mapM_js_keys) (simp add: mapAvailableFilterKeys_def)

end
