(* ===== verification/ServiceHooks.thy ===== *)
theory ServiceHooks
  imports Deliveries ServiceFilters
begin

text \<open>
  What the functions of \<open>services/*.ts\<close> have in common.  A hook that reads pairs \<open>useApiState\<close> and
  \<open>useApiData\<close> with the request its effect dispatches when \<open>shouldInvoke\<close> holds.  A hook that
  changes something returns a function that dispatches a request and settles a promise by the
  status of a label once the request has ended.
\<close>

section \<open>Promises\<close>

datatype promise = Resolved jsval | Rejected

definition then_promise :: "promise \<Rightarrow> promise \<Rightarrow> promise" where
  "then_promise p q = (case p of Resolved _ \<Rightarrow> q | Rejected \<Rightarrow> Rejected)"

definition catch_promise :: "promise \<Rightarrow> promise \<Rightarrow> promise" where
  "catch_promise p q = (case p of Resolved v \<Rightarrow> Resolved v | Rejected \<Rightarrow> q)"

definition checkError :: "string \<Rightarrow> store \<Rightarrow> promise" where
  "checkError label st = (if is_error label st = Some True then Rejected else Resolved Undef)"

text \<open>\<open>dispatch(thunk).catch(() => {})\<close>: the rejection of the thunk is handled here.\<close>

definition rejectOnError :: "string \<Rightarrow> store \<Rightarrow> promise" where
  "rejectOnError label st =
     catch_promise (if is_error label st = Some True then Rejected else Resolved Undef) (Resolved Undef)"

section \<open>Hooks\<close>

text \<open>
  \<open>rd_fields\<close> lists the properties a hook destructures from the data, with their defaults, and is
  empty when it takes the data whole.  \<open>rd_enabled\<close> is a further condition of the effect, and
  \<open>rd_mock\<close> the values shown in a page mock-up.
\<close>

record read_hook =
  rd_label :: string
  rd_params :: jsval
  rd_request :: api_request
  rd_default :: jsval
  rd_fields :: "(string \<times> jsval) list"
  rd_enabled :: bool
  rd_mock :: "jsval list option"

definition rd_state :: "int \<Rightarrow> store \<Rightarrow> read_hook \<Rightarrow> api_hook" where
  "rd_state now st h = useApiState now st (rd_label h) (rd_params h)"

definition rd_data :: "store \<Rightarrow> read_hook \<Rightarrow> jsval list js" where
  "rd_data st h = (case rd_mock h of Some vs \<Rightarrow> Inr vs | None \<Rightarrow>
     (let apiData = useApiData st (rd_label h) (rd_default h) in
      if rd_fields h = [] then Inr [apiData]
      else mapM_js (\<lambda>(k, d). get_default apiData k d) (rd_fields h)))"

definition rd_effect :: "int \<Rightarrow> store \<Rightarrow> read_hook \<Rightarrow> api_request option" where
  "rd_effect now st h =
     (if rd_enabled h \<and> hk_shouldInvoke (rd_state now st h) then Some (rd_request h) else None)"

record command =
  cm_request :: api_request
  cm_settle :: "store \<Rightarrow> promise"

section \<open>Coherence\<close>

text \<open>A hook fetches under its own label, and its parameters are those the request is cached by.\<close>

definition own_label :: "read_hook \<Rightarrow> bool" where
  "own_label h \<longleftrightarrow> rq_label (rd_request h) = rd_label h \<and> rq_method (rd_request h) = ''GET''"

definition coherent :: "read_hook \<Rightarrow> bool" where
  "coherent h \<longleftrightarrow> rd_params h = Undef \<or> hashParams (rd_params h) = rq_hash (rd_request h)"

text \<open>A command settles by the status of its own request.\<close>

definition settles_own :: "command \<Rightarrow> bool" where
  "settles_own c \<longleftrightarrow>
     (\<forall>st. cm_settle c st = Rejected \<longleftrightarrow> is_error (rq_label (cm_request c)) st = Some True)"

lemma settle_simps:
  "then_promise (checkError l st) (Resolved v) = Rejected \<longleftrightarrow> is_error l st = Some True"
  "then_promise (rejectOnError l st) (Resolved v) = Resolved v"
  "(if is_error l st \<noteq> Some True then Resolved v else Rejected) = Rejected \<longleftrightarrow> is_error l st = Some True"
  by (simp_all add: then_promise_def checkError_def rejectOnError_def catch_promise_def)

end
