(* ===== verification/ServiceReads.thy ===== *)
theory ServiceReads
  imports ServiceHooks
begin

text \<open>
  The service hooks that read: \<open>services/*.ts\<close>.  What a hook takes from
  \<open>useOrganizationInfo\<close> is an argument.  \<open>read_plain\<close> and \<open>read_ml\<close> collect them.
\<close>

section \<open>The services of the organization\<close>

definition Archived_useGetArchivedOptimizationsCount ::
  "jsval \<Rightarrow> obj \<Rightarrow> read_hook" where
  "Archived_useGetArchivedOptimizationsCount organizationId params =
     \<lparr>rd_label = ''GET_ARCHIVED_OPTIMIZATIONS_COUNT'',
         rd_params = Obj (obj_spread [(''organizationId'', organizationId)] params),
      rd_request = getArchivedOptimizationsCount organizationId params,
      rd_default = Obj [], rd_fields = [], rd_enabled = True, rd_mock = None\<rparr>"

definition Archived_useGetArchivedOptimizationsBreakdown ::
  "jsval \<Rightarrow> obj \<Rightarrow> read_hook" where
  "Archived_useGetArchivedOptimizationsBreakdown organizationId params =
     \<lparr>rd_label = ''GET_ARCHIVED_OPTIMIZATIONS_BREAKDOWN'',
         rd_params = Obj (obj_spread [(''organizationId'', organizationId)] params),
      rd_request = getArchivedOptimizationsBreakdown organizationId params,
      rd_default = Obj [], rd_fields = [], rd_enabled = True, rd_mock = None\<rparr>"

definition AssignmentRule_useGet :: "jsval \<Rightarrow> jsval \<Rightarrow> read_hook" where
  "AssignmentRule_useGet organizationId poolId =
     \<lparr>rd_label = ''GET_ASSIGNMENT_RULES'', rd_params = Obj [(''organizationId'',
         organizationId), (''poolId'', poolId)],
      rd_request = getAssignmentRules organizationId [(''poolId'', poolId)],
      rd_default = Obj [], rd_fields = [(''assignmentRules'', Obj [])], rd_enabled = True, rd_mock = None\<rparr>"

definition AuthorizedEmployees_useGet ::
  "jsval \<Rightarrow> jsval \<Rightarrow> jsval \<Rightarrow> jsval \<Rightarrow> read_hook" where
  "AuthorizedEmployees_useGet organizationId objectType objectId permission =
     \<lparr>rd_label = ''GET_AUTHORIZED_EMPLOYEES'', rd_params = Obj [(''objectType'',
         objectType), (''objectId'', objectId), (''permission'', permission),
         (''organizationId'', organizationId)],
      rd_request = getAuthorizedEmployees organizationId [(''objectType'', objectType),
         (''objectId'', objectId), (''permission'', permission)],
      rd_default = Obj [], rd_fields = [(''employees'', Arr [])], rd_enabled = True, rd_mock = None\<rparr>"

definition AvailableFilters_useGet :: "jsval \<Rightarrow> obj \<Rightarrow> read_hook" where
  "AvailableFilters_useGet organizationId params =
     \<lparr>rd_label = ''GET_AVAILABLE_FILTERS'', rd_params = Obj [(''organizationId'',
         organizationId), (''start_date'', obj_get params ''startDate''), (''end_date'',
         obj_get params ''endDate'')],
      rd_request = getAvailableFilters organizationId [(''start_date'',
         obj_get params ''startDate''), (''end_date'', obj_get params ''endDate'')],
      rd_default = Obj [(''filter_values'', Obj [])], rd_fields = [(''filter_values'',
         Undef)], rd_enabled = True, rd_mock = None\<rparr>"

definition BIExport_useGetAll :: "jsval \<Rightarrow> read_hook" where
  "BIExport_useGetAll organizationId =
     \<lparr>rd_label = ''GET_ORGANIZATION_BI_EXPORT'', rd_params = Obj [(''organizationId'',
         organizationId)],
      rd_request = getOrganizationBIExports organizationId,
      rd_default = Obj [], rd_fields = [(''organization_bis'', Arr [])], rd_enabled = True, rd_mock = None\<rparr>"

definition BIExport_useGet :: "jsval \<Rightarrow> read_hook" where
  "BIExport_useGet biExportId =
     \<lparr>rd_label = ''GET_BI_EXPORT'', rd_params = Obj [(''biExportId'', biExportId)],
      rd_request = getBIExport biExportId,
      rd_default = Obj [], rd_fields = [], rd_enabled = True, rd_mock = None\<rparr>"

definition DailyExpenses_useGet :: "jsval \<Rightarrow> obj \<Rightarrow> read_hook" where
  "DailyExpenses_useGet organizationId params =
     \<lparr>rd_label = ''GET_EXPENSES_DAILY_BREAKDOWN'',
         rd_params = Obj (obj_spread [(''organizationId'', organizationId)] params),
      rd_request = getDailyExpensesBreakdown organizationId params,
      rd_default = Obj [], rd_fields = [], rd_enabled = True, rd_mock = None\<rparr>"

definition DataSourceSkus_useGet :: "jsval \<Rightarrow> read_hook" where
  "DataSourceSkus_useGet dataSourceId =
     \<lparr>rd_label = ''GET_DATASOURCE_SKUS'', rd_params = dataSourceId,
      rd_request = getDataSourceSkus dataSourceId,
      rd_default = Obj [], rd_fields = [], rd_enabled = True, rd_mock = None\<rparr>"

definition Employees_useGet :: "jsval \<Rightarrow> read_hook" where
  "Employees_useGet organizationId =
     \<lparr>rd_label = ''GET_EMPLOYEES'', rd_params = Obj [(''organizationId'', organizationId),
         (''roles'', Bool True)],
      rd_request = getEmployees organizationId (Bool True) Undef,
      rd_default = Obj [], rd_fields = [(''employees'', Arr [])], rd_enabled = True, rd_mock = None\<rparr>"

definition EnvironmentBookings_useGet :: "jsval \<Rightarrow> read_hook" where
  "EnvironmentBookings_useGet resourceId =
     \<lparr>rd_label = ''GET_ENVIRONMENT_BOOKINGS'', rd_params = resourceId,
      rd_request = getEnvironmentBookings resourceId,
      rd_default = Arr [], rd_fields = [], rd_enabled = True, rd_mock = None\<rparr>"

definition Environments_useGet :: "jsval \<Rightarrow> read_hook" where
  "Environments_useGet organizationId =
     \<lparr>rd_label = ''GET_ENVIRONMENTS'', rd_params = organizationId,
      rd_request = getEnvironments organizationId,
      rd_default = Arr [], rd_fields = [], rd_enabled = True, rd_mock = None\<rparr>"

definition Expenses_useGetOrganizationExpenses :: "jsval \<Rightarrow> read_hook" where
  "Expenses_useGetOrganizationExpenses organizationId =
     \<lparr>rd_label = ''GET_ORGANIZATION_EXPENSES'', rd_params = organizationId,
      rd_request = getOrganizationExpenses organizationId,
      rd_default = Obj [], rd_fields = [], rd_enabled = True, rd_mock = None\<rparr>"

definition GlobalConstraints_useGetPoolPolicies :: "jsval \<Rightarrow> read_hook" where
  "GlobalConstraints_useGetPoolPolicies organizationId =
     \<lparr>rd_label = ''GET_GLOBAL_POOL_POLICIES'', rd_params = Obj [(''organizationId'',
         organizationId), (''details'', Bool True)],
      rd_request = getGlobalPoolPolicies organizationId [(''details'', Bool True)],
      rd_default = Arr [], rd_fields = [], rd_enabled = True, rd_mock = None\<rparr>"

definition GlobalConstraints_useGetResourceConstraints :: "jsval \<Rightarrow> read_hook" where
  "GlobalConstraints_useGetResourceConstraints organizationId =
     \<lparr>rd_label = ''GET_GLOBAL_RESOURCE_CONSTRAINTS'',
         rd_params = Obj [(''organizationId'', organizationId), (''details'', Bool True)],
      rd_request = getGlobalResourceConstraints organizationId [(''details'', Bool True)],
      rd_default = Arr [], rd_fields = [], rd_enabled = True, rd_mock = None\<rparr>"

definition JiraOrganizationStatus_useGet :: "jsval \<Rightarrow> read_hook" where
  "JiraOrganizationStatus_useGet organizationId =
     \<lparr>rd_label = ''GET_JIRA_ORGANIZATION_STATUS'', rd_params = organizationId,
      rd_request = getJiraOrganizationStatus organizationId,
      rd_default = Obj [], rd_fields = [(''connected_tenants'', Arr [])], rd_enabled = True, rd_mock = None\<rparr>"

definition K8sRightsizing_useGet ::
  "jsval \<Rightarrow> jsval \<Rightarrow> jsval \<Rightarrow> read_hook" where
  "K8sRightsizing_useGet organizationId startDate_arg endDate_arg =
     \<lparr>rd_label = ''GET_K8S_RIGHTSIZING'', rd_params = Obj [(''organizationId'',
         organizationId), (''startDate'', startDate_arg), (''endDate'', endDate_arg)],
      rd_request = getK8sRightsizing organizationId [(''startDate'', startDate_arg), (''endDate'',
         endDate_arg)],
      rd_default = Obj [], rd_fields = [(''k8sRightsizing'', Obj [])], rd_enabled = True, rd_mock = None\<rparr>"

definition Layouts_useGetAll ::
  "jsval \<Rightarrow> jsval \<Rightarrow> jsval \<Rightarrow> jsval \<Rightarrow> jsval \<Rightarrow> read_hook" where
  "Layouts_useGetAll organizationId layoutType entityId_arg includeShared arceeToken =
     \<lparr>rd_label = ''GET_LAYOUTS'', rd_params = Obj [(''organizationId'', organizationId),
         (''layoutType'', layoutType), (''entityId'', entityId_arg), (''includeShared'',
         includeShared)],
      rd_request = getLayouts organizationId layoutType entityId_arg includeShared arceeToken,
      rd_default = Obj [], rd_fields = [(''layouts'', Arr []), (''current_employee_id'',
         Undef)], rd_enabled = True, rd_mock = None\<rparr>"

definition Layouts_useGet :: "jsval \<Rightarrow> jsval \<Rightarrow> read_hook" where
  "Layouts_useGet organizationId layoutId =
     \<lparr>rd_label = ''GET_LAYOUT'', rd_params = Obj [(''organizationId'', organizationId),
         (''layoutId'', layoutId)],
      rd_request = getLayout organizationId layoutId [],
      rd_default = Obj [], rd_fields = [], rd_enabled = True, rd_mock = None\<rparr>"

definition OrganizationCalendar_useGet :: "jsval \<Rightarrow> read_hook" where
  "OrganizationCalendar_useGet organizationId =
     \<lparr>rd_label = ''GET_ORGANIZATION_CALENDAR'', rd_params = organizationId,
      rd_request = getOrganizationCalendar organizationId,
      rd_default = Obj [], rd_fields = [], rd_enabled = True, rd_mock = None\<rparr>"

definition OrganizationConstraints_useGetAll ::
  "jsval \<Rightarrow> jsval \<Rightarrow> read_hook" where
  "OrganizationConstraints_useGetAll organizationId types =
     \<lparr>rd_label = ''GET_ORGANIZATION_CONSTRAINTS'', rd_params = Obj [(''type'', types),
         (''organizationId'', organizationId)],
      rd_request = getOrganizationConstraints organizationId [(''type'', types), (''hit_days'',
         Num 3)],
      rd_default = Obj [], rd_fields = [(''organization_constraints'', Arr [])], rd_enabled = True, rd_mock = None\<rparr>"

definition OrganizationConstraints_useGetOne :: "jsval \<Rightarrow> read_hook" where
  "OrganizationConstraints_useGetOne constraintId =
     \<lparr>rd_label = ''GET_ORGANIZATION_CONSTRAINT'', rd_params = constraintId,
      rd_request = getOrganizationConstraint constraintId,
      rd_default = Obj [], rd_fields = [], rd_enabled = True, rd_mock = None\<rparr>"

definition OrganizationOptions_useGet ::
  "jsval \<Rightarrow> jsval \<Rightarrow> read_hook" where
  "OrganizationOptions_useGet organizationId withValues =
     \<lparr>rd_label = ''GET_ORGANIZATION_OPTIONS'', rd_params = Obj [(''organizationId'',
         organizationId), (''withValues'', withValues)],
      rd_request = getOrganizationOptions organizationId withValues,
      rd_default = Arr [], rd_fields = [], rd_enabled = True, rd_mock = None\<rparr>"

definition OrganizationOptions_useGetRecommendationOptions ::
  "jsval \<Rightarrow> jsval \<Rightarrow> read_hook" where
  "OrganizationOptions_useGetRecommendationOptions organizationId recommendationType =
     \<lparr>rd_label = ''GET_OPTIMIZATION_OPTIONS'', rd_params = Obj [(''organizationId'',
         organizationId), (''recommendationType'', recommendationType)],
      rd_request = getOptimizationOptions organizationId recommendationType,
      rd_default = Obj [], rd_fields = [], rd_enabled = True, rd_mock = None\<rparr>"

definition OrganizationOptions_useGetRecommendationsDownloadOptions ::
  "jsval \<Rightarrow> read_hook" where
  "OrganizationOptions_useGetRecommendationsDownloadOptions organizationId =
     \<lparr>rd_label = ''GET_RECOMMENDATIONS_DOWNLOAD_OPTIONS'', rd_params = organizationId,
      rd_request = getRecommendationsDownloadLimit organizationId,
      rd_default = Obj [], rd_fields = [(''value'', Str ''{}'')], rd_enabled = True, rd_mock = None\<rparr>"

definition OrganizationOptions_useGetS3DuplicatesOrganizationSettings ::
  "jsval \<Rightarrow> read_hook" where
  "OrganizationOptions_useGetS3DuplicatesOrganizationSettings organizationId =
     \<lparr>rd_label = ''GET_S3_DUPLICATES_ORGANIZATION_SETTINGS'', rd_params = organizationId,
      rd_request = getS3DuplicatesOrganizationSettings organizationId,
      rd_default = Obj [], rd_fields = [], rd_enabled = True, rd_mock = None\<rparr>"

definition Pools_useGetAvailablePools :: "jsval \<Rightarrow> obj \<Rightarrow> read_hook" where
  "Pools_useGetAvailablePools organizationId params =
     \<lparr>rd_label = ''GET_AVAILABLE_POOLS'',
         rd_params = Obj (obj_spread params [(''organizationId'', organizationId)]),
      rd_request = getAvailablePools organizationId params,
      rd_default = Obj [], rd_fields = [(''pools'', Arr [])], rd_enabled = True, rd_mock = None\<rparr>"

definition Pools_useGet ::
  "jsval \<Rightarrow> jsval \<Rightarrow> jsval \<Rightarrow> read_hook" where
  "Pools_useGet organizationPoolId withPoolDetails withPoolChildren =
     (let withPoolDetails = js_default withPoolDetails (Bool True);
          withPoolChildren = js_default withPoolChildren (Bool True)
      in \<lparr>rd_label = ''GET_POOL'', rd_params = Obj [(''poolId'', organizationPoolId),
         (''children'', withPoolChildren), (''details'', withPoolDetails)],
      rd_request = getPool organizationPoolId withPoolChildren withPoolDetails,
      rd_default = Obj [], rd_fields = [(''pool'', Obj [])], rd_enabled = True, rd_mock = None\<rparr>)"

definition Pools_useGetExpensesRange ::
  "jsval \<Rightarrow> jsval \<Rightarrow> jsval \<Rightarrow> read_hook" where
  "Pools_useGetExpensesRange organizationPoolId startDateTimestamp endDateTimestamp =
     \<lparr>rd_label = ''GET_POOL_EXPENSES_RANGE'', rd_params = Obj [(''poolId'',
         organizationPoolId), (''startDate'', startDateTimestamp), (''endDate'',
         endDateTimestamp)],
      rd_request = getPoolExpensesRange organizationPoolId startDateTimestamp endDateTimestamp,
      rd_default = Obj [], rd_fields = [(''pool'', Obj [])], rd_enabled = True, rd_mock = None\<rparr>"

definition Pools_useGetPoolOwners :: "jsval \<Rightarrow> jsval \<Rightarrow> read_hook" where
  "Pools_useGetPoolOwners poolId excludeMyself =
     (let excludeMyself = js_default excludeMyself (Bool False)
      in \<lparr>rd_label = ''GET_POOL_OWNERS'', rd_params = Obj [(''poolId'', poolId),
         (''excludeMyself'', excludeMyself)],
      rd_request = getPoolOwners poolId excludeMyself,
      rd_default = Obj [], rd_fields = [(''poolOwners'', Arr [])], rd_enabled = True, rd_mock = None\<rparr>)"

definition PowerSchedule_useGetAll :: "jsval \<Rightarrow> read_hook" where
  "PowerSchedule_useGetAll organizationId =
     \<lparr>rd_label = ''GET_POWER_SCHEDULES'', rd_params = organizationId,
      rd_request = getPowerSchedules organizationId,
      rd_default = Obj [], rd_fields = [(''power_schedules'', Arr [])], rd_enabled = True, rd_mock = None\<rparr>"

definition PowerSchedule_useGet :: "jsval \<Rightarrow> read_hook" where
  "PowerSchedule_useGet powerScheduleId =
     \<lparr>rd_label = ''GET_POWER_SCHEDULE'', rd_params = powerScheduleId,
      rd_request = getPowerSchedule powerScheduleId,
      rd_default = Obj [], rd_fields = [], rd_enabled = True, rd_mock = None\<rparr>"

definition RecommendationsOverview_useGetOptimizationsOverview ::
  "jsval \<Rightarrow> jsval \<Rightarrow> read_hook" where
  "RecommendationsOverview_useGetOptimizationsOverview organizationId cloudAccountIds =
     \<lparr>rd_label = ''GET_OPTIMIZATIONS_OVERVIEW'', rd_params = Obj [(''organizationId'',
         organizationId), (''cloudAccountIds'', cloudAccountIds)],
      rd_request = getOptimizationsOverview organizationId cloudAccountIds,
      rd_default = Obj [], rd_fields = [], rd_enabled = True, rd_mock = None\<rparr>"

definition RiSp_useGetReservedInstancesBreakdown ::
  "jsval \<Rightarrow> jsval \<Rightarrow> jsval \<Rightarrow> jsval \<Rightarrow> read_hook" where
  "RiSp_useGetReservedInstancesBreakdown organizationId startDate_arg endDate_arg dataSourceIds =
     \<lparr>rd_label = ''GET_RESERVED_INSTANCES_BREAKDOWN'',
         rd_params = Obj [(''organizationId'', organizationId), (''startDate'', startDate_arg),
         (''endDate'', endDate_arg), (''dataSourceIds'', dataSourceIds)],
      rd_request = getReservedInstancesBreakdown organizationId [(''startDate'', startDate_arg),
         (''endDate'', endDate_arg), (''dataSourceIds'', dataSourceIds)],
      rd_default = Obj [], rd_fields = [], rd_enabled = True, rd_mock = None\<rparr>"

definition RiSp_useGetSavingPlansBreakdown ::
  "jsval \<Rightarrow> jsval \<Rightarrow> jsval \<Rightarrow> jsval \<Rightarrow> read_hook" where
  "RiSp_useGetSavingPlansBreakdown organizationId startDate_arg endDate_arg dataSourceIds =
     \<lparr>rd_label = ''GET_SAVING_PLANS_BREAKDOWN'', rd_params = Obj [(''organizationId'',
         organizationId), (''startDate'', startDate_arg), (''endDate'', endDate_arg), (''dataSourceIds'',
         dataSourceIds)],
      rd_request = getSavingPlansBreakdown organizationId [(''startDate'', startDate_arg),
         (''endDate'', endDate_arg), (''dataSourceIds'', dataSourceIds)],
      rd_default = Obj [], rd_fields = [], rd_enabled = True, rd_mock = None\<rparr>"

definition S3Duplicates_useGetAll :: "jsval \<Rightarrow> bool \<Rightarrow> read_hook" where
  "S3Duplicates_useGetAll organizationId inScopeOfPageMockup =
     \<lparr>rd_label = ''GET_ORGANIZATION_GEMINIS'', rd_params = Obj [(''organizationId'',
         organizationId)],
      rd_request = getOrganizationGeminis organizationId,
      rd_default = Obj [], rd_fields = [(''geminis'', Arr [])],
      rd_enabled = \<not> inScopeOfPageMockup,
      rd_mock = if inScopeOfPageMockup then Some [Arr []] else None\<rparr>"

definition S3Duplicates_useGet :: "jsval \<Rightarrow> read_hook" where
  "S3Duplicates_useGet checkId =
     \<lparr>rd_label = ''GET_GEMINI'', rd_params = Obj [(''checkId'', checkId)],
      rd_request = getGemini checkId,
      rd_default = Obj [], rd_fields = [], rd_enabled = True, rd_mock = None\<rparr>"

definition TrafficExpenses_useGetTrafficExpenses ::
  "jsval \<Rightarrow> jsval \<Rightarrow> jsval \<Rightarrow> jsval \<Rightarrow> read_hook" where
  "TrafficExpenses_useGetTrafficExpenses organizationId startDate_arg endDate_arg resourceId =
     \<lparr>rd_label = ''GET_TRAFFIC_EXPENSES'', rd_params = Obj [(''startDate'', startDate_arg),
         (''endDate'', endDate_arg), (''resourceId'', resourceId), (''organizationId'',
         organizationId)],
      rd_request = getTrafficExpenses organizationId [(''startDate'', startDate_arg), (''endDate'',
         endDate_arg), (''resourceId'', resourceId)],
      rd_default = Obj [], rd_fields = [(''expenses'', Arr [])], rd_enabled = True, rd_mock = None\<rparr>"

definition User_useGet :: "jsval \<Rightarrow> read_hook" where
  "User_useGet userId =
     \<lparr>rd_label = ''GET_USER'', rd_params = Undef,
      rd_request = getUser userId,
      rd_default = Obj [], rd_fields = [],
      rd_enabled = truthy userId,
      rd_mock = None\<rparr>"

definition Webhooks_useGet ::
  "jsval \<Rightarrow> jsval \<Rightarrow> jsval \<Rightarrow> read_hook" where
  "Webhooks_useGet organizationId objectId objectType =
     \<lparr>rd_label = ''GET_WEBHOOKS'', rd_params = Obj [(''objectId'', objectId),
         (''objectType'', objectType), (''organizationId'', organizationId)],
      rd_request = getWebhooks organizationId [(''objectId'', objectId), (''objectType'',
         objectType)],
      rd_default = Arr [], rd_fields = [], rd_enabled = True, rd_mock = None\<rparr>"

definition Summary_useGet :: "bool \<Rightarrow> jsval \<Rightarrow> jsval \<Rightarrow> obj \<Rightarrow> read_hook" where
  "Summary_useGet inScopeOfPageMockup dataMocked organizationId params =
     \<lparr>rd_label = ''GET_EXPENSES_SUMMARY'',
         rd_params = Obj (obj_spread [(''organizationId'',
         organizationId)] (mapCleanExpensesFilterParamsToApiParams params)),
      rd_request = getExpensesSummary organizationId (mapCleanExpensesFilterParamsToApiParams
         params),
      rd_default = Obj [], rd_fields = [],
      rd_enabled = \<not> inScopeOfPageMockup,
      rd_mock = (if inScopeOfPageMockup then Some [dataMocked] else None)\<rparr>"

definition ResourcesCountBreakdown_useGet :: "jsval \<Rightarrow> jsval \<Rightarrow> obj \<Rightarrow> read_hook" where
  "ResourcesCountBreakdown_useGet organizationId breakdownBy params =
     \<lparr>rd_label = ''GET_RESOURCE_COUNT_BREAKDOWN'',
         rd_params = Obj (obj_spread [(''organizationId'',
         organizationId)] (resources_count_params breakdownBy params)),
      rd_request = getResourceCountBreakdown organizationId (resources_count_params breakdownBy
         params),
      rd_default = Obj [], rd_fields = [],
      rd_enabled = True,
      rd_mock = None\<rparr>"

definition TagsBreakdown_useGet :: "jsval \<Rightarrow> obj \<Rightarrow> read_hook" where
  "TagsBreakdown_useGet organizationId params =
     \<lparr>rd_label = ''GET_TAGS_BREAKDOWN'', rd_params = Obj (obj_spread [(''organizationId'',
         organizationId)] (tags_breakdown_params params)),
      rd_request = getTagsBreakdown organizationId (tags_breakdown_params params),
      rd_default = Obj [], rd_fields = [],
      rd_enabled = True,
      rd_mock = None\<rparr>"

lemmas plain_read_defs =
  Archived_useGetArchivedOptimizationsCount_def Archived_useGetArchivedOptimizationsBreakdown_def
  AssignmentRule_useGet_def AuthorizedEmployees_useGet_def AvailableFilters_useGet_def
  BIExport_useGetAll_def BIExport_useGet_def DailyExpenses_useGet_def DataSourceSkus_useGet_def
  Employees_useGet_def EnvironmentBookings_useGet_def Environments_useGet_def
  Expenses_useGetOrganizationExpenses_def GlobalConstraints_useGetPoolPolicies_def
  GlobalConstraints_useGetResourceConstraints_def JiraOrganizationStatus_useGet_def
  K8sRightsizing_useGet_def Layouts_useGetAll_def Layouts_useGet_def
  OrganizationCalendar_useGet_def OrganizationConstraints_useGetAll_def
  OrganizationConstraints_useGetOne_def OrganizationOptions_useGet_def
  OrganizationOptions_useGetRecommendationOptions_def
  OrganizationOptions_useGetRecommendationsDownloadOptions_def
  OrganizationOptions_useGetS3DuplicatesOrganizationSettings_def Pools_useGetAvailablePools_def
  Pools_useGet_def Pools_useGetExpensesRange_def Pools_useGetPoolOwners_def
  PowerSchedule_useGetAll_def PowerSchedule_useGet_def
  RecommendationsOverview_useGetOptimizationsOverview_def
  RiSp_useGetReservedInstancesBreakdown_def RiSp_useGetSavingPlansBreakdown_def
  S3Duplicates_useGetAll_def S3Duplicates_useGet_def TrafficExpenses_useGetTrafficExpenses_def
  User_useGet_def Webhooks_useGet_def Summary_useGet_def ResourcesCountBreakdown_useGet_def
  TagsBreakdown_useGet_def

inductive read_plain :: "read_hook \<Rightarrow> bool" where
  r_Archived_useGetArchivedOptimizationsCount: "read_plain (Archived_useGetArchivedOptimizationsCount organizationId params)"
| r_Archived_useGetArchivedOptimizationsBreakdown: "read_plain (Archived_useGetArchivedOptimizationsBreakdown organizationId params)"
| r_AssignmentRule_useGet: "read_plain (AssignmentRule_useGet organizationId poolId)"
| r_AuthorizedEmployees_useGet: "read_plain (AuthorizedEmployees_useGet organizationId objectType objectId permission)"
| r_AvailableFilters_useGet: "read_plain (AvailableFilters_useGet organizationId params)"
| r_BIExport_useGetAll: "read_plain (BIExport_useGetAll organizationId)"
| r_BIExport_useGet: "read_plain (BIExport_useGet biExportId)"
| r_DailyExpenses_useGet: "read_plain (DailyExpenses_useGet organizationId params)"
| r_DataSourceSkus_useGet: "read_plain (DataSourceSkus_useGet dataSourceId)"
| r_Employees_useGet: "read_plain (Employees_useGet organizationId)"
| r_EnvironmentBookings_useGet: "read_plain (EnvironmentBookings_useGet resourceId)"
| r_Environments_useGet: "read_plain (Environments_useGet organizationId)"
| r_Expenses_useGetOrganizationExpenses: "read_plain (Expenses_useGetOrganizationExpenses organizationId)"
| r_GlobalConstraints_useGetPoolPolicies: "read_plain (GlobalConstraints_useGetPoolPolicies organizationId)"
| r_GlobalConstraints_useGetResourceConstraints: "read_plain (GlobalConstraints_useGetResourceConstraints organizationId)"
| r_JiraOrganizationStatus_useGet: "read_plain (JiraOrganizationStatus_useGet organizationId)"
| r_K8sRightsizing_useGet: "read_plain (K8sRightsizing_useGet organizationId startDate_arg endDate_arg)"
| r_Layouts_useGetAll: "read_plain (Layouts_useGetAll organizationId layoutType entityId_arg includeShared arceeToken)"
| r_Layouts_useGet: "read_plain (Layouts_useGet organizationId layoutId)"
| r_OrganizationCalendar_useGet: "read_plain (OrganizationCalendar_useGet organizationId)"
| r_OrganizationConstraints_useGetAll: "read_plain (OrganizationConstraints_useGetAll organizationId types)"
| r_OrganizationConstraints_useGetOne: "read_plain (OrganizationConstraints_useGetOne constraintId)"
| r_OrganizationOptions_useGet: "read_plain (OrganizationOptions_useGet organizationId withValues)"
| r_OrganizationOptions_useGetRecommendationOptions: "read_plain (OrganizationOptions_useGetRecommendationOptions organizationId recommendationType)"
| r_OrganizationOptions_useGetRecommendationsDownloadOptions: "read_plain (OrganizationOptions_useGetRecommendationsDownloadOptions organizationId)"
| r_OrganizationOptions_useGetS3DuplicatesOrganizationSettings: "read_plain (OrganizationOptions_useGetS3DuplicatesOrganizationSettings organizationId)"
| r_Pools_useGetAvailablePools: "read_plain (Pools_useGetAvailablePools organizationId params)"
| r_Pools_useGet: "read_plain (Pools_useGet organizationPoolId withPoolDetails withPoolChildren)"
| r_Pools_useGetExpensesRange: "read_plain (Pools_useGetExpensesRange organizationPoolId startDateTimestamp endDateTimestamp)"
| r_Pools_useGetPoolOwners: "read_plain (Pools_useGetPoolOwners poolId excludeMyself)"
| r_PowerSchedule_useGetAll: "read_plain (PowerSchedule_useGetAll organizationId)"
| r_PowerSchedule_useGet: "read_plain (PowerSchedule_useGet powerScheduleId)"
| r_RecommendationsOverview_useGetOptimizationsOverview: "read_plain (RecommendationsOverview_useGetOptimizationsOverview organizationId cloudAccountIds)"
| r_RiSp_useGetReservedInstancesBreakdown: "read_plain (RiSp_useGetReservedInstancesBreakdown organizationId startDate_arg endDate_arg dataSourceIds)"
| r_RiSp_useGetSavingPlansBreakdown: "read_plain (RiSp_useGetSavingPlansBreakdown organizationId startDate_arg endDate_arg dataSourceIds)"
| r_S3Duplicates_useGetAll: "read_plain (S3Duplicates_useGetAll organizationId inScopeOfPageMockup)"
| r_S3Duplicates_useGet: "read_plain (S3Duplicates_useGet checkId)"
| r_TrafficExpenses_useGetTrafficExpenses: "read_plain (TrafficExpenses_useGetTrafficExpenses organizationId startDate_arg endDate_arg resourceId)"
| r_User_useGet: "read_plain (User_useGet userId)"
| r_Webhooks_useGet: "read_plain (Webhooks_useGet organizationId objectId objectType)"
| r_Summary_useGet: "read_plain (Summary_useGet inScopeOfPageMockup dataMocked organizationId params)"
| r_ResourcesCountBreakdown_useGet: "read_plain (ResourcesCountBreakdown_useGet organizationId breakdownBy params)"
| r_TagsBreakdown_useGet: "read_plain (TagsBreakdown_useGet organizationId params)"

section \<open>The services of machine learning\<close>

definition MlArtifacts_useGet :: "jsval \<Rightarrow> obj \<Rightarrow> read_hook" where
  "MlArtifacts_useGet organizationId params =
     \<lparr>rd_label = ''GET_ML_ARTIFACTS'', rd_params = Obj (obj_spread [(''organizationId'',
         organizationId)] params),
      rd_request = getMlArtifacts organizationId params,
      rd_default = Obj [], rd_fields = [], rd_enabled = True, rd_mock = None\<rparr>"

definition MlArtifacts_useGetOne :: "jsval \<Rightarrow> jsval \<Rightarrow> read_hook" where
  "MlArtifacts_useGetOne organizationId artifactId =
     \<lparr>rd_label = ''GET_ML_ARTIFACT'', rd_params = Obj [(''organizationId'',
         organizationId), (''artifactId'', artifactId)],
      rd_request = getMlArtifact organizationId artifactId,
      rd_default = Obj [], rd_fields = [], rd_enabled = True, rd_mock = None\<rparr>"

definition MlDatasets_useGet :: "jsval \<Rightarrow> jsval \<Rightarrow> read_hook" where
  "MlDatasets_useGet organizationId datasetId =
     \<lparr>rd_label = ''GET_ML_DATASET'', rd_params = Obj [(''organizationId'',
         organizationId), (''datasetId'', datasetId)],
      rd_request = getMlDataset organizationId datasetId,
      rd_default = Obj [], rd_fields = [], rd_enabled = True, rd_mock = None\<rparr>"

definition MlDatasets_useGetAll :: "jsval \<Rightarrow> read_hook" where
  "MlDatasets_useGetAll organizationId =
     \<lparr>rd_label = ''GET_ML_DATASETS'', rd_params = organizationId,
      rd_request = getMlDatasets organizationId,
      rd_default = Obj [], rd_fields = [(''datasets'', Arr [])], rd_enabled = True, rd_mock = None\<rparr>"

definition MlDatasets_useGetLabels :: "jsval \<Rightarrow> read_hook" where
  "MlDatasets_useGetLabels organizationId =
     \<lparr>rd_label = ''GET_ML_DATASET_LABELS'', rd_params = organizationId,
      rd_request = getMlDatasetLabels organizationId,
      rd_default = Obj [], rd_fields = [(''labels'', Arr [])], rd_enabled = True, rd_mock = None\<rparr>"

definition MlExecutors_useGet ::
  "jsval \<Rightarrow> jsval \<Rightarrow> jsval \<Rightarrow> jsval \<Rightarrow> read_hook" where
  "MlExecutors_useGet organizationId taskIds runIds arceeToken =
     \<lparr>rd_label = ''GET_ML_EXECUTORS'', rd_params = Obj [(''organizationId'',
         organizationId), (''taskIds'', taskIds), (''runIds'', runIds), (''arceeToken'',
         arceeToken)],
      rd_request = getMlExecutors organizationId [(''taskIds'', taskIds), (''runIds'', runIds),
         (''arceeToken'', arceeToken)],
      rd_default = Obj [], rd_fields = [(''executors'', Arr [])], rd_enabled = True, rd_mock = None\<rparr>"

definition MlExecutors_useGetBreakdown :: "jsval \<Rightarrow> read_hook" where
  "MlExecutors_useGetBreakdown organizationId =
     \<lparr>rd_label = ''GET_ML_EXECUTORS_BREAKDOWN'', rd_params = organizationId,
      rd_request = getMlExecutorsBreakdown organizationId,
      rd_default = Obj [], rd_fields = [(''breakdown'', Obj [])], rd_enabled = True, rd_mock = None\<rparr>"

definition MlLeaderboards_useGetLeaderboardTemplate ::
  "jsval \<Rightarrow> jsval \<Rightarrow> read_hook" where
  "MlLeaderboards_useGetLeaderboardTemplate organizationId taskId =
     \<lparr>rd_label = ''GET_ML_LEADERBOARD_TEMPLATE'', rd_params = Obj [(''organizationId'',
         organizationId), (''taskId'', taskId)],
      rd_request = getMlLeaderboardTemplate organizationId taskId,
      rd_default = Obj [], rd_fields = [], rd_enabled = True, rd_mock = None\<rparr>"

definition MlLeaderboards_useGetLeaderboards ::
  "jsval \<Rightarrow> jsval \<Rightarrow> read_hook" where
  "MlLeaderboards_useGetLeaderboards organizationId leaderboardTemplateId =
     \<lparr>rd_label = ''GET_ML_LEADERBOARDS'', rd_params = Obj [(''organizationId'',
         organizationId), (''leaderboardTemplateId'', leaderboardTemplateId)],
      rd_request = getMlLeaderboards organizationId leaderboardTemplateId,
      rd_default = Arr [], rd_fields = [], rd_enabled = True, rd_mock = None\<rparr>"

definition MlLeaderboards_useGetLeaderboard ::
  "jsval \<Rightarrow> jsval \<Rightarrow> read_hook" where
  "MlLeaderboards_useGetLeaderboard organizationId leaderboardId =
     \<lparr>rd_label = ''GET_ML_LEADERBOARD'', rd_params = Obj [(''organizationId'',
         organizationId), (''leaderboardId'', leaderboardId)],
      rd_request = getMlLeaderboard organizationId leaderboardId,
      rd_default = Obj [], rd_fields = [], rd_enabled = True, rd_mock = None\<rparr>"

definition MlLeaderboards_useGetLeaderboardCandidates ::
  "jsval \<Rightarrow> jsval \<Rightarrow> read_hook" where
  "MlLeaderboards_useGetLeaderboardCandidates organizationId leaderboardId =
     \<lparr>rd_label = ''GET_ML_LEADERBOARD_CANDIDATES'', rd_params = Obj [(''organizationId'',
         organizationId), (''leaderboardId'', leaderboardId)],
      rd_request = getMlLeaderboardCandidates organizationId leaderboardId,
      rd_default = Arr [], rd_fields = [], rd_enabled = True, rd_mock = None\<rparr>"

definition MlMetrics_useGetMlMetrics :: "jsval \<Rightarrow> read_hook" where
  "MlMetrics_useGetMlMetrics organizationId =
     \<lparr>rd_label = ''GET_ML_METRICS'', rd_params = Obj [(''organizationId'',
         organizationId)],
      rd_request = getMlMetrics organizationId,
      rd_default = Obj [], rd_fields = [(''metrics'', Arr [])], rd_enabled = True, rd_mock = None\<rparr>"

definition MlModels_useGetAll :: "jsval \<Rightarrow> read_hook" where
  "MlModels_useGetAll organizationId =
     \<lparr>rd_label = ''GET_ML_MODELS'', rd_params = organizationId,
      rd_request = getMlModels organizationId,
      rd_default = Obj [], rd_fields = [(''models'', Arr [])], rd_enabled = True, rd_mock = None\<rparr>"

definition MlModels_useGet :: "jsval \<Rightarrow> jsval \<Rightarrow> read_hook" where
  "MlModels_useGet organizationId modelId =
     \<lparr>rd_label = ''GET_ML_MODEL'', rd_params = Obj [(''organizationId'', organizationId),
         (''modelId'', modelId)],
      rd_request = getMlModel organizationId modelId,
      rd_default = Obj [], rd_fields = [], rd_enabled = True, rd_mock = None\<rparr>"

definition MlProfiling_useGetToken :: "jsval \<Rightarrow> read_hook" where
  "MlProfiling_useGetToken organizationId =
     \<lparr>rd_label = ''GET_PROFILING_TOKEN'', rd_params = Obj [(''organizationId'',
         organizationId)],
      rd_request = getProfilingToken organizationId,
      rd_default = Obj [], rd_fields = [(''token'', Str ''''), (''md5_token'', Str '''')], rd_enabled = True, rd_mock = None\<rparr>"

definition MlRunsetTemplates_useGetAll :: "jsval \<Rightarrow> read_hook" where
  "MlRunsetTemplates_useGetAll organizationId =
     \<lparr>rd_label = ''GET_ML_RUNSET_TEMPLATES'', rd_params = Obj [(''organizationId'',
         organizationId)],
      rd_request = getMlRunsetTemplates organizationId,
      rd_default = Obj [], rd_fields = [(''templates'', Arr [])], rd_enabled = True, rd_mock = None\<rparr>"

definition MlRunsetTemplates_useGetOne ::
  "jsval \<Rightarrow> jsval \<Rightarrow> read_hook" where
  "MlRunsetTemplates_useGetOne organizationId runsetTemplateId =
     \<lparr>rd_label = ''GET_ML_RUNSET_TEMPLATE'', rd_params = Obj [(''organizationId'',
         organizationId), (''runsetTemplateId'', runsetTemplateId)],
      rd_request = getMlRunsetTemplate organizationId runsetTemplateId,
      rd_default = Obj [], rd_fields = [], rd_enabled = True, rd_mock = None\<rparr>"

definition MlRunsets_useGetAll :: "jsval \<Rightarrow> jsval \<Rightarrow> read_hook" where
  "MlRunsets_useGetAll organizationId runsetTemplateId =
     \<lparr>rd_label = ''GET_ML_RUNSETS'', rd_params = Obj [(''organizationId'',
         organizationId), (''runsetTemplateId'', runsetTemplateId)],
      rd_request = getMlRunsets organizationId runsetTemplateId,
      rd_default = Obj [], rd_fields = [(''runsets'', Arr []), (''total_runs'', Undef),
         (''total_cost'', Undef), (''last_runset_cost'', Undef)], rd_enabled = True, rd_mock = None\<rparr>"

definition MlRunsets_useGetOne :: "jsval \<Rightarrow> jsval \<Rightarrow> read_hook" where
  "MlRunsets_useGetOne organizationId runsetId =
     \<lparr>rd_label = ''GET_ML_RUNSET'', rd_params = Obj [(''organizationId'', organizationId),
         (''runsetId'', runsetId)],
      rd_request = getMlRunset organizationId runsetId,
      rd_default = Obj [], rd_fields = [], rd_enabled = True, rd_mock = None\<rparr>"

definition MlRunsets_useGetRuns :: "jsval \<Rightarrow> jsval \<Rightarrow> read_hook" where
  "MlRunsets_useGetRuns organizationId runsetId =
     \<lparr>rd_label = ''GET_ML_RUNSETS_RUNS'', rd_params = Obj [(''organizationId'',
         organizationId), (''runsetId'', runsetId)],
      rd_request = getMlRunsetsRuns organizationId runsetId,
      rd_default = Obj [], rd_fields = [(''runs'', Arr [])], rd_enabled = True, rd_mock = None\<rparr>"

definition MlRunsets_useGetRunners :: "jsval \<Rightarrow> jsval \<Rightarrow> read_hook" where
  "MlRunsets_useGetRunners organizationId runsetId =
     \<lparr>rd_label = ''GET_ML_RUNSET_EXECUTORS'', rd_params = Obj [(''organizationId'',
         organizationId), (''runsetId'', runsetId)],
      rd_request = getMlRunsetExecutors organizationId runsetId,
      rd_default = Obj [], rd_fields = [(''runners'', Arr [])], rd_enabled = True, rd_mock = None\<rparr>"

definition MlTasks_useGetAll :: "jsval \<Rightarrow> read_hook" where
  "MlTasks_useGetAll organizationId =
     \<lparr>rd_label = ''GET_ML_TASKS'', rd_params = organizationId,
      rd_request = getMlTasks organizationId,
      rd_default = Obj [], rd_fields = [(''tasks'', Arr [])], rd_enabled = True, rd_mock = None\<rparr>"

definition MlTasks_useGetTaskRecommendations ::
  "jsval \<Rightarrow> jsval \<Rightarrow> read_hook" where
  "MlTasks_useGetTaskRecommendations organizationId taskId =
     \<lparr>rd_label = ''GET_ML_TASK_RECOMMENDATIONS'', rd_params = Obj [(''organizationId'',
         organizationId), (''taskId'', taskId)],
      rd_request = getMlTaskRecommendations organizationId taskId,
      rd_default = Obj [], rd_fields = [], rd_enabled = True, rd_mock = None\<rparr>"

definition MlTasks_useGetOne :: "jsval \<Rightarrow> jsval \<Rightarrow> read_hook" where
  "MlTasks_useGetOne organizationId taskId =
     \<lparr>rd_label = ''GET_ML_TASK'', rd_params = Obj [(''organizationId'', organizationId),
         (''taskId'', taskId)],
      rd_request = getMlTask organizationId taskId,
      rd_default = Obj [], rd_fields = [], rd_enabled = True, rd_mock = None\<rparr>"

definition MlTasks_useGetTaskRunsList ::
  "jsval \<Rightarrow> jsval \<Rightarrow> read_hook" where
  "MlTasks_useGetTaskRunsList organizationId taskId =
     \<lparr>rd_label = ''GET_ML_TASK_RUNS'', rd_params = Obj [(''organizationId'',
         organizationId), (''taskId'', taskId)],
      rd_request = getMlTaskRuns organizationId taskId,
      rd_default = Obj [], rd_fields = [(''runs'', Arr [])], rd_enabled = True, rd_mock = None\<rparr>"

definition MlTasks_useGetTaskModelVersions ::
  "jsval \<Rightarrow> jsval \<Rightarrow> read_hook" where
  "MlTasks_useGetTaskModelVersions organizationId taskId =
     \<lparr>rd_label = ''GET_ML_TASK_MODEL_VERSIONS'', rd_params = Obj [(''organizationId'',
         organizationId), (''taskId'', taskId)],
      rd_request = getMlTaskModelVersions organizationId taskId,
      rd_default = Obj [], rd_fields = [(''model_versions'', Arr [])], rd_enabled = True, rd_mock = None\<rparr>"

definition MlTasks_useGetTaskRunsBulk ::
  "jsval \<Rightarrow> jsval \<Rightarrow> jsval \<Rightarrow> read_hook" where
  "MlTasks_useGetTaskRunsBulk organizationId taskId runIds =
     \<lparr>rd_label = ''GET_ML_TASK_RUNS_BULK'', rd_params = Obj [(''organizationId'',
         organizationId), (''taskId'', taskId), (''runIds'', runIds)],
      rd_request = getMlTaskRunsBulk organizationId taskId runIds,
      rd_default = Arr [], rd_fields = [], rd_enabled = True, rd_mock = None\<rparr>"

definition MlTasks_useGetTaskRun ::
  "jsval \<Rightarrow> jsval \<Rightarrow> obj \<Rightarrow> read_hook" where
  "MlTasks_useGetTaskRun organizationId runId params =
     \<lparr>rd_label = ''GET_ML_RUN_DETAILS'', rd_params = Obj [(''organizationId'',
         organizationId), (''runId'', runId)],
      rd_request = getMlRunDetails organizationId runId params,
      rd_default = Obj [], rd_fields = [], rd_enabled = True, rd_mock = None\<rparr>"

definition MlTasks_useGetTaskTags :: "jsval \<Rightarrow> jsval \<Rightarrow> read_hook" where
  "MlTasks_useGetTaskTags organizationId taskId =
     \<lparr>rd_label = ''GET_ML_TASK_TAGS'', rd_params = Obj [(''organizationId'',
         organizationId), (''taskId'', taskId)],
      rd_request = getMlTaskTags organizationId taskId,
      rd_default = Obj [], rd_fields = [(''tags'', Arr [])], rd_enabled = True, rd_mock = None\<rparr>"

definition MlTasks_useGetRunBreakdown ::
  "jsval \<Rightarrow> jsval \<Rightarrow> obj \<Rightarrow> read_hook" where
  "MlTasks_useGetRunBreakdown organizationId runId params =
     \<lparr>rd_label = ''GET_ML_RUN_DETAILS_BREAKDOWN'', rd_params = Obj [(''organizationId'',
         organizationId), (''runId'', runId)],
      rd_request = getMlRunDetailsBreakdown organizationId runId params,
      rd_default = Obj [], rd_fields = [(''breakdown'', Obj []), (''stages'', Arr []),
         (''milestones'', Arr [])], rd_enabled = True, rd_mock = None\<rparr>"

definition MlTasks_useGetTaskRecommendation :: "jsval \<Rightarrow> jsval \<Rightarrow> jsval \<Rightarrow> jsval \<Rightarrow> read_hook" where
  "MlTasks_useGetTaskRecommendation organizationId taskId type_arg status_arg =
     \<lparr>rd_label = ''GET_ML_OPTIMIZATION_DETAILS'', rd_params = Obj [(''organizationId'',
         organizationId), (''taskId'', taskId), (''type'', type_arg), (''status'', status_arg)],
      rd_request = getMlTaskRecommendationDetails organizationId taskId [(''type'', type_arg),
         (''status'', status_arg)],
      rd_default = Obj [], rd_fields = [],
      rd_enabled = True,
      rd_mock = None\<rparr>"

lemmas ml_read_defs =
  MlArtifacts_useGet_def MlArtifacts_useGetOne_def MlDatasets_useGet_def MlDatasets_useGetAll_def
  MlDatasets_useGetLabels_def MlExecutors_useGet_def MlExecutors_useGetBreakdown_def
  MlLeaderboards_useGetLeaderboardTemplate_def MlLeaderboards_useGetLeaderboards_def
  MlLeaderboards_useGetLeaderboard_def MlLeaderboards_useGetLeaderboardCandidates_def
  MlMetrics_useGetMlMetrics_def MlModels_useGetAll_def MlModels_useGet_def
  MlProfiling_useGetToken_def MlRunsetTemplates_useGetAll_def MlRunsetTemplates_useGetOne_def
  MlRunsets_useGetAll_def MlRunsets_useGetOne_def MlRunsets_useGetRuns_def
  MlRunsets_useGetRunners_def MlTasks_useGetAll_def MlTasks_useGetTaskRecommendations_def
  MlTasks_useGetOne_def MlTasks_useGetTaskRunsList_def MlTasks_useGetTaskModelVersions_def
  MlTasks_useGetTaskRunsBulk_def MlTasks_useGetTaskRun_def MlTasks_useGetTaskTags_def
  MlTasks_useGetRunBreakdown_def MlTasks_useGetTaskRecommendation_def

inductive read_ml :: "read_hook \<Rightarrow> bool" where
  r_MlArtifacts_useGet: "read_ml (MlArtifacts_useGet organizationId params)"
| r_MlArtifacts_useGetOne: "read_ml (MlArtifacts_useGetOne organizationId artifactId)"
| r_MlDatasets_useGet: "read_ml (MlDatasets_useGet organizationId datasetId)"
| r_MlDatasets_useGetAll: "read_ml (MlDatasets_useGetAll organizationId)"
| r_MlDatasets_useGetLabels: "read_ml (MlDatasets_useGetLabels organizationId)"
| r_MlExecutors_useGet: "read_ml (MlExecutors_useGet organizationId taskIds runIds arceeToken)"
| r_MlExecutors_useGetBreakdown: "read_ml (MlExecutors_useGetBreakdown organizationId)"
| r_MlLeaderboards_useGetLeaderboardTemplate: "read_ml (MlLeaderboards_useGetLeaderboardTemplate organizationId taskId)"
| r_MlLeaderboards_useGetLeaderboards: "read_ml (MlLeaderboards_useGetLeaderboards organizationId leaderboardTemplateId)"
| r_MlLeaderboards_useGetLeaderboard: "read_ml (MlLeaderboards_useGetLeaderboard organizationId leaderboardId)"
| r_MlLeaderboards_useGetLeaderboardCandidates: "read_ml (MlLeaderboards_useGetLeaderboardCandidates organizationId leaderboardId)"
| r_MlMetrics_useGetMlMetrics: "read_ml (MlMetrics_useGetMlMetrics organizationId)"
| r_MlModels_useGetAll: "read_ml (MlModels_useGetAll organizationId)"
| r_MlModels_useGet: "read_ml (MlModels_useGet organizationId modelId)"
| r_MlProfiling_useGetToken: "read_ml (MlProfiling_useGetToken organizationId)"
| r_MlRunsetTemplates_useGetAll: "read_ml (MlRunsetTemplates_useGetAll organizationId)"
| r_MlRunsetTemplates_useGetOne: "read_ml (MlRunsetTemplates_useGetOne organizationId runsetTemplateId)"
| r_MlRunsets_useGetAll: "read_ml (MlRunsets_useGetAll organizationId runsetTemplateId)"
| r_MlRunsets_useGetOne: "read_ml (MlRunsets_useGetOne organizationId runsetId)"
| r_MlRunsets_useGetRuns: "read_ml (MlRunsets_useGetRuns organizationId runsetId)"
| r_MlRunsets_useGetRunners: "read_ml (MlRunsets_useGetRunners organizationId runsetId)"
| r_MlTasks_useGetAll: "read_ml (MlTasks_useGetAll organizationId)"
| r_MlTasks_useGetTaskRecommendations: "read_ml (MlTasks_useGetTaskRecommendations organizationId taskId)"
| r_MlTasks_useGetOne: "read_ml (MlTasks_useGetOne organizationId taskId)"
| r_MlTasks_useGetTaskRunsList: "read_ml (MlTasks_useGetTaskRunsList organizationId taskId)"
| r_MlTasks_useGetTaskModelVersions: "read_ml (MlTasks_useGetTaskModelVersions organizationId taskId)"
| r_MlTasks_useGetTaskRunsBulk: "read_ml (MlTasks_useGetTaskRunsBulk organizationId taskId runIds)"
| r_MlTasks_useGetTaskRun: "read_ml (MlTasks_useGetTaskRun organizationId runId params)"
| r_MlTasks_useGetTaskTags: "read_ml (MlTasks_useGetTaskTags organizationId taskId)"
| r_MlTasks_useGetRunBreakdown: "read_ml (MlTasks_useGetRunBreakdown organizationId runId params)"
| r_MlTasks_useGetTaskRecommendation: "read_ml (MlTasks_useGetTaskRecommendation organizationId taskId type_arg status_arg)"


end
