(* ===== verification/ServiceCommands.thy ===== *)
theory ServiceCommands
  imports ServiceHooks
begin

text \<open>
  The service hooks that change something, or fetch on demand: \<open>services/*.ts\<close>.  The function a
  hook returns is the record of the request it dispatches and of how its promise settles.
\<close>

definition BIExport_useCreate :: "jsval \<Rightarrow> obj \<Rightarrow> command" where
  "BIExport_useCreate organizationId params =
     \<lparr>cm_request = createOrganizationBIExports organizationId (Obj params),
      cm_settle = (\<lambda>st. if is_error ''CREATE_ORGANIZATION_BI_EXPORT'' st \<noteq> Some
         True then Resolved Undef else Rejected)\<rparr>"

definition BIExport_useUpdate :: "jsval \<Rightarrow> obj \<Rightarrow> command" where
  "BIExport_useUpdate biExportId params =
     \<lparr>cm_request = updateBIExport biExportId (Obj params),
      cm_settle = (\<lambda>st. if is_error ''UPDATE_BI_EXPORT'' st \<noteq> Some True then
         Resolved Undef else Rejected)\<rparr>"

definition BIExport_useDelete :: "jsval \<Rightarrow> command" where
  "BIExport_useDelete biExportId =
     \<lparr>cm_request = deleteBIExport biExportId,
      cm_settle = (\<lambda>st. if is_error ''DELETE_BI_EXPORT'' st \<noteq> Some True then
         Resolved Undef else Rejected)\<rparr>"

definition CloudResources_useGetOnDemandOrganizationCloudResources :: "jsval \<Rightarrow> jsval \<Rightarrow> command" where
  "CloudResources_useGetOnDemandOrganizationCloudResources organizationId params =
     \<lparr>cm_request = getOrganizationCloudResources organizationId params,
      cm_settle = (\<lambda>st. if is_error ''GET_ORGANIZATION_CLOUD_RESOURCES'' st \<noteq> Some
         True then Resolved (current (st_restapi st) ''GET_ORGANIZATION_CLOUD_RESOURCES'') else
         Rejected)\<rparr>"

definition DataSourceSkus_useUpdateDataSourceSku :: "jsval \<Rightarrow> jsval \<Rightarrow> command" where
  "DataSourceSkus_useUpdateDataSourceSku dataSourceId value =
     \<lparr>cm_request = updateDataSourceSku dataSourceId value,
      cm_settle = (\<lambda>st. if is_error ''UPDATE_DATASOURCE_SKU'' st \<noteq> Some True then
         Resolved Undef else Rejected)\<rparr>"

definition DataSources_useUpdateDataSource :: "jsval \<Rightarrow> obj \<Rightarrow> command" where
  "DataSources_useUpdateDataSource id_arg params =
     \<lparr>cm_request = updateDataSource id_arg (Obj params),
      cm_settle = (\<lambda>st. then_promise (checkError ''UPDATE_DATA_SOURCE'' st) (Resolved
         Undef))\<rparr>"

definition DataSources_useCreateSurvey :: "jsval \<Rightarrow> jsval \<Rightarrow> jsval \<Rightarrow> command" where
  "DataSources_useCreateSurvey organizationId type_arg payload =
     \<lparr>cm_request = createSurvey organizationId type_arg payload,
      cm_settle = (\<lambda>st. then_promise (checkError ''CREATE_SURVEY'' st) (Resolved
         Undef))\<rparr>"

definition Layouts_useGetOneOnDemand :: "jsval \<Rightarrow> jsval \<Rightarrow> obj \<Rightarrow> command" where
  "Layouts_useGetOneOnDemand organizationId layoutId params =
     \<lparr>cm_request = getLayout organizationId layoutId params,
      cm_settle = (\<lambda>st. if is_error ''GET_LAYOUT'' st \<noteq> Some True then Resolved
         (current (st_restapi st) ''GET_LAYOUT'') else Rejected)\<rparr>"

definition Layouts_useCreate :: "jsval \<Rightarrow> obj \<Rightarrow> command" where
  "Layouts_useCreate organizationId params =
     \<lparr>cm_request = createLayout organizationId params,
      cm_settle = (\<lambda>st. if is_error ''CREATE_LAYOUT'' st \<noteq> Some True then Resolved
         (current (st_restapi st) ''CREATE_LAYOUT'') else Rejected)\<rparr>"

definition Layouts_useUpdate :: "jsval \<Rightarrow> jsval \<Rightarrow> obj \<Rightarrow> command" where
  "Layouts_useUpdate organizationId id_arg params =
     \<lparr>cm_request = updateLayout organizationId id_arg params,
      cm_settle = (\<lambda>st. if is_error ''UPDATE_LAYOUT'' st \<noteq> Some True then Resolved
         Undef else Rejected)\<rparr>"

definition MlArtifacts_useUpdate :: "jsval \<Rightarrow> jsval \<Rightarrow> obj \<Rightarrow> command" where
  "MlArtifacts_useUpdate organizationId applicationId params =
     \<lparr>cm_request = updateMlArtifact organizationId applicationId (Obj params),
      cm_settle = (\<lambda>st. if is_error ''UPDATE_ML_ARTIFACT'' st \<noteq> Some True then
         Resolved Undef else Rejected)\<rparr>"

definition MlArtifacts_useCreate :: "jsval \<Rightarrow> obj \<Rightarrow> command" where
  "MlArtifacts_useCreate organizationId params =
     \<lparr>cm_request = createMlArtifact organizationId params,
      cm_settle = (\<lambda>st. if is_error ''CREATE_ML_ARTIFACT'' st \<noteq> Some True then
         Resolved Undef else Rejected)\<rparr>"

definition MlArtifacts_useDelete :: "jsval \<Rightarrow> jsval \<Rightarrow> command" where
  "MlArtifacts_useDelete organizationId artifactId =
     \<lparr>cm_request = deleteMlArtifact organizationId artifactId,
      cm_settle = (\<lambda>st. if is_error ''DELETE_ML_ARTIFACT'' st \<noteq> Some True then
         Resolved Undef else Rejected)\<rparr>"

definition MlDatasets_useCreate :: "jsval \<Rightarrow> obj \<Rightarrow> command" where
  "MlDatasets_useCreate organizationId params =
     \<lparr>cm_request = createMlDataset organizationId (Obj params),
      cm_settle = (\<lambda>st. if is_error ''CREATE_ML_DATASET'' st \<noteq> Some True then
         Resolved Undef else Rejected)\<rparr>"

definition MlDatasets_useUpdate :: "jsval \<Rightarrow> jsval \<Rightarrow> obj \<Rightarrow> command" where
  "MlDatasets_useUpdate organizationId id_arg params =
     \<lparr>cm_request = updateMlDataset organizationId id_arg (Obj params),
      cm_settle = (\<lambda>st. if is_error ''UPDATE_ML_DATASET'' st \<noteq> Some True then
         Resolved Undef else Rejected)\<rparr>"

definition MlDatasets_useDelete :: "jsval \<Rightarrow> jsval \<Rightarrow> command" where
  "MlDatasets_useDelete organizationId id_arg =
     \<lparr>cm_request = deleteMlDataset organizationId id_arg,
      cm_settle = (\<lambda>st. if is_error ''DELETE_ML_DATASET'' st \<noteq> Some True then
         Resolved Undef else Rejected)\<rparr>"

definition MlLeaderboards_useGetLeaderboardTemplateOnDemand :: "jsval \<Rightarrow> jsval \<Rightarrow> command" where
  "MlLeaderboards_useGetLeaderboardTemplateOnDemand organizationId taskId =
     \<lparr>cm_request = getMlLeaderboardTemplate organizationId taskId,
      cm_settle = (\<lambda>st. if is_error ''GET_ML_LEADERBOARD_TEMPLATE'' st \<noteq> Some True
         then Resolved (current (st_restapi st) ''GET_ML_LEADERBOARD_TEMPLATE'') else
         Rejected)\<rparr>"

definition MlLeaderboards_useCreateLeaderboardTemplate :: "jsval \<Rightarrow> jsval \<Rightarrow> obj \<Rightarrow> command" where
  "MlLeaderboards_useCreateLeaderboardTemplate organizationId taskId params =
     \<lparr>cm_request = createMlLeaderboardTemplate organizationId taskId params,
      cm_settle = (\<lambda>st. if is_error ''CREATE_ML_LEADERBOARD_TEMPLATE'' st \<noteq> Some
         True then Resolved Undef else Rejected)\<rparr>"

definition MlLeaderboards_useUpdateLeaderboardTemplate :: "jsval \<Rightarrow> jsval \<Rightarrow> obj \<Rightarrow> command" where
  "MlLeaderboards_useUpdateLeaderboardTemplate organizationId id_arg params =
     \<lparr>cm_request = updateMlLeaderboardTemplate organizationId id_arg params,
      cm_settle = (\<lambda>st. if is_error ''UPDATE_ML_LEADERBOARD_TEMPLATE'' st \<noteq> Some
         True then Resolved Undef else Rejected)\<rparr>"

definition MlLeaderboards_useGetLeaderboardsOnDemand :: "jsval \<Rightarrow> jsval \<Rightarrow> command" where
  "MlLeaderboards_useGetLeaderboardsOnDemand organizationId leaderboardTemplateId =
     \<lparr>cm_request = getMlLeaderboards organizationId leaderboardTemplateId,
      cm_settle = (\<lambda>st. if is_error ''GET_ML_LEADERBOARDS'' st \<noteq> Some True then
         Resolved (current (st_restapi st) ''GET_ML_LEADERBOARDS'') else Rejected)\<rparr>"

definition MlLeaderboards_useGetLeaderboardOnDemand :: "jsval \<Rightarrow> jsval \<Rightarrow> command" where
  "MlLeaderboards_useGetLeaderboardOnDemand organizationId leaderboardId =
     \<lparr>cm_request = getMlLeaderboard organizationId leaderboardId,
      cm_settle = (\<lambda>st. if is_error ''GET_ML_LEADERBOARD'' st \<noteq> Some True then
         Resolved (current (st_restapi st) ''GET_ML_LEADERBOARD'') else Rejected)\<rparr>"

definition MlLeaderboards_useCreateLeaderboard :: "jsval \<Rightarrow> jsval \<Rightarrow> obj \<Rightarrow> command" where
  "MlLeaderboards_useCreateLeaderboard organizationId leaderboardTemplateId params =
     \<lparr>cm_request = createMlLeaderboard organizationId leaderboardTemplateId params,
      cm_settle = (\<lambda>st. then_promise (checkError ''CREATE_ML_LEADERBOARD'' st) (Resolved
         (current (st_restapi st) ''CREATE_ML_LEADERBOARD'')))\<rparr>"

definition MlLeaderboards_useUpdateLeaderboard :: "jsval \<Rightarrow> jsval \<Rightarrow> obj \<Rightarrow> command" where
  "MlLeaderboards_useUpdateLeaderboard organizationId leaderboardId params =
     \<lparr>cm_request = updateMlLeaderboard organizationId leaderboardId params,
      cm_settle = (\<lambda>st. then_promise (checkError ''UPDATE_ML_LEADERBOARD'' st) (Resolved
         (current (st_restapi st) ''GET_ML_LEADERBOARD'')))\<rparr>"

definition MlLeaderboards_useDeleteLeaderboard :: "jsval \<Rightarrow> jsval \<Rightarrow> command" where
  "MlLeaderboards_useDeleteLeaderboard organizationId leaderboardId =
     \<lparr>cm_request = deleteMlLeaderboard organizationId leaderboardId,
      cm_settle = (\<lambda>st. if is_error ''DELETE_ML_LEADERBOARD'' st \<noteq> Some True then
         Resolved Undef else Rejected)\<rparr>"

definition MlLeaderboards_useGetLeaderboardCandidatesOnDemand :: "jsval \<Rightarrow> jsval \<Rightarrow> command" where
  "MlLeaderboards_useGetLeaderboardCandidatesOnDemand organizationId leaderboardId =
     \<lparr>cm_request = getMlLeaderboardCandidates organizationId leaderboardId,
      cm_settle = (\<lambda>st. if is_error ''GET_ML_LEADERBOARD_CANDIDATES'' st \<noteq> Some
         True then Resolved (current (st_restapi st) ''GET_ML_LEADERBOARD_CANDIDATES'') else
         Rejected)\<rparr>"

definition MlMetrics_useCreateMlMetric :: "jsval \<Rightarrow> obj \<Rightarrow> command" where
  "MlMetrics_useCreateMlMetric organizationId params =
     \<lparr>cm_request = createMlMetric organizationId (Obj params),
      cm_settle = (\<lambda>st. if is_error ''CREATE_GLOBAL_METRIC'' st \<noteq> Some True then
         Resolved Undef else Rejected)\<rparr>"

definition MlMetrics_useUpdateMlMetric :: "jsval \<Rightarrow> jsval \<Rightarrow> obj \<Rightarrow> command" where
  "MlMetrics_useUpdateMlMetric organizationId metricId params =
     \<lparr>cm_request = updateMlMetric organizationId metricId (Obj params),
      cm_settle = (\<lambda>st. if is_error ''UPDATE_GLOBAL_METRIC'' st \<noteq> Some True then
         Resolved Undef else Rejected)\<rparr>"

definition MlMetrics_useDeleteMlMetric :: "jsval \<Rightarrow> jsval \<Rightarrow> command" where
  "MlMetrics_useDeleteMlMetric organizationId metricId =
     \<lparr>cm_request = deleteMlMetric organizationId metricId,
      cm_settle = (\<lambda>st. if is_error ''DELETE_GLOBAL_METRIC'' st \<noteq> Some True then
         Resolved Undef else Rejected)\<rparr>"

definition MlModels_useCreate :: "jsval \<Rightarrow> obj \<Rightarrow> command" where
  "MlModels_useCreate organizationId params =
     \<lparr>cm_request = createMlModel organizationId (Obj params),
      cm_settle = (\<lambda>st. if is_error ''CREATE_ML_MODEL'' st \<noteq> Some True then
         Resolved Undef else Rejected)\<rparr>"

definition MlModels_useUpdate :: "jsval \<Rightarrow> jsval \<Rightarrow> obj \<Rightarrow> command" where
  "MlModels_useUpdate organizationId modelId params =
     \<lparr>cm_request = updateMlModel organizationId modelId (Obj params),
      cm_settle = (\<lambda>st. if is_error ''UPDATE_ML_MODEL'' st \<noteq> Some True then
         Resolved Undef else Rejected)\<rparr>"

definition MlModels_useDelete :: "jsval \<Rightarrow> jsval \<Rightarrow> command" where
  "MlModels_useDelete organizationId modelId =
     \<lparr>cm_request = deleteMlModel organizationId modelId,
      cm_settle = (\<lambda>st. if is_error ''DELETE_ML_MODEL'' st \<noteq> Some True then
         Resolved Undef else Rejected)\<rparr>"

definition MlModels_useUpdateModelVersion :: "jsval \<Rightarrow> jsval \<Rightarrow> jsval \<Rightarrow> obj \<Rightarrow> command" where
  "MlModels_useUpdateModelVersion organizationId modelId runId params =
     \<lparr>cm_request = updateMlModelVersion organizationId modelId runId (Obj params),
      cm_settle = (\<lambda>st. if is_error ''UPDATE_ML_MODEL_VERSION'' st \<noteq> Some True
         then Resolved Undef else Rejected)\<rparr>"

definition MlRunsetTemplates_useCreateMlRunsetTemplate :: "jsval \<Rightarrow> obj \<Rightarrow> command" where
  "MlRunsetTemplates_useCreateMlRunsetTemplate organizationId params =
     \<lparr>cm_request = createMlRunsetTemplate organizationId (Obj params),
      cm_settle = (\<lambda>st. if is_error ''CREATE_ML_RUNSET_TEMPLATE'' st \<noteq> Some True
         then Resolved Undef else Rejected)\<rparr>"

definition MlRunsetTemplates_useUpdateRunsetTemplate :: "jsval \<Rightarrow> jsval \<Rightarrow> obj \<Rightarrow> command" where
  "MlRunsetTemplates_useUpdateRunsetTemplate organizationId runsetTemplateId params =
     \<lparr>cm_request = updateMlRunsetTemplate organizationId runsetTemplateId (Obj params),
      cm_settle = (\<lambda>st. if is_error ''UPDATE_ML_RUNSET_TEMPLATE'' st \<noteq> Some True
         then Resolved Undef else Rejected)\<rparr>"

definition MlRunsetTemplates_useDeleteMlRunsetTemplate :: "jsval \<Rightarrow> jsval \<Rightarrow> command" where
  "MlRunsetTemplates_useDeleteMlRunsetTemplate organizationId runsetTemplateId =
     \<lparr>cm_request = deleteMlRunsetTemplate organizationId runsetTemplateId,
      cm_settle = (\<lambda>st. if is_error ''DELETE_ML_RUNSET_TEMPLATE'' st \<noteq> Some True
         then Resolved Undef else Rejected)\<rparr>"

definition MlRunsets_useCreate :: "jsval \<Rightarrow> jsval \<Rightarrow> obj \<Rightarrow> command" where
  "MlRunsets_useCreate organizationId runsetTemplateId params =
     \<lparr>cm_request = createMlRunset organizationId runsetTemplateId (Obj params),
      cm_settle = (\<lambda>st. if is_error ''CREATE_ML_RUNSET'' st \<noteq> Some True then
         Resolved Undef else Rejected)\<rparr>"

definition MlRunsets_useStopRunset :: "jsval \<Rightarrow> jsval \<Rightarrow> command" where
  "MlRunsets_useStopRunset organizationId runsetId =
     \<lparr>cm_request = stopMlRunset organizationId runsetId,
      cm_settle = (\<lambda>st. if is_error ''STOP_ML_RUNSET'' st \<noteq> Some True then
         Resolved Undef else Rejected)\<rparr>"

definition MlTasks_useCreateTask :: "jsval \<Rightarrow> obj \<Rightarrow> command" where
  "MlTasks_useCreateTask organizationId params =
     \<lparr>cm_request = createMlTask organizationId (Obj params),
      cm_settle = (\<lambda>st. if is_error ''CREATE_ML_TASK'' st \<noteq> Some True then
         Resolved Undef else Rejected)\<rparr>"

definition MlTasks_useUpdateTask :: "jsval \<Rightarrow> jsval \<Rightarrow> obj \<Rightarrow> command" where
  "MlTasks_useUpdateTask organizationId taskId params =
     \<lparr>cm_request = updateMlTask organizationId taskId (Obj params),
      cm_settle = (\<lambda>st. if is_error ''UPDATE_ML_TASK'' st \<noteq> Some True then
         Resolved Undef else Rejected)\<rparr>"

definition MlTasks_useDeleteTask :: "jsval \<Rightarrow> jsval \<Rightarrow> command" where
  "MlTasks_useDeleteTask organizationId taskId =
     \<lparr>cm_request = deleteMlTask organizationId taskId,
      cm_settle = (\<lambda>st. if is_error ''DELETE_ML_TASK'' st \<noteq> Some True then
         Resolved Undef else Rejected)\<rparr>"

definition OrganizationConstraints_useCreate :: "jsval \<Rightarrow> obj \<Rightarrow> command" where
  "OrganizationConstraints_useCreate organizationId params =
     \<lparr>cm_request = createOrganizationConstraint organizationId (Obj params),
      cm_settle = (\<lambda>st. then_promise (checkError ''CREATE_ORGANIZATION_CONSTRAINT'' st)
         (Resolved Undef))\<rparr>"

definition OrganizationConstraints_useDelete :: "jsval \<Rightarrow> command" where
  "OrganizationConstraints_useDelete id_arg =
     \<lparr>cm_request = deleteOrganizationConstraint id_arg,
      cm_settle = (\<lambda>st. then_promise (checkError ''DELETE_ORGANIZATION_CONSTRAINT'' st)
         (Resolved Undef))\<rparr>"

definition OrganizationConstraints_useUpdate :: "jsval \<Rightarrow> obj \<Rightarrow> command" where
  "OrganizationConstraints_useUpdate id_arg params =
     \<lparr>cm_request = updateOrganizationConstraint id_arg (Obj params),
      cm_settle = (\<lambda>st. then_promise (checkError ''UPDATE_ORGANIZATION_CONSTRAINT'' st)
         (Resolved Undef))\<rparr>"

definition OrganizationOptions_useDeleteOption :: "jsval \<Rightarrow> jsval \<Rightarrow> command" where
  "OrganizationOptions_useDeleteOption organizationId name =
     \<lparr>cm_request = deleteOrganizationOption organizationId name,
      cm_settle = (\<lambda>st. then_promise (checkError ''DELETE_ORGANIZATION_OPTION'' st)
         (Resolved Undef))\<rparr>"

definition OrganizationOptions_useUpdateOption :: "jsval \<Rightarrow> jsval \<Rightarrow> jsval \<Rightarrow> command" where
  "OrganizationOptions_useUpdateOption organizationId name value =
     \<lparr>cm_request = updateOrganizationOption organizationId name value,
      cm_settle = (\<lambda>st. then_promise (checkError ''UPDATE_ORGANIZATION_OPTION'' st)
         (Resolved Undef))\<rparr>"

definition OrganizationOptions_useCreateOption :: "jsval \<Rightarrow> jsval \<Rightarrow> jsval \<Rightarrow> command" where
  "OrganizationOptions_useCreateOption organizationId name value =
     \<lparr>cm_request = createOrganizationOption organizationId name value,
      cm_settle = (\<lambda>st. then_promise (checkError ''CREATE_ORGANIZATION_OPTION'' st)
         (Resolved Undef))\<rparr>"

definition OrganizationOptions_useUpdateS3DuplicatedOrganizationSettings :: "jsval \<Rightarrow> jsval \<Rightarrow> command" where
  "OrganizationOptions_useUpdateS3DuplicatedOrganizationSettings organizationId value =
     \<lparr>cm_request = updateS3DuplicatesOrganizationSettings organizationId value,
      cm_settle = (\<lambda>st. if is_error ''UPDATE_S3_DUPLICATES_ORGANIZATION_SETTINGS'' st
         \<noteq> Some True then Resolved Undef else Rejected)\<rparr>"

definition PoolPolicy_useUpdateGlobalPoolPolicyLimit :: "jsval \<Rightarrow> jsval \<Rightarrow> command" where
  "PoolPolicy_useUpdateGlobalPoolPolicyLimit policyId limit_arg =
     \<lparr>cm_request = updateGlobalPoolPolicyLimit policyId limit_arg,
      cm_settle = (\<lambda>st. then_promise (checkError ''UPDATE_GLOBAL_POOL_POLICY_LIMIT'' st)
         (Resolved Undef))\<rparr>"

definition PoolPolicy_useUpdatePoolPolicyLimit :: "jsval \<Rightarrow> jsval \<Rightarrow> command" where
  "PoolPolicy_useUpdatePoolPolicyLimit policyId limit_arg =
     \<lparr>cm_request = updatePoolPolicyLimit policyId limit_arg,
      cm_settle = (\<lambda>st. then_promise (checkError ''UPDATE_POOL_POLICY_LIMIT'' st)
         (Resolved Undef))\<rparr>"

definition PoolPolicy_useUpdateGlobalPoolPolicyActivity :: "jsval \<Rightarrow> jsval \<Rightarrow> command" where
  "PoolPolicy_useUpdateGlobalPoolPolicyActivity policyId isActive =
     \<lparr>cm_request = updateGlobalPoolPolicyActivity policyId isActive,
      cm_settle = (\<lambda>st. then_promise (checkError ''UPDATE_GLOBAL_POOL_POLICY_ACTIVITY''
         st) (Resolved Undef))\<rparr>"

definition PoolPolicy_useUpdatePoolPolicyActivity :: "jsval \<Rightarrow> jsval \<Rightarrow> command" where
  "PoolPolicy_useUpdatePoolPolicyActivity policyId isActive =
     \<lparr>cm_request = updatePoolPolicyActivity policyId isActive,
      cm_settle = (\<lambda>st. then_promise (checkError ''UPDATE_POOL_POLICY_ACTIVITY'' st)
         (Resolved Undef))\<rparr>"

definition PoolPolicy_useCreateGlobalPoolPolicy :: "jsval \<Rightarrow> obj \<Rightarrow> command" where
  "PoolPolicy_useCreateGlobalPoolPolicy poolId params =
     \<lparr>cm_request = createGlobalPoolPolicy poolId params,
      cm_settle = (\<lambda>st. then_promise (checkError ''CREATE_GLOBAL_POOL_POLICY'' st)
         (Resolved Undef))\<rparr>"

definition PoolPolicy_useCreatePoolPolicy :: "jsval \<Rightarrow> obj \<Rightarrow> command" where
  "PoolPolicy_useCreatePoolPolicy poolId params =
     \<lparr>cm_request = createPoolPolicy poolId params,
      cm_settle = (\<lambda>st. then_promise (checkError ''CREATE_POOL_POLICY'' st) (Resolved
         Undef))\<rparr>"

definition Pools_useDelete :: "jsval \<Rightarrow> command" where
  "Pools_useDelete poolId =
     \<lparr>cm_request = deletePool poolId,
      cm_settle = (\<lambda>st. then_promise (rejectOnError ''DELETE_POOL'' st) (Resolved
         Undef))\<rparr>"

definition PowerSchedule_useCreate :: "jsval \<Rightarrow> obj \<Rightarrow> command" where
  "PowerSchedule_useCreate organizationId params =
     \<lparr>cm_request = createPowerSchedule organizationId (Obj params),
      cm_settle = (\<lambda>st. if is_error ''CREATE_POWER_SCHEDULES'' st \<noteq> Some True then
         Resolved Undef else Rejected)\<rparr>"

definition PowerSchedule_useDelete :: "jsval \<Rightarrow> command" where
  "PowerSchedule_useDelete powerScheduleId =
     \<lparr>cm_request = deletePowerSchedule powerScheduleId,
      cm_settle = (\<lambda>st. if is_error ''DELETE_POWER_SCHEDULE'' st \<noteq> Some True then
         Resolved Undef else Rejected)\<rparr>"

definition PowerSchedule_useUpdate :: "jsval \<Rightarrow> obj \<Rightarrow> command" where
  "PowerSchedule_useUpdate powerScheduleId params =
     \<lparr>cm_request = updatePowerSchedule powerScheduleId (Obj params),
      cm_settle = (\<lambda>st. if is_error ''UPDATE_POWER_SCHEDULE'' st \<noteq> Some True then
         Resolved Undef else Rejected)\<rparr>"

definition PowerSchedule_useAttachInstancesToSchedule :: "jsval \<Rightarrow> jsval \<Rightarrow> command" where
  "PowerSchedule_useAttachInstancesToSchedule powerScheduleId instancesToAttach =
     \<lparr>cm_request = attachInstancesToSchedule powerScheduleId instancesToAttach,
      cm_settle = (\<lambda>st. if is_error ''ATTACH_INSTANCES_TO_SCHEDULE'' st \<noteq> Some
         True then Resolved Undef else Rejected)\<rparr>"

definition PowerSchedule_useRemoveInstancesFromSchedule :: "jsval \<Rightarrow> jsval \<Rightarrow> command" where
  "PowerSchedule_useRemoveInstancesFromSchedule powerScheduleId instancesToRemove =
     \<lparr>cm_request = removeInstancesFromSchedule powerScheduleId instancesToRemove,
      cm_settle = (\<lambda>st. if is_error ''REMOVE_INSTANCES_FROM_SCHEDULE'' st \<noteq> Some
         True then Resolved Undef else Rejected)\<rparr>"

definition ResetPassword_useSendVerificationCode :: "jsval \<Rightarrow> obj \<Rightarrow> command" where
  "ResetPassword_useSendVerificationCode email linkParams =
     \<lparr>cm_request = restorePassword [(''email'', email), (''linkParams'', Obj linkParams)],
      cm_settle = (\<lambda>st. if is_error ''RESTORE_PASSWORD'' st \<noteq> Some True then
         Resolved Undef else Rejected)\<rparr>"

definition S3Duplicates_useCreate :: "jsval \<Rightarrow> obj \<Rightarrow> command" where
  "S3Duplicates_useCreate organizationId params =
     \<lparr>cm_request = createOrganizationGemini organizationId (Obj params),
      cm_settle = (\<lambda>st. if is_error ''CREATE_ORGANIZATION_GEMINI'' st \<noteq> Some True
         then Resolved Undef else Rejected)\<rparr>"

definition VerifyEmail_useSendEmailVerificationCode :: "jsval \<Rightarrow> obj \<Rightarrow> command" where
  "VerifyEmail_useSendEmailVerificationCode email linkParams =
     \<lparr>cm_request = verifyEmail [(''email'', email), (''linkParams'', Obj linkParams)],
      cm_settle = (\<lambda>st. if is_error ''VERIFY_EMAIL'' st \<noteq> Some True then Resolved
         Undef else Rejected)\<rparr>"

definition Webhooks_useCreate :: "jsval \<Rightarrow> jsval \<Rightarrow> jsval \<Rightarrow> jsval \<Rightarrow> jsval \<Rightarrow> command" where
  "Webhooks_useCreate organizationId objectId objectType url action_arg =
     \<lparr>cm_request = createWebhook organizationId [(''objectId'', objectId),
         (''objectType'', objectType), (''url'', url), (''action'', action_arg)],
      cm_settle = (\<lambda>st. then_promise (checkError ''CREATE_WEBHOOK'' st) (Resolved
         Undef))\<rparr>"

definition Webhooks_useUpdate :: "jsval \<Rightarrow> jsval \<Rightarrow> command" where
  "Webhooks_useUpdate webhookId url =
     \<lparr>cm_request = updateWebhook webhookId [(''url'', url)],
      cm_settle = (\<lambda>st. then_promise (checkError ''UPDATE_WEBHOOK'' st) (Resolved
         Undef))\<rparr>"

definition Webhooks_useDelete :: "jsval \<Rightarrow> command" where
  "Webhooks_useDelete webhookId =
     \<lparr>cm_request = deleteWebhook webhookId,
      cm_settle = (\<lambda>st. then_promise (checkError ''DELETE_WEBHOOK'' st) (Resolved
         Undef))\<rparr>"

definition CleanExpenses_useGetOnDemand :: "jsval \<Rightarrow> obj \<Rightarrow> command" where
  "CleanExpenses_useGetOnDemand organizationId params =
     \<lparr>cm_request = getCleanExpenses organizationId
         (mapCleanExpensesRequestParamsToApiParams params),
      cm_settle = (\<lambda>st. if is_error ''GET_CLEAN_EXPENSES'' st \<noteq> Some True then
         Resolved (current (st_restapi st) ''GET_CLEAN_EXPENSES'') else Rejected)\<rparr>"

definition MlMetrics_useAlwaysGetMlMetric :: "jsval \<Rightarrow> jsval \<Rightarrow> command" where
  "MlMetrics_useAlwaysGetMlMetric organizationId metricId =
     \<lparr>cm_request = getMlMetric organizationId metricId,
      cm_settle = (\<lambda>st. if is_error ''GET_ML_GLOBAL_METRIC'' st \<noteq> Some True then
         Resolved (current (st_restapi st) ''GET_ML_GLOBAL_METRIC'') else Rejected)\<rparr>"

definition OrganizationOptions_useUpdateRecommendationOptions :: "jsval \<Rightarrow> jsval \<Rightarrow> jsval \<Rightarrow> jsval \<Rightarrow> command" where
  "OrganizationOptions_useUpdateRecommendationOptions organizationId recommendationType options settingType =
     \<lparr>cm_request = updateOptimizationOptions settingType [(''organizationId'',
         organizationId), (''recommendationType'', recommendationType)] (Obj [(''value'',
         json_stringify (Obj (obj_spread (obj_spread [] (own_props options)) [(''isUpdated'',
         Bool True)])))]),
      cm_settle = (\<lambda>st. if is_error ''UPDATE_OPTIMIZATION_OPTIONS'' st \<noteq> Some True
         then Resolved Undef else Rejected)\<rparr>"

lemmas plain_command_defs =
  BIExport_useCreate_def BIExport_useUpdate_def BIExport_useDelete_def
  CloudResources_useGetOnDemandOrganizationCloudResources_def
  DataSourceSkus_useUpdateDataSourceSku_def DataSources_useUpdateDataSource_def
  DataSources_useCreateSurvey_def Layouts_useGetOneOnDemand_def Layouts_useCreate_def
  Layouts_useUpdate_def OrganizationConstraints_useCreate_def
  OrganizationConstraints_useDelete_def OrganizationConstraints_useUpdate_def
  OrganizationOptions_useDeleteOption_def OrganizationOptions_useUpdateOption_def
  OrganizationOptions_useCreateOption_def
  OrganizationOptions_useUpdateS3DuplicatedOrganizationSettings_def
  PoolPolicy_useUpdateGlobalPoolPolicyLimit_def PoolPolicy_useUpdatePoolPolicyLimit_def
  PoolPolicy_useUpdateGlobalPoolPolicyActivity_def PoolPolicy_useUpdatePoolPolicyActivity_def
  PoolPolicy_useCreateGlobalPoolPolicy_def PoolPolicy_useCreatePoolPolicy_def Pools_useDelete_def
  PowerSchedule_useCreate_def PowerSchedule_useDelete_def PowerSchedule_useUpdate_def
  PowerSchedule_useAttachInstancesToSchedule_def PowerSchedule_useRemoveInstancesFromSchedule_def
  ResetPassword_useSendVerificationCode_def S3Duplicates_useCreate_def
  VerifyEmail_useSendEmailVerificationCode_def Webhooks_useCreate_def Webhooks_useUpdate_def
  Webhooks_useDelete_def CleanExpenses_useGetOnDemand_def
  OrganizationOptions_useUpdateRecommendationOptions_def

inductive command_plain :: "command \<Rightarrow> bool" where
  k_BIExport_useCreate: "command_plain (BIExport_useCreate organizationId params)"
| k_BIExport_useUpdate: "command_plain (BIExport_useUpdate biExportId params)"
| k_BIExport_useDelete: "command_plain (BIExport_useDelete biExportId)"
| k_CloudResources_useGetOnDemandOrganizationCloudResources: "command_plain (CloudResources_useGetOnDemandOrganizationCloudResources organizationId params)"
| k_DataSourceSkus_useUpdateDataSourceSku: "command_plain (DataSourceSkus_useUpdateDataSourceSku dataSourceId value)"
| k_DataSources_useUpdateDataSource: "command_plain (DataSources_useUpdateDataSource id_arg params)"
| k_DataSources_useCreateSurvey: "command_plain (DataSources_useCreateSurvey organizationId type_arg payload)"
| k_Layouts_useGetOneOnDemand: "command_plain (Layouts_useGetOneOnDemand organizationId layoutId params)"
| k_Layouts_useCreate: "command_plain (Layouts_useCreate organizationId params)"
| k_Layouts_useUpdate: "command_plain (Layouts_useUpdate organizationId id_arg params)"
| k_OrganizationConstraints_useCreate: "command_plain (OrganizationConstraints_useCreate organizationId params)"
| k_OrganizationConstraints_useDelete: "command_plain (OrganizationConstraints_useDelete id_arg)"
| k_OrganizationConstraints_useUpdate: "command_plain (OrganizationConstraints_useUpdate id_arg params)"
| k_OrganizationOptions_useDeleteOption: "command_plain (OrganizationOptions_useDeleteOption organizationId name)"
| k_OrganizationOptions_useUpdateOption: "command_plain (OrganizationOptions_useUpdateOption organizationId name value)"
| k_OrganizationOptions_useCreateOption: "command_plain (OrganizationOptions_useCreateOption organizationId name value)"
| k_OrganizationOptions_useUpdateS3DuplicatedOrganizationSettings: "command_plain (OrganizationOptions_useUpdateS3DuplicatedOrganizationSettings organizationId value)"
| k_PoolPolicy_useUpdateGlobalPoolPolicyLimit: "command_plain (PoolPolicy_useUpdateGlobalPoolPolicyLimit policyId limit_arg)"
| k_PoolPolicy_useUpdatePoolPolicyLimit: "command_plain (PoolPolicy_useUpdatePoolPolicyLimit policyId limit_arg)"
| k_PoolPolicy_useUpdateGlobalPoolPolicyActivity: "command_plain (PoolPolicy_useUpdateGlobalPoolPolicyActivity policyId isActive)"
| k_PoolPolicy_useUpdatePoolPolicyActivity: "command_plain (PoolPolicy_useUpdatePoolPolicyActivity policyId isActive)"
| k_PoolPolicy_useCreateGlobalPoolPolicy: "command_plain (PoolPolicy_useCreateGlobalPoolPolicy poolId params)"
| k_PoolPolicy_useCreatePoolPolicy: "command_plain (PoolPolicy_useCreatePoolPolicy poolId params)"
| k_Pools_useDelete: "command_plain (Pools_useDelete poolId)"
| k_PowerSchedule_useCreate: "command_plain (PowerSchedule_useCreate organizationId params)"
| k_PowerSchedule_useDelete: "command_plain (PowerSchedule_useDelete powerScheduleId)"
| k_PowerSchedule_useUpdate: "command_plain (PowerSchedule_useUpdate powerScheduleId params)"
| k_PowerSchedule_useAttachInstancesToSchedule: "command_plain (PowerSchedule_useAttachInstancesToSchedule powerScheduleId instancesToAttach)"
| k_PowerSchedule_useRemoveInstancesFromSchedule: "command_plain (PowerSchedule_useRemoveInstancesFromSchedule powerScheduleId instancesToRemove)"
| k_ResetPassword_useSendVerificationCode: "command_plain (ResetPassword_useSendVerificationCode email linkParams)"
| k_S3Duplicates_useCreate: "command_plain (S3Duplicates_useCreate organizationId params)"
| k_VerifyEmail_useSendEmailVerificationCode: "command_plain (VerifyEmail_useSendEmailVerificationCode email linkParams)"
| k_Webhooks_useCreate: "command_plain (Webhooks_useCreate organizationId objectId objectType url action_arg)"
| k_Webhooks_useUpdate: "command_plain (Webhooks_useUpdate webhookId url)"
| k_Webhooks_useDelete: "command_plain (Webhooks_useDelete webhookId)"
| k_CleanExpenses_useGetOnDemand: "command_plain (CleanExpenses_useGetOnDemand organizationId params)"
| k_OrganizationOptions_useUpdateRecommendationOptions: "command_plain (OrganizationOptions_useUpdateRecommendationOptions organizationId recommendationType options settingType)"

lemmas ml_command_defs =
  MlArtifacts_useUpdate_def MlArtifacts_useCreate_def MlArtifacts_useDelete_def
  MlDatasets_useCreate_def MlDatasets_useUpdate_def MlDatasets_useDelete_def
  MlLeaderboards_useGetLeaderboardTemplateOnDemand_def
  MlLeaderboards_useCreateLeaderboardTemplate_def MlLeaderboards_useUpdateLeaderboardTemplate_def
  MlLeaderboards_useGetLeaderboardsOnDemand_def MlLeaderboards_useGetLeaderboardOnDemand_def
  MlLeaderboards_useCreateLeaderboard_def MlLeaderboards_useUpdateLeaderboard_def
  MlLeaderboards_useDeleteLeaderboard_def MlLeaderboards_useGetLeaderboardCandidatesOnDemand_def
  MlMetrics_useCreateMlMetric_def MlMetrics_useUpdateMlMetric_def MlMetrics_useDeleteMlMetric_def
  MlModels_useCreate_def MlModels_useUpdate_def MlModels_useDelete_def
  MlModels_useUpdateModelVersion_def MlRunsetTemplates_useCreateMlRunsetTemplate_def
  MlRunsetTemplates_useUpdateRunsetTemplate_def MlRunsetTemplates_useDeleteMlRunsetTemplate_def
  MlRunsets_useCreate_def MlRunsets_useStopRunset_def MlTasks_useCreateTask_def
  MlTasks_useUpdateTask_def MlTasks_useDeleteTask_def MlMetrics_useAlwaysGetMlMetric_def

inductive command_ml :: "command \<Rightarrow> bool" where
  k_MlArtifacts_useUpdate: "command_ml (MlArtifacts_useUpdate organizationId applicationId params)"
| k_MlArtifacts_useCreate: "command_ml (MlArtifacts_useCreate organizationId params)"
| k_MlArtifacts_useDelete: "command_ml (MlArtifacts_useDelete organizationId artifactId)"
| k_MlDatasets_useCreate: "command_ml (MlDatasets_useCreate organizationId params)"
| k_MlDatasets_useUpdate: "command_ml (MlDatasets_useUpdate organizationId id_arg params)"
| k_MlDatasets_useDelete: "command_ml (MlDatasets_useDelete organizationId id_arg)"
| k_MlLeaderboards_useGetLeaderboardTemplateOnDemand: "command_ml (MlLeaderboards_useGetLeaderboardTemplateOnDemand organizationId taskId)"
| k_MlLeaderboards_useCreateLeaderboardTemplate: "command_ml (MlLeaderboards_useCreateLeaderboardTemplate organizationId taskId params)"
| k_MlLeaderboards_useUpdateLeaderboardTemplate: "command_ml (MlLeaderboards_useUpdateLeaderboardTemplate organizationId id_arg params)"
| k_MlLeaderboards_useGetLeaderboardsOnDemand: "command_ml (MlLeaderboards_useGetLeaderboardsOnDemand organizationId leaderboardTemplateId)"
| k_MlLeaderboards_useGetLeaderboardOnDemand: "command_ml (MlLeaderboards_useGetLeaderboardOnDemand organizationId leaderboardId)"
| k_MlLeaderboards_useCreateLeaderboard: "command_ml (MlLeaderboards_useCreateLeaderboard organizationId leaderboardTemplateId params)"
| k_MlLeaderboards_useUpdateLeaderboard: "command_ml (MlLeaderboards_useUpdateLeaderboard organizationId leaderboardId params)"
| k_MlLeaderboards_useDeleteLeaderboard: "command_ml (MlLeaderboards_useDeleteLeaderboard organizationId leaderboardId)"
| k_MlLeaderboards_useGetLeaderboardCandidatesOnDemand: "command_ml (MlLeaderboards_useGetLeaderboardCandidatesOnDemand organizationId leaderboardId)"
| k_MlMetrics_useCreateMlMetric: "command_ml (MlMetrics_useCreateMlMetric organizationId params)"
| k_MlMetrics_useUpdateMlMetric: "command_ml (MlMetrics_useUpdateMlMetric organizationId metricId params)"
| k_MlMetrics_useDeleteMlMetric: "command_ml (MlMetrics_useDeleteMlMetric organizationId metricId)"
| k_MlModels_useCreate: "command_ml (MlModels_useCreate organizationId params)"
| k_MlModels_useUpdate: "command_ml (MlModels_useUpdate organizationId modelId params)"
| k_MlModels_useDelete: "command_ml (MlModels_useDelete organizationId modelId)"
| k_MlModels_useUpdateModelVersion: "command_ml (MlModels_useUpdateModelVersion organizationId modelId runId params)"
| k_MlRunsetTemplates_useCreateMlRunsetTemplate: "command_ml (MlRunsetTemplates_useCreateMlRunsetTemplate organizationId params)"
| k_MlRunsetTemplates_useUpdateRunsetTemplate: "command_ml (MlRunsetTemplates_useUpdateRunsetTemplate organizationId runsetTemplateId params)"
| k_MlRunsetTemplates_useDeleteMlRunsetTemplate: "command_ml (MlRunsetTemplates_useDeleteMlRunsetTemplate organizationId runsetTemplateId)"
| k_MlRunsets_useCreate: "command_ml (MlRunsets_useCreate organizationId runsetTemplateId params)"
| k_MlRunsets_useStopRunset: "command_ml (MlRunsets_useStopRunset organizationId runsetId)"
| k_MlTasks_useCreateTask: "command_ml (MlTasks_useCreateTask organizationId params)"
| k_MlTasks_useUpdateTask: "command_ml (MlTasks_useUpdateTask organizationId taskId params)"
| k_MlTasks_useDeleteTask: "command_ml (MlTasks_useDeleteTask organizationId taskId)"
| k_MlMetrics_useAlwaysGetMlMetric: "command_ml (MlMetrics_useAlwaysGetMlMetric organizationId metricId)"


end
