(* ===== verification/ServiceFacts.thy ===== *)
theory ServiceFacts
  imports ServiceReads ServiceCommands
begin

text \<open>
  The service hooks taken together: every hook fetches under the label it reads, all but a few use
  the parameters their request is cached by, and the commands settle by the status of their own
  request.
\<close>

section \<open>All hooks\<close>

definition service_read :: "read_hook \<Rightarrow> bool" where
  "service_read h \<longleftrightarrow> read_plain h \<or> read_ml h"

definition service_command :: "command \<Rightarrow> bool" where
  "service_command c \<longleftrightarrow> command_plain c \<or> command_ml c"

lemmas action_defs = org_action_defs resource_action_defs ml_action_defs ops_action_defs
  auth_action_defs apiAction_def Let_def

lemma plain_own_label: "read_plain h \<Longrightarrow> own_label h"
  by (erule read_plain.cases) (simp_all add: own_label_def plain_read_defs action_defs)

lemma ml_own_label: "read_ml h \<Longrightarrow> own_label h"
  by (erule read_ml.cases) (simp_all add: own_label_def ml_read_defs action_defs)

lemma plain_settles_own: "command_plain c \<Longrightarrow> settles_own c \<or> rq_label (cm_request c) = ''DELETE_POOL''"
  by (erule command_plain.cases) (simp_all add: settles_own_def plain_command_defs action_defs settle_simps)

lemma ml_settles_own: "command_ml c \<Longrightarrow> settles_own c"
  by (erule command_ml.cases) (simp_all add: settles_own_def ml_command_defs action_defs settle_simps)

lemma service_settles: "service_command c \<Longrightarrow> settles_own c \<or> rq_label (cm_request c) = ''DELETE_POOL''"
  using plain_settles_own ml_settles_own by (auto simp: service_command_def)

lemma delete_pool_resolves: "cm_settle (Pools_useDelete i) st = Resolved Undef"
  by (simp add: Pools_useDelete_def settle_simps)

text \<open>
  The hooks whose parameters may differ from those of their request: six labels, two of them only
  when the hook is called without an argument.
\<close>

definition mismatched :: "read_hook \<Rightarrow> bool" where
  "mismatched h \<longleftrightarrow>
     rd_label h \<in> {''GET_ML_DATASET'', ''GET_ML_TASK_MODEL_VERSIONS'', ''GET_ORGANIZATION_CONSTRAINTS'', ''GET_LAYOUTS''}
     \<or> rd_label h = ''GET_ORGANIZATION_OPTIONS'' \<and> opt_prop (rd_params h) ''withValues'' = Undef
     \<or> rd_label h = ''GET_OPTIMIZATIONS_OVERVIEW'' \<and> opt_prop (rd_params h) ''cloudAccountIds'' = Undef"

lemma two_keys: "k \<noteq> k' \<Longrightarrow> CHR '','' \<notin> set k \<Longrightarrow> CHR '','' \<notin> set k' \<Longrightarrow>
    hashParams (Obj [(k, v), (k', v')]) = hashParams (Obj [(k', v'), (k, v)])"
  by (rule hashParams_perm) auto

lemma last_key: "k \<noteq> k1 \<Longrightarrow> k \<noteq> k2 \<Longrightarrow> k1 \<noteq> k2 \<Longrightarrow> list_all (\<lambda>k. CHR '','' \<notin> set k) [k, k1, k2] \<Longrightarrow>
    hashParams (Obj [(k, v), (k1, v1), (k2, v2)]) = hashParams (Obj [(k1, v1), (k2, v2), (k, v)])"
  by (rule hashParams_perm) auto

lemma obj_insert_name: "\<not> is_index k \<Longrightarrow> obj_insert k v kvs = kvs @ [(k, v)]"
  by (induction k v kvs rule: obj_insert.induct) simp_all

lemma name_not_index: "\<not> is_digit c \<Longrightarrow> \<not> is_index (c # cs)"
  by (simp add: is_index_def)

lemmas spread_eval = obj_spread_def obj_set_def obj_insert_name name_not_index is_digit_def

lemma ml_coherent: "read_ml h \<Longrightarrow> coherent h \<or> mismatched h"
  by (erule read_ml.cases)
    (simp_all add: coherent_def ml_read_defs action_defs mismatched_def spread_eval)

lemma plain_coherent: "read_plain h \<Longrightarrow> coherent h \<or> mismatched h"
proof (erule read_plain.cases)
qed (simp_all add: coherent_def plain_read_defs action_defs mismatched_def spread_eval js_default_def two_keys last_key)

lemma service_own_label: "service_read h \<Longrightarrow> own_label h"
  using plain_own_label ml_own_label by (auto simp: service_read_def)

lemma service_coherent: "service_read h \<Longrightarrow> coherent h \<or> mismatched h"
  using plain_coherent ml_coherent by (auto simp: service_read_def)


section \<open>A hook and its request\<close>

text \<open>
  What a hook owes its component: it fetches its own label, under the key it reads with.  After its
  request succeeded, such a hook fetches again when the time to live has passed, and not before.
\<close>

locale cached_reads =
  fixes reads :: "read_hook \<Rightarrow> bool"
  assumes own: "reads h \<Longrightarrow> own_label h"
    and key: "reads h \<Longrightarrow> coherent h"
begin

lemma refetches:
  assumes "reads h" "rd_request h = fl_request fl"
    and run: "reachable cav False w" "w_flights w i = Some fl" "rm_view (w_requests w) i = Some l"
    "single_flight w l" "then_callback cav (w_now w) (w_requests w) (fl_request fl) resp (w_store w) = (st, None)"
  shows "rd_effect now st h =
    (if rd_enabled h \<and> now > w_now w + rq_ttl (rd_request h) then Some (rd_request h) else None)"
proof -
  note r = refreshed [OF run]
  have "rd_label h = l" using own [OF assms(1)] r(1) assms(2) by (simp add: own_label_def)
  moreover have "rd_params h = Undef \<or> hashParams (rd_params h) = rq_hash (fl_request fl)"
    using key [OF assms(1)] assms(2) by (auto simp: coherent_def)
  ultimately show ?thesis
    using fresh_until_ttl [OF r(2,3)] assms(2) by (simp add: rd_effect_def rd_state_def)
qed

text \<open>A request of another label that makes nothing of the hook's stale leaves its effect alone.\<close>

lemma unaffected:
  assumes "reads h" "then_callback cav now rm rq resp st = (st', None)" "rd_label h \<noteq> rq_label rq"
    "rd_label h \<notin> set (getAffectedRequests (rq_label rq) rm)"
  shows "rd_effect t st' h = rd_effect t st h"
proof -
  have "entry_of (st_api st') (rd_label h) = entry_of (st_api st) (rd_label h)"
    using then_done(4) [OF assms(2)] assms(3,4) by simp
  then show ?thesis by (simp add: rd_effect_def rd_state_def useApiState_def is_error_def)
qed

end

interpretation services: cached_reads "\<lambda>h. service_read h \<and> \<not> mismatched h"
  by unfold_locales (use service_own_label service_coherent in auto)

text \<open>While the keys differ, every run of the effect asks.\<close>

lemma key_differs:
  assumes "rd_params h \<noteq> Undef" "cache_key st (rd_label h) = rq_hash (rd_request h)"
    "\<not> strict_eq (hashParams (rd_params h)) (js_coalesce (rq_hash (rd_request h)) (Num 0))"
  shows "hk_shouldInvoke (rd_state now st h)"
  using assms by (simp add: rd_state_def shouldInvoke_iff)

text \<open>The mismatched hooks at sample arguments.\<close>

definition mismatch_samples :: "read_hook list" where
  "mismatch_samples =
    [MlDatasets_useGet (Str ''o'') (Str ''d''),
     MlTasks_useGetTaskModelVersions (Str ''o'') (Str ''t''),
     OrganizationConstraints_useGetAll (Str ''o'') (Str ''resource_quota''),
     Layouts_useGetAll (Str ''o'') (Str ''ml_run_charts_dashboard'') (Str ''e'') (Bool True) (Str ''a''),
     OrganizationOptions_useGet (Str ''o'') Undef,
     RecommendationsOverview_useGetOptimizationsOverview (Str ''o'') Undef]"

lemma mismatch_samples_keys:
  "list_all (\<lambda>h. rd_params h \<noteq> Undef \<and> rd_enabled h
     \<and> \<not> strict_eq (hashParams (rd_params h)) (js_coalesce (rq_hash (rd_request h)) (Num 0))) mismatch_samples"
  by code_simp

lemma mismatch_samples_own: "list_all (\<lambda>h. rq_label (rd_request h) = rd_label h) mismatch_samples"
  by code_simp

lemma mismatch_samples_ask:
  assumes "h \<in> set mismatch_samples" "cache_key st (rd_label h) = rq_hash (rd_request h)"
  shows "rd_effect now st h = Some (rd_request h)"
  using mismatch_samples_keys assms key_differs [of h st now] by (auto simp: list_all_iff rd_effect_def)

section \<open>The outcome of a command\<close>

text \<open>Commands that settle by the status of their own request report its outcome.\<close>

locale settling =
  fixes commands :: "command \<Rightarrow> bool"
  assumes own: "commands c \<Longrightarrow> settles_own c"
begin

lemma resolved:
  assumes "commands c" "fl_request fl = cm_request c"
    "then_callback cav (w_now w) (w_requests w) (fl_request fl) resp (w_store w) = (st, None)"
  shows "cm_settle c (w_store (do_finally cav i fl' (do_then cav i fl resp w))) \<noteq> Rejected"
  using own [OF assms(1)] assms(2) then_records [OF assms(3), of i]
  by (simp add: settles_own_def finally_keeps_error)

lemma rejected:
  assumes "commands c" "fl_request fl = cm_request c" "reported f"
  shows "cm_settle c (w_store (do_finally cav i fl' (do_catch cav i fl f w))) = Rejected"
  using own [OF assms(1)] assms(2) catch_records [OF assms(3), of fl cav i w]
  by (simp add: settles_own_def finally_keeps_error)

text \<open>An exception of the success callback leaves the outcome as it was before.\<close>

lemma thrown:
  assumes "commands c"
  shows "cm_settle c (w_store (do_finally cav i fl' (do_catch cav i fl (Thrown e) w))) = Rejected
      \<longleftrightarrow> cm_settle c (w_store w) = Rejected"
  using own [OF assms] by (simp add: settles_own_def finally_keeps_error do_catch_def catch_callback_def)

end

interpretation submits: settling "\<lambda>c. service_command c \<and> rq_label (cm_request c) \<noteq> ''DELETE_POOL''"
  by unfold_locales (use service_settles in auto)

end
