(* ===== verification/Migrations.thy ===== *)
theory Migrations
  imports DataCases
begin

text \<open>
  \<open>migrations.ts\<close>: what the persisted state goes through when a newer version of the program reads
  it.  A state is the object of the slices.  The driver \<open>createMigrate\<close> belongs to redux-persist
  and is an argument, \<open>migrates_in_order\<close> is its documented behaviour; \<open>millisecondsToSeconds\<close>
  belongs to date-fns and is the argument \<open>toSeconds\<close>.
\<close>

section \<open>The migrations\<close>

text \<open>\<open>{ ...state, [k]: v }\<close>, and \<open>Object.fromEntries(Object.entries(v).map(([k, x]) => [k, f(x)]))\<close>.\<close>

definition updated :: "obj \<Rightarrow> string \<Rightarrow> jsval \<Rightarrow> obj" where
  "updated state k v = obj_spread (obj_spread [] state) [(k, v)]"

definition map_entries :: "(jsval \<Rightarrow> jsval js) \<Rightarrow> jsval \<Rightarrow> jsval js" where
  "map_entries f v =
     bind_js (entries_js v) (\<lambda>es.
     map_js (\<lambda>es'. Obj (from_entries es')) (mapM_js (\<lambda>(k, x). map_js (Pair k) (f x)) es))"

definition migrate_2 :: "(jsval \<Rightarrow> jsval) \<Rightarrow> obj \<Rightarrow> obj js" where
  "migrate_2 toSeconds state =
     map_js (updated state ''rangeDates'')
       (map_entries (map_entries (\<lambda>value. Inr (toSeconds value))) (obj_get state ''rangeDates''))"

definition migrate_3 :: "obj \<Rightarrow> obj js" where
  "migrate_3 state = Inr (obj_remove ''mainMenuItems'' state)"

definition migrate_4 :: "obj \<Rightarrow> obj js" where
  "migrate_4 state =
     Inr (updated (obj_remove ''productTour'' state) ''tours''
       (Obj (obj_spread (own_props (obj_get state ''tours''))
         [(''productTour'', Obj (own_props (obj_get state ''productTour'')))])))"

definition migrate_5 :: "obj \<Rightarrow> obj js" where
  "migrate_5 state =
     (let singleIdState = obj_get state ''topAlertClose'' in
      Inr (updated state ''topAlertClose''
        (if truthy singleIdState then Arr [Obj [(''id'', singleIdState), (''closed'', Bool True)]] else Arr [])))"

definition migrate_6 :: "obj \<Rightarrow> obj js" where
  "migrate_6 state =
     bind_js (as_array (obj_get state ''topAlertClose'')) (\<lambda>elements.
     map_js (\<lambda>patchedData. updated state ''topAlertClose'' (Arr patchedData))
       (mapM_js (\<lambda>element. map_js (\<lambda>i.
          if strict_eq i (Num 3)
          then Obj [(''id'', Num 3), (''closed'', Bool False), (''triggered'', Bool False)]
          else element) (get_prop element ''id'')) elements))"

definition migrate_7 :: "obj \<Rightarrow> obj js" where
  "migrate_7 state = Inr (updated (obj_remove ''topAlertClose'' state) ''alerts'' (Obj []))"

definition migrate_8 :: "obj \<Rightarrow> obj js" where
  "migrate_8 state = Inr (updated state ''isExistingUser'' (Bool True))"

text \<open>The shared body of 9, 15 and 16: the alerts of every organization without one id.\<close>

definition without_alert :: "rat \<Rightarrow> obj \<Rightarrow> obj js" where
  "without_alert n state =
     map_js (updated state ''alerts'')
       (map_entries (\<lambda>payload. bind_js (as_array payload) (\<lambda>alerts.
          map_js Arr (filterM_js (\<lambda>a. map_js (\<lambda>i. \<not> strict_eq i (Num n)) (get_prop a ''id'')) alerts)))
        (obj_get state ''alerts''))"

definition migrate_9 :: "obj \<Rightarrow> obj js" where
  "migrate_9 state = without_alert 1 state"

definition migrate_10 :: "obj \<Rightarrow> obj js" where
  "migrate_10 state =
     map_js (\<lambda>items. updated state ''collapsedMenuItems'' (Arr (unique (items @ [Str ''sandbox'']))))
       (iterate (js_or (obj_get state ''collapsedMenuItems'') (Arr [])))"

definition migrate_13 :: "obj \<Rightarrow> obj js" where
  "migrate_13 state =
     map_js (updated (obj_remove ''modelBreakdown'' state) ''taskBreakdown'')
       (map_entries (\<lambda>payload. map_js (\<lambda>runs.
          Obj (obj_spread (obj_spread [] (own_props payload)) [(''runs_breakdown'', runs)]))
          (get_prop payload ''model_runs''))
        (obj_get state ''modelBreakdown''))"

definition migrate_14 :: "obj \<Rightarrow> obj js" where
  "migrate_14 state =
     map_js (updated (obj_remove ''taskBreakdown'' state) ''taskBreakdown'')
       (map_entries (\<lambda>payload. map_js (\<lambda>leaderboardId.
          Obj (obj_spread (obj_spread [] (obj_remove ''leaderboard_dataset_id'' (own_props payload)))
            [(''leaderboard_id'', leaderboardId)]))
          (get_prop payload ''leaderboard_dataset_id''))
        (obj_get state ''taskBreakdown''))"

definition migrate_15 :: "obj \<Rightarrow> obj js" where
  "migrate_15 state = without_alert 6 state"

definition migrate_16 :: "obj \<Rightarrow> obj js" where
  "migrate_16 state = without_alert 4 state"

definition CURRENT_VERSION :: nat where "CURRENT_VERSION = 16"

definition migrations :: "(jsval \<Rightarrow> jsval) \<Rightarrow> (nat \<times> (obj \<Rightarrow> obj js)) list" where
  "migrations toSeconds =
    [(2, migrate_2 toSeconds), (3, migrate_3), (4, migrate_4), (5, migrate_5), (6, migrate_6),
     (7, migrate_7), (8, migrate_8), (9, migrate_9), (10, migrate_10), (13, migrate_13),
     (14, migrate_14), (15, migrate_15), (16, migrate_16)]"

text \<open>
  The driver applies, in ascending order of version, the migrations above the version of the state
  up to the current one; an exception ends it.
\<close>

definition migrates_in_order ::
  "((nat \<times> (obj \<Rightarrow> obj js)) list \<Rightarrow> nat \<Rightarrow> nat \<Rightarrow> obj \<Rightarrow> obj js) \<Rightarrow> bool" where
  "migrates_in_order createMigrate \<longleftrightarrow> (\<forall>ms current inbound state.
     createMigrate ms current inbound state =
       foldM_js (\<lambda>st (v, m). m st) state
         (filter (\<lambda>(v, m). inbound < v \<and> v \<le> current) (sort_key fst ms)))"

section \<open>Objects as maps\<close>

lemma obj_get_updated:
  "distinct (map fst st) \<Longrightarrow> obj_get (updated st k v) k' = (if k' = k then v else obj_get st k')"
  by (simp add: updated_def obj_get_spread obj_get_absent)

lemma distinct_updated: "distinct (map fst (updated st k v))"
  by (simp add: updated_def distinct_obj_spread)

lemma distinct_removed: "distinct (map fst st) \<Longrightarrow> distinct (map fst (obj_remove k st))"
  by (simp add: obj_remove_def distinct_map_filter)

text \<open>\<open>v\<close> is an object with the entries of the map \<open>f\<close>.\<close>

definition entries_are :: "jsval \<Rightarrow> (string \<rightharpoonup> jsval) \<Rightarrow> bool" where
  "entries_are v f \<longleftrightarrow> (\<exists>es. v = Obj es \<and> distinct (map fst es) \<and> map_of es = f)"

lemma map_entries_are:
  assumes "entries_are v f" "\<And>k x. f k = Some x \<Longrightarrow> h x = Inr (g x)"
  shows "\<exists>v'. map_entries h v = Inr v' \<and> entries_are v' (map_option g \<circ> f)"
proof -
  obtain es where es: "v = Obj es" "distinct (map fst es)" "map_of es = f"
    using assms(1) by (auto simp: entries_are_def)
  let ?es' = "map (\<lambda>(k, x). (k, g x)) es"
  have "h x = Inr (g x)" if "(k, x) \<in> set es" for k x
    using assms(2) map_of_is_SomeI [OF es(2) that] es(3) by blast
  then have "mapM_js (\<lambda>(k, x). map_js (Pair k) (h x)) es = Inr ?es'"
    by (intro mapM_js_total) auto
  then have run: "map_entries h v = Inr (Obj (from_entries ?es'))"
    by (simp add: map_entries_def es(1) entries_js_def)
  have "map fst ?es' = map fst es" by auto
  then have "map_of (from_entries ?es') = map_of ?es'"
    using es(2) unfolding from_entries_def map_of_fold_obj_set
    by (simp only: map_of_rev_distinct) simp
  also have "\<dots> = map_option g \<circ> f" using es(3) by (simp add: map_of_map)
  finally show ?thesis using run distinct_from_entries by (auto simp: entries_are_def)
qed

section \<open>What each migration does to the maps\<close>

text \<open>The alerts of the organizations, and the objects under a key.\<close>

definition alerts_are :: "obj \<Rightarrow> (string \<rightharpoonup> obj list) \<Rightarrow> bool" where
  "alerts_are st f \<longleftrightarrow> entries_are (obj_get st ''alerts'') (\<lambda>o'. map_option (\<lambda>ps. Arr (map Obj ps)) (f o'))"

definition objects_are :: "string \<Rightarrow> obj \<Rightarrow> (string \<rightharpoonup> obj) \<Rightarrow> bool" where
  "objects_are k st f \<longleftrightarrow> entries_are (obj_get st k) (\<lambda>t. map_option Obj (f t))"

definition without_id :: "rat \<Rightarrow> obj list \<Rightarrow> obj list" where
  "without_id n ps = filter (\<lambda>p. obj_get p ''id'' \<noteq> Num n) ps"

text \<open>\<open>st'\<close> is \<open>st\<close> but for the keys \<open>K\<close>.\<close>

definition only_changes :: "string set \<Rightarrow> obj \<Rightarrow> obj \<Rightarrow> bool" where
  "only_changes K st st' \<longleftrightarrow> distinct (map fst st') \<and> (\<forall>k. k \<notin> K \<longrightarrow> obj_get st' k = obj_get st k)"

lemma only_changes_trans:
  "only_changes K st st1 \<Longrightarrow> only_changes L st1 st2 \<Longrightarrow> only_changes (K \<union> L) st st2"
  by (simp add: only_changes_def)

lemma only_changes_updated:
  "distinct (map fst st) \<Longrightarrow> only_changes {k} st (updated st k v)"
  "distinct (map fst st) \<Longrightarrow> only_changes {k, k'} st (updated (obj_remove k' st) k v)"
  by (simp_all add: only_changes_def distinct_updated obj_get_updated distinct_removed)

lemma alert_filter:
  "filterM_js (\<lambda>a. map_js (\<lambda>i. \<not> strict_eq i (Num n)) (get_prop a ''id'')) (map Obj ps)
     = Inr (map Obj (without_id n ps))"
  unfolding without_id_def by (rule filterM_objects) (simp add: strict_eq_def, force)

lemma without_alert_spec:
  assumes "distinct (map fst st)" "alerts_are st f"
  shows "\<exists>st'. without_alert n st = Inr st' \<and> only_changes {''alerts''} st st'
    \<and> alerts_are st' (map_option (without_id n) \<circ> f)"
proof -
  let ?h = "\<lambda>payload. bind_js (as_array payload) (\<lambda>alerts. map_js Arr
    (filterM_js (\<lambda>a. map_js (\<lambda>i. \<not> strict_eq i (Num n)) (get_prop a ''id'')) alerts))"
  let ?g = "\<lambda>v. case v of Arr vs \<Rightarrow> Arr (filter (\<lambda>a. opt_prop a ''id'' \<noteq> Num n) vs) | _ \<Rightarrow> v"
  have g: "?g (Arr (map Obj ps)) = Arr (map Obj (without_id n ps))" for ps
    by (simp add: without_id_def filter_map comp_def)
  have h: "?h x = Inr (?g x)" if "map_option (\<lambda>ps. Arr (map Obj ps)) (f k) = Some x" for k x
    using that g by (auto simp: as_array_def alert_filter)
  obtain v' where v': "map_entries ?h (obj_get st ''alerts'') = Inr v'"
    "entries_are v' (map_option ?g \<circ> (\<lambda>o'. map_option (\<lambda>ps. Arr (map Obj ps)) (f o')))"
    using map_entries_are [OF assms(2) [unfolded alerts_are_def], of ?h ?g] h by blast
  have "map_option ?g \<circ> (\<lambda>o'. map_option (\<lambda>ps. Arr (map Obj ps)) (f o'))
      = (\<lambda>o'. map_option (\<lambda>ps. Arr (map Obj ps)) ((map_option (without_id n) \<circ> f) o'))"
    using g by (simp add: fun_eq_iff option.map_comp comp_def)
  with v'(2) have "alerts_are (updated st ''alerts'' v') (map_option (without_id n) \<circ> f)"
    by (simp add: alerts_are_def obj_get_updated assms(1))
  moreover have "without_alert n st = Inr (updated st ''alerts'' v')"
    using v'(1) by (simp add: without_alert_def)
  ultimately show ?thesis using only_changes_updated(1) [OF assms(1)] by blast
qed

lemma migrate_objects:
  assumes "distinct (map fst st)" "objects_are k st f" "\<And>p. h (Obj p) = Inr (Obj (g p))"
  shows "\<exists>v'. map_entries h (obj_get st k) = Inr v' \<and> entries_are v' (\<lambda>t. map_option Obj ((map_option g \<circ> f) t))"
proof -
  let ?g = "\<lambda>v. case v of Obj p \<Rightarrow> Obj (g p) | _ \<Rightarrow> v"
  have h: "h x = Inr (?g x)" if "map_option Obj (f t) = Some x" for t x
    using that assms(3) by auto
  obtain v' where v': "map_entries h (obj_get st k) = Inr v'" "entries_are v' (map_option ?g \<circ> (\<lambda>t. map_option Obj (f t)))"
    using map_entries_are [OF assms(2) [unfolded objects_are_def], of h ?g] h by blast
  moreover have "map_option ?g \<circ> (\<lambda>t. map_option Obj (f t)) = (\<lambda>t. map_option Obj ((map_option g \<circ> f) t))"
    by (simp add: fun_eq_iff option.map_comp comp_def)
  ultimately show ?thesis by auto
qed

definition runs_moved :: "obj \<Rightarrow> obj" where
  "runs_moved p = obj_spread (obj_spread [] p) [(''runs_breakdown'', obj_get p ''model_runs'')]"

definition leaderboard_renamed :: "obj \<Rightarrow> obj" where
  "leaderboard_renamed p = obj_spread (obj_spread [] (obj_remove ''leaderboard_dataset_id'' p))
     [(''leaderboard_id'', obj_get p ''leaderboard_dataset_id'')]"

lemma migrate_13_spec:
  assumes "distinct (map fst st)" "objects_are ''modelBreakdown'' st f"
  shows "\<exists>st'. migrate_13 st = Inr st' \<and> only_changes {''taskBreakdown'', ''modelBreakdown''} st st'
    \<and> objects_are ''taskBreakdown'' st' (map_option runs_moved \<circ> f)"
proof -
  let ?h = "\<lambda>payload. map_js (\<lambda>runs.
          Obj (obj_spread (obj_spread [] (own_props payload)) [(''runs_breakdown'', runs)]))
          (get_prop payload ''model_runs'')"
  obtain v' where v': "map_entries ?h (obj_get st ''modelBreakdown'') = Inr v'"
    "entries_are v' (\<lambda>t. map_option Obj ((map_option runs_moved \<circ> f) t))"
    using migrate_objects [OF assms, of ?h runs_moved] by (force simp: runs_moved_def)
  then show ?thesis
    using only_changes_updated(2) [OF assms(1), of "''taskBreakdown''" "''modelBreakdown''"]
    by (simp add: migrate_13_def objects_are_def obj_get_updated distinct_removed assms(1))
qed

lemma migrate_14_spec:
  assumes "distinct (map fst st)" "objects_are ''taskBreakdown'' st f"
  shows "\<exists>st'. migrate_14 st = Inr st' \<and> only_changes {''taskBreakdown''} st st'
    \<and> objects_are ''taskBreakdown'' st' (map_option leaderboard_renamed \<circ> f)"
proof -
  let ?h = "\<lambda>payload. map_js (\<lambda>leaderboardId.
          Obj (obj_spread (obj_spread [] (obj_remove ''leaderboard_dataset_id'' (own_props payload)))
            [(''leaderboard_id'', leaderboardId)]))
          (get_prop payload ''leaderboard_dataset_id'')"
  obtain v' where v': "map_entries ?h (obj_get st ''taskBreakdown'') = Inr v'"
    "entries_are v' (\<lambda>t. map_option Obj ((map_option leaderboard_renamed \<circ> f) t))"
    using migrate_objects [OF assms, of ?h leaderboard_renamed] by (force simp: leaderboard_renamed_def)
  then show ?thesis
    using only_changes_updated(2) [OF assms(1), of "''taskBreakdown''" "''taskBreakdown''"]
    by (simp add: migrate_14_def objects_are_def obj_get_updated distinct_removed assms(1))
qed

lemma migrate_10_spec:
  assumes "distinct (map fst st)" "obj_get st ''collapsedMenuItems'' = Arr items \<or> obj_get st ''collapsedMenuItems'' = Undef \<and> items = []"
  shows "\<exists>st'. migrate_10 st = Inr st' \<and> only_changes {''collapsedMenuItems''} st st'
    \<and> obj_get st' ''collapsedMenuItems'' = Arr (unique (items @ [Str ''sandbox'']))"
  using assms(2) only_changes_updated(1) [OF assms(1), of "''collapsedMenuItems''"]
  by (auto simp: migrate_10_def js_or_def iterate_def obj_get_updated assms(1))

section \<open>Whole runs\<close>

definition pending :: "nat \<Rightarrow> (jsval \<Rightarrow> jsval) \<Rightarrow> (nat \<times> (obj \<Rightarrow> obj js)) list" where
  "pending inbound s = filter (\<lambda>(v, m). inbound < v \<and> v \<le> CURRENT_VERSION) (migrations s)"

lemma run_pending:
  assumes "migrates_in_order cm"
  shows "cm (migrations s) CURRENT_VERSION inbound st = foldM_js (\<lambda>st (v, m). m st) st (pending inbound s)"
proof -
  have "sort_key fst (migrations s) = migrations s" by (simp add: migrations_def)
  then show ?thesis using assms by (simp add: migrates_in_order_def pending_def)
qed

text \<open>From version 13 on the alerts lose the ids 6 and 4; the last three migrations.\<close>

lemma last_three:
  assumes "distinct (map fst st)" "alerts_are st f" "objects_are ''taskBreakdown'' st g"
  shows "\<exists>st'. foldM_js (\<lambda>st (v, m). m st) st [(14::nat, migrate_14), (15, migrate_15), (16, migrate_16)] = Inr st'
    \<and> only_changes {''taskBreakdown'', ''alerts''} st st'
    \<and> alerts_are st' (map_option (without_id 4 \<circ> without_id 6) \<circ> f)
    \<and> objects_are ''taskBreakdown'' st' (map_option leaderboard_renamed \<circ> g)"
proof -
  obtain s1 where s1: "migrate_14 st = Inr s1" "only_changes {''taskBreakdown''} st s1"
    "objects_are ''taskBreakdown'' s1 (map_option leaderboard_renamed \<circ> g)"
    using migrate_14_spec [OF assms(1,3)] by blast
  then have "alerts_are s1 f" "distinct (map fst s1)" using assms(2) by (simp_all add: only_changes_def alerts_are_def)
  then obtain s2 where s2: "migrate_15 s1 = Inr s2" "only_changes {''alerts''} s1 s2"
    "alerts_are s2 (map_option (without_id 6) \<circ> f)"
    using without_alert_spec [of s1 f 6] by (auto simp: migrate_15_def)
  then have "distinct (map fst s2)" by (simp add: only_changes_def)
  then obtain s3 where s3: "migrate_16 s2 = Inr s3" "only_changes {''alerts''} s2 s3"
    "alerts_are s3 (map_option (without_id 4) \<circ> (map_option (without_id 6) \<circ> f))"
    using without_alert_spec [of s2 _ 4] s2(3) by (auto simp: migrate_16_def)
  have f: "map_option (without_id 4) \<circ> (map_option (without_id 6) \<circ> f)
      = map_option (without_id 4 \<circ> without_id 6) \<circ> f" by (simp add: fun_eq_iff option.map_comp)
  have "objects_are ''taskBreakdown'' s3 (map_option leaderboard_renamed \<circ> g)"
    using s1(3) s2(2) s3(2) by (simp add: only_changes_def objects_are_def)
  then show ?thesis
    using s1(1,2) s2(1,2) s3 only_changes_trans [OF only_changes_trans [OF s1(2) s2(2)] s3(2)]
    by (simp add: f insert_commute)
qed

lemma from_version_10:
  assumes "distinct (map fst st)" "alerts_are st f" "objects_are ''modelBreakdown'' st g"
  shows "\<exists>st'. foldM_js (\<lambda>st (v, m). m st) st
      [(13::nat, migrate_13), (14, migrate_14), (15, migrate_15), (16, migrate_16)] = Inr st'
    \<and> only_changes {''taskBreakdown'', ''modelBreakdown'', ''alerts''} st st'
    \<and> alerts_are st' (map_option (without_id 4 \<circ> without_id 6) \<circ> f)
    \<and> objects_are ''taskBreakdown'' st' (map_option (leaderboard_renamed \<circ> runs_moved) \<circ> g)"
proof -
  obtain s1 where s1: "migrate_13 st = Inr s1" "only_changes {''taskBreakdown'', ''modelBreakdown''} st s1"
    "objects_are ''taskBreakdown'' s1 (map_option runs_moved \<circ> g)"
    using migrate_13_spec [OF assms(1,3)] by blast
  then have "distinct (map fst s1)" "alerts_are s1 f" using assms(2) by (simp_all add: only_changes_def alerts_are_def)
  from last_three [OF this s1(3)] obtain st' where st':
    "foldM_js (\<lambda>st (v, m). m st) s1 [(14::nat, migrate_14), (15, migrate_15), (16, migrate_16)] = Inr st'"
    "only_changes {''taskBreakdown'', ''alerts''} s1 st'"
    "alerts_are st' (map_option (without_id 4 \<circ> without_id 6) \<circ> f)"
    "objects_are ''taskBreakdown'' st' (map_option leaderboard_renamed \<circ> (map_option runs_moved \<circ> g))" by blast
  have "map_option leaderboard_renamed \<circ> (map_option runs_moved \<circ> g)
      = map_option (leaderboard_renamed \<circ> runs_moved) \<circ> g" by (simp add: fun_eq_iff option.map_comp)
  moreover have "foldM_js (\<lambda>st (v, m). m st) st
      [(13::nat, migrate_13), (14, migrate_14), (15, migrate_15), (16, migrate_16)] = Inr st'"
    using s1(1) st'(1) by simp
  moreover have "only_changes {''taskBreakdown'', ''modelBreakdown'', ''alerts''} st st'"
    using only_changes_trans [OF s1(2) st'(2)] by (simp add: insert_commute)
  ultimately show ?thesis using st'(3,4) by metis
qed

lemma obj_get_copy: "distinct (map fst p) \<Longrightarrow> obj_get (obj_spread [] p) k = obj_get p k"
  by (simp add: obj_get_spread obj_get_absent)

lemma obj_get_set_one: "obj_get (obj_spread p [(k, v)]) k' = (if k' = k then v else obj_get p k')"
  by (simp add: obj_get_spread)

lemma migrated_task:
  "distinct (map fst p) \<Longrightarrow>
    obj_get (leaderboard_renamed (runs_moved p)) k =
      (if k = ''leaderboard_id'' then obj_get p ''leaderboard_dataset_id''
       else if k = ''leaderboard_dataset_id'' then Undef
       else if k = ''runs_breakdown'' then obj_get p ''model_runs'' else obj_get p k)"
  by (simp add: leaderboard_renamed_def runs_moved_def obj_get_copy obj_get_set_one distinct_obj_spread distinct_removed)

end
