(* ===== verification/ServiceRuns.thy ===== *)
theory ServiceRuns
  imports DemoRuns ServiceFacts Migrations
begin

text \<open>
  The run of the first request of a service hook up to its response or its failure, at which the
  properties of the hooks are instantiated.
\<close>

definition w_asked :: "api_request \<Rightarrow> world" where
  "w_asked rq = intercept_step ''r1'' (after_request ''r1'' rq (world_init 0))"

definition w_answered :: "api_request \<Rightarrow> jsval \<Rightarrow> world" where
  "w_answered rq resp = respond_step ''r1'' resp (w_asked rq)"

definition asked_flight :: "api_request \<Rightarrow> phase \<Rightarrow> store \<Rightarrow> flight" where
  "asked_flight rq p st = (new_flight rq st)\<lparr>fl_phase := p\<rparr>"

lemma asked_flight_simps [simp]: "fl_phase (asked_flight rq p st) = p" "fl_request (asked_flight rq p st) = rq"
  by (simp_all add: asked_flight_def new_flight_def)

lemma asked_started: "rq_label rq \<noteq> [] \<Longrightarrow> started (w_asked rq) = [''r1'' \<mapsto> rq]"
  by (simp add: w_asked_def after_request_started(1) [OF reachable_init] started_def fun_eq_iff)

lemma answered_started: "rq_label rq \<noteq> [] \<Longrightarrow> started (w_answered rq resp) = [''r1'' \<mapsto> rq]"
  by (simp add: w_answered_def asked_started)

lemma asked_flies:
  assumes "rq_label rq \<noteq> []"
  shows "\<exists>st. w_flights (w_asked rq) ''r1'' = Some (asked_flight rq Flying st)"
    and "in_phase (after_request ''r1'' rq (world_init 0)) ''r1'' is_queued"
proof -
  obtain st where st: "w_flights (after_request ''r1'' rq (world_init 0)) ''r1'' = Some (new_flight rq st)"
    using after_request_started(2) [OF reachable_init [of demo_cav False 0] assms, of "''r1''"] by auto
  then show "in_phase (after_request ''r1'' rq (world_init 0)) ''r1'' is_queued"
    by (simp add: in_phase_def new_flight_def)
  show "\<exists>st. w_flights (w_asked rq) ''r1'' = Some (asked_flight rq Flying st)"
    using st by (auto simp: w_asked_def intercept_step_def do_flights phase_after_set asked_flight_def)
qed

lemma answered_flight:
  assumes "rq_label rq \<noteq> []"
  shows "\<exists>st. w_flights (w_answered rq resp) ''r1'' = Some (asked_flight rq (Responded resp) st)"
  using asked_flies(1) [OF assms]
  by (auto simp: w_answered_def respond_step_def phase_after_set asked_flight_def)

lemma asked_reachable: "rq_label rq \<noteq> [] \<Longrightarrow> reachable demo_cav bare (w_asked rq)"
  unfolding w_asked_def
  by (intro reachable_intercept reachable_request reachable_init asked_flies(2)) (simp_all add: world_init_def)

lemma answered_reachable:
  assumes "rq_label rq \<noteq> []" "''r1'' \<notin> rm_aborted (w_requests (w_asked rq))"
  shows "reachable demo_cav bare (w_answered rq resp)"
  unfolding w_answered_def using asked_flies(1) [OF assms(1)]
  by (intro reachable_respond asked_reachable assms) (auto simp: in_phase_def)

lemma answered_single:
  "rq_label rq \<noteq> [] \<Longrightarrow> \<not> rq_allowMultipleRequests rq \<Longrightarrow> single_flight (w_answered rq resp) l"
  by (auto simp: single_flight_def answered_started split: if_splits)

text \<open>The end of loading the options of an organization, read without \<open>withValues\<close>.\<close>

definition options_hook :: read_hook where
  "options_hook = OrganizationOptions_useGet (Str ''o'') Undef"

definition options_response :: jsval where
  "options_response = Obj [(''data'', Obj [(''options'', Arr [])]), (''status'', Num 200), (''statusText'', Str ''OK'')]"

definition options_delivered :: "store \<times> js_error option" where
  "options_delivered = then_callback demo_cav (w_now (w_answered (rd_request options_hook) options_response))
     (w_requests (w_answered (rd_request options_hook) options_response)) (rd_request options_hook)
     options_response (w_store (w_answered (rd_request options_hook) options_response))"

lemma options_done: "snd options_delivered = None"
  by code_simp

lemma options_pending:
  "rm_view (w_requests (w_answered (rd_request options_hook) options_response)) ''r1'' = Some ''GET_ORGANIZATION_OPTIONS''"
  "''r1'' \<notin> rm_aborted (w_requests (w_asked (rd_request options_hook)))"
  "rq_label (rd_request options_hook) = ''GET_ORGANIZATION_OPTIONS''"
  "\<not> rq_allowMultipleRequests (rd_request options_hook)"
  by code_simp+

text \<open>A store with the permissions of two pools.\<close>

definition permitted_store :: store where
  "permitted_store = store_init\<lparr>st_auth := [''GET_POOL_ALLOWED_ACTIONS'' \<mapsto>
     Obj [(''allowedActions'', Obj [(''p1'', Arr [Str ''MANAGE_POOLS'']), (''p2'', Arr [])])]]\<rparr>"

section \<open>A run of the migrations\<close>

definition in_order :: "(nat \<times> (obj \<Rightarrow> obj js)) list \<Rightarrow> nat \<Rightarrow> nat \<Rightarrow> obj \<Rightarrow> obj js" where
  "in_order ms cur inbound st =
     foldM_js (\<lambda>st (v, m). m st) st (filter (\<lambda>(v, m). inbound < v \<and> v \<le> cur) (sort_key fst ms))"

lemma in_order_ok: "migrates_in_order in_order"
  by (simp add: migrates_in_order_def in_order_def)

definition old_state :: obj where
  "old_state = [(''alerts'', Obj [(''o'', Arr [Obj [(''id'', Num 6)], Obj [(''id'', Num 2)]])]),
     (''modelBreakdown'', Obj [(''t'', Obj [(''leaderboard_dataset_id'', Str ''d''), (''model_runs'', Arr [])])])]"

lemma old_state_maps:
  "distinct (map fst old_state)"
  "alerts_are old_state [''o'' \<mapsto> [[(''id'', Num 6)], [(''id'', Num 2)]]]"
  "objects_are ''modelBreakdown'' old_state
    [''t'' \<mapsto> [(''leaderboard_dataset_id'', Str ''d''), (''model_runs'', Arr [])]]"
  by (simp_all add: old_state_def alerts_are_def objects_are_def entries_are_def fun_eq_iff)

end
