(* ===== verification/ServiceFollowUps.thy ===== *)
theory ServiceFollowUps
  imports ServiceHooks
begin

text \<open>
  What the effects of some service hooks dispatch once their own request has ended: the allowed
  actions of the objects that were fetched.  \<open>None\<close> is no dispatch, an error the exception of the
  callback.
\<close>

definition stored :: "store \<Rightarrow> string \<Rightarrow> jsval \<Rightarrow> jsval" where
  "stored st label d = js_coalesce (current (st_restapi st) label) d"

definition values_of :: "string \<Rightarrow> jsval \<Rightarrow> jsval list js" where
  "values_of k v = bind_js (as_array v) (mapM_js (\<lambda>x. get_prop x k))"

definition Environments_follow_up :: "store \<Rightarrow> api_request option js" where
  "Environments_follow_up st =
     (if is_error ''GET_ENVIRONMENTS'' st \<noteq> Some True
      then map_js (\<lambda>resourceIds. Some (getResourceAllowedActions (Arr resourceIds)))
        (values_of ''id'' (stored st ''GET_ENVIRONMENTS'' (Arr [])))
      else Inr None)"

definition GlobalPoolPolicies_follow_up :: "store \<Rightarrow> api_request option js" where
  "GlobalPoolPolicies_follow_up st =
     (case checkError ''GET_GLOBAL_POOL_POLICIES'' st of
        Rejected \<Rightarrow> Inr None
      | Resolved _ \<Rightarrow> map_js (\<lambda>ids. Some (getPoolAllowedActions (Arr (unique ids))))
          (values_of ''pool_id'' (stored st ''GET_GLOBAL_POOL_POLICIES'' (Arr []))))"

definition GlobalResourceConstraints_follow_up :: "store \<Rightarrow> api_request option js" where
  "GlobalResourceConstraints_follow_up st =
     (case checkError ''GET_GLOBAL_RESOURCE_CONSTRAINTS'' st of
        Rejected \<Rightarrow> Inr None
      | Resolved _ \<Rightarrow> map_js (\<lambda>ids. Some (getResourceAllowedActions (Arr (unique ids))))
          (values_of ''resource_id'' (stored st ''GET_GLOBAL_RESOURCE_CONSTRAINTS'' (Arr []))))"

definition Pools_follow_up :: "store \<Rightarrow> api_request option js" where
  "Pools_follow_up st =
     (if is_error ''GET_POOL'' st \<noteq> Some True
      then bind_js (get_default (stored st ''GET_POOL'' (Obj [])) ''pool'' (Obj [])) (\<lambda>pool.
        bind_js (get_prop pool ''id'') (\<lambda>i.
        bind_js (get_default pool ''children'' (Arr [])) (\<lambda>children.
        map_js (\<lambda>ids. Some (getPoolAllowedActions (Arr (ids @ [i])))) (values_of ''id'' children))))
      else Inr None)"

definition Webhooks_follow_up :: "jsval \<Rightarrow> store \<Rightarrow> api_request option" where
  "Webhooks_follow_up objectId st =
     (case checkError ''GET_WEBHOOKS'' st of
        Rejected \<Rightarrow> None
      | Resolved _ \<Rightarrow> Some (getResourceAllowedActions objectId))"

section \<open>Views of the data\<close>

text \<open>\<open>Object.entries(data?.value ?? {})\<close> as a list of objects.\<close>

definition DataSourceSkus_skus :: "jsval \<Rightarrow> jsval list" where
  "DataSourceSkus_skus v =
     map (\<lambda>(sku, cost). Obj [(''sku'', Str sku), (''cost'', cost)])
       (own_props (js_coalesce (opt_prop v ''value'') (Obj [])))"

definition parseJSON :: "jsval \<Rightarrow> jsval" where
  "parseJSON v = (case json_parse (to_str v) of Inl _ \<Rightarrow> Obj [] | Inr w \<Rightarrow> w)"

definition OrganizationOptions_view :: "jsval \<Rightarrow> jsval \<Rightarrow> jsval js" where
  "OrganizationOptions_view withValues options =
     (if truthy withValues
      then bind_js (as_array options) (\<lambda>xs. map_js Arr
        (mapM_js (\<lambda>x. bind_js (get_prop x ''name'') (\<lambda>n. map_js (\<lambda>v.
           Obj [(''name'', n), (''value'', parseJSON v)]) (get_prop x ''value''))) xs))
      else Inr options)"

definition filtersWithoutExceptions :: "jsval list option \<Rightarrow> jsval \<Rightarrow> jsval js" where
  "filtersWithoutExceptions exceptions filters =
     (case exceptions of
        None \<Rightarrow> Inr filters
      | Some es \<Rightarrow> map_js (\<lambda>kvs. Obj (from_entries (filter (\<lambda>(k, v). Str k \<notin> set es) kvs)))
          (entries_js filters))"

section \<open>Facts\<close>

lemma values_of_objects: "values_of k (Arr (map Obj ps)) = Inr (map (\<lambda>p. obj_get p k) ps)"
  by (induction ps) (simp_all add: values_of_def as_array_def)

text \<open>The permissions of a pool are fetched together with those of its children.\<close>

lemma pools_follow_up:
  assumes "is_error ''GET_POOL'' st \<noteq> Some True" "stored st ''GET_POOL'' (Obj []) = Obj [(''pool'', Obj p)]"
    "obj_get p ''children'' = Arr (map Obj cs)"
  shows "Pools_follow_up st =
    Inr (Some (getPoolAllowedActions (Arr (map (\<lambda>c. obj_get c ''id'') cs @ [obj_get p ''id'']))))"
  using assms by (simp add: Pools_follow_up_def get_default_def js_default_def obj_get_def [of "[(''pool'', Obj p)]"] values_of_objects)

text \<open>The permissions are asked once for each pool of the policies.\<close>

lemma pool_policies_follow_up:
  assumes "is_error ''GET_GLOBAL_POOL_POLICIES'' st \<noteq> Some True"
    "stored st ''GET_GLOBAL_POOL_POLICIES'' (Arr []) = Arr (map Obj ps)"
  shows "\<exists>ids. GlobalPoolPolicies_follow_up st = Inr (Some (getPoolAllowedActions (Arr ids)))
    \<and> distinct ids \<and> set ids = (\<lambda>p. obj_get p ''pool_id'') ` set ps"
  using assms
  by (intro exI [of _ "unique (map (\<lambda>p. obj_get p ''pool_id'') ps)"])
    (simp add: GlobalPoolPolicies_follow_up_def checkError_def values_of_objects unique_set unique_distinct)

end
