(* ===== verification/Arrays.thy ===== *)
theory Arrays
  imports DataCases
begin

text \<open>
  \<open>utils/arrays.ts\<close>: membership tests, chunks, groups, the chain of parents in a flat list of
  objects.  Membership compares primitive values; two objects of the model are never the same.
\<close>

section \<open>Membership\<close>

definition getLength :: "jsval \<Rightarrow> nat" where
  "getLength v = (case v of Arr vs \<Rightarrow> length vs | _ \<Rightarrow> 0)"

definition isEmptyArray :: "jsval \<Rightarrow> bool" where
  "isEmptyArray v = (\<not> (case v of Arr vs \<Rightarrow> vs \<noteq> [] | _ \<Rightarrow> False))"

definition array_includes :: "jsval list \<Rightarrow> jsval \<Rightarrow> bool" where
  "array_includes vs v \<longleftrightarrow> list_ex (strict_eq v) vs"

definition getIntersection :: "jsval list \<Rightarrow> jsval list \<Rightarrow> jsval list" where
  "getIntersection targetArray searchArray = filter (array_includes searchArray) targetArray"

definition getDifference :: "jsval list \<Rightarrow> jsval list \<Rightarrow> jsval list" where
  "getDifference targetArray searchArray = filter (\<lambda>item. \<not> array_includes searchArray item) targetArray"

definition hasIntersection :: "jsval list \<Rightarrow> jsval list \<Rightarrow> bool" where
  "hasIntersection targetArray searchArray \<longleftrightarrow> length (getIntersection targetArray searchArray) \<noteq> 0"

definition isIdentical :: "jsval list \<Rightarrow> jsval list \<Rightarrow> bool" where
  "isIdentical targetArray searchArray \<longleftrightarrow>
     length (getIntersection targetArray searchArray) = length targetArray"

lemma includes_iff: "array_includes vs v \<longleftrightarrow> \<not> is_object v \<and> v \<in> set vs"
  by (auto simp: array_includes_def list_ex_iff strict_eq_def)

lemma intersection_split:
  "mset (getIntersection xs ys) + mset (getDifference xs ys) = mset xs"
  by (simp add: getIntersection_def getDifference_def)

lemma hasIntersection_iff:
  "hasIntersection xs ys \<longleftrightarrow> (\<exists>x \<in> set xs. \<not> is_object x \<and> x \<in> set ys)"
  by (auto simp: hasIntersection_def getIntersection_def includes_iff filter_empty_conv)

lemma isIdentical_iff:
  "isIdentical xs ys \<longleftrightarrow> (\<forall>x \<in> set xs. \<not> is_object x \<and> x \<in> set ys)"
proof -
  have "length (filter P xs) = length xs \<longleftrightarrow> (\<forall>x \<in> set xs. P x)" for P :: "jsval \<Rightarrow> bool"
    by (metis filter_True length_filter_less less_irrefl)
  then show ?thesis by (simp add: isIdentical_def getIntersection_def includes_iff)
qed

section \<open>Slices and chunks\<close>

text \<open>\<open>Array.prototype.slice\<close>: a negative bound counts from the end.\<close>

definition slice_bound :: "'a list \<Rightarrow> int \<Rightarrow> nat" where
  "slice_bound xs k = (if k < 0 then nat (max 0 (int (length xs) + k)) else min (nat k) (length xs))"

definition slice :: "'a list \<Rightarrow> int \<Rightarrow> int \<Rightarrow> 'a list" where
  "slice xs a b = drop (slice_bound xs a) (take (slice_bound xs b) xs)"

definition splitIntoTwoChunks :: "'a list \<Rightarrow> int \<Rightarrow> 'a list \<times> 'a list" where
  "splitIntoTwoChunks array firstChunkLength =
     (slice array 0 firstChunkLength, slice array firstChunkLength (int (length array)))"

definition ceil_div :: "nat \<Rightarrow> nat \<Rightarrow> nat" where
  "ceil_div n k = (n + k - 1) div k"

text \<open>A length of infinity or NaN is no length of an array: \<open>Array(n)\<close> throws for both, and
  \<open>Array.from\<close> takes NaN as 0.\<close>

definition splitIntoChunks :: "'a list \<Rightarrow> nat \<Rightarrow> 'a list list js" where
  "splitIntoChunks array chunkSize =
     (if chunkSize = 0 then Inl RangeError
      else Inr (map (\<lambda>begin. slice array (int begin) (int (begin + chunkSize)))
        (map (\<lambda>index. index * chunkSize) [0..<ceil_div (length array) chunkSize])))"

definition getChunks :: "'a list \<Rightarrow> nat \<Rightarrow> 'a list list js" where
  "getChunks array chunkSize =
     (if chunkSize = 0 then (if array = [] then Inr [] else Inl RangeError)
      else Inr (map (\<lambda>i. slice array (int (i * chunkSize)) (int (i * chunkSize + chunkSize)))
        [0..<ceil_div (length array) chunkSize]))"

lemma two_chunks: "splitIntoTwoChunks xs n = (as, bs) \<Longrightarrow> as @ bs = xs"
  by (auto simp: splitIntoTwoChunks_def slice_def slice_bound_def)

lemma slice_nat: "slice xs (int a) (int b) = drop a (take b xs)"
  by (auto simp: slice_def slice_bound_def min_def)

lemma getChunks_split: "0 < n \<Longrightarrow> getChunks xs n = splitIntoChunks xs n"
  by (simp add: getChunks_def splitIntoChunks_def comp_def)

text \<open>The reference: cut off one chunk after the other.\<close>

function chunks :: "nat \<Rightarrow> 'a list \<Rightarrow> 'a list list" where
  "chunks n xs = (if n = 0 \<or> xs = [] then [] else take n xs # chunks n (drop n xs))"
  by pat_completeness auto
termination by (relation "measure (length \<circ> snd)") auto

declare chunks.simps [simp del]

lemma ceil_div_step: "0 < n \<Longrightarrow> n < k \<Longrightarrow> ceil_div k n = Suc (ceil_div (k - n) n)"
  by (simp add: ceil_div_def div_if [of "k + n - Suc 0"])

lemma splitIntoChunks_chunks: "0 < n \<Longrightarrow> splitIntoChunks xs n = Inr (chunks n xs)"
proof (induction n xs rule: chunks.induct)
  case (1 n xs)
  show ?case
  proof (cases "length xs \<le> n")
    case True
    then have "ceil_div (length xs) n = (if xs = [] then 0 else 1)"
      using 1(2) by (cases xs) (auto simp: ceil_div_def div_if [of "length xs + n - Suc 0"])
    moreover have "chunks n xs = (if xs = [] then [] else [xs])"
      using True 1(2) by (simp add: chunks.simps [of n xs] chunks.simps [of n "[]"])
    ultimately show ?thesis using True 1(2)
      by (auto simp: splitIntoChunks_def slice_nat simp flip: of_nat_add)
  next
    case False
    let ?f = "\<lambda>xs i. drop (i * n) (take (i * n + n) xs)"
    have "ceil_div (length xs) n = Suc (ceil_div (length (drop n xs)) n)"
      using False 1(2) ceil_div_step [of n "length xs"] by simp
    moreover have "?f xs (Suc i) = ?f (drop n xs) i" for i
      by (simp add: drop_take add.commute)
    ultimately have "map (?f xs) [0..<ceil_div (length xs) n]
        = take n xs # map (?f (drop n xs)) [0..<ceil_div (length (drop n xs)) n]"
      by (simp only: upt_conv_Cons_Cons map_upt_Suc zero_less_Suc) simp
    moreover have "splitIntoChunks (drop n xs) n = Inr (chunks n (drop n xs))"
      using 1 False by (cases "xs = []") simp_all
    ultimately show ?thesis using False 1(2) chunks.simps [of n xs]
      by (auto simp: splitIntoChunks_def slice_nat comp_def simp flip: of_nat_add)
  qed
qed

lemma concat_chunks: "0 < n \<Longrightarrow> concat (chunks n xs) = xs"
  by (induction n xs rule: chunks.induct) (subst chunks.simps, auto)

lemma chunks_length: "c \<in> set (chunks n xs) \<Longrightarrow> c \<noteq> [] \<and> length c \<le> n"
proof (induction n xs rule: chunks.induct)
  case (1 n xs)
  then show ?case by (subst (asm) (2) chunks.simps) (auto split: if_splits)
qed

lemma chunks_full: "c \<in> set (butlast (chunks n xs)) \<Longrightarrow> length c = n"
proof (induction n xs rule: chunks.induct)
  case (1 n xs)
  have step: "chunks n xs = (if n = 0 \<or> xs = [] then [] else take n xs # chunks n (drop n xs))"
    by (rule chunks.simps)
  then have ne: "\<not> (n = 0 \<or> xs = [])" "chunks n (drop n xs) \<noteq> []" using 1(2) by (auto split: if_splits)
  then have "drop n xs \<noteq> []" using chunks.simps [of n "drop n xs"] by auto
  then have "length (take n xs) = n" by simp
  with 1 ne step show ?case by (auto split: if_splits)
qed

section \<open>Groups\<close>

text \<open>
  \<open>createGroupsObjectFromArray\<close> collects the elements in a plain object: a name that objects
  inherit is found there already, and is no array to push to.
\<close>

definition inherited_names :: "string list" where
  "inherited_names = [''constructor'', ''toString'', ''valueOf'', ''hasOwnProperty'', ''isPrototypeOf'',
    ''propertyIsEnumerable'', ''toLocaleString'', ''__proto__'', ''__defineGetter__'', ''__defineSetter__'',
    ''__lookupGetter__'', ''__lookupSetter__'']"

definition push_to_group :: "(jsval \<Rightarrow> jsval js) \<Rightarrow> obj \<Rightarrow> jsval \<Rightarrow> obj js" where
  "push_to_group iteratee groups currentObject =
     bind_js (iteratee currentObject) (\<lambda>k. let key = to_str k in
     (case map_of groups key of
        Some (Arr vs) \<Rightarrow> Inr (obj_set key (Arr (vs @ [currentObject])) groups)
      | Some _ \<Rightarrow> Inl TypeError
      | None \<Rightarrow> if key \<in> set inherited_names then Inl TypeError
          else Inr (obj_set key (Arr [currentObject]) groups)))"

definition createGroupsObjectFromArray :: "jsval list \<Rightarrow> (jsval \<Rightarrow> jsval js) \<Rightarrow> obj js" where
  "createGroupsObjectFromArray array iteratee = foldM_js (push_to_group iteratee) [] array"

text \<open>\<open>groups\<close> holds, under each key, the elements of \<open>xs\<close> with that key in order.\<close>

definition grouped :: "(jsval \<Rightarrow> string) \<Rightarrow> jsval list \<Rightarrow> obj \<Rightarrow> bool" where
  "grouped f xs groups \<longleftrightarrow> distinct (map fst groups) \<and>
     (\<forall>k. map_of groups k = (case filter (\<lambda>x. f x = k) xs of [] \<Rightarrow> None | ys \<Rightarrow> Some (Arr ys)))"

lemma push_grouped:
  assumes "grouped f xs g" "iteratee x = Inr v" "to_str v = f x" "f x \<notin> set inherited_names"
  shows "\<exists>g'. push_to_group iteratee g x = Inr g' \<and> grouped f (xs @ [x]) g'"
proof (cases "filter (\<lambda>y. f y = f x) xs")
  case Nil
  then have "map_of g (f x) = None" using assms(1) by (simp add: grouped_def)
  with assms Nil show ?thesis
    by (auto simp: push_to_group_def grouped_def distinct_obj_set split: list.splits)
next
  case (Cons y ys)
  then have "map_of g (f x) = Some (Arr (y # ys))" using assms(1) by (simp add: grouped_def)
  with assms Cons show ?thesis
    by (auto simp: push_to_group_def grouped_def distinct_obj_set split: list.splits)
qed

lemma groups_spec:
  assumes "\<forall>x \<in> set xs. \<exists>v. iteratee x = Inr v \<and> to_str v = f x \<and> f x \<notin> set inherited_names"
  shows "\<exists>g. createGroupsObjectFromArray xs iteratee = Inr g \<and> grouped f xs g"
proof -
  have "grouped f ys g \<Longrightarrow> \<exists>g'. foldM_js (push_to_group iteratee) g xs = Inr g' \<and> grouped f (ys @ xs) g'" for ys g
    using assms
  proof (induction xs arbitrary: ys g)
    case (Cons x xs)
    then obtain v where "iteratee x = Inr v" "to_str v = f x" "f x \<notin> set inherited_names" by auto
    then obtain g' where "push_to_group iteratee g x = Inr g'" "grouped f (ys @ [x]) g'"
      using push_grouped [OF Cons.prems(1), of iteratee x v] by blast
    with Cons.IH [of "ys @ [x]" g'] Cons.prems(2) show ?case by auto
  qed simp
  from this [of "[]" "[]"] show ?thesis by (simp add: createGroupsObjectFromArray_def grouped_def)
qed

lemma grouped_entry:
  assumes "grouped f xs g" "(k, v) \<in> set g"
  shows "v = Arr (filter (\<lambda>x. f x = k) xs)"
proof -
  have "map_of g k = Some v" using assms by (intro map_of_is_SomeI) (simp_all add: grouped_def)
  moreover have "map_of g k = (case filter (\<lambda>x. f x = k) xs of [] \<Rightarrow> None | ys \<Rightarrow> Some (Arr ys))"
    using assms(1) unfolding grouped_def by blast
  ultimately show ?thesis by (cases "filter (\<lambda>x. f x = k) xs") auto
qed

lemma grouped_keys:
  assumes "grouped f xs g"
  shows "set (map fst g) = f ` set xs"
proof (intro set_eqI)
  fix k
  have "k \<in> set (map fst g) \<longleftrightarrow> map_of g k \<noteq> None" by (simp add: map_of_eq_None_iff)
  also have "\<dots> \<longleftrightarrow> filter (\<lambda>x. f x = k) xs \<noteq> []" using assms by (auto simp: grouped_def split: list.splits)
  also have "\<dots> \<longleftrightarrow> k \<in> f ` set xs" by (auto simp: filter_empty_conv)
  finally show "k \<in> set (map fst g) \<longleftrightarrow> k \<in> f ` set xs" .
qed

text \<open>Sums over the groups are the sums over all elements.\<close>

lemma sum_by_key:
  assumes "distinct ks" "\<forall>x \<in> set xs. f x \<in> set ks"
  shows "sum_list (map (\<lambda>k. sum_list (map w (filter (\<lambda>x. f x = k) xs))) ks) = (sum_list (map w xs) :: rat)"
  using assms(2)
proof (induction xs)
  case (Cons x xs)
  have hit: "distinct ks \<Longrightarrow> sum_list (map (\<lambda>k. if k' = k then a else 0) ks) = (if k' \<in> set ks then a else (0::rat))" for k' a ks
    by (induction ks) auto
  have "sum_list (map (\<lambda>k. sum_list (map w (filter (\<lambda>y. f y = k) (x # xs)))) ks)
      = sum_list (map (\<lambda>k. (if f x = k then w x else 0) + sum_list (map w (filter (\<lambda>y. f y = k) xs))) ks)"
    by (rule arg_cong [of _ _ sum_list], rule map_cong) simp_all
  then show ?case using Cons hit [OF assms(1), of "f x" "w x"] by (simp add: sum_list_addf)
qed simp

lemma sum_concat: "sum_list (map w (concat (map f us))) = (sum_list (map (\<lambda>u. sum_list (map w (f u))) us) :: rat)"
  by (induction us) auto

lemma sum_mset_eq: "mset xs = mset ys \<Longrightarrow> sum_list (map w xs) = (sum_list (map w ys) :: rat)"
  by (metis mset_map sum_mset_sum_list)

lemma fold_sum: "fold (\<lambda>x result. result + w x) xs r = r + (sum_list (map w xs) :: rat)"
  by (induction xs arbitrary: r) auto

section \<open>Chains of parents\<close>

text \<open>\<open>getRecursiveParent\<close> does not return on a cycle of parents: \<open>None\<close>.\<close>

definition find_parent :: "obj \<Rightarrow> obj list \<Rightarrow> obj option" where
  "find_parent child sourceArray =
     find (\<lambda>el. strict_eq (obj_get child ''parent_id'') (obj_get el ''id'')) sourceArray"

definition parent_result :: "string option \<Rightarrow> obj \<Rightarrow> jsval" where
  "parent_result resultByKey parent = (case resultByKey of Some k \<Rightarrow> obj_get parent k | None \<Rightarrow> Obj parent)"

partial_function (option) getRecursiveParent :: "obj \<Rightarrow> obj list \<Rightarrow> string option \<Rightarrow> jsval list option" where
  "getRecursiveParent child sourceArray resultByKey =
     (if truthy (obj_get child ''parent_id'') then
        (case find_parent child sourceArray of
           Some parent \<Rightarrow> Option.bind (getRecursiveParent parent sourceArray resultByKey)
             (\<lambda>result. Some (result @ [parent_result resultByKey parent]))
         | None \<Rightarrow> Some [])
      else Some [])"

text \<open>The parent of a child, and the chain of its ancestors from the root down.\<close>

definition parent_of :: "obj list \<Rightarrow> obj \<Rightarrow> obj option" where
  "parent_of src child = (if truthy (obj_get child ''parent_id'') then find_parent child src else None)"

inductive ancestors :: "obj list \<Rightarrow> obj \<Rightarrow> obj list \<Rightarrow> bool" for src :: "obj list" where
  root: "parent_of src child = None \<Longrightarrow> ancestors src child []"
| parent: "parent_of src child = Some p \<Longrightarrow> ancestors src p ps \<Longrightarrow> ancestors src child (ps @ [p])"

lemma recursive_parent_step:
  "getRecursiveParent child src key = (case parent_of src child of None \<Rightarrow> Some []
     | Some p \<Rightarrow> Option.bind (getRecursiveParent p src key) (\<lambda>r. Some (r @ [parent_result key p])))"
  by (subst getRecursiveParent.simps) (simp add: parent_of_def)

lemma ancestors_returned:
  "ancestors src child ps \<Longrightarrow> getRecursiveParent child src key = Some (map (parent_result key) ps)"
  by (induction rule: ancestors.induct) (simp_all add: recursive_parent_step)

lemma returned_ancestors:
  assumes "getRecursiveParent child src key = Some r"
  shows "\<exists>ps. ancestors src child ps \<and> r = map (parent_result key) ps"
proof -
  let ?P = "\<lambda>child src' key' r. src' = src \<and> key' = key \<longrightarrow>
    (\<exists>ps. ancestors src child ps \<and> r = map (parent_result key) ps)"
  have "?P child src key r"
  proof (rule getRecursiveParent.raw_induct [of ?P, OF _ assms], intro impI, elim conjE)
    fix f child src' key' r
    assume ih: "\<And>c s k r. f c s k = Some r \<Longrightarrow> ?P c s k r" and eqs: "src' = src" "key' = key"
      and run: "(if truthy (obj_get child ''parent_id'')
        then case find_parent child src' of None \<Rightarrow> Some []
          | Some parent \<Rightarrow> Option.bind (f parent src' key') (\<lambda>result. Some (result @ [parent_result key' parent]))
        else Some []) = Some r"
    show "\<exists>ps. ancestors src child ps \<and> r = map (parent_result key) ps"
    proof (cases "parent_of src child")
      case None
      then have "r = []" using run eqs by (auto simp: parent_of_def split: if_splits)
      with ancestors.root [OF None] show ?thesis by auto
    next
      case (Some p)
      then obtain r' where r': "f p src key = Some r'" "r = r' @ [parent_result key p]"
        using run eqs by (auto simp: parent_of_def bind_eq_Some_conv split: if_splits)
      with ih [OF r'(1)] obtain ps where "ancestors src p ps" "r' = map (parent_result key) ps" by auto
      with ancestors.parent [OF Some] r'(2) show ?thesis by force
    qed
  qed
  then show ?thesis by simp
qed

lemma returned_iff:
  "getRecursiveParent child src key = Some r \<longleftrightarrow> (\<exists>ps. ancestors src child ps \<and> r = map (parent_result key) ps)"
  using ancestors_returned returned_ancestors by blast

text \<open>It returns when no object is its own ancestor.\<close>

definition parent_links :: "obj list \<Rightarrow> (obj \<times> obj) set" where
  "parent_links src = {(c, p). c \<in> set src \<and> parent_of src c = Some p}"

lemma parent_in_source: "parent_of src c = Some p \<Longrightarrow> p \<in> set src"
  by (auto simp: parent_of_def find_parent_def find_Some_iff split: if_splits)

lemma ancestors_exist:
  assumes "acyclic (parent_links src)"
  shows "\<exists>ps. ancestors src child ps"
proof -
  have "parent_links src \<subseteq> set src \<times> set src" using parent_in_source by (auto simp: parent_links_def)
  then have "finite (parent_links src)" by (rule finite_subset) simp
  then have wf: "wf ((parent_links src)\<inverse>)" using assms by (rule finite_acyclic_wf_converse)
  have inside: "c \<in> set src \<Longrightarrow> \<exists>ps. ancestors src c ps" for c
    using wf
  proof (induction c rule: wf_induct_rule)
    case (less c)
    then show ?case
      by (cases "parent_of src c") (auto simp: parent_links_def dest: parent_in_source intro: ancestors.intros)
  qed
  show ?thesis
    by (cases "parent_of src child") (use inside parent_in_source in \<open>blast intro: ancestors.intros\<close>)+
qed

text \<open>An object that is its own parent has no chain.\<close>

lemma self_parent_diverges:
  assumes "parent_of src c = Some c"
  shows "getRecursiveParent c src key = None"
proof -
  have "ancestors src x ps \<Longrightarrow> x = c \<Longrightarrow> False" for x ps
    by (induction rule: ancestors.induct) (use assms in auto)
  then show ?thesis using returned_ancestors [of c src key] by (cases "getRecursiveParent c src key") blast+
qed

text \<open>A parent has a shorter chain, so the links of a list in which every chain ends form no cycle.\<close>

inductive_cases ancestors_of: "ancestors src c ps"

lemma shorter_chain:
  assumes "ancestors src c ps" "(c, p) \<in> parent_links src"
  shows "\<exists>qs. ancestors src p qs \<and> length qs < length ps"
  using assms(1) by (rule ancestors_of) (use assms(2) in \<open>auto simp: parent_links_def\<close>)

lemma shorter_chains:
  assumes "(c, p) \<in> (parent_links src)\<^sup>+" "ancestors src c ps"
  shows "\<exists>qs. ancestors src p qs \<and> length qs < length ps"
  using assms
proof (induction arbitrary: ps rule: trancl_induct)
  case (base p)
  then show ?case using shorter_chain by blast
next
  case (step p q)
  then obtain qs where "ancestors src p qs" "length qs < length ps" by blast
  with shorter_chain [OF this(1) step.hyps(2)] show ?case by force
qed

lemma no_cycle:
  assumes "\<And>c. c \<in> set src \<Longrightarrow> \<exists>ps. ancestors src c ps"
  shows "acyclic (parent_links src)"
proof (rule acyclicI, intro allI notI)
  fix c assume c: "(c, c) \<in> (parent_links src)\<^sup>+"
  then have "c \<in> set src" by (auto simp: parent_links_def dest!: tranclD)
  then obtain ps where "ancestors src c ps" using assms by blast
  then show False
  proof (induction "length ps" arbitrary: ps rule: less_induct)
    case less
    then show ?case using shorter_chains [OF c] by blast
  qed
qed

end
