(* ===== verification/Permissions.thy ===== *)
theory Permissions
  imports Arrays ApiHooks
begin

text \<open>
  \<open>hooks/useAllowedActions.ts\<close>: whether the user may do something with an organization, a pool or a
  resource.  The actions allowed for pools and resources are in the auth slice, those for
  organizations come from a GraphQL query, the argument \<open>organizationAllowedActions\<close>.
\<close>

section \<open>The check\<close>

definition getComparingFunction :: "jsval \<Rightarrow> (jsval list \<Rightarrow> jsval list \<Rightarrow> bool) option" where
  "getComparingFunction condition =
     map_of [(''or'', hasIntersection), (''and'', isIdentical)] (to_str condition)"

text \<open>Calling the function of an unknown condition throws.\<close>

definition isAllowed :: "jsval \<Rightarrow> jsval \<Rightarrow> jsval \<Rightarrow> bool js" where
  "isAllowed requiredActions allowedActions condition =
     (if getLength requiredActions = 0 then Inr True
      else if getLength allowedActions = 0 then Inr False
      else bind_js (as_array requiredActions) (\<lambda>req. bind_js (as_array allowedActions) (\<lambda>allowed.
        case getComparingFunction (js_default condition (Str ''or'')) of
          None \<Rightarrow> Inl TypeError | Some f \<Rightarrow> Inr (f req allowed))))"

definition getLabel :: "jsval \<Rightarrow> string" where
  "getLabel entityType =
     (if entityType = Str ''pool'' then ''GET_POOL_ALLOWED_ACTIONS''
      else if entityType = Str ''resource'' then ''GET_RESOURCE_ALLOWED_ACTIONS'' else '''')"

definition stored_actions :: "store \<Rightarrow> string \<Rightarrow> jsval js" where
  "stored_actions st label = get_default (useApiData st label (Obj [])) ''allowedActions'' (Obj [])"

definition useScopedAllowedActions :: "store \<Rightarrow> jsval \<Rightarrow> jsval \<Rightarrow> jsval \<Rightarrow> jsval \<Rightarrow> jsval js" where
  "useScopedAllowedActions st organizationAllowedActions organizationId entityType entityId_arg =
     (let label = getLabel entityType;
          i = (if entityType = Str ''organization'' then organizationId else entityId_arg) in
      bind_js (stored_actions st label) (\<lambda>allowedActions.
      if entityType = Str ''organization''
      then (if truthy organizationAllowedActions
            then get_prop organizationAllowedActions (to_str organizationId) else Inr (Arr []))
      else map_js (\<lambda>actions. js_or actions (Arr [])) (get_prop allowedActions (to_str i))))"

definition useIsAllowed :: "store \<Rightarrow> jsval \<Rightarrow> jsval \<Rightarrow> jsval \<Rightarrow> jsval \<Rightarrow> jsval \<Rightarrow> jsval \<Rightarrow> bool js" where
  "useIsAllowed st organizationAllowedActions organizationId entityId_arg entityType requiredActions condition =
     bind_js (useScopedAllowedActions st organizationAllowedActions organizationId
       (js_default entityType (Str ''organization'')) entityId_arg) (\<lambda>scopedAllowedActions.
     isAllowed (js_default requiredActions (Arr [])) scopedAllowedActions condition)"

definition useAllAllowedActions :: "store \<Rightarrow> jsval \<Rightarrow> obj js" where
  "useAllAllowedActions st organizationAllowedActions =
     bind_js (stored_actions st ''GET_POOL_ALLOWED_ACTIONS'') (\<lambda>pools.
     map_js (\<lambda>resources. [(''pool'', pools), (''resource'', resources), (''organization'', organizationAllowedActions)])
       (stored_actions st ''GET_RESOURCE_ALLOWED_ACTIONS''))"

text \<open>\<open>some\<close>: up to the first element that holds or throws.\<close>

fun some_js :: "('a \<Rightarrow> bool js) \<Rightarrow> 'a list \<Rightarrow> bool js" where
  "some_js f [] = Inr False"
| "some_js f (x # xs) = bind_js (f x) (\<lambda>b. if b then Inr True else some_js f xs)"

definition useIsAllowedForSome :: "store \<Rightarrow> jsval \<Rightarrow> obj list \<Rightarrow> bool js" where
  "useIsAllowedForSome st organizationAllowedActions configuration =
     bind_js (useAllAllowedActions st organizationAllowedActions) (\<lambda>all.
     some_js (\<lambda>c. bind_js (get_prop (obj_get all (to_str (obj_get c ''entityType''))) (to_str (obj_get c ''entityId'')))
       (\<lambda>actions. isAllowed (obj_get c ''requiredActions'') (js_coalesce actions (Arr [])) (obj_get c ''condition'')))
       configuration)"

definition useAllowedItems :: "store \<Rightarrow> jsval \<Rightarrow> jsval \<Rightarrow> jsval \<Rightarrow> jsval \<Rightarrow> obj list \<Rightarrow> jsval list js" where
  "useAllowedItems st organizationAllowedActions organizationId entityType entityId_arg items =
     bind_js (useScopedAllowedActions st organizationAllowedActions organizationId
       (js_default entityType (Str ''organization'')) entityId_arg) (\<lambda>scopedAllowedActions.
     map_js (filter truthy) (mapM_js (\<lambda>item.
       map_js (\<lambda>b. if b then Obj item else js_or (obj_get item ''renderIfNotAllowed'') Null)
         (isAllowed (obj_get item ''requiredActions'') scopedAllowedActions (obj_get item ''condition''))) items))"

definition useFilterByPermissions ::
  "store \<Rightarrow> jsval \<Rightarrow> jsval list \<Rightarrow> jsval \<Rightarrow> jsval \<Rightarrow> jsval \<Rightarrow> jsval list js" where
  "useFilterByPermissions st organizationAllowedActions entitiesIds entitiesType permissions condition =
     bind_js (stored_actions st (getLabel entitiesType)) (\<lambda>allowedActions.
     let allowedEntityActions = (if entitiesType = Str ''organization'' then organizationAllowedActions else allowedActions) in
     filterM_js (\<lambda>i. bind_js (get_prop allowedEntityActions (to_str i)) (\<lambda>actions.
       isAllowed permissions (js_or actions (Arr [])) condition)) entitiesIds)"

section \<open>What it means\<close>

definition satisfied :: "bool \<Rightarrow> jsval set \<Rightarrow> jsval set \<Rightarrow> bool" where
  "satisfied all req allowed \<longleftrightarrow> (if all then req \<subseteq> allowed else req = {} \<or> req \<inter> allowed \<noteq> {})"

lemma isAllowed_iff:
  assumes "\<forall>r \<in> set req. \<not> is_object r" "condition = Str ''and'' \<or> condition = Str ''or'' \<or> condition = Undef"
  shows "isAllowed (Arr req) (Arr allowed) condition
    = Inr (satisfied (condition = Str ''and'') (set req) (set allowed))"
  using assms
  by (auto simp: isAllowed_def getLength_def as_array_def getComparingFunction_def js_default_def
      satisfied_def hasIntersection_iff isIdentical_iff)

text \<open>The actions stored for a pool or a resource; none when nothing is stored for it.\<close>

definition actions_of :: "store \<Rightarrow> jsval \<Rightarrow> string \<Rightarrow> jsval list \<Rightarrow> bool" where
  "actions_of st entityType i acts \<longleftrightarrow> (\<exists>table. stored_actions st (getLabel entityType) = Inr (Obj table)
     \<and> (obj_get table i = Arr acts \<or> obj_get table i = Undef \<and> acts = []))"

lemma scoped_actions:
  assumes "actions_of st entityType i acts" "entityType = Str ''pool'' \<or> entityType = Str ''resource''"
  shows "useScopedAllowedActions st org oid entityType (Str i) = Inr (Arr acts)"
  using assms by (auto simp: actions_of_def useScopedAllowedActions_def js_or_def Let_def)

lemma permission:
  assumes "actions_of st entityType i acts" "entityType = Str ''pool'' \<or> entityType = Str ''resource''"
    "\<forall>r \<in> set req. \<not> is_object r" "condition = Str ''and'' \<or> condition = Str ''or'' \<or> condition = Undef"
  shows "useIsAllowed st org oid (Str i) entityType (Arr req) condition
    = Inr (satisfied (condition = Str ''and'') (set req) (set acts))"
proof -
  have "js_default entityType (Str ''organization'') = entityType" using assms(2) by (auto simp: js_default_def)
  then show ?thesis
    using scoped_actions [OF assms(1,2)] isAllowed_iff [OF assms(3,4)]
    by (simp add: useIsAllowed_def js_default_def)
qed

lemma filter_permission:
  assumes "entitiesType = Str ''pool'' \<or> entitiesType = Str ''resource''"
    "\<forall>i \<in> set ids. actions_of st entitiesType i (acts i)" "ids \<noteq> []"
    "\<forall>r \<in> set req. \<not> is_object r" "condition = Str ''and'' \<or> condition = Str ''or'' \<or> condition = Undef"
  shows "useFilterByPermissions st org (map Str ids) entitiesType (Arr req) condition
    = Inr (map Str (filter (\<lambda>i. satisfied (condition = Str ''and'') (set req) (set (acts i))) ids))"
proof -
  obtain table where t: "stored_actions st (getLabel entitiesType) = Inr (Obj table)"
    using assms(2,3) by (cases ids) (auto simp: actions_of_def)
  have "isAllowed (Arr req) (js_or (obj_get table i) (Arr [])) condition
      = Inr (satisfied (condition = Str ''and'') (set req) (set (acts i)))" if "i \<in> set ids" for i
    using assms(2) that t isAllowed_iff [OF assms(4,5)] by (auto simp: actions_of_def js_or_def)
  then have "filterM_js (\<lambda>i. bind_js (get_prop (Obj table) (to_str i)) (\<lambda>actions.
       isAllowed (Arr req) (js_or actions (Arr [])) condition)) (map Str ids)
    = Inr (filter (\<lambda>v. satisfied (condition = Str ''and'') (set req) (set (acts (to_str v)))) (map Str ids))"
    by (intro filterM_js_total) auto
  then show ?thesis
    using t assms(1) by (auto simp: useFilterByPermissions_def Let_def filter_map comp_def)
qed

end
