(* ===== verification/ExpensesSplits.thy ===== *)
theory ExpensesSplits
  imports Arrays SuccessCodes
begin

text \<open>
  \<open>utils/getResourceExpensesSplits.ts\<close>: the daily expenses of a resource, by day, by week and by
  month.  The date formatter belongs to date-fns and is the argument \<open>formatUTC\<close>.
\<close>

section \<open>The splits\<close>

text \<open>One property of one day added to the accumulator of \<open>summarize\<close>.\<close>

definition add_property :: "obj \<Rightarrow> string \<times> jsval \<Rightarrow> obj js" where
  "add_property acc = (\<lambda>(key, value).
     if is_object value
     then map_js (\<lambda>cost. obj_set key (Obj (obj_spread (obj_spread [] (own_props value))
            [(''cost'', js_add (js_or (opt_prop (obj_get acc key) ''cost'') (Num 0)) cost)])) acc)
          (get_prop value ''cost'')
     else (case value of
         Num x \<Rightarrow> Inr (obj_set key (js_add (js_or (obj_get acc key) (Num 0)) (Num x)) acc)
       | _ \<Rightarrow> Inr acc))"

definition summarize :: "jsval list \<Rightarrow> jsval \<Rightarrow> jsval js" where
  "summarize chunk dateIntervalLabel =
     map_js Obj (foldM_js (\<lambda>acc current. bind_js (entries_js current) (foldM_js add_property acc))
       [(''date'', dateIntervalLabel)] chunk)"

definition with_dates :: "(jsval \<Rightarrow> string \<Rightarrow> string) \<Rightarrow> obj \<Rightarrow> obj" where
  "with_dates formatUTC b =
     obj_spread (obj_spread [] b)
       [(''date'', Str (formatUTC (obj_get b ''date'') ''MM/dd/yy'')),
        (''dateMonthYear'', Str (formatUTC (obj_get b ''date'') ''MMM, yyyy''))]"

text \<open>The label of a week: the dates of its first and last day.\<close>

definition week_label :: "jsval list \<Rightarrow> jsval js" where
  "week_label chunk =
     (case chunk of
        [] \<Rightarrow> Inl TypeError
      | c # _ \<Rightarrow> bind_js (get_prop c ''date'') (\<lambda>d1. map_js (\<lambda>d2. Str (to_str d1 @ '' - '' @ to_str d2))
          (get_prop (last chunk) ''date'')))"

definition getResourceExpensesSplits :: "(jsval \<Rightarrow> string \<Rightarrow> string) \<Rightarrow> obj list \<Rightarrow> jsval js" where
  "getResourceExpensesSplits formatUTC breakdown =
     (let withDates = map (\<lambda>b. Obj (with_dates formatUTC b)) breakdown in
      bind_js (splitIntoChunks withDates 7) (\<lambda>weeks.
      bind_js (mapM_js (\<lambda>weeklyChunk. bind_js (week_label weeklyChunk) (summarize weeklyChunk)) weeks) (\<lambda>weekly.
      bind_js (createGroupsObjectFromArray withDates (\<lambda>x. get_prop x ''dateMonthYear'')) (\<lambda>groups.
      map_js (\<lambda>monthly. Obj [(''daily'', Arr withDates), (''weekly'', Arr weekly), (''monthly'', Arr monthly)])
        (mapM_js (\<lambda>(date, monthData). bind_js (as_array monthData) (\<lambda>days. summarize days (Str date))) groups)))))"

section \<open>No cost is lost\<close>

text \<open>A day is plain when the expenses are numbers, and the named key is no date.\<close>

definition plain_day :: "obj \<Rightarrow> bool" where
  "plain_day b \<longleftrightarrow> distinct (map fst b) \<and>
     (\<forall>(k, v) \<in> set b. if k \<in> {''date'', ''dateMonthYear''} then \<exists>s. v = Str s else \<exists>x. v = Num x)"

definition amount :: "string \<Rightarrow> jsval \<Rightarrow> rat" where
  "amount key v = (case opt_prop v key of Num x \<Rightarrow> x | _ \<Rightarrow> 0)"

definition total :: "string \<Rightarrow> jsval list \<Rightarrow> rat" where
  "total key vs = sum_list (map (amount key) vs)"

lemma total_simps [simp]: "total key [] = 0" "total key (v # vs) = amount key v + total key vs"
  "total key (xs @ ys) = total key xs + total key ys"
  by (simp_all add: total_def)

text \<open>The accumulator: numbers, besides the label of the date.\<close>

definition plain_sum :: "obj \<Rightarrow> bool" where
  "plain_sum acc \<longleftrightarrow> (\<forall>k. k \<noteq> ''date'' \<longrightarrow> obj_get acc k = Undef \<or> (\<exists>x. obj_get acc k = Num x))"

lemma add_number:
  assumes "plain_sum acc" "k \<noteq> ''date''"
  shows "\<exists>acc'. add_property acc (k, Num x) = Inr acc' \<and> plain_sum acc'
    \<and> (\<forall>key. key \<noteq> ''date'' \<longrightarrow> amount key (Obj acc') = amount key (Obj acc) + (if key = k then x else 0))"
proof -
  let ?acc' = "obj_set k (js_add (js_or (obj_get acc k) (Num 0)) (Num x)) acc"
  have run: "add_property acc (k, Num x) = Inr ?acc'" by (simp add: add_property_def)
  have "js_add (js_or (obj_get acc k) (Num 0)) (Num x) = Num (amount k (Obj acc) + x)"
    using assms by (auto simp: plain_sum_def js_or_def js_add_def amount_def)
  with run assms(1) show ?thesis by (auto simp: plain_sum_def amount_def)
qed

lemma add_text: "add_property acc (k, Str s) = Inr acc"
  by (simp add: add_property_def)

lemma add_day:
  assumes "plain_sum acc" "plain_day b"
  shows "\<exists>acc'. foldM_js add_property acc b = Inr acc' \<and> plain_sum acc'
    \<and> (\<forall>key. key \<notin> {''date'', ''dateMonthYear''} \<longrightarrow> amount key (Obj acc') = amount key (Obj acc) + amount key (Obj b))"
  using assms
proof (induction b arbitrary: acc)
  case Nil
  then show ?case by (simp add: amount_def)
next
  case (Cons p b)
  obtain k v where p: "p = (k, v)" by (cases p)
  have b: "plain_day b" using Cons.prems(2) by (simp add: plain_day_def)
  have fresh: "k \<notin> fst ` set b" using Cons.prems(2) by (simp add: plain_day_def p)
  show ?case
  proof (cases "k \<in> {''date'', ''dateMonthYear''}")
    case True
    then obtain s where "v = Str s" using Cons.prems(2) by (auto simp: plain_day_def p)
    with Cons.IH [OF Cons.prems(1) b] True show ?thesis by (auto simp: p add_text amount_def)
  next
    case False
    then obtain x where x: "v = Num x" using Cons.prems(2) by (auto simp: plain_day_def p)
    obtain acc1 where a1: "add_property acc (k, Num x) = Inr acc1" "plain_sum acc1"
      "\<And>key. key \<noteq> ''date'' \<Longrightarrow> amount key (Obj acc1) = amount key (Obj acc) + (if key = k then x else 0)"
      using add_number [OF Cons.prems(1), of k x] False by auto
    obtain acc2 where a2: "foldM_js add_property acc1 b = Inr acc2" "plain_sum acc2"
      "\<And>key. key \<notin> {''date'', ''dateMonthYear''} \<Longrightarrow> amount key (Obj acc2) = amount key (Obj acc1) + amount key (Obj b)"
      using Cons.IH [OF a1(2) b] by auto
    have "amount k (Obj b) = 0" using obj_get_absent [OF fresh] by (simp add: amount_def)
    then have day: "amount key (Obj (p # b)) = (if key = k then x else 0) + amount key (Obj b)" for key
      by (simp add: amount_def p x obj_get_def)
    show ?thesis
    proof (intro exI [of _ acc2] conjI allI impI)
      show "foldM_js add_property acc (p # b) = Inr acc2" using a1(1) a2(1) by (simp add: p x)
      fix key :: string assume "key \<notin> {''date'', ''dateMonthYear''}"
      then show "amount key (Obj acc2) = amount key (Obj acc) + amount key (Obj (p # b))"
        using a1(3) [of key] a2(3) [of key] day [of key] by simp
    qed (rule a2(2))
  qed
qed

lemma summarize_total:
  assumes "\<forall>v \<in> set chunk. \<exists>b. v = Obj b \<and> plain_day b"
  shows "\<exists>v. summarize chunk label_arg = Inr v \<and>
    (\<forall>key. key \<notin> {''date'', ''dateMonthYear''} \<longrightarrow> amount key v = total key chunk)"
proof -
  let ?f = "\<lambda>acc current. bind_js (entries_js current) (foldM_js add_property acc)"
  have "\<exists>acc'. foldM_js ?f acc chunk = Inr acc' \<and>
    (\<forall>key. key \<notin> {''date'', ''dateMonthYear''} \<longrightarrow> amount key (Obj acc') = amount key (Obj acc) + total key chunk)"
    if "plain_sum acc" for acc
    using assms that
  proof (induction chunk arbitrary: acc)
    case (Cons v vs)
    then obtain b where b: "v = Obj b" "plain_day b" by auto
    obtain acc1 where a1: "foldM_js add_property acc b = Inr acc1" "plain_sum acc1"
      "\<And>key. key \<notin> {''date'', ''dateMonthYear''} \<Longrightarrow> amount key (Obj acc1) = amount key (Obj acc) + amount key (Obj b)"
      using add_day [OF Cons.prems(2) b(2)] by auto
    obtain acc2 where a2: "foldM_js ?f acc1 vs = Inr acc2"
      "\<And>key. key \<notin> {''date'', ''dateMonthYear''} \<Longrightarrow> amount key (Obj acc2) = amount key (Obj acc1) + total key vs"
      using Cons.IH [OF _ a1(2)] Cons.prems(1) by auto
    show ?case
    proof (intro exI [of _ acc2] conjI allI impI)
      show "foldM_js ?f acc (v # vs) = Inr acc2" using a1(1) a2(1) by (simp add: b entries_js_def)
      fix key :: string assume "key \<notin> {''date'', ''dateMonthYear''}"
      then show "amount key (Obj acc2) = amount key (Obj acc) + total key (v # vs)"
        using a1(3) [of key] a2(2) [of key] by (simp add: b)
    qed
  qed simp
  moreover have "plain_sum [(''date'', label_arg)]" by (simp add: plain_sum_def)
  ultimately obtain acc' where a: "foldM_js ?f [(''date'', label_arg)] chunk = Inr acc'"
    "\<And>key. key \<notin> {''date'', ''dateMonthYear''} \<Longrightarrow>
      amount key (Obj acc') = amount key (Obj [(''date'', label_arg)]) + total key chunk" by blast
  show ?thesis
  proof (intro exI [of _ "Obj acc'"] conjI allI impI)
    show "summarize chunk label_arg = Inr (Obj acc')" using a(1) by (simp add: summarize_def)
    fix key :: string assume "key \<notin> {''date'', ''dateMonthYear''}"
    then show "amount key (Obj acc') = total key chunk" using a(2) [of key] by (simp add: amount_def)
  qed
qed

text \<open>Summaries of lists of days keep the total of each list.\<close>

lemma summaries_total:
  assumes "\<forall>c \<in> set cs. \<exists>v. f c = Inr v \<and> (\<forall>key. key \<notin> {''date'', ''dateMonthYear''} \<longrightarrow> amount key v = total key (g c))"
  shows "\<exists>vs. mapM_js f cs = Inr vs \<and>
    (\<forall>key. key \<notin> {''date'', ''dateMonthYear''} \<longrightarrow> map (amount key) vs = map (\<lambda>c. total key (g c)) cs)"
  using assms
proof (induction cs)
  case (Cons c cs)
  then obtain v vs where v: "f c = Inr v" "\<And>key. key \<notin> {''date'', ''dateMonthYear''} \<Longrightarrow> amount key v = total key (g c)"
    and vs: "mapM_js f cs = Inr vs"
      "\<And>key. key \<notin> {''date'', ''dateMonthYear''} \<Longrightarrow> map (amount key) vs = map (\<lambda>c. total key (g c)) cs"
    by auto
  show ?case
  proof (intro exI [of _ "v # vs"] conjI allI impI)
    fix key :: string assume "key \<notin> {''date'', ''dateMonthYear''}"
    then show "map (amount key) (v # vs) = map (\<lambda>c. total key (g c)) (c # cs)"
      using v(2) [of key] vs(2) [of key] by simp
  qed (use v(1) vs(1) in simp)
qed simp

lemma total_concat: "total key (concat cs) = sum_list (map (total key) cs)"
  by (induction cs) simp_all

lemma total_by_key:
  assumes "distinct ks" "\<forall>x \<in> set xs. f x \<in> set ks"
  shows "sum_list (map (\<lambda>k. total key (filter (\<lambda>x. f x = k) xs)) ks) = total key xs"
  using sum_by_key [OF assms, of "amount key"] by (simp add: total_def)

definition elements :: "jsval \<Rightarrow> jsval list" where
  "elements v = (case v of Arr vs \<Rightarrow> vs | _ \<Rightarrow> [])"

lemma grouped_months:
  assumes "grouped f xs g"
  shows "map (\<lambda>e. total key (elements (snd e))) g = map (\<lambda>k. total key (filter (\<lambda>x. f x = k) xs)) (map fst g)"
proof -
  have "map (\<lambda>e. total key (elements (snd e))) g
      = map (\<lambda>e. total key (filter (\<lambda>x. f x = fst e) xs)) g"
  proof (rule map_cong [OF refl])
    fix e assume "e \<in> set g"
    then have "snd e = Arr (filter (\<lambda>x. f x = fst e) xs)" by (intro grouped_entry [OF assms]) simp
    then show "total key (elements (snd e)) = total key (filter (\<lambda>x. f x = fst e) xs)"
      by (simp add: elements_def)
  qed
  then show ?thesis by (simp add: comp_def)
qed

text \<open>The days with their labels are plain, and keep the amounts.\<close>

definition plain_expenses :: "obj \<Rightarrow> bool" where
  "plain_expenses b \<longleftrightarrow> distinct (map fst b) \<and>
     (\<forall>(k, v) \<in> set b. k \<notin> {''date'', ''dateMonthYear''} \<longrightarrow> (\<exists>x. v = Num x))"

lemma with_dates_get:
  assumes "distinct (map fst b)"
  shows "distinct (map fst (with_dates formatUTC b))"
    "obj_get (with_dates formatUTC b) k =
       (if k = ''date'' then Str (formatUTC (obj_get b ''date'') ''MM/dd/yy'')
        else if k = ''dateMonthYear'' then Str (formatUTC (obj_get b ''date'') ''MMM, yyyy'')
        else obj_get b k)"
    "fst ` set (with_dates formatUTC b) = {''date'', ''dateMonthYear''} \<union> fst ` set b"
  using assms by (simp_all add: with_dates_def distinct_obj_spread obj_get_spread keys_obj_spread insert_commute
      obj_get_absent)

lemma plain_with_dates:
  assumes "plain_expenses b"
  shows "plain_day (with_dates formatUTC b)"
proof -
  let ?w = "with_dates formatUTC b"
  have d: "distinct (map fst b)" using assms by (simp add: plain_expenses_def)
  have "if k \<in> {''date'', ''dateMonthYear''} then \<exists>s. v = Str s else \<exists>x. v = Num x" if "(k, v) \<in> set ?w" for k v
  proof -
    have v: "obj_get ?w k = v" using that with_dates_get(1) [OF d] by (simp add: obj_get_def)
    have k: "k \<in> {''date'', ''dateMonthYear''} \<union> fst ` set b"
      using that with_dates_get(3) [OF d, of formatUTC] by force
    show ?thesis
    proof (cases "k \<in> {''date'', ''dateMonthYear''}")
      case False
      with k obtain u where u: "(k, u) \<in> set b" by auto
      then have "obj_get b k = u" using d by (simp add: obj_get_def)
      with v False u assms with_dates_get(2) [OF d, of formatUTC k] show ?thesis
        by (auto simp: plain_expenses_def)
    qed (use v with_dates_get(2) [OF d, of formatUTC k] in auto)
  qed
  with with_dates_get(1) [OF d] show ?thesis by (auto simp: plain_day_def)
qed

lemma amount_with_dates:
  "plain_expenses b \<Longrightarrow> key \<notin> {''date'', ''dateMonthYear''} \<Longrightarrow>
    amount key (Obj (with_dates formatUTC b)) = amount key (Obj b)"
  by (simp add: amount_def plain_expenses_def with_dates_get)

text \<open>The label of the month of a day.\<close>

definition month_of :: "jsval \<Rightarrow> string" where
  "month_of v = to_str (opt_prop v ''dateMonthYear'')"

definition summed_by :: "(string \<Rightarrow> rat list) \<Rightarrow> jsval list \<Rightarrow> bool" where
  "summed_by amounts vs \<longleftrightarrow>
     (\<forall>key. key \<notin> {''date'', ''dateMonthYear''} \<longrightarrow> map (amount key) vs = amounts key)"

lemma weekly_split:
  assumes "\<forall>v \<in> set days. \<exists>b. v = Obj b \<and> plain_day b"
  shows "\<exists>weekly. mapM_js (\<lambda>c. bind_js (week_label c) (summarize c)) (chunks 7 days) = Inr weekly
    \<and> summed_by (\<lambda>key. map (total key) (chunks 7 days)) weekly"
  unfolding summed_by_def
proof (rule summaries_total [where g = "\<lambda>c. c"], intro ballI)
  fix c assume c: "c \<in> set (chunks 7 days)"
  then have "set c \<subseteq> set (concat (chunks 7 days))" by auto
  then have sub: "\<forall>v \<in> set c. \<exists>b. v = Obj b \<and> plain_day b" using assms by (auto simp: concat_chunks)
  have ne: "c \<noteq> []" using chunks_length [OF c] by simp
  then obtain v vs where cv: "c = v # vs" by (cases c) auto
  obtain b where b: "v = Obj b" using sub cv by auto
  obtain b' where "last c = Obj b'" using sub last_in_set [OF ne] by blast
  with b obtain l where "week_label c = Inr l" by (simp add: week_label_def cv)
  with summarize_total [OF sub, of l]
  show "\<exists>v. bind_js (week_label c) (summarize c) = Inr v \<and>
    (\<forall>key. key \<notin> {''date'', ''dateMonthYear''} \<longrightarrow> amount key v = total key c)" by simp
qed

lemma monthly_split:
  assumes "\<forall>v \<in> set days. \<exists>b. v = Obj b \<and> plain_day b" "grouped month_of days g"
  shows "\<exists>monthly. mapM_js (\<lambda>(date, monthData). bind_js (as_array monthData) (\<lambda>ds. summarize ds (Str date))) g = Inr monthly
    \<and> summed_by (\<lambda>key. map (\<lambda>m. total key (filter (\<lambda>v. month_of v = m) days)) (map fst g)) monthly"
  unfolding summed_by_def grouped_months [OF assms(2), symmetric]
proof (rule summaries_total, intro ballI)
  fix e assume e: "e \<in> set g"
  obtain m v where mv: "e = (m, v)" by (cases e)
  have v: "v = Arr (filter (\<lambda>v. month_of v = m) days)" using grouped_entry [OF assms(2)] e mv by simp
  have "\<forall>v \<in> set (filter (\<lambda>v. month_of v = m) days). \<exists>b. v = Obj b \<and> plain_day b" using assms(1) by simp
  from summarize_total [OF this, of "Str m"]
  show "\<exists>v. (case e of (date, monthData) \<Rightarrow> bind_js (as_array monthData) (\<lambda>ds. summarize ds (Str date))) = Inr v \<and>
    (\<forall>key. key \<notin> {''date'', ''dateMonthYear''} \<longrightarrow> amount key v = total key (elements (snd e)))"
    by (simp add: mv v elements_def as_array_def)
qed

text \<open>
  The splits of plain expenses: the weeks sum up seven days each, the months the days with their
  label, and every day is in one week and one month.
\<close>

lemma splits_summed:
  assumes "\<forall>b \<in> set bs. plain_expenses b"
    and "\<And>d. formatUTC d ''MMM, yyyy'' \<notin> set inherited_names"
  defines "days \<equiv> map (\<lambda>b. Obj (with_dates formatUTC b)) bs"
  shows "\<exists>weekly monthly months.
    getResourceExpensesSplits formatUTC bs
      = Inr (Obj [(''daily'', Arr days), (''weekly'', Arr weekly), (''monthly'', Arr monthly)])
    \<and> summed_by (\<lambda>key. map (total key) (chunks 7 days)) weekly
    \<and> distinct months \<and> set months = month_of ` set days
    \<and> summed_by (\<lambda>key. map (\<lambda>m. total key (filter (\<lambda>v. month_of v = m) days)) months) monthly"
proof -
  have plain: "\<forall>v \<in> set days. \<exists>b. v = Obj b \<and> plain_day b"
    using assms(1) plain_with_dates by (auto simp: days_def)
  have "\<forall>v \<in> set days. \<exists>l. get_prop v ''dateMonthYear'' = Inr l \<and> to_str l = month_of v
      \<and> month_of v \<notin> set inherited_names"
    using assms(1,2) by (auto simp: days_def month_of_def with_dates_get plain_expenses_def)
  from groups_spec [OF this] obtain g where g: "createGroupsObjectFromArray days (\<lambda>x. get_prop x ''dateMonthYear'') = Inr g"
    "grouped month_of days g" by auto
  obtain weekly where w: "mapM_js (\<lambda>c. bind_js (week_label c) (summarize c)) (chunks 7 days) = Inr weekly"
    "summed_by (\<lambda>key. map (total key) (chunks 7 days)) weekly" using weekly_split [OF plain] by auto
  obtain monthly where m: "mapM_js (\<lambda>(date, monthData). bind_js (as_array monthData) (\<lambda>ds. summarize ds (Str date))) g = Inr monthly"
    "summed_by (\<lambda>key. map (\<lambda>m. total key (filter (\<lambda>v. month_of v = m) days)) (map fst g)) monthly"
    using monthly_split [OF plain g(2)] by auto
  have "getResourceExpensesSplits formatUTC bs
      = Inr (Obj [(''daily'', Arr days), (''weekly'', Arr weekly), (''monthly'', Arr monthly)])"
    using w(1) m(1) g(1) by (simp add: getResourceExpensesSplits_def splitIntoChunks_chunks days_def)
  with w(2) m(2) g(2) grouped_keys [OF g(2)] show ?thesis unfolding grouped_def by blast
qed

text \<open>So the totals of all three splits agree with the expenses.\<close>

lemma totals_agree:
  assumes "distinct months" "set months = month_of ` set days" "key \<notin> {''date'', ''dateMonthYear''}"
    and "summed_by (\<lambda>key. map (total key) (chunks 7 days)) weekly"
    and "summed_by (\<lambda>key. map (\<lambda>m. total key (filter (\<lambda>v. month_of v = m) days)) months) monthly"
  shows "total key weekly = total key days" "total key monthly = total key days"
proof -
  have "total key weekly = sum_list (map (total key) (chunks 7 days))"
    using assms(3,4) by (simp add: total_def [of key weekly] summed_by_def)
  also have "\<dots> = total key days" by (simp flip: total_concat add: concat_chunks)
  finally show "total key weekly = total key days" .
  have "total key monthly = sum_list (map (\<lambda>m. total key (filter (\<lambda>v. month_of v = m) days)) months)"
    using assms(3,5) by (simp add: total_def [of key monthly] summed_by_def)
  also have "\<dots> = total key days" using assms(1,2) by (intro total_by_key) auto
  finally show "total key monthly = total key days" .
qed

lemma total_with_dates:
  assumes "\<forall>b \<in> set bs. plain_expenses b" "key \<notin> {''date'', ''dateMonthYear''}"
  shows "total key (map (\<lambda>b. Obj (with_dates formatUTC b)) bs) = total key (map Obj bs)"
  using assms by (induction bs) (simp_all add: amount_with_dates)

end
