(* ===== verification/Dashboards.thy ===== *)
theory Dashboards
  imports Arrays SuccessCodes
begin

text \<open>
  \<open>hooks/useTaskRunChartState.ts\<close>: the dashboard of the charts of a task run, with the charts the
  user adds, copies, renames and removes, and its way to the stored layouts and back.  The callbacks
  close over the charts of the render that created them, the argument \<open>rendered\<close>; the text of the
  intl library for a new chart is the argument \<open>report\<close>.
\<close>

section \<open>The state\<close>

record dashboard_data =
  show_milestones :: jsval
  sync_tooltips :: jsval
  grid_type :: jsval
  charts :: "obj list"

record dashboard =
  db_id :: jsval
  db_name :: jsval
  db_ownerId :: jsval
  db_shared :: jsval
  db_data :: dashboard_data

text \<open>The local states of the hook, and the dashboard selected in the store.\<close>

record chart_state =
  cs_dashboard :: dashboard
  cs_saved :: bool
  cs_selected :: jsval

definition chart_state_charts :: "chart_state \<Rightarrow> obj list" where
  "chart_state_charts s = charts (db_data (cs_dashboard s))"

definition DEFAULT_DASHBOARD :: jsval where
  "DEFAULT_DASHBOARD = Obj [(''id'', Str ''default''), (''name'', Str ''Default''),
     (''data'', Obj
       [(''charts'', Arr [Obj [(''id'', Num 1), (''name'', Str ''Report 1''),
          (''breakdowns'', Arr (map Str [''host_ram'', ''host_cpu'', ''process_cpu'', ''process_ram'',
             ''gpu_load'', ''gpu_memory_used'']))]]),
        (''show_milestones'', Bool True), (''sync_tooltips'', Bool True), (''grid_type'', Num 0)])]"

definition isDefaultDashboard :: "jsval \<Rightarrow> bool" where
  "isDefaultDashboard dashboardId \<longleftrightarrow> dashboardId = Str ''default''"

section \<open>Loading and saving\<close>

text \<open>The breakdowns a chart may show, in the order of \<open>breakdownNames\<close>.  (A text of breakdowns, which
  has an \<open>includes\<close> of its own, is not modelled: it throws here.)\<close>

definition init_chart :: "jsval list \<Rightarrow> jsval \<Rightarrow> obj js" where
  "init_chart breakdownNames c =
     bind_js (get_prop c ''breakdowns'') (\<lambda>b.
     map_js (\<lambda>bs. obj_spread (obj_spread [] (own_props c)) [(''breakdowns'', Arr bs)])
       (if breakdownNames = [] then Inr []
        else map_js (\<lambda>search. getIntersection breakdownNames search) (as_array b)))"

definition initializeDashboardState :: "jsval list \<Rightarrow> jsval \<Rightarrow> dashboard js" where
  "initializeDashboardState breakdownNames layout =
     bind_js (get_prop layout ''id'') (\<lambda>i.
     let raw = opt_prop layout ''data'' in
     bind_js (if i = Str ''default'' then Inr raw else json_parse (to_str raw)) (\<lambda>data.
     let cs = opt_prop data ''charts'' in
     map_js (\<lambda>charts_list.
         \<lparr>db_id = i, db_name = opt_prop layout ''name'', db_ownerId = opt_prop layout ''owner_id'',
          db_shared = opt_prop layout ''shared'',
          db_data = \<lparr>show_milestones = js_coalesce (opt_prop data ''show_milestones'') (Bool True),
            sync_tooltips = js_coalesce (opt_prop data ''sync_tooltips'') (Bool True),
            grid_type = js_coalesce (opt_prop data ''grid_type'') (Num 0),
            charts = charts_list\<rparr>\<rparr>)
       (if nullish cs then Inr [] else bind_js (as_array cs) (mapM_js (init_chart breakdownNames)))))"

text \<open>\<open>dashboard.data\<close> as a value, in the order \<open>initializeDashboardState\<close> writes it.\<close>

definition data_value :: "dashboard_data \<Rightarrow> jsval" where
  "data_value d = Obj [(''show_milestones'', show_milestones d), (''sync_tooltips'', sync_tooltips d),
     (''grid_type'', grid_type d), (''charts'', Arr (map Obj (charts d)))]"

text \<open>The parameters \<open>createDashboard\<close> and \<open>updateDashboard\<close> send.\<close>

definition createDashboard_params :: "jsval \<Rightarrow> jsval \<Rightarrow> jsval \<Rightarrow> dashboard \<Rightarrow> obj" where
  "createDashboard_params taskId name shared d =
     [(''name'', name), (''shared'', shared), (''data'', json_stringify (data_value (db_data d))),
      (''entityId'', taskId), (''type'', Str ''ml_run_charts_dashboard'')]"

definition updateDashboard_params :: "jsval \<Rightarrow> jsval \<Rightarrow> dashboard \<Rightarrow> obj" where
  "updateDashboard_params name shared d =
     [(''name'', name), (''shared'', shared), (''data'', json_stringify (data_value (db_data d)))]"

section \<open>The callbacks\<close>

definition setSaved :: "bool \<Rightarrow> bool \<Rightarrow> chart_state \<Rightarrow> chart_state" where
  "setSaved isPublicRun b s = (if isPublicRun then s else s\<lparr>cs_saved := b\<rparr>)"

definition set_data :: "(dashboard_data \<Rightarrow> dashboard_data) \<Rightarrow> chart_state \<Rightarrow> chart_state" where
  "set_data f s = s\<lparr>cs_dashboard := (cs_dashboard s)\<lparr>db_data := f (db_data (cs_dashboard s))\<rparr>\<rparr>"

definition maxChartId :: "obj list \<Rightarrow> jsval" where
  "maxChartId rendered = (if rendered = [] then Num 0 else obj_get (last rendered) ''id'')"

definition createChart :: "string \<Rightarrow> jsval list \<Rightarrow> jsval \<Rightarrow> obj" where
  "createChart report implemented i =
     [(''id'', i), (''name'', Str (report @ '' '' @ to_str i)), (''breakdowns'', Arr implemented)]"

definition addChart :: "string \<Rightarrow> jsval list \<Rightarrow> obj list \<Rightarrow> dashboard_data \<Rightarrow> dashboard_data" where
  "addChart report implemented rendered d =
     d\<lparr>charts := charts d @ [createChart report implemented (js_add (maxChartId rendered) (Num 1))]\<rparr>"

definition removeChart :: "jsval \<Rightarrow> dashboard_data \<Rightarrow> dashboard_data" where
  "removeChart idToRemove d = d\<lparr>charts := filter (\<lambda>c. \<not> strict_eq (obj_get c ''id'') idToRemove) (charts d)\<rparr>"

definition getChartCopy :: "obj list \<Rightarrow> jsval \<Rightarrow> obj js" where
  "getChartCopy rendered idToCopy =
     (case find (\<lambda>c. strict_eq (obj_get c ''id'') idToCopy) rendered of
        None \<Rightarrow> Inl TypeError
      | Some c \<Rightarrow> map_js (\<lambda>bs. [(''id'', js_add (maxChartId rendered) (Num 1)),
            (''name'', Str (''Clone of '' @ to_str (obj_get c ''name''))), (''breakdowns'', Arr bs)])
          (iterate (obj_get c ''breakdowns'')))"

definition cloneChart :: "obj list \<Rightarrow> jsval \<Rightarrow> dashboard_data \<Rightarrow> dashboard_data js" where
  "cloneChart rendered i d = map_js (\<lambda>c. d\<lparr>charts := charts d @ [c]\<rparr>) (getChartCopy rendered i)"

definition update_chart :: "jsval \<Rightarrow> string \<Rightarrow> jsval \<Rightarrow> dashboard_data \<Rightarrow> dashboard_data" where
  "update_chart chartId k v d = d\<lparr>charts := map (\<lambda>c.
     if strict_eq (obj_get c ''id'') chartId then obj_spread (obj_spread [] c) [(k, v)] else c) (charts d)\<rparr>"

definition updateChartName :: "jsval \<Rightarrow> jsval \<Rightarrow> dashboard_data \<Rightarrow> dashboard_data" where
  "updateChartName chartId name = update_chart chartId ''name'' name"

definition updateChartBreakdowns :: "jsval \<Rightarrow> jsval \<Rightarrow> dashboard_data \<Rightarrow> dashboard_data" where
  "updateChartBreakdowns chartId breakdowns = update_chart chartId ''breakdowns'' breakdowns"

definition enableMilestones :: "dashboard_data \<Rightarrow> dashboard_data" where
  "enableMilestones d = d\<lparr>show_milestones := Bool True\<rparr>"

definition disableMilestones :: "dashboard_data \<Rightarrow> dashboard_data" where
  "disableMilestones d = d\<lparr>show_milestones := Bool False\<rparr>"

definition enableTooltipSync :: "dashboard_data \<Rightarrow> dashboard_data" where
  "enableTooltipSync d = d\<lparr>sync_tooltips := Bool True\<rparr>"

definition disableTooltipSync :: "dashboard_data \<Rightarrow> dashboard_data" where
  "disableTooltipSync d = d\<lparr>sync_tooltips := Bool False\<rparr>"

definition updateGridType :: "jsval \<Rightarrow> dashboard_data \<Rightarrow> dashboard_data" where
  "updateGridType gridType d = d\<lparr>grid_type := gridType\<rparr>"

section \<open>Events\<close>

text \<open>
  What happens to the hook: a callback is called, or a promise it waits for is resolved
  (\<open>Dashboard_loaded\<close> after \<open>onDashboardChange\<close>, \<open>Layouts_loaded\<close> with the layouts of the task,
  \<open>Selected_loaded\<close> with the layout that is then read, \<open>Created\<close>, \<open>Updated\<close>, \<open>Removed\<close>).
\<close>

datatype chart_event =
    Add | Remove jsval | Clone jsval | Rename jsval jsval | Rebreak jsval "jsval list"
  | Milestones bool | Tooltip_sync bool | Grid jsval
  | Select jsval | Dashboard_loaded jsval jsval | Layouts_loaded "jsval list" | Selected_loaded jsval
  | Created jsval | Updated | Removed jsval

record chart_config =
  cf_isPublicRun :: bool
  cf_breakdownNames :: "jsval list"
  cf_implemented :: "jsval list"
  cf_report :: string

definition edit :: "chart_config \<Rightarrow> (dashboard_data \<Rightarrow> dashboard_data) \<Rightarrow> chart_state \<Rightarrow> chart_state js" where
  "edit cf f s = Inr (setSaved (cf_isPublicRun cf) False (set_data f s))"

definition load :: "chart_config \<Rightarrow> jsval \<Rightarrow> chart_state \<Rightarrow> chart_state js" where
  "load cf layout s =
     map_js (\<lambda>d. s\<lparr>cs_dashboard := d\<rparr>) (initializeDashboardState (cf_breakdownNames cf) layout)"

fun chart_step :: "chart_config \<Rightarrow> obj list \<Rightarrow> chart_event \<Rightarrow> chart_state \<Rightarrow> chart_state js" where
  "chart_step cf rendered Add s = edit cf (addChart (cf_report cf) (cf_implemented cf) rendered) s"
| "chart_step cf rendered (Remove i) s = edit cf (removeChart i) s"
| "chart_step cf rendered (Clone i) s =
     bind_js (cloneChart rendered i (db_data (cs_dashboard s))) (\<lambda>d. edit cf (\<lambda>_. d) s)"
| "chart_step cf rendered (Rename i name) s = edit cf (updateChartName i name) s"
| "chart_step cf rendered (Rebreak i bs) s = edit cf (updateChartBreakdowns i (Arr bs)) s"
| "chart_step cf rendered (Milestones on) s = edit cf (if on then enableMilestones else disableMilestones) s"
| "chart_step cf rendered (Tooltip_sync on) s = edit cf (if on then enableTooltipSync else disableTooltipSync) s"
| "chart_step cf rendered (Grid g) s = edit cf (updateGridType g) s"
| "chart_step cf rendered (Select i) s =
     (let s' = setSaved (cf_isPublicRun cf) True s in
      if isDefaultDashboard i then map_js (\<lambda>s. s\<lparr>cs_selected := i\<rparr>) (load cf DEFAULT_DASHBOARD s') else Inr s')"
| "chart_step cf rendered (Dashboard_loaded i layout) s = map_js (\<lambda>s. s\<lparr>cs_selected := i\<rparr>) (load cf layout s)"
| "chart_step cf rendered (Layouts_loaded layouts) s =
     (if isDefaultDashboard (cs_selected s) then load cf DEFAULT_DASHBOARD s else Inr s)"
| "chart_step cf rendered (Selected_loaded layout) s = load cf layout s"
| "chart_step cf rendered (Created i) s = Inr ((setSaved (cf_isPublicRun cf) True s)\<lparr>cs_selected := i\<rparr>)"
| "chart_step cf rendered Updated s = Inr (setSaved (cf_isPublicRun cf) True s)"
| "chart_step cf rendered (Removed i) s =
     Inr ((setSaved (cf_isPublicRun cf) True s)\<lparr>cs_selected := Str ''default''\<rparr>)"

text \<open>The layout read after the layouts of the task, if the selected one is among them.\<close>

definition layout_to_read :: "jsval list \<Rightarrow> jsval \<Rightarrow> jsval option" where
  "layout_to_read apiLayouts selected =
     (if list_ex (\<lambda>l. strict_eq (opt_prop l ''id'') selected) apiLayouts then Some selected else None)"

text \<open>The first state of the hook: the layout in the store, if it is the selected one.\<close>

definition initial_state :: "chart_config \<Rightarrow> jsval \<Rightarrow> jsval \<Rightarrow> chart_state js" where
  "initial_state cf layout selected =
     bind_js (get_prop layout ''id'') (\<lambda>i.
     map_js (\<lambda>d. \<lparr>cs_dashboard = d, cs_saved = True, cs_selected = selected\<rparr>)
       (initializeDashboardState (cf_breakdownNames cf)
         (if strict_eq i selected then layout else DEFAULT_DASHBOARD)))"

text \<open>
  The layout that a request for it answers with after a save: the server keeps the fields it was sent
  and adds the id and the owner (\<open>src/rest_api/rest_api_server/controllers/layout.py\<close>, which is no code of
  the interface).
\<close>

definition stored_layout :: "jsval \<Rightarrow> jsval \<Rightarrow> obj \<Rightarrow> jsval" where
  "stored_layout i owner params =
     Obj [(''id'', i), (''name'', obj_get params ''name''), (''owner_id'', owner),
       (''shared'', obj_get params ''shared''), (''data'', obj_get params ''data'')]"

text \<open>The layout that an event brings with it.\<close>

definition layout_of_event :: "chart_event \<Rightarrow> jsval option" where
  "layout_of_event e = (case e of Dashboard_loaded i layout \<Rightarrow> Some layout | Selected_loaded layout \<Rightarrow> Some layout | _ \<Rightarrow> None)"

text \<open>
  The sessions of the hook and the layouts they save, for whatever configurations: a session begins with
  the default dashboard or with a layout that a session saved before, loads nothing else, and each of its
  events meets a hook that was rendered since the event before.  What is saved has no value undefined
  and no number that is not whole, as the texts of \<open>JsonText\<close> demand.
\<close>

inductive hook_layout :: "jsval \<Rightarrow> bool" and session :: "chart_config \<Rightarrow> chart_state \<Rightarrow> bool" where
  default: "hook_layout DEFAULT_DASHBOARD"
| updated: "session cf s \<Longrightarrow> json_ok (data_value (db_data (cs_dashboard s))) \<Longrightarrow> i \<noteq> Str ''default'' \<Longrightarrow>
    hook_layout (stored_layout i owner (updateDashboard_params name shared (cs_dashboard s)))"
| created: "session cf s \<Longrightarrow> json_ok (data_value (db_data (cs_dashboard s))) \<Longrightarrow> i \<noteq> Str ''default'' \<Longrightarrow>
    hook_layout (stored_layout i owner (createDashboard_params taskId name shared (cs_dashboard s)))"
| start: "strict_eq (opt_prop layout ''id'') selected \<longrightarrow> hook_layout layout \<Longrightarrow>
    initial_state cf layout selected = Inr s \<Longrightarrow> session cf s"
| event: "session cf s \<Longrightarrow> \<forall>layout. layout_of_event e = Some layout \<longrightarrow> hook_layout layout \<Longrightarrow>
    chart_step cf (chart_state_charts s) e s = Inr s' \<Longrightarrow> session cf s'"

section \<open>The ids of the charts\<close>

text \<open>Charts with increasing numbers as ids, and layouts that give such charts.\<close>

definition numbered :: "obj list \<Rightarrow> bool" where
  "numbered cs \<longleftrightarrow> (\<forall>c \<in> set cs. distinct (map fst c)) \<and>
     (\<exists>ns. map (\<lambda>c. obj_get c ''id'') cs = map Num ns \<and> sorted_wrt (<) (0 # ns))"

definition loads_numbered :: "chart_config \<Rightarrow> jsval \<Rightarrow> bool" where
  "loads_numbered cf layout \<longleftrightarrow>
     (\<forall>d. initializeDashboardState (cf_breakdownNames cf) layout = Inr d \<longrightarrow> numbered (charts (db_data d)))"

lemma numbered_distinct: "numbered cs \<Longrightarrow> distinct (map (\<lambda>c. obj_get c ''id'') cs)"
proof -
  assume "numbered cs"
  then obtain ns where ns: "map (\<lambda>c. obj_get c ''id'') cs = map Num ns" "sorted_wrt (<) ns"
    by (auto simp: numbered_def)
  have "distinct (map Num ns)" using ns(2) by (simp add: distinct_map inj_on_def strict_sorted_iff)
  then show ?thesis by (simp only: ns(1))
qed

lemma numbered_filter:
  assumes "numbered cs"
  shows "numbered (filter P cs)"
proof -
  obtain ns where ns: "map (\<lambda>c. obj_get c ''id'') cs = map Num ns" "sorted_wrt (<) (0 # ns)"
    using assms by (auto simp: numbered_def)
  have "\<exists>ms. map (\<lambda>c. obj_get c ''id'') (filter P cs) = map Num ms \<and> set ms \<subseteq> set ns \<and> sorted_wrt (<) ms"
    using ns(1) ns(2)
  proof (induction cs arbitrary: ns)
    case (Cons c cs)
    then obtain n ns' where n: "ns = n # ns'" "obj_get c ''id'' = Num n" "map (\<lambda>c. obj_get c ''id'') cs = map Num ns'"
      by (cases ns) auto
    with Cons.prems(2) have "sorted_wrt (<) (0 # ns')" by simp
    from Cons.IH [OF n(3) this] obtain ms where ms: "map (\<lambda>c. obj_get c ''id'') (filter P cs) = map Num ms"
      "set ms \<subseteq> set ns'" "sorted_wrt (<) ms" by blast
    show ?case
    proof (cases "P c")
      case True
      have "\<forall>m \<in> set ms. n < m" using ms(2) Cons.prems(2) n(1) by auto
      with True ms n show ?thesis by (intro exI [of _ "n # ms"]) auto
    next
      case False
      with ms n show ?thesis by (intro exI [of _ ms]) auto
    qed
  qed simp
  then obtain ms where "map (\<lambda>c. obj_get c ''id'') (filter P cs) = map Num ms" "set ms \<subseteq> set ns" "sorted_wrt (<) ms"
    by blast
  with ns(2) have "map (\<lambda>c. obj_get c ''id'') (filter P cs) = map Num ms \<and> sorted_wrt (<) (0 # ms)" by auto
  with assms show ?thesis by (auto simp: numbered_def)
qed

lemma last_greatest: "sorted_wrt (<) xs \<Longrightarrow> x \<in> set xs \<Longrightarrow> x \<le> last (xs :: rat list)"
proof (induction xs)
  case (Cons y ys)
  then show ?case using last_in_set [of ys] by (cases "ys = []") (auto intro: less_imp_le)
qed simp

lemma numbered_append:
  assumes "numbered cs" "obj_get c ''id'' = js_add (maxChartId cs) (Num 1)" "distinct (map fst c)"
  shows "numbered (cs @ [c])"
proof -
  obtain ns where ns: "map (\<lambda>c. obj_get c ''id'') cs = map Num ns" "sorted_wrt (<) (0 # ns)"
    using assms(1) by (auto simp: numbered_def)
  have "maxChartId cs = Num (last (0 # ns))"
  proof (cases "cs = []")
    case False
    then have "ns \<noteq> []" using ns(1) by auto
    moreover have "obj_get (last cs) ''id'' = last (map (\<lambda>c. obj_get c ''id'') cs)" using False by (simp add: last_map)
    ultimately show ?thesis using False ns(1) by (simp add: maxChartId_def last_map)
  qed (use ns in \<open>simp add: maxChartId_def\<close>)
  then have i: "obj_get c ''id'' = Num (last (0 # ns) + 1)" using assms(2) by (simp add: js_add_def)
  have "\<forall>n \<in> set (0 # ns). n < last (0 # ns) + 1" using last_greatest [OF ns(2)] by force
  then have "sorted_wrt (<) ((0 # ns) @ [last (0 # ns) + 1])" using ns(2) by (simp only: sorted_wrt_append) auto
  with ns(1) i have "map (\<lambda>c. obj_get c ''id'') (cs @ [c]) = map Num (ns @ [last (0 # ns) + 1])
      \<and> sorted_wrt (<) (0 # ns @ [last (0 # ns) + 1])" by simp
  moreover have "\<forall>x \<in> set (cs @ [c]). distinct (map fst x)" using assms(1,3) by (auto simp: numbered_def)
  ultimately show ?thesis unfolding numbered_def by blast
qed

lemma numbered_map:
  assumes "numbered cs" "\<And>c. distinct (map fst c) \<Longrightarrow> obj_get (f c) ''id'' = obj_get c ''id'' \<and> distinct (map fst (f c))"
  shows "numbered (map f cs)"
proof -
  have "map (\<lambda>c. obj_get c ''id'') (map f cs) = map (\<lambda>c. obj_get c ''id'') cs"
    using assms by (simp add: numbered_def)
  with assms show ?thesis unfolding numbered_def by (simp del: map_map)
qed

lemma numbered_update:
  assumes "numbered (charts d)" "k \<noteq> ''id''"
  shows "numbered (charts (update_chart i k v d))"
  unfolding update_chart_def
  using numbered_map [OF assms(1), of "\<lambda>c. if strict_eq (obj_get c ''id'') i then obj_spread (obj_spread [] c) [(k, v)] else c"]
    assms(2)
  by (simp add: obj_get_spread distinct_obj_spread obj_get_absent)

lemma default_numbered:
  assumes "initializeDashboardState names DEFAULT_DASHBOARD = Inr d"
  shows "numbered (charts (db_data d))"
proof -
  let ?c = "[(''id'', Num 1), (''name'', Str ''Report 1''), (''breakdowns'', Arr (map Str [''host_ram'', ''host_cpu'',
    ''process_cpu'', ''process_ram'', ''gpu_load'', ''gpu_memory_used'']))] :: obj"
  obtain bs where "charts (db_data d) = [obj_spread (obj_spread [] ?c) [(''breakdowns'', Arr bs)]]"
    using assms
    by (auto simp: initializeDashboardState_def DEFAULT_DASHBOARD_def Let_def init_chart_def as_array_def
        map_js_Inr_iff bind_js_Inr_iff obj_get_def split: if_splits)
  moreover have "numbered [obj_spread (obj_spread [] ?c) [(''breakdowns'', Arr bs)]]"
    by (simp add: numbered_def obj_get_spread distinct_obj_spread)
      (auto simp: obj_get_spread intro!: exI [of _ "[1]"])
  ultimately show ?thesis by simp
qed

lemma edit_charts:
  "edit cf f s = Inr s' \<Longrightarrow> chart_state_charts s' = charts (f (db_data (cs_dashboard s)))"
  by (auto simp: edit_def setSaved_def set_data_def chart_state_charts_def)

lemma load_charts:
  "load cf layout s = Inr s' \<Longrightarrow>
    \<exists>d. initializeDashboardState (cf_breakdownNames cf) layout = Inr d \<and> chart_state_charts s' = charts (db_data d)"
  by (auto simp: load_def map_js_Inr_iff chart_state_charts_def)

lemma load_numbered:
  "load cf layout s = Inr s' \<Longrightarrow> loads_numbered cf layout \<Longrightarrow> numbered (chart_state_charts s')"
  "load cf DEFAULT_DASHBOARD s = Inr s' \<Longrightarrow> numbered (chart_state_charts s')"
  using load_charts default_numbered by (fastforce simp: loads_numbered_def)+

lemma clone_charts:
  assumes "cloneChart rendered i d = Inr d'"
  shows "\<exists>c. charts d' = charts d @ [c] \<and> distinct (map fst c)
    \<and> obj_get c ''id'' = js_add (maxChartId rendered) (Num 1)"
  using assms by (auto simp: cloneChart_def getChartCopy_def map_js_Inr_iff split: option.splits)

lemma charts_saved [simp]:
  "chart_state_charts (setSaved p b s) = chart_state_charts s"
  "chart_state_charts (s\<lparr>cs_selected := i\<rparr>) = chart_state_charts s"
  by (simp_all add: setSaved_def chart_state_charts_def)

lemma step_numbered:
  assumes "numbered (chart_state_charts s)" "\<And>layout. layout_of_event e = Some layout \<Longrightarrow> loads_numbered cf layout"
    "chart_step cf (chart_state_charts s) e s = Inr s'"
  shows "numbered (chart_state_charts s')"
proof -
  have n: "numbered (charts (db_data (cs_dashboard s)))" using assms(1) by (simp add: chart_state_charts_def)
  show ?thesis
  proof (cases e)
    case Add
    with assms(3) n show ?thesis
      by (auto simp: addChart_def createChart_def chart_state_charts_def [of s] dest!: edit_charts intro!: numbered_append)
  next
    case (Remove i)
    with assms(3) n show ?thesis by (auto simp: removeChart_def dest!: edit_charts intro!: numbered_filter)
  next
    case (Clone i)
    then obtain d where "cloneChart (chart_state_charts s) i (db_data (cs_dashboard s)) = Inr d"
      "edit cf (\<lambda>_. d) s = Inr s'" using assms(3) by (auto simp: bind_js_Inr_iff)
    with clone_charts edit_charts show ?thesis
      using numbered_append [OF n] by (fastforce simp: chart_state_charts_def [of s])
  next
    case (Milestones on)
    with assms(3) n show ?thesis
      by (auto simp: enableMilestones_def disableMilestones_def dest!: edit_charts split: if_splits)
  next
    case (Tooltip_sync on)
    with assms(3) n show ?thesis
      by (auto simp: enableTooltipSync_def disableTooltipSync_def dest!: edit_charts split: if_splits)
  next
    case (Select i)
    with assms(1,3) show ?thesis
      by (auto simp: Let_def map_js_Inr_iff load_numbered(2) split: if_splits)
  next
    case (Dashboard_loaded i layout)
    with assms show ?thesis by (auto simp: layout_of_event_def map_js_Inr_iff load_numbered(1))
  next
    case (Layouts_loaded layouts)
    with assms(1,3) show ?thesis by (auto simp: load_numbered(2) split: if_splits)
  next
    case (Selected_loaded layout)
    with assms show ?thesis by (auto simp: layout_of_event_def load_numbered(1))
  next
    case (Rename i name)
    with assms(3) n show ?thesis by (auto simp: updateChartName_def dest!: edit_charts intro!: numbered_update)
  next
    case (Rebreak i bs)
    with assms(3) n show ?thesis by (auto simp: updateChartBreakdowns_def dest!: edit_charts intro!: numbered_update)
  qed (use assms n in \<open>auto simp: updateGridType_def dest!: edit_charts\<close>)
qed

text \<open>Loading what was saved keeps the ids, whatever the breakdowns of the hook that loads it.\<close>

lemma init_chart_keeps:
  assumes "init_chart names (Obj c) = Inr c'" "distinct (map fst c)"
  shows "obj_get c' ''id'' = obj_get c ''id'' \<and> distinct (map fst c')"
  using assms by (auto simp: init_chart_def map_js_Inr_iff bind_js_Inr_iff obj_get_spread distinct_obj_spread obj_get_absent)

lemma stored_numbered:
  assumes "numbered (charts d)" "json_ok (data_value d)" "i \<noteq> Str ''default''"
    "obj_get params ''data'' = json_stringify (data_value d)"
  shows "loads_numbered cf (stored_layout i owner params)"
  unfolding loads_numbered_def
proof (intro allI impI)
  let ?f = "\<lambda>c. case init_chart (cf_breakdownNames cf) (Obj c) of Inr c' \<Rightarrow> c' | Inl _ \<Rightarrow> c"
  fix d' assume d': "initializeDashboardState (cf_breakdownNames cf) (stored_layout i owner params) = Inr d'"
  obtain t where t: "json_str (data_value d) = Some t" using json_str_total [OF assms(2)] by blast
  have "mapM_js (init_chart (cf_breakdownNames cf)) (map Obj (charts d)) = Inr (charts (db_data d'))"
    using d' json_parse_str [OF assms(2) t] t assms(3,4)
    by (auto simp: initializeDashboardState_def stored_layout_def json_stringify_def data_value_def obj_get_def [of "_ # _"]
        Let_def as_array_def map_js_Inr_iff)
  moreover have "mapM_js (init_chart names) (map Obj cs) = Inr cs' \<Longrightarrow>
      cs' = map (\<lambda>c. case init_chart names (Obj c) of Inr c' \<Rightarrow> c' | Inl _ \<Rightarrow> c) cs" for names cs cs'
    by (induction cs arbitrary: cs') (auto simp: bind_js_Inr_iff map_js_Inr_iff)
  ultimately have "charts (db_data d') = map ?f (charts d)" by blast
  moreover have "numbered (map ?f (charts d))"
    by (rule numbered_map [OF assms(1)]) (auto split: sum.split dest: init_chart_keeps)
  ultimately show "numbered (charts (db_data d'))" by simp
qed

lemma initial_numbered:
  assumes "initial_state cf layout selected = Inr s" "strict_eq (opt_prop layout ''id'') selected \<longrightarrow> loads_numbered cf layout"
  shows "numbered (chart_state_charts s)"
  using assms by (auto simp: initial_state_def chart_state_charts_def loads_numbered_def bind_js_Inr_iff map_js_Inr_iff
      opt_prop_def dest: default_numbered split: if_splits)

lemma sessions_numbered:
  "hook_layout layout \<Longrightarrow> \<forall>cf. loads_numbered cf layout"
  "session cf s \<Longrightarrow> numbered (chart_state_charts s)"
proof (induction rule: hook_layout_session.inducts)
  case default
  then show ?case by (auto simp: loads_numbered_def default_numbered)
next
  case (updated cf s i owner name shared)
  then show ?case by (auto simp: chart_state_charts_def updateDashboard_params_def intro!: stored_numbered)
next
  case (created cf s i owner taskId name shared)
  then show ?case by (auto simp: chart_state_charts_def createDashboard_params_def intro!: stored_numbered)
next
  case (start layout selected cf s)
  then show ?case by (blast intro: initial_numbered)
next
  case (event cf s e s')
  then show ?case using step_numbered by blast
qed

section \<open>Saving and loading again\<close>

lemma intersection_again: "getIntersection xs (getIntersection xs ys) = getIntersection xs ys"
  unfolding getIntersection_def by (rule filter_cong) (auto simp: includes_iff)

lemma obj_set_same:
  assumes "k \<in> fst ` set kvs" "distinct (map fst kvs)"
  shows "obj_set k (obj_get kvs k) kvs = kvs"
proof -
  have "(if k' = k then obj_get kvs k else v') = v'" if "(k', v') \<in> set kvs" for k' v'
    using that assms(2) by (auto simp: obj_get_def)
  then have "map (\<lambda>(k', v'). (k', if k' = k then obj_get kvs k else v')) kvs = kvs"
    by (intro map_idI) auto
  with assms(1) show ?thesis by (auto simp: obj_set_def)
qed

text \<open>A chart that loading leaves as it is.\<close>

definition stable_chart :: "jsval list \<Rightarrow> obj \<Rightarrow> bool" where
  "stable_chart names c \<longleftrightarrow> from_entries c = c \<and>
     (\<exists>bs. (''breakdowns'', Arr bs) \<in> set c \<and> getIntersection names bs = bs)"

lemma init_stable:
  assumes "stable_chart names c"
  shows "init_chart names (Obj c) = Inr c"
proof -
  have d: "distinct (map fst c)" using assms distinct_from_entries [of c] by (simp add: stable_chart_def)
  obtain bs where bs: "(''breakdowns'', Arr bs) \<in> set c" "getIntersection names bs = bs"
    using assms by (auto simp: stable_chart_def)
  then have g: "obj_get c ''breakdowns'' = Arr bs" using d by (simp add: obj_get_def)
  have e: "names = [] \<Longrightarrow> bs = []" using bs(2) by (auto simp: getIntersection_def)
  have "obj_spread [] c = c" using assms by (simp add: stable_chart_def from_entries_def obj_spread_def)
  moreover have "obj_set ''breakdowns'' (Arr bs) c = c"
    using obj_set_same [OF _ d, of "''breakdowns''"] bs(1) g by force
  ultimately show ?thesis using g bs(2) e by (auto simp: init_chart_def as_array_def obj_spread_def)
qed

lemma init_chart_stable:
  assumes "init_chart names v = Inr c" "from_entries c = c"
  shows "stable_chart names c"
proof -
  obtain bs where c: "c = obj_spread (obj_spread [] (own_props v)) [(''breakdowns'', Arr bs)]"
    and "bs = [] \<and> names = [] \<or> (\<exists>search. bs = getIntersection names search)"
    using assms(1) by (auto simp: init_chart_def bind_js_Inr_iff map_js_Inr_iff split: if_splits)
  then have c3: "getIntersection names bs = bs" by (auto simp: intersection_again) (simp add: getIntersection_def)
  have "map_of c ''breakdowns'' = Some (Arr bs)" by (simp add: c obj_spread_def)
  then show ?thesis using assms(2) c3 by (auto simp: stable_chart_def dest: map_of_SomeD)
qed

lemma load_saved:
  assumes "json_ok (data_value (db_data d))" "\<forall>c \<in> set (charts (db_data d)). stable_chart names c"
    "\<not> nullish (show_milestones (db_data d))" "\<not> nullish (sync_tooltips (db_data d))"
    "\<not> nullish (grid_type (db_data d))" "i \<noteq> Str ''default''"
  shows "initializeDashboardState names (stored_layout i owner (updateDashboard_params name shared d)) =
    Inr \<lparr>db_id = i, db_name = name, db_ownerId = owner, db_shared = shared, db_data = db_data d\<rparr>"
proof -
  obtain t where t: "json_str (data_value (db_data d)) = Some t" using json_str_total [OF assms(1)] by blast
  have "mapM_js (init_chart names) (map Obj cs) = Inr cs" if "\<forall>c \<in> set cs. stable_chart names c" for cs
    using that by (induction cs) (simp_all add: init_stable)
  then have "mapM_js (init_chart names) (map Obj (charts (db_data d))) = Inr (charts (db_data d))"
    using assms(2) by blast
  then show ?thesis
    using json_parse_str [OF assms(1) t] t assms(3-)
    by (simp add: initializeDashboardState_def stored_layout_def updateDashboard_params_def json_stringify_def
        data_value_def obj_get_def [of "_ # _"] Let_def as_array_def js_coalesce_def)
qed

lemma loaded_stable:
  assumes "initializeDashboardState names layout = Inr d" "json_ok (data_value (db_data d))"
  shows "\<forall>c \<in> set (charts (db_data d)). stable_chart names c"
    "\<not> nullish (show_milestones (db_data d))" "\<not> nullish (sync_tooltips (db_data d))" "\<not> nullish (grid_type (db_data d))"
proof -
  have f: "\<not> nullish (js_coalesce a (Bool b))" "\<not> nullish (js_coalesce a (Num x))" for a b x
    by (simp_all add: js_coalesce_def)
  show "\<not> nullish (show_milestones (db_data d))" "\<not> nullish (sync_tooltips (db_data d))" "\<not> nullish (grid_type (db_data d))"
    using assms(1) f by (auto simp: initializeDashboardState_def bind_js_Inr_iff map_js_Inr_iff Let_def)
  have ok: "from_entries c = c" if "c \<in> set (charts (db_data d))" for c
    using assms(2) that by (auto simp: data_value_def list_all_iff)
  have "(\<exists>vs. mapM_js (init_chart names) vs = Inr (charts (db_data d))) \<or> charts (db_data d) = []"
    using assms(1) by (auto simp: initializeDashboardState_def bind_js_Inr_iff map_js_Inr_iff Let_def split: if_splits)
  then show "\<forall>c \<in> set (charts (db_data d)). stable_chart names c"
  proof
    assume "\<exists>vs. mapM_js (init_chart names) vs = Inr (charts (db_data d))"
    then obtain vs where "mapM_js (init_chart names) vs = Inr (charts (db_data d))" by blast
    then have "\<forall>c \<in> set (charts (db_data d)). \<exists>v. init_chart names v = Inr c"
      by (auto dest!: mapM_js_elements)
    with ok init_chart_stable show ?thesis by blast
  qed simp
qed

section \<open>A session that adds a chart\<close>

definition demo_config :: chart_config where
  "demo_config = \<lparr>cf_isPublicRun = False, cf_breakdownNames = map Str [''gpu_load'', ''host_cpu'', ''loss''],
     cf_implemented = [Str ''loss''], cf_report = ''Report''\<rparr>"

definition demo_start :: chart_state where
  "demo_start = (case initial_state demo_config DEFAULT_DASHBOARD (Str ''default'') of Inr s \<Rightarrow> s | Inl _ \<Rightarrow> undefined)"

definition demo_session :: chart_state where
  "demo_session = (case chart_step demo_config (chart_state_charts demo_start) Add demo_start of Inr s \<Rightarrow> s | Inl _ \<Rightarrow> undefined)"

lemma demo_start_run: "initial_state demo_config DEFAULT_DASHBOARD (Str ''default'') = Inr demo_start"
proof -
  have "\<not> isl (initial_state demo_config DEFAULT_DASHBOARD (Str ''default''))" by code_simp
  then show ?thesis by (simp add: demo_start_def isl_def split: sum.splits)
qed

lemma demo_start_dashboard:
  "initializeDashboardState (cf_breakdownNames demo_config) DEFAULT_DASHBOARD = Inr (cs_dashboard demo_start)"
proof -
  obtain d where d: "initializeDashboardState (cf_breakdownNames demo_config) DEFAULT_DASHBOARD = Inr d"
    "demo_start = \<lparr>cs_dashboard = d, cs_saved = True, cs_selected = Str ''default''\<rparr>"
    using demo_start_run by (auto simp: initial_state_def bind_js_Inr_iff map_js_Inr_iff)
  then show ?thesis by (simp only: d(1)) (simp add: d(2))
qed

definition demo_layout :: jsval where
  "demo_layout = stored_layout (Str ''d1'') (Str ''e'') (updateDashboard_params (Str ''Mine'') (Bool False) (cs_dashboard demo_session))"

text \<open>The dashboard with two charts is saved, loaded by a hook with other breakdowns, and gets a third.\<close>

definition other_config :: chart_config where
  "other_config = demo_config\<lparr>cf_breakdownNames := [Str ''gpu_load'']\<rparr>"

definition demo_reloaded :: chart_state where
  "demo_reloaded = (case bind_js (initial_state other_config demo_layout (Str ''d1''))
       (\<lambda>s. chart_step other_config (chart_state_charts s) Add s) of Inr s \<Rightarrow> s | Inl _ \<Rightarrow> undefined)"

lemma demo_session_reached: "session demo_config demo_session"
proof -
  have "session demo_config demo_start" using hook_layout_session.default demo_start_run by (blast intro: hook_layout_session.start)
  moreover have "chart_step demo_config (chart_state_charts demo_start) Add demo_start = Inr demo_session"
    by (simp add: demo_session_def edit_def)
  ultimately show ?thesis
    using hook_layout_session.event [of demo_config demo_start Add demo_session] by (simp add: layout_of_event_def)
qed

lemma demo_reloaded_reached: "session other_config demo_reloaded"
proof -
  have ok: "json_ok (data_value (db_data (cs_dashboard demo_session)))" by code_simp
  have "hook_layout demo_layout"
    unfolding demo_layout_def by (rule hook_layout_session.updated [OF demo_session_reached ok]) simp
  moreover have "\<not> isl (initial_state other_config demo_layout (Str ''d1''))" by code_simp
  then obtain s where s: "initial_state other_config demo_layout (Str ''d1'') = Inr s"
    by (cases "initial_state other_config demo_layout (Str ''d1'')") auto
  ultimately have "session other_config s" by (blast intro: hook_layout_session.start)
  moreover have "chart_step other_config (chart_state_charts s) Add s = Inr demo_reloaded"
    by (simp add: demo_reloaded_def s edit_def)
  ultimately show ?thesis
    using hook_layout_session.event [of other_config s Add demo_reloaded] by (simp add: layout_of_event_def)
qed

lemma setSaved_public [simp]: "setSaved True b s = s"
  by (simp add: setSaved_def)

lemma edit_public: "edit cf f s = Inr s' \<Longrightarrow> cf_isPublicRun cf \<Longrightarrow> cs_saved s' = cs_saved s"
  by (auto simp: edit_def set_data_def)

lemma load_saved_flag: "load cf layout s = Inr s' \<Longrightarrow> cs_saved s' = cs_saved s"
  by (auto simp: load_def map_js_Inr_iff)

lemma step_public:
  assumes "chart_step cf rendered e s = Inr s'" "cf_isPublicRun cf"
  shows "cs_saved s' = cs_saved s"
proof (cases e)
  case (Clone i)
  then obtain d where "edit cf (\<lambda>_. d) s = Inr s'" using assms(1) by (auto simp: bind_js_Inr_iff)
  then show ?thesis using edit_public assms(2) by blast
next
  case (Select i)
  with assms show ?thesis
    by (auto simp: Let_def map_js_Inr_iff dest: load_saved_flag split: if_splits)
next
  case (Dashboard_loaded i layout)
  with assms show ?thesis by (auto simp: map_js_Inr_iff dest: load_saved_flag)
next
  case (Layouts_loaded layouts)
  with assms show ?thesis by (auto dest: load_saved_flag split: if_splits)
next
  case (Created i)
  with assms show ?thesis by auto
next
  case Updated
  with assms show ?thesis by auto
next
  case (Removed i)
  with assms show ?thesis by auto
qed (use assms in \<open>auto dest: edit_public load_saved_flag\<close>)

lemma session_public: "session cf s \<Longrightarrow> cf_isPublicRun cf \<longrightarrow> cs_saved s"
proof (induction rule: hook_layout_session.inducts(2) [where ?P1.0 = "\<lambda>_. True"])
  case (start layout selected cf s)
  then show ?case by (auto simp: initial_state_def bind_js_Inr_iff map_js_Inr_iff)
next
  case (event cf s e s')
  then show ?case using step_public by blast
qed simp_all

end
