(* ===== verification/Correlations.thy ===== *)
theory Correlations
  imports Permissions
begin

text \<open>
  \<open>components/MlRunsetOverview/components/Correlations/utils.ts\<close>: which runs of a runset the
  constraints of the chart select, and which of their names are written beside the axis.
  Comparisons are those of numbers, of undefined (always false) and of null (zero); the code
  compares nothing else here.
\<close>

section \<open>Data\<close>

record chart_run =
  cr_runName :: string
  cr_runNumber :: jsval
  cr_reachedGoals :: jsval
  cr_hyperparameters :: jsval
  cr_index :: rat
  cr_color :: jsval

definition formatRunFullName :: "jsval \<Rightarrow> jsval \<Rightarrow> string" where
  "formatRunFullName number name = ''#'' @ to_str number @ ''_'' @ to_str name"

text \<open>
  The runs that \<open>MlRunsetOverview\<close> hands to the chart, \<open>{ ...run, index, color }\<close>: a run of the runset, its
  position in the list and its colour.
\<close>

record runset_run =
  ru_run :: obj
  ru_index :: rat
  ru_color :: jsval

definition indexed_runs :: "(rat \<Rightarrow> jsval) \<Rightarrow> obj list \<Rightarrow> runset_run list" where
  "indexed_runs colorScale runsetRuns =
     map (\<lambda>(i, r). \<lparr>ru_run = r, ru_index = of_nat i, ru_color = colorScale (of_nat i)\<rparr>)
       (zip [0..<length runsetRuns] runsetRuns)"

definition getChartRunsData :: "runset_run list \<Rightarrow> chart_run list" where
  "getChartRunsData runs = map (\<lambda>r.
     \<lparr>cr_runName = formatRunFullName (obj_get (ru_run r) ''number'') (obj_get (ru_run r) ''name''),
      cr_runNumber = obj_get (ru_run r) ''number'', cr_reachedGoals = obj_get (ru_run r) ''reached_goals'',
      cr_hyperparameters = obj_get (ru_run r) ''hyperparameters'',
      cr_index = ru_index r, cr_color = ru_color r\<rparr>) runs"

section \<open>Labels\<close>

definition FONT_SIZE :: rat where "FONT_SIZE = 14"

text \<open>\<open>HEIGHT - MARGIN.TOP - MARGIN.BOTTOM\<close>.\<close>

definition CHART_AREA_HEIGH :: rat where "CHART_AREA_HEIGH = 350 - 50 - 40"

definition doTickLabelsIntersect :: "rat \<times> rat \<Rightarrow> rat \<times> rat \<Rightarrow> bool" where
  "doTickLabelsIntersect a b = (if snd a < fst b \<or> snd b < fst a then False else True)"

definition getRunNameLabelCoordinates :: "rat \<Rightarrow> nat \<Rightarrow> rat \<times> rat" where
  "getRunNameLabelCoordinates runIndex runsCount =
     (let startCoordinate = (runIndex / of_nat runsCount) * CHART_AREA_HEIGH
      in (startCoordinate, startCoordinate + FONT_SIZE))"

definition overlap :: "nat \<Rightarrow> chart_run \<Rightarrow> chart_run \<Rightarrow> bool" where
  "overlap n a b = doTickLabelsIntersect (getRunNameLabelCoordinates (cr_index a) n)
     (getRunNameLabelCoordinates (cr_index b) n)"

text \<open>The loop over \<open>pointerB\<close>, from the last selected run backwards; \<open>a\<close> is at \<open>pointerA\<close>.\<close>

fun not_intersecting :: "nat \<Rightarrow> chart_run \<Rightarrow> chart_run list \<Rightarrow> chart_run list" where
  "not_intersecting n a [] = []"
| "not_intersecting n a (b # bs) =
     (if \<not> overlap n a b then b # not_intersecting n b bs else not_intersecting n a bs)"

definition labelled_runs :: "nat \<Rightarrow> chart_run list \<Rightarrow> chart_run list" where
  "labelled_runs n selected = (case rev selected of [] \<Rightarrow> [] | a # rest \<Rightarrow> a # not_intersecting n a rest)"

definition getNotIntersectingLabelNames :: "nat \<Rightarrow> chart_run list \<Rightarrow> string list" where
  "getNotIntersectingLabelNames n selected = map cr_runName (labelled_runs n selected)"

text \<open>The pairs of \<open>tickvals\<close> and \<open>ticktext\<close>.\<close>

definition getRunNamesDimensionTicks :: "chart_run list \<Rightarrow> chart_run list \<Rightarrow> rat list \<times> string list" where
  "getRunNamesDimensionTicks chartRunsData selected =
     (map cr_index chartRunsData,
      if selected = [] then map (\<lambda>_. []) chartRunsData
      else (let names = getNotIntersectingLabelNames (length chartRunsData) selected in
        map (\<lambda>(i, r). if cr_runName r \<in> set names then cr_runName r else replicate i CHR '' '')
          (zip [0..<length chartRunsData] chartRunsData)))"

section \<open>Selection\<close>

record trace_dimension =
  td_dimensionGroup :: string
  td_dimensionName :: string
  td_constraintrange :: jsval

fun to_number :: "jsval \<Rightarrow> rat option" where
  "to_number (Num x) = Some x"
| "to_number Null = Some 0"
| "to_number (Bool b) = Some (if b then 1 else 0)"
| "to_number _ = None"

definition js_le :: "jsval \<Rightarrow> jsval \<Rightarrow> bool" where
  "js_le a b = (case (to_number a, to_number b) of (Some x, Some y) \<Rightarrow> x \<le> y | _ \<Rightarrow> False)"

definition isArrayOfArrays :: "jsval \<Rightarrow> bool" where
  "isArrayOfArrays v = (case v of Arr vs \<Rightarrow> list_all (\<lambda>x. case x of Arr _ \<Rightarrow> True | _ \<Rightarrow> False) vs | _ \<Rightarrow> False)"

definition getConstraintsRange :: "trace_dimension list \<Rightarrow> string \<Rightarrow> (string \<times> jsval) list" where
  "getConstraintsRange dims dimensionGroup =
     map (\<lambda>d. let range = js_coalesce (td_constraintrange d) (Arr []) in
         (td_dimensionName d, if isArrayOfArrays range then range else Arr [range]))
       (filter (\<lambda>d. td_dimensionGroup d = dimensionGroup) dims)"

text \<open>\<open>every\<close>: up to the first element that fails or throws.\<close>

fun every_js :: "('a \<Rightarrow> bool js) \<Rightarrow> 'a list \<Rightarrow> bool js" where
  "every_js f [] = Inr True"
| "every_js f (x # xs) = bind_js (f x) (\<lambda>b. if b then every_js f xs else Inr False)"

definition nth_js :: "jsval list \<Rightarrow> nat \<Rightarrow> jsval" where
  "nth_js vs i = (if i < length vs then vs ! i else Undef)"

definition in_bounds :: "jsval \<Rightarrow> jsval \<Rightarrow> bool js" where
  "in_bounds v r = map_js (\<lambda>b. js_le (nth_js b 0) v \<and> js_le v (nth_js b 1)) (iterate r)"

definition checkRanges :: "(string \<times> jsval) list \<Rightarrow> (string \<Rightarrow> jsval js) \<Rightarrow> bool js" where
  "checkRanges ranges getValue =
     (if ranges = [] then Inr True
      else every_js (\<lambda>(dimensionName, range).
        if isEmptyArray range then Inr True
        else bind_js (getValue dimensionName) (\<lambda>v. bind_js (as_array range) (some_js (in_bounds v)))) ranges)"

definition hyperparameter_tick :: "jsval \<Rightarrow> chart_run \<Rightarrow> string \<Rightarrow> jsval js" where
  "hyperparameter_tick ticks run accessor =
     bind_js (get_prop (cr_hyperparameters run) accessor) (\<lambda>v.
     bind_js (get_prop ticks accessor) (\<lambda>m.
     bind_js (get_prop m ''valueToTick'') (\<lambda>t. get_prop t (to_str v))))"

definition goal_value :: "chart_run \<Rightarrow> string \<Rightarrow> jsval js" where
  "goal_value run accessor =
     map_js (\<lambda>g. opt_prop g ''value'') (get_prop (cr_reachedGoals run) accessor)"

definition getSelectedRuns :: "chart_run list \<Rightarrow> trace_dimension list \<Rightarrow> jsval \<Rightarrow> chart_run list js" where
  "getSelectedRuns data dims ticks =
     bind_js (filterM_js (\<lambda>run. checkRanges (getConstraintsRange dims ''runNames'') (\<lambda>_. Inr (Num (cr_index run)))) data) (\<lambda>data.
     bind_js (filterM_js (\<lambda>run. checkRanges (getConstraintsRange dims ''hyperparameters'') (hyperparameter_tick ticks run)) data) (\<lambda>data.
     filterM_js (\<lambda>run. checkRanges (getConstraintsRange dims ''goals'') (goal_value run)) data))"

section \<open>The labels that are written\<close>

lemma labelled_subset: "set (labelled_runs n selected) \<subseteq> set selected"
proof -
  have "set (not_intersecting n a bs) \<subseteq> set bs" for a bs by (induction n a bs rule: not_intersecting.induct) auto
  then have "set (a # not_intersecting n a bs) \<subseteq> set (a # bs)" for a bs by auto
  moreover have "set (rev selected) = set selected" by simp
  ultimately show ?thesis by (cases "rev selected") (fastforce simp: labelled_runs_def)+
qed

lemma overlap_start:
  assumes "0 < n"
  shows "overlap n a b \<longleftrightarrow> \<bar>cr_index a - cr_index b\<bar> * CHART_AREA_HEIGH \<le> FONT_SIZE * of_nat n"
proof -
  let ?x = "cr_index a / of_nat n * CHART_AREA_HEIGH" and ?y = "cr_index b / of_nat n * CHART_AREA_HEIGH"
  have "overlap n a b \<longleftrightarrow> \<bar>?x - ?y\<bar> \<le> FONT_SIZE"
    by (auto simp: overlap_def doTickLabelsIntersect_def getRunNameLabelCoordinates_def Let_def abs_le_iff)
  also have "?x - ?y = (cr_index a - cr_index b) * CHART_AREA_HEIGH / of_nat n"
    by (simp add: left_diff_distrib diff_divide_distrib)
  also have "\<bar>\<dots>\<bar> = \<bar>cr_index a - cr_index b\<bar> * CHART_AREA_HEIGH / of_nat n"
    by (simp only: abs_divide abs_mult) (simp add: CHART_AREA_HEIGH_def)
  also have "\<dots> \<le> FONT_SIZE \<longleftrightarrow> \<bar>cr_index a - cr_index b\<bar> * CHART_AREA_HEIGH \<le> FONT_SIZE * of_nat n"
    using assms by (simp add: pos_divide_le_eq)
  finally show ?thesis .
qed

text \<open>Labels of runs in order overlap the less the farther they are apart.\<close>

lemma overlap_mono:
  "0 < n \<Longrightarrow> cr_index c \<le> cr_index b \<Longrightarrow> cr_index b \<le> cr_index a \<Longrightarrow> overlap n a c \<Longrightarrow> overlap n a b"
  by (simp add: overlap_start abs_if CHART_AREA_HEIGH_def split: if_splits)

lemma overlap_sym: "overlap n a b = overlap n b a"
  by (auto simp: overlap_def doTickLabelsIntersect_def)

abbreviation descending :: "chart_run list \<Rightarrow> bool" where
  "descending \<equiv> sorted_wrt (\<lambda>a b. cr_index b \<le> cr_index a)"

lemma not_intersecting_apart:
  assumes "0 < n" "descending (a # bs)"
  shows "sorted_wrt (\<lambda>x y. \<not> overlap n x y) (a # not_intersecting n a bs)
    \<and> set (not_intersecting n a bs) \<subseteq> set bs"
  using assms
proof (induction n a bs rule: not_intersecting.induct)
  case (2 n a b bs)
  show ?case
  proof (cases "overlap n a b")
    case True
    with 2 show ?thesis by auto
  next
    case False
    with 2 have ih: "sorted_wrt (\<lambda>x y. \<not> overlap n x y) (b # not_intersecting n b bs)"
      "set (not_intersecting n b bs) \<subseteq> set bs" by auto
    have "\<not> overlap n a c" if "c \<in> set (not_intersecting n b bs)" for c
    proof -
      have "c \<in> set bs" using that ih(2) by blast
      then have c: "cr_index c \<le> cr_index b" "cr_index b \<le> cr_index a" using 2(4) by simp_all
      show ?thesis
      proof
        assume "overlap n a c"
        from overlap_mono [OF 2(3) c this] False show False by contradiction
      qed
    qed
    with ih False show ?thesis by auto
  qed
qed simp

text \<open>A name that is left out overlaps one that is written.\<close>

lemma not_intersecting_covers:
  "c \<in> set bs \<Longrightarrow> c \<notin> set (not_intersecting n a bs) \<Longrightarrow> \<exists>k \<in> set (a # not_intersecting n a bs). overlap n k c"
proof (induction n a bs rule: not_intersecting.induct)
  case (2 n a b bs)
  show ?case
  proof (cases "overlap n a b")
    case True
    show ?thesis
    proof (cases "c = b")
      case False
      with 2 True show ?thesis by simp
    qed (use True in simp)
  next
    case False
    with 2(3,4) have "c \<in> set bs" "c \<notin> set (not_intersecting n b bs)" by auto
    with 2(1) [OF False] False show ?thesis by auto
  qed
qed simp

lemma labelled_runs_spec:
  assumes "0 < n" "sorted_wrt (\<lambda>a b. cr_index a \<le> cr_index b) selected"
  shows "sorted_wrt (\<lambda>x y. \<not> overlap n x y) (labelled_runs n selected)"
    and "c \<in> set selected \<Longrightarrow> c \<notin> set (labelled_runs n selected) \<Longrightarrow> \<exists>k \<in> set (labelled_runs n selected). overlap n k c"
proof -
  have d: "descending (rev selected)" using assms(2) by (simp add: sorted_wrt_rev)
  show "sorted_wrt (\<lambda>x y. \<not> overlap n x y) (labelled_runs n selected)"
    using d not_intersecting_apart [OF assms(1)] by (cases "rev selected") (simp_all add: labelled_runs_def)
  assume c: "c \<in> set selected" "c \<notin> set (labelled_runs n selected)"
  then obtain a bs where r: "rev selected = a # bs" by (cases "rev selected") auto
  have "set (a # bs) = set selected" using r by (metis set_rev)
  then have "c \<in> set bs" "c \<notin> set (not_intersecting n a bs)" using c r by (auto simp: labelled_runs_def)
  with not_intersecting_covers [of c bs n a] r show "\<exists>k \<in> set (labelled_runs n selected). overlap n k c"
    by (simp add: labelled_runs_def)
qed

section \<open>The runs that are selected\<close>

text \<open>The value a dimension looks at, and the test of one dimension.\<close>

definition dimension_value :: "jsval \<Rightarrow> trace_dimension \<Rightarrow> chart_run \<Rightarrow> jsval js" where
  "dimension_value ticks d run =
     (if td_dimensionGroup d = ''runNames'' then Inr (Num (cr_index run))
      else if td_dimensionGroup d = ''hyperparameters'' then hyperparameter_tick ticks run (td_dimensionName d)
      else goal_value run (td_dimensionName d))"

text \<open>The ranges of a dimension; without one, every run passes.\<close>

definition dimension_ranges :: "trace_dimension \<Rightarrow> jsval list" where
  "dimension_ranges d = (let range = js_coalesce (td_constraintrange d) (Arr []) in
     if isArrayOfArrays range then (case range of Arr vs \<Rightarrow> vs | _ \<Rightarrow> []) else [range])"

definition lies_in :: "jsval \<Rightarrow> jsval \<Rightarrow> bool" where
  "lies_in v r \<longleftrightarrow> (\<exists>bs. r = Arr bs \<and> js_le (nth_js bs 0) v \<and> js_le v (nth_js bs 1))"

definition passes :: "jsval \<Rightarrow> trace_dimension \<Rightarrow> chart_run \<Rightarrow> bool" where
  "passes ticks d run \<longleftrightarrow> dimension_ranges d = []
     \<or> (\<exists>v. dimension_value ticks d run = Inr v \<and> (\<exists>r \<in> set (dimension_ranges d). lies_in v r))"

text \<open>A dimension that can be tested on the runs: its ranges are pairs, and no property access throws.\<close>

definition testable :: "jsval \<Rightarrow> chart_run list \<Rightarrow> trace_dimension \<Rightarrow> bool" where
  "testable ticks data d \<longleftrightarrow> td_dimensionGroup d \<in> {''runNames'', ''hyperparameters'', ''goals''}
     \<and> (\<forall>r \<in> set (dimension_ranges d). \<exists>bs. r = Arr bs)
     \<and> (\<forall>run \<in> set data. \<exists>v. dimension_value ticks d run = Inr v)"

lemma ranges_value:
  "(let range = js_coalesce (td_constraintrange d) (Arr []) in if isArrayOfArrays range then range else Arr [range])
    = Arr (dimension_ranges d)"
  by (auto simp: dimension_ranges_def Let_def isArrayOfArrays_def split: jsval.splits)

lemma every_total: "(\<And>x. x \<in> set xs \<Longrightarrow> f x = Inr (P x)) \<Longrightarrow> every_js f xs = Inr (\<forall>x \<in> set xs. P x)"
  by (induction xs) auto

lemma some_total: "(\<And>x. x \<in> set xs \<Longrightarrow> f x = Inr (P x)) \<Longrightarrow> some_js f xs = Inr (\<exists>x \<in> set xs. P x)"
  by (induction xs) auto

lemma some_in_bounds:
  assumes "\<forall>r \<in> set rs. \<exists>bs. r = Arr bs"
  shows "some_js (in_bounds v) rs = Inr (\<exists>r \<in> set rs. lies_in v r)"
  using assms by (intro some_total) (auto simp: in_bounds_def iterate_def lies_in_def)

lemma group_checked:
  assumes "\<forall>d \<in> set dims. testable ticks data d" "run \<in> set data"
    "\<And>d. d \<in> set dims \<Longrightarrow> td_dimensionGroup d = g \<Longrightarrow> get (td_dimensionName d) = dimension_value ticks d run"
  shows "checkRanges (getConstraintsRange dims g) get
    = Inr (\<forall>d \<in> set dims. td_dimensionGroup d = g \<longrightarrow> passes ticks d run)"
proof -
  let ?f = "\<lambda>(dimensionName, range). if isEmptyArray range then Inr True
        else bind_js (get dimensionName) (\<lambda>v. bind_js (as_array range) (some_js (in_bounds v)))"
  let ?e = "\<lambda>d. (td_dimensionName d, Arr (dimension_ranges d))"
  have one: "?f (?e d) = Inr (passes ticks d run)" if "d \<in> set dims" "td_dimensionGroup d = g" for d
  proof -
    have t: "testable ticks data d" using assms(1) that(1) by blast
    then obtain v where v: "dimension_value ticks d run = Inr v" using assms(2) by (auto simp: testable_def)
    have "some_js (in_bounds v) (dimension_ranges d) = Inr (\<exists>r \<in> set (dimension_ranges d). lies_in v r)"
      using t by (intro some_in_bounds) (simp add: testable_def)
    then show ?thesis using assms(3) [OF that] v by (auto simp: passes_def isEmptyArray_def as_array_def)
  qed
  have "getConstraintsRange dims g = map ?e (filter (\<lambda>d. td_dimensionGroup d = g) dims)"
    by (simp add: getConstraintsRange_def ranges_value [unfolded Let_def] Let_def)
  moreover have "every_js ?f (map ?e ds) = Inr (\<forall>d \<in> set ds. passes ticks d run)"
    if "\<forall>d \<in> set ds. d \<in> set dims \<and> td_dimensionGroup d = g" for ds
    using that one by (induction ds) auto
  ultimately show ?thesis
    by (cases "filter (\<lambda>d. td_dimensionGroup d = g) dims = []") (auto simp: checkRanges_def filter_empty_conv)
qed

lemma selected_spec:
  assumes "\<forall>d \<in> set dims. testable ticks data d"
  shows "getSelectedRuns data dims ticks = Inr (filter (\<lambda>run. \<forall>d \<in> set dims. passes ticks d run) data)"
proof -
  let ?P = "\<lambda>g run. \<forall>d \<in> set dims. td_dimensionGroup d = g \<longrightarrow> passes ticks d run"
  have names: "filterM_js (\<lambda>run. checkRanges (getConstraintsRange dims ''runNames'') (\<lambda>_. Inr (Num (cr_index run)))) data
      = Inr (filter (?P ''runNames'') data)"
    by (intro filterM_js_total group_checked [OF assms]) (simp_all add: dimension_value_def)
  have params: "filterM_js (\<lambda>run. checkRanges (getConstraintsRange dims ''hyperparameters'') (hyperparameter_tick ticks run)) xs
      = Inr (filter (?P ''hyperparameters'') xs)" if "set xs \<subseteq> set data" for xs
    using that by (intro filterM_js_total group_checked [OF assms]) (auto simp: dimension_value_def)
  have goals: "filterM_js (\<lambda>run. checkRanges (getConstraintsRange dims ''goals'') (goal_value run)) xs
      = Inr (filter (?P ''goals'') xs)" if "set xs \<subseteq> set data" for xs
    using that by (intro filterM_js_total group_checked [OF assms]) (auto simp: dimension_value_def)
  have "filter (?P ''goals'') (filter (?P ''hyperparameters'') (filter (?P ''runNames'') data))
      = filter (\<lambda>run. \<forall>d \<in> set dims. passes ticks d run) data"
    using assms unfolding filter_filter by (intro filter_cong) (auto simp: testable_def)
  then show ?thesis
    using names params [of "filter (?P ''runNames'') data"]
      goals [of "filter (?P ''hyperparameters'') (filter (?P ''runNames'') data)"]
    by (auto simp: getSelectedRuns_def)
qed

text \<open>The runs of a runset are in the order of their indices, and so are the selected ones.\<close>

lemma chart_runs_index: "map cr_index (getChartRunsData (indexed_runs colorScale runs)) = map of_nat [0..<length runs]"
  by (rule nth_equalityI) (simp_all add: getChartRunsData_def indexed_runs_def)

lemma chart_runs_nth:
  assumes "data = getChartRunsData (indexed_runs colorScale runs)"
  shows "length data = length runs" "i < length runs \<Longrightarrow> cr_index (data ! i) = of_nat i"
    "i < length runs \<Longrightarrow> hd (cr_runName (data ! i)) = CHR ''#''" "i < length runs \<Longrightarrow> cr_runName (data ! i) \<noteq> []"
  by (simp_all add: assms getChartRunsData_def indexed_runs_def formatRunFullName_def)

lemma chart_runs_ordered:
  "sorted_wrt (\<lambda>a b. cr_index a \<le> cr_index b) (getChartRunsData (indexed_runs colorScale runs))"
  by (simp add: sorted_wrt_iff_nth_less chart_runs_nth [OF refl])

lemma selected_ordered:
  "sorted_wrt (\<lambda>a b. cr_index a \<le> cr_index b) data \<Longrightarrow> sorted_wrt (\<lambda>a b. cr_index a \<le> cr_index b) (filter P data)"
  by (rule sorted_wrt_filter)

section \<open>The texts of the ticks\<close>

text \<open>The name of the run at a tick is written there; any other text of a tick is blank.\<close>

definition written :: "chart_run list \<Rightarrow> string list \<Rightarrow> nat \<Rightarrow> bool" where
  "written data ticktext i \<longleftrightarrow> ticktext ! i = cr_runName (data ! i)"

lemma name_not_blank:
  assumes "data = getChartRunsData (indexed_runs colorScale runs)" "i < length data"
  shows "replicate k CHR '' '' \<noteq> cr_runName (data ! i)"
proof
  assume eq: "replicate k CHR '' '' = cr_runName (data ! i)"
  note run = chart_runs_nth(1) [OF assms(1)] chart_runs_nth(3,4) [OF assms(1), of i]
  have "k \<noteq> 0" using eq run assms(2) by (metis replicate_0)
  then have "hd (cr_runName (data ! i)) = CHR '' ''" unfolding eq [symmetric] by simp
  with run assms(2) show False by simp
qed

lemma tick_text:
  assumes "data = getChartRunsData (indexed_runs colorScale runs)" "distinct (map cr_runName data)"
    "set selected \<subseteq> set data" "i < length data"
  shows "written data (snd (getRunNamesDimensionTicks data selected)) i
      \<longleftrightarrow> data ! i \<in> set (labelled_runs (length data) selected)"
    and "\<not> written data (snd (getRunNamesDimensionTicks data selected)) i \<Longrightarrow>
      snd (getRunNamesDimensionTicks data selected) ! i = (if selected = [] then [] else replicate i CHR '' '')"
proof -
  let ?labels = "labelled_runs (length data) selected"
  note nonblank = name_not_blank [OF assms(1,4)] name_not_blank [OF assms(1,4), of 0, simplified]
  have inj: "cr_runName (data ! i) \<in> set (map cr_runName ?labels) \<longleftrightarrow> data ! i \<in> set ?labels"
  proof
    assume "cr_runName (data ! i) \<in> set (map cr_runName ?labels)"
    then obtain r where r: "r \<in> set ?labels" "cr_runName r = cr_runName (data ! i)" by auto
    then have "r \<in> set data" using labelled_subset assms(3) by blast
    moreover have "inj_on cr_runName (set data)" using assms(2) by (simp add: distinct_map)
    ultimately have "r = data ! i" using r(2) assms(4) by (simp add: inj_on_eq_iff)
    with r(1) show "data ! i \<in> set ?labels" by simp
  qed simp
  show "written data (snd (getRunNamesDimensionTicks data selected)) i \<longleftrightarrow> data ! i \<in> set ?labels"
    using assms(4) nonblank inj
    by (auto simp: written_def getRunNamesDimensionTicks_def getNotIntersectingLabelNames_def Let_def labelled_runs_def [of _ "[]"])
  show "\<not> written data (snd (getRunNamesDimensionTicks data selected)) i \<Longrightarrow>
      snd (getRunNamesDimensionTicks data selected) ! i = (if selected = [] then [] else replicate i CHR '' '')"
    using assms(4) by (auto simp: written_def getRunNamesDimensionTicks_def Let_def)
qed

text \<open>Unless no run is selected, no two ticks have one text.\<close>

lemma ticks_distinct:
  assumes "data = getChartRunsData (indexed_runs colorScale runs)" "distinct (map cr_runName data)"
    "set selected \<subseteq> set data" "selected \<noteq> []"
  shows "distinct (snd (getRunNamesDimensionTicks data selected))"
proof -
  let ?texts = "snd (getRunNamesDimensionTicks data selected)"
  have len: "length ?texts = length data" by (simp add: getRunNamesDimensionTicks_def Let_def)
  have "?texts ! i \<noteq> ?texts ! j" if i: "i < length data" and j: "j < length data" and ij: "i \<noteq> j" for i j
  proof -
    have names: "cr_runName (data ! i) \<noteq> cr_runName (data ! j)"
      using nth_eq_iff_index_eq [OF assms(2), of i j] i j ij by simp
    note blank = name_not_blank [OF assms(1)]
    have entry: "?texts ! k = (if written data ?texts k then cr_runName (data ! k) else replicate k CHR '' '')" if "k < length data" for k
      using tick_text(2) [OF assms(1-3) that] assms(4) by (auto simp: written_def)
    show ?thesis
      unfolding entry [OF i] entry [OF j]
      using names ij blank [OF i, of j] blank [OF j, of i] blank [OF i, of j, THEN not_sym] by (simp add: replicate_eq_replicate)
  qed
  then show ?thesis using len by (auto simp: distinct_conv_nth)
qed

lemma sorted_wrt_symmetric:
  assumes "sorted_wrt R xs" "\<And>x y. R x y \<Longrightarrow> R y x" "x \<in> set xs" "y \<in> set xs" "x \<noteq> y"
  shows "R x y"
  using assms by (induction xs) auto

lemma tick_labels_spec:
  fixes P :: "chart_run \<Rightarrow> bool"
  assumes "data = getChartRunsData (indexed_runs colorScale runs)" "distinct (map cr_runName data)"
  defines "texts \<equiv> snd (getRunNamesDimensionTicks data (filter P data))"
  shows "\<And>i. i < length data \<Longrightarrow> written data texts i \<Longrightarrow> P (data ! i)"
    and "\<And>i j. i < j \<Longrightarrow> j < length data \<Longrightarrow> written data texts i \<Longrightarrow> written data texts j \<Longrightarrow>
      14 * int (length data) < 260 * \<bar>int j - int i\<bar>"
    and "\<And>i. i < length data \<Longrightarrow> P (data ! i) \<Longrightarrow> \<not> written data texts i \<Longrightarrow>
      \<exists>j < length data. written data texts j \<and> 260 * \<bar>int j - int i\<bar> \<le> 14 * int (length data)"
proof -
  let ?n = "length data" and ?labels = "labelled_runs (length data) (filter P data)"
  have sub: "set (filter P data) \<subseteq> set data" by auto
  have w: "written data texts i \<longleftrightarrow> data ! i \<in> set ?labels" if "i < ?n" for i
    unfolding texts_def by (rule tick_text(1) [OF assms(1,2) sub that])
  note idx = chart_runs_nth(1,2) [OF assms(1)]
  show "P (data ! i)" if "i < ?n" "written data texts i" for i
    using w that labelled_subset [of ?n "filter P data"] by auto
  have o: "sorted_wrt (\<lambda>a b. cr_index a \<le> cr_index b) (filter P data)"
    using chart_runs_ordered assms(1) by (intro selected_ordered) simp
  have gap: "overlap ?n (data ! i) (data ! j) \<longleftrightarrow> 260 * \<bar>int j - int i\<bar> \<le> 14 * int ?n" if "i < ?n" "j < ?n" for i j
  proof -
    have "overlap ?n (data ! i) (data ! j) \<longleftrightarrow> \<bar>of_nat i - of_nat j\<bar> * 260 \<le> (14 :: rat) * of_nat ?n"
    proof -
      have "0 < ?n" using that by linarith
      from overlap_start [OF this] show ?thesis using that idx(2) by (simp add: idx(1) CHART_AREA_HEIGH_def FONT_SIZE_def)
    qed
    also have "\<dots> \<longleftrightarrow> (of_int (\<bar>int i - int j\<bar> * 260) :: rat) \<le> of_int (14 * int ?n)" by simp
    also have "\<dots> \<longleftrightarrow> 260 * \<bar>int j - int i\<bar> \<le> 14 * int ?n" unfolding of_int_le_iff by (simp add: abs_minus_commute mult.commute)
    finally show ?thesis .
  qed
  show "14 * int ?n < 260 * \<bar>int j - int i\<bar>" if "i < j" "j < ?n" "written data texts i" "written data texts j" for i j
  proof -
    have i: "i < ?n" using that by simp
    have "data ! i \<noteq> data ! j"
      using idx(2) [of i] idx(2) [of j] idx(1) that(1,2) by auto
    moreover have "sorted_wrt (\<lambda>x y. \<not> overlap ?n x y) ?labels" using that(2) by (intro labelled_runs_spec(1) o) linarith
    ultimately have "\<not> overlap ?n (data ! i) (data ! j)"
      using w [OF i] w [OF that(2)] that(3,4) sorted_wrt_symmetric [of "\<lambda>x y. \<not> overlap ?n x y" ?labels]
      by (auto simp: overlap_sym)
    then show ?thesis using gap [OF i that(2)] by simp
  qed
  show "\<exists>j < ?n. written data texts j \<and> 260 * \<bar>int j - int i\<bar> \<le> 14 * int ?n"
    if "i < ?n" "P (data ! i)" "\<not> written data texts i" for i
  proof -
    have "\<exists>k \<in> set ?labels. overlap ?n k (data ! i)"
      using that w [OF that(1)] by (intro labelled_runs_spec(2) o) (linarith, auto)
    then obtain k where k: "k \<in> set ?labels" "overlap ?n k (data ! i)" by blast
    then have "k \<in> set data" using labelled_subset [of ?n "filter P data"] by auto
    then obtain j where "j < ?n" "k = data ! j" by (auto simp: in_set_conv_nth)
    with k w gap [OF _ that(1), of j] show ?thesis by (auto simp: abs_minus_commute)
  qed
qed

section \<open>Twenty runs\<close>

definition demo_runs :: "obj list" where
  "demo_runs = map (\<lambda>i. [(''number'', Num (of_nat i)), (''name'', Str ''run''), (''reached_goals'', Obj []), (''hyperparameters'', Obj [])])
     [1..<21]"

definition demo_dimension :: trace_dimension where
  "demo_dimension = \<lparr>td_dimensionGroup = ''runNames'', td_dimensionName = ''runNames'', td_constraintrange = Arr [Num 0, Num 1]\<rparr>"

end
