(* ===== verification/BreakdownLines.thy ===== *)
theory BreakdownLines
  imports JsPrelude
begin

text \<open>
  \<open>utils/math.ts\<close> and \<open>hooks/useMlBreakdownLines.ts\<close>: the lines of the metrics of a run, scaled to a
  common range.  A quotient by zero is no number: \<open>None\<close>.  The infinities that \<open>findMaxNumber\<close> and
  \<open>findMinNumber\<close> return for no value are \<open>None\<close> too, and are never an operand of anything else.
\<close>

section \<open>Scaling\<close>

definition js_div :: "rat \<Rightarrow> rat \<Rightarrow> rat option" where
  "js_div a b = (if b = 0 then None else Some (a / b))"

definition normalize :: "rat \<Rightarrow> rat \<times> rat \<Rightarrow> rat \<times> rat \<Rightarrow> rat option" where
  "normalize v = (\<lambda>(min_arg, max_arg) (rangeStart, rangeEnd).
     map_option (\<lambda>normalized. normalized * (rangeEnd - rangeStart) + rangeStart)
       (js_div (v - min_arg) (max_arg - min_arg)))"

definition denormalize :: "rat \<Rightarrow> rat \<times> rat \<Rightarrow> rat \<times> rat \<Rightarrow> rat option" where
  "denormalize v = (\<lambda>(min_arg, max_arg) (rangeStart, rangeEnd).
     map_option (\<lambda>ratio. ratio * (max_arg - min_arg) + min_arg)
       (js_div (v - rangeStart) (rangeEnd - rangeStart)))"

text \<open>\<open>Math.round\<close> rounds halves up; \<open>Number.EPSILON\<close> is \<open>2 ^ -52\<close>.\<close>

definition round_js :: "rat \<Rightarrow> nat \<Rightarrow> rat" where
  "round_js v precision =
     (let multiplier = 10 ^ precision in of_int \<lfloor>(v + 1 / 2 ^ 52) * multiplier + 1 / 2\<rfloor> / multiplier)"

lemma denormalize_normalize:
  "a \<noteq> b \<Longrightarrow> c \<noteq> d \<Longrightarrow> Option.bind (normalize v (a, b) (c, d)) (\<lambda>n. denormalize n (a, b) (c, d)) = Some v"
  by (simp add: normalize_def denormalize_def js_div_def)

lemma normalize_denormalize:
  "a \<noteq> b \<Longrightarrow> c \<noteq> d \<Longrightarrow> Option.bind (denormalize v (a, b) (c, d)) (\<lambda>n. normalize n (a, b) (c, d)) = Some v"
  by (simp add: normalize_def denormalize_def js_div_def)

lemma normalize_bounds:
  assumes "a < b" "a \<le> v" "v \<le> b" "c \<le> d"
  shows "\<exists>n. normalize v (a, b) (c, d) = Some n \<and> c \<le> n \<and> n \<le> d"
proof -
  let ?q = "(v - a) / (b - a)"
  have q: "0 \<le> ?q" "?q \<le> 1" using assms by simp_all
  have "0 \<le> ?q * (d - c)" using q(1) assms(4) by (intro mult_nonneg_nonneg) simp_all
  moreover have "?q * (d - c) \<le> 1 * (d - c)" using q(2) assms(4) by (intro mult_right_mono) simp_all
  ultimately show ?thesis using assms(1) by (simp add: normalize_def js_div_def)
qed

section \<open>The lines\<close>

definition findMaxNumber :: "rat list \<Rightarrow> rat option" where
  "findMaxNumber xs = fold (\<lambda>x m. Some (case m of None \<Rightarrow> x | Some y \<Rightarrow> max x y)) xs None"

definition findMinNumber :: "rat list \<Rightarrow> rat option" where
  "findMinNumber xs = fold (\<lambda>x m. Some (case m of None \<Rightarrow> x | Some y \<Rightarrow> min x y)) xs None"

text \<open>The value of a point is a number or null.  Without a unit in the configuration the unit is
  \<open>UNITLESS\<close>.\<close>

definition UNITLESS :: string where "UNITLESS = ''uniteless''"

definition PERCENT :: string where "PERCENT = ''percent''"

definition MEBIBYTE :: string where "MEBIBYTE = ''mebibyte''"

record breakdown_config =
  bc_name :: string
  bc_getPointValue :: "jsval \<Rightarrow> rat option"
  bc_unit :: "string option"
  bc_formatValue :: "rat \<Rightarrow> jsval"
  bc_formatAxis :: "rat option \<Rightarrow> jsval"
  bc_renderBreakdownName :: jsval

record breakdown_values =
  bv_config :: breakdown_config
  bv_data :: "(rat \<times> rat) list"
  bv_unit :: string
  bv_max :: "rat option"
  bv_min :: "rat option"
  bv_absMax :: "rat option"

definition breakdown_data :: "breakdown_config \<Rightarrow> obj \<Rightarrow> (rat \<times> rat) list" where
  "breakdown_data c breakdown = concat (map (\<lambda>(second, breakdownData).
     case bc_getPointValue c breakdownData of None \<Rightarrow> [] | Some y \<Rightarrow> [(of_nat (str_nat second), y)]) breakdown)"

definition breakdown_values :: "breakdown_config \<Rightarrow> obj \<Rightarrow> breakdown_values" where
  "breakdown_values c breakdown =
     (let data = breakdown_data c breakdown;
          unit = (case bc_unit c of None \<Rightarrow> UNITLESS | Some u \<Rightarrow> u);
          yValues = map snd data in
      \<lparr>bv_config = c, bv_data = data, bv_unit = unit,
       bv_max = (if unit = PERCENT then Some 100 else findMaxNumber yValues),
       bv_min = (if unit = PERCENT then Some 0 else findMinNumber yValues),
       bv_absMax = (if unit = PERCENT then Some 100 else findMaxNumber (map abs yValues))\<rparr>)"

text \<open>\<open>unitAbsoluteMaxMap[unit]\<close>: undefined for a unit that is not listed.\<close>

definition unitAbsoluteMax :: "breakdown_values list \<Rightarrow> string \<Rightarrow> rat option" where
  "unitAbsoluteMax bs unit =
     (if unit \<in> {PERCENT, MEBIBYTE}
      then findMaxNumber (concat (map (\<lambda>b. case bv_absMax b of None \<Rightarrow> [] | Some m \<Rightarrow> [m])
        (filter (\<lambda>b. bv_unit b = unit) bs)))
      else None)"

definition getAbsMaxValue :: "breakdown_values list \<Rightarrow> breakdown_values \<Rightarrow> rat option" where
  "getAbsMaxValue bs b = (if bv_unit b = UNITLESS then bv_absMax b else unitAbsoluteMax bs (bv_unit b))"

definition isZeroLine :: "breakdown_values \<Rightarrow> bool" where
  "isZeroLine b \<longleftrightarrow> bv_min b = Some 0 \<and> bv_max b = Some 0"

definition isPositiveLine :: "breakdown_values \<Rightarrow> bool" where
  "isPositiveLine b \<longleftrightarrow> \<not> isZeroLine b
     \<and> (case (bv_min b, bv_max b) of (Some l, Some h) \<Rightarrow> l \<ge> 0 \<and> h \<ge> 0 | _ \<Rightarrow> False)"

definition isNegativeLine :: "breakdown_values \<Rightarrow> bool" where
  "isNegativeLine b \<longleftrightarrow> \<not> isZeroLine b
     \<and> (case (bv_min b, bv_max b) of (Some l, Some h) \<Rightarrow> l \<le> 0 \<and> h \<le> 0 | _ \<Rightarrow> False)"

definition getNormalizationRange :: "breakdown_values \<Rightarrow> rat \<times> rat" where
  "getNormalizationRange b =
     (if isNegativeLine b then (- 1, 0) else if isPositiveLine b then (0, 1) else (- 1, 1))"

definition getMinMaxNormalizationValues :: "breakdown_values \<Rightarrow> rat \<Rightarrow> rat \<times> rat" where
  "getMinMaxNormalizationValues b absMax =
     (if isNegativeLine b then (- absMax, 0) else if isPositiveLine b then (0, absMax) else (- absMax, absMax))"

definition normalize_line :: "breakdown_values list \<Rightarrow> breakdown_values \<Rightarrow> rat \<Rightarrow> rat option" where
  "normalize_line bs b v =
     (if isZeroLine b then Some 0
      else Option.bind (getAbsMaxValue bs b)
        (\<lambda>m. normalize v (getMinMaxNormalizationValues b m) (getNormalizationRange b)))"

definition denormalize_line :: "breakdown_values list \<Rightarrow> breakdown_values \<Rightarrow> rat \<Rightarrow> rat option" where
  "denormalize_line bs b v =
     (if isZeroLine b then Some v
      else Option.bind (getAbsMaxValue bs b)
        (\<lambda>m. denormalize v (getMinMaxNormalizationValues b m) (getNormalizationRange b)))"

record line_point =
  lp_x :: rat
  lp_y :: "rat option"
  lp_formattedY :: jsval
  lp_formattedLineName :: jsval

record chart_line =
  cl_id :: string
  cl_data :: "line_point list"
  cl_formatAxis :: "rat \<Rightarrow> jsval"

definition breakdown_line :: "breakdown_values list \<Rightarrow> breakdown_values \<Rightarrow> chart_line" where
  "breakdown_line bs b = (let c = bv_config b in
     \<lparr>cl_id = bc_name c,
      cl_data = map (\<lambda>(x, y). \<lparr>lp_x = x, lp_y = normalize_line bs b y, lp_formattedY = bc_formatValue c y,
        lp_formattedLineName = bc_renderBreakdownName c\<rparr>) (bv_data b),
      cl_formatAxis = (\<lambda>v. bc_formatAxis c (map_option (\<lambda>d. round_js d 2) (denormalize_line bs b v)))\<rparr>)"

definition useMlBreakdownLines :: "obj \<Rightarrow> breakdown_config list \<Rightarrow> string list \<Rightarrow> chart_line list" where
  "useMlBreakdownLines breakdown configs selected =
     (let breakdowns = map (\<lambda>c. breakdown_values c breakdown) (filter (\<lambda>c. bc_name c \<in> set selected) configs) in
      map (breakdown_line breakdowns) (filter (\<lambda>b. bv_data b \<noteq> []) breakdowns))"

section \<open>Extrema\<close>

lemma findMax_fold:
  "fold (\<lambda>x m. Some (case m of None \<Rightarrow> x | Some y \<Rightarrow> max x y)) xs (Some a) = Some (Max (insert a (set xs)))"
proof (induction xs arbitrary: a)
  case (Cons x xs)
  have "Max (insert (max x a) (set xs)) = Max (insert a (insert x (set xs)))"
    by (cases "set xs = {}") (simp_all add: ac_simps)
  with Cons show ?case by simp
qed simp

lemma findMin_fold:
  "fold (\<lambda>x m. Some (case m of None \<Rightarrow> x | Some y \<Rightarrow> min x y)) xs (Some a) = Some (Min (insert a (set xs)))"
proof (induction xs arbitrary: a)
  case (Cons x xs)
  have "Min (insert (min x a) (set xs)) = Min (insert a (insert x (set xs)))"
    by (cases "set xs = {}") (simp_all add: ac_simps)
  with Cons show ?case by simp
qed simp

lemma findMax_Max: "findMaxNumber xs = (if xs = [] then None else Some (Max (set xs)))"
  by (cases xs) (simp_all add: findMaxNumber_def findMax_fold)

lemma findMin_Min: "findMinNumber xs = (if xs = [] then None else Some (Min (set xs)))"
  by (cases xs) (simp_all add: findMinNumber_def findMin_fold)

section \<open>The points of a line\<close>

text \<open>The breakdowns a line is drawn from: percentages between 0 and 100, and a listed unit.\<close>

definition drawable :: "breakdown_values \<Rightarrow> bool" where
  "drawable b \<longleftrightarrow> bv_unit b \<in> {UNITLESS, PERCENT, MEBIBYTE}
     \<and> (bv_unit b = PERCENT \<longrightarrow> (\<forall>y \<in> snd ` set (bv_data b). 0 \<le> y \<and> y \<le> 100))"

lemma unit_names: "UNITLESS \<noteq> PERCENT" "UNITLESS \<noteq> MEBIBYTE" "PERCENT \<noteq> MEBIBYTE"
  by (simp_all add: UNITLESS_def PERCENT_def MEBIBYTE_def)

text \<open>The extrema of a breakdown bound its values, and its absolute maximum is positive unless the
  line is zero.\<close>

lemma values_bounded:
  assumes "b = breakdown_values c breakdown" "drawable b" "y \<in> snd ` set (bv_data b)"
  shows "\<exists>l h a. bv_min b = Some l \<and> bv_max b = Some h \<and> bv_absMax b = Some a \<and> l \<le> y \<and> y \<le> h \<and> \<bar>y\<bar> \<le> a
    \<and> (isZeroLine b \<or> 0 < a)"
proof (cases "bv_unit b = PERCENT")
  case True
  then have "bv_min b = Some 0" "bv_max b = Some 100" "bv_absMax b = Some 100"
    using assms(1) by (simp_all add: breakdown_values_def Let_def)
  moreover have "0 \<le> y" "y \<le> 100" using assms(2,3) True by (auto simp: drawable_def)
  ultimately show ?thesis by simp
next
  case False
  let ?Y = "snd ` set (bv_data b)"
  have ne: "?Y \<noteq> {}" "bv_data b \<noteq> []" using assms(3) by auto
  have v: "bv_min b = Some (Min ?Y)" "bv_max b = Some (Max ?Y)" "bv_absMax b = Some (Max (abs ` ?Y))"
    using False assms(1) ne by (simp_all add: breakdown_values_def Let_def findMax_Max findMin_Min image_image)
  have abs: "\<bar>z\<bar> \<le> Max (abs ` ?Y)" if "z \<in> ?Y" for z using that by (intro Max_ge) auto
  have "isZeroLine b \<or> 0 < Max (abs ` ?Y)"
  proof (cases "\<exists>z \<in> ?Y. z \<noteq> 0")
    case True
    then obtain z where z: "z \<in> ?Y" "0 < \<bar>z\<bar>" by auto
    from z(2) abs [OF z(1)] have "0 < Max (abs ` ?Y)" by (rule less_le_trans)
    then show ?thesis ..
  next
    case False
    then have "?Y \<subseteq> {0}" by auto
    then have "?Y = {0}" using subset_singletonD [of ?Y 0] ne(1) by argo
    then show ?thesis by (simp add: isZeroLine_def v)
  qed
  with v abs [OF assms(3)] assms(3) show ?thesis by simp
qed

lemma common_maximum:
  assumes "b \<in> set bs" "drawable b" "bv_absMax b = Some a"
  shows "\<exists>m. getAbsMaxValue bs b = Some m \<and> a \<le> m"
proof (cases "bv_unit b = UNITLESS")
  case True
  then show ?thesis using assms(3) by (simp add: getAbsMaxValue_def)
next
  case False
  define ms where "ms = concat (map (\<lambda>b. case bv_absMax b of None \<Rightarrow> [] | Some m \<Rightarrow> [m]) (filter (\<lambda>b'. bv_unit b' = bv_unit b) bs))"
  have "a \<in> set ms" using assms(1,3) by (auto simp: ms_def intro!: bexI [of _ b])
  then have "findMaxNumber ms = Some (Max (set ms))" "a \<le> Max (set ms)"
    by (auto simp: findMax_Max)
  moreover have "getAbsMaxValue bs b = findMaxNumber ms"
    using False assms(2) by (auto simp: getAbsMaxValue_def unitAbsoluteMax_def drawable_def ms_def)
  ultimately show ?thesis by simp
qed

lemma line_point_bounds:
  assumes "b \<in> set bs" "b = breakdown_values c breakdown" "drawable b" "y \<in> snd ` set (bv_data b)"
  shows "\<exists>v. normalize_line bs b y = Some v \<and> - 1 \<le> v \<and> v \<le> 1 \<and> denormalize_line bs b v = Some y"
proof -
  obtain l h a where v: "bv_min b = Some l" "bv_max b = Some h" "bv_absMax b = Some a" "l \<le> y" "y \<le> h" "\<bar>y\<bar> \<le> a"
    "isZeroLine b \<or> 0 < a" using values_bounded [OF assms(2-4)] by blast
  obtain m where m: "getAbsMaxValue bs b = Some m" "a \<le> m" using common_maximum [OF assms(1,3) v(3)] by blast
  show ?thesis
  proof (cases "isZeroLine b")
    case True
    with v have "y = 0" by (simp add: isZeroLine_def)
    with True show ?thesis by (simp add: normalize_line_def denormalize_line_def)
  next
    case False
    then have pos: "0 < m" "\<bar>y\<bar> \<le> m" using v(6,7) m(2) by auto
    obtain p q r s where d: "getMinMaxNormalizationValues b m = (p, q)" "getNormalizationRange b = (r, s)"
      "p < q" "r < s" "p \<le> y" "y \<le> q" "- 1 \<le> r" "s \<le> 1"
    proof (cases "isNegativeLine b")
      case True
      then have "h \<le> 0" using v(1,2) by (simp add: isNegativeLine_def)
      with True pos v(5) show ?thesis
        by (intro that [of "- m" 0 "- 1" 0]) (auto simp: getMinMaxNormalizationValues_def getNormalizationRange_def)
    next
      case neg: False
      show ?thesis
      proof (cases "isPositiveLine b")
        case True
        then have "0 \<le> l" using v(1,2) by (simp add: isPositiveLine_def)
        with True neg pos v(4) show ?thesis
          by (intro that [of 0 m 0 1]) (auto simp: getMinMaxNormalizationValues_def getNormalizationRange_def)
      next
        case False
        with neg pos show ?thesis
          by (intro that [of "- m" m "- 1" 1]) (auto simp: getMinMaxNormalizationValues_def getNormalizationRange_def)
      qed
    qed
    obtain n where n: "normalize y (p, q) (r, s) = Some n" "r \<le> n" "n \<le> s"
      using normalize_bounds [OF d(3,5,6)] d(4) by (meson less_imp_le)
    have "denormalize n (p, q) (r, s) = Some y"
      using denormalize_normalize [of p q r s y] d(3,4) n(1) by simp
    with n d False m(1) show ?thesis by (auto simp: normalize_line_def denormalize_line_def)
  qed
qed

section \<open>A metric with two points\<close>

definition demo_metric :: breakdown_config where
  "demo_metric = \<lparr>bc_name = ''loss'', bc_getPointValue = (\<lambda>v. case v of Num x \<Rightarrow> Some x | _ \<Rightarrow> None), bc_unit = None,
     bc_formatValue = Num, bc_formatAxis = (\<lambda>v. case v of Some x \<Rightarrow> Num x | None \<Rightarrow> Null), bc_renderBreakdownName = Str ''Loss''\<rparr>"

definition demo_metrics :: obj where
  "demo_metrics = [(''1'', Num 3), (''2'', Num (- 1))]"

lemma demo_metric_point:
  "\<exists>line p. line \<in> set (useMlBreakdownLines demo_metrics [demo_metric] [''loss'']) \<and> p \<in> set (cl_data line)"
  by (simp add: useMlBreakdownLines_def Let_def breakdown_line_def breakdown_values_def breakdown_data_def
      demo_metric_def demo_metrics_def) blast

end
