(* ===== verification/BreakdownData.thy ===== *)
theory BreakdownData
  imports Arrays SuccessCodes
begin

text \<open>
  \<open>hooks/useBreakdownData.ts\<close>: the expenses of a breakdown by day, by week and by month, each an
  array of the expenses by name.  The functions of \<open>utils/datetime.ts\<close> are a record of parameters;
  a timestamp is the text that is its key in the breakdown.
\<close>

section \<open>The groups\<close>

record date_functions =
  df_formatUTC :: "jsval \<Rightarrow> string \<Rightarrow> string"
  df_startOfDayInUTC :: "string \<Rightarrow> jsval"
  df_endOfDayInUTC :: "string \<Rightarrow> jsval"

definition merge_expense :: "jsval \<Rightarrow> jsval \<Rightarrow> obj \<Rightarrow> jsval \<Rightarrow> obj js" where
  "merge_expense startDate_arg endDate_arg mergedData v =
     bind_js (get_prop v ''name'') (\<lambda>n.
     let old = obj_get mergedData (to_str n) in
     map_js (\<lambda>e. obj_set (to_str n)
         (Obj (obj_spread (obj_spread (obj_spread [] (own_props (js_coalesce old (Obj [])))) (own_props v))
           [(''startDate'', startDate_arg), (''endDate'', endDate_arg),
            (''expense'', js_add (js_coalesce (opt_prop old ''expense'') (Num 0)) e)])) mergedData)
       (get_prop v ''expense''))"

definition groupChunkBreakdownArray :: "(string \<times> jsval) list \<Rightarrow> jsval \<Rightarrow> jsval \<Rightarrow> jsval list js" where
  "groupChunkBreakdownArray chunk startDate_arg endDate_arg =
     map_js (map snd) (foldM_js (\<lambda>groupedData (_, breakdownArray). case breakdownArray of
         Arr vs \<Rightarrow> foldM_js (merge_expense startDate_arg endDate_arg) groupedData vs
       | _ \<Rightarrow> Inr groupedData) [] chunk)"

definition getChunkTimeInterval :: "date_functions \<Rightarrow> (string \<times> jsval) list \<Rightarrow> (jsval \<times> jsval) js" where
  "getChunkTimeInterval df chunk =
     (case chunk of [] \<Rightarrow> Inl TypeError
      | c # _ \<Rightarrow> Inr (df_startOfDayInUTC df (fst c), df_endOfDayInUTC df (fst (last chunk))))"

definition getDailyBreakdownData :: "date_functions \<Rightarrow> obj \<Rightarrow> jsval js" where
  "getDailyBreakdownData df breakdown =
     map_js (\<lambda>es. Obj (from_entries es)) (mapM_js (\<lambda>(sTimestamp, expense).
       map_js (\<lambda>vs. (df_formatUTC df (Str sTimestamp) ''MM/dd/yy'', Arr (map (\<lambda>e. Obj (obj_spread (obj_spread [] (own_props e))
           [(''startDate'', df_startOfDayInUTC df sTimestamp), (''endDate'', df_endOfDayInUTC df sTimestamp)])) vs)))
         (as_array expense)) breakdown)"

text \<open>The label and the groups of one week.\<close>

definition weekly_entry :: "date_functions \<Rightarrow> (string \<times> jsval) list \<Rightarrow> (string \<times> jsval) js" where
  "weekly_entry df weeklyChunk =
     bind_js (getChunkTimeInterval df weeklyChunk) (\<lambda>(start, end_arg).
     map_js (\<lambda>groupArray. (if length weeklyChunk = 1 then df_formatUTC df start ''MM/dd/yy''
         else df_formatUTC df start ''MM/dd/yy'' @ '' - '' @ df_formatUTC df end_arg ''MM/dd/yy'', Arr groupArray))
       (groupChunkBreakdownArray weeklyChunk start end_arg))"

definition getWeeklyBreakdownData :: "date_functions \<Rightarrow> obj \<Rightarrow> jsval js" where
  "getWeeklyBreakdownData df breakdown =
     bind_js (splitIntoChunks breakdown 7) (\<lambda>weeks.
     map_js (\<lambda>es. Obj (from_entries es)) (mapM_js (weekly_entry df) weeks))"

text \<open>An entry as the array \<open>[key, value]\<close>, and back.\<close>

definition entry_value :: "string \<times> jsval \<Rightarrow> jsval" where
  "entry_value e = Arr [Str (fst e), snd e]"

definition entry_of_value :: "jsval \<Rightarrow> string \<times> jsval" where
  "entry_of_value v = (case v of Arr [Str k, w] \<Rightarrow> (k, w) | _ \<Rightarrow> ([], Undef))"

definition monthly_entry :: "date_functions \<Rightarrow> string \<times> jsval \<Rightarrow> (string \<times> jsval) js" where
  "monthly_entry df = (\<lambda>(groupName, monthlyChunkData).
     bind_js (map_js (map entry_of_value) (as_array monthlyChunkData)) (\<lambda>chunk.
     bind_js (getChunkTimeInterval df chunk) (\<lambda>(start, end_arg).
     map_js (\<lambda>groupArray. (groupName, Arr groupArray)) (groupChunkBreakdownArray chunk start end_arg))))"

definition getMonthlyBreakdownData :: "date_functions \<Rightarrow> obj \<Rightarrow> jsval js" where
  "getMonthlyBreakdownData df breakdown =
     bind_js (createGroupsObjectFromArray (map entry_value breakdown)
       (\<lambda>e. Inr (Str (df_formatUTC df (Str (fst (entry_of_value e))) ''MMM, yyyy'')))) (\<lambda>groups.
     map_js (\<lambda>es. Obj (from_entries es)) (mapM_js (monthly_entry df) groups))"

definition useBreakdownData :: "date_functions \<Rightarrow> obj \<Rightarrow> jsval js" where
  "useBreakdownData df breakdown =
     bind_js (getDailyBreakdownData df breakdown) (\<lambda>daily.
     bind_js (getWeeklyBreakdownData df breakdown) (\<lambda>weekly.
     map_js (\<lambda>monthly. Obj [(''daily'', daily), (''weekly'', weekly), (''monthly'', monthly)])
       (getMonthlyBreakdownData df breakdown)))"

section \<open>The expenses of a name\<close>

definition expense :: "jsval \<Rightarrow> rat" where
  "expense v = (case opt_prop v ''expense'' of Num x \<Rightarrow> x | _ \<Rightarrow> 0)"

text \<open>The sum of the expenses in a list under one name.\<close>

definition spent :: "string \<Rightarrow> jsval list \<Rightarrow> rat" where
  "spent n vs = sum_list (map expense (filter (\<lambda>v. opt_prop v ''name'' = Str n) vs))"

lemma spent_simps [simp]:
  "spent n [] = 0"
  "spent n (v # vs) = (if opt_prop v ''name'' = Str n then expense v else 0) + spent n vs"
  "spent n (us @ vs) = spent n us + spent n vs"
  by (simp_all add: spent_def)

text \<open>An expense with a name, and a day of them.\<close>

definition plain_expense :: "jsval \<Rightarrow> bool" where
  "plain_expense v \<longleftrightarrow> (\<exists>b n x. v = Obj b \<and> distinct (map fst b) \<and> obj_get b ''name'' = Str n \<and> obj_get b ''expense'' = Num x)"

definition plain_entry :: "string \<times> jsval \<Rightarrow> bool" where
  "plain_entry e \<longleftrightarrow> (\<exists>vs. snd e = Arr vs \<and> (\<forall>v \<in> set vs. plain_expense v))"

definition items :: "string \<times> jsval \<Rightarrow> jsval list" where
  "items e = (case snd e of Arr vs \<Rightarrow> vs | _ \<Rightarrow> [])"

lemma items_Arr [simp]: "items (k, Arr vs) = vs"
  by (simp add: items_def)

text \<open>The accumulator: under every name an expense of that name.\<close>

definition merged :: "obj \<Rightarrow> bool" where
  "merged g \<longleftrightarrow> distinct (map fst g) \<and>
     (\<forall>k v. map_of g k = Some v \<longrightarrow> plain_expense v \<and> opt_prop v ''name'' = Str k)"

lemma merged_spent:
  assumes "distinct (map fst g)" "\<forall>(k, v) \<in> set g. opt_prop v ''name'' = Str k"
  shows "spent n (map snd g) = (case map_of g n of Some v \<Rightarrow> expense v | None \<Rightarrow> 0)"
  using assms
proof (induction g)
  case (Cons e g)
  obtain k v where e: "e = (k, v)" by (cases e)
  have "map_of g k = None" using Cons.prems(1) by (auto simp: e map_of_eq_None_iff)
  with Cons show ?case by (auto simp: e)
qed simp

lemma merge_one:
  assumes "merged g" "plain_expense v"
  shows "\<exists>g'. merge_expense s e g v = Inr g' \<and> merged g'
    \<and> (\<forall>n. spent n (map snd g') = spent n (map snd g) + spent n [v])"
proof -
  obtain b m x where v: "v = Obj b" "distinct (map fst b)" "obj_get b ''name'' = Str m" "obj_get b ''expense'' = Num x"
    using assms(2) by (auto simp: plain_expense_def)
  define old where "old = obj_get g m"
  have old: "old = Undef \<and> map_of g m = None \<or> (\<exists>ob y. old = Obj ob \<and> map_of g m = Some old
      \<and> distinct (map fst ob) \<and> obj_get ob ''expense'' = Num y)"
  proof (cases "map_of g m")
    case (Some a)
    then have "plain_expense a" using assms(1) by (simp add: merged_def)
    with Some show ?thesis by (auto simp: old_def obj_get_def [of g] plain_expense_def)
  qed (simp add: old_def obj_get_def)
  define y where "y = (case map_of g m of Some v \<Rightarrow> expense v | None \<Rightarrow> 0)"
  have sum: "js_add (js_coalesce (opt_prop old ''expense'') (Num 0)) (Num x) = Num (y + x)"
    using old by (auto simp: js_add_def js_coalesce_def y_def expense_def)
  define nb where "nb = obj_spread (obj_spread (obj_spread [] (own_props (js_coalesce old (Obj [])))) b)
      [(''startDate'', s), (''endDate'', e), (''expense'', Num (y + x))]"
  have run: "merge_expense s e g v = Inr (obj_set m (Obj nb) g)"
    using v sum by (simp add: merge_expense_def Let_def old_def nb_def)
  have name_in: "''name'' \<in> fst ` set b" using v(3) obj_get_absent [of "''name''" b] by auto
  have "distinct (map fst nb)" unfolding nb_def by (intro distinct_obj_spread)
  moreover have "obj_get nb ''name'' = Str m" using name_in v(2,3) by (simp add: nb_def obj_get_spread)
  moreover have ex: "obj_get nb ''expense'' = Num (y + x)" by (simp add: nb_def obj_get_spread)
  ultimately have nb: "plain_expense (Obj nb)" "opt_prop (Obj nb) ''name'' = Str m" "expense (Obj nb) = y + x"
    by (auto simp: plain_expense_def expense_def)
  have m': "merged (obj_set m (Obj nb) g)"
    using assms(1) nb(1,2) by (auto simp: merged_def distinct_obj_set)
  have names: "\<forall>(k, v) \<in> set h. opt_prop v ''name'' = Str k" if "merged h" for h
    using that unfolding merged_def by (auto dest: map_of_is_SomeI)
  have "spent n (map snd (obj_set m (Obj nb) g)) = spent n (map snd g) + spent n [v]" for n
  proof -
    have "spent n (map snd (obj_set m (Obj nb) g)) = (case map_of (obj_set m (Obj nb) g) n of Some v \<Rightarrow> expense v | None \<Rightarrow> 0)"
      using m' names [OF m'] by (intro merged_spent) (simp_all add: merged_def)
    moreover have "spent n (map snd g) = (case map_of g n of Some v \<Rightarrow> expense v | None \<Rightarrow> 0)"
      using assms(1) names [OF assms(1)] by (intro merged_spent) (simp_all add: merged_def)
    ultimately show ?thesis using nb(3) v by (simp add: y_def expense_def)
  qed
  with run m' show ?thesis by blast
qed

lemma merge_all:
  assumes "merged g" "\<forall>v \<in> set vs. plain_expense v"
  shows "\<exists>g'. foldM_js (merge_expense s e) g vs = Inr g' \<and> merged g'
    \<and> (\<forall>n. spent n (map snd g') = spent n (map snd g) + spent n vs)"
  using assms
proof (induction vs arbitrary: g)
  case (Cons v vs)
  obtain g1 where g1: "merge_expense s e g v = Inr g1" "merged g1"
    "\<forall>n. spent n (map snd g1) = spent n (map snd g) + spent n [v]"
    using merge_one [OF Cons.prems(1), of v s e] Cons.prems(2) by auto
  obtain g2 where g2: "foldM_js (merge_expense s e) g1 vs = Inr g2" "merged g2"
    "\<forall>n. spent n (map snd g2) = spent n (map snd g1) + spent n vs"
    using Cons.IH [OF g1(2)] Cons.prems(2) by auto
  have "spent n (map snd g2) = spent n (map snd g) + spent n (v # vs)" for n using g1(3) g2(3) by simp
  with g1(1) g2(1,2) show ?case by auto
qed simp

lemma group_chunk:
  assumes "\<forall>e \<in> set chunk. plain_entry e"
  shows "\<exists>gs. groupChunkBreakdownArray chunk s e = Inr gs \<and> distinct (map (\<lambda>v. opt_prop v ''name'') gs)
    \<and> (\<forall>n. spent n gs = spent n (concat (map items chunk)))"
proof -
  let ?f = "\<lambda>groupedData (_ :: string, breakdownArray). case breakdownArray of
         Arr vs \<Rightarrow> foldM_js (merge_expense s e) groupedData vs
       | _ \<Rightarrow> Inr groupedData"
  have gen: "\<exists>g'. foldM_js ?f g chunk = Inr g' \<and> merged g'
      \<and> (\<forall>n. spent n (map snd g') = spent n (map snd g) + spent n (concat (map items chunk)))" if "merged g" for g
    using assms that
  proof (induction chunk arbitrary: g)
    case (Cons en chunk)
    then obtain k vs where en: "en = (k, Arr vs)" "\<forall>v \<in> set vs. plain_expense v"
      by (cases en) (auto simp: plain_entry_def)
    obtain g1 where g1: "foldM_js (merge_expense s e) g vs = Inr g1" "merged g1"
      "\<forall>n. spent n (map snd g1) = spent n (map snd g) + spent n vs"
      using merge_all [OF Cons.prems(2) en(2)] by blast
    obtain g2 where g2: "foldM_js ?f g1 chunk = Inr g2" "merged g2"
      "\<forall>n. spent n (map snd g2) = spent n (map snd g1) + spent n (concat (map items chunk))"
      using Cons.IH [OF _ g1(2)] Cons.prems(1) by auto
    have "spent n (map snd g2) = spent n (map snd g) + spent n (concat (map items (en # chunk)))" for n
      using g1(3) g2(3) by (simp add: en(1) items_def)
    with g1(1) g2(1,2) show ?case by (auto simp: en(1))
  qed simp
  have "merged []" by (simp add: merged_def)
  from gen [OF this] obtain g where g: "foldM_js ?f [] chunk = Inr g" "merged g"
    "\<forall>n. spent n (map snd g) = spent n (concat (map items chunk))" by auto
  have "map (\<lambda>v. opt_prop v ''name'') (map snd g) = map (\<lambda>e. Str (fst e)) g"
    using g(2) by (auto simp: merged_def dest: map_of_is_SomeI)
  also have "\<dots> = map Str (map fst g)" by simp
  finally have "distinct (map (\<lambda>v. opt_prop v ''name'') (map snd g))"
    using g(2) by (simp add: merged_def distinct_map inj_on_def del: map_map)
  with g show ?thesis by (auto simp: groupChunkBreakdownArray_def)
qed

section \<open>No expense is lost\<close>

text \<open>An object built from entries with distinct keys has those entries.\<close>

lemma mset_from_entries:
  assumes "distinct (map fst es)"
  shows "mset (from_entries es) = mset es"
proof -
  have "map_of (from_entries es) = map_of es"
    unfolding from_entries_def map_of_fold_obj_set by (simp add: map_of_rev_distinct [OF assms])
  then have "set (from_entries es) = set es"
    using map_of_inject_set [OF distinct_from_entries assms] by blast
  then show ?thesis
    using set_eq_iff_mset_eq_distinct [of "from_entries es" es] assms distinct_from_entries [of es]
    by (auto simp: distinct_map)
qed

definition total_spent :: "string \<Rightarrow> obj \<Rightarrow> rat" where
  "total_spent n es = sum_list (map (\<lambda>e. spent n (items e)) es)"

lemma total_spent_mset: "mset es = mset es' \<Longrightarrow> total_spent n es = total_spent n es'"
  by (simp add: total_spent_def flip: sum_mset_sum_list)

lemma total_spent_concat: "sum_list (map (\<lambda>c. spent n (concat (map items c))) cs) = total_spent n (concat cs)"
proof -
  have "spent n (concat (map items c)) = total_spent n c" for c
    by (induction c) (simp_all add: total_spent_def)
  then show ?thesis by (induction cs) (simp_all add: total_spent_def)
qed

text \<open>The label of a week: its first day, and its last one unless the week has one day.\<close>

definition week_of :: "date_functions \<Rightarrow> (string \<times> jsval) list \<Rightarrow> string" where
  "week_of df c = (let s = df_formatUTC df (df_startOfDayInUTC df (fst (hd c))) ''MM/dd/yy'' in
     if length c = 1 then s
     else s @ '' - '' @ df_formatUTC df (df_endOfDayInUTC df (fst (last c))) ''MM/dd/yy'')"

lemma weekly_entries:
  assumes "\<forall>c \<in> set cs. c \<noteq> [] \<and> (\<forall>e \<in> set c. plain_entry e)"
  shows "\<exists>es. mapM_js (weekly_entry df) cs = Inr es \<and> map fst es = map (week_of df) cs
    \<and> (\<forall>n. map (\<lambda>e. spent n (items e)) es = map (\<lambda>c. spent n (concat (map items c))) cs)"
  using assms
proof (induction cs)
  case (Cons c cs)
  then obtain es where es: "mapM_js (weekly_entry df) cs = Inr es" "map fst es = map (week_of df) cs"
    "\<forall>n. map (\<lambda>e. spent n (items e)) es = map (\<lambda>c. spent n (concat (map items c))) cs" by auto
  obtain e1 c' where c: "c = e1 # c'" using Cons.prems by (cases c) auto
  let ?s = "df_startOfDayInUTC df (fst e1)" and ?e = "df_endOfDayInUTC df (fst (last c))"
  obtain gs where gs: "groupChunkBreakdownArray c ?s ?e = Inr gs" "\<forall>n. spent n gs = spent n (concat (map items c))"
    using group_chunk [of c ?s ?e] Cons.prems by auto
  have "weekly_entry df c = Inr (week_of df c, Arr gs)"
    using gs(1) by (simp add: weekly_entry_def getChunkTimeInterval_def week_of_def c Let_def)
  with es gs(2) show ?case by simp
qed simp

lemma weekly_total:
  assumes "\<forall>e \<in> set breakdown. plain_entry e" "distinct (map (week_of df) (chunks 7 breakdown))"
  shows "\<exists>es. getWeeklyBreakdownData df breakdown = Inr (Obj es) \<and> total_spent n es = total_spent n breakdown"
proof -
  have "\<forall>c \<in> set (chunks 7 breakdown). c \<noteq> [] \<and> (\<forall>e \<in> set c. plain_entry e)"
  proof (intro ballI)
    fix c assume c: "c \<in> set (chunks 7 breakdown)"
    then have "set c \<subseteq> set (concat (chunks 7 breakdown))" by auto
    with assms(1) chunks_length [OF c] show "c \<noteq> [] \<and> (\<forall>e \<in> set c. plain_entry e)" by (auto simp: concat_chunks)
  qed
  from weekly_entries [OF this, of df] obtain es where es: "mapM_js (weekly_entry df) (chunks 7 breakdown) = Inr es"
    "map fst es = map (week_of df) (chunks 7 breakdown)"
    "\<forall>n. map (\<lambda>e. spent n (items e)) es = map (\<lambda>c. spent n (concat (map items c))) (chunks 7 breakdown)" by blast
  have "total_spent n (from_entries es) = total_spent n es"
    using es(2) assms(2) by (intro total_spent_mset mset_from_entries) simp
  also have "\<dots> = total_spent n breakdown"
    using es(3) total_spent_concat [of n "chunks 7 breakdown"] by (simp add: total_spent_def concat_chunks)
  finally show ?thesis using es(1) by (auto simp: getWeeklyBreakdownData_def splitIntoChunks_chunks)
qed

text \<open>The label of the month of an entry.\<close>

definition month_label :: "date_functions \<Rightarrow> jsval \<Rightarrow> string" where
  "month_label df v = df_formatUTC df (Str (fst (entry_of_value v))) ''MMM, yyyy''"

lemma entry_of_entry [simp]: "entry_of_value (entry_value e) = e"
  by (simp add: entry_of_value_def entry_value_def)

lemma spent_items: "spent n (concat (map items (map entry_of_value vs))) = sum_list (map (\<lambda>v. spent n (items (entry_of_value v))) vs)"
  by (induction vs) simp_all

lemma monthly_entries:
  assumes "\<forall>(k, v) \<in> set g. \<exists>vs. v = Arr vs \<and> vs \<noteq> [] \<and> (\<forall>x \<in> set vs. plain_entry (entry_of_value x))"
  shows "\<exists>es. mapM_js (monthly_entry df) g = Inr es \<and> map fst es = map fst g
    \<and> (\<forall>n. map (\<lambda>e. spent n (items e)) es = map (\<lambda>(k, v). sum_list (map (\<lambda>x. spent n (items (entry_of_value x)))
        (case v of Arr vs \<Rightarrow> vs | _ \<Rightarrow> []))) g)"
  using assms
proof (induction g)
  case (Cons p g)
  then obtain es where es: "mapM_js (monthly_entry df) g = Inr es" "map fst es = map fst g"
    "\<forall>n. map (\<lambda>e. spent n (items e)) es = map (\<lambda>(k, v). sum_list (map (\<lambda>x. spent n (items (entry_of_value x)))
        (case v of Arr vs \<Rightarrow> vs | _ \<Rightarrow> []))) g" by auto
  obtain k v vs where p: "p = (k, Arr (v # vs))" "\<forall>x \<in> set (v # vs). plain_entry (entry_of_value x)"
    using Cons.prems by (cases p) (auto simp: neq_Nil_conv)
  let ?c = "map entry_of_value (v # vs)"
  let ?s = "df_startOfDayInUTC df (fst (hd ?c))" and ?e = "df_endOfDayInUTC df (fst (last ?c))"
  obtain gs where gs: "groupChunkBreakdownArray ?c ?s ?e = Inr gs" "\<forall>n. spent n gs = spent n (concat (map items ?c))"
    using group_chunk [of ?c ?s ?e] p(2) by auto
  have "monthly_entry df p = Inr (k, Arr gs)"
    using gs(1) by (simp add: monthly_entry_def p(1) as_array_def getChunkTimeInterval_def)
  moreover have "spent n gs = sum_list (map (\<lambda>x. spent n (items (entry_of_value x))) (v # vs))" for n
    using gs(2) by (simp only: spent_items)
  ultimately show ?case using es by (simp add: p(1))
qed simp

lemma monthly_total:
  assumes "\<forall>e \<in> set breakdown. plain_entry e"
    "\<forall>e \<in> set breakdown. month_label df (entry_value e) \<notin> set inherited_names"
  shows "\<exists>es. getMonthlyBreakdownData df breakdown = Inr (Obj es) \<and> total_spent n es = total_spent n breakdown"
proof -
  let ?xs = "map entry_value breakdown" and ?w = "\<lambda>v. spent n (items (entry_of_value v))"
  obtain g where g: "createGroupsObjectFromArray ?xs (\<lambda>e. Inr (Str (month_label df e))) = Inr g" "grouped (month_label df) ?xs g"
    using groups_spec [of ?xs "\<lambda>e. Inr (Str (month_label df e))" "month_label df"] assms(2) by auto
  have v: "v = Arr (filter (\<lambda>x. month_label df x = k) ?xs) \<and> filter (\<lambda>x. month_label df x = k) ?xs \<noteq> []"
    if "(k, v) \<in> set g" for k v
  proof -
    have "k \<in> month_label df ` set ?xs" using that grouped_keys [OF g(2)] by force
    then show ?thesis using grouped_entry [OF g(2) that] by (auto simp: filter_empty_conv)
  qed
  have "\<forall>(k, v) \<in> set g. \<exists>vs. v = Arr vs \<and> vs \<noteq> [] \<and> (\<forall>x \<in> set vs. plain_entry (entry_of_value x))"
  proof (intro ballI, clarify)
    fix k v assume "(k, v) \<in> set g"
    from v [OF this] show "\<exists>vs. v = Arr vs \<and> vs \<noteq> [] \<and> (\<forall>x \<in> set vs. plain_entry (entry_of_value x))"
      using assms(1) by (intro exI [of _ "filter (\<lambda>x. month_label df x = k) ?xs"]) auto
  qed
  from monthly_entries [OF this, of df] obtain es where es: "mapM_js (monthly_entry df) g = Inr es" "map fst es = map fst g"
    "\<forall>n. map (\<lambda>e. spent n (items e)) es = map (\<lambda>(k, v). sum_list (map (\<lambda>x. spent n (items (entry_of_value x)))
        (case v of Arr vs \<Rightarrow> vs | _ \<Rightarrow> []))) g" by blast
  have "map (\<lambda>(k, v). sum_list (map ?w (case v of Arr vs \<Rightarrow> vs | _ \<Rightarrow> []))) g
      = map (\<lambda>e. sum_list (map ?w (filter (\<lambda>x. month_label df x = fst e) ?xs))) g"
  proof (rule map_cong [OF refl])
    fix e assume "e \<in> set g"
    then show "(\<lambda>(k, v). sum_list (map ?w (case v of Arr vs \<Rightarrow> vs | _ \<Rightarrow> []))) e
        = sum_list (map ?w (filter (\<lambda>x. month_label df x = fst e) ?xs))"
      using v [of "fst e" "snd e"] by (simp add: case_prod_beta)
  qed
  then have "total_spent n es = sum_list (map (\<lambda>k. sum_list (map ?w (filter (\<lambda>x. month_label df x = k) ?xs))) (map fst g))"
    unfolding total_spent_def es(3) [rule_format] by (simp only: map_map comp_def)
  also have "\<dots> = sum_list (map ?w ?xs)"
    using g(2) grouped_keys [OF g(2)] by (intro sum_by_key) (auto simp: grouped_def)
  also have "\<dots> = total_spent n breakdown" by (simp add: total_spent_def comp_def)
  finally have "total_spent n es = total_spent n breakdown" .
  moreover have "total_spent n (from_entries es) = total_spent n es"
    using es(2) g(2) by (intro total_spent_mset mset_from_entries) (simp add: grouped_def)
  ultimately show ?thesis
    using es(1) g(1) by (auto simp: getMonthlyBreakdownData_def month_label_def)
qed

text \<open>The days keep their expenses when no two of them have one label.\<close>

lemma daily_total:
  assumes "\<forall>e \<in> set breakdown. plain_entry e"
    "distinct (map (\<lambda>e. df_formatUTC df (Str (fst e)) ''MM/dd/yy'') breakdown)"
  shows "\<exists>es. getDailyBreakdownData df breakdown = Inr (Obj es) \<and> total_spent n es = total_spent n breakdown"
proof -
  let ?f = "\<lambda>(sTimestamp, expense). map_js (\<lambda>vs. (df_formatUTC df (Str sTimestamp) ''MM/dd/yy'', Arr (map (\<lambda>e. Obj (obj_spread (obj_spread [] (own_props e))
           [(''startDate'', df_startOfDayInUTC df sTimestamp), (''endDate'', df_endOfDayInUTC df sTimestamp)])) vs)))
         (as_array expense)"
  have copy: "obj_get (obj_spread [] b) k = obj_get b k" if "distinct (map fst b)" for b k
    using that by (simp add: obj_get_spread obj_get_absent)
  have keeps: "spent n (map (\<lambda>e. Obj (obj_spread (obj_spread [] (own_props e)) [(''startDate'', s), (''endDate'', t)])) vs) = spent n vs"
    if "\<forall>v \<in> set vs. plain_expense v" for vs s t
    using that
  proof (induction vs)
    case (Cons v vs)
    then obtain b where "v = Obj b" "distinct (map fst b)" by (auto simp: plain_expense_def)
    with Cons copy show ?case by (simp add: expense_def obj_get_spread)
  qed simp
  have "\<exists>es. mapM_js ?f b = Inr es \<and> map fst es = map (\<lambda>e. df_formatUTC df (Str (fst e)) ''MM/dd/yy'') b
      \<and> total_spent n es = total_spent n b" if "\<forall>e \<in> set b. plain_entry e" for b
    using that
  proof (induction b)
    case (Cons e b)
    then obtain es where es: "mapM_js ?f b = Inr es" "map fst es = map (\<lambda>e. df_formatUTC df (Str (fst e)) ''MM/dd/yy'') b"
      "total_spent n es = total_spent n b" by auto
    obtain k vs where e: "e = (k, Arr vs)" "\<forall>v \<in> set vs. plain_expense v"
      using Cons.prems by (cases e) (auto simp: plain_entry_def)
    with es keeps show ?case by (simp add: as_array_def total_spent_def)
  qed (simp add: total_spent_def)
  from this [OF assms(1)] obtain es where es: "mapM_js ?f breakdown = Inr es"
    "map fst es = map (\<lambda>e. df_formatUTC df (Str (fst e)) ''MM/dd/yy'') breakdown" "total_spent n es = total_spent n breakdown" by blast
  have "total_spent n (from_entries es) = total_spent n es"
    using es(2) assms(2) by (intro total_spent_mset mset_from_entries) simp
  then show ?thesis using es(1,3) by (auto simp: getDailyBreakdownData_def)
qed

section \<open>Two days of one month\<close>

definition demo_dates :: date_functions where
  "demo_dates = \<lparr>df_formatUTC = (\<lambda>v fmt. if fmt = ''MMM, yyyy'' then ''May, 2024'' else to_str v),
     df_startOfDayInUTC = (\<lambda>k. Str (k @ ''s'')), df_endOfDayInUTC = (\<lambda>k. Str (k @ ''e''))\<rparr>"

definition demo_breakdown :: obj where
  "demo_breakdown = [(''1'', Arr [Obj [(''name'', Str ''EC2''), (''expense'', Num 5)]]),
     (''2'', Arr [Obj [(''name'', Str ''EC2''), (''expense'', Num 2)]])]"

end
