(* ===== verification/ArrayOrder.thy ===== *)
theory ArrayOrder
  imports Arrays SuccessCodes
begin

text \<open>
  The rest of \<open>utils/arrays.ts\<close>: sorting with a comparator, orders given by a list, and the sums,
  means and bounds of numbers.
\<close>

section \<open>Sorting\<close>

text \<open>\<open>Array.prototype.sort\<close> with a consistent comparator is the stable sort: an element stays
  before those that it does not exceed.\<close>

primrec insert_by :: "('a \<Rightarrow> 'a \<Rightarrow> rat) \<Rightarrow> 'a \<Rightarrow> 'a list \<Rightarrow> 'a list" where
  "insert_by compare x [] = [x]"
| "insert_by compare x (y # ys) = (if compare x y \<le> 0 then x # y # ys else y # insert_by compare x ys)"

definition sort_by :: "('a \<Rightarrow> 'a \<Rightarrow> rat) \<Rightarrow> 'a list \<Rightarrow> 'a list" where
  "sort_by compare xs = foldr (insert_by compare) xs []"

lemma mset_insert_by [simp]: "mset (insert_by compare x ys) = add_mset x (mset ys)"
  by (induction ys) auto

lemma mset_sort_by [simp]: "mset (sort_by compare xs) = mset xs"
  by (induction xs) (auto simp: sort_by_def)

lemma set_sort_by [simp]: "set (sort_by compare xs) = set xs"
  using mset_sort_by by (metis set_mset_mset)

lemma sort_by_Nil [simp]: "sort_by compare [] = []"
  by (simp add: sort_by_def)

lemma sort_by_Cons [simp]: "sort_by compare (x # xs) = insert_by compare x (sort_by compare xs)"
  by (simp add: sort_by_def)

lemma insert_by_key:
  "(\<And>y. y \<in> set ys \<Longrightarrow> compare x y \<le> 0 \<longleftrightarrow> f x \<le> f y) \<Longrightarrow> insert_by compare x ys = insort_key f x ys"
  by (induction ys) auto

lemma sort_by_key:
  "(\<And>x y. x \<in> set xs \<Longrightarrow> y \<in> set xs \<Longrightarrow> compare x y \<le> 0 \<longleftrightarrow> f x \<le> f y) \<Longrightarrow> sort_by compare xs = sort_key f xs"
proof (induction xs)
  case (Cons x xs)
  moreover have "insert_by compare x (sort_by compare xs) = insort_key f x (sort_by compare xs)"
    using Cons.prems by (intro insert_by_key) auto
  ultimately show ?case by simp
qed simp

text \<open>The relations \<open><\<close> and \<open>>\<close> of values: two texts are compared by code units, anything else as
  numbers, where a value that is no number is in no relation.  An object is compared by its text.
  A text is a number when it is blank or a numeral in the notation of JSON.\<close>

definition text_number :: "string \<Rightarrow> rat option" where
  "text_number s =
     (let t = rev (dropWhile is_ws (rev (dropWhile is_ws s))) in
      if t = [] then Some 0 else (case parse_number t of Some (x, []) \<Rightarrow> Some x | _ \<Rightarrow> None))"

definition to_primitive :: "jsval \<Rightarrow> jsval" where
  "to_primitive v = (if is_object v then Str (to_str v) else v)"

fun primitive_number :: "jsval \<Rightarrow> rat option" where
  "primitive_number (Num x) = Some x"
| "primitive_number (Bool b) = Some (if b then 1 else 0)"
| "primitive_number Null = Some 0"
| "primitive_number (Str s) = text_number s"
| "primitive_number _ = None"

definition js_less :: "jsval \<Rightarrow> jsval \<Rightarrow> bool" where
  "js_less a b =
     (case (to_primitive a, to_primitive b) of
        (Str s, Str t) \<Rightarrow> s < t
      | (v, w) \<Rightarrow> (case (primitive_number v, primitive_number w) of
            (Some x, Some y) \<Rightarrow> x < y
          | _ \<Rightarrow> False))"

lemma js_less_numbers [simp]: "js_less (Num x) (Num y) \<longleftrightarrow> x < y"
  by (simp add: js_less_def to_primitive_def)

lemma js_less_texts [simp]: "js_less (Str s) (Str t) \<longleftrightarrow> s < t"
  by (simp add: js_less_def to_primitive_def)

text \<open>\<open>utils/objects.ts\<close>: \<open>idx\<close>, the value at a path of keys.\<close>

definition idx :: "string list \<Rightarrow> jsval \<Rightarrow> jsval \<Rightarrow> jsval" where
  "idx keys object_arg defaultValue =
     foldl (\<lambda>v key. if truthy v \<and> key \<in> fst ` set (own_props v) then obj_get (own_props v) key else defaultValue)
       object_arg keys"

text \<open>A field is a key or a path.\<close>

definition field_value :: "jsval \<Rightarrow> jsval \<Rightarrow> jsval js" where
  "field_value field v =
     (case field of Arr keys \<Rightarrow> Inr (idx (map to_str keys) v Undef) | _ \<Rightarrow> get_prop v (to_str field))"

definition field_compare :: "bool \<Rightarrow> jsval \<Rightarrow> jsval \<Rightarrow> rat" where
  "field_compare descending one two =
     (if js_less two one then (if descending then - 1 else 1)
      else if js_less one two then (if descending then 1 else - 1) else 0)"

definition sortObjects :: "jsval list \<Rightarrow> jsval \<Rightarrow> bool \<Rightarrow> jsval list js" where
  "sortObjects array field descending =
     (if length array \<le> 1 then Inr array
      else map_js (\<lambda>keyed. map snd (sort_by (\<lambda>a b. field_compare descending (fst a) (fst b)) keyed))
        (mapM_js (\<lambda>v. map_js (\<lambda>k. (k, v)) (field_value field v)) array))"

text \<open>\<open>sortObjectsAlphabetically\<close>: \<open>localeCompare\<close> belongs to the locale data.\<close>

definition sortObjectsAlphabetically ::
  "(string \<Rightarrow> string \<Rightarrow> rat) \<Rightarrow> obj list \<Rightarrow> string \<Rightarrow> obj list" where
  "sortObjectsAlphabetically localeCompare array field =
     sort_by (\<lambda>a b. localeCompare (to_str (obj_get a field)) (to_str (obj_get b field))) array"

text \<open>Objects with a number in the field are sorted by it, equal ones in their old order.\<close>

definition field_number :: "string \<Rightarrow> jsval \<Rightarrow> rat" where
  "field_number field v = (case opt_prop v field of Num x \<Rightarrow> x | _ \<Rightarrow> 0)"

lemma sort_key_map: "sort_key f (map g xs) = map g (sort_key (f \<circ> g) xs)"
proof -
  have "insort_key f (g x) (map g ys) = map g (insort_key (f \<circ> g) x ys)" for x ys
    by (induction ys) auto
  then show ?thesis by (induction xs) auto
qed

lemma sortObjects_numbers:
  assumes "\<And>v. v \<in> set array \<Longrightarrow> \<exists>kvs x. v = Obj kvs \<and> obj_get kvs field = Num x"
  shows "sortObjects array (Str field) descending =
     Inr (sort_key (\<lambda>v. if descending then - field_number field v else field_number field v) array)"
proof (cases "length array \<le> 1")
  case True
  then show ?thesis by (cases array) (auto simp: sortObjects_def)
next
  case False
  let ?key = "\<lambda>v. if descending then - field_number field v else field_number field v"
  have "map_js (\<lambda>k. (k, v)) (field_value (Str field) v) = Inr (Num (field_number field v), v)" if "v \<in> set array" for v
    using assms [OF that] by (auto simp: field_value_def field_number_def)
  then have m1: "mapM_js (\<lambda>v. map_js (\<lambda>k. (k, v)) (field_value (Str field) v)) array
      = Inr (map (\<lambda>v. (Num (field_number field v), v)) array)"
    by (rule mapM_js_total)
  have m2: "sort_by (\<lambda>a b. field_compare descending (fst a) (fst b)) (map (\<lambda>v. (Num (field_number field v), v)) array)
      = sort_key (\<lambda>(k, v). ?key v) (map (\<lambda>v. (Num (field_number field v), v)) array)"
    by (rule sort_by_key) (auto simp: field_compare_def)
  have m3: "map snd (sort_key (\<lambda>(k, v). ?key v) (map (\<lambda>v. (Num (field_number field v), v)) array)) = sort_key ?key array"
    unfolding sort_key_map by (simp only: comp_def map_map prod.case snd_conv list.map_ident)
  show ?thesis
    unfolding sortObjects_def if_not_P [OF False] m1 map_js.simps m2 m3 ..
qed

section \<open>A given order\<close>

text \<open>\<open>setObjectsOrder\<close>: the last value of the order first, the object found is moved to the front.
  \<open>order.reverse()\<close> reverses the caller's array too: the second result.\<close>

definition move_to_front :: "string \<Rightarrow> obj list \<Rightarrow> jsval \<Rightarrow> obj list" where
  "move_to_front objectKey array v =
     (let missed = (\<lambda>o'. \<not> strict_eq (obj_get o' objectKey) v); before = takeWhile missed array in
      case dropWhile missed array of [] \<Rightarrow> array | o' # after \<Rightarrow> o' # before @ after)"

definition setObjectsOrder :: "obj list \<Rightarrow> jsval list \<Rightarrow> string \<Rightarrow> obj list \<times> jsval list" where
  "setObjectsOrder array order objectKey =
     (let reversed = rev order in (foldl (move_to_front objectKey) array reversed, reversed))"

lemma mset_move_to_front: "mset (move_to_front key array v) = mset array"
proof -
  let ?missed = "\<lambda>o'. \<not> strict_eq (obj_get o' key) v"
  have "mset (case rest of [] \<Rightarrow> array | o' # after \<Rightarrow> o' # before @ after) = mset array"
    if "before @ rest = array" for before rest
    using that by (cases rest) auto
  from this [OF takeWhile_dropWhile_id [of ?missed]] show ?thesis by (simp add: move_to_front_def Let_def)
qed

lemma setObjectsOrder_perm: "mset (fst (setObjectsOrder array order key)) = mset array"
proof -
  have "mset (foldl (move_to_front key) array vs) = mset array" for vs
    by (induction vs arbitrary: array) (simp_all add: mset_move_to_front)
  then show ?thesis by (simp add: setObjectsOrder_def Let_def)
qed

section \<open>Parts and sums\<close>

text \<open>The values of one key are texts, numbers and the like, not objects.\<close>

definition getUniqueValuesFromObjectsByKey :: "jsval list \<Rightarrow> string \<Rightarrow> jsval list js" where
  "getUniqueValuesFromObjectsByKey array key = map_js unique (mapM_js (\<lambda>item. get_prop item key) array)"

definition getValuesByObjectKey :: "jsval list \<Rightarrow> string \<Rightarrow> jsval list js" where
  "getValuesByObjectKey array key = mapM_js (\<lambda>item. get_prop item key) array"

definition removeFromObjects :: "obj list \<Rightarrow> string \<Rightarrow> obj list" where
  "removeFromObjects array key = map (obj_remove key) array"

definition cloneWithObjects :: "jsval list \<Rightarrow> obj list" where
  "cloneWithObjects array = map (\<lambda>item. obj_spread [] (own_props item)) array"

definition getSumByObjectKey :: "jsval list \<Rightarrow> string \<Rightarrow> jsval js" where
  "getSumByObjectKey array key =
     foldM_js (\<lambda>sum cur. map_js (\<lambda>v. js_add sum (js_or v (Num 0))) (get_prop cur key)) (Num 0) array"

definition checkEveryValueByKey :: "obj list \<Rightarrow> string \<Rightarrow> jsval \<Rightarrow> bool" where
  "checkEveryValueByKey array key v = list_all (\<lambda>o'. strict_eq (obj_get o' key) v) array"

definition getFirstAndLastElements :: "'a list \<Rightarrow> 'a list" where
  "getFirstAndLastElements array = (case array of [] \<Rightarrow> [] | x # xs \<Rightarrow> [x, last (x # xs)])"

definition getLastElement :: "'a list \<Rightarrow> 'a option" where
  "getLastElement array = (if array = [] then None else Some (last array))"

definition isLastItem :: "int \<Rightarrow> int \<Rightarrow> bool" where
  "isLastItem itemIndex itemsCount \<longleftrightarrow> itemIndex = itemsCount - 1"

definition getElementsSum :: "rat list \<Rightarrow> rat" where
  "getElementsSum numbers = fold (\<lambda>x sum. sum + x) numbers 0"

text \<open>A mean of no numbers is no number.\<close>

definition getArithmeticMean :: "rat list \<Rightarrow> rat option" where
  "getArithmeticMean numbers = (if numbers = [] then None else Some (getElementsSum numbers / of_nat (length numbers)))"

definition getAverage :: "rat list \<Rightarrow> rat option" where
  "getAverage array = (if array = [] then None else Some (fold (\<lambda>x sum. sum + x) array 0 / of_nat (length array)))"

lemma mean_bounds:
  assumes "getArithmeticMean xs = Some m"
  shows "Min (set xs) \<le> m" "m \<le> Max (set xs)"
proof -
  have ne: "xs \<noteq> []" and m: "m = sum_list xs / of_nat (length xs)"
    using assms fold_sum [of "\<lambda>x. x" xs 0] by (auto simp: getArithmeticMean_def getElementsSum_def split: if_splits)
  have "of_nat (length ys) * Min (set xs) \<le> sum_list ys \<and> sum_list ys \<le> of_nat (length ys) * Max (set xs)"
    if "set ys \<subseteq> set xs" for ys
    using that
  proof (induction ys)
    case (Cons y ys)
    then have y: "Min (set xs) \<le> y" "y \<le> Max (set xs)" by auto
    from Cons have ys: "of_nat (length ys) * Min (set xs) \<le> sum_list ys" "sum_list ys \<le> of_nat (length ys) * Max (set xs)"
      by auto
    from add_mono [OF y(1) ys(1)] add_mono [OF y(2) ys(2)] show ?case by (simp add: distrib_right)
  qed simp
  from this [of xs] ne show "Min (set xs) \<le> m" "m \<le> Max (set xs)"
    by (simp_all add: m pos_le_divide_eq pos_divide_le_eq mult.commute)
qed

section \<open>Parts of a text\<close>

fun has_infix :: "string \<Rightarrow> string \<Rightarrow> bool" where
  "has_infix t [] = (t = [])"
| "has_infix t (c # s) = (take (length t) (c # s) = t \<or> has_infix t s)"

lemma has_infix_iff: "has_infix t s \<longleftrightarrow> (\<exists>a b. s = a @ t @ b)"
proof (induction t s rule: has_infix.induct)
  case (2 t c s)
  have "take (length t) (c # s) = t \<longleftrightarrow> (\<exists>b. c # s = t @ b)"
    by (metis append_eq_conv_conj append_take_drop_id)
  moreover have "(\<exists>a b. c # s = a @ t @ b) \<longleftrightarrow> (\<exists>b. c # s = t @ b) \<or> (\<exists>a b. s = a @ t @ b)"
    by (metis Cons_eq_append_conv append_Cons append_Nil)
  ultimately show ?case using 2 by simp
qed simp

end
