(* ===== verification/Server.thy ===== *)
theory Server
  imports ArrayOrder
begin

text \<open>
  The UI server (\<open>src/ngui/server\<close>): it answers the GraphQL fields of the user interface by
  requests to four services (\<open>restapi\<close>, \<open>auth\<close>, \<open>keeper\<close>, \<open>slacker\<close>).  A method of a client is
  the request it sends and the function that reads the answer; a resolver names the method of a
  field.  Sending belongs to \<open>RESTDataSource\<close> of Apollo: its \<open>fetch\<close> is the argument
  \<open>super_fetch\<close>.  Each response leaves some of its headers in a store that the plugin
  \<open>responseHeadersPlugin\<close> copies into the response of the whole GraphQL request.
\<close>

section \<open>Requests and their answers\<close>

record rest_request =
  rr_method :: string
  rr_path :: string
  rr_params :: "(string \<times> string) list"
  rr_body :: jsval

text \<open>What a failed call rejects with: a \<open>GraphQLError\<close> with its \<open>extensions\<close>, an exception of
  the language, or any other error of the transport.\<close>

datatype rest_error =
    GraphQLFailure jsval
  | ResolverThrew js_error
  | OtherFailure string

type_synonym 'a outcome = "rest_error + 'a"

record client_call =
  cc_request :: rest_request
  cc_return :: "jsval \<Rightarrow> jsval js"
  cc_catch :: "rest_error \<Rightarrow> jsval option"

definition rest_call :: "string \<Rightarrow> string \<Rightarrow> (string \<times> string) list \<Rightarrow> jsval \<Rightarrow> (jsval \<Rightarrow> jsval js) \<Rightarrow> client_call" where
  "rest_call method path params body returned =
     \<lparr>cc_request = \<lparr>rr_method = method, rr_path = path, rr_params = params, rr_body = body\<rparr>,
      cc_return = returned, cc_catch = (\<lambda>_. None)\<rparr>"

abbreviation get_call :: "string \<Rightarrow> (string \<times> string) list \<Rightarrow> (jsval \<Rightarrow> jsval js) \<Rightarrow> client_call" where
  "get_call path params \<equiv> rest_call ''GET'' path params Undef"

abbreviation post_call :: "string \<Rightarrow> jsval \<Rightarrow> (jsval \<Rightarrow> jsval js) \<Rightarrow> client_call" where
  "post_call path \<equiv> rest_call ''POST'' path []"

abbreviation patch_call :: "string \<Rightarrow> jsval \<Rightarrow> (jsval \<Rightarrow> jsval js) \<Rightarrow> client_call" where
  "patch_call path \<equiv> rest_call ''PATCH'' path []"

abbreviation delete_call :: "string \<Rightarrow> (jsval \<Rightarrow> jsval js) \<Rightarrow> client_call" where
  "delete_call path \<equiv> rest_call ''DELETE'' path [] Undef"

abbreviation whole_answer :: "jsval \<Rightarrow> jsval js" where "whole_answer \<equiv> Inr"

abbreviation answer_field :: "string \<Rightarrow> jsval \<Rightarrow> jsval js" where
  "answer_field k \<equiv> (\<lambda>answer. get_prop answer k)"

text \<open>The body of a method after its request: the answer is read, a failure may be caught.\<close>

definition call_outcome :: "client_call \<Rightarrow> jsval outcome \<Rightarrow> jsval outcome" where
  "call_outcome call reply =
     (case (case reply of
              Inr answer \<Rightarrow> (case cc_return call answer of Inl e \<Rightarrow> Inl (ResolverThrew e) | Inr v \<Rightarrow> Inr v)
            | Inl e \<Rightarrow> Inl e) of
        Inr v \<Rightarrow> Inr v
      | Inl e \<Rightarrow> (case cc_catch call e of Some v \<Rightarrow> Inr v | None \<Rightarrow> Inl e))"

text \<open>\<open>utils/getParams.ts\<close>: null and undefined are left out, an array gives one parameter for each
  of its elements.\<close>

definition value_toString :: "jsval \<Rightarrow> string js" where
  "value_toString v = (if nullish v then Inl TypeError else Inr (to_str v))"

definition param_pairs :: "string \<times> jsval \<Rightarrow> (string \<times> string) list js" where
  "param_pairs = (\<lambda>(key, value).
     case value of
       Arr vs \<Rightarrow> mapM_js (\<lambda>v. map_js (\<lambda>s. (key, s)) (value_toString v)) vs
     | _ \<Rightarrow> map_js (\<lambda>s. [(key, s)]) (value_toString value))"

definition getParams :: "jsval \<Rightarrow> (string \<times> string) list js" where
  "getParams requestParams =
     (if nullish requestParams then Inl TypeError
      else map_js concat (mapM_js param_pairs
             (filter (\<lambda>(_, value). \<not> nullish value) (own_props requestParams))))"

definition get_with :: "string \<Rightarrow> jsval \<Rightarrow> (jsval \<Rightarrow> jsval js) \<Rightarrow> client_call js" where
  "get_with path requestParams returned =
     map_js (\<lambda>params. get_call path params returned) (getParams requestParams)"

section \<open>The clients\<close>

text \<open>\<open>KeeperClient\<close> and \<open>SlackerClient\<close>.\<close>

definition getEvents :: "jsval \<Rightarrow> jsval \<Rightarrow> client_call js" where
  "getEvents organizationId requestParams =
     get_with (''organizations/'' @ to_str organizationId @ ''/events'') requestParams (answer_field ''events'')"

definition getInstallPath :: "client_call js" where
  "getInstallPath = Inr (get_call ''install_path'' [] (answer_field ''url''))"

definition connectSlackUser :: "jsval \<Rightarrow> client_call js" where
  "connectSlackUser secret =
     Inr (post_call ''connect_slack_user'' (Obj [(''secret'', secret)]) whole_answer)"

text \<open>\<open>AuthClient\<close>.  \<open>token_fields\<close> builds the object a method returns from fields of the answer.\<close>

definition token_fields :: "(string \<times> string) list \<Rightarrow> jsval \<Rightarrow> jsval js" where
  "token_fields names result =
     map_js Obj (mapM_js (\<lambda>(name, field). map_js (\<lambda>v. (name, v)) (get_prop result field)) names)"

definition getOrganizationAllowedActions :: "jsval \<Rightarrow> client_call js" where
  "getOrganizationAllowedActions requestParams =
     bind_js (get_prop requestParams ''organization'') (\<lambda>organization.
       get_with ''allowed_actions'' (Obj [(''organization'', organization)]) (answer_field ''allowed_actions''))"

definition createToken :: "jsval \<Rightarrow> jsval \<Rightarrow> jsval \<Rightarrow> client_call js" where
  "createToken email password code =
     Inr (post_call ''tokens''
       (Obj [(''email'', email), (''password'', password), (''verification_code'', code)])
       (token_fields [(''token'', ''token''), (''user_email'', ''user_email''), (''user_id'', ''user_id'')]))"

definition createUser_call :: "jsval \<Rightarrow> jsval \<Rightarrow> jsval \<Rightarrow> client_call js" where
  "createUser_call email password name_arg =
     Inr (post_call ''users''
       (Obj [(''email'', email), (''password'', password), (''display_name'', name_arg)])
       (token_fields [(''token'', ''token''), (''user_email'', ''email''), (''user_id'', ''id''),
         (''verified'', ''verified'')]))"

definition updateUser_call :: "jsval \<Rightarrow> jsval \<Rightarrow> client_call js" where
  "updateUser_call userId params =
     bind_js (get_prop params ''name'') (\<lambda>display_name.
     bind_js (get_prop params ''password'') (\<lambda>password.
       Inr (patch_call (''users/'' @ to_str userId)
         (Obj [(''display_name'', display_name), (''password'', password)])
         (token_fields [(''token'', ''token''), (''user_email'', ''email''), (''user_id'', ''id'')]))))"

definition signIn_call :: "jsval \<Rightarrow> jsval \<Rightarrow> jsval \<Rightarrow> jsval \<Rightarrow> client_call js" where
  "signIn_call provider token tenantId redirectUri =
     Inr (post_call ''signin''
       (Obj [(''provider'', provider), (''token'', token), (''tenant_id'', tenantId),
         (''redirect_uri'', redirectUri)])
       (token_fields [(''token'', ''token''), (''user_email'', ''user_email''), (''user_id'', ''user_id'')]))"


text \<open>\<open>RestApiClient\<close>.  The paths of an organization start alike.\<close>

definition organization_path :: "jsval \<Rightarrow> string \<Rightarrow> string" where
  "organization_path organizationId rest = ''organizations/'' @ to_str organizationId @ rest"

definition getOrganizations :: "client_call js" where
  "getOrganizations = Inr (get_call ''organizations'' [] (answer_field ''organizations''))"

definition getCurrentEmployee :: "jsval \<Rightarrow> client_call js" where
  "getCurrentEmployee organizationId =
     get_with (organization_path organizationId ''/employees'') (Obj [(''current_only'', Bool True)])
       (\<lambda>answer. bind_js (get_prop answer ''employees'') (\<lambda>employees. get_prop employees ''0''))"

definition getDataSources :: "jsval \<Rightarrow> client_call js" where
  "getDataSources organizationId =
     get_with (organization_path organizationId ''/cloud_accounts'') (Obj [(''details'', Bool True)])
       (answer_field ''cloud_accounts'')"

definition getDataSource :: "jsval \<Rightarrow> jsval \<Rightarrow> client_call js" where
  "getDataSource dataSourceId requestParams =
     bind_js (get_prop requestParams ''details'') (\<lambda>details.
       get_with (''cloud_accounts/'' @ to_str dataSourceId) (Obj [(''details'', details)]) whole_answer)"

text \<open>The configuration of a data source: the properties of every configuration that is given, a
  later one over an earlier one.\<close>

definition config_names :: "string list" where
  "config_names = [''awsRootConfig'', ''awsLinkedConfig'', ''awsAssumedRoleConfig'',
     ''azureSubscriptionConfig'', ''azureTenantConfig'', ''gcpConfig'', ''gcpTenantConfig'',
     ''alibabaConfig'', ''nebiusConfig'', ''databricksConfig'', ''k8sConfig'']"

definition source_config :: "jsval \<Rightarrow> jsval js" where
  "source_config params =
     map_js Obj (foldM_js (\<lambda>config name. map_js (\<lambda>v. obj_spread config (own_props v)) (get_prop params name))
       [] config_names)"

definition createDataSource :: "jsval \<Rightarrow> jsval \<Rightarrow> client_call js" where
  "createDataSource organizationId params =
     bind_js (get_prop params ''name'') (\<lambda>name_arg.
     bind_js (get_prop params ''type'') (\<lambda>type_arg.
     bind_js (source_config params) (\<lambda>config.
       Inr (post_call (organization_path organizationId ''/cloud_accounts'')
         (Obj [(''name'', name_arg), (''type'', type_arg), (''config'', config)]) whole_answer))))"

definition updateDataSource_call :: "jsval \<Rightarrow> jsval \<Rightarrow> client_call js" where
  "updateDataSource_call dataSourceId params =
     bind_js (get_prop params ''name'') (\<lambda>name_arg.
     bind_js (get_prop params ''lastImportAt'') (\<lambda>lastImportAt.
     bind_js (get_prop params ''lastImportModifiedAt'') (\<lambda>lastImportModifiedAt.
     bind_js (source_config params) (\<lambda>config.
       Inr (patch_call (''cloud_accounts/'' @ to_str dataSourceId)
         (json_stringify (Obj [(''name'', name_arg), (''last_import_at'', lastImportAt),
            (''last_import_modified_at'', lastImportModifiedAt), (''config'', config)])) whole_answer)))))"

definition getEmployeeEmails :: "jsval \<Rightarrow> client_call js" where
  "getEmployeeEmails employeeId =
     Inr (get_call (''employees/'' @ to_str employeeId @ ''/emails'') [] (answer_field ''employee_emails''))"

text \<open>\<open>[...v]\<close>, \<open>v.filter(f)\<close> and \<open>v.find(f)\<close>, which throw when \<open>v\<close> is no array.\<close>

fun spread_elements :: "jsval \<Rightarrow> jsval list js" where
  "spread_elements (Arr vs) = Inr vs"
| "spread_elements (Str s) = Inr (map (\<lambda>c. Str [c]) s)"
| "spread_elements _ = Inl TypeError"

definition with_ids :: "(jsval \<Rightarrow> bool) \<Rightarrow> jsval \<Rightarrow> jsval list js" where
  "with_ids p v =
     (case v of
        Arr vs \<Rightarrow> map_js concat (mapM_js (\<lambda>e. map_js (\<lambda>i. if p i then [e] else []) (get_prop e ''id'')) vs)
      | _ \<Rightarrow> Inl TypeError)"

fun find_id :: "jsval \<Rightarrow> jsval list \<Rightarrow> jsval js" where
  "find_id i [] = Inr Undef"
| "find_id i (e # es) = bind_js (get_prop e ''id'') (\<lambda>j. if strict_eq j i then Inr e else find_id i es)"

definition updateEmployeeEmails :: "jsval \<Rightarrow> jsval \<Rightarrow> client_call js" where
  "updateEmployeeEmails employeeId params =
     Inr (post_call (''employees/'' @ to_str employeeId @ ''/emails/bulk'') params (\<lambda>emails.
       bind_js (spread_elements (js_coalesce (opt_prop params ''enable'') (Arr []))) (\<lambda>enabled.
       bind_js (get_prop params ''disable'') (\<lambda>disable.
       bind_js (spread_elements (js_coalesce disable (Arr []))) (\<lambda>disabled.
       bind_js (get_prop emails ''employee_emails'') (\<lambda>employee_emails.
         map_js Arr (with_ids (array_includes (enabled @ disabled)) employee_emails)))))))"

definition updateEmployeeEmail :: "jsval \<Rightarrow> jsval \<Rightarrow> client_call js" where
  "updateEmployeeEmail employeeId params =
     bind_js (get_prop params ''emailId'') (\<lambda>emailId.
     bind_js (get_prop params ''action'') (\<lambda>action_arg.
       Inr (post_call (''employees/'' @ to_str employeeId @ ''/emails/bulk'')
         (Obj [(if action_arg = Str ''enable'' then ''enable'' else ''disable'', Arr [emailId])])
         (\<lambda>emails. bind_js (get_prop emails ''employee_emails'') (\<lambda>v.
            case v of Arr es \<Rightarrow> find_id emailId es | _ \<Rightarrow> Inl TypeError)))))"

definition deleteDataSource :: "jsval \<Rightarrow> client_call js" where
  "deleteDataSource dataSourceId = Inr (delete_call (''cloud_accounts/'' @ to_str dataSourceId) whole_answer)"

definition getInvitations :: "client_call js" where
  "getInvitations = Inr (get_call ''invites'' [] (answer_field ''invites''))"

definition updateInvitation :: "jsval \<Rightarrow> jsval \<Rightarrow> client_call js" where
  "updateInvitation invitationId action_arg =
     Inr (patch_call (''invites/'' @ to_str invitationId)
       (json_stringify (Obj [(''action'', action_arg)])) whole_answer)"

text \<open>The options of an organization are JSON texts.\<close>

definition parsed_value :: "jsval \<Rightarrow> jsval js" where
  "parsed_value option_arg = bind_js (get_prop option_arg ''value'') (\<lambda>v. json_parse (to_str v))"

definition getOrganizationFeatures :: "jsval \<Rightarrow> client_call js" where
  "getOrganizationFeatures organizationId =
     Inr (get_call (organization_path organizationId ''/options/features'') [] parsed_value)"

definition getOrganizationThemeSettings :: "jsval \<Rightarrow> client_call js" where
  "getOrganizationThemeSettings organizationId =
     Inr (get_call (organization_path organizationId ''/options/theme_settings'') [] parsed_value)"

definition updateOrganizationThemeSettings :: "jsval \<Rightarrow> jsval \<Rightarrow> client_call js" where
  "updateOrganizationThemeSettings organizationId value_arg =
     Inr (patch_call (organization_path organizationId ''/options/theme_settings'')
       (Obj [(''value'', json_stringify value_arg)]) parsed_value)"

definition getOrganizationPerspectives :: "jsval \<Rightarrow> client_call js" where
  "getOrganizationPerspectives organizationId =
     Inr (get_call (organization_path organizationId ''/options/perspectives'') [] parsed_value)"

definition updateOrganizationPerspectives :: "jsval \<Rightarrow> jsval \<Rightarrow> client_call js" where
  "updateOrganizationPerspectives organizationId value_arg =
     Inr (patch_call (organization_path organizationId ''/options/perspectives'')
       (Obj [(''value'', json_stringify value_arg)]) parsed_value)"

definition createOrganization :: "jsval \<Rightarrow> client_call js" where
  "createOrganization organizationName =
     Inr (post_call ''organizations'' (Obj [(''name'', organizationName)]) whole_answer)"

definition updateOrganization_call :: "jsval \<Rightarrow> jsval \<Rightarrow> client_call js" where
  "updateOrganization_call organizationId params =
     Inr (patch_call (organization_path organizationId []) params whole_answer)"

definition deleteOrganization :: "jsval \<Rightarrow> client_call js" where
  "deleteOrganization organizationId =
     Inr (delete_call (organization_path organizationId []) whole_answer)"

definition getOrganizationConstraint_call :: "jsval \<Rightarrow> client_call js" where
  "getOrganizationConstraint_call constraintId =
     Inr (get_call (''organization_constraints/'' @ to_str constraintId) [] whole_answer)"

definition getResourceCountBreakdown_call :: "jsval \<Rightarrow> jsval \<Rightarrow> client_call js" where
  "getResourceCountBreakdown_call organizationId params =
     get_with (organization_path organizationId ''/resources_count'') params whole_answer"

definition getMetaBreakdown :: "jsval \<Rightarrow> jsval \<Rightarrow> client_call js" where
  "getMetaBreakdown organizationId params =
     get_with (organization_path organizationId ''/breakdown_meta'') params whole_answer"

definition getExpensesDailyBreakdown :: "jsval \<Rightarrow> jsval \<Rightarrow> client_call js" where
  "getExpensesDailyBreakdown organizationId params =
     get_with (organization_path organizationId ''/breakdown_expenses'') params whole_answer"

definition getOrganizationLimitHits :: "jsval \<Rightarrow> jsval \<Rightarrow> client_call js" where
  "getOrganizationLimitHits organizationId constraintId =
     get_with (organization_path organizationId ''/organization_limit_hits'')
       (Obj [(''constraint_id'', constraintId)]) (answer_field ''organization_limit_hits'')"

definition getRelevantFlavors :: "jsval \<Rightarrow> jsval \<Rightarrow> client_call js" where
  "getRelevantFlavors organizationId requestParams =
     get_with (organization_path organizationId ''/relevant_flavors'') requestParams whole_answer"

definition getCleanExpenses_call :: "jsval \<Rightarrow> jsval \<Rightarrow> client_call js" where
  "getCleanExpenses_call organizationId params =
     get_with (organization_path organizationId ''/clean_expenses'') params whole_answer"

definition getCloudPolicies :: "jsval \<Rightarrow> jsval \<Rightarrow> client_call js" where
  "getCloudPolicies organizationId params =
     get_with (organization_path organizationId ''/cloud_policies'') params whole_answer"

definition getAvailableFilters_call :: "jsval \<Rightarrow> jsval \<Rightarrow> client_call js" where
  "getAvailableFilters_call organizationId params =
     get_with (organization_path organizationId ''/available_filters'') params (answer_field ''filter_values'')"

definition getBillingSubscriptionPlans :: "jsval \<Rightarrow> client_call js" where
  "getBillingSubscriptionPlans organizationId =
     Inr (get_call (organization_path organizationId ''/subscription_plans'') [] (answer_field ''plans''))"

definition getBillingSubscription :: "jsval \<Rightarrow> client_call js" where
  "getBillingSubscription organizationId =
     Inr (get_call (organization_path organizationId ''/subscription'') [] whole_answer)"

definition createStripeCheckoutSession :: "jsval \<Rightarrow> jsval \<Rightarrow> client_call js" where
  "createStripeCheckoutSession organizationId params =
     Inr (patch_call (organization_path organizationId ''/subscription'') params whole_answer)"

definition createStripeBillingPortalSession :: "jsval \<Rightarrow> client_call js" where
  "createStripeBillingPortalSession organizationId =
     Inr (patch_call (organization_path organizationId ''/subscription'') (Obj []) whole_answer)"

definition getOrganizationSummary :: "jsval \<Rightarrow> jsval \<Rightarrow> client_call js" where
  "getOrganizationSummary organizationId params =
     get_with (organization_path organizationId ''/summary'') params whole_answer"

text \<open>A conflict (409) names the preparation that exists already.\<close>

definition existing_preparation :: "rest_error \<Rightarrow> jsval option" where
  "existing_preparation error =
     (case error of
        GraphQLFailure extensions \<Rightarrow>
          if opt_prop (opt_prop extensions ''response'') ''status'' = Num 409
          then (let existingId = opt_prop (opt_prop (opt_prop (opt_prop (opt_prop extensions ''response'') ''body'')
                       ''error'') ''params'') ''1''
                in if truthy existingId then Some (Obj [(''id'', existingId)]) else None)
          else None
      | _ \<Rightarrow> None)"

definition scheduleGeminiDataPreparation :: "jsval \<Rightarrow> jsval \<Rightarrow> client_call js" where
  "scheduleGeminiDataPreparation geminiId buckets =
     Inr ((post_call (''geminis/'' @ to_str geminiId @ ''/geminis_data'') (Obj [(''buckets'', buckets)])
         (token_fields [(''id'', ''id'')]))\<lparr>cc_catch := existing_preparation\<rparr>)"

definition getGeminiDataPreparation :: "jsval \<Rightarrow> client_call js" where
  "getGeminiDataPreparation geminiDataPreparationId =
     Inr (get_call (''geminis_data/'' @ to_str geminiDataPreparationId) [] whole_answer)"

section \<open>The resolvers\<close>

text \<open>A field of \<open>Query\<close> or \<open>Mutation\<close>, with the service that answers it.  The arguments of a
  field are an object.\<close>

type_synonym resolver = "obj \<Rightarrow> client_call js"

definition restapi_queries :: "(string \<times> resolver) list" where
  "restapi_queries = [
     (''dataSource'', \<lambda>a. getDataSource (obj_get a ''dataSourceId'') (obj_get a ''requestParams'')),
     (''employeeEmails'', \<lambda>a. getEmployeeEmails (obj_get a ''employeeId'')),
     (''organizations'', \<lambda>a. getOrganizations),
     (''currentEmployee'', \<lambda>a. getCurrentEmployee (obj_get a ''organizationId'')),
     (''dataSources'', \<lambda>a. getDataSources (obj_get a ''organizationId'')),
     (''invitations'', \<lambda>a. getInvitations),
     (''organizationFeatures'', \<lambda>a. getOrganizationFeatures (obj_get a ''organizationId'')),
     (''organizationThemeSettings'', \<lambda>a. getOrganizationThemeSettings (obj_get a ''organizationId'')),
     (''organizationPerspectives'', \<lambda>a. getOrganizationPerspectives (obj_get a ''organizationId'')),
     (''organizationConstraint'', \<lambda>a. getOrganizationConstraint_call (obj_get a ''constraintId'')),
     (''resourceCountBreakdown'', \<lambda>a. getResourceCountBreakdown_call (obj_get a ''organizationId'') (obj_get a ''params'')),
     (''expensesDailyBreakdown'', \<lambda>a. getExpensesDailyBreakdown (obj_get a ''organizationId'') (obj_get a ''params'')),
     (''organizationLimitHits'', \<lambda>a. getOrganizationLimitHits (obj_get a ''organizationId'') (obj_get a ''constraintId'')),
     (''relevantFlavors'', \<lambda>a. getRelevantFlavors (obj_get a ''organizationId'') (obj_get a ''requestParams'')),
     (''cleanExpenses'', \<lambda>a. getCleanExpenses_call (obj_get a ''organizationId'') (obj_get a ''params'')),
     (''cloudPolicies'', \<lambda>a. getCloudPolicies (obj_get a ''organizationId'') (obj_get a ''params'')),
     (''metaBreakdown'', \<lambda>a. getMetaBreakdown (obj_get a ''organizationId'') (obj_get a ''params'')),
     (''availableFilters'', \<lambda>a. getAvailableFilters_call (obj_get a ''organizationId'') (obj_get a ''params'')),
     (''billingSubscriptionPlans'', \<lambda>a. getBillingSubscriptionPlans (obj_get a ''organizationId'')),
     (''billingSubscription'', \<lambda>a. getBillingSubscription (obj_get a ''organizationId'')),
     (''organizationSummary'', \<lambda>a. getOrganizationSummary (obj_get a ''organizationId'') (obj_get a ''params'')),
     (''geminiDataPreparation'', \<lambda>a. getGeminiDataPreparation (obj_get a ''id''))]"

definition restapi_mutations :: "(string \<times> resolver) list" where
  "restapi_mutations = [
     (''createDataSource'', \<lambda>a. createDataSource (obj_get a ''organizationId'') (obj_get a ''params'')),
     (''updateDataSource'', \<lambda>a. updateDataSource_call (obj_get a ''dataSourceId'') (obj_get a ''params'')),
     (''updateEmployeeEmails'', \<lambda>a. updateEmployeeEmails (obj_get a ''employeeId'') (obj_get a ''params'')),
     (''updateEmployeeEmail'', \<lambda>a. updateEmployeeEmail (obj_get a ''employeeId'') (obj_get a ''params'')),
     (''deleteDataSource'', \<lambda>a. deleteDataSource (obj_get a ''dataSourceId'')),
     (''createOrganization'', \<lambda>a. createOrganization (obj_get a ''organizationName'')),
     (''updateOrganization'', \<lambda>a. updateOrganization_call (obj_get a ''organizationId'') (obj_get a ''params'')),
     (''deleteOrganization'', \<lambda>a. deleteOrganization (obj_get a ''organizationId'')),
     (''updateInvitation'', \<lambda>a. updateInvitation (obj_get a ''invitationId'') (obj_get a ''action'')),
     (''updateOrganizationThemeSettings'', \<lambda>a. updateOrganizationThemeSettings (obj_get a ''organizationId'') (obj_get a ''value'')),
     (''updateOrganizationPerspectives'', \<lambda>a. updateOrganizationPerspectives (obj_get a ''organizationId'') (obj_get a ''value'')),
     (''createStripeCheckoutSession'', \<lambda>a. createStripeCheckoutSession (obj_get a ''organizationId'') (obj_get a ''params'')),
     (''createStripeBillingPortalSession'', \<lambda>a. createStripeBillingPortalSession (obj_get a ''organizationId'')),
     (''scheduleGeminiDataPreparation'', \<lambda>a. scheduleGeminiDataPreparation (obj_get a ''geminiId'') (obj_get a ''buckets''))]"

definition auth_queries :: "(string \<times> resolver) list" where
  "auth_queries = [
     (''organizationAllowedActions'', \<lambda>a. getOrganizationAllowedActions (obj_get a ''requestParams''))]"

definition auth_mutations :: "(string \<times> resolver) list" where
  "auth_mutations = [
     (''token'', \<lambda>a. createToken (obj_get a ''email'') (obj_get a ''password'') (obj_get a ''code'')),
     (''user'', \<lambda>a. createUser_call (obj_get a ''email'') (obj_get a ''password'') (obj_get a ''name'')),
     (''updateUser'', \<lambda>a. updateUser_call (obj_get a ''id'') (obj_get a ''params'')),
     (''signIn'', \<lambda>a. signIn_call (obj_get a ''provider'') (obj_get a ''token'') (obj_get a ''tenantId'')
        (obj_get a ''redirectUri''))]"

definition keeper_queries :: "(string \<times> resolver) list" where
  "keeper_queries = [
     (''events'', \<lambda>a. getEvents (obj_get a ''organizationId'') (obj_get a ''requestParams''))]"

definition slacker_queries :: "(string \<times> resolver) list" where
  "slacker_queries = [(''url'', \<lambda>a. getInstallPath)]"

definition slacker_mutations :: "(string \<times> resolver) list" where
  "slacker_mutations = [(''connect'', \<lambda>a. connectSlackUser (obj_get a ''secret''))]"


text \<open>\<open>DataSourceInterface.__resolveType\<close>, and the scalar \<open>StringArrayMap\<close>.\<close>

definition source_types :: "(string \<times> string) list" where
  "source_types = [(''aws_cnr'', ''AwsDataSource''), (''azure_tenant'', ''AzureTenantDataSource''),
     (''azure_cnr'', ''AzureSubscriptionDataSource''), (''gcp_cnr'', ''GcpDataSource''),
     (''gcp_tenant'', ''GcpTenantDataSource''), (''alibaba_cnr'', ''AlibabaDataSource''),
     (''nebius'', ''NebiusDataSource''), (''databricks'', ''DatabricksDataSource''),
     (''kubernetes_cnr'', ''K8sDataSource''), (''environment'', ''EnvironmentDataSource'')]"

definition resolveType :: "jsval \<Rightarrow> jsval js" where
  "resolveType dataSource =
     map_js (\<lambda>t. case t of
         Str s \<Rightarrow> (case map_of source_types s of Some n \<Rightarrow> Str n | None \<Rightarrow> Null)
       | _ \<Rightarrow> Null) (get_prop dataSource ''type'')"

definition is_string_array :: "jsval \<Rightarrow> bool" where
  "is_string_array v = (case v of Arr vs \<Rightarrow> \<not> list_ex (\<lambda>x. case x of Str s \<Rightarrow> False | _ \<Rightarrow> True) vs | _ \<Rightarrow> False)"

definition serialize_map :: "jsval \<Rightarrow> jsval js" where
  "serialize_map v =
     (if \<not> is_object v then Inl TypeError
      else if list_all (\<lambda>(_, x). is_string_array x) (own_props v) then Inr v else Inl TypeError)"

definition parse_map :: "jsval \<Rightarrow> jsval js" where
  "parse_map v = (if \<not> is_object v then Inl TypeError else Inr v)"

section \<open>Sending a request\<close>

text \<open>The clients that one GraphQL request gets, and the environment they are built from.  A class
  field is set after the constructor of the parent class, so \<open>baseURL\<close> sees the endpoint.\<close>

record client =
  cl_name :: string
  cl_baseURL :: string
  cl_token :: string

definition env_or :: "(string \<Rightarrow> string option) \<Rightarrow> string \<Rightarrow> string \<Rightarrow> string" where
  "env_or env variable fallback = (case env variable of Some v \<Rightarrow> if v = [] then fallback else v | None \<Rightarrow> fallback)"

definition clients :: "(string \<Rightarrow> string option) \<Rightarrow> jsval \<Rightarrow> client list" where
  "clients env token = [
     \<lparr>cl_name = ''keeper'', cl_baseURL = env_or env ''KEEPER_ENDPOINT'' ''http://keeper'' @ ''/report/v2/'',
       cl_token = to_str token\<rparr>,
     \<lparr>cl_name = ''slacker'', cl_baseURL = env_or env ''SLACKER_ENDPOINT'' ''http://slacker'' @ ''/slacker/v2/'',
       cl_token = to_str token\<rparr>,
     \<lparr>cl_name = ''restapi'', cl_baseURL = env_or env ''RESTAPI_ENDPOINT'' ''http://restapi'' @ ''/restapi/v2/'',
       cl_token = to_str token\<rparr>,
     \<lparr>cl_name = ''auth'', cl_baseURL = env_or env ''AUTH_ENDPOINT'' ''http://auth'' @ ''/auth/v2/'',
       cl_token = to_str token\<rparr>]"

definition willSendRequest :: "client \<Rightarrow> string \<times> string" where
  "willSendRequest c = (''authorization'', ''Bearer '' @ cl_token c)"

text \<open>A JavaScript \<open>Map\<close>: an entry keeps its place when it is set again.\<close>

fun map_set :: "string \<Rightarrow> 'a \<Rightarrow> (string \<times> 'a) list \<Rightarrow> (string \<times> 'a) list" where
  "map_set k v [] = [(k, v)]"
| "map_set k v ((k', v') # m) = (if k' = k then (k, v) # m else (k', v') # map_set k v m)"

lemma map_of_map_set [simp]: "map_of (map_set k v m) = (map_of m)(k \<mapsto> v)"
  by (induction k v m rule: map_set.induct) (auto simp: fun_upd_twist)

definition FORWARD_RESPONSE_HEADERS :: "string list" where
  "FORWARD_RESPONSE_HEADERS = [''x-trace-id'', ''etag'']"

type_synonym header_store = "(string \<times> (string \<times> string) list) list"

text \<open>\<open>BaseClient.fetch\<close>: what it stores of the headers of a response, read by \<open>headers.get\<close>.\<close>

definition store_headers :: "string \<Rightarrow> (string \<Rightarrow> string option) \<Rightarrow> header_store \<Rightarrow> header_store" where
  "store_headers dataSourceName headers store =
     (let old = (case map_of store dataSourceName of Some m \<Rightarrow> m | None \<Rightarrow> []) in
      map_set dataSourceName
        (fold (\<lambda>headerName m. case headers headerName of
             Some v \<Rightarrow> if v \<noteq> [] then map_set headerName v m else m
           | None \<Rightarrow> m) FORWARD_RESPONSE_HEADERS old) store)"

text \<open>One call: the inherited \<open>fetch\<close> gets the base address, the headers set by \<open>willSendRequest\<close>
  and the request; a failure stores nothing.\<close>

definition base_fetch ::
  "(string \<Rightarrow> string \<times> string \<Rightarrow> rest_request \<Rightarrow> rest_error + jsval \<times> (string \<Rightarrow> string option)) \<Rightarrow>
   client \<Rightarrow> rest_request \<Rightarrow> header_store \<Rightarrow> jsval outcome \<times> header_store" where
  "base_fetch super_fetch c request store =
     (case super_fetch (cl_baseURL c) (willSendRequest c) request of
        Inl e \<Rightarrow> (Inl e, store)
      | Inr (answer, headers) \<Rightarrow> (Inr answer, store_headers (cl_name c) headers store))"

definition service_resolvers :: "bool \<Rightarrow> string \<Rightarrow> (string \<times> resolver) list" where
  "service_resolvers mutation service =
     (if service = ''restapi'' then if mutation then restapi_mutations else restapi_queries
      else if service = ''auth'' then if mutation then auth_mutations else auth_queries
      else if service = ''keeper'' then if mutation then [] else keeper_queries
      else if service = ''slacker'' then if mutation then slacker_mutations else slacker_queries
      else [])"

text \<open>The resolvers of the four services are merged into one map per operation; the names of the
  fields are disjoint.\<close>

definition resolver_of :: "bool \<Rightarrow> string \<Rightarrow> (string \<times> resolver) option" where
  "resolver_of mutation field =
     map_of (concat (map (\<lambda>service. map (\<lambda>(f, r). (f, (service, r))) (service_resolvers mutation service))
       [''auth'', ''keeper'', ''restapi'', ''slacker''])) field"

definition resolve_field ::
  "(string \<Rightarrow> string \<times> string \<Rightarrow> rest_request \<Rightarrow> rest_error + jsval \<times> (string \<Rightarrow> string option)) \<Rightarrow>
   client list \<Rightarrow> bool \<Rightarrow> string \<Rightarrow> obj \<Rightarrow> header_store \<Rightarrow> (jsval outcome \<times> header_store) option" where
  "resolve_field super_fetch cs mutation field args store =
     (case resolver_of mutation field of
        None \<Rightarrow> None
      | Some (service, resolver) \<Rightarrow>
          (case find (\<lambda>c. cl_name c = service) cs of
             None \<Rightarrow> None
           | Some c \<Rightarrow> Some (case resolver args of
               Inl e \<Rightarrow> (Inl (ResolverThrew e), store)
             | Inr call \<Rightarrow>
                 (let (reply, store') = base_fetch super_fetch c (cc_request call) store
                  in (call_outcome call reply, store')))))"

section \<open>The headers of the response\<close>

text \<open>\<open>responseHeadersPlugin\<close>: the headers set on the GraphQL response, in order.  \<open>lower\<close> is
  \<open>toLowerCase\<close> on the ASCII letters of header names; \<open>existing\<close> are the headers the response has
  before the plugin sets any.\<close>

definition lower_char :: "char \<Rightarrow> char" where
  "lower_char c = (if CHR ''A'' \<le> c \<and> c \<le> CHR ''Z'' then char_of (of_char c + 32 :: nat) else c)"

definition lower :: "string \<Rightarrow> string" where
  "lower s = map lower_char s"

definition forwarded_headers :: "string list \<Rightarrow> header_store \<Rightarrow> (string \<times> string) list" where
  "forwarded_headers existing store =
     concat (map (\<lambda>(dataSourceName, dataSourceHeaders).
        map (\<lambda>(headerName, v).
            (if lower headerName \<in> set (map lower existing)
             then ''x-'' @ dataSourceName @ ''-'' @ headerName else headerName, v)) dataSourceHeaders) store)"

definition willSendResponse ::
  "(string \<Rightarrow> string \<Rightarrow> 'h \<Rightarrow> 'h) \<Rightarrow> ('h \<Rightarrow> string list) \<Rightarrow> header_store \<Rightarrow> 'h \<Rightarrow> 'h" where
  "willSendResponse header_set header_keys store headers =
     fold (\<lambda>(name_arg, v). header_set name_arg v) (forwarded_headers (header_keys headers) store) headers"

section \<open>The directory of the built user interface\<close>

text \<open>\<open>UI_BUILD_DIR\<close>: \<open>trim\<close> removes white space; a path that leaves the directory is refused
  (\<open>None\<close>: the server stops with an error).\<close>

definition js_trim :: "string \<Rightarrow> string" where
  "js_trim s = (let ws = (\<lambda>c. c \<in> {CHR '' '', CHR 0x09, CHR 0x0A, CHR 0x0B, CHR 0x0C, CHR 0x0D, CHR 0xA0})
                in rev (dropWhile ws (rev (dropWhile ws s))))"

definition build_dir :: "(string \<Rightarrow> string option) \<Rightarrow> string option" where
  "build_dir env =
     (let UI_BUILD_DIR = js_trim (env_or env ''UI_BUILD_DIR'' ''build'') in
      if has_infix ''..'' UI_BUILD_DIR \<or> take 1 UI_BUILD_DIR = ''/'' then None else Some UI_BUILD_DIR)"

end
