(* ===== verification/ServerFacts.thy ===== *)
theory ServerFacts
  imports Server
begin

text \<open>
  Facts about the UI server: queries read and mutations write, every request goes to one of the
  four services with the token of the user, the store keeps the last value of each forwarded
  header of a service, and what the plugin makes of the store.
\<close>

section \<open>The methods\<close>

named_theorems server_defs \<open>the methods of the clients\<close>

lemmas restapi_get_defs [server_defs] = getOrganizations_def getCurrentEmployee_def getDataSources_def
  getDataSource_def getEmployeeEmails_def getInvitations_def getOrganizationFeatures_def
  getOrganizationThemeSettings_def getOrganizationPerspectives_def getOrganizationConstraint_call_def
  getResourceCountBreakdown_call_def getMetaBreakdown_def getExpensesDailyBreakdown_def
  getOrganizationLimitHits_def getRelevantFlavors_def getCleanExpenses_call_def getCloudPolicies_def
  getAvailableFilters_call_def getBillingSubscriptionPlans_def getBillingSubscription_def
  getOrganizationSummary_def getGeminiDataPreparation_def

lemmas restapi_write_defs [server_defs] = createDataSource_def updateDataSource_call_def
  updateEmployeeEmails_def updateEmployeeEmail_def deleteDataSource_def createOrganization_def
  updateOrganization_call_def deleteOrganization_def updateInvitation_def
  updateOrganizationThemeSettings_def updateOrganizationPerspectives_def
  createStripeCheckoutSession_def createStripeBillingPortalSession_def scheduleGeminiDataPreparation_def

lemmas other_client_defs [server_defs] = getEvents_def getInstallPath_def connectSlackUser_def
  getOrganizationAllowedActions_def createToken_def createUser_call_def updateUser_call_def signIn_call_def

definition reads :: "client_call js \<Rightarrow> bool" where
  "reads m = (case m of Inl e \<Rightarrow> True
     | Inr call \<Rightarrow> rr_method (cc_request call) = ''GET'' \<and> rr_body (cc_request call) = Undef)"

definition writes :: "client_call js \<Rightarrow> bool" where
  "writes m = (case m of Inl e \<Rightarrow> True
     | Inr call \<Rightarrow> rr_method (cc_request call) \<in> {''POST'', ''PATCH'', ''DELETE''} \<and> rr_params (cc_request call) = [])"

lemma reads_simps [simp]:
  "reads (Inl e)" "reads (Inr (get_call path ps f))" "reads (get_with path v f)"
  "(\<And>x. m = Inr x \<Longrightarrow> reads (g x)) \<Longrightarrow> reads (bind_js m g)"
  by (auto simp: reads_def rest_call_def get_with_def map_js_Inr_iff bind_js_Inr_iff split: sum.splits)

lemma writes_simps [simp]:
  "writes (Inl e)" "writes (Inr (post_call path b f))" "writes (Inr (patch_call path b f))"
  "writes (Inr (delete_call path f))" "writes (Inr ((post_call path b f)\<lparr>cc_catch := c\<rparr>))"
  "(\<And>x. m = Inr x \<Longrightarrow> writes (g x)) \<Longrightarrow> writes (bind_js m g)"
  by (auto simp: writes_def rest_call_def bind_js_Inr_iff split: sum.splits)

lemma queries_read: "list_all (\<lambda>(f, r). reads (r a)) (service_resolvers False service)"
  by (simp add: service_resolvers_def restapi_queries_def auth_queries_def keeper_queries_def
      slacker_queries_def server_defs)

lemma mutations_write: "list_all (\<lambda>(f, r). writes (r a)) (service_resolvers True service)"
  by (simp add: service_resolvers_def restapi_mutations_def auth_mutations_def
      slacker_mutations_def server_defs)

lemma resolver_service:
  "resolver_of mutation field = Some (service, r) \<Longrightarrow>
    service \<in> {''auth'', ''keeper'', ''restapi'', ''slacker''} \<and> (field, r) \<in> set (service_resolvers mutation service)"
  by (auto simp: resolver_of_def dest!: map_of_SomeD)

lemma query_reads: "resolver_of False field = Some (service, r) \<Longrightarrow> reads (r a)"
  using queries_read [of a service] by (auto simp: list_all_iff dest!: resolver_service)

lemma mutation_writes: "resolver_of True field = Some (service, r) \<Longrightarrow> writes (r a)"
  using mutations_write [of a service] by (auto simp: list_all_iff dest!: resolver_service)

section \<open>Where a request goes\<close>

definition service_addresses :: "(string \<Rightarrow> string option) \<Rightarrow> string list" where
  "service_addresses env = map cl_baseURL (clients env Undef)"

lemma client_of:
  "c \<in> set (clients env token) \<Longrightarrow>
    cl_baseURL c \<in> set (service_addresses env) \<and> willSendRequest c = (''authorization'', ''Bearer '' @ to_str token)"
  by (auto simp: clients_def service_addresses_def willSendRequest_def)

text \<open>The answer of a field depends on the services only through requests to their addresses that
  carry the token, and for a query only through GET requests without a body.\<close>

lemma resolve_field_cong:
  assumes "\<And>c request. c \<in> set cs \<Longrightarrow> (mutation \<or> rr_method request = ''GET'' \<and> rr_body request = Undef) \<Longrightarrow>
      send1 (cl_baseURL c) (willSendRequest c) request = send2 (cl_baseURL c) (willSendRequest c) request"
  shows "resolve_field send1 cs mutation field args store = resolve_field send2 cs mutation field args store"
proof (cases "resolver_of mutation field")
  case (Some p)
  obtain service r where p: "p = (service, r)" by (cases p)
  have rd: "mutation \<or> reads (r args)" using Some query_reads by (cases mutation) (auto simp: p)
  have "base_fetch send1 c (cc_request call) s = base_fetch send2 c (cc_request call) s"
    if "find (\<lambda>c. cl_name c = service) cs = Some c" "r args = Inr call" for c call s
  proof -
    have "c \<in> set cs" using that(1) by (auto simp: find_Some_iff)
    then have "send1 (cl_baseURL c) (willSendRequest c) (cc_request call)
        = send2 (cl_baseURL c) (willSendRequest c) (cc_request call)"
      using rd that(2) by (intro assms) (auto simp: reads_def)
    then show ?thesis by (simp add: base_fetch_def)
  qed
  then show ?thesis
    by (auto simp: resolve_field_def Some p split: option.splits sum.splits)
qed (simp add: resolve_field_def)

section \<open>The store of headers\<close>

definition stored_header :: "header_store \<Rightarrow> string \<Rightarrow> string \<Rightarrow> string option" where
  "stored_header store service header_arg = Option.bind (map_of store service) (\<lambda>m. map_of m header_arg)"

lemma stored_header_Nil [simp]: "stored_header [] service h = None"
  by (simp add: stored_header_def)

lemma stored_step:
  "stored_header (store_headers c headers store) service h =
     (if service = c \<and> h \<in> {''x-trace-id'', ''etag''} then
        (case headers h of Some v \<Rightarrow> if v = [] then stored_header store service h else Some v
         | None \<Rightarrow> stored_header store service h)
      else stored_header store service h)"
  by (auto simp: stored_header_def store_headers_def FORWARD_RESPONSE_HEADERS_def Let_def
      split: option.splits)

text \<open>After a sequence of responses, the store has the last value that is not empty.\<close>

definition responses_stored :: "(string \<times> (string \<Rightarrow> string option)) list \<Rightarrow> header_store" where
  "responses_stored responses = fold (\<lambda>(c, headers). store_headers c headers) responses []"

definition header_values :: "(string \<times> (string \<Rightarrow> string option)) list \<Rightarrow> string \<Rightarrow> string \<Rightarrow> string list" where
  "header_values responses service h =
     concat (map (\<lambda>(c, headers). case headers h of Some v \<Rightarrow> if c = service \<and> v \<noteq> [] then [v] else []
       | None \<Rightarrow> []) responses)"

lemma responses_stored_last:
  "stored_header (responses_stored responses) service h =
     (if h \<in> set FORWARD_RESPONSE_HEADERS \<and> header_values responses service h \<noteq> []
      then Some (last (header_values responses service h)) else None)"
proof (induction responses rule: rev_induct)
  case Nil
  then show ?case by (simp add: responses_stored_def header_values_def)
next
  case (snoc r responses)
  obtain c headers where r: "r = (c, headers)" by (cases r)
  have "stored_header (responses_stored (responses @ [r])) service h
      = stored_header (store_headers c headers (responses_stored responses)) service h"
    by (simp add: responses_stored_def r)
  with snoc show ?case
    by (auto simp: stored_step r header_values_def FORWARD_RESPONSE_HEADERS_def split: option.splits if_splits)
qed


section \<open>The response of the GraphQL request\<close>

text \<open>The headers of a response, as Apollo's \<open>HeaderMap\<close> documents them: names differ in more than
  the case of their letters.\<close>

locale header_map =
  fixes header_set :: "string \<Rightarrow> string \<Rightarrow> 'h \<Rightarrow> 'h"
    and header_keys :: "'h \<Rightarrow> string list"
    and header_get :: "'h \<Rightarrow> string \<Rightarrow> string option"
  assumes get_set: "header_get (header_set k v h) k' = (if lower k' = lower k then Some v else header_get h k')"
    and get_keys: "header_get h k \<noteq> None \<Longrightarrow> lower k \<in> lower ` set (header_keys h)"
begin

lemma get_fold_set:
  "header_get (fold (\<lambda>(n, v). header_set n v) ps h) k =
     (case map_of (rev (map (\<lambda>(n, v). (lower n, v)) ps)) (lower k) of Some v \<Rightarrow> Some v | None \<Rightarrow> header_get h k)"
proof (induction ps rule: rev_induct)
  case (snoc p ps)
  then show ?case by (cases p) (auto simp: get_set)
qed simp

lemma response_get:
  "header_get (willSendResponse header_set header_keys store h) k =
     (case map_of (rev (map (\<lambda>(n, v). (lower n, v)) (forwarded_headers (header_keys h) store))) (lower k) of
        Some v \<Rightarrow> Some v | None \<Rightarrow> header_get h k)"
  by (simp add: willSendResponse_def get_fold_set)

end

lemma lower_char_idem: "lower_char (lower_char c) = lower_char c"
proof (cases "CHR ''A'' \<le> c \<and> c \<le> CHR ''Z''")
  case True
  then have "(of_char c :: nat) \<le> 90" "65 \<le> (of_char c :: nat)" by (simp_all add: less_eq_char_def)
  then have "\<not> char_of (of_char c + 32 :: nat) \<le> CHR ''Z''" by (simp add: less_eq_char_def)
  then show ?thesis by (simp add: lower_char_def)
qed (auto simp: lower_char_def)

lemma lower_idem [simp]: "lower (lower s) = lower s"
  by (simp add: lower_def lower_char_idem)

text \<open>Apollo's map: a JavaScript \<open>Map\<close> whose operations put their keys in lower case.\<close>

definition HeaderMap_set :: "string \<Rightarrow> string \<Rightarrow> (string \<times> string) list \<Rightarrow> (string \<times> string) list" where
  "HeaderMap_set k v h = map_set (lower k) v h"

definition HeaderMap_get :: "(string \<times> string) list \<Rightarrow> string \<Rightarrow> string option" where
  "HeaderMap_get h k = map_of h (lower k)"

interpretation js_headers: header_map HeaderMap_set "map fst" HeaderMap_get
proof (unfold_locales, goal_cases)
  case (2 h k)
  then have "lower k \<in> fst ` set h" by (force simp: HeaderMap_get_def dest: map_of_SomeD)
  then have "lower (lower k) \<in> lower ` fst ` set h" by (rule imageI)
  then show ?case by simp
qed (simp add: HeaderMap_set_def HeaderMap_get_def)

lemma header_map_js: "header_map HeaderMap_set (map fst) HeaderMap_get"
  by (rule js_headers.header_map_axioms)

section \<open>What reaches the browser\<close>

text \<open>A header that the response has already keeps its value, unless the name is one that the
  plugin makes with a prefix.\<close>

context header_map
begin

lemma forwarded_name_cases:
  "(n, v) \<in> set (forwarded_headers existing store) \<Longrightarrow>
    lower n \<notin> set (map lower existing) \<or> (\<exists>s. n = ''x-'' @ s)"
  unfolding forwarded_headers_def by (auto split: if_splits)

lemma original_kept:
  assumes "header_get h k = Some v" "take 2 (lower k) \<noteq> ''x-''"
  shows "header_get (willSendResponse header_set header_keys store h) k = Some v"
proof -
  have "lower k \<in> set (map lower (header_keys h))" using get_keys [of h k] assms(1) by auto
  moreover have "lower (''x-'' @ s) \<noteq> lower k" for s
  proof -
    have "take 2 (lower (''x-'' @ s)) = ''x-''" by (simp add: lower_def lower_char_def)
    with assms(2) show ?thesis by metis
  qed
  ultimately have "lower n \<noteq> lower k" if "(n, w) \<in> set (forwarded_headers (header_keys h) store)" for n w
    using forwarded_name_cases [OF that] by auto
  then have "map_of (rev (map (\<lambda>(n, v). (lower n, v)) (forwarded_headers (header_keys h) store))) (lower k) = None"
    by (fastforce simp: map_of_eq_None_iff)
  with assms(1) show ?thesis by (simp add: response_get)
qed

end


text \<open>The maps of the store have every key once, and only the headers that are forwarded.\<close>

definition forwarded_map :: "(string \<times> string) list \<Rightarrow> bool" where
  "forwarded_map m \<longleftrightarrow> distinct (map fst m) \<and> fst ` set m \<subseteq> set FORWARD_RESPONSE_HEADERS"

definition store_ok :: "header_store \<Rightarrow> bool" where
  "store_ok store \<longleftrightarrow> distinct (map fst store) \<and>
     (\<forall>m \<in> snd ` set store. forwarded_map m)"

lemma keys_map_set: "fst ` set (map_set k v m) = insert k (fst ` set m)"
  by (induction k v m rule: map_set.induct) auto

lemma distinct_map_set: "distinct (map fst m) \<Longrightarrow> distinct (map fst (map_set k v m))"
  by (induction k v m rule: map_set.induct) (auto simp: keys_map_set)

lemma set_map_set: "set (map_set k v m) \<subseteq> insert (k, v) (set m)"
  by (induction k v m rule: map_set.induct) auto

lemma forwarded_map_set:
  "forwarded_map m \<Longrightarrow> h \<in> set FORWARD_RESPONSE_HEADERS \<Longrightarrow> forwarded_map (map_set h v m)"
  by (auto simp: forwarded_map_def distinct_map_set keys_map_set)

lemma store_headers_ok:
  assumes "store_ok store"
  shows "store_ok (store_headers c headers store)"
proof -
  define new where "new = fold (\<lambda>headerName m. case headers headerName of
       Some v \<Rightarrow> if v \<noteq> [] then map_set headerName v m else m | None \<Rightarrow> m) FORWARD_RESPONSE_HEADERS
       (case map_of store c of Some m \<Rightarrow> m | None \<Rightarrow> [])"
  have "forwarded_map (case map_of store c of Some m \<Rightarrow> m | None \<Rightarrow> [])"
  proof (cases "map_of store c")
    case (Some m)
    then have "(c, m) \<in> set store" by (rule map_of_SomeD)
    with assms Some show ?thesis by (auto simp: store_ok_def)
  qed (simp add: forwarded_map_def)
  moreover have "forwarded_map m0 \<Longrightarrow> forwarded_map (fold (\<lambda>headerName m. case headers headerName of
       Some v \<Rightarrow> if v \<noteq> [] then map_set headerName v m else m | None \<Rightarrow> m) FORWARD_RESPONSE_HEADERS m0)" for m0
    using forwarded_map_set [of _ "''etag''"] forwarded_map_set [of _ "''x-trace-id''"]
    by (auto simp: FORWARD_RESPONSE_HEADERS_def split: option.splits)
  ultimately have "forwarded_map new" by (simp only: new_def)
  moreover have "store_headers c headers store = map_set c new store"
    by (simp add: store_headers_def new_def Let_def)
  ultimately show ?thesis
    using assms set_map_set [of c new store] by (auto simp: store_ok_def distinct_map_set)
qed

lemma responses_stored_ok: "store_ok (responses_stored responses)"
proof (induction responses rule: rev_induct)
  case Nil
  then show ?case by (simp add: responses_stored_def store_ok_def)
next
  case (snoc r responses)
  then show ?case by (cases r) (simp add: responses_stored_def store_headers_ok)
qed

lemma last_prefixed: "n \<noteq> [] \<Longrightarrow> last (lower (''x-'' @ s @ ''-'' @ n)) = lower_char (last n)"
  by (simp add: lower_def last_map)

lemma hd_prefixed: "hd (lower (''x-'' @ s @ ''-'' @ n)) = CHR ''x''"
  by (simp add: lower_def lower_char_def)

lemma length_prefixed: "length (lower (''x-'' @ s @ ''-'' @ n)) = length s + length n + 3"
  by (simp add: lower_def)

definition forwarded_name :: "string list \<Rightarrow> string \<Rightarrow> string \<Rightarrow> string" where
  "forwarded_name existing s n =
     lower (if lower n \<in> set (map lower existing) then ''x-'' @ s @ ''-'' @ n else n)"

lemma forwarded_name_iff:
  assumes "n \<in> set FORWARD_RESPONSE_HEADERS" "h \<in> set FORWARD_RESPONSE_HEADERS"
    "lower h \<notin> set (map lower existing)"
  shows "forwarded_name existing s n = lower h \<longleftrightarrow> n = h"
    "forwarded_name existing s n \<noteq> lower (''x-'' @ t @ ''-'' @ h)"
proof -
  have prefixed: "lower (''x-'' @ u @ ''-'' @ g) \<noteq> lower g'"
    if "g \<in> set FORWARD_RESPONSE_HEADERS" "g' \<in> set FORWARD_RESPONSE_HEADERS" for u g g'
  proof
    assume "lower (''x-'' @ u @ ''-'' @ g) = lower g'"
    then have "last (lower g') = lower_char (last g)" "hd (lower g') = CHR ''x''"
        "length (lower g') = length u + length g + 3"
      using last_prefixed [of g u] hd_prefixed [of u g] length_prefixed [of u g] that
      by (auto simp: FORWARD_RESPONSE_HEADERS_def)
    then show False
      using that by (auto simp: FORWARD_RESPONSE_HEADERS_def lower_def lower_char_def)
  qed
  have plain: "lower g = lower g' \<longleftrightarrow> g = g'"
    if "g \<in> set FORWARD_RESPONSE_HEADERS" "g' \<in> set FORWARD_RESPONSE_HEADERS" for g g'
    using that by (auto simp: FORWARD_RESPONSE_HEADERS_def lower_def lower_char_def)
  show "forwarded_name existing s n = lower h \<longleftrightarrow> n = h"
    using assms prefixed plain by (auto simp: forwarded_name_def simp del: append.simps)
  show "forwarded_name existing s n \<noteq> lower (''x-'' @ t @ ''-'' @ h)"
  proof (cases "lower n \<in> set (map lower existing)")
    case True
    with assms(3) have "n \<noteq> h" by auto
    then have "lower_char (last n) \<noteq> lower_char (last h)"
      using assms(1,2) by (auto simp: FORWARD_RESPONSE_HEADERS_def lower_char_def)
    then have "lower (''x-'' @ s @ ''-'' @ n) \<noteq> lower (''x-'' @ t @ ''-'' @ h)"
      using last_prefixed [of n s] last_prefixed [of h t] assms(1,2)
      by (metis FORWARD_RESPONSE_HEADERS_def empty_iff insert_iff list.distinct(1) list.set)
    with True show ?thesis by (simp only: forwarded_name_def if_True simp_thms)
  next
    case False
    then show ?thesis using prefixed [of h n t] assms(1,2) by (auto simp: forwarded_name_def simp del: append.simps)
  qed
qed

lemma map_of_renamed:
  "(\<And>n. n \<in> fst ` set m \<Longrightarrow> f n = k' \<longleftrightarrow> n = k) \<Longrightarrow> map_of (map (\<lambda>(n, v). (f n, v)) m) k' = map_of m k"
proof (induction m)
  case (Cons p m)
  obtain n v where p: "p = (n, v)" by (cases p)
  have "f n = k' \<longleftrightarrow> n = k" using Cons.prems [of n] by (simp add: p)
  moreover have "map_of (map (\<lambda>(n, v). (f n, v)) m) k' = map_of m k" using Cons.prems by (intro Cons.IH) auto
  ultimately show ?case by (auto simp: p)
qed simp

definition service_values :: "header_store \<Rightarrow> string \<Rightarrow> string list" where
  "service_values store h = concat (map (\<lambda>(s, m). case map_of m h of Some v \<Rightarrow> [v] | None \<Rightarrow> []) store)"

lemma forwarded_last:
  assumes "store_ok store" "h \<in> set FORWARD_RESPONSE_HEADERS" "lower h \<notin> set (map lower existing)"
  shows "map_of (rev (map (\<lambda>(n, v). (lower n, v)) (forwarded_headers existing store))) (lower h) =
     (if service_values store h = [] then None else Some (last (service_values store h)))"
    (is "map_of (rev (?F store)) _ = _")
  using assms(1)
proof (induction store rule: rev_induct)
  case Nil
  then show ?case by (simp add: forwarded_headers_def service_values_def)
next
  case (snoc p store)
  obtain s m where p: "p = (s, m)" by (cases p)
  have ok: "store_ok store" and m: "distinct (map fst m)" "fst ` set m \<subseteq> set FORWARD_RESPONSE_HEADERS"
    using snoc.prems by (auto simp: store_ok_def forwarded_map_def p)
  have F: "?F (store @ [p]) = ?F store @ map (\<lambda>(n, v). (forwarded_name existing s n, v)) m"
    by (simp add: forwarded_headers_def forwarded_name_def p case_prod_beta comp_def)
  have "map_of (rev (map (\<lambda>(n, v). (forwarded_name existing s n, v)) m)) (lower h) = map_of (rev m) h"
    unfolding rev_map using m(2) forwarded_name_iff(1) [OF _ assms(2,3)]
    by (intro map_of_renamed) (auto simp del: append.simps)
  then show ?case
    using snoc.IH [OF ok] m(1) unfolding F
    by (auto simp: map_add_def service_values_def p map_of_rev_distinct split: option.splits)
qed

lemma forwarded_unprefixed:
  assumes "store_ok store" "h \<in> set FORWARD_RESPONSE_HEADERS" "lower h \<notin> set (map lower existing)"
  shows "map_of (rev (map (\<lambda>(n, v). (lower n, v)) (forwarded_headers existing store)))
     (lower (''x-'' @ t @ ''-'' @ h)) = None"
proof -
  have "lower n \<noteq> lower (''x-'' @ t @ ''-'' @ h)" if nv: "(n, v) \<in> set (forwarded_headers existing store)" for n v
  proof -
    obtain s m n0 where sm: "(s, m) \<in> set store" "(n0, v) \<in> set m" and n: "lower n = forwarded_name existing s n0"
      using nv by (auto simp: forwarded_headers_def forwarded_name_def simp del: append.simps)
    have "n0 \<in> set FORWARD_RESPONSE_HEADERS" using assms(1) sm
      by (fastforce simp: store_ok_def forwarded_map_def)
    with n show ?thesis using forwarded_name_iff(2) [OF _ assms(2,3)] by simp
  qed
  then show ?thesis by (fastforce simp: map_of_eq_None_iff simp del: append.simps)
qed

text \<open>The headers of the response to the browser after the services have answered.\<close>

definition response_headers ::
  "(string \<times> (string \<Rightarrow> string option)) list \<Rightarrow> (string \<times> string) list \<Rightarrow> (string \<times> string) list" where
  "response_headers responses headers = willSendResponse HeaderMap_set (map fst) (responses_stored responses) headers"

lemma response_headers_get:
  assumes "h \<in> set FORWARD_RESPONSE_HEADERS" "lower h \<notin> set (map lower (map fst headers))" "HeaderMap_get headers h = None"
  shows "HeaderMap_get (response_headers responses headers) h =
      (if service_values (responses_stored responses) h = [] then None
       else Some (last (service_values (responses_stored responses) h)))"
    "HeaderMap_get (response_headers responses headers) (''x-'' @ service @ ''-'' @ h)
       = HeaderMap_get headers (''x-'' @ service @ ''-'' @ h)"
  using forwarded_last [OF responses_stored_ok assms(1,2)] forwarded_unprefixed [OF responses_stored_ok assms(1,2)] assms(3)
  unfolding response_headers_def js_headers.response_get by (auto simp del: append.simps)

lemma response_headers_keep:
  "HeaderMap_get headers k = Some v \<Longrightarrow> take 2 (lower k) \<noteq> ''x-'' \<Longrightarrow>
    HeaderMap_get (response_headers responses headers) k = Some v"
  unfolding response_headers_def by (rule js_headers.original_kept)

section \<open>Configurations, parameters and options\<close>

text \<open>The configuration that is sent: of the configurations that are given, the last one with a
  property decides it.\<close>

definition given_configs :: "obj \<Rightarrow> obj list" where
  "given_configs params = map (\<lambda>name. own_props (obj_get params name)) config_names"

lemma source_config_fold:
  "foldM_js (\<lambda>config name. map_js (\<lambda>v. obj_spread config (own_props v)) (get_prop (Obj params) name)) o' names
    = Inr (fold (\<lambda>name config. obj_spread config (own_props (obj_get params name))) names o')"
  by (induction names arbitrary: o') auto

lemma source_config_get:
  assumes "\<And>name. name \<in> set config_names \<Longrightarrow> distinct (map fst (own_props (obj_get params name)))"
  shows "\<exists>config. source_config (Obj params) = Inr (Obj config) \<and>
     (\<forall>k. obj_get config k = (case filter (\<lambda>c. k \<in> fst ` set c) (given_configs params) of
        [] \<Rightarrow> Undef | cs \<Rightarrow> obj_get (last cs) k))"
proof -
  have "obj_get (fold (\<lambda>name config. obj_spread config (own_props (obj_get params name))) names []) k =
      (case filter (\<lambda>c. k \<in> fst ` set c) (map (\<lambda>name. own_props (obj_get params name)) names) of
        [] \<Rightarrow> Undef | cs \<Rightarrow> obj_get (last cs) k)"
    if "set names \<subseteq> set config_names" for names k
    using that
  proof (induction names rule: rev_induct)
    case (snoc name names)
    then show ?case
      using assms [of name] by (auto simp: obj_get_spread split: list.splits)
  qed simp
  from this [of config_names] show ?thesis
    unfolding source_config_def source_config_fold given_configs_def by simp
qed

text \<open>An option that the service returns as it was sent comes back unchanged.\<close>

lemma option_echoed:
  assumes "json_ok v" "call \<in> {updateOrganizationThemeSettings i v, updateOrganizationPerspectives i v}"
  shows "\<exists>c. call = Inr c \<and> call_outcome c (Inr (rr_body (cc_request c))) = Inr v"
proof -
  obtain t where t: "json_str v = Some t" using assms(1) json_str_total by blast
  with assms json_parse_str [OF assms(1) t] show ?thesis
    by (auto simp: updateOrganizationThemeSettings_def updateOrganizationPerspectives_def rest_call_def
        call_outcome_def parsed_value_def json_stringify_def)
qed

text \<open>The parameters of a request: one for each value, and for each element of an array.\<close>

definition param_values :: "jsval \<Rightarrow> jsval list" where
  "param_values v = (case v of Arr vs \<Rightarrow> vs | _ \<Rightarrow> if nullish v then [] else [v])"

lemma getParams_pairs:
  assumes "\<And>k v vs. (k, Arr vs) \<in> set kvs \<Longrightarrow> v \<in> set vs \<Longrightarrow> \<not> nullish v"
  shows "getParams (Obj kvs) = Inr (concat (map (\<lambda>(k, v). map (\<lambda>w. (k, to_str w)) (param_values v)) kvs))"
proof -
  have pp: "param_pairs (k, v) = Inr (map (\<lambda>w. (k, to_str w)) (param_values v))"
    if "(k, v) \<in> set kvs" "\<not> nullish v" for k v
  proof (cases v)
    case (Arr vs)
    then have "mapM_js (\<lambda>v. map_js (\<lambda>s. (k, s)) (value_toString v)) vs = Inr (map (\<lambda>w. (k, to_str w)) vs)"
      using assms that by (intro mapM_js_total) (auto simp: value_toString_def)
    then show ?thesis by (simp add: param_pairs_def param_values_def Arr)
  qed (use that in \<open>simp_all add: param_pairs_def param_values_def value_toString_def\<close>)
  have "mapM_js param_pairs (filter (\<lambda>(_, v). \<not> nullish v) kvs)
      = Inr (map (\<lambda>(k, v). map (\<lambda>w. (k, to_str w)) (param_values v)) (filter (\<lambda>(_, v). \<not> nullish v) kvs))"
    using pp by (intro mapM_js_total) auto
  moreover have "concat (map (\<lambda>(k, v). map (\<lambda>w. (k, to_str w)) (param_values v)) (filter (\<lambda>(_, v). \<not> nullish v) xs))
      = concat (map (\<lambda>(k, v). map (\<lambda>w. (k, to_str w)) (param_values v)) xs)" for xs
    by (induction xs) (auto simp: param_values_def nullish_def)
  ultimately show ?thesis by (simp add: getParams_def)
qed

end
