(* ===== verification/TrafficExpenses.thy ===== *)
theory TrafficExpenses
  imports Arrays
begin

text \<open>
  \<open>hooks/useTrafficExpenses.tsx\<close>: the cost of network traffic between regions, as a table of
  sources and destinations and as the markers and flows of a map; a click on either selects rows
  and columns, and everything is computed again from the selected expenses.  Rendering is left out:
  a column of the table is its accessor key.  The names of the map are those of \<open>utils/maps.ts\<close>.
\<close>

section \<open>Expenses and the selection\<close>

record place =
  pl_name :: string
  pl_latitude :: "rat option"
  pl_longitude :: "rat option"

record traffic_expense =
  te_from :: place
  te_to :: place
  te_cost :: rat
  te_usage :: rat

record traffic_selection =
  sel_rows :: "string list"
  sel_columns :: "string list"

definition EXTERNAL_NAME :: string where "EXTERNAL_NAME = ''External''"
definition INTER_REGION_NAME :: string where "INTER_REGION_NAME = ''Inter-Region''"
definition INTER_CONTINENTAL_NAME :: string where "INTER_CONTINENTAL_NAME = ''Intercontinental''"
definition OTHER_NAME :: string where "OTHER_NAME = ''Other''"

definition OTHER_POINT :: "rat option \<times> rat option" where "OTHER_POINT = (Some 73, Some 2)"
definition EXTERNAL_POINT :: "rat option \<times> rat option" where "EXTERNAL_POINT = (Some 73, Some 35)"
definition INTER_CONTINENTAL_POINT :: "rat option \<times> rat option" where
  "INTER_CONTINENTAL_POINT = (Some (- 45), Some 50)"
definition INTER_REGION_POINT :: "rat option \<times> rat option" where
  "INTER_REGION_POINT = (Some (- 45), Some (- 10))"

text \<open>A coordinate counts when it is truthy: a coordinate of zero is none.\<close>

definition coordinate :: "rat option \<Rightarrow> bool" where
  "coordinate c = (case c of None \<Rightarrow> False | Some x \<Rightarrow> x \<noteq> 0)"

definition located :: "place \<Rightarrow> bool" where
  "located p \<longleftrightarrow> coordinate (pl_latitude p) \<and> coordinate (pl_longitude p)"

abbreviation from_name :: "traffic_expense \<Rightarrow> string" where "from_name e \<equiv> pl_name (te_from e)"
abbreviation to_name :: "traffic_expense \<Rightarrow> string" where "to_name e \<equiv> pl_name (te_to e)"

definition selectedTrafficExpenses ::
  "traffic_expense list \<Rightarrow> traffic_selection \<Rightarrow> traffic_expense list" where
  "selectedTrafficExpenses expenses sel =
     (if sel_rows sel \<noteq> [] \<and> sel_columns sel \<noteq> []
      then filter (\<lambda>e. from_name e \<in> set (sel_rows sel) \<and> to_name e \<in> set (sel_columns sel)) expenses
      else if sel_columns sel \<noteq> [] then filter (\<lambda>e. to_name e \<in> set (sel_columns sel)) expenses
      else if sel_rows sel \<noteq> [] then filter (\<lambda>e. from_name e \<in> set (sel_rows sel)) expenses
      else expenses)"

definition uniqueDestinations :: "traffic_expense list \<Rightarrow> string list" where
  "uniqueDestinations expenses = unique (map from_name expenses @ map to_name expenses)"

definition uniqueToDestinations :: "traffic_expense list \<Rightarrow> string list" where
  "uniqueToDestinations expenses = unique (map to_name expenses)"

definition otherLocationNames :: "traffic_expense list \<Rightarrow> string list" where
  "otherLocationNames expenses =
     map to_name (filter (\<lambda>e. \<not> coordinate (pl_latitude (te_to e)) \<and> \<not> coordinate (pl_longitude (te_to e))
        \<and> to_name e \<noteq> INTER_REGION_NAME \<and> to_name e \<noteq> INTER_CONTINENTAL_NAME \<and> to_name e \<noteq> EXTERNAL_NAME)
        expenses)"

definition getDestinationMap :: "place \<Rightarrow> string" where
  "getDestinationMap p =
     (if located p \<or> pl_name p \<in> {INTER_REGION_NAME, INTER_CONTINENTAL_NAME, EXTERNAL_NAME}
      then pl_name p else OTHER_NAME)"

definition destinationsMap :: "traffic_expense list \<Rightarrow> (string \<times> string) list" where
  "destinationsMap expenses =
     from_entries (concat (map (\<lambda>e. [(from_name e, getDestinationMap (te_from e)),
        (to_name e, getDestinationMap (te_to e))]) expenses))"

section \<open>The table\<close>

datatype row_value = Cell traffic_expense | Label string | Amount rat

type_synonym table_row = "(string \<times> row_value) list"

definition total_cost :: "traffic_expense list \<Rightarrow> rat" where
  "total_cost expenses = fold (\<lambda>e result. result + te_cost e) expenses 0"

definition total_usage :: "traffic_expense list \<Rightarrow> rat" where
  "total_usage expenses = fold (\<lambda>e result. result + te_usage e) expenses 0"

definition table_row :: "traffic_expense list \<Rightarrow> string \<Rightarrow> table_row" where
  "table_row expenses uniqueDestination =
     (let filteredExpenses = filter (\<lambda>e. from_name e = uniqueDestination) expenses;
          row = fold (\<lambda>e r. obj_set (to_name e) (Cell e) r) filteredExpenses [] in
      obj_set ''total_usage'' (Amount (total_usage filteredExpenses))
        (obj_set ''total_expenses'' (Amount (total_cost filteredExpenses))
          (obj_set ''col_name'' (Label uniqueDestination) row)))"

definition getTableData :: "traffic_expense list \<Rightarrow> string list \<Rightarrow> table_row list" where
  "getTableData expenses destinations =
     filter (\<lambda>row. 3 < length row) (map (table_row expenses) destinations)"

text \<open>\<open>getColumns\<close>: with one row, only its cells, the most expensive first.  The value of a column
  is read back from the cells (a destination with the name of one of the three other columns would
  have none; that comparison is not modelled).\<close>

definition row_costs :: "table_row \<Rightarrow> (string \<times> rat) list" where
  "row_costs row = concat (map (\<lambda>(_, v). case v of Cell e \<Rightarrow> [(to_name e, te_cost e)] | _ \<Rightarrow> []) row)"

definition row_cost :: "table_row \<Rightarrow> string \<Rightarrow> rat" where
  "row_cost row key = (case map_of (rev (row_costs row)) key of Some c \<Rightarrow> c | None \<Rightarrow> 0)"

definition getColumns :: "string list \<Rightarrow> string list \<Rightarrow> table_row list \<Rightarrow> string list" where
  "getColumns toDestinations selectedColumns tableData =
     (let columns = (case tableData of
            [row] \<Rightarrow> sort_key (\<lambda>key. - row_cost row key) (filter (\<lambda>key. key \<in> fst ` set row) toDestinations)
          | _ \<Rightarrow> toDestinations);
          shown = (if selectedColumns \<noteq> [] then filter (\<lambda>key. key \<in> set selectedColumns) columns else columns) in
      ''col_name'' # shown)"

section \<open>The map\<close>

record flow_summary =
  fs_original_from :: string
  fs_original_to :: string
  fs_mapped_from :: "string option"
  fs_mapped_to :: "string option"
  fs_cost :: rat
  fs_usage :: rat

record map_location =
  lo_id :: "string option"
  lo_originalId :: string
  lo_point :: "rat option \<times> rat option"
  lo_summary :: "flow_summary list"
  lo_expenses :: "traffic_expense list"
  lo_totalExpenses :: rat
  lo_totalUsage :: rat

record map_flow =
  fl_from :: place
  fl_to :: place
  fl_cost :: rat
  fl_usage :: rat

record map_markers =
  mk_locations :: "map_location list"
  mk_flows :: "map_flow list"
  mk_otherLocations :: "map_location list"
  mk_interRegion :: "map_location option"
  mk_interContinental :: "map_location option"
  mk_externalLocation :: "map_location option"

text \<open>The name of a location is its \<open>id\<close>, its original name its \<open>originalId\<close>.\<close>

definition location_point :: "string \<Rightarrow> traffic_expense \<Rightarrow> rat option \<times> rat option" where
  "location_point uniqueDestination e =
     (if from_name e = uniqueDestination then (pl_latitude (te_from e), pl_longitude (te_from e))
      else if located (te_to e) then (pl_latitude (te_to e), pl_longitude (te_to e))
      else if uniqueDestination = INTER_REGION_NAME then INTER_REGION_POINT
      else if uniqueDestination = INTER_CONTINENTAL_NAME then INTER_CONTINENTAL_POINT
      else if uniqueDestination = EXTERNAL_NAME then EXTERNAL_POINT
      else OTHER_POINT)"

definition summary_of :: "(string \<times> string) list \<Rightarrow> traffic_expense \<Rightarrow> flow_summary" where
  "summary_of dm e =
     \<lparr>fs_original_from = from_name e, fs_original_to = to_name e, fs_mapped_from = map_of dm (from_name e),
      fs_mapped_to = map_of dm (to_name e), fs_cost = te_cost e, fs_usage = te_usage e\<rparr>"

definition location_of ::
  "traffic_expense list \<Rightarrow> (string \<times> string) list \<Rightarrow> string \<Rightarrow> map_location list" where
  "location_of expenses dm uniqueDestination =
     (let filteredExpenses = sort_key (\<lambda>e. - te_cost e) (filter (\<lambda>e. from_name e = uniqueDestination) expenses) in
      case find (\<lambda>e. located (te_from e) \<and> (from_name e = uniqueDestination \<or> to_name e = uniqueDestination)) expenses of
        None \<Rightarrow> []
      | Some e \<Rightarrow>
          [\<lparr>lo_id = map_of dm uniqueDestination, lo_originalId = uniqueDestination,
            lo_point = location_point uniqueDestination e, lo_summary = map (summary_of dm) filteredExpenses,
            lo_expenses = filteredExpenses, lo_totalExpenses = total_cost filteredExpenses,
            lo_totalUsage = total_usage filteredExpenses\<rparr>])"

text \<open>The key of an object for a name that may be undefined.\<close>

definition name_key :: "string option \<Rightarrow> string" where
  "name_key n = (case n of Some s \<Rightarrow> s | None \<Rightarrow> ''undefined'')"

definition accumulate_location :: "(string \<times> map_location) list \<Rightarrow> map_location \<Rightarrow> (string \<times> map_location) list" where
  "accumulate_location acc newest =
     (if lo_id newest = Some OTHER_NAME then
        (let old = map_of acc OTHER_NAME in
         obj_set OTHER_NAME (newest\<lparr>
             lo_expenses := (case old of Some l \<Rightarrow> lo_expenses l | None \<Rightarrow> []) @ lo_expenses newest,
             lo_summary := (case old of Some l \<Rightarrow> lo_summary l | None \<Rightarrow> []) @ lo_summary newest,
             lo_totalExpenses := (case old of Some l \<Rightarrow> lo_totalExpenses l | None \<Rightarrow> 0) + lo_totalExpenses newest,
             lo_totalUsage := (case old of Some l \<Rightarrow> lo_totalUsage l | None \<Rightarrow> 0) + lo_totalUsage newest\<rparr>) acc)
      else obj_set (name_key (lo_id newest)) newest acc)"

definition accumulate_flow ::
  "(string \<times> string) list \<Rightarrow> (string \<times> map_flow) list \<Rightarrow> traffic_expense \<Rightarrow> (string \<times> map_flow) list" where
  "accumulate_flow dm acc newest =
     (let sourceName = map_of dm (from_name newest); targetName = map_of dm (to_name newest);
          flowName = name_key sourceName @ '' -> '' @ name_key targetName; old = map_of acc flowName in
      if targetName = Some OTHER_NAME then
        obj_set flowName \<lparr>fl_from = te_from newest, fl_to = \<lparr>pl_name = OTHER_NAME, pl_latitude = None, pl_longitude = None\<rparr>,
            fl_cost = (case old of Some f \<Rightarrow> fl_cost f | None \<Rightarrow> 0) + te_cost newest,
            fl_usage = (case old of Some f \<Rightarrow> fl_usage f | None \<Rightarrow> 0) + te_usage newest\<rparr> acc
      else obj_set flowName \<lparr>fl_from = te_from newest, fl_to = te_to newest, fl_cost = te_cost newest,
            fl_usage = te_usage newest\<rparr> acc)"

definition getMarkers ::
  "traffic_expense list \<Rightarrow> string list \<Rightarrow> (string \<times> string) list \<Rightarrow> map_markers" where
  "getMarkers expenses destinations dm =
     (let locations = concat (map (location_of expenses dm) destinations) in
      \<lparr>mk_locations = map snd (foldl accumulate_location [] locations),
       mk_flows = map snd (foldl (accumulate_flow dm) [] (filter (\<lambda>e. located (te_from e)) expenses)),
       mk_otherLocations = filter (\<lambda>l. lo_point l = OTHER_POINT) locations,
       mk_interRegion = find (\<lambda>l. lo_id l = Some INTER_REGION_NAME) locations,
       mk_interContinental = find (\<lambda>l. lo_id l = Some INTER_CONTINENTAL_NAME) locations,
       mk_externalLocation = find (\<lambda>l. lo_id l = Some EXTERNAL_NAME) locations\<rparr>)"

section \<open>Clicks\<close>

text \<open>What the map reports: a location with its name and whether anything leaves it, one of the
  special markers, or a flow with its two locations.\<close>

datatype map_object =
    LocationObject string bool
  | OtherMarker
  | InterRegionMarker
  | InterContinentalMarker
  | ExternalMarker
  | FlowObject map_location map_location

definition selection :: "string list \<Rightarrow> string list \<Rightarrow> traffic_selection" where
  "selection rows columns = \<lparr>sel_rows = rows, sel_columns = columns\<rparr>"

definition onMapClick :: "traffic_expense list \<Rightarrow> map_object \<Rightarrow> traffic_selection" where
  "onMapClick expenses object_arg =
     (case object_arg of
        LocationObject name_arg outgoing \<Rightarrow>
          if outgoing then selection [name_arg] [] else selection [] [name_arg]
      | OtherMarker \<Rightarrow> selection [] (otherLocationNames expenses)
      | InterRegionMarker \<Rightarrow> selection [] [INTER_REGION_NAME]
      | InterContinentalMarker \<Rightarrow> selection [] [INTER_CONTINENTAL_NAME]
      | ExternalMarker \<Rightarrow> selection [] [EXTERNAL_NAME]
      | FlowObject origin dest \<Rightarrow>
          selection [name_key (lo_id origin)]
            (map fs_original_to (filter (\<lambda>datum. fs_mapped_from datum = lo_id origin
                \<and> fs_mapped_to datum = lo_id dest) (lo_summary origin))))"

definition onColumnHeaderClick :: "string \<Rightarrow> traffic_selection" where
  "onColumnHeaderClick name_arg = selection [] [name_arg]"

definition onRowHeaderClick :: "string \<Rightarrow> traffic_selection" where
  "onRowHeaderClick name_arg = selection [name_arg] []"

definition onCellClick :: "traffic_expense \<Rightarrow> traffic_selection" where
  "onCellClick e = selection [from_name e] [to_name e]"

definition onFilterClear :: traffic_selection where
  "onFilterClear = selection [] []"

text \<open>\<open>useTableSelectionState\<close>; the messages of the interface are arguments.\<close>

record selection_state =
  ss_active :: bool
  ss_labels :: "string option \<times> string option"
  ss_data :: "string list option \<times> string list option"

definition useTableSelectionState :: "string \<Rightarrow> string \<Rightarrow> traffic_selection \<Rightarrow> selection_state" where
  "useTableSelectionState somewhere otherClouds sel =
     (let rows = sel_rows sel; columns = sel_columns sel;
          rowLabel = (if 1 < length rows then somewhere else hd rows);
          columnLabel = (if 1 < length columns then otherClouds else hd columns) in
      if rows = [] \<and> columns = [] then \<lparr>ss_active = False, ss_labels = (None, None), ss_data = (None, None)\<rparr>
      else if columns = [] then
        \<lparr>ss_active = True, ss_labels = (Some rowLabel, Some somewhere), ss_data = (Some rows, None)\<rparr>
      else if rows = [] then
        \<lparr>ss_active = True, ss_labels = (Some somewhere, Some columnLabel), ss_data = (None, Some columns)\<rparr>
      else \<lparr>ss_active = True, ss_labels = (Some rowLabel, Some columnLabel), ss_data = (Some rows, Some columns)\<rparr>)"

text \<open>The whole hook: what is shown for a selection.\<close>

record traffic_view =
  tv_markers :: map_markers
  tv_tableData :: "table_row list"
  tv_columns :: "string list"

definition useTrafficExpenses :: "traffic_expense list \<Rightarrow> traffic_selection \<Rightarrow> traffic_view" where
  "useTrafficExpenses expenses sel =
     (let selected = selectedTrafficExpenses expenses sel; destinations = uniqueDestinations selected;
          tableData = getTableData selected destinations in
      \<lparr>tv_markers = getMarkers selected destinations (destinationsMap expenses),
       tv_tableData = tableData,
       tv_columns = getColumns (uniqueToDestinations selected) (sel_columns sel) tableData\<rparr>)"

end
