(* ===== verification/TrafficFacts.thy ===== *)
theory TrafficFacts
  imports TrafficExpenses
begin

text \<open>
  Facts about the traffic expenses: the table, the markers and the flows of the map have the same
  total, and a click on a flow selects the expenses the flow was made of.
\<close>

section \<open>Sums over objects\<close>

lemma sum_obj_insert: "sum_list (map (\<lambda>(k, v). w v) (obj_insert k v m)) = w v + (sum_list (map (\<lambda>(k, v). w v) m) :: rat)"
  by (induction k v m rule: obj_insert.induct) auto

lemma sum_obj_set:
  assumes "distinct (map fst m)"
  shows "sum_list (map (\<lambda>(k, v). w v) (obj_set k v m)) =
     w v + (sum_list (map (\<lambda>(k, v). w v) m) :: rat) - (case map_of m k of Some x \<Rightarrow> w x | None \<Rightarrow> 0)"
proof (cases "k \<in> fst ` set m")
  case True
  have "map_of m k = None \<longleftrightarrow> k \<notin> fst ` set m" by (rule map_of_eq_None_iff)
  moreover have "sum_list (map (\<lambda>(k', v'). w (if k' = k then v else v')) m) =
      (case map_of m k of None \<Rightarrow> sum_list (map (\<lambda>(k, v). w v) m)
       | Some x \<Rightarrow> w v + sum_list (map (\<lambda>(k, v). w v) m) - w x)"
    using assms
  proof (induction m)
    case (Cons p m)
    moreover have "map_of m (fst p) = None" using Cons.prems by (simp add: map_of_eq_None_iff)
    ultimately show ?case by (cases p) (auto split: option.splits)
  qed simp
  ultimately show ?thesis
    using True by (auto simp: obj_set_def comp_def case_prod_unfold split: option.splits)
next
  case False
  then have "map_of m k = None" by (simp add: map_of_eq_None_iff)
  with False show ?thesis by (simp add: obj_set_def sum_obj_insert)
qed

lemma total_cost_sum: "total_cost es = sum_list (map te_cost es)"
  by (simp add: total_cost_def fold_sum)

section \<open>The traffic that the view shows in full\<close>

text \<open>Every source has coordinates, a name stands for one place, two regions exchange at most one
  entry, no region has a name the view uses itself, and the name of a flow can be split.\<close>

definition places :: "traffic_expense list \<Rightarrow> place list" where
  "places expenses = map te_from expenses @ map te_to expenses"

definition plain_place :: "place \<Rightarrow> bool" where
  "plain_place p \<longleftrightarrow> pl_name p \<notin> {''col_name'', ''total_expenses'', ''total_usage'', OTHER_NAME}
     \<and> CHR ''>'' \<notin> set (pl_name p)"

definition plain_traffic :: "traffic_expense list \<Rightarrow> bool" where
  "plain_traffic expenses \<longleftrightarrow>
     list_all (\<lambda>e. located (te_from e)) expenses \<and>
     list_all (\<lambda>p. plain_place p \<and> list_all (\<lambda>q. pl_name p = pl_name q \<longrightarrow> p = q) (places expenses)) (places expenses) \<and>
     distinct (map (\<lambda>e. (from_name e, to_name e)) expenses)"

lemma plain_trafficD:
  assumes "plain_traffic expenses"
  shows "e \<in> set expenses \<Longrightarrow> located (te_from e)"
    "p \<in> set (places expenses) \<Longrightarrow> q \<in> set (places expenses) \<Longrightarrow> pl_name p = pl_name q \<Longrightarrow> p = q"
    "p \<in> set (places expenses) \<Longrightarrow> plain_place p"
    "distinct (map (\<lambda>e. (from_name e, to_name e)) expenses)"
  using assms by (auto simp: plain_traffic_def list_all_iff)

lemma in_places: "e \<in> set expenses \<Longrightarrow> te_from e \<in> set (places expenses)"
  "e \<in> set expenses \<Longrightarrow> te_to e \<in> set (places expenses)"
  by (simp_all add: places_def)

lemma map_of_rev_functional:
  "(k, v) \<in> set es \<Longrightarrow> (\<And>v'. (k, v') \<in> set es \<Longrightarrow> v' = v) \<Longrightarrow> map_of (rev es) k = Some v"
proof -
  assume v: "(k, v) \<in> set es" and unique: "\<And>v'. (k, v') \<in> set es \<Longrightarrow> v' = v"
  obtain w where "map_of (rev es) k = Some w"
    using v weak_map_of_SomeI [of k v "rev es"] by auto
  with unique show ?thesis using map_of_SomeD [of "rev es" k w] by simp
qed

lemma destination_of:
  assumes "plain_traffic expenses" "p \<in> set (places expenses)"
  shows "map_of (destinationsMap expenses) (pl_name p) = Some (getDestinationMap p)"
proof -
  let ?es = "concat (map (\<lambda>e. [(from_name e, getDestinationMap (te_from e)),
        (to_name e, getDestinationMap (te_to e))]) expenses)"
  have es: "set ?es = (\<lambda>q. (pl_name q, getDestinationMap q)) ` set (places expenses)"
    by (auto simp: places_def)
  have "map_of (rev ?es) (pl_name p) = Some (getDestinationMap p)"
  proof (rule map_of_rev_functional)
    show "(pl_name p, getDestinationMap p) \<in> set ?es" unfolding es using assms(2) by simp
    show "v' = getDestinationMap p" if "(pl_name p, v') \<in> set ?es" for v'
      using that plain_trafficD(2) [OF assms(1) assms(2)] unfolding es by auto
  qed
  then show ?thesis by (simp add: destinationsMap_def from_entries_def map_of_fold_obj_set)
qed

definition target :: "traffic_expense \<Rightarrow> string" where
  "target e = getDestinationMap (te_to e)"

lemma destinations:
  assumes "plain_traffic expenses" "e \<in> set expenses"
  shows "map_of (destinationsMap expenses) (from_name e) = Some (from_name e)"
    "map_of (destinationsMap expenses) (to_name e) = Some (target e)"
    "target e \<noteq> OTHER_NAME \<Longrightarrow> target e = to_name e" "from_name e \<noteq> OTHER_NAME"
  using destination_of [OF assms(1) in_places(1) [OF assms(2)]] destination_of [OF assms(1) in_places(2) [OF assms(2)]]
    plain_trafficD(1) [OF assms] plain_trafficD(3) [OF assms(1) in_places(1) [OF assms(2)]]
  by (auto simp: getDestinationMap_def target_def plain_place_def)

section \<open>The table\<close>

definition row_total :: "table_row \<Rightarrow> rat" where
  "row_total row = (case map_of row ''total_expenses'' of Some (Amount x) \<Rightarrow> x | _ \<Rightarrow> 0)"

lemma row_total: "row_total (table_row es u) = total_cost (filter (\<lambda>e. from_name e = u) es)"
  by (simp add: row_total_def table_row_def Let_def)

lemma row_keys:
  "fst ` set (table_row es u) = {''total_usage'', ''total_expenses'', ''col_name''}
     \<union> to_name ` set (filter (\<lambda>e. from_name e = u) es)"
proof -
  have "fst ` set (fold (\<lambda>e r. obj_set (to_name e) (Cell e) r) fs r) = fst ` set r \<union> to_name ` set fs" for fs r
    by (induction fs arbitrary: r) auto
  then show ?thesis by (simp add: table_row_def Let_def insert_commute)
qed

lemma row_distinct: "distinct (map fst (table_row es u))"
proof -
  have "distinct (map fst r) \<Longrightarrow> distinct (map fst (fold (\<lambda>e r. obj_set (to_name e) (Cell e) r) fs r))" for fs r
    by (induction fs arbitrary: r) (auto simp: distinct_obj_set)
  then show ?thesis by (simp add: table_row_def Let_def distinct_obj_set)
qed

lemma row_length:
  assumes "\<And>e. e \<in> set es \<Longrightarrow> plain_place (te_to e)" "filter (\<lambda>e. from_name e = u) es \<noteq> []"
  shows "3 < length (table_row es u)"
proof -
  obtain e where e: "e \<in> set es" "from_name e = u" using assms(2) by (auto simp: filter_empty_conv)
  have "card {''total_usage'', ''total_expenses'', ''col_name'', to_name e} = 4"
    using assms(1) [OF e(1)] by (auto simp: plain_place_def)
  moreover have "{''total_usage'', ''total_expenses'', ''col_name'', to_name e} \<subseteq> fst ` set (table_row es u)"
    using e by (simp add: row_keys)
  ultimately have "4 \<le> card (fst ` set (table_row es u))"
    using card_mono by (metis List.finite_set finite_imageI)
  moreover have "length (table_row es u) = card (fst ` set (table_row es u))"
    using distinct_card [OF row_distinct] by (metis length_map list.set_map)
  ultimately show ?thesis by simp
qed

lemma sum_filter_zero:
  "(\<And>x. x \<in> set xs \<Longrightarrow> \<not> P x \<Longrightarrow> w x = (0::rat)) \<Longrightarrow> sum_list (map w (filter P xs)) = sum_list (map w xs)"
  by (induction xs) auto

lemma by_source: "sum_list (map (\<lambda>u. total_cost (filter (\<lambda>e. from_name e = u) es)) (uniqueDestinations es)) = total_cost es"
  unfolding total_cost_sum uniqueDestinations_def
  by (rule sum_by_key) (auto simp: unique_set unique_distinct)

lemma table_total:
  assumes "\<And>e. e \<in> set es \<Longrightarrow> plain_place (te_to e)"
  shows "sum_list (map row_total (getTableData es (uniqueDestinations es))) = total_cost es"
proof -
  have "row_total r = 0" if r: "r \<in> set (map (table_row es) (uniqueDestinations es))" and short: "\<not> 3 < length r" for r
  proof -
    obtain u where u: "r = table_row es u" using r by auto
    with short have "filter (\<lambda>e. from_name e = u) es = []" using row_length [OF assms, of es u] by blast
    then show ?thesis by (simp add: u row_total total_cost_def)
  qed
  then have "sum_list (map row_total (getTableData es (uniqueDestinations es)))
      = sum_list (map row_total (map (table_row es) (uniqueDestinations es)))"
    unfolding getTableData_def by (intro sum_filter_zero) blast
  then show ?thesis by (simp add: comp_def row_total by_source)
qed


section \<open>The locations of the map\<close>

lemma location_of_shape:
  "l \<in> set (location_of es dm u) \<Longrightarrow> lo_id l = map_of dm u \<and> lo_originalId l = u
     \<and> lo_summary l = map (summary_of dm) (sort_key (\<lambda>e. - te_cost e) (filter (\<lambda>e. from_name e = u) es))"
  by (auto simp: location_of_def Let_def split: option.splits)

lemma total_cost_sort: "total_cost (sort_key f es) = total_cost es"
  unfolding total_cost_sum by (rule sum_mset_eq) simp

lemma location_total:
  assumes "\<And>e. e \<in> set es \<Longrightarrow> located (te_from e)"
  shows "sum_list (map lo_totalExpenses (location_of es dm u)) = total_cost (filter (\<lambda>e. from_name e = u) es)"
proof (cases "find (\<lambda>e. located (te_from e) \<and> (from_name e = u \<or> to_name e = u)) es")
  case None
  then have "filter (\<lambda>e. from_name e = u) es = []"
    using assms by (auto simp: find_None_iff filter_empty_conv)
  with None show ?thesis by (simp add: location_of_def total_cost_def)
qed (simp add: location_of_def Let_def total_cost_sort)

lemma accumulate_other:
  assumes "lo_id x = Some OTHER_NAME"
  shows "\<exists>v. accumulate_location acc x = obj_set OTHER_NAME v acc \<and> lo_id v = Some OTHER_NAME
     \<and> lo_totalExpenses v = (case map_of acc OTHER_NAME of Some l \<Rightarrow> lo_totalExpenses l | None \<Rightarrow> 0) + lo_totalExpenses x"
  unfolding accumulate_location_def Let_def if_P [OF assms] by (intro exI conjI, rule refl) (simp_all add: assms)

lemma accumulate_plain:
  "lo_id x \<noteq> Some OTHER_NAME \<Longrightarrow> accumulate_location acc x = obj_set (name_key (lo_id x)) x acc"
  by (simp add: accumulate_location_def)

lemma accumulate_shape:
  "\<exists>k v. accumulate_location acc x = obj_set k v acc \<and> (lo_id v = Some OTHER_NAME \<or> v = x)"
  using accumulate_other [of x acc] accumulate_plain [of x acc] by blast

lemma accumulated:
  assumes "\<forall>l \<in> set ls. lo_id l \<noteq> None"
    "distinct (filter (\<lambda>k. k \<noteq> OTHER_NAME) (map (\<lambda>l. name_key (lo_id l)) ls))"
  shows "fst ` set (foldl accumulate_location [] ls) = (\<lambda>l. name_key (lo_id l)) ` set ls
     \<and> distinct (map fst (foldl accumulate_location [] ls))
     \<and> sum_list (map (\<lambda>(k, l). lo_totalExpenses l) (foldl accumulate_location [] ls)) = sum_list (map lo_totalExpenses ls)"
  using assms
proof (induction ls rule: rev_induct)
  case (snoc l ls)
  let ?acc = "foldl accumulate_location [] ls"
  have IH: "fst ` set ?acc = (\<lambda>l. name_key (lo_id l)) ` set ls" "distinct (map fst ?acc)"
      "sum_list (map (\<lambda>(k, l). lo_totalExpenses l) ?acc) = sum_list (map lo_totalExpenses ls)"
    using snoc by auto
  obtain k where k: "lo_id l = Some k" using snoc.prems(1) by auto
  show ?case
  proof (cases "k = OTHER_NAME")
    case True
    with k have "lo_id l = Some OTHER_NAME" by simp
    from accumulate_other [OF this] obtain v where
      "accumulate_location ?acc l = obj_set OTHER_NAME v ?acc"
      "lo_totalExpenses v = (case map_of ?acc OTHER_NAME of Some l \<Rightarrow> lo_totalExpenses l | None \<Rightarrow> 0) + lo_totalExpenses l"
      by blast
    then show ?thesis
      using IH by (simp add: k True name_key_def distinct_obj_set sum_obj_set)
  next
    case False
    then have "k \<notin> fst ` set ?acc"
      using snoc.prems(2) unfolding IH(1) by (auto simp: k name_key_def)
    then have "map_of ?acc k = None" by (simp add: map_of_eq_None_iff)
    then show ?thesis
      using IH False by (simp add: accumulate_plain k name_key_def distinct_obj_set sum_obj_set)
  qed
qed simp

lemma accumulated_from:
  "(k, l) \<in> set (foldl accumulate_location [] ls) \<Longrightarrow> lo_id l = Some OTHER_NAME \<or> l \<in> set ls"
proof (induction ls arbitrary: k l rule: rev_induct)
  case (snoc x ls)
  let ?acc = "foldl accumulate_location [] ls"
  obtain k' v where kv: "accumulate_location ?acc x = obj_set k' v ?acc" "lo_id v = Some OTHER_NAME \<or> v = x"
    using accumulate_shape by blast
  then have "(k, l) = (k', v) \<or> (k, l) \<in> set ?acc"
    using snoc.prems set_obj_set [of k' v ?acc] by auto
  with kv(2) snoc.IH [of k l] show ?case by auto
qed simp

lemma uniqueDestinations_places:
  "u \<in> set (uniqueDestinations es) \<longleftrightarrow> (\<exists>p \<in> set (places es). u = pl_name p)"
  by (auto simp: uniqueDestinations_def unique_set places_def)

lemma distinct_or_other:
  "distinct us \<Longrightarrow> (\<And>u. u \<in> set us \<Longrightarrow> f u = u \<or> f u = z) \<Longrightarrow> distinct (filter (\<lambda>k. k \<noteq> z) (map f us))"
proof (induction us)
  case (Cons u us)
  moreover have "f u' = u' \<or> f u' = z" if "u' \<in> set us" for u' using Cons.prems that by simp
  ultimately show ?case by fastforce
qed simp

lemma id_of:
  assumes "plain_traffic expenses" "p \<in> set (places expenses)"
  shows "map_of (destinationsMap expenses) (pl_name p) \<in> {Some (pl_name p), Some OTHER_NAME}"
  using destination_of [OF assms] by (auto simp: getDestinationMap_def)

lemma location_ids:
  assumes "plain_traffic expenses" "set es \<subseteq> set expenses"
  shows "distinct (filter (\<lambda>k. k \<noteq> OTHER_NAME) (map (\<lambda>l. name_key (lo_id l))
     (concat (map (location_of es (destinationsMap expenses)) (uniqueDestinations es)))))"
    "\<forall>l \<in> set (concat (map (location_of es (destinationsMap expenses)) (uniqueDestinations es))). lo_id l \<noteq> None"
proof -
  let ?dm = "destinationsMap expenses"
  have id: "map_of ?dm u \<in> {Some u, Some OTHER_NAME}" if "u \<in> set (uniqueDestinations es)" for u
    using that id_of [OF assms(1)] assms(2) by (force simp: uniqueDestinations_places places_def)
  let ?marked = "\<lambda>u. find (\<lambda>e. located (te_from e) \<and> (from_name e = u \<or> to_name e = u)) es \<noteq> None"
  have names: "map (\<lambda>l. name_key (lo_id l)) (concat (map (location_of es ?dm) us))
      = map (\<lambda>u. name_key (map_of ?dm u)) (filter ?marked us)" for us
    by (induction us) (auto simp: location_of_def Let_def split: option.splits)
  show "distinct (filter (\<lambda>k. k \<noteq> OTHER_NAME) (map (\<lambda>l. name_key (lo_id l))
     (concat (map (location_of es ?dm) (uniqueDestinations es)))))"
    unfolding names
  proof (rule distinct_or_other)
    show "distinct (filter ?marked (uniqueDestinations es))" by (simp add: uniqueDestinations_def unique_distinct)
    show "name_key (map_of ?dm u) = u \<or> name_key (map_of ?dm u) = OTHER_NAME"
      if "u \<in> set (filter ?marked (uniqueDestinations es))" for u
      using that id [of u] by (auto simp: name_key_def)
  qed
  show "\<forall>l \<in> set (concat (map (location_of es ?dm) (uniqueDestinations es))). lo_id l \<noteq> None"
    using id by (fastforce dest!: location_of_shape)
qed

lemma locations_total:
  assumes "plain_traffic expenses" "set es \<subseteq> set expenses"
  shows "sum_list (map lo_totalExpenses (mk_locations (getMarkers es (uniqueDestinations es) (destinationsMap expenses))))
     = total_cost es"
proof -
  let ?ls = "concat (map (location_of es (destinationsMap expenses)) (uniqueDestinations es))"
  have "sum_list (map lo_totalExpenses ?ls)
      = sum_list (map (\<lambda>u. sum_list (map lo_totalExpenses (location_of es (destinationsMap expenses) u))) (uniqueDestinations es))"
    by (rule sum_concat)
  also have "\<dots> = total_cost es"
    using location_total [of es] plain_trafficD(1) [OF assms(1)] assms(2) by_source [of es] by (simp add: subset_iff)
  finally have "sum_list (map lo_totalExpenses ?ls) = total_cost es" .
  moreover have "sum_list (map (\<lambda>(k, l). lo_totalExpenses l) (foldl accumulate_location [] ?ls)) = sum_list (map lo_totalExpenses ?ls)"
    using accumulated [OF location_ids(2,1) [OF assms]] by blast
  moreover have "map (\<lambda>(k, l). lo_totalExpenses l) ps = map lo_totalExpenses (map snd ps)" for ps :: "(string \<times> map_location) list"
    by auto
  ultimately show ?thesis by (simp add: getMarkers_def Let_def)
qed


section \<open>The flows of the map\<close>

definition flow_key :: "traffic_expense \<Rightarrow> string" where
  "flow_key e = from_name e @ '' -> '' @ target e"

definition flow_end :: "traffic_expense \<Rightarrow> place" where
  "flow_end e = (if target e = OTHER_NAME
     then \<lparr>pl_name = OTHER_NAME, pl_latitude = None, pl_longitude = None\<rparr> else te_to e)"

definition flow_of :: "traffic_expense list \<Rightarrow> map_flow option" where
  "flow_of hits = (if hits = [] then None
     else Some \<lparr>fl_from = te_from (last hits), fl_to = flow_end (last hits), fl_cost = total_cost hits,
       fl_usage = total_usage hits\<rparr>)"

lemma total_usage_sum: "total_usage es = sum_list (map te_usage es)"
  by (simp add: total_usage_def fold_sum)

text \<open>The name of a flow determines its source and its target.\<close>

lemma split_arrow:
  assumes "CHR ''>'' \<notin> set a" "CHR ''>'' \<notin> set b" "a @ '' -> '' @ c = b @ '' -> '' @ d"
  shows "a = b \<and> c = d"
proof -
  have "takeWhile (\<lambda>x. x \<noteq> CHR ''>'') (a @ '' -> '' @ c) = a @ '' -''"
    "takeWhile (\<lambda>x. x \<noteq> CHR ''>'') (b @ '' -> '' @ d) = b @ '' -''"
    using assms(1,2) by (auto simp: takeWhile_append)
  with assms(3) show ?thesis by simp
qed

lemma flow_key_eq:
  assumes "plain_traffic expenses" "e \<in> set expenses" "e' \<in> set expenses"
  shows "flow_key e = flow_key e' \<longleftrightarrow> from_name e = from_name e' \<and> target e = target e'"
  using split_arrow [of "from_name e" "from_name e'" "target e" "target e'"]
    plain_trafficD(3) [OF assms(1) in_places(1) [OF assms(2)]]
    plain_trafficD(3) [OF assms(1) in_places(1) [OF assms(3)]]
  by (auto simp: flow_key_def plain_place_def)

lemma same_pair:
  assumes "distinct (map (\<lambda>e. (from_name e, to_name e)) es)" "e \<in> set es" "e' \<in> set es"
    "from_name e = from_name e'" "to_name e = to_name e'"
  shows "e = e'"
  using assms by (auto simp: distinct_map inj_on_def)

lemma accumulate_flow_step:
  assumes "plain_traffic expenses" "e \<in> set expenses"
  shows "accumulate_flow (destinationsMap expenses) acc e =
     obj_set (flow_key e) \<lparr>fl_from = te_from e, fl_to = flow_end e,
       fl_cost = (if target e = OTHER_NAME then (case map_of acc (flow_key e) of Some f \<Rightarrow> fl_cost f | None \<Rightarrow> 0) else 0) + te_cost e,
       fl_usage = (if target e = OTHER_NAME then (case map_of acc (flow_key e) of Some f \<Rightarrow> fl_usage f | None \<Rightarrow> 0) else 0)
         + te_usage e\<rparr> acc"
  by (simp add: accumulate_flow_def Let_def destinations [OF assms] flow_end_def name_key_def flow_key_def)

lemma flow_entry:
  assumes "plain_traffic expenses" "set es \<subseteq> set expenses" "distinct (map (\<lambda>e. (from_name e, to_name e)) es)"
  shows "map_of (foldl (accumulate_flow (destinationsMap expenses)) [] es) k = flow_of (filter (\<lambda>e. flow_key e = k) es)"
  using assms(2,3)
proof (induction es arbitrary: k rule: rev_induct)
  case (snoc e es)
  let ?acc = "foldl (accumulate_flow (destinationsMap expenses)) [] es"
  let ?hits = "filter (\<lambda>e'. flow_key e' = flow_key e) es"
  have e: "e \<in> set expenses" using snoc.prems by simp
  have IH: "map_of ?acc k' = flow_of (filter (\<lambda>e. flow_key e = k') es)" for k'
    using snoc by auto
  have none: "?hits = []" if "target e \<noteq> OTHER_NAME"
  proof -
    have "flow_key e' \<noteq> flow_key e" if e': "e' \<in> set es" for e'
    proof
      assume "flow_key e' = flow_key e"
      moreover have e'x: "e' \<in> set expenses" using e' snoc.prems(1) by auto
      ultimately have "from_name e' = from_name e" "target e' = target e"
        using flow_key_eq [OF assms(1) _ e] by auto
      with \<open>target e \<noteq> OTHER_NAME\<close> have "(from_name e, to_name e) = (from_name e', to_name e')"
        using destinations(3) [OF assms(1) e] destinations(3) [OF assms(1) e'x] by simp
      with snoc.prems(2) e' show False by (auto simp: image_iff)
    qed
    then show ?thesis by (auto simp: filter_empty_conv)
  qed
  show ?case
    using none by (auto simp: accumulate_flow_step [OF assms(1) e] IH flow_of_def total_cost_sum total_usage_sum)
qed (simp add: flow_of_def)

lemma flow_keys_distinct: "distinct (map fst (foldl (accumulate_flow dm) [] es))"
proof -
  have "distinct (map fst acc) \<Longrightarrow> distinct (map fst (foldl (accumulate_flow dm) acc es))" for acc
    by (induction es arbitrary: acc) (auto simp: accumulate_flow_def Let_def distinct_obj_set)
  then show ?thesis by simp
qed

definition flows :: "traffic_expense list \<Rightarrow> traffic_expense list \<Rightarrow> (string \<times> map_flow) list" where
  "flows expenses es = foldl (accumulate_flow (destinationsMap expenses)) [] es"

lemma flow_exists:
  assumes "plain_traffic expenses" "set es \<subseteq> set expenses" "distinct (map (\<lambda>e. (from_name e, to_name e)) es)"
    "(k, f) \<in> set (flows expenses es)"
  shows "\<exists>e \<in> set es. flow_key e = k \<and> fl_from f = te_from e \<and> pl_name (fl_to f) = target e
     \<and> fl_cost f = total_cost (filter (\<lambda>e'. flow_key e' = k) es)"
proof -
  let ?hits = "filter (\<lambda>e. flow_key e = k) es"
  have "map_of (flows expenses es) k = Some f"
    using assms(4) flow_keys_distinct by (simp add: flows_def)
  then have f: "flow_of ?hits = Some f" using flow_entry [OF assms(1-3)] by (simp add: flows_def)
  then have ne: "?hits \<noteq> []" by (auto simp: flow_of_def)
  then have "last ?hits \<in> set ?hits" by (rule last_in_set)
  then have "last ?hits \<in> set es" "flow_key (last ?hits) = k" by simp_all
  moreover have "pl_name (flow_end (last ?hits)) = target (last ?hits)"
    using \<open>last ?hits \<in> set es\<close> assms(2) destinations(3) [OF assms(1)] by (auto simp: flow_end_def)
  ultimately show ?thesis using f ne by (intro bexI [of _ "last ?hits"]) (auto simp: flow_of_def)
qed

lemma flows_total:
  assumes "plain_traffic expenses" "set es \<subseteq> set expenses" "distinct (map (\<lambda>e. (from_name e, to_name e)) es)"
  shows "sum_list (map fl_cost (map snd (flows expenses es))) = total_cost es"
proof -
  let ?fs = "flows expenses es"
  have eq: "map fl_cost (map snd ?fs) = map (\<lambda>k. sum_list (map te_cost (filter (\<lambda>e. flow_key e = k) es))) (map fst ?fs)"
  proof -
    have "fl_cost f = sum_list (map te_cost (filter (\<lambda>e. flow_key e = k) es))" if "(k, f) \<in> set ?fs" for k f
      using flow_exists [OF assms that] by (auto simp: total_cost_sum)
    then show ?thesis by auto
  qed
  have "flow_key e \<in> set (map fst ?fs)" if "e \<in> set es" for e
  proof -
    have "map_of ?fs (flow_key e) \<noteq> None"
      using flow_entry [OF assms, of "flow_key e"] that by (auto simp: flows_def flow_of_def filter_empty_conv)
    then show ?thesis by (simp add: map_of_eq_None_iff)
  qed
  moreover have "distinct (map fst ?fs)" using flow_keys_distinct by (simp add: flows_def)
  ultimately show ?thesis
    unfolding total_cost_sum eq by (intro sum_by_key) blast+
qed

section \<open>The view and the clicks\<close>

lemma selected_filter: "\<exists>P. selectedTrafficExpenses expenses sel = filter P expenses"
  by (auto simp: selectedTrafficExpenses_def intro: exI [of _ "\<lambda>_. True"])

lemma selected_plain:
  assumes "plain_traffic expenses"
  shows "set (selectedTrafficExpenses expenses sel) \<subseteq> set expenses"
    "distinct (map (\<lambda>e. (from_name e, to_name e)) (selectedTrafficExpenses expenses sel))"
  using selected_filter [of expenses sel] plain_trafficD(4) [OF assms]
  by (auto simp: distinct_map inj_on_def)

lemma located_selected:
  assumes "plain_traffic expenses"
  shows "filter (\<lambda>e. located (te_from e)) (selectedTrafficExpenses expenses sel) = selectedTrafficExpenses expenses sel"
  using selected_plain(1) [OF assms, of sel] plain_trafficD(1) [OF assms] by (intro filter_True) auto

lemma view_totals:
  assumes "plain_traffic expenses"
  shows "sum_list (map row_total (tv_tableData (useTrafficExpenses expenses sel))) = total_cost (selectedTrafficExpenses expenses sel)"
    "sum_list (map lo_totalExpenses (mk_locations (tv_markers (useTrafficExpenses expenses sel))))
       = total_cost (selectedTrafficExpenses expenses sel)"
    "sum_list (map fl_cost (mk_flows (tv_markers (useTrafficExpenses expenses sel))))
       = total_cost (selectedTrafficExpenses expenses sel)"
proof -
  let ?es = "selectedTrafficExpenses expenses sel"
  have "plain_place (te_to e)" if "e \<in> set ?es" for e
    using that selected_plain(1) [OF assms] plain_trafficD(3) [OF assms in_places(2)] by blast
  then show "sum_list (map row_total (tv_tableData (useTrafficExpenses expenses sel))) = total_cost ?es"
    using table_total [of ?es] by (simp add: useTrafficExpenses_def Let_def)
  show "sum_list (map lo_totalExpenses (mk_locations (tv_markers (useTrafficExpenses expenses sel)))) = total_cost ?es"
    using locations_total [OF assms selected_plain(1) [OF assms]] by (simp add: useTrafficExpenses_def Let_def)
  show "sum_list (map fl_cost (mk_flows (tv_markers (useTrafficExpenses expenses sel)))) = total_cost ?es"
    using flows_total [OF assms selected_plain [OF assms]] located_selected [OF assms]
    by (simp add: useTrafficExpenses_def Let_def getMarkers_def flows_def)
qed

lemma shown_location:
  assumes "plain_traffic expenses" "l \<in> set (mk_locations (tv_markers (useTrafficExpenses expenses sel)))"
    "lo_id l = Some u" "u \<noteq> OTHER_NAME"
  shows "lo_summary l = map (summary_of (destinationsMap expenses))
     (sort_key (\<lambda>e. - te_cost e) (filter (\<lambda>e. from_name e = u) (selectedTrafficExpenses expenses sel)))"
proof -
  let ?es = "selectedTrafficExpenses expenses sel"
  obtain k where "(k, l) \<in> set (foldl accumulate_location [] (concat (map (location_of ?es (destinationsMap expenses)) (uniqueDestinations ?es))))"
    using assms(2) by (auto simp: useTrafficExpenses_def getMarkers_def Let_def)
  then obtain u' where u': "u' \<in> set (uniqueDestinations ?es)" "l \<in> set (location_of ?es (destinationsMap expenses) u')"
    using accumulated_from assms(3,4) by fastforce
  then obtain p where "p \<in> set (places expenses)" "u' = pl_name p"
    using selected_plain(1) [OF assms(1)] by (force simp: uniqueDestinations_places places_def)
  then have "u' = u" using id_of [OF assms(1)] location_of_shape [OF u'(2)] assms(3,4) by fastforce
  with location_of_shape [OF u'(2)] show ?thesis by simp
qed

lemma flow_click:
  assumes "plain_traffic expenses"
    "f \<in> set (mk_flows (tv_markers (useTrafficExpenses expenses sel)))"
    "origin \<in> set (mk_locations (tv_markers (useTrafficExpenses expenses sel)))" "lo_id origin = Some (pl_name (fl_from f))"
    "lo_id dest = Some (pl_name (fl_to f))"
  shows "selectedTrafficExpenses expenses (onMapClick expenses (FlowObject origin dest)) =
     filter (\<lambda>e. from_name e = pl_name (fl_from f) \<and> target e = pl_name (fl_to f)) (selectedTrafficExpenses expenses sel)"
    "total_cost (selectedTrafficExpenses expenses (onMapClick expenses (FlowObject origin dest))) = fl_cost f"
proof -
  let ?es = "selectedTrafficExpenses expenses sel"
  note es = selected_plain [OF assms(1), of sel]
  obtain k where "(k, f) \<in> set (flows expenses ?es)"
    using assms(2) located_selected [OF assms(1)] by (auto simp: useTrafficExpenses_def getMarkers_def Let_def flows_def)
  then obtain e where e: "e \<in> set ?es" "flow_key e = k" "fl_from f = te_from e" "pl_name (fl_to f) = target e"
      and cost: "fl_cost f = total_cost (filter (\<lambda>e'. flow_key e' = k) ?es)"
    using flow_exists [OF assms(1) es] by blast
  have dests: "map_of (destinationsMap expenses) (from_name x) = Some (from_name x)"
      "map_of (destinationsMap expenses) (to_name x) = Some (target x)" if "x \<in> set ?es" for x
    using destinations(1,2) [OF assms(1)] es(1) that by auto
  have "from_name e \<noteq> OTHER_NAME" using destinations(4) [OF assms(1)] es(1) e(1) by auto
  then have summary: "lo_summary origin = map (summary_of (destinationsMap expenses))
      (sort_key (\<lambda>e. - te_cost e) (filter (\<lambda>x. from_name x = from_name e) ?es))"
    using shown_location [OF assms(1,3)] assms(4) e(3) by simp
  define columns where "columns = map fs_original_to (filter (\<lambda>datum. fs_mapped_from datum = lo_id origin
      \<and> fs_mapped_to datum = lo_id dest) (lo_summary origin))"
  have columns: "set columns = to_name ` {x \<in> set ?es. from_name x = from_name e \<and> target x = target e}"
    using dests dests [OF e(1)] assms(4,5) e(3,4)
    by (auto simp: columns_def summary filter_map comp_def summary_of_def intro!: image_eqI)
  have sel': "onMapClick expenses (FlowObject origin dest) = selection [from_name e] columns"
    using assms(4) e(3) by (simp add: onMapClick_def columns_def name_key_def)
  have "columns \<noteq> []" using columns e(1) by (metis (mono_tags, lifting) empty_iff image_eqI list.set(1) mem_Collect_eq)
  then have new: "selectedTrafficExpenses expenses (onMapClick expenses (FlowObject origin dest))
      = filter (\<lambda>x. from_name x = from_name e \<and> to_name x \<in> set columns) expenses"
    unfolding sel' by (auto simp: selectedTrafficExpenses_def selection_def intro!: filter_cong)
  obtain P where P: "?es = filter P expenses" using selected_filter by blast
  have iff: "from_name x = from_name e \<and> to_name x \<in> set columns \<longleftrightarrow>
      P x \<and> from_name x = from_name e \<and> target x = target e" if "x \<in> set expenses" for x
  proof
    assume l: "from_name x = from_name e \<and> to_name x \<in> set columns"
    then obtain y where y: "y \<in> set ?es" "from_name y = from_name e" "target y = target e" "to_name x = to_name y"
      by (auto simp: columns)
    have "x = y"
      using same_pair [OF plain_trafficD(4) [OF assms(1)] that, of y] y l es(1) by auto
    then show "P x \<and> from_name x = from_name e \<and> target x = target e" using y P by auto
  next
    assume "P x \<and> from_name x = from_name e \<and> target x = target e"
    then show "from_name x = from_name e \<and> to_name x \<in> set columns" using that P by (auto simp: columns)
  qed
  have final: "selectedTrafficExpenses expenses (onMapClick expenses (FlowObject origin dest))
      = filter (\<lambda>x. from_name x = from_name e \<and> target x = target e) ?es"
    unfolding new P filter_filter by (rule filter_cong [OF refl]) (use iff in blast)
  then show "selectedTrafficExpenses expenses (onMapClick expenses (FlowObject origin dest)) =
     filter (\<lambda>e. from_name e = pl_name (fl_from f) \<and> target e = pl_name (fl_to f)) ?es"
    by (simp add: e(3,4))
  have "flow_key x = k \<longleftrightarrow> from_name x = from_name e \<and> target x = target e" if "x \<in> set ?es" for x
    using flow_key_eq [OF assms(1), of x e] es(1) that e(1,2) by auto
  then have "filter (\<lambda>e'. flow_key e' = k) ?es = filter (\<lambda>x. from_name x = from_name e \<and> target x = target e) ?es"
    by (intro filter_cong) auto
  then show "total_cost (selectedTrafficExpenses expenses (onMapClick expenses (FlowObject origin dest))) = fl_cost f"
    using final cost by simp
qed

end
