(* ===== verification/RegionMap.thy ===== *)
theory RegionMap
  imports Arrays
begin

text \<open>
  \<open>hooks/useGeoClusterer.ts\<close> and \<open>utils/geo.ts\<close>: markers of the map of regions that are closer
  than a distance depending on the zoom become one cluster.  The geometry is that of real numbers;
  the clustering takes the test of two markers and the centre of a cluster as arguments.
\<close>

section \<open>Geometry\<close>

definition degreeToRadian :: "real \<Rightarrow> real" where
  "degreeToRadian degree = degree * (pi / 180)"

definition radianToDegree :: "real \<Rightarrow> real" where
  "radianToDegree radian = radian * (180 / pi)"

definition getGeoDistance :: "real \<Rightarrow> real \<Rightarrow> real \<Rightarrow> real \<Rightarrow> real" where
  "getGeoDistance lat1 lon1 lat2 lon2 =
     (let a = 1 / 2 - cos (degreeToRadian (lat2 - lat1)) / 2
            + (cos (degreeToRadian lat1) * cos (degreeToRadian lat2) * (1 - cos (degreeToRadian (lon2 - lon1)))) / 2
      in 2 * 6371 * arcsin (sqrt a))"

text \<open>\<open>Math.atan2\<close>.\<close>

definition atan2 :: "real \<Rightarrow> real \<Rightarrow> real" where
  "atan2 y x = (if x > 0 then arctan (y / x)
     else if x < 0 then (if y \<ge> 0 then arctan (y / x) + pi else arctan (y / x) - pi)
     else if y > 0 then pi / 2 else if y < 0 then - pi / 2 else 0)"

definition getGeoPointBetween :: "(real \<times> real) list \<Rightarrow> real \<times> real" where
  "getGeoPointBetween points =
     (let n = of_nat (length points); rads = map (\<lambda>(lat, lon). (degreeToRadian lat, degreeToRadian lon)) points;
          X = sum_list (map (\<lambda>(lat, lon). cos lat * cos lon) rads) / n;
          Y = sum_list (map (\<lambda>(lat, lon). cos lat * sin lon) rads) / n;
          Z = sum_list (map (\<lambda>(lat, lon). sin lat) rads) / n;
          hyp = sqrt (X * X + Y * Y)
      in (radianToDegree (atan2 Z hyp), radianToDegree (atan2 Y X)))"

section \<open>The clusters\<close>

record 'p marker =
  mk_name :: string
  mk_total :: rat
  mk_point :: 'p

datatype 'p shown_marker =
    Single "'p marker"
  | Cluster "'p marker" "'p marker list"

text \<open>The outer loop at marker \<open>i\<close>: the later markers near it that no cluster has, then itself.\<close>

definition cluster_step ::
  "('p \<Rightarrow> 'p \<Rightarrow> bool) \<Rightarrow> 'p marker list \<Rightarrow> nat \<Rightarrow> nat list \<times> 'p marker list list \<Rightarrow> nat list \<times> 'p marker list list" where
  "cluster_step near markers i = (\<lambda>(clusteredIndexes, clusters).
     if i \<in> set clusteredIndexes then (clusteredIndexes, clusters)
     else (let js = filter (\<lambda>j. j \<notin> set clusteredIndexes \<and> near (mk_point (markers ! i)) (mk_point (markers ! j)))
                     [Suc i..<length markers] in
           if js = [] then (clusteredIndexes, clusters)
           else (clusteredIndexes @ js @ [i], clusters @ [map (nth markers) js @ [markers ! i]])))"

definition find_clusters :: "('p \<Rightarrow> 'p \<Rightarrow> bool) \<Rightarrow> 'p marker list \<Rightarrow> nat list \<times> 'p marker list list" where
  "find_clusters near markers = fold (cluster_step near markers) [0..<length markers] ([], [])"

text \<open>The marker of a cluster, with its items by descending total (\<open>sortObjects\<close> is stable).\<close>

definition cluster_marker :: "('p list \<Rightarrow> 'p) \<Rightarrow> nat \<Rightarrow> 'p marker list \<Rightarrow> 'p shown_marker" where
  "cluster_marker centre i cluster =
     Cluster \<lparr>mk_name = ''cluster-'' @ nat_str i @ ''-'' @ nat_str (length cluster),
              mk_total = fold (\<lambda>m totalSum. totalSum + mk_total m) cluster 0,
              mk_point = centre (map mk_point cluster)\<rparr>
       (sort_key (\<lambda>m. - mk_total m) cluster)"

definition cluster_markers ::
  "('p \<Rightarrow> 'p \<Rightarrow> bool) \<Rightarrow> ('p list \<Rightarrow> 'p) \<Rightarrow> 'p marker list \<Rightarrow> 'p shown_marker list" where
  "cluster_markers near centre markers =
     (let (clusteredIndexes, clusters) = find_clusters near markers in
      map Single (map (nth markers) (filter (\<lambda>i. i \<notin> set clusteredIndexes) [0..<length markers]))
      @ map (\<lambda>(i, cluster). cluster_marker centre i cluster) (enumerate 0 clusters))"

text \<open>\<open>useGeoClusterer\<close>: a zoom of zero gives an infinite distance.\<close>

definition geo_near :: "real \<Rightarrow> real \<times> real \<Rightarrow> real \<times> real \<Rightarrow> bool" where
  "geo_near zoom = (\<lambda>(lat, lon) (lat2, lon2). zoom = 0 \<or> getGeoDistance lat lon lat2 lon2 < 1500 / zoom)"

definition useGeoClusterer :: "(real \<times> real) marker list \<Rightarrow> real \<Rightarrow> (real \<times> real) shown_marker list" where
  "useGeoClusterer markers zoom = cluster_markers (geo_near zoom) getGeoPointBetween markers"

section \<open>No marker is lost\<close>

primrec marker_items :: "'p shown_marker \<Rightarrow> 'p marker list" where
  "marker_items (Single m) = [m]"
| "marker_items (Cluster c ms) = ms"

primrec shown_total :: "'p shown_marker \<Rightarrow> rat" where
  "shown_total (Single m) = mk_total m"
| "shown_total (Cluster c ms) = mk_total c"

definition clusters_ok :: "'p marker list \<Rightarrow> nat list \<times> 'p marker list list \<Rightarrow> bool" where
  "clusters_ok markers s \<longleftrightarrow> distinct (fst s) \<and> set (fst s) \<subseteq> {..<length markers}
     \<and> concat (snd s) = map (nth markers) (fst s) \<and> (\<forall>c \<in> set (snd s). 2 \<le> length c)"

lemma cluster_step_ok:
  "clusters_ok markers s \<Longrightarrow> i < length markers \<Longrightarrow> clusters_ok markers (cluster_step near markers i s)"
proof (cases s)
  case (Pair ixs cs)
  assume ok: "clusters_ok markers s" and i: "i < length markers"
  let ?js = "filter (\<lambda>j. j \<notin> set ixs \<and> near (mk_point (markers ! i)) (mk_point (markers ! j))) [Suc i..<length markers]"
  show ?thesis
  proof (cases "i \<in> set ixs \<or> ?js = []")
    case True
    with ok show ?thesis by (auto simp: Pair cluster_step_def Let_def)
  next
    case False
    then have "Suc 0 \<le> length ?js" by (metis Suc_leI length_greater_0_conv)
    moreover have "distinct (ixs @ ?js @ [i])" "set (ixs @ ?js @ [i]) \<subseteq> {..<length markers}"
      using ok i False by (auto simp: clusters_ok_def Pair)
    ultimately show ?thesis
      using ok False by (auto simp: clusters_ok_def Pair cluster_step_def Let_def)
  qed
qed

lemma find_clusters_ok: "clusters_ok markers (find_clusters near markers)"
proof -
  have "clusters_ok markers s \<Longrightarrow> set ixs \<subseteq> {..<length markers} \<Longrightarrow>
      clusters_ok markers (fold (cluster_step near markers) ixs s)" for ixs s
    by (induction ixs arbitrary: s) (simp_all add: cluster_step_ok)
  moreover have "clusters_ok markers ([], [])" by (simp add: clusters_ok_def)
  moreover have "set [0..<length markers] \<subseteq> {..<length markers}" by auto
  ultimately show ?thesis unfolding find_clusters_def by blast
qed

lemma marker_items_cluster_markers: "mset (concat (map marker_items (cluster_markers near centre markers))) = mset markers"
proof -
  obtain ixs cs where s: "find_clusters near markers = (ixs, cs)" by (cases "find_clusters near markers")
  have ok: "distinct ixs" "set ixs \<subseteq> {..<length markers}" "concat cs = map (nth markers) ixs"
    using find_clusters_ok [of markers near] by (simp_all add: s clusters_ok_def)
  let ?rest = "filter (\<lambda>i. i \<notin> set ixs) [0..<length markers]"
  have "mset (concat (map marker_items (map (\<lambda>(i, cluster). cluster_marker centre i cluster) (enumerate n cs)))) = mset (concat cs)" for n
    by (induction cs arbitrary: n) (simp_all add: cluster_marker_def)
  moreover have "concat (map marker_items (map Single ms)) = ms" for ms :: "'a marker list"
    by (induction ms) auto
  ultimately have "mset (concat (map marker_items (cluster_markers near centre markers)))
      = mset (map (nth markers) ?rest) + mset (concat cs)"
    unfolding cluster_markers_def s Let_def prod.case map_append concat_append mset_append by metis
  also have "\<dots> = image_mset (nth markers) (mset (?rest @ ixs))"
    by (simp only: ok(3) mset_map mset_append image_mset_union)
  also have "mset (?rest @ ixs) = mset [0..<length markers]"
    using ok(1,2) by (intro set_eq_iff_mset_eq_distinct [THEN iffD1]) auto
  also have "image_mset (nth markers) (mset [0..<length markers]) = mset markers"
    by (metis map_nth mset_map)
  finally show ?thesis .
qed

lemma shown_total_items:
  "m \<in> set (cluster_markers near centre markers) \<Longrightarrow> shown_total m = sum_list (map mk_total (marker_items m))"
  using sum_mset_eq [OF mset_sort [symmetric], of mk_total]
  by (auto simp: cluster_markers_def cluster_marker_def fold_sum split: prod.splits)

lemma cluster_markers_total:
  "sum_list (map shown_total (cluster_markers near centre markers)) = sum_list (map mk_total markers)"
proof -
  have "sum_list (map shown_total (cluster_markers near centre markers))
      = sum_list (map (\<lambda>m. sum_list (map mk_total (marker_items m))) (cluster_markers near centre markers))"
    by (intro arg_cong [of _ _ sum_list] map_cong) (simp_all add: shown_total_items)
  also have "\<dots> = sum_list (map mk_total (concat (map marker_items (cluster_markers near centre markers))))"
    by (rule sum_concat [symmetric])
  also have "\<dots> = sum_list (map mk_total markers)"
    by (rule sum_mset_eq) (rule marker_items_cluster_markers)
  finally show ?thesis .
qed

text \<open>A cluster has at least two items, the most expensive first.\<close>

lemma cluster_shape:
  assumes "Cluster c ms \<in> set (cluster_markers near centre markers)"
  shows "2 \<le> length ms" "sorted_wrt (\<lambda>a b. mk_total b \<le> mk_total a) ms"
proof -
  obtain ixs cs where s: "find_clusters near markers = (ixs, cs)" by (cases "find_clusters near markers")
  then obtain k where k: "k \<in> set cs" "ms = sort_key (\<lambda>m. - mk_total m) k"
    using assms by (auto simp: cluster_markers_def cluster_marker_def enumerate_eq_zip dest!: set_zip_rightD)
  show "2 \<le> length ms" using k find_clusters_ok [of markers near] by (simp add: s clusters_ok_def)
  have "sorted (map (\<lambda>m. - mk_total m) ms)" by (simp add: k(2))
  then show "sorted_wrt (\<lambda>a b. mk_total b \<le> mk_total a) ms" by (simp add: sorted_map)
qed

section \<open>What is near and what is not\<close>

lemma cluster_step_grows: "set (fst s) \<subseteq> set (fst (cluster_step near markers i s))"
  by (auto simp: cluster_step_def Let_def split: prod.splits)

lemma cluster_fold_grows: "set (fst s) \<subseteq> set (fst (fold (cluster_step near markers) is' s))"
proof (induction is' arbitrary: s)
  case (Cons i is')
  from subset_trans [OF cluster_step_grows Cons.IH] show ?case by (simp del: split_paired_All)
qed simp

text \<open>Two markers that stay single are not near each other.\<close>

lemma singles_far:
  assumes "i < j" "j < length markers"
    "i \<notin> set (fst (find_clusters near markers))" "j \<notin> set (fst (find_clusters near markers))"
  shows "\<not> near (mk_point (markers ! i)) (mk_point (markers ! j))"
proof
  assume near: "near (mk_point (markers ! i)) (mk_point (markers ! j))"
  define before where "before = fold (cluster_step near markers) [0..<i] ([], [])"
  let ?now = "cluster_step near markers i before"
  have "[0..<length markers] = [0..<i] @ i # [Suc i..<length markers]"
    using assms(1,2) by (metis less_trans upt_add_eq_append upt_conv_Cons le_add_diff_inverse less_imp_le zero_le)
  then have "find_clusters near markers = fold (cluster_step near markers) [Suc i..<length markers] ?now"
    by (simp add: find_clusters_def before_def)
  then have "set (fst ?now) \<subseteq> set (fst (find_clusters near markers))" using cluster_fold_grows by metis
  moreover have "set (fst before) \<subseteq> set (fst ?now)" by (rule cluster_step_grows)
  ultimately have out: "i \<notin> set (fst before)" "j \<notin> set (fst before)" "j \<notin> set (fst ?now)" using assms(3,4) by auto
  let ?js = "filter (\<lambda>j. j \<notin> set (fst before) \<and> near (mk_point (markers ! i)) (mk_point (markers ! j))) [Suc i..<length markers]"
  have "j \<in> set ?js" using out near assms(1,2) by simp
  then have "j \<in> set (fst ?now)" using out(1) by (auto simp: filter_empty_conv cluster_step_def Let_def split: prod.splits)
  with out(3) show False ..
qed

definition shown_singles :: "'p shown_marker list \<Rightarrow> 'p marker list" where
  "shown_singles ms = concat (map (\<lambda>m. case m of Single x \<Rightarrow> [x] | Cluster c xs \<Rightarrow> []) ms)"

lemma cluster_markers_singles:
  "sorted_wrt (\<lambda>a b. \<not> near (mk_point a) (mk_point b)) (shown_singles (cluster_markers near centre markers))"
proof -
  obtain ixs cs where s: "find_clusters near markers = (ixs, cs)" by (cases "find_clusters near markers")
  have "shown_singles (map Single ms @ rest) = ms @ shown_singles rest" for ms and rest :: "'a shown_marker list"
    by (induction ms) (simp_all add: shown_singles_def)
  moreover have "shown_singles (map (\<lambda>(i, k). cluster_marker centre i k) ks) = []" for ks
    by (induction ks) (auto simp: shown_singles_def cluster_marker_def)
  ultimately have "shown_singles (cluster_markers near centre markers)
      = map (nth markers) (filter (\<lambda>i. i \<notin> set ixs) [0..<length markers])"
    by (simp only: cluster_markers_def s Let_def prod.case append_Nil2)
  moreover have "sorted_wrt (\<lambda>i j. i < j) (filter (\<lambda>i. i \<notin> set ixs) [0..<length markers])"
    by (rule sorted_wrt_filter) simp
  ultimately show ?thesis
    using singles_far [of _ _ markers near] by (auto simp: sorted_wrt_map s intro: sorted_wrt_mono_rel [rotated])
qed

text \<open>In a cluster one marker is near all the others.\<close>

definition around :: "('p \<Rightarrow> 'p \<Rightarrow> bool) \<Rightarrow> 'p marker \<Rightarrow> 'p marker list \<Rightarrow> bool" where
  "around near m ms \<longleftrightarrow> m \<in> set ms \<and> (\<forall>m' \<in> set (remove1 m ms). near (mk_point m) (mk_point m'))"

lemma around_mset: "mset ms = mset ms' \<Longrightarrow> around near m ms = around near m ms'"
  unfolding around_def by (metis mset_remove1 set_mset_mset)

lemma clusters_around: "list_all (\<lambda>k. around near (last k) k) (snd (find_clusters near markers))"
proof -
  have "list_all (\<lambda>k. around near (last k) k) (snd s) \<Longrightarrow>
      list_all (\<lambda>k. around near (last k) k) (snd (fold (cluster_step near markers) is' s))" for is' s
  proof (induction is' arbitrary: s)
    case (Cons i is')
    have a: "around near m (xs @ [m])" if "\<forall>x \<in> set xs. near (mk_point m) (mk_point x)" for m xs
    proof -
      have "around near m (m # xs)" using that by (simp add: around_def)
      then show ?thesis using around_mset [of "m # xs" "xs @ [m]"] by simp
    qed
    have "list_all (\<lambda>k. around near (last k) k) (snd (cluster_step near markers i s))"
      using Cons.prems by (auto simp: cluster_step_def Let_def split: prod.splits intro!: a)
    with Cons.IH show ?case by simp
  qed simp
  then show ?thesis by (simp add: find_clusters_def)
qed

primrec well_shaped :: "('p \<Rightarrow> 'p \<Rightarrow> bool) \<Rightarrow> 'p shown_marker \<Rightarrow> bool" where
  "well_shaped near (Single m) = True"
| "well_shaped near (Cluster c ms) = (2 \<le> length ms \<and> sorted_wrt (\<lambda>a b. mk_total b \<le> mk_total a) ms
     \<and> mk_total c = sum_list (map mk_total ms) \<and> (\<exists>m \<in> set ms. around near m ms))"

lemma cluster_markers_shaped: "list_all (well_shaped near) (cluster_markers near centre markers)"
proof -
  have "well_shaped near (Cluster c ms)" if c: "Cluster c ms \<in> set (cluster_markers near centre markers)" for c ms
  proof -
    obtain ixs cs where s: "find_clusters near markers = (ixs, cs)" by (cases "find_clusters near markers")
    then obtain k where k: "k \<in> set cs" "ms = sort_key (\<lambda>m. - mk_total m) k"
      using c by (auto simp: cluster_markers_def cluster_marker_def enumerate_eq_zip dest!: set_zip_rightD)
    then have "around near (last k) k" using clusters_around [of near markers] by (simp add: s list_all_iff)
    then have "around near (last k) ms" using around_mset [of k ms] k(2) by simp
    then have "\<exists>m \<in> set ms. around near m ms" by (auto simp: around_def)
    then show ?thesis using cluster_shape [OF c] shown_total_items [OF c] by simp
  qed
  then show ?thesis unfolding list_all_iff by (metis shown_marker.exhaust well_shaped.simps(1))
qed

end
