(* ===== verification/ViewHooks.thy ===== *)
theory ViewHooks
  imports JsPrelude
begin

text \<open>
  Two hooks of the view with a state of their own: \<open>useHideActionsForSmallScreens.ts\<close>, which hides
  actions of a bar until they fit, and \<open>usePaginationTableSettings.ts\<close>, which turns a parameter of
  the address into the page of a table.
\<close>

section \<open>Actions that fit\<close>

datatype bar_mode = CollapseMode | HideMode

text \<open>What the effect reads besides its own state: the arguments of the hook, the media query, the
  width, whether both elements are rendered, and whether title and buttons touch when so many actions
  are hidden (\<open>isOverflow\<close>, measured in the document).\<close>

record action_bar =
  ab_enabled :: bool
  ab_mode :: bar_mode
  ab_isMobile :: bool
  ab_itemsLength :: nat
  ab_wrapperWidth :: int
  ab_rendered :: bool
  ab_isOverflow :: "nat \<Rightarrow> bool"

record bar_state =
  bs_hidden :: nat
  bs_lastWidth :: int
  bs_shown :: bool

definition bar_init :: bar_state where
  "bar_init = \<lparr>bs_hidden = 0, bs_lastWidth = 0, bs_shown = False\<rparr>"

definition bar_effect :: "action_bar \<Rightarrow> bar_state \<Rightarrow> bar_state" where
  "bar_effect bar s =
     (if \<not> ab_enabled bar then s
      else if ab_mode bar = CollapseMode then
        (if ab_isMobile bar \<and> bs_hidden s \<noteq> ab_itemsLength bar then s\<lparr>bs_hidden := ab_itemsLength bar\<rparr>
         else if \<not> ab_isMobile bar \<and> bs_hidden s \<noteq> 0 then s\<lparr>bs_hidden := 0\<rparr> else s)
      else if \<not> ab_rendered bar then s
      else
        (let isOverflow = ab_isOverflow bar (bs_hidden s);
             s1 = (if isOverflow \<and> bs_hidden s < ab_itemsLength bar then s\<lparr>bs_hidden := bs_hidden s + 1\<rparr>
                   else if \<not> isOverflow \<and> bs_hidden s \<noteq> 0 \<and> \<not> bs_shown s
                   then s\<lparr>bs_shown := True, bs_hidden := bs_hidden s - 1\<rparr> else s);
             s2 = (if bs_lastWidth s < ab_wrapperWidth bar then s1\<lparr>bs_shown := False\<rparr> else s1) in
         s2\<lparr>bs_lastWidth := ab_wrapperWidth bar\<rparr>))"

text \<open>The effect runs again after every render that changed the number of hidden actions.\<close>

partial_function (option) settle :: "action_bar \<Rightarrow> bar_state \<Rightarrow> bar_state option" where
  "settle bar s =
     (let s' = bar_effect bar s in
      if bs_hidden s' = bs_hidden s then Some s' else settle bar s')"

subsection \<open>The bar comes to rest\<close>

definition may_show :: "action_bar \<Rightarrow> bar_state \<Rightarrow> nat" where
  "may_show bar s = (if bs_lastWidth s < ab_wrapperWidth bar then 2 else if bs_shown s then 0 else 1)"

lemma hide_step:
  assumes "ab_enabled bar" "ab_mode bar = HideMode" "ab_rendered bar"
    "bs_hidden (bar_effect bar s) \<noteq> bs_hidden s"
  shows "bs_hidden (bar_effect bar s) = bs_hidden s + 1 \<and> bs_hidden s < ab_itemsLength bar
        \<and> may_show bar (bar_effect bar s) \<le> may_show bar s
     \<or> Suc (bs_hidden (bar_effect bar s)) = bs_hidden s \<and> may_show bar (bar_effect bar s) < may_show bar s"
  using assms by (auto simp: bar_effect_def Let_def may_show_def split: if_splits)

lemma settle_hide:
  assumes "ab_enabled bar" "ab_mode bar = HideMode" "ab_rendered bar"
  shows "\<exists>s'. settle bar s = Some s' \<and> bs_hidden s \<le> bs_hidden s' + may_show bar s"
proof (induction s rule: wf_induct_rule [OF wf_measures [of "[may_show bar, \<lambda>s. ab_itemsLength bar - bs_hidden s]"]])
  case (1 s)
  let ?s' = "bar_effect bar s"
  show ?case
  proof (cases "bs_hidden ?s' = bs_hidden s")
    case True
    then show ?thesis by (subst settle.simps) simp
  next
    case False
    then have rest: "settle bar s = settle bar ?s'" by (subst settle.simps) simp
    have step: "bs_hidden s \<le> bs_hidden ?s' + (may_show bar s - may_show bar ?s') \<and> may_show bar ?s' \<le> may_show bar s
        \<and> (may_show bar ?s' < may_show bar s \<or> ab_itemsLength bar - bs_hidden ?s' < ab_itemsLength bar - bs_hidden s)"
      using hide_step [OF assms False] by auto
    then have "(?s', s) \<in> measures [may_show bar, \<lambda>s. ab_itemsLength bar - bs_hidden s]" by auto
    from "1.IH" [OF this] step show ?thesis unfolding rest by (auto intro: order_trans)
  qed
qed

lemma settle_collapse:
  assumes "ab_enabled bar" "ab_mode bar = CollapseMode"
  shows "\<exists>s'. settle bar s = Some s' \<and> bs_hidden s' = (if ab_isMobile bar then ab_itemsLength bar else 0)"
  using assms by (subst settle.simps, auto simp: Let_def bar_effect_def split: if_splits)
    (subst settle.simps, simp add: Let_def bar_effect_def)+

lemma settle_idle: "\<not> ab_enabled bar \<or> ab_mode bar = HideMode \<and> \<not> ab_rendered bar \<Longrightarrow> settle bar s = Some s"
  by (subst settle.simps) (auto simp: bar_effect_def)

lemma settle_total: "\<exists>s'. settle bar s = Some s'"
  using settle_hide settle_collapse settle_idle by (metis bar_mode.exhaust)

text \<open>At rest, the actions fit or all are hidden; an action could be shown only if one was shown
  already for this width.\<close>

lemma settle_rest:
  assumes "settle bar s = Some s'"
  shows "\<exists>s0. s' = bar_effect bar s0 \<and> bs_hidden s' = bs_hidden s0"
proof -
  let ?P = "\<lambda>b s s'. \<exists>s0. s' = bar_effect b s0 \<and> bs_hidden s' = bs_hidden s0"
  show ?thesis
  proof (rule settle.raw_induct [of ?P, OF _ assms])
    fix f b s s'
    assume "\<And>b s s'. f b s = Some s' \<Longrightarrow> ?P b s s'"
      and "(let s' = bar_effect b s in if bs_hidden s' = bs_hidden s then Some s' else f b s') = Some s'"
    then show "?P b s s'" by (auto simp: Let_def split: if_splits)
  qed
qed

lemma rest_fits:
  assumes "settle bar s = Some s'" "ab_enabled bar" "ab_mode bar = HideMode" "ab_rendered bar"
  shows "ab_isOverflow bar (bs_hidden s') \<Longrightarrow> ab_itemsLength bar \<le> bs_hidden s'"
proof -
  obtain s0 where "s' = bar_effect bar s0" "bs_hidden s' = bs_hidden s0" using settle_rest [OF assms(1)] by blast
  with assms(2-4) show "ab_isOverflow bar (bs_hidden s') \<Longrightarrow> ab_itemsLength bar \<le> bs_hidden s'"
    by (auto simp: bar_effect_def Let_def split: if_splits)
qed

text \<open>A wider bar shows two actions at once: the flag is dropped after it was set.\<close>

definition wide_bar :: action_bar where
  "wide_bar = \<lparr>ab_enabled = True, ab_mode = HideMode, ab_isMobile = False, ab_itemsLength = 5, ab_wrapperWidth = 900,
     ab_rendered = True, ab_isOverflow = (\<lambda>_. False)\<rparr>"

lemma two_actions_shown:
  "settle wide_bar \<lparr>bs_hidden = 5, bs_lastWidth = 300, bs_shown = True\<rparr>
     = Some \<lparr>bs_hidden = 5, bs_lastWidth = 900, bs_shown = False\<rparr>"
  "settle wide_bar \<lparr>bs_hidden = 5, bs_lastWidth = 300, bs_shown = False\<rparr>
     = Some \<lparr>bs_hidden = 3, bs_lastWidth = 900, bs_shown = True\<rparr>"
  by ((subst settle.simps, simp add: wide_bar_def bar_effect_def)+)

section \<open>Pages\<close>

text \<open>\<open>Number(v)\<close> of a parameter that \<open>query-string\<close> has parsed: a text it returns is no numeral
  (a blank one is zero), an array of two or more values is no number.\<close>

definition param_number :: "jsval \<Rightarrow> rat option" where
  "param_number v =
     (case v of
        Num x \<Rightarrow> Some x
      | Bool b \<Rightarrow> Some (if b then 1 else 0)
      | Null \<Rightarrow> Some 0
      | Str s \<Rightarrow> if list_all (\<lambda>c. c \<in> {CHR '' '', CHR 0x09, CHR 0x0A, CHR 0x0B, CHR 0x0C, CHR 0x0D, CHR 0xA0}) s
                 then Some 0 else None
      | _ \<Rightarrow> None)"

definition getPageQueryParamValue :: "obj \<Rightarrow> string \<Rightarrow> rat" where
  "getPageQueryParamValue searchParams key =
     (case param_number (js_default (obj_get searchParams key) (Num 1)) of
        None \<Rightarrow> 1
      | Some x \<Rightarrow> if of_int \<lfloor>x\<rfloor> \<noteq> x \<or> x \<le> 0 then 1 else x)"

definition getPageIndexQueryParamValue :: "obj \<Rightarrow> string \<Rightarrow> int" where
  "getPageIndexQueryParamValue searchParams key = \<lfloor>getPageQueryParamValue searchParams key\<rfloor> - 1"

record pagination =
  pg_pageSize :: int
  pg_pageIndex :: int

text \<open>The state of the pagination; \<open>None\<close>: a page size that is no positive integer.  \<open>stored\<close> is the
  local state, which starts with the parameter of the address.\<close>

definition initial_pagination :: "bool \<Rightarrow> obj \<Rightarrow> string \<Rightarrow> int \<Rightarrow> pagination" where
  "initial_pagination enablePaginationQueryParam searchParams key pageSize =
     \<lparr>pg_pageSize = pageSize,
      pg_pageIndex = (if enablePaginationQueryParam then getPageIndexQueryParamValue searchParams key else 0)\<rparr>"

definition paginationState :: "int \<Rightarrow> int \<Rightarrow> pagination \<Rightarrow> pagination" where
  "paginationState rowsCount pageSize stored =
     (let pagesCount = \<lceil>(of_int rowsCount :: rat) / of_int pageSize\<rceil>; lastPageIndex = pagesCount - 1 in
      \<lparr>pg_pageSize = pg_pageSize stored, pg_pageIndex = min lastPageIndex (pg_pageIndex stored)\<rparr>)"

definition usePaginationTableSettings :: "int \<Rightarrow> int option \<Rightarrow> pagination \<Rightarrow> pagination" where
  "usePaginationTableSettings rowsCount pageSize stored =
     (case pageSize of
        Some n \<Rightarrow> if 0 < n then paginationState rowsCount n stored else \<lparr>pg_pageSize = rowsCount, pg_pageIndex = 0\<rparr>
      | None \<Rightarrow> \<lparr>pg_pageSize = rowsCount, pg_pageIndex = 0\<rparr>)"

text \<open>\<open>onPaginationChange\<close>: the new local state, and the parameter written to the address.\<close>

definition onPaginationChange ::
  "bool \<Rightarrow> string \<Rightarrow> (pagination \<Rightarrow> pagination) \<Rightarrow> pagination \<Rightarrow> pagination \<times> (string \<times> jsval) list" where
  "onPaginationChange enablePaginationQueryParam key updater stored =
     (let new = updater stored in
      (new, if enablePaginationQueryParam then [(key, Num (of_int (pg_pageIndex new + 1)))] else []))"

lemma page_index_nonneg: "0 \<le> getPageIndexQueryParamValue searchParams key"
  by (auto simp: getPageIndexQueryParamValue_def getPageQueryParamValue_def le_floor_iff split: option.splits)

lemma page_has_rows:
  assumes "0 < rowsCount" "0 < n" "0 \<le> pg_pageIndex stored"
  shows "0 \<le> pg_pageIndex (usePaginationTableSettings rowsCount (Some n) stored)"
    "pg_pageIndex (usePaginationTableSettings rowsCount (Some n) stored) * n < rowsCount"
proof -
  let ?x = "(of_int rowsCount :: rat) / of_int n"
  have "0 < ?x" using assms by simp
  then have "1 \<le> \<lceil>?x\<rceil>" by (simp add: less_ceiling_iff flip: int_one_le_iff_zero_less)
  with assms show "0 \<le> pg_pageIndex (usePaginationTableSettings rowsCount (Some n) stored)"
    by (simp add: usePaginationTableSettings_def paginationState_def Let_def)
  have "of_int (\<lceil>?x\<rceil> - 1) < ?x" using ceiling_correct [of ?x] by simp
  then have "of_int ((\<lceil>?x\<rceil> - 1) * n) < (of_int rowsCount :: rat)"
    using assms(2) by (simp add: pos_less_divide_eq)
  then have "(\<lceil>?x\<rceil> - 1) * n < rowsCount" by (simp only: of_int_less_iff)
  moreover have "min (\<lceil>?x\<rceil> - 1) (pg_pageIndex stored) * n \<le> (\<lceil>?x\<rceil> - 1) * n"
    using assms(2) by (intro mult_right_mono) auto
  ultimately have "min (\<lceil>?x\<rceil> - 1) (pg_pageIndex stored) * n < rowsCount" by (rule order.strict_trans1 [rotated])
  then show "pg_pageIndex (usePaginationTableSettings rowsCount (Some n) stored) * n < rowsCount"
    using assms(2) by (simp add: usePaginationTableSettings_def paginationState_def Let_def)
qed

text \<open>Without rows there is no such page: the index is -1.\<close>

lemma empty_table_page: "0 < n \<Longrightarrow> 0 \<le> pg_pageIndex stored \<Longrightarrow>
    pg_pageIndex (usePaginationTableSettings 0 (Some n) stored) = - 1"
  by (simp add: usePaginationTableSettings_def paginationState_def Let_def)

end
