(* ===== verification/RecommendationCatalogue.thy ===== *)
theory RecommendationCatalogue
  imports ArrayOrder
begin

text \<open>
  The recommendations the user interface knows
  (\<open>containers/RecommendationsOverviewContainer/recommendations\<close>): the constant fields of every
  class, the cloud services of \<open>hooks/useRecommendationServices.ts\<close>, and the collections of classes
  by type.  The components a class refers to (columns, previews, settings modals) are left out.
\<close>

section \<open>The classes\<close>

text \<open>The values of the description message are options of the recommendation: a name and the path
  of the option.  The link of \<open>ReservedInstances\<close> is a function and left out.\<close>

record recommendation_class =
  rc_type :: string
  rc_name :: string
  rc_title :: string
  rc_descriptionMessageId :: string
  rc_messageValues :: "(string \<times> string list) list"
  rc_emptyMessageId :: string
  rc_services :: "string list"
  rc_appliedDataSources :: "string list"
  rc_categories :: "string list"
  rc_hasSettings :: bool
  rc_withExclusions :: bool
  rc_withCleanupScripts :: bool
  rc_dismissible :: bool
  rc_resourceDescriptionMessageId :: string

definition AbandonedImages :: recommendation_class where
  "AbandonedImages = \<lparr>rc_type = ''abandoned_images'', rc_name = ''abandonedImages'',
     rc_title = ''abandonedImagesTitle'', rc_descriptionMessageId = ''abandonedImagesDescription'',
     rc_messageValues = [(''daysThreshold'', [''days_threshold''])],
     rc_emptyMessageId = ''noAbandonedImages'',
     rc_services = [''nebius'', ''gcpComputeEngine''],
     rc_appliedDataSources = [''nebius'', ''gcp_cnr''],
     rc_categories = [''cost''], rc_hasSettings = True, rc_withExclusions = True,
     rc_withCleanupScripts = False, rc_dismissible = True,
     rc_resourceDescriptionMessageId = ''abandonedImagesResourceRecommendation''\<rparr>"

definition AbandonedInstances :: recommendation_class where
  "AbandonedInstances = \<lparr>rc_type = ''abandoned_instances'', rc_name = ''abandonedInstances'',
     rc_title = ''abandonedInstancesTitle'', rc_descriptionMessageId = ''abandonedInstancesDescription'',
     rc_messageValues = [(''cpuPercentThreshold'', [''cpu_percent_threshold'']), (''networkBpsThreshold'', [''network_bps_threshold'']), (''daysThreshold'', [''days_threshold''])],
     rc_emptyMessageId = ''noAbandonedInstances'',
     rc_services = [''alibabaEcs'', ''azureCompute'', ''awsEc2'', ''awsRds'', ''nebius''],
     rc_appliedDataSources = [''alibaba_cnr'', ''aws_cnr'', ''azure_cnr'', ''nebius''],
     rc_categories = [''cost''], rc_hasSettings = True, rc_withExclusions = True,
     rc_withCleanupScripts = False, rc_dismissible = True,
     rc_resourceDescriptionMessageId = ''abandonedInstancesResourceRecommendation''\<rparr>"

definition AbandonedKinesisStreams :: recommendation_class where
  "AbandonedKinesisStreams = \<lparr>rc_type = ''abandoned_kinesis_streams'', rc_name = ''abandonedKinesisStreams'',
     rc_title = ''abandonedKinesisStreamsTitle'', rc_descriptionMessageId = ''abandonedKinesisStreamsDescription'',
     rc_messageValues = [(''daysThreshold'', [''days_threshold''])],
     rc_emptyMessageId = ''noAbandonedKinesisStreams'',
     rc_services = [''awsKinesis''],
     rc_appliedDataSources = [''aws_cnr''],
     rc_categories = [''cost''], rc_hasSettings = True, rc_withExclusions = True,
     rc_withCleanupScripts = False, rc_dismissible = True,
     rc_resourceDescriptionMessageId = ''abandonedKinesisStreamsResourceRecommendation''\<rparr>"

definition AbandonedLoadBalancers :: recommendation_class where
  "AbandonedLoadBalancers = \<lparr>rc_type = ''abandoned_load_balancers'', rc_name = ''abandonedLoadBalancers'',
     rc_title = ''abandonedLoadBalancersTitle'', rc_descriptionMessageId = ''abandonedLoadBalancersDescription'',
     rc_messageValues = [(''bytesSentThreshold'', [''bytes_sent_threshold'']), (''packetsSendThreshold'', [''packets_sent_threshold'']), (''daysThreshold'', [''days_threshold'']), (''requestsThreshold'', [''requests_threshold''])],
     rc_emptyMessageId = ''noAbandonedLoadBalancers'',
     rc_services = [''azureNetwork'', ''awsEc2'', ''alibabaSlb''],
     rc_appliedDataSources = [''azure_cnr'', ''aws_cnr'', ''alibaba_cnr''],
     rc_categories = [''cost''], rc_hasSettings = True, rc_withExclusions = True,
     rc_withCleanupScripts = False, rc_dismissible = True,
     rc_resourceDescriptionMessageId = ''abandonedLoadBalancersResourceRecommendation''\<rparr>"

definition AbandonedNebiusS3Buckets :: recommendation_class where
  "AbandonedNebiusS3Buckets = \<lparr>rc_type = ''s3_abandoned_buckets_nebius'', rc_name = ''abandonedNebiusS3Buckets'',
     rc_title = ''abandonedNebiusS3Buckets'', rc_descriptionMessageId = ''abandonedNebiusS3BucketsDescription'',
     rc_messageValues = [(''dataSizeAvg'', [''data_size_threshold'']), (''daysThreshold'', [''days_threshold'']), (''getRequestsQuantity'', [''get_request_quantity_threshold'']), (''postRequestsQuantity'', [''post_request_quantity_threshold'']), (''putRequestsQuantity'', [''put_request_quantity_threshold'']), (''headRequestsQuantity'', [''head_request_quantity_threshold'']), (''optionsRequestsQuantity'', [''options_request_quantity_threshold'']), (''deleteRequestsQuantity'', [''delete_request_quantity_threshold''])],
     rc_emptyMessageId = ''noAbandonedNebiusS3Buckets'',
     rc_services = [''nebius''],
     rc_appliedDataSources = [''nebius''],
     rc_categories = [''cost''], rc_hasSettings = True, rc_withExclusions = True,
     rc_withCleanupScripts = False, rc_dismissible = True,
     rc_resourceDescriptionMessageId = ''abandonedNebiusS3BucketsResourceRecommendation''\<rparr>"

definition AbandonedS3Buckets :: recommendation_class where
  "AbandonedS3Buckets = \<lparr>rc_type = ''s3_abandoned_buckets'', rc_name = ''abandonedS3Buckets'',
     rc_title = ''abandonedS3Buckets'', rc_descriptionMessageId = ''abandonedS3BucketsDescription'',
     rc_messageValues = [(''daysThreshold'', [''days_threshold'']), (''dataSizeAvg'', [''data_size_threshold'']), (''tier1RequestsQuantity'', [''tier_1_request_quantity_threshold'']), (''tier2RequestsQuantity'', [''tier_2_request_quantity_threshold''])],
     rc_emptyMessageId = ''noAbandonedS3Buckets'',
     rc_services = [''awsS3''],
     rc_appliedDataSources = [''aws_cnr''],
     rc_categories = [''cost''], rc_hasSettings = True, rc_withExclusions = True,
     rc_withCleanupScripts = False, rc_dismissible = True,
     rc_resourceDescriptionMessageId = ''abandonedS3BucketsResourceRecommendation''\<rparr>"

definition CvocAgreementOpportunities :: recommendation_class where
  "CvocAgreementOpportunities = \<lparr>rc_type = ''cvos_opportunities'', rc_name = ''cvosAgreementOpportunities'',
     rc_title = ''cvosAgreementOpportunitiesTitle'', rc_descriptionMessageId = ''cvosAgreementOpportunitiesDescription'',
     rc_messageValues = [(''daysThreshold'', [''days_threshold''])],
     rc_emptyMessageId = ''noCvosAgreementOpportunities'',
     rc_services = [''nebius''],
     rc_appliedDataSources = [''nebius''],
     rc_categories = [''cost''], rc_hasSettings = True, rc_withExclusions = True,
     rc_withCleanupScripts = False, rc_dismissible = True,
     rc_resourceDescriptionMessageId = ''abandonedImagesResourceRecommendation''\<rparr>"

definition InactiveConsoleUsers :: recommendation_class where
  "InactiveConsoleUsers = \<lparr>rc_type = ''inactive_console_users'', rc_name = ''inactiveConsoleUsers'',
     rc_title = ''inactiveConsoleUsersTitle'', rc_descriptionMessageId = ''inactiveConsoleUsersDescription'',
     rc_messageValues = [(''daysThreshold'', [''days_threshold''])],
     rc_emptyMessageId = ''noInactiveConsoleUsers'',
     rc_services = [''awsIam''],
     rc_appliedDataSources = [''aws_cnr''],
     rc_categories = [''security''], rc_hasSettings = True, rc_withExclusions = False,
     rc_withCleanupScripts = False, rc_dismissible = False,
     rc_resourceDescriptionMessageId = ''''\<rparr>"

definition InactiveUsers :: recommendation_class where
  "InactiveUsers = \<lparr>rc_type = ''inactive_users'', rc_name = ''inactiveUsers'',
     rc_title = ''inactiveUsersTitle'', rc_descriptionMessageId = ''inactiveUsersDescription'',
     rc_messageValues = [(''daysThreshold'', [''days_threshold''])],
     rc_emptyMessageId = ''noInactiveUsers'',
     rc_services = [''awsIam'', ''nebius'', ''gcpAim''],
     rc_appliedDataSources = [''aws_cnr'', ''nebius'', ''gcp_cnr''],
     rc_categories = [''security''], rc_hasSettings = True, rc_withExclusions = False,
     rc_withCleanupScripts = False, rc_dismissible = False,
     rc_resourceDescriptionMessageId = ''''\<rparr>"

definition InsecureSecurityGroups :: recommendation_class where
  "InsecureSecurityGroups = \<lparr>rc_type = ''insecure_security_groups'', rc_name = ''insecureSecurityGroups'',
     rc_title = ''resourcesHaveInsecureSGSettingsTitle'', rc_descriptionMessageId = ''insecureSecurityGroupsDescription'',
     rc_messageValues = [],
     rc_emptyMessageId = ''noSGOpened'',
     rc_services = [''awsEc2Vpc'', ''azureNetwork'', ''gcpComputeEngine'', ''nebius'', ''alibabaEcs'', ''alibabaSlb''],
     rc_appliedDataSources = [''aws_cnr'', ''azure_cnr'', ''gcp_cnr'', ''nebius''],
     rc_categories = [''security''], rc_hasSettings = True, rc_withExclusions = True,
     rc_withCleanupScripts = False, rc_dismissible = False,
     rc_resourceDescriptionMessageId = ''insecureSecurityGroupsResourceRecommendation''\<rparr>"

definition InstanceSubscription :: recommendation_class where
  "InstanceSubscription = \<lparr>rc_type = ''instance_subscription'', rc_name = ''instanceSubscription'',
     rc_title = ''instanceSubscriptionSavingOpportunitiesTitle'', rc_descriptionMessageId = ''instanceSubscriptionDescription'',
     rc_messageValues = [(''daysThreshold'', [''days_threshold''])],
     rc_emptyMessageId = ''noInstanceSubscription'',
     rc_services = [''alibabaEcs''],
     rc_appliedDataSources = [''alibaba_cnr''],
     rc_categories = [''cost''], rc_hasSettings = True, rc_withExclusions = True,
     rc_withCleanupScripts = False, rc_dismissible = True,
     rc_resourceDescriptionMessageId = ''instanceSubscriptionResourceRecommendation''\<rparr>"

definition InstancesForShutdown :: recommendation_class where
  "InstancesForShutdown = \<lparr>rc_type = ''instances_for_shutdown'', rc_name = ''instancesForShutdown'',
     rc_title = ''instancesForShutdown'', rc_descriptionMessageId = ''instancesForShutdownDescription'',
     rc_messageValues = [(''cpuPercentThreshold'', [''cpu_percent_threshold'']), (''networkBpsThreshold'', [''network_bps_threshold'']), (''daysThreshold'', [''days_threshold''])],
     rc_emptyMessageId = ''noInstancesForShutdown'',
     rc_services = [''awsEc2'', ''awsRds'', ''azureCompute'', ''gcpComputeEngine'', ''alibabaEcs'', ''nebius''],
     rc_appliedDataSources = [''alibaba_cnr'', ''aws_cnr'', ''azure_cnr'', ''nebius'', ''gcp_cnr''],
     rc_categories = [''cost''], rc_hasSettings = True, rc_withExclusions = True,
     rc_withCleanupScripts = False, rc_dismissible = True,
     rc_resourceDescriptionMessageId = ''instancesForShutdownResourceRecommendation''\<rparr>"

definition InstancesGenerationUpgrade :: recommendation_class where
  "InstancesGenerationUpgrade = \<lparr>rc_type = ''instance_generation_upgrade'', rc_name = ''instancesGenerationUpgrade'',
     rc_title = ''instancesGenerationUpgradeTitle'', rc_descriptionMessageId = ''instancesGenerationUpgradeDescription'',
     rc_messageValues = [],
     rc_emptyMessageId = ''noInstancesToUpgrade'',
     rc_services = [''awsEc2'', ''awsRds'', ''azureCompute'', ''alibabaEcs''],
     rc_appliedDataSources = [''alibaba_cnr'', ''aws_cnr'', ''azure_cnr''],
     rc_categories = [''cost''], rc_hasSettings = False, rc_withExclusions = True,
     rc_withCleanupScripts = False, rc_dismissible = True,
     rc_resourceDescriptionMessageId = ''instancesGenerationUpgradeResourceRecommendation''\<rparr>"

definition InstancesInStoppedStateForALongTime :: recommendation_class where
  "InstancesInStoppedStateForALongTime = \<lparr>rc_type = ''instances_in_stopped_state_for_a_long_time'', rc_name = ''instancesInStoppedStateForALongTime'',
     rc_title = ''instancesAreStoppedButNotDeallocatedTitle'', rc_descriptionMessageId = ''instancesInStoppedStateForALongTimeDescription'',
     rc_messageValues = [(''daysThreshold'', [''days_threshold''])],
     rc_emptyMessageId = ''noInstanceMigrationsInStoppedState'',
     rc_services = [''azureCompute'', ''alibabaEcs''],
     rc_appliedDataSources = [''alibaba_cnr'', ''azure_cnr''],
     rc_categories = [''cost''], rc_hasSettings = True, rc_withExclusions = True,
     rc_withCleanupScripts = True, rc_dismissible = True,
     rc_resourceDescriptionMessageId = ''instancesInStoppedStateForALongTimeResourceRecommendation''\<rparr>"

definition InstancesMigration :: recommendation_class where
  "InstancesMigration = \<lparr>rc_type = ''instance_migration'', rc_name = ''instanceMigration'',
     rc_title = ''instanceMigrationTitle'', rc_descriptionMessageId = ''instanceMigrationDescription'',
     rc_messageValues = [],
     rc_emptyMessageId = ''noInstanceMigrations'',
     rc_services = [''awsEc2'', ''awsRds'', ''alibabaEcs''],
     rc_appliedDataSources = [''alibaba_cnr'', ''aws_cnr''],
     rc_categories = [''cost''], rc_hasSettings = False, rc_withExclusions = True,
     rc_withCleanupScripts = False, rc_dismissible = True,
     rc_resourceDescriptionMessageId = ''instanceMigrationResourceRecommendation''\<rparr>"

definition IntelligentTiering :: recommendation_class where
  "IntelligentTiering = \<lparr>rc_type = ''s3_intelligent_tiering'', rc_name = ''intelligentTiering'',
     rc_title = ''intelligentTieringTitle'', rc_descriptionMessageId = ''intelligentTieringDescription'',
     rc_messageValues = [],
     rc_emptyMessageId = ''noIntelligentTiering'',
     rc_services = [''awsS3''],
     rc_appliedDataSources = [''aws_cnr''],
     rc_categories = [''cost''], rc_hasSettings = False, rc_withExclusions = True,
     rc_withCleanupScripts = False, rc_dismissible = True,
     rc_resourceDescriptionMessageId = ''intelligentTieringResourceRecommendation''\<rparr>"

definition NebiusMigration :: recommendation_class where
  "NebiusMigration = \<lparr>rc_type = ''nebius_migration'', rc_name = ''migrationToNebius'',
     rc_title = ''migrationToNebiusTitle'', rc_descriptionMessageId = ''migrationToNebiusDescription'',
     rc_messageValues = [],
     rc_emptyMessageId = ''noMigrationToNebius'',
     rc_services = [''awsEc2'', ''awsRds'', ''azureCompute'', ''alibabaEcs'', ''gcpComputeEngine''],
     rc_appliedDataSources = [''alibaba_cnr'', ''aws_cnr'', ''azure_cnr'', ''gcp_cnr''],
     rc_categories = [''cost''], rc_hasSettings = True, rc_withExclusions = False,
     rc_withCleanupScripts = False, rc_dismissible = False,
     rc_resourceDescriptionMessageId = ''''\<rparr>"

definition ObsoleteImages :: recommendation_class where
  "ObsoleteImages = \<lparr>rc_type = ''obsolete_images'', rc_name = ''obsoleteImages'',
     rc_title = ''obsoleteImagesTitle'', rc_descriptionMessageId = ''obsoleteImagesDescription'',
     rc_messageValues = [(''daysThreshold'', [''days_threshold''])],
     rc_emptyMessageId = ''noObsoleteImages'',
     rc_services = [''awsEc2'', ''alibabaEcs''],
     rc_appliedDataSources = [''alibaba_cnr'', ''aws_cnr''],
     rc_categories = [''cost''], rc_hasSettings = True, rc_withExclusions = False,
     rc_withCleanupScripts = True, rc_dismissible = False,
     rc_resourceDescriptionMessageId = ''''\<rparr>"

definition ObsoleteIps :: recommendation_class where
  "ObsoleteIps = \<lparr>rc_type = ''obsolete_ips'', rc_name = ''obsoleteIps'',
     rc_title = ''obsoleteIpsTitle'', rc_descriptionMessageId = ''obsoleteIpsDescription'',
     rc_messageValues = [(''daysThreshold'', [''days_threshold''])],
     rc_emptyMessageId = ''noObsoleteIps'',
     rc_services = [''awsEc2Vpc'', ''azureNetwork'', ''alibabaEcsVpc'', ''nebius'', ''gcpComputeEngine''],
     rc_appliedDataSources = [''alibaba_cnr'', ''aws_cnr'', ''azure_cnr'', ''nebius'', ''gcp_cnr''],
     rc_categories = [''cost''], rc_hasSettings = True, rc_withExclusions = True,
     rc_withCleanupScripts = False, rc_dismissible = True,
     rc_resourceDescriptionMessageId = ''obsoleteIpsResourceRecommendation''\<rparr>"

definition ObsoleteSnapshotChains :: recommendation_class where
  "ObsoleteSnapshotChains = \<lparr>rc_type = ''obsolete_snapshot_chains'', rc_name = ''obsoleteSnapshotChains'',
     rc_title = ''obsoleteSnapshotChainsTitle'', rc_descriptionMessageId = ''obsoleteSnapshotChainsDescription'',
     rc_messageValues = [(''daysThreshold'', [''days_threshold''])],
     rc_emptyMessageId = ''noObsoleteSnapshotChains'',
     rc_services = [''alibabaEcs''],
     rc_appliedDataSources = [''alibaba_cnr''],
     rc_categories = [''cost''], rc_hasSettings = True, rc_withExclusions = True,
     rc_withCleanupScripts = True, rc_dismissible = True,
     rc_resourceDescriptionMessageId = ''obsoleteSnapshotChainsResourceRecommendation''\<rparr>"

definition ObsoleteSnapshots :: recommendation_class where
  "ObsoleteSnapshots = \<lparr>rc_type = ''obsolete_snapshots'', rc_name = ''obsoleteSnapshots'',
     rc_title = ''obsoleteSnapshotsTitle'', rc_descriptionMessageId = ''obsoleteSnapshotsDescription'',
     rc_messageValues = [(''daysThreshold'', [''days_threshold''])],
     rc_emptyMessageId = ''noObsoleteSnapshots'',
     rc_services = [''awsEc2'', ''nebius'', ''gcpComputeEngine''],
     rc_appliedDataSources = [''aws_cnr'', ''nebius'', ''gcp_cnr''],
     rc_categories = [''cost''], rc_hasSettings = True, rc_withExclusions = True,
     rc_withCleanupScripts = True, rc_dismissible = True,
     rc_resourceDescriptionMessageId = ''obsoleteSnapshotsResourceRecommendation''\<rparr>"

definition PublicS3Buckets :: recommendation_class where
  "PublicS3Buckets = \<lparr>rc_type = ''s3_public_buckets'', rc_name = ''publicS3Buckets'',
     rc_title = ''publicS3BucketsTitle'', rc_descriptionMessageId = ''publicS3BucketsDescription'',
     rc_messageValues = [],
     rc_emptyMessageId = ''noPublicS3Buckets'',
     rc_services = [''awsS3'', ''nebius'', ''gcpCloudStorage''],
     rc_appliedDataSources = [''aws_cnr'', ''nebius'', ''gcp_cnr''],
     rc_categories = [''security''], rc_hasSettings = False, rc_withExclusions = True,
     rc_withCleanupScripts = False, rc_dismissible = True,
     rc_resourceDescriptionMessageId = ''publicS3BucketsResourceRecommendation''\<rparr>"

definition ReservedInstances :: recommendation_class where
  "ReservedInstances = \<lparr>rc_type = ''reserved_instances'', rc_name = ''reservedInstances'',
     rc_title = ''reservedInstancesSavingOpportunitiesTitle'', rc_descriptionMessageId = ''reservedInstancesDescription'',
     rc_messageValues = [(''daysThreshold'', [''days_threshold''])],
     rc_emptyMessageId = ''noReservedInstances'',
     rc_services = [''awsEc2''],
     rc_appliedDataSources = [''aws_cnr''],
     rc_categories = [''cost''], rc_hasSettings = True, rc_withExclusions = True,
     rc_withCleanupScripts = False, rc_dismissible = True,
     rc_resourceDescriptionMessageId = ''reservedInstancesResourceRecommendation''\<rparr>"

definition RightsizingInstances :: recommendation_class where
  "RightsizingInstances = \<lparr>rc_type = ''rightsizing_instances'', rc_name = ''rightsizingInstances'',
     rc_title = ''rightsizingInstancesRecommendationTitle'', rc_descriptionMessageId = ''rightsizingInstancesRecommendationDescription'',
     rc_messageValues = [(''daysThreshold'', [''days_threshold'']), (''metricLimit'', [''metric'', ''limit'']), (''metricType'', [''metric'', ''type''])],
     rc_emptyMessageId = ''noRightsizingInstances'',
     rc_services = [''awsEc2'', ''awsRds'', ''azureCompute'', ''gcpComputeEngine'', ''alibabaEcs'', ''nebius''],
     rc_appliedDataSources = [''alibaba_cnr'', ''aws_cnr'', ''azure_cnr'', ''gcp_cnr'', ''nebius''],
     rc_categories = [''cost''], rc_hasSettings = True, rc_withExclusions = True,
     rc_withCleanupScripts = False, rc_dismissible = True,
     rc_resourceDescriptionMessageId = ''rightsizingInstancesResourceRecommendation''\<rparr>"

definition RightsizingRdsInstances :: recommendation_class where
  "RightsizingRdsInstances = \<lparr>rc_type = ''rightsizing_rds'', rc_name = ''rightsizingRdsInstances'',
     rc_title = ''rightsizingRdsInstancesRecommendationTitle'', rc_descriptionMessageId = ''rightsizingRdsInstancesRecommendationDescription'',
     rc_messageValues = [(''daysThreshold'', [''days_threshold'']), (''metricLimit'', [''metric'', ''limit'']), (''metricType'', [''metric'', ''type''])],
     rc_emptyMessageId = ''noRightsizingRdsInstances'',
     rc_services = [''alibabaRds'', ''nebius''],
     rc_appliedDataSources = [''alibaba_cnr'', ''nebius''],
     rc_categories = [''cost''], rc_hasSettings = True, rc_withExclusions = True,
     rc_withCleanupScripts = True, rc_dismissible = True,
     rc_resourceDescriptionMessageId = ''rightsizingRdsInstancesResourceRecommendation''\<rparr>"

definition ShortLivingInstances :: recommendation_class where
  "ShortLivingInstances = \<lparr>rc_type = ''short_living_instances'', rc_name = ''shortLivingInstances'',
     rc_title = ''possibleSavingsWithSpotInstancesTitle'', rc_descriptionMessageId = ''shortLivingInstancesDescription'',
     rc_messageValues = [(''daysThreshold'', [''days_threshold''])],
     rc_emptyMessageId = ''noNonSpotInstances'',
     rc_services = [''awsEc2'', ''azureCompute'', ''gcpComputeEngine'', ''alibabaEcs'', ''nebius''],
     rc_appliedDataSources = [''alibaba_cnr'', ''aws_cnr'', ''azure_cnr'', ''nebius'', ''gcp_cnr''],
     rc_categories = [''cost''], rc_hasSettings = True, rc_withExclusions = True,
     rc_withCleanupScripts = False, rc_dismissible = False,
     rc_resourceDescriptionMessageId = ''shortLivingInstancesResourceRecommendation''\<rparr>"

definition SnapshotsWithNonUsedImages :: recommendation_class where
  "SnapshotsWithNonUsedImages = \<lparr>rc_type = ''snapshots_with_non_used_images'', rc_name = ''snapshotsWithNonUsedImages'',
     rc_title = ''snapshotsWithNonUsedImagesTitle'', rc_descriptionMessageId = ''snapshotsWithNonUsedImagesDescription'',
     rc_messageValues = [(''daysThreshold'', [''days_threshold''])],
     rc_emptyMessageId = ''noSnapshotsWithNonUsedImages'',
     rc_services = [''awsEc2'', ''alibabaEcs''],
     rc_appliedDataSources = [''alibaba_cnr'', ''aws_cnr''],
     rc_categories = [''cost''], rc_hasSettings = True, rc_withExclusions = True,
     rc_withCleanupScripts = False, rc_dismissible = True,
     rc_resourceDescriptionMessageId = ''snapshotWithNonUsedImagesRecommendation''\<rparr>"

definition VolumesNotAttachedForLongTime :: recommendation_class where
  "VolumesNotAttachedForLongTime = \<lparr>rc_type = ''volumes_not_attached_for_a_long_time'', rc_name = ''volumesNotAttachedForLongTime'',
     rc_title = ''volumesAreNotAttachedTitle'', rc_descriptionMessageId = ''volumesNotAttachedForLongTimeDescription'',
     rc_messageValues = [(''daysThreshold'', [''days_threshold''])],
     rc_emptyMessageId = ''noDetachedVolumes'',
     rc_services = [''alibabaEbs'', ''awsEc2Ebs'', ''azureCompute'', ''gcpComputeEngine'', ''nebius''],
     rc_appliedDataSources = [''alibaba_cnr'', ''aws_cnr'', ''azure_cnr'', ''gcp_cnr'', ''nebius''],
     rc_categories = [''cost''], rc_hasSettings = True, rc_withExclusions = True,
     rc_withCleanupScripts = True, rc_dismissible = True,
     rc_resourceDescriptionMessageId = ''volumesNotAttachedForLongTimeResourceRecommendation''\<rparr>"

definition CrossRegionTraffic :: recommendation_class where
  "CrossRegionTraffic = \<lparr>rc_type = ''cross_region_traffic'', rc_name = ''crossRegionTraffic'',
     rc_title = ''crossRegionTraffic'', rc_descriptionMessageId = ''crossRegionTrafficDescription'',
     rc_messageValues = [],
     rc_emptyMessageId = ''noCrossRegionTraffic'',
     rc_services = [],
     rc_appliedDataSources = [],
     rc_categories = [], rc_hasSettings = False, rc_withExclusions = False,
     rc_withCleanupScripts = False, rc_dismissible = True,
     rc_resourceDescriptionMessageId = ''''\<rparr>"

definition ExecutorsReservation :: recommendation_class where
  "ExecutorsReservation = \<lparr>rc_type = ''executors_reservation'', rc_name = ''executorsReservation'',
     rc_title = ''reservationsForExecutors'', rc_descriptionMessageId = ''reservationsForExecutorsDescription'',
     rc_messageValues = [],
     rc_emptyMessageId = ''noExecutorsUpgrade'',
     rc_services = [],
     rc_appliedDataSources = [],
     rc_categories = [], rc_hasSettings = False, rc_withExclusions = False,
     rc_withCleanupScripts = False, rc_dismissible = True,
     rc_resourceDescriptionMessageId = ''''\<rparr>"

definition ExecutorsUpgrade :: recommendation_class where
  "ExecutorsUpgrade = \<lparr>rc_type = ''executors_upgrade'', rc_name = ''executorsUpgrade'',
     rc_title = ''executorsUpgrade'', rc_descriptionMessageId = ''executorsUpgradeDescription'',
     rc_messageValues = [],
     rc_emptyMessageId = ''noExecutorsUpgrade'',
     rc_services = [],
     rc_appliedDataSources = [],
     rc_categories = [], rc_hasSettings = False, rc_withExclusions = False,
     rc_withCleanupScripts = False, rc_dismissible = True,
     rc_resourceDescriptionMessageId = ''''\<rparr>"

definition GpuMemory :: recommendation_class where
  "GpuMemory = \<lparr>rc_type = ''gpu_memory'', rc_name = ''gpuMemory'',
     rc_title = ''gpuMemory'', rc_descriptionMessageId = ''gpuMemoryDescription'',
     rc_messageValues = [],
     rc_emptyMessageId = ''noRecommendations'',
     rc_services = [],
     rc_appliedDataSources = [],
     rc_categories = [], rc_hasSettings = False, rc_withExclusions = False,
     rc_withCleanupScripts = False, rc_dismissible = True,
     rc_resourceDescriptionMessageId = ''''\<rparr>"

definition LocalStorageBottleneck :: recommendation_class where
  "LocalStorageBottleneck = \<lparr>rc_type = ''local_storage_bottleneck'', rc_name = ''localStorageBottleneck'',
     rc_title = ''localStorageBottleneck'', rc_descriptionMessageId = ''localStorageBottleneckDescription'',
     rc_messageValues = [],
     rc_emptyMessageId = ''noLocalStorageBottlenecks'',
     rc_services = [],
     rc_appliedDataSources = [],
     rc_categories = [], rc_hasSettings = False, rc_withExclusions = False,
     rc_withCleanupScripts = False, rc_dismissible = True,
     rc_resourceDescriptionMessageId = ''''\<rparr>"

definition SpotInstancesUsage :: recommendation_class where
  "SpotInstancesUsage = \<lparr>rc_type = ''spot_instances_usage'', rc_name = ''spotInstancesUsage'',
     rc_title = ''spotPreemptibleInstancesUsage'', rc_descriptionMessageId = ''spotPreemptibleInstancesUsageDescription'',
     rc_messageValues = [],
     rc_emptyMessageId = ''noSpotPreemptibleOnstancesUsage'',
     rc_services = [],
     rc_appliedDataSources = [],
     rc_categories = [], rc_hasSettings = False, rc_withExclusions = False,
     rc_withCleanupScripts = False, rc_dismissible = True,
     rc_resourceDescriptionMessageId = ''''\<rparr>"

section \<open>Services\<close>

text \<open>A service with the type of its data source and its message.\<close>

definition ALIBABA_SERVICES :: "(string \<times> string \<times> string) list" where
  "ALIBABA_SERVICES = [(''alibabaEcs'', ''alibaba_cnr'', ''services.ecs''),
     (''alibabaEcsVpc'', ''alibaba_cnr'', ''services.ecs::vpc''),
     (''alibabaEbs'', ''alibaba_cnr'', ''services.ebs''),
     (''alibabaRds'', ''alibaba_cnr'', ''services.rds''),
     (''alibabaSlb'', ''alibaba_cnr'', ''services.slb'')]"

definition AWS_SERVICES :: "(string \<times> string \<times> string) list" where
  "AWS_SERVICES = [(''awsIam'', ''aws_cnr'', ''services.iam''),
     (''awsEc2'', ''aws_cnr'', ''services.ec2''),
     (''awsEc2Ebs'', ''aws_cnr'', ''services.ec2::ebs''),
     (''awsEc2Vpc'', ''aws_cnr'', ''services.ec2::vpc''),
     (''awsRds'', ''aws_cnr'', ''services.rds''),
     (''awsKinesis'', ''aws_cnr'', ''services.kinesis''),
     (''awsS3'', ''aws_cnr'', ''services.s3'')]"

definition AZURE_SERVICES :: "(string \<times> string \<times> string) list" where
  "AZURE_SERVICES = [(''azureCompute'', ''azure_cnr'', ''services.compute''),
     (''azureNetwork'', ''azure_cnr'', ''services.network'')]"

definition GCP_SERVICES :: "(string \<times> string \<times> string) list" where
  "GCP_SERVICES = [(''gcpComputeEngine'', ''gcp_cnr'', ''services.computeEngine''),
     (''gcpAim'', ''gcp_cnr'', ''services.iam''),
     (''gcpCloudStorage'', ''gcp_cnr'', ''services.cloudStorage'')]"

definition NEBIUS_SERVICES :: "(string \<times> string \<times> string) list" where
  "NEBIUS_SERVICES = [(''nebius'', ''nebius'', ''services.nebius'')]"

text \<open>The value \<open>all\<close> has no type.\<close>

definition useRecommendationServices :: "bool \<Rightarrow> (string \<times> string option \<times> string) list" where
  "useRecommendationServices isNebiusConnectionEnabled =
     (''all'', None, ''all'') # map (\<lambda>(s, t, n). (s, Some t, n))
       (ALIBABA_SERVICES @ AWS_SERVICES @ AZURE_SERVICES @ GCP_SERVICES
        @ (if isNebiusConnectionEnabled then NEBIUS_SERVICES else []))"

section \<open>Collections\<close>

definition by_type :: "recommendation_class list \<Rightarrow> (string \<times> recommendation_class) list" where
  "by_type recommendations = from_entries (map (\<lambda>Rec. (rc_type Rec, Rec)) recommendations)"

definition NEBIUS_RECOMMENDATIONS :: "recommendation_class list" where
  "NEBIUS_RECOMMENDATIONS = [CvocAgreementOpportunities, AbandonedNebiusS3Buckets, NebiusMigration]"

definition DEPRECATED_RECOMMENDATIONS :: "recommendation_class list" where
  "DEPRECATED_RECOMMENDATIONS = [ObsoleteImages]"

definition optscale_classes :: "bool \<Rightarrow> bool \<Rightarrow> recommendation_class list" where
  "optscale_classes isNebiusConnectionEnabled withDeprecated =
     [VolumesNotAttachedForLongTime, ShortLivingInstances, RightsizingRdsInstances, RightsizingInstances,
      ReservedInstances, ObsoleteSnapshots, ObsoleteSnapshotChains, ObsoleteIps, InstanceSubscription,
      InstancesMigration, InstancesInStoppedStateForALongTime, InstancesGenerationUpgrade,
      InstancesForShutdown, InsecureSecurityGroups, InactiveUsers, InactiveConsoleUsers, IntelligentTiering,
      AbandonedS3Buckets, AbandonedKinesisStreams, AbandonedInstances, AbandonedLoadBalancers,
      PublicS3Buckets, SnapshotsWithNonUsedImages, AbandonedImages]
     @ (if isNebiusConnectionEnabled then NEBIUS_RECOMMENDATIONS else [])
     @ (if withDeprecated then DEPRECATED_RECOMMENDATIONS else [])"

definition useOptscaleRecommendations :: "bool \<Rightarrow> bool \<Rightarrow> (string \<times> recommendation_class) list" where
  "useOptscaleRecommendations isNebiusConnectionEnabled withDeprecated =
     by_type (optscale_classes isNebiusConnectionEnabled withDeprecated)"

definition ML_RECOMMENDATIONS :: "(string \<times> recommendation_class) list" where
  "ML_RECOMMENDATIONS = by_type [CrossRegionTraffic, ExecutorsReservation, ExecutorsUpgrade, GpuMemory,
     LocalStorageBottleneck, SpotInstancesUsage]"

definition useAllRecommendations :: "bool \<Rightarrow> bool \<Rightarrow> (string \<times> recommendation_class) list" where
  "useAllRecommendations isNebiusConnectionEnabled withDeprecated =
     obj_spread (obj_spread [] ML_RECOMMENDATIONS) (useOptscaleRecommendations isNebiusConnectionEnabled withDeprecated)"

definition OPTSCALE_RECOMMENDATIONS :: "(string \<times> recommendation_class) list" where
  "OPTSCALE_RECOMMENDATIONS = by_type
     [VolumesNotAttachedForLongTime, ShortLivingInstances, RightsizingRdsInstances, RightsizingInstances,
      ReservedInstances, ObsoleteSnapshots, ObsoleteSnapshotChains, ObsoleteIps, InstanceSubscription,
      InstancesMigration, InstancesInStoppedStateForALongTime, InstancesGenerationUpgrade,
      InstancesForShutdown, InsecureSecurityGroups, InactiveUsers, InactiveConsoleUsers,
      AbandonedS3Buckets, AbandonedKinesisStreams, AbandonedInstances, AbandonedLoadBalancers,
      PublicS3Buckets, SnapshotsWithNonUsedImages, AbandonedImages, AbandonedNebiusS3Buckets,
      CvocAgreementOpportunities]"

definition ALL_RECOMMENDATIONS :: "(string \<times> recommendation_class) list" where
  "ALL_RECOMMENDATIONS = obj_spread (obj_spread [] ML_RECOMMENDATIONS) OPTSCALE_RECOMMENDATIONS"

section \<open>The catalogue is consistent\<close>

lemmas class_defs = AbandonedImages_def AbandonedInstances_def AbandonedKinesisStreams_def AbandonedLoadBalancers_def
  AbandonedNebiusS3Buckets_def AbandonedS3Buckets_def CvocAgreementOpportunities_def InactiveConsoleUsers_def
  InactiveUsers_def InsecureSecurityGroups_def InstanceSubscription_def InstancesForShutdown_def
  InstancesGenerationUpgrade_def InstancesInStoppedStateForALongTime_def InstancesMigration_def IntelligentTiering_def
  NebiusMigration_def ObsoleteImages_def ObsoleteIps_def ObsoleteSnapshotChains_def
  ObsoleteSnapshots_def PublicS3Buckets_def ReservedInstances_def RightsizingInstances_def
  RightsizingRdsInstances_def ShortLivingInstances_def SnapshotsWithNonUsedImages_def VolumesNotAttachedForLongTime_def
  CrossRegionTraffic_def ExecutorsReservation_def ExecutorsUpgrade_def GpuMemory_def
  LocalStorageBottleneck_def SpotInstancesUsage_def

lemmas service_defs = ALIBABA_SERVICES_def AWS_SERVICES_def AZURE_SERVICES_def GCP_SERVICES_def NEBIUS_SERVICES_def

definition service_table :: "(string \<times> string) list" where
  "service_table = map (\<lambda>(s, t, n). (s, t)) (ALIBABA_SERVICES @ AWS_SERVICES @ AZURE_SERVICES @ GCP_SERVICES @ NEBIUS_SERVICES)"

text \<open>The data sources a class names are those of its services.\<close>

definition sources_agree :: "recommendation_class \<Rightarrow> bool" where
  "sources_agree c \<longleftrightarrow> list_all (\<lambda>s. map_of service_table s \<noteq> None) (rc_services c)
     \<and> list_all (\<lambda>s. the (map_of service_table s) \<in> set (rc_appliedDataSources c)) (rc_services c)
     \<and> list_all (\<lambda>d. list_ex (\<lambda>s. map_of service_table s = Some d) (rc_services c)) (rc_appliedDataSources c)"

definition optscale_all :: "recommendation_class list" where
  "optscale_all = optscale_classes True True"

lemma classes_agree:
  "list_all (\<lambda>c. sources_agree c \<or> rc_type c = ''insecure_security_groups'') optscale_all"
  by code_simp

text \<open>The security groups name two services of Alibaba Cloud, but not its data source.\<close>

lemma insecure_groups_sources: "\<not> sources_agree InsecureSecurityGroups"
  by code_simp

lemma type_table: "map rc_type (optscale_classes nebius deprecated) =
  [''volumes_not_attached_for_a_long_time'', ''short_living_instances'', ''rightsizing_rds'',
   ''rightsizing_instances'', ''reserved_instances'', ''obsolete_snapshots'', ''obsolete_snapshot_chains'',
   ''obsolete_ips'', ''instance_subscription'', ''instance_migration'',
   ''instances_in_stopped_state_for_a_long_time'', ''instance_generation_upgrade'', ''instances_for_shutdown'',
   ''insecure_security_groups'', ''inactive_users'', ''inactive_console_users'', ''s3_intelligent_tiering'',
   ''s3_abandoned_buckets'', ''abandoned_kinesis_streams'', ''abandoned_instances'', ''abandoned_load_balancers'',
   ''s3_public_buckets'', ''snapshots_with_non_used_images'', ''abandoned_images'']
  @ (if nebius then [''cvos_opportunities'', ''s3_abandoned_buckets_nebius'', ''nebius_migration''] else [])
  @ (if deprecated then [''obsolete_images''] else [])"
  by (simp add: optscale_classes_def NEBIUS_RECOMMENDATIONS_def DEPRECATED_RECOMMENDATIONS_def class_defs)

lemma types_distinct: "distinct (map rc_type (optscale_classes nebius deprecated))"
proof -
  have "distinct (map rc_type (optscale_classes True True))"
    unfolding type_table by (rule distinct_by_code) code_simp
  then show ?thesis unfolding type_table by (cases nebius; cases deprecated) simp_all
qed

end
