(* ===== verification/Recommendations.thy ===== *)
theory Recommendations
  imports RecommendationCatalogue UiReducers
begin

text \<open>
  What the page of recommendations shows: the fields that \<open>BaseRecommendation.tsx\<close> reads from the
  answer of the optimizations request, the filters of \<open>RecommendationsOverviewContainer/utils.ts\<close>, the
  order of \<open>RecommendationsOverview.tsx\<close>, the pinned recommendations of \<open>Cards.tsx\<close> and the state of
  the controls.  Messages and lower case belong to the locale data and are arguments.
\<close>

section \<open>A recommendation\<close>

record recommendation =
  re_class :: recommendation_class
  re_status :: string
  re_apiResponse :: obj

definition new_recommendation :: "string \<Rightarrow> jsval \<Rightarrow> recommendation_class \<Rightarrow> recommendation" where
  "new_recommendation status apiResponse c =
     \<lparr>re_class = c, re_status = status, re_apiResponse = own_props (js_default apiResponse (Obj []))\<rparr>"

definition statusCategory :: "recommendation \<Rightarrow> string" where
  "statusCategory r =
     (case map_of [(''active'', ''optimizations''), (''dismissed'', ''dismissed_optimizations''),
        (''excluded'', ''excluded_optimizations'')] (re_status r) of Some c \<Rightarrow> c | None \<Rightarrow> ''undefined'')"

definition isActive :: "recommendation \<Rightarrow> bool" where "isActive r \<longleftrightarrow> re_status r = ''active''"
definition isDismissed :: "recommendation \<Rightarrow> bool" where "isDismissed r \<longleftrightarrow> re_status r = ''dismissed''"
definition isExcluded :: "recommendation \<Rightarrow> bool" where "isExcluded r \<longleftrightarrow> re_status r = ''excluded''"

definition type_response :: "recommendation \<Rightarrow> jsval" where
  "type_response r = opt_prop (obj_get (re_apiResponse r) (statusCategory r)) (rc_type (re_class r))"

definition recommendation_of :: "recommendation \<Rightarrow> jsval" where
  "recommendation_of r = js_coalesce (type_response r) (Obj [])"

definition re_error :: "recommendation \<Rightarrow> jsval" where
  "re_error r = opt_prop (type_response r) ''error''"

definition hasError :: "recommendation \<Rightarrow> bool" where
  "hasError r \<longleftrightarrow> truthy (re_error r)"

definition re_items :: "recommendation \<Rightarrow> jsval" where
  "re_items r = js_or (opt_prop (recommendation_of r) ''items'') (Arr [])"

definition allDataSources :: "recommendation \<Rightarrow> jsval" where
  "allDataSources r = js_coalesce (opt_prop (type_response r) ''cloud_accounts'') (Arr [])"

definition re_options :: "recommendation \<Rightarrow> jsval" where
  "re_options r = js_or (opt_prop (recommendation_of r) ''options'') (Obj [])"

definition organizationOptions :: "recommendation \<Rightarrow> jsval" where
  "organizationOptions r =
     js_or (opt_prop (obj_get (re_apiResponse r) ''organizationOptions'') (rc_type (re_class r))) (Obj [])"

definition optionsInSync :: "recommendation \<Rightarrow> bool" where
  "optionsInSync r \<longleftrightarrow> \<not> truthy (js_default (opt_prop (organizationOptions r) ''isUpdated'') (Bool False))"

definition re_count :: "recommendation \<Rightarrow> jsval" where
  "re_count r = js_or (opt_prop (recommendation_of r) ''count'') (Num 0)"

definition re_saving :: "recommendation \<Rightarrow> jsval" where
  "re_saving r = js_or (opt_prop (recommendation_of r) ''saving'') (Num 0)"

definition hasSaving :: "recommendation \<Rightarrow> bool" where
  "hasSaving r \<longleftrightarrow> ''saving'' \<in> fst ` set (own_props (recommendation_of r))"

definition re_label :: "recommendation \<Rightarrow> string" where
  "re_label r = (if hasSaving r then ''savings'' else ''count'')"

definition hasItems :: "recommendation \<Rightarrow> bool" where
  "hasItems r \<longleftrightarrow> \<not> isEmptyArray (re_items r)"

definition hasCategory :: "recommendation \<Rightarrow> string \<Rightarrow> bool" where
  "hasCategory r category \<longleftrightarrow> category \<in> set (rc_categories (re_class r))"

definition re_color :: "recommendation \<Rightarrow> string option" where
  "re_color r =
     (if strict_eq (re_saving r) (Num 0) \<and> strict_eq (re_count r) (Num 0) then Some ''success''
      else if strict_eq (re_saving r) (Num 0) \<and> \<not> strict_eq (re_count r) (Num 0) then Some ''warning''
      else if js_less (Num 100) (re_saving r) then Some ''error'' else None)"

text \<open>The values of the description, read from the options; the option at the end of a path.\<close>

definition descriptionMessageValues :: "recommendation \<Rightarrow> obj" where
  "descriptionMessageValues r =
     map (\<lambda>(name_arg, path). (name_arg, foldl opt_prop (re_options r) path)) (rc_messageValues (re_class r))"

section \<open>Filters and order\<close>

definition categoryFilter :: "string \<Rightarrow> recommendation \<Rightarrow> bool" where
  "categoryFilter category r =
     (if category = ''all'' then True
      else if category \<in> {''cost'', ''security''} then hasCategory r category
      else if category = ''critical'' then re_color r = Some ''error''
      else if category = ''nonEmpty'' then \<not> strict_eq (re_count r) (Num 0)
      else True)"

definition serviceFilter :: "string \<Rightarrow> recommendation \<Rightarrow> bool" where
  "serviceFilter service r = (service = ''all'' \<or> service \<in> set (rc_services (re_class r)))"

text \<open>\<open>formatMessage\<close> of a message id with values, and \<open>toLocaleLowerCase\<close>.\<close>

definition searchFilter ::
  "(string \<Rightarrow> obj \<Rightarrow> string) \<Rightarrow> (string \<Rightarrow> string) \<Rightarrow> string \<Rightarrow> recommendation \<Rightarrow> bool" where
  "searchFilter formatMessage toLower search r =
     (if search = [] then True
      else (let description = toLower (formatMessage (rc_descriptionMessageId (re_class r)) (descriptionMessageValues r));
                title = toLower (formatMessage (rc_title (re_class r)) []);
                searchLowerCase = toLower search
            in has_infix searchLowerCase title \<or> has_infix searchLowerCase description))"

definition appliedDataSourcesFilter :: "string list \<Rightarrow> recommendation \<Rightarrow> bool" where
  "appliedDataSourcesFilter selected r \<longleftrightarrow>
     selected = [] \<or> filter (\<lambda>d. d \<in> set selected) (rc_appliedDataSources (re_class r)) \<noteq> []"

text \<open>The amounts of the answer are numbers.\<close>

definition amount_of :: "jsval \<Rightarrow> rat" where
  "amount_of v = (case v of Num x \<Rightarrow> x | _ \<Rightarrow> 0)"

definition sortRecommendation :: "recommendation \<Rightarrow> recommendation \<Rightarrow> rat" where
  "sortRecommendation a b =
     (if hasSaving a \<and> hasSaving b then amount_of (re_saving b) - amount_of (re_saving a)
      else if hasSaving a \<and> \<not> hasSaving b then - 1
      else if \<not> hasSaving a \<and> hasSaving b then 1
      else amount_of (re_count b) - amount_of (re_count a))"

record overview_controls =
  oc_category :: string
  oc_service :: string
  oc_search :: string
  oc_dataSourceTypes :: "string list"

definition is_shown :: "(string \<Rightarrow> obj \<Rightarrow> string) \<Rightarrow> (string \<Rightarrow> string) \<Rightarrow> overview_controls \<Rightarrow> recommendation \<Rightarrow> bool" where
  "is_shown formatMessage toLower controls r \<longleftrightarrow>
     categoryFilter (oc_category controls) r \<and> serviceFilter (oc_service controls) r
     \<and> searchFilter formatMessage toLower (oc_search controls) r
     \<and> appliedDataSourcesFilter (oc_dataSourceTypes controls) r"

definition RecommendationsOverview ::
  "(string \<Rightarrow> obj \<Rightarrow> string) \<Rightarrow> (string \<Rightarrow> string) \<Rightarrow> (string \<times> recommendation_class) list \<Rightarrow> jsval \<Rightarrow>
   overview_controls \<Rightarrow> recommendation list" where
  "RecommendationsOverview formatMessage toLower recommendationClasses recommendationsData controls =
     sort_by sortRecommendation (filter (is_shown formatMessage toLower controls)
       (map (new_recommendation ''active'' recommendationsData) (map snd recommendationClasses)))"

definition useOrderedRecommendations :: "recommendation list \<Rightarrow> string list \<Rightarrow> recommendation list" where
  "useOrderedRecommendations recommendations pinned =
     concat (map (\<lambda>t. case find (\<lambda>r. rc_type (re_class r) = t) recommendations of None \<Rightarrow> [] | Some r \<Rightarrow> [r]) pinned)
     @ filter (\<lambda>r. rc_type (re_class r) \<notin> set pinned) recommendations"

text \<open>\<open>MlTaskRecommendations.tsx\<close>.\<close>

definition task_recommendations :: "jsval \<Rightarrow> recommendation list" where
  "task_recommendations recommendations =
     sort_by (\<lambda>a b. amount_of (re_count b) - amount_of (re_count a))
       (filter (\<lambda>r. \<not> strict_eq (re_count r) (Num 0))
         (map (new_recommendation ''active'' recommendations) (map snd ALL_RECOMMENDATIONS)))"

text \<open>\<open>useControlState\<close>: the initial value of a control, from the address or the stored state.\<close>

definition control_value :: "jsval \<Rightarrow> jsval \<Rightarrow> jsval list \<Rightarrow> jsval \<Rightarrow> jsval" where
  "control_value queryValue reduxState possibleStates defaultValue =
     (if truthy queryValue then (if array_includes possibleStates queryValue then queryValue else defaultValue)
      else if truthy reduxState then (if array_includes possibleStates reduxState then reduxState else defaultValue)
      else defaultValue)"

lemma control_value_possible:
  "defaultValue \<in> set possibleStates \<Longrightarrow> control_value queryValue reduxState possibleStates defaultValue \<in> set possibleStates"
  by (auto simp: control_value_def includes_iff)

section \<open>The order of the page\<close>

definition by_saving :: "recommendation list \<Rightarrow> recommendation list" where
  "by_saving rs = sort_key (\<lambda>r. - amount_of (re_saving r)) (filter hasSaving rs)"

definition by_count :: "recommendation list \<Rightarrow> recommendation list" where
  "by_count rs = sort_key (\<lambda>r. - amount_of (re_count r)) (filter (\<lambda>r. \<not> hasSaving r) rs)"

lemma insert_with_saving:
  assumes "hasSaving r" "\<forall>x \<in> set xs. hasSaving x" "\<forall>y \<in> set ys. \<not> hasSaving y"
  shows "insert_by sortRecommendation r (xs @ ys) = insort_key (\<lambda>r. - amount_of (re_saving r)) r xs @ ys"
  using assms(2,3)
proof (induction xs)
  case Nil
  with assms(1) show ?case by (cases ys) (auto simp: sortRecommendation_def)
qed (use assms(1) in \<open>auto simp: sortRecommendation_def\<close>)

lemma insert_without_saving:
  assumes "\<not> hasSaving r" "\<forall>x \<in> set xs. hasSaving x" "\<forall>y \<in> set ys. \<not> hasSaving y"
  shows "insert_by sortRecommendation r (xs @ ys) = xs @ insort_key (\<lambda>r. - amount_of (re_count r)) r ys"
  using assms(2,3)
proof (induction xs)
  case Nil
  then show ?case using assms(1) by (simp, intro insert_by_key) (auto simp: sortRecommendation_def)
qed (use assms(1) in \<open>auto simp: sortRecommendation_def\<close>)

lemma sort_recommendations: "sort_by sortRecommendation rs = by_saving rs @ by_count rs"
proof (induction rs)
  case (Cons r rs)
  have s: "\<forall>x \<in> set (by_saving rs). hasSaving x" "\<forall>y \<in> set (by_count rs). \<not> hasSaving y"
    by (simp_all add: by_saving_def by_count_def)
  show ?case
  proof (cases "hasSaving r")
    case True
    then show ?thesis using Cons insert_with_saving [OF True s] by (simp add: by_saving_def by_count_def)
  next
    case False
    then show ?thesis using Cons insert_without_saving [OF False s] by (simp add: by_saving_def by_count_def)
  qed
qed (simp add: by_saving_def by_count_def)

section \<open>Pinned recommendations\<close>

abbreviation re_type :: "recommendation \<Rightarrow> string" where "re_type r \<equiv> rc_type (re_class r)"

lemma find_by_type:
  "distinct (map re_type rs) \<Longrightarrow> r \<in> set rs \<Longrightarrow> find (\<lambda>r'. re_type r' = re_type r) rs = Some r"
  by (induction rs) force+

lemma pinned_types:
  "map re_type (concat (map (\<lambda>t. case find (\<lambda>r. re_type r = t) rs of None \<Rightarrow> [] | Some r \<Rightarrow> [r]) ts))
    = filter (\<lambda>t. t \<in> re_type ` set rs) ts" (is "map re_type (?P ts) = _")
proof (induction ts)
  case (Cons t ts)
  show ?case
  proof (cases "find (\<lambda>r. re_type r = t) rs")
    case None
    then have "t \<notin> re_type ` set rs" by (auto simp: find_None_iff)
    with None Cons show ?thesis by simp
  next
    case (Some r)
    then have "r \<in> set rs" "re_type r = t" by (auto simp: find_Some_iff)
    with Some Cons show ?thesis by auto
  qed
qed simp

lemma pinned_part:
  assumes "distinct (map re_type rs)" "distinct pinned"
  shows "mset (concat (map (\<lambda>t. case find (\<lambda>r. re_type r = t) rs of None \<Rightarrow> [] | Some r \<Rightarrow> [r]) pinned))
    = mset (filter (\<lambda>r. re_type r \<in> set pinned) rs)" (is "mset (?P pinned) = _")
proof -
  have "distinct (map re_type (?P pinned))" unfolding pinned_types using assms(2) by simp
  then have "distinct (?P pinned)" by (simp add: distinct_map)
  moreover have "distinct (filter (\<lambda>r. re_type r \<in> set pinned) rs)"
    using assms(1) by (simp add: distinct_map)
  moreover have "set (?P pinned) = set (filter (\<lambda>r. re_type r \<in> set pinned) rs)"
  proof -
    have "r \<in> set (?P pinned) \<longleftrightarrow> (\<exists>t \<in> set pinned. find (\<lambda>r. re_type r = t) rs = Some r)" for r
      by (auto split: option.splits) (metis)
    moreover have "find (\<lambda>r. re_type r = t) rs = Some r \<longleftrightarrow> r \<in> set rs \<and> re_type r = t" for t r
    proof
      assume "find (\<lambda>r. re_type r = t) rs = Some r"
      then show "r \<in> set rs \<and> re_type r = t" by (auto simp: find_Some_iff)
    qed (use find_by_type [OF assms(1)] in blast)
    ultimately show ?thesis by auto
  qed
  ultimately show ?thesis using set_eq_iff_mset_eq_distinct by blast
qed

lemma ordered_perm:
  assumes "distinct (map re_type rs)" "distinct pinned"
  shows "mset (useOrderedRecommendations rs pinned) = mset rs"
  using pinned_part [OF assms] multiset_partition [of "mset rs" "\<lambda>r. re_type r \<in> set pinned"]
  by (simp add: useOrderedRecommendations_def)

lemma reached_pins_distinct: "distinct pins \<Longrightarrow> distinct (foldl pinned_recommendations_reducer pins actions)"
  by (induction actions arbitrary: pins) (simp_all add: pinned_distinct)

lemma by_type_classes: "distinct (map rc_type cs) \<Longrightarrow> mset (map snd (by_type cs)) = mset cs"
proof -
  have "distinct (map fst es) \<Longrightarrow> (\<forall>k \<in> fst ` set es. k \<notin> fst ` set o') \<Longrightarrow>
      mset (fold (\<lambda>(k, v) o'. obj_set k v o') es o') = mset o' + mset es" for es and o' :: "(string \<times> 'b) list"
  proof (induction es arbitrary: o')
    case (Cons e es)
    obtain k v where e: "e = (k, v)" by (cases e)
    have ins: "mset (obj_insert k v o') = add_mset (k, v) (mset o')"
      by (induction k v o' rule: obj_insert.induct) auto
    have "obj_set k v o' = obj_insert k v o'" using Cons.prems by (simp add: obj_set_def e)
    with ins Cons.prems Cons.IH [of "obj_set k v o'"] show ?case by (auto simp: e keys_obj_insert)
  qed simp
  from this [of "map (\<lambda>Rec. (rc_type Rec, Rec)) cs" "[]"]
  show "distinct (map rc_type cs) \<Longrightarrow> ?thesis"
    by (simp add: by_type_def from_entries_def comp_def multiset.map_comp)
qed

lemma overview_types_distinct:
  "distinct (map re_type (RecommendationsOverview fm lc (useOptscaleRecommendations nebius deprecated) data controls))"
proof -
  let ?cs = "optscale_classes nebius deprecated"
  have "mset (map rc_type (map snd (useOptscaleRecommendations nebius deprecated))) = mset (map rc_type ?cs)"
    using by_type_classes [OF types_distinct] unfolding useOptscaleRecommendations_def mset_map by metis
  then have d: "distinct (map rc_type (map snd (useOptscaleRecommendations nebius deprecated)))"
    using types_distinct by (metis mset_eq_imp_distinct_iff)
  let ?new = "map (new_recommendation ''active'' data) (map snd (useOptscaleRecommendations nebius deprecated))"
  let ?kept = "filter (is_shown fm lc controls) ?new"
  have "map re_type ?new = map rc_type (map snd (useOptscaleRecommendations nebius deprecated))"
    by (simp add: new_recommendation_def)
  with d have "distinct (map re_type ?new)" by (simp only:)
  then have kept: "distinct (map re_type ?kept)" by (rule distinct_map_filter)
  have "mset (map re_type (sort_by sortRecommendation ?kept)) = mset (map re_type ?kept)"
    by (simp only: mset_map mset_sort_by)
  from mset_eq_imp_distinct_iff [OF this] kept show ?thesis
    unfolding RecommendationsOverview_def by (rule iffD2)
qed

text \<open>The cards are the classes that pass, each once, the pinned ones first.\<close>

lemma overview_classes:
  "mset (map re_class (RecommendationsOverview fm lc (useOptscaleRecommendations nebius deprecated) data controls))
    = mset (filter (\<lambda>c. is_shown fm lc controls (new_recommendation ''active'' data c)) (optscale_classes nebius deprecated))"
proof -
  let ?cs = "map snd (useOptscaleRecommendations nebius deprecated)"
  have cs: "mset ?cs = mset (optscale_classes nebius deprecated)"
    unfolding useOptscaleRecommendations_def by (rule by_type_classes [OF types_distinct])
  let ?new = "new_recommendation ''active'' data"
  have classes: "map re_class (filter P (map ?new cs)) = filter (\<lambda>c. P (?new c)) cs" for P cs
    by (induction cs) (simp_all add: new_recommendation_def)
  have "mset (map re_class (sort_by sortRecommendation rs)) = mset (map re_class rs)" for rs
    by (simp only: mset_map mset_sort_by)
  then show ?thesis
    unfolding RecommendationsOverview_def by (simp only: classes mset_filter cs)
qed

text \<open>
  Since when a recommendation is pinned: the position of the action that pinned it, if it was not pinned at
  that time and was not unpinned since.  This is the history of one recommendation on its own.
\<close>

definition pin_step :: "string \<Rightarrow> nat option \<Rightarrow> nat \<times> ui_action \<Rightarrow> nat option" where
  "pin_step t since ia = (case snd ia of
       PIN_RECOMMENDATION t' \<Rightarrow> if t' = t \<and> since = None then Some (fst ia) else since
     | UNPIN_RECOMMENDATION t' \<Rightarrow> if t' = t then None else since
     | _ \<Rightarrow> since)"

definition pinned_since :: "ui_action list \<Rightarrow> string \<Rightarrow> nat option" where
  "pinned_since actions t = foldl (pin_step t) None (zip [0..<length actions] actions)"

lemma pinned_since_snoc:
  "pinned_since (actions @ [a]) t = pin_step t (pinned_since actions t) (length actions, a)"
  by (simp add: pinned_since_def)

lemma pinned_since_less: "pinned_since actions t = Some i \<Longrightarrow> i < length actions"
proof (induction actions rule: rev_induct)
  case (snoc a actions)
  then show ?case by (auto simp: pinned_since_snoc pin_step_def less_Suc_eq split: ui_action.splits if_splits)
qed (simp add: pinned_since_def)

text \<open>Whether one recommendation was pinned after another.\<close>

definition pinned_after :: "ui_action list \<Rightarrow> string \<Rightarrow> string \<Rightarrow> bool" where
  "pinned_after actions t u \<longleftrightarrow> (\<exists>i j. pinned_since actions t = Some i \<and> pinned_since actions u = Some j \<and> j < i)"

lemma pinned_reducer_simps:
  "pinned_recommendations_reducer ts (PIN_RECOMMENDATION t) = (if t \<in> set ts then ts else t # ts)"
  "pinned_recommendations_reducer ts (UNPIN_RECOMMENDATION t) = filter (\<lambda>u. u \<noteq> t) ts"
  by (simp_all add: pinned_recommendations_reducer_def)

text \<open>The reducer keeps the pinned ones in the order of their history, the last one first.\<close>

lemma pins_follow_history:
  "set (foldl pinned_recommendations_reducer [] actions) = {t. pinned_since actions t \<noteq> None}
    \<and> sorted_wrt (pinned_after actions) (foldl pinned_recommendations_reducer [] actions)"
proof (induction actions rule: rev_induct)
  case (snoc a actions)
  define pins where "pins = foldl pinned_recommendations_reducer [] actions"
  have pins: "foldl pinned_recommendations_reducer [] (actions @ [a]) = pinned_recommendations_reducer pins a"
    by (simp add: pins_def)
  have ih: "set pins = {t. pinned_since actions t \<noteq> None}" "sorted_wrt (pinned_after actions) pins" using snoc by (auto simp: pins_def)
  have keep: "sorted_wrt (pinned_after (actions @ [a])) ts"
    if "sorted_wrt (pinned_after actions) ts" "\<forall>t \<in> set ts. pinned_since (actions @ [a]) t = pinned_since actions t" for ts
    using that by (auto simp: pinned_after_def intro: sorted_wrt_mono_rel [rotated])
  show ?case
  proof (cases a)
    case (PIN_RECOMMENDATION t)
    have new: "pinned_since (actions @ [a]) u = (if u = t \<and> t \<notin> set pins then Some (length actions) else pinned_since actions u)" for u
      by (auto simp: pinned_since_snoc pin_step_def PIN_RECOMMENDATION ih(1))
    have sorted: "sorted_wrt (pinned_after (actions @ [a])) pins" by (rule keep [OF ih(2)]) (auto simp: new)
    show ?thesis
    proof (cases "t \<in> set pins")
      case True
      then show ?thesis using ih(1) sorted unfolding pins by (auto simp: PIN_RECOMMENDATION pinned_reducer_simps new [unfolded PIN_RECOMMENDATION])
    next
      case False
      have "pinned_after (actions @ [a]) t u" if u: "u \<in> set pins" for u
      proof -
        obtain j where "pinned_since actions u = Some j" using u ih(1) by auto
        moreover from this have "j < length actions" by (rule pinned_since_less)
        ultimately show ?thesis using False u by (auto simp: pinned_after_def new)
      qed
      then have "sorted_wrt (pinned_after (actions @ [a])) (t # pins)" using sorted by simp
      with False show ?thesis using ih(1) unfolding pins by (auto simp: PIN_RECOMMENDATION pinned_reducer_simps new [unfolded PIN_RECOMMENDATION])
    qed
  next
    case (UNPIN_RECOMMENDATION t)
    have new: "pinned_since (actions @ [a]) u = (if u = t then None else pinned_since actions u)" for u
      by (simp add: pinned_since_snoc pin_step_def UNPIN_RECOMMENDATION)
    have "sorted_wrt (pinned_after (actions @ [a])) (filter (\<lambda>u. u \<noteq> t) pins)"
      by (rule keep [OF sorted_wrt_filter [OF ih(2)]]) (simp add: new)
    then show ?thesis using ih(1)
      unfolding pins by (auto simp: UNPIN_RECOMMENDATION pinned_reducer_simps new [unfolded UNPIN_RECOMMENDATION])
  qed (use snoc in \<open>simp_all add: pinned_recommendations_reducer_def pinned_since_snoc pin_step_def pinned_after_def\<close>)
qed (simp add: pinned_since_def)

text \<open>The pinned cards come first, in the order of the pins; the others follow in the order of the page.\<close>

lemma ordered_parts:
  "\<exists>first. useOrderedRecommendations rs pinned = first @ filter (\<lambda>r. re_type r \<notin> set pinned) rs
    \<and> map re_type first = filter (\<lambda>t. t \<in> re_type ` set rs) pinned"
  by (auto simp: useOrderedRecommendations_def pinned_types)

lemma all_sorted: "sorted_wrt (\<lambda>_ _. True) xs"
  by (induction xs) auto

lemma cards_follow_history:
  defines "cards actions rs \<equiv> useOrderedRecommendations rs (foldl pinned_recommendations_reducer [] actions)"
  shows "sorted_wrt (\<lambda>a b. pinned_since actions (re_type b) = None \<or> pinned_after actions (re_type a) (re_type b)) (cards actions rs)"
    and "filter (\<lambda>r. pinned_since actions (re_type r) = None) (cards actions rs) = filter (\<lambda>r. pinned_since actions (re_type r) = None) rs"
proof -
  let ?pins = "foldl pinned_recommendations_reducer [] actions"
  note history = pins_follow_history [of actions]
  obtain first where f: "cards actions rs = first @ filter (\<lambda>r. re_type r \<notin> set ?pins) rs"
    "map re_type first = filter (\<lambda>t. t \<in> re_type ` set rs) ?pins"
    using ordered_parts [of rs ?pins] unfolding cards_def by blast
  have rest: "filter (\<lambda>r. re_type r \<notin> set ?pins) rs = filter (\<lambda>r. pinned_since actions (re_type r) = None) rs"
    by (simp add: history)
  have "sorted_wrt (pinned_after actions) (map re_type first)"
    unfolding f(2) using history by (simp add: sorted_wrt_filter)
  then have "sorted_wrt (\<lambda>a b. pinned_after actions (re_type a) (re_type b)) first" by (simp add: sorted_wrt_map)
  then have "sorted_wrt (\<lambda>a b. pinned_since actions (re_type b) = None \<or> pinned_after actions (re_type a) (re_type b)) first"
    by (rule sorted_wrt_mono_rel [rotated]) simp
  then show "sorted_wrt (\<lambda>a b. pinned_since actions (re_type b) = None \<or> pinned_after actions (re_type a) (re_type b)) (cards actions rs)"
    unfolding f(1) rest sorted_wrt_append by (auto intro: sorted_wrt_mono_rel [of _ "\<lambda>_ _. True"] simp: all_sorted)
  have "re_type r \<in> set ?pins" if "r \<in> set first" for r
  proof -
    have "re_type r \<in> set (map re_type first)" using that by simp
    then show ?thesis unfolding f(2) by simp
  qed
  then have "filter (\<lambda>r. pinned_since actions (re_type r) = None) first = []" using history by (simp add: filter_empty_conv)
  then show "filter (\<lambda>r. pinned_since actions (re_type r) = None) (cards actions rs) = filter (\<lambda>r. pinned_since actions (re_type r) = None) rs"
    by (simp add: f(1) rest)
qed

end
