(* ===== verification/ResourceFilters.thy ===== *)
theory ResourceFilters
  imports ArrayOrder ServiceFilters
begin

text \<open>
  The filters of the page of resources, \<open>components/Resources/filterConfigs.tsx\<close>, one definition per
  filter: how its values are read from the address, which are the items to choose from, what goes
  into the requests and into a saved perspective, and its text.  Icons, labels, the rendered variants
  of a text and the JSON schemas are left out.  The second half is what uses the filters: the page
  (\<open>ResourcesContainer.tsx\<close>, \<open>Filters.tsx\<close>), the perspectives and the links of constraints.
\<close>

section \<open>Filters\<close>

text \<open>What is outside this program: the nil UUID, \<open>formatMessage\<close>, \<open>formatUTC\<close> with the format of the
  program, the conversions of \<open>date-fns\<close>, the moves between the time zone of the browser and UTC, the ends of a day
  and the names of metadata.\<close>

record filter_env =
  fe_nil :: string
  fe_message :: "string \<Rightarrow> string"
  fe_lower :: "string \<Rightarrow> string"
  fe_formatUTC :: "jsval \<Rightarrow> string"
  fe_toMs :: "rat \<Rightarrow> rat"
  fe_toSec :: "rat \<Rightarrow> rat"
  fe_moveToUTC :: "rat \<Rightarrow> rat"
  fe_moveFromUTC :: "rat \<Rightarrow> rat"
  fe_startOfDay :: "rat \<Rightarrow> rat"
  fe_endOfDay :: "rat \<Rightarrow> rat"
  fe_metaName :: "jsval \<Rightarrow> jsval"

definition ANY_NETWORK_TRAFFIC_LOCATION :: jsval where
  "ANY_NETWORK_TRAFFIC_LOCATION = Str ''ANY''"

text \<open>An applied filter: the selected values with the setting \<open>withSubpools\<close> (\<open>None\<close>: no
  settings or none of them), or the
  two ends of a range in milliseconds.\<close>

datatype applied_filter =
    Selected "jsval list" "bool option"
  | Range "rat option" "rat option"

definition applied_values :: "applied_filter \<Rightarrow> jsval" where
  "applied_values a = (case a of Selected vs settings \<Rightarrow> Arr vs | Range f t \<Rightarrow> Undef)"

fun range_from :: "applied_filter \<Rightarrow> rat option" where
  "range_from (Selected vs s) = None"
| "range_from (Range f t) = f"

fun range_to :: "applied_filter \<Rightarrow> rat option" where
  "range_to (Selected vs s) = None"
| "range_to (Range f t) = t"

record selection_config =
  sc_id :: string
  sc_apiName :: string
  sc_settings :: "string list"
  sc_renderSelectedItem :: "obj \<Rightarrow> jsval"
  sc_searchPredicate :: "obj \<Rightarrow> string \<Rightarrow> bool js"
  sc_getValuesFromSearchParams :: "obj \<Rightarrow> applied_filter"
  sc_getDefaultValue :: applied_filter
  sc_isApplied :: "applied_filter \<Rightarrow> bool"
  sc_getItems :: "jsval \<Rightarrow> obj list js"
  sc_getValue :: "jsval \<Rightarrow> jsval js"
  sc_toApi :: "applied_filter \<Rightarrow> obj"
  sc_filterFilterValues :: "jsval list \<Rightarrow> jsval list \<Rightarrow> jsval list js"
  sc_renderPerspectiveItem :: "jsval \<Rightarrow> jsval \<Rightarrow> jsval js"

record range_config =
  rg_id :: string
  rg_apiName :: string
  rg_fromName :: string
  rg_fromApiName :: string
  rg_toName :: string
  rg_toApiName :: string
  rg_getValuesFromSearchParams :: "obj \<Rightarrow> applied_filter"
  rg_getDefaultValue :: applied_filter
  rg_isApplied :: "applied_filter \<Rightarrow> bool"
  rg_getAppliedRange :: "applied_filter \<Rightarrow> applied_filter"
  rg_getValue :: "jsval \<Rightarrow> jsval js"
  rg_toApi :: "applied_filter \<Rightarrow> obj"
  rg_renderPerspectiveItem :: "jsval \<Rightarrow> jsval \<Rightarrow> jsval"

datatype filter_config = SelectionConfig selection_config | RangeConfig range_config

subsection \<open>Reading the address\<close>

definition getSelectionAppliedValuesFromSearchParams :: "obj \<Rightarrow> string \<Rightarrow> jsval list" where
  "getSelectionAppliedValuesFromSearchParams searchParams parameterName =
     (case obj_get searchParams parameterName of Undef \<Rightarrow> [] | Null \<Rightarrow> [] | Arr vs \<Rightarrow> vs | v \<Rightarrow> [v])"

text \<open>\<open>Number(v)\<close>; \<open>None\<close> is NaN.\<close>

definition js_number :: "jsval \<Rightarrow> rat option" where
  "js_number v = primitive_number (to_primitive v)"

definition getRangeAppliedFilterValuesFromSearchParams :: "filter_env \<Rightarrow> obj \<Rightarrow> string \<Rightarrow> string \<Rightarrow> applied_filter" where
  "getRangeAppliedFilterValuesFromSearchParams env searchParams fromParameterName toParameterName =
     Range (map_option (fe_toMs env) (js_number (obj_get searchParams fromParameterName)))
       (map_option (fe_toMs env) (js_number (obj_get searchParams toParameterName)))"

definition isPoolIdWithSubPools :: "jsval \<Rightarrow> bool" where
  "isPoolIdWithSubPools poolId = (case poolId of Str s \<Rightarrow> s \<noteq> [] \<and> last s = CHR ''+'' | _ \<Rightarrow> False)"

text \<open>\<open>value.slice(0, -1)\<close>.\<close>

definition without_last :: "jsval \<Rightarrow> jsval" where
  "without_last v = (case v of Str s \<Rightarrow> Str (butlast s) | _ \<Rightarrow> v)"

subsection \<open>Shared steps\<close>

text \<open>\<open>items?.map(f) ?? []\<close>, \<open>{...item, value}\<close>, \<open>`${item.a}:${item.b}`\<close> and \<open>items.find(p)\<close>.\<close>

definition map_items :: "(jsval \<Rightarrow> obj js) \<Rightarrow> jsval \<Rightarrow> obj list js" where
  "map_items f items = (if nullish items then Inr [] else bind_js (as_array items) (mapM_js f))"

definition with_value :: "jsval \<Rightarrow> jsval \<Rightarrow> obj" where
  "with_value item v = obj_set ''value'' v (obj_spread [] (own_props item))"

definition pair_value :: "jsval \<Rightarrow> string \<Rightarrow> string \<Rightarrow> jsval js" where
  "pair_value item a b =
     bind_js (get_prop item a) (\<lambda>u. map_js (\<lambda>v. Str (to_str u @ '':'' @ to_str v)) (get_prop item b))"

fun findM_js :: "('a \<Rightarrow> bool js) \<Rightarrow> 'a list \<Rightarrow> 'a option js" where
  "findM_js p [] = Inr None"
| "findM_js p (x # xs) = bind_js (p x) (\<lambda>b. if b then Inr (Some x) else findM_js p xs)"

text \<open>\<open>name.toLowerCase().includes(query.toLowerCase())\<close>; only a text has the method.\<close>

definition name_matches :: "filter_env \<Rightarrow> jsval \<Rightarrow> string \<Rightarrow> bool js" where
  "name_matches env name query =
     (case name of Str s \<Rightarrow> Inr (has_infix (fe_lower env query) (fe_lower env s)) | _ \<Rightarrow> Inl TypeError)"

text \<open>The text of an applied value: that of the item it stands for, or the value itself.\<close>

definition item_text :: "(jsval \<Rightarrow> bool js) \<Rightarrow> (jsval \<Rightarrow> jsval js) \<Rightarrow> jsval \<Rightarrow> jsval \<Rightarrow> jsval js" where
  "item_text p text appliedValue filterValues =
     bind_js (as_array filterValues) (\<lambda>vs. bind_js (findM_js p vs) (\<lambda>item.
       case item of None \<Rightarrow> Inr appliedValue | Some i \<Rightarrow> text i))"

subsection \<open>The filters\<close>

definition cloudAccountId_filter :: "filter_env \<Rightarrow> selection_config" where
  "cloudAccountId_filter env = \<lparr>
     sc_id = ''cloudAccountId'', sc_apiName = ''cloud_account'', sc_settings = [],
     sc_renderSelectedItem = (\<lambda>item. obj_get item ''name''),
     sc_searchPredicate = (\<lambda>item. name_matches env (obj_get item ''name'')),
     sc_getValuesFromSearchParams = (\<lambda>ps. Selected (getSelectionAppliedValuesFromSearchParams ps ''cloudAccountId'') None),
     sc_getDefaultValue = Selected [] None,
     sc_isApplied = (\<lambda>a. \<not> isEmptyArray (applied_values a)),
     sc_getItems = (\<lambda>items. if nullish items then Inr [] else bind_js (as_array items) (\<lambda>vs.
       mapM_js (\<lambda>item. map_js (with_value item) (get_prop item ''id'')) (filter (\<lambda>item. item \<noteq> Null) vs))),
     sc_getValue = (\<lambda>item. get_prop item ''id''),
     sc_toApi = (\<lambda>a. [(''cloudAccountId'', applied_values a)]),
     sc_filterFilterValues = (\<lambda>filterValues appliedFilters. filterM_js (\<lambda>v.
       if v = Null then Inr (array_includes appliedFilters (Str (fe_nil env))) else map_js (array_includes appliedFilters) (get_prop v ''id'')) filterValues),
     sc_renderPerspectiveItem = (\<lambda>appliedValue. item_text
       (\<lambda>v. map_js (\<lambda>i. strict_eq i appliedValue) (get_prop v ''id'')) (\<lambda>item. get_prop item ''name'') appliedValue)\<rparr>"

text \<open>With a pool that counts with its sub-pools, only such pools are read, and the setting is on.\<close>

definition pool_values :: "obj \<Rightarrow> applied_filter" where
  "pool_values ps =
     (let values = getSelectionAppliedValuesFromSearchParams ps ''poolId'' in
      if list_ex isPoolIdWithSubPools values
      then Selected (map without_last (filter isPoolIdWithSubPools values)) (Some True)
      else Selected values (Some False))"

definition pool_to_api :: "applied_filter \<Rightarrow> obj" where
  "pool_to_api a =
     [(''poolId'', (case a of Selected vs (Some True) \<Rightarrow> Arr (map (\<lambda>poolId. Str (to_str poolId @ ''+'')) vs)
        | _ \<Rightarrow> applied_values a))]"

definition pool_text :: "filter_env \<Rightarrow> jsval \<Rightarrow> jsval \<Rightarrow> jsval js" where
  "pool_text env appliedValue filterValues =
     (let withSubpools = isPoolIdWithSubPools appliedValue; sub = '' '' @ fe_message env ''(withSubPools)'';
          searched = (if withSubpools then without_last appliedValue else appliedValue) in
      bind_js (as_array filterValues) (\<lambda>vs.
      bind_js (findM_js (\<lambda>v. map_js (\<lambda>i. strict_eq i searched) (get_prop v ''id'')) vs) (\<lambda>item.
        case item of
          None \<Rightarrow> Inr (if withSubpools then Str (to_str searched @ sub) else appliedValue)
        | Some i \<Rightarrow> map_js (\<lambda>n. Str (to_str n @ (if withSubpools then sub else []))) (get_prop i ''name''))))"

definition poolId_filter :: "filter_env \<Rightarrow> selection_config" where
  "poolId_filter env = \<lparr>
     sc_id = ''poolId'', sc_apiName = ''pool'', sc_settings = [''withSubpools''],
     sc_renderSelectedItem = (\<lambda>item. obj_get item ''name''),
     sc_searchPredicate = (\<lambda>item. name_matches env (obj_get item ''name'')),
     sc_getValuesFromSearchParams = pool_values,
     sc_getDefaultValue = Selected [] (Some False),
     sc_isApplied = (\<lambda>a. \<not> isEmptyArray (applied_values a)),
     sc_getItems = map_items (\<lambda>item. map_js (with_value item) (get_prop item ''id'')),
     sc_getValue = (\<lambda>item. get_prop item ''id''),
     sc_toApi = pool_to_api,
     sc_filterFilterValues = (\<lambda>filterValues appliedFilters. filterM_js (\<lambda>v.
       map_js (array_includes appliedFilters) (get_prop v ''id'')) filterValues),
     sc_renderPerspectiveItem = pool_text env\<rparr>"

definition ownerId_filter :: "filter_env \<Rightarrow> selection_config" where
  "ownerId_filter env = \<lparr>
     sc_id = ''ownerId'', sc_apiName = ''owner'', sc_settings = [],
     sc_renderSelectedItem = (\<lambda>item. obj_get item ''name''),
     sc_searchPredicate = (\<lambda>item. name_matches env (obj_get item ''name'')),
     sc_getValuesFromSearchParams = (\<lambda>ps. Selected (getSelectionAppliedValuesFromSearchParams ps ''ownerId'') None),
     sc_getDefaultValue = Selected [] None,
     sc_isApplied = (\<lambda>a. \<not> isEmptyArray (applied_values a)),
     sc_getItems = map_items (\<lambda>item. map_js (with_value item) (get_prop item ''id'')),
     sc_getValue = (\<lambda>item. get_prop item ''id''),
     sc_toApi = (\<lambda>a. [(''ownerId'', applied_values a)]),
     sc_filterFilterValues = (\<lambda>filterValues appliedFilters. filterM_js (\<lambda>v.
       map_js (array_includes appliedFilters) (get_prop v ''id'')) filterValues),
     sc_renderPerspectiveItem = (\<lambda>appliedValue. item_text
       (\<lambda>v. map_js (\<lambda>i. strict_eq i appliedValue) (get_prop v ''id'')) (\<lambda>item. get_prop item ''name'') appliedValue)\<rparr>"

definition region_filter :: "filter_env \<Rightarrow> selection_config" where
  "region_filter env = \<lparr>
     sc_id = ''region'', sc_apiName = ''region'', sc_settings = [],
     sc_renderSelectedItem = (\<lambda>item. obj_get item ''name''),
     sc_searchPredicate = (\<lambda>item. name_matches env (obj_get item ''name'')),
     sc_getValuesFromSearchParams = (\<lambda>ps. Selected (getSelectionAppliedValuesFromSearchParams ps ''region'') None),
     sc_getDefaultValue = Selected [] None,
     sc_isApplied = (\<lambda>a. \<not> isEmptyArray (applied_values a)),
     sc_getItems = map_items (\<lambda>item.
       if item = Null then Inr [(''name'', Str (fe_message env ''notSet'')), (''value'', Str (fe_nil env))]
       else map_js (with_value item) (get_prop item ''name'')),
     sc_getValue = (\<lambda>item. if item = Null then Inr (Str (fe_nil env)) else get_prop item ''name''),
     sc_toApi = (\<lambda>a. [(''region'', applied_values a)]),
     sc_filterFilterValues = (\<lambda>filterValues appliedFilters. filterM_js (\<lambda>v.
       if v = Null then Inr (array_includes appliedFilters (Str (fe_nil env))) else map_js (array_includes appliedFilters) (get_prop v ''name'')) filterValues),
     sc_renderPerspectiveItem = (\<lambda>appliedValue. item_text
       (\<lambda>v. if v = Null then Inr (strict_eq appliedValue (Str (fe_nil env)))
         else map_js (\<lambda>n. strict_eq n appliedValue) (get_prop v ''name''))
       (\<lambda>item. if item = Null then Inr (Str (fe_message env ''notSet'')) else get_prop item ''name'') appliedValue)\<rparr>"

definition serviceName_filter :: "filter_env \<Rightarrow> selection_config" where
  "serviceName_filter env = \<lparr>
     sc_id = ''serviceName'', sc_apiName = ''service_name'', sc_settings = [],
     sc_renderSelectedItem = (\<lambda>item. obj_get item ''name''),
     sc_searchPredicate = (\<lambda>item. name_matches env (obj_get item ''name'')),
     sc_getValuesFromSearchParams = (\<lambda>ps. Selected (getSelectionAppliedValuesFromSearchParams ps ''serviceName'') None),
     sc_getDefaultValue = Selected [] None,
     sc_isApplied = (\<lambda>a. \<not> isEmptyArray (applied_values a)),
     sc_getItems = map_items (\<lambda>item.
       if item = Null then Inr [(''name'', Str (fe_message env ''notSet'')), (''value'', Str (fe_nil env))]
       else map_js (with_value item) (get_prop item ''name'')),
     sc_getValue = (\<lambda>item. if item = Null then Inr (Str (fe_nil env)) else get_prop item ''name''),
     sc_toApi = (\<lambda>a. [(''serviceName'', applied_values a)]),
     sc_filterFilterValues = (\<lambda>filterValues appliedFilters. filterM_js (\<lambda>v.
       if v = Null then Inr (array_includes appliedFilters (Str (fe_nil env))) else map_js (array_includes appliedFilters) (get_prop v ''name'')) filterValues),
     sc_renderPerspectiveItem = (\<lambda>appliedValue. item_text
       (\<lambda>v. if v = Null then Inr (strict_eq appliedValue (Str (fe_nil env)))
         else map_js (\<lambda>n. strict_eq n appliedValue) (get_prop v ''name''))
       (\<lambda>item. if item = Null then Inr (Str (fe_message env ''notSet'')) else get_prop item ''name'') appliedValue)\<rparr>"

definition resourceType_filter :: "filter_env \<Rightarrow> selection_config" where
  "resourceType_filter env = \<lparr>
     sc_id = ''resourceType'', sc_apiName = ''resource_type'', sc_settings = [],
     sc_renderSelectedItem = (\<lambda>item. obj_get item ''name''),
     sc_searchPredicate = (\<lambda>item. name_matches env (obj_get item ''name'')),
     sc_getValuesFromSearchParams = (\<lambda>ps. Selected (getSelectionAppliedValuesFromSearchParams ps ''resourceType'') None),
     sc_getDefaultValue = Selected [] None,
     sc_isApplied = (\<lambda>a. \<not> isEmptyArray (applied_values a)),
     sc_getItems = map_items (\<lambda>item. map_js (with_value item) (pair_value item ''name'' ''type'')),
     sc_getValue = (\<lambda>item. pair_value item ''name'' ''type''),
     sc_toApi = (\<lambda>a. [(''resourceType'', applied_values a)]),
     sc_filterFilterValues = (\<lambda>filterValues appliedFilters. filterM_js (\<lambda>v.
       map_js (array_includes appliedFilters) (pair_value v ''name'' ''type'')) filterValues),
     sc_renderPerspectiveItem = (\<lambda>appliedValue. item_text
       (\<lambda>v. map_js (\<lambda>n. strict_eq n appliedValue) (pair_value v ''name'' ''type'')) (\<lambda>item. get_prop item ''name'') appliedValue)\<rparr>"

definition active_filter :: "filter_env \<Rightarrow> selection_config" where
  "active_filter env = \<lparr>
     sc_id = ''active'', sc_apiName = ''active'', sc_settings = [],
     sc_renderSelectedItem = (\<lambda>item. obj_get item ''name''),
     sc_searchPredicate = (\<lambda>item. name_matches env (obj_get item ''name'')),
     sc_getValuesFromSearchParams = (\<lambda>ps. Selected (getSelectionAppliedValuesFromSearchParams ps ''active'') None),
     sc_getDefaultValue = Selected [] None,
     sc_isApplied = (\<lambda>a. \<not> isEmptyArray (applied_values a)),
     sc_getItems = map_items (\<lambda>v. Inr [(''name'', Str (fe_message env (if truthy v then ''active'' else ''billingOnly''))), (''value'', v)]),
     sc_getValue = Inr,
     sc_toApi = (\<lambda>a. [(''active'', applied_values a)]),
     sc_filterFilterValues = (\<lambda>filterValues appliedFilters. filterM_js (\<lambda>v.
       Inr (array_includes appliedFilters v)) filterValues),
     sc_renderPerspectiveItem = (\<lambda>appliedValue. item_text
       (\<lambda>v. Inr (strict_eq v appliedValue)) (\<lambda>v. Inr (Str (fe_message env (if truthy v then ''active'' else ''billingOnly'')))) appliedValue)\<rparr>"

definition recommendations_filter :: "filter_env \<Rightarrow> selection_config" where
  "recommendations_filter env = \<lparr>
     sc_id = ''recommendations'', sc_apiName = ''recommendations'', sc_settings = [],
     sc_renderSelectedItem = (\<lambda>item. obj_get item ''name''),
     sc_searchPredicate = (\<lambda>item. name_matches env (obj_get item ''name'')),
     sc_getValuesFromSearchParams = (\<lambda>ps. Selected (getSelectionAppliedValuesFromSearchParams ps ''recommendations'') None),
     sc_getDefaultValue = Selected [] None,
     sc_isApplied = (\<lambda>a. \<not> isEmptyArray (applied_values a)),
     sc_getItems = map_items (\<lambda>v. Inr [(''name'', Str (fe_message env (if truthy v then ''withRecommendations'' else ''withoutRecommendations''))), (''value'', v)]),
     sc_getValue = Inr,
     sc_toApi = (\<lambda>a. [(''recommendations'', applied_values a)]),
     sc_filterFilterValues = (\<lambda>filterValues appliedFilters. filterM_js (\<lambda>v.
       Inr (array_includes appliedFilters v)) filterValues),
     sc_renderPerspectiveItem = (\<lambda>appliedValue. item_text
       (\<lambda>v. Inr (strict_eq v appliedValue)) (\<lambda>v. Inr (Str (fe_message env (if truthy v then ''withRecommendations'' else ''withoutRecommendations'')))) appliedValue)\<rparr>"

definition constraintViolated_filter :: "filter_env \<Rightarrow> selection_config" where
  "constraintViolated_filter env = \<lparr>
     sc_id = ''constraintViolated'', sc_apiName = ''constraint_violated'', sc_settings = [],
     sc_renderSelectedItem = (\<lambda>item. obj_get item ''name''),
     sc_searchPredicate = (\<lambda>item. name_matches env (obj_get item ''name'')),
     sc_getValuesFromSearchParams = (\<lambda>ps. Selected (getSelectionAppliedValuesFromSearchParams ps ''constraintViolated'') None),
     sc_getDefaultValue = Selected [] None,
     sc_isApplied = (\<lambda>a. \<not> isEmptyArray (applied_values a)),
     sc_getItems = map_items (\<lambda>v. Inr [(''name'', Str (fe_message env (if truthy v then ''violated'' else ''notViolated''))), (''value'', v)]),
     sc_getValue = Inr,
     sc_toApi = (\<lambda>a. [(''constraintViolated'', applied_values a)]),
     sc_filterFilterValues = (\<lambda>filterValues appliedFilters. filterM_js (\<lambda>v.
       Inr (array_includes appliedFilters v)) filterValues),
     sc_renderPerspectiveItem = (\<lambda>appliedValue. item_text
       (\<lambda>v. Inr (strict_eq v appliedValue)) (\<lambda>v. Inr (Str (fe_message env (if truthy v then ''violated'' else ''notViolated'')))) appliedValue)\<rparr>"

text \<open>The ends of a range are given when they are truthy; an end that is not is undefined.\<close>

definition given :: "rat option \<Rightarrow> bool" where
  "given x = (case x of Some y \<Rightarrow> y \<noteq> 0 | None \<Rightarrow> False)"

definition given_map :: "(rat \<Rightarrow> rat) \<Rightarrow> rat option \<Rightarrow> rat option" where
  "given_map f x = (if given x then map_option f x else None)"

definition opt_num :: "rat option \<Rightarrow> jsval" where
  "opt_num x = (case x of Some y \<Rightarrow> Num y | None \<Rightarrow> Undef)"

definition firstSeen_filter :: "filter_env \<Rightarrow> range_config" where
  "firstSeen_filter env = \<lparr>
     rg_id = ''firstSeen'', rg_apiName = ''first_seen'', rg_fromName = ''firstSeenFrom'', rg_fromApiName = ''first_seen_gte'',
     rg_toName = ''firstSeenTo'', rg_toApiName = ''first_seen_lte'',
     rg_getValuesFromSearchParams = (\<lambda>ps. getRangeAppliedFilterValuesFromSearchParams env ps ''firstSeenFrom'' ''firstSeenTo''),
     rg_getDefaultValue = Range None None,
     rg_isApplied = (\<lambda>a. given (range_from a) \<or> given (range_to a)),
     rg_getAppliedRange = (\<lambda>a. Range (given_map (fe_moveToUTC env) (range_from a)) (given_map (fe_moveToUTC env) (range_to a))),
     rg_getValue = (\<lambda>item. bind_js (get_prop item ''from'') (\<lambda>f. map_js (\<lambda>t. Obj [(''from'', f), (''to'', t)]) (get_prop item ''to''))),
     rg_toApi = (\<lambda>a. [(''firstSeenFrom'', opt_num (given_map (fe_toSec env) (range_from a))),
       (''firstSeenTo'', opt_num (given_map (fe_toSec env) (range_to a)))]),
     rg_renderPerspectiveItem = (\<lambda>f t.
       if truthy f \<and> truthy t then Str (fe_formatUTC env f @ '' - '' @ fe_formatUTC env t)
       else if truthy f then Str (fe_lower env (fe_message env ''from'') @ '' '' @ fe_formatUTC env f)
       else if truthy t then Str (fe_lower env (fe_message env ''to'') @ '' '' @ fe_formatUTC env t)
       else Undef)\<rparr>"

definition lastSeen_filter :: "filter_env \<Rightarrow> range_config" where
  "lastSeen_filter env = \<lparr>
     rg_id = ''lastSeen'', rg_apiName = ''last_seen'', rg_fromName = ''lastSeenFrom'', rg_fromApiName = ''last_seen_gte'',
     rg_toName = ''lastSeenTo'', rg_toApiName = ''last_seen_lte'',
     rg_getValuesFromSearchParams = (\<lambda>ps. getRangeAppliedFilterValuesFromSearchParams env ps ''lastSeenFrom'' ''lastSeenTo''),
     rg_getDefaultValue = Range None None,
     rg_isApplied = (\<lambda>a. given (range_from a) \<or> given (range_to a)),
     rg_getAppliedRange = (\<lambda>a. Range (given_map (fe_moveToUTC env) (range_from a)) (given_map (fe_moveToUTC env) (range_to a))),
     rg_getValue = (\<lambda>item. bind_js (get_prop item ''from'') (\<lambda>f. map_js (\<lambda>t. Obj [(''from'', f), (''to'', t)]) (get_prop item ''to''))),
     rg_toApi = (\<lambda>a. [(''lastSeenFrom'', opt_num (given_map (fe_toSec env) (range_from a))),
       (''lastSeenTo'', opt_num (given_map (fe_toSec env) (range_to a)))]),
     rg_renderPerspectiveItem = (\<lambda>f t.
       if truthy f \<and> truthy t then Str (fe_formatUTC env f @ '' - '' @ fe_formatUTC env t)
       else if truthy f then Str (fe_lower env (fe_message env ''from'') @ '' '' @ fe_formatUTC env f)
       else if truthy t then Str (fe_lower env (fe_message env ''to'') @ '' '' @ fe_formatUTC env t)
       else Undef)\<rparr>"

definition tag_filter :: "filter_env \<Rightarrow> selection_config" where
  "tag_filter env = \<lparr>
     sc_id = ''tag'', sc_apiName = ''tag'', sc_settings = [],
     sc_renderSelectedItem = (\<lambda>item. obj_get item ''name''),
     sc_searchPredicate = (\<lambda>item. name_matches env (obj_get item ''name'')),
     sc_getValuesFromSearchParams = (\<lambda>ps. Selected (getSelectionAppliedValuesFromSearchParams ps ''tag'') None),
     sc_getDefaultValue = Selected [] None,
     sc_isApplied = (\<lambda>a. \<not> isEmptyArray (applied_values a)),
     sc_getItems = map_items (\<lambda>v. Inr [(''name'', v), (''value'', v)]),
     sc_getValue = Inr,
     sc_toApi = (\<lambda>a. [(''tag'', applied_values a)]),
     sc_filterFilterValues = (\<lambda>filterValues appliedFilters. filterM_js (\<lambda>v.
       Inr (array_includes appliedFilters v)) filterValues),
     sc_renderPerspectiveItem = (\<lambda>appliedValue. item_text
       (\<lambda>v. Inr (strict_eq v appliedValue)) (\<lambda>v. Inr v) appliedValue)\<rparr>"

definition meta_filter :: "filter_env \<Rightarrow> selection_config" where
  "meta_filter env = \<lparr>
     sc_id = ''meta'', sc_apiName = ''meta'', sc_settings = [],
     sc_renderSelectedItem = (\<lambda>item. fe_metaName env (obj_get item ''name'')),
     sc_searchPredicate = (\<lambda>item. name_matches env (fe_metaName env (obj_get item ''name''))),
     sc_getValuesFromSearchParams = (\<lambda>ps. Selected (getSelectionAppliedValuesFromSearchParams ps ''meta'') None),
     sc_getDefaultValue = Selected [] None,
     sc_isApplied = (\<lambda>a. \<not> isEmptyArray (applied_values a)),
     sc_getItems = map_items (\<lambda>v. Inr [(''name'', v), (''value'', v)]),
     sc_getValue = Inr,
     sc_toApi = (\<lambda>a. [(''meta'', applied_values a)]),
     sc_filterFilterValues = (\<lambda>filterValues appliedFilters. filterM_js (\<lambda>v.
       Inr (array_includes appliedFilters v)) filterValues),
     sc_renderPerspectiveItem = (\<lambda>appliedValue. item_text
       (\<lambda>v. Inr (strict_eq v appliedValue)) (\<lambda>v. Inr (fe_metaName env v)) appliedValue)\<rparr>"

definition withoutTag_filter :: "filter_env \<Rightarrow> selection_config" where
  "withoutTag_filter env = \<lparr>
     sc_id = ''withoutTag'', sc_apiName = ''without_tag'', sc_settings = [],
     sc_renderSelectedItem = (\<lambda>item. obj_get item ''name''),
     sc_searchPredicate = (\<lambda>item. name_matches env (obj_get item ''name'')),
     sc_getValuesFromSearchParams = (\<lambda>ps. Selected (getSelectionAppliedValuesFromSearchParams ps ''withoutTag'') None),
     sc_getDefaultValue = Selected [] None,
     sc_isApplied = (\<lambda>a. \<not> isEmptyArray (applied_values a)),
     sc_getItems = map_items (\<lambda>v. Inr [(''name'', v), (''value'', v)]),
     sc_getValue = Inr,
     sc_toApi = (\<lambda>a. [(''withoutTag'', applied_values a)]),
     sc_filterFilterValues = (\<lambda>filterValues appliedFilters. filterM_js (\<lambda>v.
       Inr (array_includes appliedFilters v)) filterValues),
     sc_renderPerspectiveItem = (\<lambda>appliedValue. item_text
       (\<lambda>v. Inr (strict_eq v appliedValue)) (\<lambda>v. Inr v) appliedValue)\<rparr>"

definition networkTrafficFrom_filter :: "filter_env \<Rightarrow> selection_config" where
  "networkTrafficFrom_filter env = \<lparr>
     sc_id = ''networkTrafficFrom'', sc_apiName = ''traffic_from'', sc_settings = [],
     sc_renderSelectedItem = (\<lambda>item. obj_get item ''name''),
     sc_searchPredicate = (\<lambda>item. name_matches env (obj_get item ''name'')),
     sc_getValuesFromSearchParams = (\<lambda>ps. Selected (getSelectionAppliedValuesFromSearchParams ps ''networkTrafficFrom'') None),
     sc_getDefaultValue = Selected [] None,
     sc_isApplied = (\<lambda>a. \<not> isEmptyArray (applied_values a)),
     sc_getItems = map_items (\<lambda>item.
       if strict_eq item ANY_NETWORK_TRAFFIC_LOCATION then Inr [(''name'', Str (fe_message env ''any'')), (''value'', item)]
       else bind_js (get_prop item ''name'') (\<lambda>n. bind_js (pair_value item ''name'' ''cloud_type'') (\<lambda>v.
         map_js (\<lambda>t. [(''name'', n), (''value'', v), (''cloud_type'', t)]) (get_prop item ''cloud_type'')))),
     sc_getValue = (\<lambda>item. pair_value item ''name'' ''cloud_type''),
     sc_toApi = (\<lambda>a. [(''networkTrafficFrom'', applied_values a)]),
     sc_filterFilterValues = (\<lambda>filterValues appliedFilters. filterM_js (\<lambda>v.
       if strict_eq v ANY_NETWORK_TRAFFIC_LOCATION then Inr (array_includes appliedFilters ANY_NETWORK_TRAFFIC_LOCATION)
       else map_js (array_includes appliedFilters) (pair_value v ''name'' ''cloud_type'')) filterValues),
     sc_renderPerspectiveItem = (\<lambda>appliedValue. item_text
       (\<lambda>v. if strict_eq v ANY_NETWORK_TRAFFIC_LOCATION then Inr (strict_eq appliedValue ANY_NETWORK_TRAFFIC_LOCATION)
         else map_js (\<lambda>n. strict_eq n appliedValue) (pair_value v ''name'' ''cloud_type''))
       (\<lambda>item. if strict_eq item ANY_NETWORK_TRAFFIC_LOCATION then Inr (Str (fe_message env ''any'')) else get_prop item ''name'') appliedValue)\<rparr>"

definition networkTrafficTo_filter :: "filter_env \<Rightarrow> selection_config" where
  "networkTrafficTo_filter env = \<lparr>
     sc_id = ''networkTrafficTo'', sc_apiName = ''traffic_to'', sc_settings = [],
     sc_renderSelectedItem = (\<lambda>item. obj_get item ''name''),
     sc_searchPredicate = (\<lambda>item. name_matches env (obj_get item ''name'')),
     sc_getValuesFromSearchParams = (\<lambda>ps. Selected (getSelectionAppliedValuesFromSearchParams ps ''networkTrafficTo'') None),
     sc_getDefaultValue = Selected [] None,
     sc_isApplied = (\<lambda>a. \<not> isEmptyArray (applied_values a)),
     sc_getItems = map_items (\<lambda>item.
       if strict_eq item ANY_NETWORK_TRAFFIC_LOCATION then Inr [(''name'', Str (fe_message env ''any'')), (''value'', item)]
       else bind_js (get_prop item ''name'') (\<lambda>n. bind_js (pair_value item ''name'' ''cloud_type'') (\<lambda>v.
         map_js (\<lambda>t. [(''name'', n), (''value'', v), (''cloud_type'', t)]) (get_prop item ''cloud_type'')))),
     sc_getValue = (\<lambda>item. pair_value item ''name'' ''cloud_type''),
     sc_toApi = (\<lambda>a. [(''networkTrafficTo'', applied_values a)]),
     sc_filterFilterValues = (\<lambda>filterValues appliedFilters. filterM_js (\<lambda>v.
       if strict_eq v ANY_NETWORK_TRAFFIC_LOCATION then Inr (array_includes appliedFilters ANY_NETWORK_TRAFFIC_LOCATION)
       else map_js (array_includes appliedFilters) (pair_value v ''name'' ''cloud_type'')) filterValues),
     sc_renderPerspectiveItem = (\<lambda>appliedValue. item_text
       (\<lambda>v. if strict_eq v ANY_NETWORK_TRAFFIC_LOCATION then Inr (strict_eq appliedValue ANY_NETWORK_TRAFFIC_LOCATION)
         else map_js (\<lambda>n. strict_eq n appliedValue) (pair_value v ''name'' ''cloud_type''))
       (\<lambda>item. if strict_eq item ANY_NETWORK_TRAFFIC_LOCATION then Inr (Str (fe_message env ''any'')) else get_prop item ''name'') appliedValue)\<rparr>"

definition k8sNode_filter :: "filter_env \<Rightarrow> selection_config" where
  "k8sNode_filter env = \<lparr>
     sc_id = ''k8sNode'', sc_apiName = ''k8s_node'', sc_settings = [],
     sc_renderSelectedItem = (\<lambda>item. obj_get item ''name''),
     sc_searchPredicate = (\<lambda>item. name_matches env (obj_get item ''name'')),
     sc_getValuesFromSearchParams = (\<lambda>ps. Selected (getSelectionAppliedValuesFromSearchParams ps ''k8sNode'') None),
     sc_getDefaultValue = Selected [] None,
     sc_isApplied = (\<lambda>a. \<not> isEmptyArray (applied_values a)),
     sc_getItems = map_items (\<lambda>item.
       if item = Null then Inr [(''name'', Str (fe_message env ''notSet'')), (''value'', Str (fe_nil env))]
       else bind_js (get_prop item ''name'') (\<lambda>n. map_js (\<lambda>t. [(''name'', n), (''value'', n), (''cloud_type'', t)])
         (get_prop item ''cloud_type''))),
     sc_getValue = (\<lambda>item. if item = Null then Inr (Str (fe_nil env)) else get_prop item ''name''),
     sc_toApi = (\<lambda>a. [(''k8sNode'', applied_values a)]),
     sc_filterFilterValues = (\<lambda>filterValues appliedFilters. filterM_js (\<lambda>v.
       if v = Null then Inr (array_includes appliedFilters (Str (fe_nil env))) else map_js (array_includes appliedFilters) (get_prop v ''name'')) filterValues),
     sc_renderPerspectiveItem = (\<lambda>appliedValue. item_text
       (\<lambda>v. if v = Null then Inr (strict_eq appliedValue (Str (fe_nil env)))
         else map_js (\<lambda>n. strict_eq n appliedValue) (get_prop v ''name''))
       (\<lambda>item. if item = Null then Inr (Str (fe_message env ''notSet'')) else get_prop item ''name'') appliedValue)\<rparr>"

definition k8sService_filter :: "filter_env \<Rightarrow> selection_config" where
  "k8sService_filter env = \<lparr>
     sc_id = ''k8sService'', sc_apiName = ''k8s_service'', sc_settings = [],
     sc_renderSelectedItem = (\<lambda>item. obj_get item ''name''),
     sc_searchPredicate = (\<lambda>item. name_matches env (obj_get item ''name'')),
     sc_getValuesFromSearchParams = (\<lambda>ps. Selected (getSelectionAppliedValuesFromSearchParams ps ''k8sService'') None),
     sc_getDefaultValue = Selected [] None,
     sc_isApplied = (\<lambda>a. \<not> isEmptyArray (applied_values a)),
     sc_getItems = map_items (\<lambda>item.
       if item = Null then Inr [(''name'', Str (fe_message env ''notSet'')), (''value'', Str (fe_nil env))]
       else bind_js (get_prop item ''name'') (\<lambda>n. map_js (\<lambda>t. [(''name'', n), (''value'', n), (''cloud_type'', t)])
         (get_prop item ''cloud_type''))),
     sc_getValue = (\<lambda>item. if item = Null then Inr (Str (fe_nil env)) else get_prop item ''name''),
     sc_toApi = (\<lambda>a. [(''k8sService'', applied_values a)]),
     sc_filterFilterValues = (\<lambda>filterValues appliedFilters. filterM_js (\<lambda>v.
       if v = Null then Inr (array_includes appliedFilters (Str (fe_nil env))) else map_js (array_includes appliedFilters) (get_prop v ''name'')) filterValues),
     sc_renderPerspectiveItem = (\<lambda>appliedValue. item_text
       (\<lambda>v. if v = Null then Inr (strict_eq appliedValue (Str (fe_nil env)))
         else map_js (\<lambda>n. strict_eq n appliedValue) (get_prop v ''name''))
       (\<lambda>item. if item = Null then Inr (Str (fe_message env ''notSet'')) else get_prop item ''name'') appliedValue)\<rparr>"

definition k8sNamespace_filter :: "filter_env \<Rightarrow> selection_config" where
  "k8sNamespace_filter env = \<lparr>
     sc_id = ''k8sNamespace'', sc_apiName = ''k8s_namespace'', sc_settings = [],
     sc_renderSelectedItem = (\<lambda>item. obj_get item ''name''),
     sc_searchPredicate = (\<lambda>item. name_matches env (obj_get item ''name'')),
     sc_getValuesFromSearchParams = (\<lambda>ps. Selected (getSelectionAppliedValuesFromSearchParams ps ''k8sNamespace'') None),
     sc_getDefaultValue = Selected [] None,
     sc_isApplied = (\<lambda>a. \<not> isEmptyArray (applied_values a)),
     sc_getItems = map_items (\<lambda>item.
       if item = Null then Inr [(''name'', Str (fe_message env ''notSet'')), (''value'', Str (fe_nil env))]
       else bind_js (get_prop item ''name'') (\<lambda>n. map_js (\<lambda>t. [(''name'', n), (''value'', n), (''cloud_type'', t)])
         (get_prop item ''cloud_type''))),
     sc_getValue = (\<lambda>item. if item = Null then Inr (Str (fe_nil env)) else get_prop item ''name''),
     sc_toApi = (\<lambda>a. [(''k8sNamespace'', applied_values a)]),
     sc_filterFilterValues = (\<lambda>filterValues appliedFilters. filterM_js (\<lambda>v.
       if v = Null then Inr (array_includes appliedFilters (Str (fe_nil env))) else map_js (array_includes appliedFilters) (get_prop v ''name'')) filterValues),
     sc_renderPerspectiveItem = (\<lambda>appliedValue. item_text
       (\<lambda>v. if v = Null then Inr (strict_eq appliedValue (Str (fe_nil env)))
         else map_js (\<lambda>n. strict_eq n appliedValue) (get_prop v ''name''))
       (\<lambda>item. if item = Null then Inr (Str (fe_message env ''notSet'')) else get_prop item ''name'') appliedValue)\<rparr>"

definition FILTER_CONFIGS :: "filter_env \<Rightarrow> (string \<times> filter_config) list" where
  "FILTER_CONFIGS env =
    [(''cloudAccountId'', SelectionConfig (cloudAccountId_filter env)),
     (''poolId'', SelectionConfig (poolId_filter env)),
     (''ownerId'', SelectionConfig (ownerId_filter env)),
     (''region'', SelectionConfig (region_filter env)),
     (''serviceName'', SelectionConfig (serviceName_filter env)),
     (''resourceType'', SelectionConfig (resourceType_filter env)),
     (''active'', SelectionConfig (active_filter env)),
     (''recommendations'', SelectionConfig (recommendations_filter env)),
     (''constraintViolated'', SelectionConfig (constraintViolated_filter env)),
     (''firstSeen'', RangeConfig (firstSeen_filter env)),
     (''lastSeen'', RangeConfig (lastSeen_filter env)),
     (''tag'', SelectionConfig (tag_filter env)),
     (''meta'', SelectionConfig (meta_filter env)),
     (''withoutTag'', SelectionConfig (withoutTag_filter env)),
     (''networkTrafficFrom'', SelectionConfig (networkTrafficFrom_filter env)),
     (''networkTrafficTo'', SelectionConfig (networkTrafficTo_filter env)),
     (''k8sNode'', SelectionConfig (k8sNode_filter env)),
     (''k8sService'', SelectionConfig (k8sService_filter env)),
     (''k8sNamespace'', SelectionConfig (k8sNamespace_filter env))]"

definition config_id :: "filter_config \<Rightarrow> string" where
  "config_id cfg = (case cfg of SelectionConfig c \<Rightarrow> sc_id c | RangeConfig r \<Rightarrow> rg_id r)"

definition getValuesFromSearchParams :: "filter_config \<Rightarrow> obj \<Rightarrow> applied_filter" where
  "getValuesFromSearchParams cfg =
     (case cfg of SelectionConfig c \<Rightarrow> sc_getValuesFromSearchParams c | RangeConfig r \<Rightarrow> rg_getValuesFromSearchParams r)"

definition getDefaultValue :: "filter_config \<Rightarrow> applied_filter" where
  "getDefaultValue cfg = (case cfg of SelectionConfig c \<Rightarrow> sc_getDefaultValue c | RangeConfig r \<Rightarrow> rg_getDefaultValue r)"

definition isApplied :: "filter_config \<Rightarrow> applied_filter \<Rightarrow> bool" where
  "isApplied cfg = (case cfg of SelectionConfig c \<Rightarrow> sc_isApplied c | RangeConfig r \<Rightarrow> rg_isApplied r)"

definition toApi :: "filter_config \<Rightarrow> applied_filter \<Rightarrow> obj" where
  "toApi cfg = (case cfg of SelectionConfig c \<Rightarrow> sc_toApi c | RangeConfig r \<Rightarrow> rg_toApi r)"

section \<open>The page\<close>

text \<open>\<open>updateSearchParams\<close> writes the address with \<open>query-string\<close> and everybody reads it with
  \<open>query-string\<close>: the argument \<open>reread\<close> is writing followed by reading.\<close>

definition updateSearchParams :: "(obj \<Rightarrow> obj) \<Rightarrow> obj \<Rightarrow> obj \<Rightarrow> obj" where
  "updateSearchParams reread address params = reread (obj_spread address params)"

definition removeSearchParam :: "(obj \<Rightarrow> obj) \<Rightarrow> obj \<Rightarrow> string \<Rightarrow> obj" where
  "removeSearchParam reread address key = reread (obj_remove key address)"

record resources_page =
  rp_address :: obj
  rp_applied :: "(string \<times> applied_filter) list"

definition open_page :: "filter_env \<Rightarrow> obj \<Rightarrow> resources_page" where
  "open_page env address =
     \<lparr>rp_address = address,
      rp_applied = from_entries (map (\<lambda>(k, cfg). (config_id cfg, getValuesFromSearchParams cfg address)) (FILTER_CONFIGS env))\<rparr>"

text \<open>\<open>apiFilterParams\<close> of the request and \<open>queryParamsToUpdate\<close> of the address are the same fold.\<close>

definition api_filter_params :: "filter_env \<Rightarrow> (string \<times> applied_filter) list \<Rightarrow> obj" where
  "api_filter_params env applied =
     fold (\<lambda>(key, v) acc. case map_of (FILTER_CONFIGS env) key of
         None \<Rightarrow> acc | Some cfg \<Rightarrow> obj_spread acc (toApi cfg v)) applied []"

text \<open>\<open>selected\<close>: a perspective is selected, and its name leaves the address first.\<close>

definition onAppliedFiltersChange ::
  "filter_env \<Rightarrow> (obj \<Rightarrow> obj) \<Rightarrow> bool \<Rightarrow> (string \<times> applied_filter) list \<Rightarrow> resources_page \<Rightarrow> resources_page" where
  "onAppliedFiltersChange env reread selected newFilters page =
     (let address = (if selected then removeSearchParam reread (rp_address page) ''selectedPerspective'' else rp_address page) in
      \<lparr>rp_address = updateSearchParams reread address (api_filter_params env newFilters),
       rp_applied = obj_spread (rp_applied page) newFilters\<rparr>)"

definition handleResetFilters :: "filter_env \<Rightarrow> (string \<times> applied_filter) list" where
  "handleResetFilters env = from_entries (map (\<lambda>(k, cfg). (config_id cfg, getDefaultValue cfg)) (FILTER_CONFIGS env))"

text \<open>\<open>handleRangeChange\<close>: the days of the picker, in the time zone of the browser, as moments in UTC.\<close>

definition handleRangeChange :: "filter_env \<Rightarrow> string \<Rightarrow> rat option \<times> rat option \<Rightarrow> (string \<times> applied_filter) list" where
  "handleRangeChange env k selectedRange =
     [(k, Range (given_map (\<lambda>d. fe_moveFromUTC env (fe_startOfDay env d)) (fst selectedRange))
        (given_map (\<lambda>d. fe_moveFromUTC env (fe_endOfDay env d)) (snd selectedRange)))]"

definition handleApplySuggestion :: "obj \<Rightarrow> (string \<times> applied_filter) list" where
  "handleApplySuggestion updates =
     map (\<lambda>k. (k, Selected (case obj_get updates k of Arr vs \<Rightarrow> vs | _ \<Rightarrow> []) None))
       [''ownerId'', ''resourceType'', ''active'', ''constraintViolated'']"

definition FILTER_GROUPS_secondary :: "string list" where
  "FILTER_GROUPS_secondary = [''tag'', ''withoutTag'', ''meta'', ''networkTrafficFrom'', ''networkTrafficTo'',
     ''k8sNode'', ''k8sService'', ''k8sNamespace'']"

definition hasAppliedValue :: "filter_env \<Rightarrow> (string \<times> applied_filter) list \<Rightarrow> string \<Rightarrow> bool" where
  "hasAppliedValue env applied key =
     (case (map_of (FILTER_CONFIGS env) key, map_of applied key) of
        (Some cfg, Some a) \<Rightarrow> isApplied cfg a | _ \<Rightarrow> False)"

definition appliedSecondaryFilters :: "filter_env \<Rightarrow> (string \<times> applied_filter) list \<Rightarrow> string list" where
  "appliedSecondaryFilters env applied = filter (hasAppliedValue env applied) FILTER_GROUPS_secondary"

definition reset_shown :: "filter_env \<Rightarrow> (string \<times> applied_filter) list \<Rightarrow> bool" where
  "reset_shown env applied = list_ex (hasAppliedValue env applied) (map fst applied)"

text \<open>The range of dates a page opens with: from the address, else the last one used, else the current month;
  and its breakdown, one of the list or that of the expenses.\<close>

definition initial_date :: "obj \<Rightarrow> obj \<Rightarrow> string \<Rightarrow> jsval \<Rightarrow> rat option" where
  "initial_date searchParams storageRangeDates k by_default =
     js_number (js_or (js_or (obj_get searchParams k) (obj_get storageRangeDates k)) by_default)"

definition initial_breakdown :: "obj \<Rightarrow> jsval" where
  "initial_breakdown searchParams =
     (let breakdownBy = obj_get searchParams ''breakdownBy'' in
      if array_includes [Str ''expenses'', Str ''resourceCount'', Str ''tags'', Str ''meta''] breakdownBy
      then breakdownBy else Str ''expenses'')"

definition onBreakdownChange :: "(obj \<Rightarrow> obj) \<Rightarrow> bool \<Rightarrow> obj \<Rightarrow> obj" where
  "onBreakdownChange reread selected address =
     (if selected then removeSearchParam reread address ''selectedPerspective'' else address)"

text \<open>The parameters the page requests data with: \<open>limit\<close> is the number in the address or the default.\<close>

definition flatRequestParams ::
  "filter_env \<Rightarrow> (string \<times> applied_filter) list \<Rightarrow> jsval \<Rightarrow> jsval \<Rightarrow> jsval \<Rightarrow> obj" where
  "flatRequestParams env applied startDate endDate limit =
     obj_spread (api_filter_params env applied) [(''startDate'', startDate), (''endDate'', endDate), (''limit'', limit)]"

section \<open>Perspectives\<close>

text \<open>\<open>CreateResourcePerspectiveForm\<close>: the filters and their values that a perspective saves.\<close>

definition perspectiveAppliedFilters :: "filter_env \<Rightarrow> (string \<times> applied_filter) list \<Rightarrow> obj" where
  "perspectiveAppliedFilters env applied =
     fold (\<lambda>(key, cfg) acc. case map_of applied (config_id cfg) of
         None \<Rightarrow> acc | Some a \<Rightarrow> obj_spread acc (toApi cfg a)) (FILTER_CONFIGS env) []"

definition perspectiveFilterValues :: "filter_env \<Rightarrow> obj \<Rightarrow> (string \<times> applied_filter) list \<Rightarrow> obj js" where
  "perspectiveFilterValues env filterValues applied =
     foldM_js (\<lambda>acc (key, cfg). case cfg of
         RangeConfig r \<Rightarrow> Inr acc
       | SelectionConfig c \<Rightarrow>
           bind_js (as_array (js_coalesce (obj_get filterValues (sc_apiName c)) (Arr []))) (\<lambda>vs.
           map_js (\<lambda>kept. obj_spread acc [(sc_apiName c, Arr kept)])
             (sc_filterFilterValues c vs (case map_of applied (sc_id c) of Some (Selected ws s) \<Rightarrow> ws | _ \<Rightarrow> []))))
       [] (FILTER_CONFIGS env)"

text \<open>\<open>pages/Resources\<close>: the address of a perspective.  \<open>restParams\<close> are the other parameters of the
  address that names it.  The properties \<open>firstSeen\<close> and \<open>lastSeen\<close> the code looks for are refused by
  the schema of perspectives, so they are never there.\<close>

definition getPoolFilters :: "jsval list \<Rightarrow> obj" where
  "getPoolFilters poolId =
     (if list_all isPoolIdWithSubPools poolId then [(''poolId'', Arr poolId)]
      else [(''poolId'', Arr (map (\<lambda>pool. if isPoolIdWithSubPools pool then without_last pool else pool) poolId))])"

definition breakdown_params :: "jsval \<Rightarrow> obj \<Rightarrow> obj" where
  "breakdown_params breakdownBy breakdownData =
     (if breakdownBy = Str ''expenses'' then
        [(''categorizedBy'', obj_get breakdownData ''breakdownBy''),
         (''groupBy'', opt_prop (obj_get breakdownData ''groupBy'') ''groupBy''),
         (''groupType'', opt_prop (obj_get breakdownData ''groupBy'') ''groupType'')]
      else if breakdownBy = Str ''resourceCount'' then [(''resourceCountBreakdownBy'', obj_get breakdownData ''breakdownBy'')]
      else if breakdownBy = Str ''meta'' then [(''metaBreakdownBy'', obj_get breakdownData ''breakdownBy'')]
      else [])"

definition perspective_address :: "(obj \<Rightarrow> obj) \<Rightarrow> obj \<Rightarrow> string \<Rightarrow> obj \<Rightarrow> jsval \<Rightarrow> obj \<Rightarrow> obj" where
  "perspective_address reread restParams perspective appliedFilters breakdownBy breakdownData =
     (let poolFilters = (case obj_get appliedFilters ''poolId'' of Arr poolId \<Rightarrow> getPoolFilters poolId | _ \<Rightarrow> []);
          perspectiveSearchParams =
            obj_spread (obj_spread (obj_spread poolFilters (obj_remove ''poolId'' appliedFilters))
              (breakdown_params breakdownBy breakdownData)) [(''breakdownBy'', breakdownBy)] in
      reread (obj_spread (obj_spread restParams perspectiveSearchParams) [(''selectedPerspective'', Str perspective)]))"

text \<open>\<open>useListenForPerspectiveChange\<close>: a selected perspective is dropped from the address when the breakdown the
  page reads from the address is no longer its own.\<close>

definition someParamHasChanged :: "obj \<Rightarrow> jsval \<Rightarrow> obj \<Rightarrow> bool" where
  "someParamHasChanged address breakdownBy breakdownData \<longleftrightarrow>
     (let own = obj_get breakdownData ''breakdownBy''; group = obj_get breakdownData ''groupBy'';
          categorizeByHasChanged =
            (if breakdownBy = Str ''expenses'' then \<not> strict_eq own (obj_get address ''categorizedBy'')
             else if breakdownBy = Str ''resourceCount'' then \<not> strict_eq own (obj_get address ''resourceCountBreakdownBy'')
             else False);
          groupByHasChanged =
            (if breakdownBy = Str ''expenses''
             then \<not> strict_eq (obj_get address ''groupBy'') (opt_prop group ''groupBy'')
               \<or> \<not> strict_eq (obj_get address ''groupType'') (opt_prop group ''groupType'')
             else False) in
      categorizeByHasChanged \<or> groupByHasChanged)"

definition listen_for_perspective_change :: "(obj \<Rightarrow> obj) \<Rightarrow> (jsval \<times> obj) option \<Rightarrow> obj \<Rightarrow> obj" where
  "listen_for_perspective_change reread selected address =
     (case selected of None \<Rightarrow> address
      | Some (breakdownBy, breakdownData) \<Rightarrow>
          if someParamHasChanged address breakdownBy breakdownData
          then removeSearchParam reread address ''selectedPerspective'' else address)"

section \<open>Constraints of the organization\<close>

text \<open>The filters of the form that creates a constraint; empty lists and undefined values are left out.\<close>

definition constraint_filters :: "filter_env \<Rightarrow> (string \<times> applied_filter) list \<Rightarrow> obj" where
  "constraint_filters env applied =
     mapAvailableFilterKeys (from_entries (concat (map (\<lambda>(key, v).
       case map_of (FILTER_CONFIGS env) key of None \<Rightarrow> []
       | Some cfg \<Rightarrow> filter (\<lambda>(k, w). case w of Arr vs \<Rightarrow> vs \<noteq> [] | Undef \<Rightarrow> False | _ \<Rightarrow> True) (toApi cfg v)) applied)))"

definition getFilterValues :: "obj \<Rightarrow> obj" where
  "getFilterValues constraint =
     obj_spread (own_props (obj_get constraint ''filters''))
       (if obj_get constraint ''type'' = Str ''tagging_policy''
        then map (\<lambda>(k, v). (k, Arr [v]))
          (own_props (js_coalesce (opt_prop (obj_get constraint ''definition'') ''conditions'') (Obj [])))
        else [])"

text \<open>\<open>getFiltersParams\<close>, before it is written as text.\<close>

definition link_params :: "filter_env \<Rightarrow> obj \<Rightarrow> obj js" where
  "link_params env filterValues =
     map_js (\<lambda>ps. from_entries (concat ps)) (mapM_js (\<lambda>(key, cfg). case cfg of
         SelectionConfig c \<Rightarrow>
           (let v = js_coalesce (obj_get filterValues (sc_apiName c)) (Arr []) in
            if isEmptyArray v then Inr []
            else bind_js (as_array v) (\<lambda>vs. map_js (\<lambda>ws. [(sc_id c, Arr ws)]) (mapM_js (sc_getValue c) vs)))
       | RangeConfig r \<Rightarrow>
           (let f = obj_get filterValues (rg_fromApiName r); t = obj_get filterValues (rg_toApiName r) in
            Inr (if \<not> truthy f \<and> \<not> truthy t then [] else [(rg_fromName r, f), (rg_toName r, t)])))
       (FILTER_CONFIGS env))"

definition getFiltersParams :: "filter_env \<Rightarrow> obj \<Rightarrow> obj js" where
  "getFiltersParams env constraint = link_params env (getFilterValues constraint)"

definition getResourcesBreakdown :: "jsval \<Rightarrow> jsval" where
  "getResourcesBreakdown t =
     (case t of Str s \<Rightarrow> (case map_of
         [(''expense_anomaly'', ''expenses''), (''resource_count_anomaly'', ''resourceCount''),
          (''resource_quota'', ''resourceCount''), (''recurring_budget'', ''expenses''),
          (''expiring_budget'', ''expenses''), (''tagging_policy'', ''expenses'')] s of Some b \<Rightarrow> Str b | None \<Rightarrow> Undef)
      | _ \<Rightarrow> Undef)"

text \<open>\<open>AnomaliesFilters\<close>: the texts of the filters of a constraint, each with the name of its filter.\<close>

definition anomaly_filter_items :: "filter_env \<Rightarrow> obj \<Rightarrow> (string \<times> jsval) list js" where
  "anomaly_filter_items env filters =
     map_js concat (mapM_js (\<lambda>(key, cfg). case cfg of
         SelectionConfig c \<Rightarrow>
           (let v = js_coalesce (obj_get filters (sc_apiName c)) (Arr []) in
            if isEmptyArray v then Inr []
            else bind_js (as_array v) (mapM_js (\<lambda>x. bind_js (sc_getValue c x) (\<lambda>w.
              map_js (Pair (sc_id c)) (sc_renderPerspectiveItem c w v)))))
       | RangeConfig r \<Rightarrow>
           (let f = obj_get filters (rg_fromApiName r); t = obj_get filters (rg_toApiName r) in
            Inr (if \<not> truthy f \<and> \<not> truthy t then [] else [(rg_id r, rg_renderPerspectiveItem r f t)])))
       (FILTER_CONFIGS env))"

text \<open>The definition of a new constraint; of a tagging policy the conditions on its tags.\<close>

definition getTaggingConditions :: "string \<Rightarrow> obj \<Rightarrow> jsval" where
  "getTaggingConditions nil formData =
     (let strategy = obj_get formData ''tagsBar''; required = obj_get formData ''requiredTagField'' in
      if strategy = Str ''taggingPolicy.requiredTag'' \<and> required = Str [] then Obj [(''tag'', Str nil)]
      else if strategy = Str ''taggingPolicy.requiredTag'' then Obj [(''without_tag'', required)]
      else if strategy = Str ''taggingPolicy.prohibitedTag'' then Obj [(''tag'', obj_get formData ''prohibitedTagField'')]
      else if strategy = Str ''taggingPolicy.tagsCorrelation''
      then Obj [(''tag'', obj_get formData ''tagsCorrelationPrimaryTag''),
        (''without_tag'', obj_get formData ''tagsCorrelationCorrelatedTag'')]
      else Undef)"

text \<open>A field that is no number gives NaN, here undefined.\<close>

definition getDefinition :: "filter_env \<Rightarrow> string \<Rightarrow> obj \<Rightarrow> jsval" where
  "getDefinition env t formData =
     (let number = (\<lambda>k. opt_num (js_number (obj_get formData k)));
          start_date = opt_num (map_option (fe_toSec env) (js_number (obj_get formData ''startDate'')));
          anomaly = Obj [(''threshold_days'', number ''evaluationPeriod''), (''threshold'', number ''threshold'')] in
      case map_of [(''resource_count_anomaly'', anomaly), (''expense_anomaly'', anomaly),
         (''resource_quota'', Obj [(''max_value'', number ''maxValue'')]),
         (''expiring_budget'', Obj [(''total_budget'', number ''totalBudget''), (''start_date'', start_date)]),
         (''recurring_budget'', Obj [(''monthly_budget'', number ''monthlyBudget'')]),
         (''tagging_policy'', Obj [(''start_date'', start_date), (''conditions'', getTaggingConditions (fe_nil env) formData)])] t
      of Some d \<Rightarrow> d | None \<Rightarrow> Undef)"

end
