(* ===== verification/ResourceFilterFacts.thy ===== *)
theory ResourceFilterFacts
  imports ResourceFilters
begin

text \<open>
  Facts on the filters of the resources: what a reload reads from the address, what reaches the API,
  which items a perspective keeps, and what the link of a constraint opens.  The laws of
  \<open>query-string\<close> and of the conversions of \<open>date-fns\<close> that these need are stated first.
\<close>

named_theorems filter_defs

lemmas selection_filters [filter_defs] = cloudAccountId_filter_def poolId_filter_def ownerId_filter_def
  region_filter_def serviceName_filter_def resourceType_filter_def active_filter_def
  recommendations_filter_def constraintViolated_filter_def tag_filter_def meta_filter_def
  withoutTag_filter_def networkTrafficFrom_filter_def networkTrafficTo_filter_def k8sNode_filter_def
  k8sService_filter_def k8sNamespace_filter_def

lemmas range_filters [filter_defs] = firstSeen_filter_def lastSeen_filter_def

section \<open>What is outside\<close>

text \<open>A value that keeps its kind when it is written to the address: a text that is no numeral and not
  one of the two truth values, a truth value, or a whole number.\<close>

definition plain_value :: "(string \<Rightarrow> bool) \<Rightarrow> jsval \<Rightarrow> bool" where
  "plain_value reads_number v =
     (case v of Str s \<Rightarrow> s \<noteq> [] \<and> \<not> reads_number s \<and> map to_lower s \<notin> {''true'', ''false''}
      | Bool b \<Rightarrow> True | Num x \<Rightarrow> x = of_int \<lfloor>x\<rfloor> | _ \<Rightarrow> False)"

text \<open>\<open>query-string\<close> with the options of \<open>utils/network.ts\<close>: what is undefined, null or an empty array
  is not written; an array is read back as an array, of one value as the value; a plain value as itself;
  and what was once written and read stays as it is.  \<open>reads_number\<close> are the texts read as numbers.\<close>

definition query_string :: "(string \<Rightarrow> bool) \<Rightarrow> (obj \<Rightarrow> obj) \<Rightarrow> bool" where
  "query_string reads_number reread \<longleftrightarrow>
     (\<forall>ps k. nullish (obj_get ps k) \<or> obj_get ps k = Arr [] \<longrightarrow> obj_get (reread ps) k = Undef)
     \<and> (\<forall>ps k v. obj_get ps k = Arr [v] \<and> plain_value reads_number v \<longrightarrow> obj_get (reread ps) k = v)
     \<and> (\<forall>ps k v w vs. obj_get ps k = Arr (v # w # vs) \<and> list_all (plain_value reads_number) (v # w # vs) \<longrightarrow>
          obj_get (reread ps) k = Arr (v # w # vs))
     \<and> (\<forall>ps k v. obj_get ps k = v \<and> plain_value reads_number v \<longrightarrow> obj_get (reread ps) k = v)
     \<and> (\<forall>ps q k. obj_get ps k = obj_get (reread q) k \<longrightarrow> obj_get (reread ps) k = obj_get (reread q) k)
     \<and> (\<forall>s. \<not> reads_number (s @ ''+''))"

lemma query_stringD:
  assumes "query_string reads_number reread"
  shows "nullish (obj_get ps k) \<or> obj_get ps k = Arr [] \<Longrightarrow> obj_get (reread ps) k = Undef"
    "obj_get ps k = Arr [v] \<Longrightarrow> plain_value reads_number v \<Longrightarrow> obj_get (reread ps) k = v"
    "obj_get ps k = Arr (v # w # vs) \<Longrightarrow> list_all (plain_value reads_number) (v # w # vs) \<Longrightarrow>
      obj_get (reread ps) k = Arr (v # w # vs)"
    "obj_get ps k = v \<Longrightarrow> plain_value reads_number v \<Longrightarrow> obj_get (reread ps) k = v"
    "obj_get ps k = obj_get (reread q) k \<Longrightarrow> obj_get (reread ps) k = obj_get (reread q) k"
    "\<not> reads_number (s @ ''+'')"
  using assms unfolding query_string_def by blast+

text \<open>\<open>secondsToMilliseconds\<close> and \<open>millisecondsToSeconds\<close> of \<open>date-fns\<close>; the second one truncates.\<close>

definition whole_seconds :: "filter_env \<Rightarrow> bool" where
  "whole_seconds env \<longleftrightarrow>
     (\<forall>s. fe_toMs env s = 1000 * s) \<and> (\<forall>ms \<ge> 0. fe_toSec env ms = of_int \<lfloor>ms / 1000\<rfloor>)"

text \<open>A filter as it comes back from the address: the ends of a range lose their milliseconds, and the
  sub-pools of no pool are forgotten.\<close>

fun as_read :: "filter_env \<Rightarrow> applied_filter \<Rightarrow> applied_filter" where
  "as_read env (Selected vs settings) = Selected vs (if vs = [] \<and> settings = Some True then Some False else settings)"
| "as_read env (Range f t) =
     Range (map_option (\<lambda>x. fe_toMs env (fe_toSec env x)) f) (map_option (\<lambda>x. fe_toMs env (fe_toSec env x)) t)"

section \<open>The table of filters\<close>

definition param_names :: "filter_config \<Rightarrow> string list" where
  "param_names cfg = (case cfg of SelectionConfig c \<Rightarrow> [sc_id c] | RangeConfig r \<Rightarrow> [rg_fromName r, rg_toName r])"

definition filter_ids :: "string list" where
  "filter_ids = [''cloudAccountId'', ''poolId'', ''ownerId'', ''region'', ''serviceName'', ''resourceType'', ''active'',
     ''recommendations'', ''constraintViolated'', ''firstSeen'', ''lastSeen'', ''tag'', ''meta'', ''withoutTag'',
     ''networkTrafficFrom'', ''networkTrafficTo'', ''k8sNode'', ''k8sService'', ''k8sNamespace'']"

lemma FILTER_CONFIGS_ids: "map fst (FILTER_CONFIGS env) = filter_ids"
  by (simp add: FILTER_CONFIGS_def filter_ids_def)

lemma distinct_filter_ids: "distinct filter_ids"
  by (rule distinct_by_code) code_simp

lemma config_of: "(k, cfg) \<in> set (FILTER_CONFIGS env) \<longleftrightarrow> map_of (FILTER_CONFIGS env) k = Some cfg"
  using map_of_eq_Some_iff [of "FILTER_CONFIGS env" k cfg] distinct_filter_ids
  by (simp add: FILTER_CONFIGS_ids)

lemma config_ids: "list_all (\<lambda>(k, cfg). config_id cfg = k) (FILTER_CONFIGS env)"
  by (simp add: FILTER_CONFIGS_def config_id_def filter_defs)

lemma config_id_of: "(k, cfg) \<in> set (FILTER_CONFIGS env) \<Longrightarrow> config_id cfg = k"
  using config_ids [of env] by (auto simp: list_all_iff)

definition all_param_names :: "string list" where
  "all_param_names = [''cloudAccountId'', ''poolId'', ''ownerId'', ''region'', ''serviceName'', ''resourceType'', ''active'',
     ''recommendations'', ''constraintViolated'', ''firstSeenFrom'', ''firstSeenTo'', ''lastSeenFrom'', ''lastSeenTo'',
     ''tag'', ''meta'', ''withoutTag'', ''networkTrafficFrom'', ''networkTrafficTo'', ''k8sNode'', ''k8sService'',
     ''k8sNamespace'']"

lemma param_names_table: "concat (map (\<lambda>(k, cfg). param_names cfg) (FILTER_CONFIGS env)) = all_param_names"
  by (simp add: FILTER_CONFIGS_def param_names_def filter_defs all_param_names_def)

lemma distinct_param_names: "distinct all_param_names"
  by (rule distinct_by_code) code_simp

lemma distinct_concat_disjoint:
  "distinct (concat (map f xs)) \<Longrightarrow> x \<in> set xs \<Longrightarrow> y \<in> set xs \<Longrightarrow> n \<in> set (f x) \<Longrightarrow> n \<in> set (f y) \<Longrightarrow> x = y"
  by (induction xs) auto

lemma param_name_unique:
  assumes "(k, cfg) \<in> set (FILTER_CONFIGS env)" "(k', cfg') \<in> set (FILTER_CONFIGS env)"
    "n \<in> set (param_names cfg)" "n \<in> set (param_names cfg')"
  shows "k' = k" "cfg' = cfg"
  using distinct_concat_disjoint [OF distinct_param_names [folded param_names_table [of env]] assms(1,2)] assms(3,4)
  by auto

lemma param_names_known: "(k, cfg) \<in> set (FILTER_CONFIGS env) \<Longrightarrow> n \<in> set (param_names cfg) \<Longrightarrow> n \<in> set all_param_names"
  using param_names_table [of env] by (force simp flip: param_names_table [of env])

text \<open>All filters but that of the pools read and write one parameter or two in the same way.\<close>

definition regular :: "selection_config \<Rightarrow> bool" where
  "regular c \<longleftrightarrow>
     sc_getValuesFromSearchParams c = (\<lambda>ps. Selected (getSelectionAppliedValuesFromSearchParams ps (sc_id c)) None)
     \<and> sc_toApi c = (\<lambda>a. [(sc_id c, applied_values a)])"

definition regular_range :: "filter_env \<Rightarrow> range_config \<Rightarrow> bool" where
  "regular_range env r \<longleftrightarrow>
     rg_getValuesFromSearchParams r = (\<lambda>ps. getRangeAppliedFilterValuesFromSearchParams env ps (rg_fromName r) (rg_toName r))
     \<and> rg_toApi r = (\<lambda>a. [(rg_fromName r, opt_num (given_map (fe_toSec env) (range_from a))),
          (rg_toName r, opt_num (given_map (fe_toSec env) (range_to a)))])
     \<and> rg_fromName r \<noteq> rg_toName r"

definition regular_entry :: "filter_env \<Rightarrow> string \<Rightarrow> filter_config \<Rightarrow> bool" where
  "regular_entry env k cfg = (case cfg of
      SelectionConfig c \<Rightarrow> sc_id c = k \<and> k \<notin> {''firstSeen'', ''lastSeen''} \<and> (if k = ''poolId'' then c = poolId_filter env else regular c)
    | RangeConfig r \<Rightarrow> rg_id r = k \<and> k \<in> {''firstSeen'', ''lastSeen''} \<and> regular_range env r)"

lemma configs_regular: "list_all (\<lambda>(k, cfg). regular_entry env k cfg) (FILTER_CONFIGS env)"
  by (simp add: FILTER_CONFIGS_def regular_entry_def regular_def regular_range_def filter_defs)

lemma config_cases:
  assumes "(k, cfg) \<in> set (FILTER_CONFIGS env)"
  obtains (regular) c where "cfg = SelectionConfig c" "regular c" "sc_id c = k" "k \<notin> {''poolId'', ''firstSeen'', ''lastSeen''}"
    | (pool) "cfg = SelectionConfig (poolId_filter env)" "k = ''poolId''"
    | (range) r where "cfg = RangeConfig r" "regular_range env r" "k \<in> {''firstSeen'', ''lastSeen''}"
proof -
  have "regular_entry env k cfg" using configs_regular [of env] assms by (auto simp: list_all_iff)
  with that show ?thesis by (cases cfg) (auto simp: regular_entry_def split: if_splits)
qed

lemma toApi_names: "(k, cfg) \<in> set (FILTER_CONFIGS env) \<Longrightarrow> map fst (toApi cfg a) = param_names cfg"
  by (erule config_cases) (auto simp: toApi_def param_names_def regular_def regular_range_def poolId_filter_def pool_to_api_def)

lemma distinct_names: "(k, cfg) \<in> set (FILTER_CONFIGS env) \<Longrightarrow> distinct (param_names cfg)"
  by (erule config_cases) (auto simp: param_names_def regular_range_def)

lemma getValues_cong:
  assumes "(k, cfg) \<in> set (FILTER_CONFIGS env)" "\<And>n. n \<in> set (param_names cfg) \<Longrightarrow> obj_get ps n = obj_get qs n"
  shows "getValuesFromSearchParams cfg ps = getValuesFromSearchParams cfg qs"
  using assms(1)
proof (cases rule: config_cases)
  case (regular c)
  with assms(2) show ?thesis
    by (simp add: getValuesFromSearchParams_def regular_def param_names_def getSelectionAppliedValuesFromSearchParams_def)
next
  case pool
  with assms(2) show ?thesis
    by (simp add: getValuesFromSearchParams_def poolId_filter_def param_names_def pool_values_def
        getSelectionAppliedValuesFromSearchParams_def)
next
  case (range r)
  with assms(2) show ?thesis
    by (simp add: getValuesFromSearchParams_def regular_range_def param_names_def
        getRangeAppliedFilterValuesFromSearchParams_def)
qed

section \<open>Written and read again\<close>

text \<open>The applied filters that come back: selected values are plain, a pool has no \<open>+\<close> at its end, the ends of a range are later than the first second of the epoch.\<close>

definition late_end :: "rat option \<Rightarrow> bool" where
  "late_end x = (case x of None \<Rightarrow> True | Some y \<Rightarrow> 1000 \<le> y)"

definition pool_id :: "(string \<Rightarrow> bool) \<Rightarrow> jsval \<Rightarrow> bool" where
  "pool_id reads_number v =
     (plain_value reads_number v \<and> (case v of Str s \<Rightarrow> last s \<noteq> CHR ''+'' | _ \<Rightarrow> False))"

definition writable :: "(string \<Rightarrow> bool) \<Rightarrow> string \<Rightarrow> applied_filter \<Rightarrow> bool" where
  "writable reads_number k a =
     (if k \<in> {''firstSeen'', ''lastSeen''}
      then (case a of Range f t \<Rightarrow> late_end f \<and> late_end t | _ \<Rightarrow> False)
      else if k = ''poolId''
      then (case a of Selected vs (Some withSubpools) \<Rightarrow> list_all (pool_id reads_number) vs | _ \<Rightarrow> False)
      else (case a of Selected vs None \<Rightarrow> list_all (plain_value reads_number) vs | _ \<Rightarrow> False))"

lemma read_selection:
  assumes "query_string reads_number reread" "obj_get ps n = Arr vs" "list_all (plain_value reads_number) vs"
  shows "getSelectionAppliedValuesFromSearchParams (reread ps) n = vs"
proof -
  consider "vs = []" | v where "vs = [v]" | v w ws where "vs = v # w # ws" by (metis list.exhaust)
  then show ?thesis
  proof cases
    case 1
    with query_stringD(1) [OF assms(1), of ps n] assms(2) show ?thesis
      by (simp add: getSelectionAppliedValuesFromSearchParams_def)
  next
    case 2
    with query_stringD(2) [OF assms(1), of ps n v] assms(2,3) show ?thesis
      by (auto simp: getSelectionAppliedValuesFromSearchParams_def plain_value_def split: jsval.splits)
  next
    case 3
    with query_stringD(3) [OF assms(1), of ps n v w ws] assms(2,3) show ?thesis
      by (simp add: getSelectionAppliedValuesFromSearchParams_def)
  qed
qed

lemma read_pools:
  assumes "query_string reads_number reread" "writable reads_number ''poolId'' a" "obj_get ps ''poolId'' = snd (hd (pool_to_api a))"
  shows "pool_values (reread ps) = as_read env a"
proof -
  obtain vs sub where a: "a = Selected vs (Some sub)" and vs: "list_all (pool_id reads_number) vs"
    using assms(2) by (auto simp: writable_def split: applied_filter.splits option.splits)
  define ws where "ws = (if sub then map (\<lambda>poolId. Str (to_str poolId @ ''+'')) vs else vs)"
  have get: "obj_get ps ''poolId'' = Arr ws"
    using assms(3) by (simp add: a pool_to_api_def ws_def applied_values_def)
  have str: "\<exists>s. v = Str s \<and> s \<noteq> [] \<and> last s \<noteq> CHR ''+'' \<and> plain_value reads_number v" if "v \<in> set vs" for v
  proof -
    have "pool_id reads_number v" using vs that by (simp add: list_all_iff)
    then show ?thesis by (cases v) (simp_all add: pool_id_def plain_value_def)
  qed
  have lower: "map to_lower (s @ ''+'') \<notin> {''true'', ''false''}" for s
  proof -
    have "last (map to_lower (s @ ''+'')) = CHR ''+''" by (simp add: to_lower_def)
    then show ?thesis by auto
  qed
  have "plain_value reads_number (Str (s @ ''+''))" for s
    using query_stringD(6) [OF assms(1), of s] lower [of s] by (simp add: plain_value_def)
  then have plain: "list_all (plain_value reads_number) ws"
    using str by (fastforce simp: ws_def list_all_iff)
  have read: "getSelectionAppliedValuesFromSearchParams (reread ps) ''poolId'' = ws"
    by (rule read_selection [OF assms(1) get plain])
  show ?thesis
  proof (cases sub)
    case True
    have "list_all isPoolIdWithSubPools ws"
      by (simp add: ws_def True list_all_iff isPoolIdWithSubPools_def)
    moreover have "map without_last ws = vs"
    proof -
      have "Str (to_str v) = v" if "v \<in> set vs" for v using str [OF that] by auto
      then show ?thesis by (simp add: ws_def True without_last_def comp_def map_idI)
    qed
    ultimately show ?thesis
      by (cases ws) (auto simp: pool_values_def read a True list_all_iff filter_id_conv)
  next
    case False
    have "\<not> list_ex isPoolIdWithSubPools ws"
      using str by (fastforce simp: ws_def False list_ex_iff isPoolIdWithSubPools_def)
    then show ?thesis by (simp add: pool_values_def read a False ws_def)
  qed
qed

lemma late_seconds:
  assumes "whole_seconds env" "1000 \<le> y"
  shows "fe_toSec env y = of_int \<lfloor>y / 1000\<rfloor>" "fe_toSec env y \<noteq> 0" "y \<noteq> 0"
    "fe_toSec env (fe_toMs env (fe_toSec env y)) = fe_toSec env y" "fe_toMs env (fe_toSec env y) \<noteq> 0"
proof -
  have n: "1 \<le> \<lfloor>y / 1000\<rfloor>" using assms(2) by (simp add: le_floor_iff)
  then have nz: "\<lfloor>y / 1000\<rfloor> \<noteq> 0" by linarith
  have pos: "0 \<le> y" using assms(2) by simp
  show sec: "fe_toSec env y = of_int \<lfloor>y / 1000\<rfloor>" using assms(1) pos by (simp add: whole_seconds_def)
  show "fe_toSec env y \<noteq> 0" "y \<noteq> 0" using nz assms(2) by (simp_all add: sec)
  have ms: "fe_toMs env (fe_toSec env y) = 1000 * of_int \<lfloor>y / 1000\<rfloor>" using assms(1) by (simp add: whole_seconds_def sec)
  then show "fe_toMs env (fe_toSec env y) \<noteq> 0" using nz by simp
  have "0 \<le> (1000 :: rat) * of_int \<lfloor>y / 1000\<rfloor>" using n by (simp add: pos)
  then show "fe_toSec env (fe_toMs env (fe_toSec env y)) = fe_toSec env y"
    using assms(1) unfolding ms sec whole_seconds_def by simp
qed

lemma read_range_end:
  assumes "query_string reads_number reread" "whole_seconds env" "late_end x"
    "obj_get ps n = opt_num (given_map (fe_toSec env) x)"
  shows "map_option (fe_toMs env) (js_number (obj_get (reread ps) n)) = map_option (\<lambda>x. fe_toMs env (fe_toSec env x)) x"
proof (cases x)
  case None
  then have "obj_get (reread ps) n = Undef"
    using query_stringD(1) [OF assms(1), of ps n] assms(4) by (simp add: given_map_def given_def opt_num_def nullish_def)
  then show ?thesis by (simp add: None js_number_def to_primitive_def)
next
  case (Some y)
  note y = late_seconds [OF assms(2), of y]
  have late: "1000 \<le> y" using assms(3) by (simp add: Some late_end_def)
  have "obj_get ps n = Num (of_int \<lfloor>y / 1000\<rfloor>)"
    using assms(4) y(3) [OF late] by (simp add: Some given_map_def given_def opt_num_def y(1) [OF late])
  from query_stringD(4) [OF assms(1) this] show ?thesis
    by (simp add: Some js_number_def to_primitive_def y(1) [OF late] plain_value_def)
qed

text \<open>A filter that came back from the address is written as before.\<close>

lemma given_as_read:
  "whole_seconds env \<Longrightarrow> late_end x \<Longrightarrow>
    given_map (fe_toSec env) (map_option (\<lambda>x. fe_toMs env (fe_toSec env x)) x) = given_map (fe_toSec env) x"
  by (cases x) (simp_all add: given_map_def given_def late_end_def late_seconds(3-5))

lemma toApi_as_read:
  assumes "whole_seconds env" "(k, cfg) \<in> set (FILTER_CONFIGS env)" "writable reads_number k a"
  shows "toApi cfg (as_read env a) = toApi cfg a"
proof (cases a)
  case (Range f t)
  with assms(3) have k: "k \<in> {''firstSeen'', ''lastSeen''}" "late_end f" "late_end t"
    by (auto simp: writable_def split: if_splits)
  show ?thesis
    using assms(2)
  proof (cases rule: config_cases)
    case (range r)
    with k show ?thesis by (simp add: Range toApi_def regular_range_def given_as_read [OF assms(1)])
  qed (use k in auto)
next
  case (Selected vs settings)
  show ?thesis
  proof (cases "vs = [] \<and> settings = Some True")
    case True
    with assms(3) have "k = ''poolId''" by (auto simp: Selected writable_def split: if_splits)
    show ?thesis
      using assms(2)
    proof (cases rule: config_cases)
      case pool
      show ?thesis by (simp add: pool Selected True toApi_def poolId_filter_def pool_to_api_def applied_values_def)
    qed (use \<open>k = ''poolId''\<close> in auto)
  next
    case False
    then show ?thesis by (auto simp: Selected)
  qed
qed

lemma read_written:
  assumes "query_string reads_number reread" "whole_seconds env" "(k, cfg) \<in> set (FILTER_CONFIGS env)"
    "writable reads_number k a" "\<And>n. n \<in> set (param_names cfg) \<Longrightarrow> obj_get ps n = obj_get (toApi cfg a) n"
  shows "getValuesFromSearchParams cfg (reread ps) = as_read env a"
  using assms(3)
proof (cases rule: config_cases)
  case (regular c)
  obtain vs where a: "a = Selected vs None" "list_all (plain_value reads_number) vs"
    using assms(4) regular(4) by (auto simp: writable_def split: applied_filter.splits option.splits if_splits)
  have "obj_get ps k = Arr vs"
    using assms(5) [of k] regular by (simp add: param_names_def toApi_def regular_def a(1) applied_values_def)
  from read_selection [OF assms(1) this a(2)] regular show ?thesis
    by (simp add: getValuesFromSearchParams_def regular_def a(1))
next
  case pool
  have "obj_get ps ''poolId'' = snd (hd (pool_to_api a))"
    using assms(5) [of "''poolId''"] pool by (simp add: param_names_def toApi_def poolId_filter_def pool_to_api_def)
  then show ?thesis using read_pools [OF assms(1), of a ps env] assms(4) pool
    by (simp add: getValuesFromSearchParams_def poolId_filter_def)
next
  case (range r)
  obtain f t where a: "a = Range f t" "late_end f" "late_end t"
    using assms(4) range(3) by (auto simp: writable_def split: applied_filter.splits)
  have r: "rg_toApi r a = [(rg_fromName r, opt_num (given_map (fe_toSec env) f)), (rg_toName r, opt_num (given_map (fe_toSec env) t))]"
    "rg_fromName r \<noteq> rg_toName r"
    using range(2) by (simp_all add: regular_range_def a(1))
  have "obj_get ps (rg_fromName r) = opt_num (given_map (fe_toSec env) f)"
    "obj_get ps (rg_toName r) = opt_num (given_map (fe_toSec env) t)"
    using assms(5) [of "rg_fromName r"] assms(5) [of "rg_toName r"] r by (simp_all add: range(1) param_names_def toApi_def)
  from read_range_end [OF assms(1,2) a(2) this(1)] read_range_end [OF assms(1,2) a(3) this(2)] range show ?thesis
    by (simp add: getValuesFromSearchParams_def regular_range_def getRangeAppliedFilterValuesFromSearchParams_def a(1))
qed

section \<open>The parameters of the applied filters\<close>

lemma rev_toApi: "(k, cfg) \<in> set (FILTER_CONFIGS env) \<Longrightarrow> distinct (map fst (toApi cfg a))"
  by (simp add: toApi_names distinct_names)

lemma api_filter_params_snoc:
  "api_filter_params env (applied @ [(k, a)]) =
     (case map_of (FILTER_CONFIGS env) k of None \<Rightarrow> api_filter_params env applied
      | Some cfg \<Rightarrow> obj_spread (api_filter_params env applied) (toApi cfg a))"
  by (simp add: api_filter_params_def split: option.split)

lemma distinct_api_filter_params: "distinct (map fst (api_filter_params env applied))"
proof (induction applied rule: rev_induct)
  case Nil
  show ?case by (simp add: api_filter_params_def)
next
  case (snoc x xs)
  then show ?case by (cases x) (simp add: api_filter_params_snoc distinct_obj_spread split: option.split)
qed

text \<open>A parameter is that of the one filter it belongs to.\<close>

lemma api_filter_params_keys:
  "n \<in> fst ` set (api_filter_params env applied) \<longleftrightarrow>
     (\<exists>k cfg. k \<in> fst ` set applied \<and> (k, cfg) \<in> set (FILTER_CONFIGS env) \<and> n \<in> set (param_names cfg))"
proof (induction applied rule: rev_induct)
  case Nil
  show ?case by (simp add: api_filter_params_def)
next
  case (snoc x xs)
  obtain k a where x: "x = (k, a)" by (cases x)
  show ?case
  proof (cases "map_of (FILTER_CONFIGS env) k")
    case None
    then have "(k, cfg) \<notin> set (FILTER_CONFIGS env)" for cfg by (simp add: config_of)
    with snoc show ?thesis by (auto simp: x api_filter_params_snoc None)
  next
    case (Some cfg)
    then have cfg: "(k, cfg) \<in> set (FILTER_CONFIGS env)" by (simp add: config_of)
    have only: "cfg' = cfg" if "(k, cfg') \<in> set (FILTER_CONFIGS env)" for cfg' using that Some by (simp add: config_of)
    have "fst ` set (toApi cfg a) = set (param_names cfg)" using toApi_names [OF cfg, of a] by (metis set_map)
    then have keys: "fst ` set (api_filter_params env (xs @ [x])) = fst ` set (api_filter_params env xs) \<union> set (param_names cfg)"
      by (simp add: x api_filter_params_snoc Some keys_obj_spread)
    have here: "(\<exists>cfg'. (k, cfg') \<in> set (FILTER_CONFIGS env) \<and> n \<in> set (param_names cfg')) \<longleftrightarrow> n \<in> set (param_names cfg)"
      using cfg only by blast
    have "n \<in> fst ` set (api_filter_params env (xs @ [x])) \<longleftrightarrow>
        (\<exists>k cfg. k \<in> fst ` set xs \<and> (k, cfg) \<in> set (FILTER_CONFIGS env) \<and> n \<in> set (param_names cfg)) \<or> n \<in> set (param_names cfg)"
      by (simp only: keys Un_iff snoc.IH)
    also have "\<dots> \<longleftrightarrow> (\<exists>k cfg. k \<in> fst ` set (xs @ [x]) \<and> (k, cfg) \<in> set (FILTER_CONFIGS env) \<and> n \<in> set (param_names cfg))"
      unfolding here [symmetric] by (simp only: x set_append image_Un Un_iff list.set image_insert image_empty fst_conv singleton_iff) blast
    finally show ?thesis .
  qed
qed

lemma api_filter_params_get:
  assumes "distinct (map fst applied)" "(k, a) \<in> set applied" "(k, cfg) \<in> set (FILTER_CONFIGS env)" "n \<in> set (param_names cfg)"
  shows "obj_get (api_filter_params env applied) n = obj_get (toApi cfg a) n"
  using assms(1,2)
proof (induction applied rule: rev_induct)
  case (snoc x xs)
  obtain k' a' where x: "x = (k', a')" by (cases x)
  show ?case
  proof (cases "k' = k")
    case True
    with snoc.prems have "a' = a" by (force simp: x)
    moreover have "n \<in> fst ` set (toApi cfg a)" using toApi_names [OF assms(3), of a] assms(4) by (metis set_map)
    ultimately show ?thesis using assms(3) rev_toApi [OF assms(3)]
      by (simp add: x True api_filter_params_snoc config_of obj_get_spread)
  next
    case False
    with snoc have IH: "obj_get (api_filter_params env xs) n = obj_get (toApi cfg a) n" by (simp add: x)
    show ?thesis
    proof (cases "map_of (FILTER_CONFIGS env) k'")
      case None
      with IH show ?thesis by (simp add: x api_filter_params_snoc)
    next
      case (Some cfg')
      then have cfg': "(k', cfg') \<in> set (FILTER_CONFIGS env)" by (simp add: config_of)
      have "n \<notin> set (param_names cfg')" using param_name_unique [OF assms(3) cfg' assms(4)] False by blast
      then have "n \<notin> fst ` set (toApi cfg' a')" using toApi_names [OF cfg', of a'] by (metis set_map)
      with IH show ?thesis by (simp add: x api_filter_params_snoc Some obj_get_spread rev_toApi [OF cfg'])
    qed
  qed
qed simp

section \<open>The page and its address\<close>

lemma obj_set_present:
  "k \<in> fst ` set kvs \<Longrightarrow> obj_set k v kvs = map (\<lambda>(k', v'). (k', if k' = k then v else v')) kvs"
  by (simp add: obj_set_def)

lemma obj_spread_known:
  assumes "distinct (map fst new)" "fst ` set new \<subseteq> fst ` set old"
  shows "obj_spread old new = map (\<lambda>(k, v). (k, case map_of new k of Some w \<Rightarrow> w | None \<Rightarrow> v)) old"
  using assms
proof (induction new rule: rev_induct)
  case Nil
  show ?case by (simp add: obj_spread_def case_prod_beta)
next
  case (snoc x xs)
  obtain k v where x: "x = (k, v)" by (cases x)
  have "k \<in> fst ` set (obj_spread old xs)" using snoc.prems by (auto simp: keys_obj_spread x)
  then have "obj_spread old (xs @ [x]) = map (\<lambda>(k', v'). (k', if k' = k then v else v')) (obj_spread old xs)"
    by (simp add: obj_spread_def x obj_set_present)
  moreover have "map_of xs k = None" using snoc.prems(1) by (simp add: x map_of_eq_None_iff)
  ultimately show ?case using snoc by (auto simp: x map_add_def split: option.splits)
qed

lemma page_filters:
  "rp_applied (open_page env address) = map (\<lambda>(k, cfg). (k, getValuesFromSearchParams cfg address)) (FILTER_CONFIGS env)"
proof -
  have ids: "map (\<lambda>(k, cfg). (config_id cfg, getValuesFromSearchParams cfg address)) (FILTER_CONFIGS env)
      = map (\<lambda>(k, cfg). (k, getValuesFromSearchParams cfg address)) (FILTER_CONFIGS env)"
    using config_id_of by auto
  have keys: "map fst (map (\<lambda>(k, cfg). (k, getValuesFromSearchParams cfg address)) (FILTER_CONFIGS env)) = filter_ids"
    by (simp add: comp_def case_prod_beta flip: FILTER_CONFIGS_ids [of env])
  have "list_all (\<lambda>k. \<not> is_index k) filter_ids" by (simp add: filter_ids_def is_index_alpha is_digit_def)
  then have "\<forall>k \<in> fst ` set (map (\<lambda>(k, cfg). (k, getValuesFromSearchParams cfg address)) (FILTER_CONFIGS env)). \<not> is_index k"
    unfolding set_map [symmetric] keys by (simp add: list_all_iff)
  from from_entries_plain [OF _ this] show ?thesis by (simp only: open_page_def resources_page.simps ids keys distinct_filter_ids simp_thms)
qed

lemma page_ids: "map fst (rp_applied (open_page env address)) = filter_ids"
  by (simp add: page_filters comp_def case_prod_beta flip: FILTER_CONFIGS_ids [of env])

lemma page_filter_of:
  "(k, cfg) \<in> set (FILTER_CONFIGS env) \<Longrightarrow> (k, getValuesFromSearchParams cfg address) \<in> set (rp_applied (open_page env address))"
  by (force simp: page_filters)

text \<open>What the form of the filters gives to the page.\<close>

definition good_change :: "(string \<Rightarrow> bool) \<Rightarrow> (string \<times> applied_filter) list \<Rightarrow> bool" where
  "good_change reads_number new \<longleftrightarrow>
     distinct (map fst new) \<and> list_all (\<lambda>(k, a). k \<in> set filter_ids \<and> writable reads_number k a) new"

lemma selected_is_no_filter: "''selectedPerspective'' \<notin> set all_param_names"
  by (simp add: all_param_names_def)

text \<open>Page and reload show the same filters, up to the milliseconds of the ends of ranges.\<close>

definition reads_as :: "filter_env \<Rightarrow> (string \<Rightarrow> bool) \<Rightarrow> string \<times> applied_filter \<Rightarrow> string \<times> applied_filter \<Rightarrow> bool" where
  "reads_as env reads_number = (\<lambda>(k, a) (k', b). k' = k \<and> (b = a \<or> writable reads_number k a \<and> b = as_read env a))"

definition in_sync :: "filter_env \<Rightarrow> (string \<Rightarrow> bool) \<Rightarrow> (obj \<Rightarrow> obj) \<Rightarrow> resources_page \<Rightarrow> bool" where
  "in_sync env reads_number reread page \<longleftrightarrow> (\<exists>q. rp_address page = reread q)
     \<and> list_all2 (reads_as env reads_number) (rp_applied page) (rp_applied (open_page env (rp_address page)))"

lemma opened_in_sync: "in_sync env reads_number reread (open_page env (reread q))"
proof -
  have "rp_address (open_page env (reread q)) = reread q" by (simp add: open_page_def)
  moreover have "list_all2 (reads_as env reads_number) as as" for as
    by (rule list.rel_refl) (auto simp: reads_as_def)
  ultimately show ?thesis unfolding in_sync_def by auto
qed

lemma reads_as_ids: "list_all2 (reads_as env reads_number) as bs \<Longrightarrow> map fst bs = map fst as"
  by (induction rule: list_all2_induct) (auto simp: reads_as_def)

lemma in_sync_ids: "in_sync env reads_number reread page \<Longrightarrow> map fst (rp_applied page) = filter_ids"
  unfolding in_sync_def by (metis page_ids reads_as_ids)

lemma change_keeps_sync:
  assumes qs: "query_string reads_number reread" "whole_seconds env" and new: "good_change reads_number new"
    and sync: "in_sync env reads_number reread page"
  shows "in_sync env reads_number reread (onAppliedFiltersChange env reread selected new page)"
proof -
  obtain q where q: "rp_address page = reread q" using sync by (auto simp: in_sync_def)
  define address where "address = (if selected then removeSearchParam reread (reread q) ''selectedPerspective'' else reread q)"
  define q' where "q' = obj_spread address (api_filter_params env new)"
  have address: "obj_get address n = obj_get (reread q) n" if "n \<in> set all_param_names" for n
  proof -
    have "n \<noteq> ''selectedPerspective''" using that selected_is_no_filter by blast
    then show ?thesis using query_stringD(5) [OF qs(1), of "obj_remove ''selectedPerspective'' (reread q)" n q]
      by (simp add: address_def removeSearchParam_def)
  qed
  have now: "getValuesFromSearchParams cfg (reread q') =
      (case map_of new k of Some a \<Rightarrow> as_read env a | None \<Rightarrow> getValuesFromSearchParams cfg (reread q))"
    if cfg: "(k, cfg) \<in> set (FILTER_CONFIGS env)" for k cfg
  proof (cases "map_of new k")
    case None
    have "obj_get (reread q') n = obj_get (reread q) n" if n: "n \<in> set (param_names cfg)" for n
    proof (rule query_stringD(5) [OF qs(1)])
      have "k \<notin> fst ` set new" using None by (simp add: map_of_eq_None_iff)
      then have "n \<notin> fst ` set (api_filter_params env new)"
        using param_name_unique(1) [OF cfg _ n] by (auto simp: api_filter_params_keys)
      then show "obj_get q' n = obj_get (reread q) n"
        by (simp add: q'_def obj_get_spread distinct_api_filter_params address [OF param_names_known [OF cfg n]])
    qed
    from getValues_cong [OF cfg this] show ?thesis by (simp add: None)
  next
    case (Some a)
    have mem: "(k, a) \<in> set new" using Some by (rule map_of_SomeD)
    have "writable reads_number k a" "distinct (map fst new)" using new mem by (auto simp: good_change_def list_all_iff)
    moreover have "obj_get q' n = obj_get (toApi cfg a) n" if "n \<in> set (param_names cfg)" for n
    proof -
      have "n \<in> fst ` set (api_filter_params env new)"
        unfolding api_filter_params_keys using cfg mem that by force
      then show ?thesis
        using api_filter_params_get [OF \<open>distinct (map fst new)\<close> mem cfg that]
        by (simp add: q'_def obj_get_spread distinct_api_filter_params)
    qed
    ultimately show ?thesis using read_written [OF qs cfg] by (simp add: Some)
  qed
  have "fst ` set new \<subseteq> fst ` set (rp_applied page)"
    using new in_sync_ids [OF sync] by (force simp: good_change_def list_all_iff simp flip: set_map)
  then have after: "obj_spread (rp_applied page) new =
      map (\<lambda>(k, v). (k, case map_of new k of Some w \<Rightarrow> w | None \<Rightarrow> v)) (rp_applied page)"
    using new by (simp add: obj_spread_known good_change_def)
  have "list_all2 (\<lambda>e c. reads_as env reads_number e (fst c, getValuesFromSearchParams (snd c) (reread q)))
      (rp_applied page) (FILTER_CONFIGS env)"
    using sync by (simp add: in_sync_def q page_filters list.rel_map case_prod_beta)
  then have "list_all2 (\<lambda>e c. reads_as env reads_number
        (fst e, case map_of new (fst e) of Some w \<Rightarrow> w | None \<Rightarrow> snd e) (fst c, getValuesFromSearchParams (snd c) (reread q')))
      (rp_applied page) (FILTER_CONFIGS env)"
  proof (rule list.rel_mono_strong)
    fix e c assume c: "c \<in> set (FILTER_CONFIGS env)"
      and e: "reads_as env reads_number e (fst c, getValuesFromSearchParams (snd c) (reread q))"
    obtain k cfg where k: "c = (k, cfg)" by (cases c)
    with e obtain v where v: "e = (k, v)" by (cases e) (auto simp: reads_as_def)
    show "reads_as env reads_number
        (fst e, case map_of new (fst e) of Some w \<Rightarrow> w | None \<Rightarrow> snd e) (fst c, getValuesFromSearchParams (snd c) (reread q'))"
    proof (cases "map_of new k")
      case None
      with c e show ?thesis by (simp add: k v now)
    next
      case (Some a)
      then have "writable reads_number k a" using new by (auto simp: good_change_def list_all_iff dest: map_of_SomeD)
      with Some c show ?thesis by (simp add: k v now reads_as_def)
    qed
  qed
  moreover have "onAppliedFiltersChange env reread selected new page =
      \<lparr>rp_address = reread q', rp_applied = obj_spread (rp_applied page) new\<rparr>"
    by (simp add: onAppliedFiltersChange_def Let_def updateSearchParams_def q'_def address_def q)
  ultimately show ?thesis
    by (auto simp: in_sync_def page_filters after list.rel_map case_prod_beta)
qed

section \<open>The parameters of the requests\<close>

text \<open>The parameters of the address that carry a filter, with the parameters of the API they are sent as.\<close>

definition sent_as :: "filter_config \<Rightarrow> (string \<times> string) list" where
  "sent_as cfg = (case cfg of
      SelectionConfig c \<Rightarrow> [(sc_id c, if sc_apiName c \<in> {''cloud_account'', ''pool'', ''owner''} then sc_apiName c @ ''_id'' else sc_apiName c)]
    | RangeConfig r \<Rightarrow> [(rg_fromName r, rg_fromApiName r), (rg_toName r, rg_toApiName r)])"

definition page_request :: "filter_env \<Rightarrow> resources_page \<Rightarrow> jsval \<Rightarrow> jsval \<Rightarrow> jsval \<Rightarrow> obj" where
  "page_request env page startDate endDate limit =
     mapCleanExpensesRequestParamsToApiParams (flatRequestParams env (rp_applied page) startDate endDate limit)"

lemma sent_names: "map fst (sent_as cfg) = param_names cfg"
  by (simp add: sent_as_def param_names_def split: filter_config.split)

lemma mapAvailableFilterKeys_sent:
  "mapAvailableFilterKeys ps = map (\<lambda>(n, m). (m, obj_get ps n)) (concat (map (\<lambda>k. sent_as (the (map_of (FILTER_CONFIGS env) k)))
     [''cloudAccountId'', ''poolId'', ''ownerId'', ''region'', ''serviceName'', ''resourceType'', ''active'',
      ''recommendations'', ''constraintViolated'', ''firstSeen'', ''lastSeen'', ''tag'', ''withoutTag'', ''meta'',
      ''networkTrafficFrom'', ''networkTrafficTo'', ''k8sNode'', ''k8sService'', ''k8sNamespace'']))"
  by (simp add: mapAvailableFilterKeys_def FILTER_CONFIGS_def sent_as_def filter_defs)

lemma distinct_api_keys: "distinct (map fst (mapAvailableFilterKeys ps))"
proof -
  have "map fst (mapAvailableFilterKeys ps) = map fst (mapAvailableFilterKeys [])" by (simp add: mapAvailableFilterKeys_def)
  moreover have "distinct (map fst (mapAvailableFilterKeys []))" by (rule distinct_by_code) code_simp
  ultimately show ?thesis by simp
qed

lemma request_param:
  assumes "m \<in> fst ` set (mapAvailableFilterKeys ps)"
  shows "obj_get (mapCleanExpensesRequestParamsToApiParams ps) m = obj_get (mapAvailableFilterKeys ps) m"
proof -
  have "list_all (\<lambda>m. m \<noteq> ''limit'' \<and> m \<noteq> ''format'') (map fst (mapAvailableFilterKeys ps))"
    by (simp add: mapAvailableFilterKeys_def)
  then have "m \<noteq> ''limit''" "m \<noteq> ''format''" using assms by (auto simp: list_all_iff)
  with assms show ?thesis
    by (simp add: mapCleanExpensesRequestParamsToApiParams_def mapCleanExpensesFilterParamsToApiParams_def obj_get_spread
        distinct_api_keys)
qed

lemma known_filter_ids: "(k, cfg) \<in> set (FILTER_CONFIGS env) \<Longrightarrow> k \<in> set filter_ids"
  using FILTER_CONFIGS_ids [of env] by (metis fst_conv image_eqI set_map)

lemma sent_param:
  assumes "(k, cfg) \<in> set (FILTER_CONFIGS env)" "(n, m) \<in> set (sent_as cfg)"
  shows "obj_get (mapCleanExpensesRequestParamsToApiParams ps) m = obj_get ps n"
proof -
  have "(m, obj_get ps n) \<in> set (mapAvailableFilterKeys ps)"
    unfolding mapAvailableFilterKeys_sent [of ps env]
    using assms known_filter_ids [OF assms(1)] by (force simp: config_of filter_ids_def)
  then have "m \<in> fst ` set (mapAvailableFilterKeys ps)" "obj_get (mapAvailableFilterKeys ps) m = obj_get ps n"
    using distinct_api_keys [of ps] by (force, simp add: obj_get_def)
  then show ?thesis by (simp only: request_param)
qed

lemma flat_request_param:
  assumes "n \<in> set all_param_names"
  shows "obj_get (flatRequestParams env applied s e l) n = obj_get (api_filter_params env applied) n"
proof -
  have "n \<notin> {''startDate'', ''endDate'', ''limit''}"
    using assms by (auto simp: all_param_names_def)
  then show ?thesis by (simp add: flatRequestParams_def obj_get_spread)
qed

lemma request_of_filter:
  assumes "distinct (map fst (rp_applied page))" "(k, a) \<in> set (rp_applied page)" "(k, cfg) \<in> set (FILTER_CONFIGS env)"
    "(n, m) \<in> set (sent_as cfg)"
  shows "obj_get (page_request env page s e l) m = obj_get (toApi cfg a) n"
proof -
  have n: "n \<in> set (param_names cfg)" using assms(4) sent_names [of cfg] by (metis fst_conv image_eqI set_map)
  show ?thesis
    by (simp only: page_request_def sent_param [OF assms(3,4)] flat_request_param [OF param_names_known [OF assms(3) n]]
        api_filter_params_get [OF assms(1-3) n])
qed

text \<open>A page and its reload request the same data.\<close>

lemma same_params:
  assumes "whole_seconds env" "list_all2 (reads_as env reads_number) as bs"
  shows "api_filter_params env as = api_filter_params env bs"
proof -
  let ?f = "\<lambda>(k, v) acc. case map_of (FILTER_CONFIGS env) k of None \<Rightarrow> acc | Some cfg \<Rightarrow> obj_spread acc (toApi cfg v)"
  have "fold ?f as acc = fold ?f bs acc" for acc
    using assms(2)
  proof (induction arbitrary: acc rule: list_all2_induct)
    case (Cons x as y bs)
    have "?f y = ?f x"
    proof -
      obtain k a where x: "x = (k, a)" by (cases x)
      with Cons(1) obtain b where y: "y = (k, b)" "b = a \<or> writable reads_number k a \<and> b = as_read env a"
        by (cases y) (auto simp: reads_as_def)
      have "toApi cfg b = toApi cfg a" if "map_of (FILTER_CONFIGS env) k = Some cfg" for cfg
        using y(2) toApi_as_read [OF assms(1)] that by (auto simp: config_of)
      then show ?thesis by (auto simp: x y(1) split: option.split)
    qed
    with Cons show ?case by simp
  qed simp
  then show ?thesis by (simp add: api_filter_params_def)
qed

lemma in_sync_requests:
  assumes "whole_seconds env" "in_sync env reads_number reread page"
  shows "page_request env (open_page env (rp_address page)) s e l = page_request env page s e l"
proof -
  have "list_all2 (reads_as env reads_number) (rp_applied page) (rp_applied (open_page env (rp_address page)))"
    using assms(2) by (simp add: in_sync_def)
  from same_params [OF assms(1) this] show ?thesis by (simp add: page_request_def flatRequestParams_def)
qed

section \<open>Saved perspectives\<close>

lemma applied_by_config:
  assumes "map fst applied = filter_ids"
  shows "applied = map (\<lambda>(k, cfg). (k, the (map_of applied k))) (FILTER_CONFIGS env)"
proof -
  have "applied = map (\<lambda>e. (fst e, the (map_of applied (fst e)))) applied"
    using assms distinct_filter_ids by (intro map_idI [symmetric]) auto
  also have "\<dots> = map (\<lambda>k. (k, the (map_of applied k))) (map fst applied)" by simp
  also have "\<dots> = map (\<lambda>(k, cfg). (k, the (map_of applied k))) (FILTER_CONFIGS env)"
    by (simp add: assms case_prod_beta flip: FILTER_CONFIGS_ids [of env])
  finally show ?thesis .
qed

lemma perspectiveAppliedFilters_request:
  assumes "map fst applied = filter_ids"
  shows "perspectiveAppliedFilters env applied = api_filter_params env applied"
proof -
  have "api_filter_params env applied = fold (\<lambda>e acc. case map_of (FILTER_CONFIGS env) (fst e) of
      None \<Rightarrow> acc | Some cfg \<Rightarrow> obj_spread acc (toApi cfg (the (map_of applied (fst e))))) (FILTER_CONFIGS env) []"
    unfolding api_filter_params_def by (subst applied_by_config [OF assms, of env]) (simp add: fold_map comp_def case_prod_beta)
  also have "\<dots> = perspectiveAppliedFilters env applied"
    unfolding perspectiveAppliedFilters_def
  proof (rule fold_cong [OF refl refl])
    fix e assume e: "e \<in> set (FILTER_CONFIGS env)"
    obtain k cfg where k: "e = (k, cfg)" by (cases e)
    with e have "map_of (FILTER_CONFIGS env) k = Some cfg" "config_id cfg = k" "k \<in> set (map fst applied)"
      using config_id_of known_filter_ids assms by (auto simp: config_of)
    moreover from this(3) obtain a where "map_of applied k = Some a" by (metis map_of_eq_None_iff not_None_eq set_map)
    ultimately show "(\<lambda>acc. case map_of (FILTER_CONFIGS env) (fst e) of
          None \<Rightarrow> acc | Some cfg \<Rightarrow> obj_spread acc (toApi cfg (the (map_of applied (fst e))))) =
        (\<lambda>(key, cfg) acc. case map_of applied (config_id cfg) of None \<Rightarrow> acc | Some a \<Rightarrow> obj_spread acc (toApi cfg a)) e"
      by (simp add: k)
  qed
  finally show ?thesis ..
qed

text \<open>Pools that are read back are all kept with their sub-pools or all without.\<close>

lemma pool_filters_kept:
  assumes "writable reads_number ''poolId'' a"
  shows "getPoolFilters (case snd (hd (pool_to_api a)) of Arr vs \<Rightarrow> vs | _ \<Rightarrow> []) = pool_to_api a"
proof -
  obtain vs sub where a: "a = Selected vs (Some sub)" and vs: "list_all (pool_id reads_number) vs"
    using assms by (auto simp: writable_def split: applied_filter.splits option.splits)
  show ?thesis
  proof (cases sub)
    case True
    then show ?thesis by (simp add: a pool_to_api_def getPoolFilters_def list_all_iff isPoolIdWithSubPools_def)
  next
    case False
    have "\<not> isPoolIdWithSubPools v" if "v \<in> set vs" for v
    proof -
      have "pool_id reads_number v" using vs that by (simp add: list_all_iff)
      then show ?thesis by (cases v) (simp_all add: pool_id_def isPoolIdWithSubPools_def)
    qed
    then have "map (\<lambda>pool. if isPoolIdWithSubPools pool then without_last pool else pool) vs = vs"
      by (intro map_idI) simp
    then show ?thesis by (simp add: a False pool_to_api_def getPoolFilters_def applied_values_def)
  qed
qed

lemma pool_filters_shape: "\<exists>ws. pool_to_api (Selected vs sub) = [(''poolId'', Arr ws)]"
  by (cases sub) (auto simp: pool_to_api_def applied_values_def split: bool.split)

text \<open>What the address of a perspective adds to the filters is no filter.\<close>

lemma breakdown_params_keys:
  "fst ` set (breakdown_params b d) \<inter> set all_param_names = {}" "distinct (map fst (breakdown_params b d))"
  by (cases "b = Str ''expenses''"; cases "b = Str ''resourceCount''"; cases "b = Str ''meta''";
      simp add: breakdown_params_def all_param_names_def)+

lemma perspective_address_get:
  assumes "distinct (map fst stored)" "obj_get stored ''poolId'' = Arr ws" "getPoolFilters ws = [(''poolId'', Arr ws)]"
    "list_all (\<lambda>n. obj_get restParams n = Undef) all_param_names"
  shows "\<exists>ps. perspective_address reread restParams name stored b d = reread ps
    \<and> (\<forall>n \<in> set all_param_names. obj_get ps n = obj_get stored n)"
proof -
  define kept where "kept = obj_remove ''poolId'' stored"
  define filters where "filters = obj_spread [(''poolId'', Arr ws)] kept"
  define ps where "ps = obj_spread (obj_spread restParams
      (obj_spread (obj_spread filters (breakdown_params b d)) [(''breakdownBy'', b)])) [(''selectedPerspective'', Str name)]"
  have kept: "distinct (map fst kept)" using assms(1) by (simp add: kept_def obj_remove_def distinct_map_filter)
  have filters: "obj_get filters n = obj_get stored n" for n
  proof (cases "n = ''poolId''")
    case True
    have "''poolId'' \<notin> fst ` set kept" by (auto simp: kept_def obj_remove_def)
    with kept show ?thesis by (simp add: filters_def obj_get_spread True assms(2))
  next
    case False
    then have "obj_get kept n = obj_get stored n" by (simp add: kept_def)
    with kept False show ?thesis
      by (cases "n \<in> fst ` set kept") (simp_all add: filters_def obj_get_spread obj_get_absent)
  qed
  have "obj_get ps n = obj_get stored n" if n: "n \<in> set all_param_names" for n
  proof -
    have "n \<notin> {''breakdownBy'', ''selectedPerspective''}" using n by (auto simp: all_param_names_def)
    moreover have "n \<notin> fst ` set (breakdown_params b d)" using breakdown_params_keys(1) [of b d] n by blast
    moreover have "distinct (map fst filters)" by (simp add: filters_def distinct_obj_spread)
    moreover have "obj_get restParams n = Undef" using assms(4) n by (simp add: list_all_iff)
    moreover have "obj_get filters n = Undef" if "n \<notin> fst ` set filters" using that by (rule obj_get_absent)
    ultimately show ?thesis
      unfolding filters [of n, symmetric] using breakdown_params_keys(2) [of b d]
      by (auto simp: ps_def obj_get_spread distinct_obj_spread keys_obj_spread)
  qed
  moreover have "perspective_address reread restParams name stored b d = reread ps"
    by (simp add: perspective_address_def Let_def assms(2,3) ps_def filters_def kept_def)
  ultimately show ?thesis by blast
qed

text \<open>What a page shows, by what is read for each of the filters.\<close>

lemma page_shows:
  assumes "map fst applied = filter_ids"
    "\<And>k cfg a. (k, cfg) \<in> set (FILTER_CONFIGS env) \<Longrightarrow> (k, a) \<in> set applied \<Longrightarrow> getValuesFromSearchParams cfg address = f a"
  shows "rp_applied (open_page env address) = map (\<lambda>(k, a). (k, f a)) applied"
proof -
  have "getValuesFromSearchParams cfg address = f (the (map_of applied k))" if "(k, cfg) \<in> set (FILTER_CONFIGS env)" for k cfg
  proof -
    have "k \<in> fst ` set applied" using known_filter_ids [OF that] assms(1) by (metis set_map)
    then obtain a where "map_of applied k = Some a" by (metis map_of_eq_None_iff not_None_eq)
    with assms(2) [OF that map_of_SomeD] show ?thesis by simp
  qed
  then show ?thesis
    by (subst applied_by_config [OF assms(1), of env]) (auto simp: page_filters)
qed

lemma perspective_reads_back:
  assumes qs: "query_string reads_number reread" "whole_seconds env" and ids: "map fst applied = filter_ids"
    and good: "list_all (\<lambda>(k, a). writable reads_number k a) applied"
    and stored: "distinct (map fst stored)" "\<forall>n. obj_get stored n = obj_get (perspectiveAppliedFilters env applied) n"
    and rest: "list_all (\<lambda>n. obj_get restParams n = Undef) all_param_names"
  shows "rp_applied (open_page env (perspective_address reread restParams name stored b d)) = map (\<lambda>(k, a). (k, as_read env a)) applied"
proof (rule page_shows [OF ids])
  have dist: "distinct (map fst applied)" by (simp add: ids distinct_filter_ids)
  have get: "obj_get stored n = obj_get (toApi cfg a) n"
    if "(k, cfg) \<in> set (FILTER_CONFIGS env)" "(k, a) \<in> set applied" "n \<in> set (param_names cfg)" for k cfg a n
    using api_filter_params_get [OF dist that(2,1,3)] stored(2) by (simp add: perspectiveAppliedFilters_request [OF ids])
  have pool: "(''poolId'', SelectionConfig (poolId_filter env)) \<in> set (FILTER_CONFIGS env)" by (simp add: FILTER_CONFIGS_def)
  then have "''poolId'' \<in> fst ` set applied" using known_filter_ids [OF pool] ids by (metis set_map)
  then obtain p where p: "(''poolId'', p) \<in> set applied" by auto
  with good have wp: "writable reads_number ''poolId'' p" by (auto simp: list_all_iff)
  then obtain vs sub where "p = Selected vs sub" by (auto simp: writable_def split: applied_filter.splits)
  with pool_filters_shape obtain ws where ws: "pool_to_api p = [(''poolId'', Arr ws)]" by blast
  have "obj_get stored ''poolId'' = Arr ws"
    using get [OF pool p] by (simp add: param_names_def toApi_def poolId_filter_def ws)
  moreover have "getPoolFilters ws = [(''poolId'', Arr ws)]" using pool_filters_kept [OF wp] by (simp add: ws)
  ultimately obtain ps where ps: "perspective_address reread restParams name stored b d = reread ps"
      "\<forall>n \<in> set all_param_names. obj_get ps n = obj_get stored n"
    using perspective_address_get [OF stored(1) _ _ rest] by blast
  fix k cfg a assume cfg: "(k, cfg) \<in> set (FILTER_CONFIGS env)" and a: "(k, a) \<in> set applied"
  from good a have "writable reads_number k a" by (auto simp: list_all_iff)
  moreover have "obj_get ps n = obj_get (toApi cfg a) n" if "n \<in> set (param_names cfg)" for n
    using get [OF cfg a that] ps(2) param_names_known [OF cfg that] by simp
  ultimately show "getValuesFromSearchParams cfg (perspective_address reread restParams name stored b d) = as_read env a"
    unfolding ps(1) by (rule read_written [OF qs cfg])
qed

text \<open>The breakdown of a perspective is read back, too: the page does not take it for changed.\<close>

definition readable_breakdown :: "(string \<Rightarrow> bool) \<Rightarrow> obj \<Rightarrow> bool" where
  "readable_breakdown reads_number d \<longleftrightarrow> list_all (\<lambda>v. v = Undef \<or> plain_value reads_number v)
     [obj_get d ''breakdownBy'', opt_prop (obj_get d ''groupBy'') ''groupBy'', opt_prop (obj_get d ''groupBy'') ''groupType'']"

lemma perspective_address_breakdown:
  assumes "query_string reads_number reread" "(n, v) \<in> set (breakdown_params b d)" "v = Undef \<or> plain_value reads_number v"
    "n \<notin> {''breakdownBy'', ''selectedPerspective''}"
  shows "obj_get (perspective_address reread restParams name stored b d) n = v"
proof -
  define filters where "filters = obj_spread
    (case obj_get stored ''poolId'' of Arr poolId \<Rightarrow> getPoolFilters poolId | _ \<Rightarrow> []) (obj_remove ''poolId'' stored)"
  define ps where "ps = obj_spread (obj_spread restParams
      (obj_spread (obj_spread filters (breakdown_params b d)) [(''breakdownBy'', b)])) [(''selectedPerspective'', Str name)]"
  have dist: "distinct (map fst (breakdown_params b d))" by (rule breakdown_params_keys(2))
  have v: "obj_get (breakdown_params b d) n = v" using assms(2) dist by (simp add: obj_get_def)
  moreover have "n \<in> fst ` set (breakdown_params b d)" using assms(2) by force
  moreover have "distinct (map fst (obj_spread filters (breakdown_params b d)))"
  proof -
    have "distinct (map fst (case obj_get stored ''poolId'' of Arr poolId \<Rightarrow> getPoolFilters poolId | _ \<Rightarrow> []))"
      by (simp add: getPoolFilters_def split: jsval.split)
    then show ?thesis by (simp add: filters_def distinct_obj_spread)
  qed
  ultimately have "obj_get ps n = v" using assms(4) dist
    by (simp add: ps_def obj_get_spread distinct_obj_spread keys_obj_spread)
  moreover have "perspective_address reread restParams name stored b d = reread ps"
    by (simp add: perspective_address_def Let_def ps_def filters_def)
  ultimately show ?thesis
    using query_stringD(1,4) [OF assms(1), of ps n] assms(3) by (auto simp: nullish_def)
qed

lemma perspective_stays_selected:
  assumes "query_string reads_number reread" "readable_breakdown reads_number d"
  shows "\<not> someParamHasChanged (perspective_address reread restParams name stored b d) b d"
proof -
  note get = perspective_address_breakdown [OF assms(1), of _ _ b d restParams name stored]
  have primitive: "strict_eq v v" if "v = Undef \<or> plain_value reads_number v" for v
    using that by (cases v) (simp_all add: strict_eq_def plain_value_def)
  note d = assms(2) [unfolded readable_breakdown_def list.pred_inject]
  consider "b = Str ''expenses''" | "b = Str ''resourceCount''" | "b \<noteq> Str ''expenses''" "b \<noteq> Str ''resourceCount''" by blast
  then show ?thesis
  proof cases
    case 1
    have "obj_get (perspective_address reread restParams name stored b d) ''categorizedBy'' = obj_get d ''breakdownBy''"
      "obj_get (perspective_address reread restParams name stored b d) ''groupBy'' = opt_prop (obj_get d ''groupBy'') ''groupBy''"
      "obj_get (perspective_address reread restParams name stored b d) ''groupType'' = opt_prop (obj_get d ''groupBy'') ''groupType''"
      using d by (intro get; simp add: breakdown_params_def 1)+
    with d primitive show ?thesis by (simp add: someParamHasChanged_def 1)
  next
    case 2
    have "obj_get (perspective_address reread restParams name stored b d) ''resourceCountBreakdownBy'' = obj_get d ''breakdownBy''"
      using d by (intro get; simp add: breakdown_params_def 2)
    with d primitive show ?thesis by (simp add: someParamHasChanged_def 2)
  qed (simp add: someParamHasChanged_def)
qed

section \<open>The link of a constraint and its chart\<close>

text \<open>The values a parameter selects; undefined and an empty list select nothing.\<close>

definition selected_values :: "jsval \<Rightarrow> jsval list" where
  "selected_values v = (case v of Arr vs \<Rightarrow> vs | _ \<Rightarrow> [])"

lemma mapM_js_all: "mapM_js f xs = Inr ys \<Longrightarrow> x \<in> set xs \<Longrightarrow> \<exists>y. f x = Inr y"
  by (induction xs arbitrary: ys) (auto simp: bind_js_Inr_iff map_js_Inr_iff)

lemma mapM_js_implied:
  "mapM_js f xs = Inr ys \<Longrightarrow> (\<And>x y. f x = Inr y \<Longrightarrow> g x = Inr y) \<Longrightarrow> mapM_js g xs = Inr ys"
  by (induction xs arbitrary: ys) (auto simp: bind_js_Inr_iff map_js_Inr_iff)

lemma mapM_js_entry:
  assumes "mapM_js (\<lambda>(k, f, g). map_js (Pair k) (h f g)) es = Inr ys" "(k, f, g) \<in> set es" "distinct (map fst es)"
  shows "h f g = Inr (obj_get ys k)"
  using assms
proof (induction es arbitrary: ys)
  case (Cons e es)
  obtain k' f' g' where e: "e = (k', f', g')" by (cases e)
  with Cons.prems(1) obtain y zs where y: "h f' g' = Inr y" "ys = (k', y) # zs"
      "mapM_js (\<lambda>(k, f, g). map_js (Pair k) (h f g)) es = Inr zs"
    by (auto simp: bind_js_Inr_iff map_js_Inr_iff)
  show ?case
  proof (cases "(k, f, g) = e")
    case True
    then show ?thesis by (simp add: e y)
  next
    case False
    then have "(k, f, g) \<in> set es" using Cons.prems(2) by simp
    moreover from this have "k \<noteq> k'" using Cons.prems(3) by (force simp: e)
    ultimately show ?thesis using Cons.IH [OF y(3)] Cons.prems(3) by (simp add: y(2))
  qed
qed simp

text \<open>Per filter: the parameter of the API, and the value of an item in the chart of a constraint.\<close>

definition chart_params :: "(string \<times> string \<times> getter option) list" where
  "chart_params = [(''cloud_account_id'', ''cloud_account'', Some (Key ''id'')), (''pool_id'', ''pool'', Some (Key ''id'')),
     (''owner_id'', ''owner'', Some (Key ''id'')), (''region'', ''region'', Some (Key ''name'')),
     (''service_name'', ''service_name'', Some (Key ''name'')), (''resource_type'', ''resource_type'', Some (Template ''name'' ''type'')),
     (''active'', ''active'', None), (''recommendations'', ''recommendations'', None),
     (''constraint_violated'', ''constraint_violated'', None), (''first_seen_gte'', ''firstSeenFrom'', None),
     (''first_seen_lte'', ''firstSeenTo'', None), (''last_seen_gte'', ''lastSeenFrom'', None), (''last_seen_lte'', ''lastSeenTo'', None),
     (''tag'', ''tag'', None), (''without_tag'', ''without_tag'', None), (''meta'', ''meta'', None),
     (''traffic_from'', ''traffic_from'', Some (Template ''name'' ''cloud_type'')),
     (''traffic_to'', ''traffic_to'', Some (Template ''name'' ''cloud_type'')), (''k8s_node'', ''k8s_node'', Some (Key ''name'')),
     (''k8s_service'', ''k8s_service'', Some (Key ''name'')), (''k8s_namespace'', ''k8s_namespace'', Some (Key ''name''))]"

definition chart_value :: "jsval \<Rightarrow> obj \<Rightarrow> string \<Rightarrow> getter option \<Rightarrow> jsval js" where
  "chart_value EMPTY_UUID filters f g =
     (case g of None \<Rightarrow> Inr (obj_get filters f) | Some getter \<Rightarrow> map_filter_values EMPTY_UUID getter (obj_get filters f))"

lemma mapFiltersToApiParams_table:
  "mapFiltersToApiParams EMPTY_UUID filters = mapM_js (\<lambda>(k, f, g). map_js (Pair k) (chart_value EMPTY_UUID filters f g)) chart_params"
  by (simp only: mapFiltersToApiParams_def chart_params_def chart_value_def)

lemma distinct_chart_params: "distinct (map fst chart_params)"
  by (rule distinct_by_code) code_simp

definition item_agrees :: "filter_env \<Rightarrow> selection_config \<Rightarrow> getter option \<Rightarrow> bool" where
  "item_agrees env c g = (case g of
      None \<Rightarrow> sc_getValue c = Inr
    | Some getter \<Rightarrow> (\<forall>x w. sc_getValue c x = Inr w \<longrightarrow> getObjectValue (Str (fe_nil env)) getter x = Inr w))"

lemma chart_agrees:
  "list_all (\<lambda>(k, cfg). case cfg of RangeConfig r \<Rightarrow> True
     | SelectionConfig c \<Rightarrow> (case map_of (map (\<lambda>(m, f, g). (f, m, g)) chart_params) (sc_apiName c) of
         None \<Rightarrow> False | Some (m, g) \<Rightarrow> sent_as cfg = [(k, m)] \<and> item_agrees env c g)) (FILTER_CONFIGS env)"
  by (auto simp: FILTER_CONFIGS_def chart_params_def sent_as_def item_agrees_def getObjectValue_def pair_value_def
      filter_defs bind_js_Inr_iff split: if_splits)

text \<open>What a filter adds to the link: nothing, or its own parameters.\<close>

definition link_part :: "obj \<Rightarrow> filter_config \<Rightarrow> obj js" where
  "link_part filterValues cfg = (case cfg of
      SelectionConfig c \<Rightarrow>
        (let v = js_coalesce (obj_get filterValues (sc_apiName c)) (Arr []) in
         if isEmptyArray v then Inr []
         else bind_js (as_array v) (\<lambda>vs. map_js (\<lambda>ws. [(sc_id c, Arr ws)]) (mapM_js (sc_getValue c) vs)))
    | RangeConfig r \<Rightarrow>
        (let f = obj_get filterValues (rg_fromApiName r); t = obj_get filterValues (rg_toApiName r) in
         Inr (if \<not> truthy f \<and> \<not> truthy t then [] else [(rg_fromName r, f), (rg_toName r, t)])))"

lemma link_params_parts:
  "link_params env filterValues =
     map_js (\<lambda>ps. from_entries (concat ps)) (mapM_js (\<lambda>(k, cfg). link_part filterValues cfg) (FILTER_CONFIGS env))"
  by (simp add: link_params_def link_part_def)

lemma link_part_names: "link_part filterValues cfg = Inr ps \<Longrightarrow> map fst ps = [] \<or> map fst ps = param_names cfg"
  by (auto simp: link_part_def param_names_def Let_def bind_js_Inr_iff map_js_Inr_iff split: filter_config.splits if_splits)

lemma obj_get_append: "obj_get (xs @ ys) n = (if n \<in> fst ` set xs then obj_get xs n else obj_get ys n)"
proof (cases "map_of xs n")
  case None
  then have "n \<notin> fst ` set xs" by (simp add: map_of_eq_None_iff)
  with None show ?thesis by (simp add: obj_get_def map_add_def)
next
  case (Some v)
  then have "n \<in> fst ` set xs" by (metis map_of_eq_None_iff not_None_eq)
  with Some show ?thesis by (simp add: obj_get_def map_add_def)
qed

lemma part_keys: "map fst ps = [] \<or> map fst ps = ns \<Longrightarrow> fst ` set ps \<subseteq> set ns"
  by (metis empty_subsetI list.set(1) set_map subset_refl)

lemma parts_keys:
  assumes "mapM_js f cs = Inr pss" "\<And>c ps. f c = Inr ps \<Longrightarrow> map fst ps = [] \<or> map fst ps = g c"
  shows "fst ` set (concat pss) \<subseteq> set (concat (map g cs))"
  using assms(1)
proof (induction cs arbitrary: pss)
  case (Cons c cs)
  then obtain ps qss where p: "f c = Inr ps" "mapM_js f cs = Inr qss" "pss = ps # qss" by (auto simp: bind_js_Inr_iff map_js_Inr_iff)
  have "fst ` set ps \<subseteq> set (g c)" by (rule part_keys [OF assms(2) [OF p(1)]])
  with Cons.IH [OF p(2)] show ?case by (auto simp: p(3) image_Un)
qed simp

lemma parts_distinct:
  assumes "mapM_js f cs = Inr pss" "\<And>c ps. f c = Inr ps \<Longrightarrow> map fst ps = [] \<or> map fst ps = g c"
    "distinct (concat (map g cs))"
  shows "distinct (map fst (concat pss))"
  using assms(1,3)
proof (induction cs arbitrary: pss)
  case (Cons c cs)
  then obtain ps qss where p: "f c = Inr ps" "mapM_js f cs = Inr qss" "pss = ps # qss" by (auto simp: bind_js_Inr_iff map_js_Inr_iff)
  have "set (map fst ps) \<subseteq> set (g c)" using part_keys [OF assms(2) [OF p(1)]] by simp
  moreover have "distinct (map fst ps)" using assms(2) [OF p(1)] Cons.prems(2) by (metis concat.simps(2) distinct.simps(1) distinct_append list.map(2))
  moreover have "set (map fst (concat qss)) \<subseteq> set (concat (map g cs))" using parts_keys [OF p(2), of g, OF assms(2)] by simp
  moreover have "distinct (map fst (concat qss))" using Cons.IH [OF p(2)] Cons.prems(2) by simp
  ultimately show ?case using Cons.prems(2) unfolding p(3) concat.simps map_append distinct_append list.map by blast
qed simp

lemma parts_get:
  assumes "mapM_js f cs = Inr pss" "\<And>c ps. f c = Inr ps \<Longrightarrow> map fst ps = [] \<or> map fst ps = g c"
    "distinct (concat (map g cs))" "c \<in> set cs" "f c = Inr ps" "n \<in> set (g c)"
  shows "obj_get (concat pss) n = obj_get ps n"
  using assms(1,3,4)
proof (induction cs arbitrary: pss)
  case (Cons c' cs)
  then obtain qs qss where p: "f c' = Inr qs" "mapM_js f cs = Inr qss" "pss = qs # qss" by (auto simp: bind_js_Inr_iff map_js_Inr_iff)
  have dist: "distinct (concat (map g cs))" "set (g c') \<inter> set (concat (map g cs)) = {}" using Cons.prems(2) by auto
  have keys: "fst ` set (concat qss) \<subseteq> set (concat (map g cs))" "fst ` set qs \<subseteq> set (g c')"
    by (rule parts_keys [OF p(2), of g, OF assms(2)], assumption) (rule part_keys [OF assms(2) [OF p(1)]])
  show ?case
  proof (cases "c = c'")
    case True
    with assms(5) p(1) have "qs = ps" by simp
    moreover have "n \<notin> fst ` set (concat qss)" using keys(1) dist(2) assms(6) True by blast
    ultimately show ?thesis by (simp add: p(3) obj_get_append obj_get_absent)
  next
    case False
    then have c: "c \<in> set cs" using Cons.prems(3) by simp
    then have "n \<in> set (concat (map g cs))" using assms(6) by auto
    then have "n \<notin> fst ` set qs" using keys(2) dist(2) by blast
    with Cons.IH [OF p(2) dist(1) c] show ?thesis by (simp add: p(3) obj_get_append)
  qed
qed simp

lemma link_param_get:
  assumes "link_params env filterValues = Inr ps" "(k, cfg) \<in> set (FILTER_CONFIGS env)" "n \<in> set (param_names cfg)"
  obtains part where "link_part filterValues cfg = Inr part" "obj_get ps n = obj_get part n"
proof -
  obtain pss where pss: "mapM_js (\<lambda>(k, cfg). link_part filterValues cfg) (FILTER_CONFIGS env) = Inr pss"
    "ps = from_entries (concat pss)" using assms(1) by (auto simp: link_params_parts map_js_Inr_iff)
  have names: "map fst qs = [] \<or> map fst qs = (\<lambda>(k, cfg). param_names cfg) c"
    if "(\<lambda>(k, cfg). link_part filterValues cfg) c = Inr qs" for c qs using that link_part_names by (cases c) simp
  have dist: "distinct (concat (map (\<lambda>(k, cfg). param_names cfg) (FILTER_CONFIGS env)))"
    by (simp add: param_names_table distinct_param_names)
  obtain part where part: "link_part filterValues cfg = Inr part"
    using pss(1) assms(2) by (cases "link_part filterValues cfg") (auto dest: mapM_js_all)
  have "obj_get (concat pss) n = obj_get part n"
    by (rule parts_get [OF pss(1) names dist assms(2)]) (simp_all add: part assms(3))
  moreover have "obj_get ps n = obj_get (concat pss) n"
    by (simp add: pss(2) obj_get_from_entries parts_distinct [OF pss(1) names dist])
  ultimately show ?thesis using that [OF part] by simp
qed

text \<open>The values of a link that the page reads as they are.\<close>

definition readable :: "(string \<Rightarrow> bool) \<Rightarrow> obj \<Rightarrow> bool" where
  "readable reads_number ps \<longleftrightarrow> list_all (\<lambda>(n, v). list_all (if n = ''poolId'' then pool_id reads_number else plain_value reads_number) (selected_values v)) ps"

lemma page_selects:
  assumes qs: "query_string reads_number reread" and cfg: "(k, SelectionConfig c) \<in> set (FILTER_CONFIGS env)"
    and ps: "obj_get ps k = Undef \<or> (\<exists>vs. obj_get ps k = Arr vs)"
    "list_all (if k = ''poolId'' then pool_id reads_number else plain_value reads_number) (selected_values (obj_get ps k))"
  shows "\<exists>sub. sub \<noteq> Some True \<and>
    getValuesFromSearchParams (SelectionConfig c) (reread ps) = Selected (selected_values (obj_get ps k)) sub"
proof -
  have plain: "list_all (plain_value reads_number) (selected_values (obj_get ps k))"
    using ps(2) by (auto simp: list_all_iff pool_id_def split: if_splits)
  have read: "getSelectionAppliedValuesFromSearchParams (reread ps) k = selected_values (obj_get ps k)"
    using ps(1)
  proof
    assume "obj_get ps k = Undef"
    with query_stringD(1) [OF qs, of ps k] show ?thesis
      by (simp add: getSelectionAppliedValuesFromSearchParams_def selected_values_def)
  next
    assume "\<exists>vs. obj_get ps k = Arr vs"
    then obtain vs where "obj_get ps k = Arr vs" ..
    with read_selection [OF qs this] plain show ?thesis by (simp add: selected_values_def)
  qed
  show ?thesis
    using cfg
  proof (cases rule: config_cases)
    case (regular c')
    with read show ?thesis by (simp add: getValuesFromSearchParams_def regular_def)
  next
    case pool
    have "\<not> isPoolIdWithSubPools v" if "v \<in> set (selected_values (obj_get ps k))" for v
    proof -
      have "pool_id reads_number v" using ps(2) that pool by (simp add: list_all_iff)
      then show ?thesis by (cases v) (simp_all add: pool_id_def isPoolIdWithSubPools_def)
    qed
    then have "\<not> list_ex isPoolIdWithSubPools (selected_values (obj_get ps k))" by (simp add: list_ex_iff)
    with read pool show ?thesis
      by (simp add: getValuesFromSearchParams_def poolId_filter_def pool_values_def)
  qed simp
qed

lemma toApi_selects:
  assumes "(k, SelectionConfig c) \<in> set (FILTER_CONFIGS env)" "sub \<noteq> Some True"
  shows "obj_get (toApi (SelectionConfig c) (Selected vs sub)) k = Arr vs"
  using assms(1)
proof (cases rule: config_cases)
  case (regular c')
  then show ?thesis by (simp add: toApi_def regular_def applied_values_def)
next
  case pool
  then show ?thesis using assms(2)
    by (auto simp: toApi_def poolId_filter_def pool_to_api_def applied_values_def split: option.split bool.split)
qed simp

lemma readable_get:
  assumes "readable reads_number ps"
  shows "list_all (if k = ''poolId'' then pool_id reads_number else plain_value reads_number) (selected_values (obj_get ps k))"
proof (cases "map_of ps k")
  case None
  then show ?thesis by (simp add: obj_get_def selected_values_def)
next
  case (Some v)
  with assms map_of_SomeD [OF Some] show ?thesis
    by (auto simp: readable_def list_all_iff obj_get_def)
qed

lemma link_selects_chart_data:
  assumes qs: "query_string reads_number reread" and link: "link_params env filters = Inr ps"
    and chart: "mapFiltersToApiParams (Str (fe_nil env)) filters = Inr chart"
    and readable: "readable reads_number ps"
    and cfg: "(k, SelectionConfig c) \<in> set (FILTER_CONFIGS env)" and sent: "(k, m) \<in> set (sent_as (SelectionConfig c))"
  shows "selected_values (obj_get (page_request env (open_page env (reread ps)) s e l) m) = selected_values (obj_get chart m)"
proof -
  have id: "sc_id c = k" using config_id_of [OF cfg] by (simp add: config_id_def)
  obtain g where g: "(m, sc_apiName c, g) \<in> set chart_params" "item_agrees env c g"
  proof -
    from bspec [OF chart_agrees [of env, unfolded list_all_iff] cfg]
    have entry: "case map_of (map (\<lambda>(m, f, g). (f, m, g)) chart_params) (sc_apiName c) of
        None \<Rightarrow> False | Some (m, g) \<Rightarrow> sent_as (SelectionConfig c) = [(k, m)] \<and> item_agrees env c g" by simp
    then obtain m' g where found: "map_of (map (\<lambda>(m, f, g). (f, m, g)) chart_params) (sc_apiName c) = Some (m', g)"
      by (cases "map_of (map (\<lambda>(m, f, g). (f, m, g)) chart_params) (sc_apiName c)") auto
    from map_of_SomeD [OF this] have "(m', sc_apiName c, g) \<in> set chart_params" by auto
    with entry found sent show ?thesis by (intro that) auto
  qed
  have drawn: "chart_value (Str (fe_nil env)) filters (sc_apiName c) g = Inr (obj_get chart m)"
    by (rule mapM_js_entry [OF chart [unfolded mapFiltersToApiParams_table] g(1) distinct_chart_params])
  have names: "k \<in> set (param_names (SelectionConfig c))" by (simp add: param_names_def id)
  obtain part where part: "link_part filters (SelectionConfig c) = Inr part" "obj_get ps k = obj_get part k"
    by (rule link_param_get [OF link cfg names])
  define v where "v = obj_get filters (sc_apiName c)"
  have linked: "selected_values (obj_get ps k) = selected_values (obj_get chart m) \<and> (obj_get ps k = Undef \<or> (\<exists>ws. obj_get ps k = Arr ws))"
  proof (cases "\<exists>x xs. v = Arr (x # xs)")
    case True
    then obtain x xs where v: "v = Arr (x # xs)" by blast
    then obtain ws where ws: "mapM_js (sc_getValue c) (x # xs) = Inr ws" "obj_get part k = Arr ws"
      using part(1) by (auto simp: link_part_def v_def [symmetric] js_coalesce_def isEmptyArray_def as_array_def map_js_Inr_iff id)
    have "obj_get chart m = Arr ws"
    proof (cases g)
      case None
      with g(2) ws(1) have "ws = x # xs" by (simp add: item_agrees_def mapM_js_total [where g = id])
      with drawn None show ?thesis by (simp add: chart_value_def v_def [symmetric] v)
    next
      case (Some getter)
      with g(2) have "mapM_js (getObjectValue (Str (fe_nil env)) getter) (x # xs) = Inr ws"
        by (intro mapM_js_implied [OF ws(1)]) (simp add: item_agrees_def)
      with drawn Some show ?thesis by (simp add: chart_value_def map_filter_values_def v_def [symmetric] v as_array_def)
    qed
    with part(2) ws(2) show ?thesis by (simp add: selected_values_def)
  next
    case False
    then have empty: "isEmptyArray (js_coalesce v (Arr []))"
      by (auto simp: isEmptyArray_def js_coalesce_def neq_Nil_conv split: jsval.split)
    have "part = []" using part(1) empty by (simp add: link_part_def v_def [symmetric] Let_def)
    have none: "v = Arr vs \<Longrightarrow> vs = []" for vs using False by (cases vs) auto
    have "selected_values (obj_get chart m) = []"
    proof (cases g)
      case None
      with drawn have "obj_get chart m = v" by (simp add: chart_value_def v_def)
      with none show ?thesis by (auto simp: selected_values_def split: jsval.split)
    next
      case (Some getter)
      show ?thesis
      proof (cases "nullish v")
        case True
        with drawn Some have "obj_get chart m = Undef" by (simp add: chart_value_def map_filter_values_def v_def)
        then show ?thesis by (simp add: selected_values_def)
      next
        case False
        with drawn Some obtain vs where "v = Arr vs"
          by (auto simp: chart_value_def map_filter_values_def as_array_def bind_js_Inr_iff simp flip: v_def split: jsval.splits)
        with none drawn Some have "obj_get chart m = Arr []"
          by (simp add: chart_value_def map_filter_values_def as_array_def flip: v_def)
        then show ?thesis by (simp add: selected_values_def)
      qed
    qed
    with \<open>part = []\<close> show ?thesis using part(2) by (simp add: selected_values_def)
  qed
  obtain sub where sub: "sub \<noteq> Some True"
      "getValuesFromSearchParams (SelectionConfig c) (reread ps) = Selected (selected_values (obj_get ps k)) sub"
    using page_selects [OF qs cfg _ readable_get [OF readable]] linked by blast
  have mem: "(k, Selected (selected_values (obj_get ps k)) sub) \<in> set (rp_applied (open_page env (reread ps)))"
    using page_filter_of [OF cfg, of "reread ps"] by (simp only: sub(2))
  have "obj_get (page_request env (open_page env (reread ps)) s e l) m =
      obj_get (toApi (SelectionConfig c) (Selected (selected_values (obj_get ps k)) sub)) k"
    by (rule request_of_filter [OF _ mem cfg sent]) (simp only: page_ids distinct_filter_ids)
  also have "\<dots> = Arr (selected_values (obj_get ps k))" by (rule toApi_selects [OF cfg sub(1)])
  finally show ?thesis using linked by (simp add: selected_values_def [of "Arr vs" for vs])
qed

section \<open>The form of the filters\<close>

text \<open>The value of an item that is offered is the value that is taken from it elsewhere; \<open>ANY\<close> of the
  traffic, and what is not set of an account, have no such value.\<close>

lemma items_have_own_values:
  "list_all (\<lambda>(k, cfg). case cfg of RangeConfig r \<Rightarrow> True
     | SelectionConfig c \<Rightarrow> (\<forall>x item w. x \<noteq> ANY_NETWORK_TRAFFIC_LOCATION \<and> sc_getItems c (Arr [x]) = Inr [item] \<and> sc_getValue c x = Inr w
         \<longrightarrow> obj_get item ''value'' = w)) (FILTER_CONFIGS env)"
  by (auto simp: FILTER_CONFIGS_def filter_defs map_items_def as_array_def nullish_def with_value_def
      ANY_NETWORK_TRAFFIC_LOCATION_def bind_js_Inr_iff map_js_Inr_iff split: if_splits)

text \<open>The reset gives every filter a value that applies nothing.\<close>

lemma handleResetFilters_table: "handleResetFilters env = map (\<lambda>(k, cfg). (k, getDefaultValue cfg)) (FILTER_CONFIGS env)"
proof -
  have ids: "map (\<lambda>(k, cfg). (config_id cfg, getDefaultValue cfg)) (FILTER_CONFIGS env)
      = map (\<lambda>(k, cfg). (k, getDefaultValue cfg)) (FILTER_CONFIGS env)"
    using config_id_of by auto
  have keys: "map fst (map (\<lambda>(k, cfg). (k, getDefaultValue cfg)) (FILTER_CONFIGS env)) = filter_ids"
    by (simp add: comp_def case_prod_beta flip: FILTER_CONFIGS_ids [of env])
  have "list_all (\<lambda>k. \<not> is_index k) filter_ids" by (simp add: filter_ids_def is_index_alpha is_digit_def)
  then have "\<forall>k \<in> fst ` set (map (\<lambda>(k, cfg). (k, getDefaultValue cfg)) (FILTER_CONFIGS env)). \<not> is_index k"
    unfolding set_map [symmetric] keys by (simp add: list_all_iff)
  from from_entries_plain [OF _ this] show ?thesis by (simp only: handleResetFilters_def ids keys distinct_filter_ids simp_thms)
qed

lemma defaults_are_plain:
  "list_all (\<lambda>(k, cfg). writable reads_number k (getDefaultValue cfg) \<and> \<not> isApplied cfg (getDefaultValue cfg)) (FILTER_CONFIGS env)"
  by (simp add: FILTER_CONFIGS_def filter_defs writable_def getDefaultValue_def isApplied_def applied_values_def isEmptyArray_def
      late_end_def given_def)

lemma reset_is_good_change: "good_change reads_number (handleResetFilters env)"
proof -
  have "map fst (handleResetFilters env) = filter_ids"
    by (simp add: handleResetFilters_table comp_def case_prod_beta flip: FILTER_CONFIGS_ids [of env])
  then show ?thesis
    using defaults_are_plain [of reads_number env]
    by (auto simp: good_change_def distinct_filter_ids handleResetFilters_table list_all_iff intro: known_filter_ids)
qed

lemma reset_applies_nothing: "\<not> reset_shown env (handleResetFilters env)"
proof -
  have "\<not> hasAppliedValue env (handleResetFilters env) k" for k
  proof (cases "map_of (FILTER_CONFIGS env) k")
    case None
    then show ?thesis by (simp add: hasAppliedValue_def)
  next
    case (Some cfg)
    then have cfg: "(k, cfg) \<in> set (FILTER_CONFIGS env)" by (simp add: config_of)
    have "map_of (handleResetFilters env) k = Some (getDefaultValue cfg)"
      by (simp add: handleResetFilters_table map_of_map Some)
    with Some cfg defaults_are_plain [of "\<lambda>s. False" env] show ?thesis by (auto simp: hasAppliedValue_def list_all_iff)
  qed
  then show ?thesis by (simp add: reset_shown_def list_ex_iff)
qed

section \<open>One reader of addresses\<close>

text \<open>The hypotheses above can hold: numerals of digits are read as numbers, the two words as truth
  values, and the conversions are those of milliseconds.\<close>

definition digits_only :: "string \<Rightarrow> bool" where
  "digits_only s \<longleftrightarrow> s \<noteq> [] \<and> list_all is_digit s"

definition read_item :: "jsval \<Rightarrow> jsval" where
  "read_item v = (case v of
      Str s \<Rightarrow> if digits_only s then Num (of_nat (str_nat s)) else if map to_lower s = ''true'' then Bool True
        else if map to_lower s = ''false'' then Bool False else Str s
    | Arr vs \<Rightarrow> Str ''[object Array]'' | Obj kvs \<Rightarrow> Str ''[object Object]'' | _ \<Rightarrow> v)"

definition written_item :: "jsval \<Rightarrow> bool" where
  "written_item v \<longleftrightarrow> \<not> nullish v \<and> v \<noteq> Str []"

definition read_value :: "jsval \<Rightarrow> jsval" where
  "read_value v = (case v of
      Arr vs \<Rightarrow> (case map read_item (filter written_item vs) of [] \<Rightarrow> Undef | [w] \<Rightarrow> w | ws \<Rightarrow> Arr ws)
    | _ \<Rightarrow> if written_item v then read_item v else Undef)"

definition address_reader :: "obj \<Rightarrow> obj" where
  "address_reader ps = map (\<lambda>k. (k, read_value (obj_get ps k))) (remdups (map fst ps))"

lemma obj_get_map_keys: "obj_get (map (\<lambda>k. (k, f k)) ks) k = (if k \<in> set ks then f k else Undef)"
  by (induction ks) auto

lemma address_reader_get: "obj_get (address_reader ps) k = read_value (obj_get ps k)"
proof (cases "k \<in> fst ` set ps")
  case True
  then show ?thesis by (simp add: address_reader_def obj_get_map_keys)
next
  case False
  then show ?thesis
    by (simp add: address_reader_def obj_get_map_keys obj_get_absent read_value_def written_item_def nullish_def)
qed

lemma read_item_written: "written_item v \<Longrightarrow> written_item (read_item v)"
  by (cases v) (auto simp: read_item_def written_item_def nullish_def)

lemma read_item_again: "read_item (read_item v) = read_item v"
  by (cases v) (auto simp: read_item_def digits_only_def is_digit_def to_lower_def)

lemma read_value_again: "read_value (read_value v) = read_value v"
proof (cases "\<exists>vs. v = Arr vs")
  case True
  then obtain vs where v: "v = Arr vs" ..
  define ws where "ws = map read_item (filter written_item vs)"
  have written: "list_all written_item ws" by (auto simp: ws_def list_all_iff read_item_written)
  then have kept: "filter written_item ws = ws" by (simp add: filter_id_conv list_all_iff)
  have again: "map read_item ws = ws" by (simp add: ws_def read_item_again comp_def)
  have here: "read_value v = (case ws of [] \<Rightarrow> Undef | [w] \<Rightarrow> w | ws \<Rightarrow> Arr ws)" by (simp add: v read_value_def ws_def)
  have single: "read_value (read_item w) = read_item w" if "written_item w" for w
    using read_item_written [OF that] read_item_again [of w]
    by (cases w) (auto simp: read_value_def read_item_def split: if_splits)
  consider "ws = []" | w where "ws = [w]" | w x xs where "ws = w # x # xs" by (metis list.exhaust)
  then show ?thesis
  proof cases
    case 1
    then show ?thesis by (simp add: here) (simp add: read_value_def written_item_def nullish_def)
  next
    case 2
    then obtain x where "w = read_item x" "written_item x" unfolding ws_def by (auto simp: map_eq_Cons_conv filter_eq_Cons_iff)
    then show ?thesis using single by (simp add: here 2)
  next
    case 3
    with kept again show ?thesis by (simp add: here) (simp add: read_value_def)
  qed
next
  case False
  then show ?thesis
    by (cases v) (auto simp: read_value_def written_item_def nullish_def read_item_def digits_only_def is_digit_def to_lower_def)
qed

lemma plain_is_read: "plain_value digits_only v \<Longrightarrow> written_item v \<and> read_item v = v"
  by (cases v) (auto simp: plain_value_def written_item_def nullish_def read_item_def)

lemma address_reader_laws: "query_string digits_only address_reader"
  unfolding query_string_def address_reader_get
proof (intro conjI allI impI)
  fix ps k assume "nullish (obj_get ps k) \<or> obj_get ps k = Arr []"
  then show "read_value (obj_get ps k) = Undef" by (auto simp: read_value_def written_item_def nullish_def)
next
  fix ps k v assume "obj_get ps k = Arr [v] \<and> plain_value digits_only v"
  then show "read_value (obj_get ps k) = v" by (simp add: read_value_def plain_is_read)
next
  fix ps k v w vs
  assume a: "obj_get ps k = Arr (v # w # vs) \<and> list_all (plain_value digits_only) (v # w # vs)"
  then have "filter written_item vs = vs" "map read_item vs = vs"
    by (auto simp: filter_id_conv list_all_iff plain_is_read intro: map_idI)
  with a show "read_value (obj_get ps k) = Arr (v # w # vs)" by (simp add: read_value_def plain_is_read)
next
  fix ps k v assume "obj_get ps k = v \<and> plain_value digits_only v"
  then show "read_value (obj_get ps k) = v" using plain_is_read [of v]
    by (cases v) (auto simp: read_value_def plain_value_def)
next
  fix ps q k assume "obj_get ps k = read_value (obj_get q k)"
  then show "read_value (obj_get ps k) = read_value (obj_get q k)" by (simp add: read_value_again)
next
  fix s show "\<not> digits_only (s @ ''+'')" by (simp add: digits_only_def is_digit_def)
qed

definition plain_env :: filter_env where
  "plain_env = \<lparr>fe_nil = ''00000000-0000-0000-0000-000000000000'', fe_message = id, fe_lower = map to_lower,
     fe_formatUTC = to_str, fe_toMs = (\<lambda>x. 1000 * x), fe_toSec = (\<lambda>x. of_int \<lfloor>x / 1000\<rfloor>), fe_moveToUTC = id,
     fe_moveFromUTC = id, fe_startOfDay = (\<lambda>x. 86400000 * of_int \<lfloor>x / 86400000\<rfloor>),
     fe_endOfDay = (\<lambda>x. 86400000 * of_int \<lfloor>x / 86400000\<rfloor> + 86399999), fe_metaName = id\<rparr>"

lemma plain_env_seconds: "whole_seconds plain_env"
  by (simp add: whole_seconds_def plain_env_def)

end
