(* ===== verification/FilterForms.thy ===== *)
theory FilterForms
  imports ResourceFilters JsonText
begin

text \<open>
  The forms of the filters, \<open>components/FilterComponents\<close>: the list of values with a search, the range
  of days and the suggestions.  Each form is a machine on what the user does; what it hands to
  \<open>onChange\<close> is an output.  A form is in a popover: closed, it shows what is applied.
\<close>

section \<open>The list of values\<close>

text \<open>The properties of \<open>SelectionFilter\<close>: the items, what is applied, the names of its settings, how an item is searched, and \<open>toLowerCase\<close>.\<close>

record selection_props =
  fp_items :: "obj list"
  fp_applied :: applied_filter
  fp_settings :: "string list"
  fp_search :: "obj \<Rightarrow> string \<Rightarrow> bool js"
  fp_lower :: "string \<Rightarrow> string"

text \<open>The debounced text of the search is what the list is filtered by; \<open>ff_query\<close> is the text after the delay.\<close>

record selection_form =
  ff_open :: bool
  ff_values :: "jsval list"
  ff_settings :: "(string \<times> bool) list"
  ff_query :: string

datatype form_event =
    FormOpen
  | FormCancel
  | FormSetting string bool
  | FormToggle jsval
  | FormSelectAll bool
  | FormSearch string
  | FormApply

definition applied_list :: "applied_filter \<Rightarrow> jsval list" where
  "applied_list a = (case a of Selected vs settings \<Rightarrow> vs | Range f t \<Rightarrow> [])"

text \<open>\<open>appliedItems.settings || {}\<close>, and back.\<close>

definition applied_settings :: "applied_filter \<Rightarrow> (string \<times> bool) list" where
  "applied_settings a = (case a of Selected vs (Some b) \<Rightarrow> [(''withSubpools'', b)] | _ \<Rightarrow> [])"

definition item_value :: "obj \<Rightarrow> jsval" where
  "item_value item = obj_get item ''value''"

definition has_item :: "selection_props \<Rightarrow> jsval \<Rightarrow> bool" where
  "has_item p v = array_includes (map item_value (fp_items p)) v"

definition allItems :: "selection_props \<Rightarrow> obj list" where
  "allItems p = fp_items p @
     map (\<lambda>v. [(''value'', v), (''name'', v)]) (filter (\<lambda>v. \<not> has_item p v) (applied_list (fp_applied p)))"

definition item_found :: "selection_props \<Rightarrow> string \<Rightarrow> obj \<Rightarrow> bool js" where
  "item_found p query item =
     (if has_item p (item_value item) then fp_search p item query
      else if nullish (item_value item) then Inl TypeError
      else Inr (has_infix (fp_lower p query) (fp_lower p (to_str (item_value item)))))"

text \<open>The items that are not available come first.\<close>

definition unavailable_first :: "selection_props \<Rightarrow> obj \<Rightarrow> obj \<Rightarrow> rat" where
  "unavailable_first p a b =
     (let isAUnavailable = \<not> has_item p (item_value a); isBUnavailable = \<not> has_item p (item_value b) in
      if isAUnavailable \<and> \<not> isBUnavailable then - 1 else if \<not> isAUnavailable \<and> isBUnavailable then 1 else 0)"

definition filteredItems :: "selection_props \<Rightarrow> string \<Rightarrow> obj list js" where
  "filteredItems p query = map_js (sort_by (unavailable_first p)) (filterM_js (item_found p query) (allItems p))"

definition filteredValues :: "selection_props \<Rightarrow> string \<Rightarrow> jsval list js" where
  "filteredValues p query = map_js (map item_value) (filteredItems p query)"

definition allFilteredSelected :: "jsval list \<Rightarrow> jsval list \<Rightarrow> bool" where
  "allFilteredSelected filtered selected \<longleftrightarrow> filtered \<noteq> [] \<and> list_all (array_includes selected) filtered"

definition someFilteredSelected :: "jsval list \<Rightarrow> jsval list \<Rightarrow> bool" where
  "someFilteredSelected filtered selected \<longleftrightarrow>
     filtered \<noteq> [] \<and> list_ex (array_includes selected) filtered \<and> \<not> allFilteredSelected filtered selected"

definition handleItemToggle :: "jsval \<Rightarrow> jsval list \<Rightarrow> jsval list" where
  "handleItemToggle newValue prev =
     (if array_includes prev newValue then filter (\<lambda>v. \<not> strict_eq v newValue) prev else prev @ [newValue])"

definition hasChanges :: "selection_props \<Rightarrow> selection_form \<Rightarrow> bool" where
  "hasChanges p s \<longleftrightarrow>
     json_stringify (Arr (ff_values s)) \<noteq> json_stringify (Arr (applied_list (fp_applied p)))
     \<or> json_stringify (Obj (map (\<lambda>(k, b). (k, Bool b)) (ff_settings s)))
       \<noteq> json_stringify (Obj (map (\<lambda>(k, b). (k, Bool b)) (applied_settings (fp_applied p))))"

definition form_init :: selection_form where
  "form_init = \<lparr>ff_open = False, ff_values = [], ff_settings = [], ff_query = []\<rparr>"

definition reset_form :: "selection_props \<Rightarrow> bool \<Rightarrow> selection_form" where
  "reset_form p is_open = \<lparr>ff_open = is_open, ff_values = applied_list (fp_applied p),
     ff_settings = applied_settings (fp_applied p), ff_query = []\<rparr>"

text \<open>One event: the new state of the form, and what it hands to \<open>onChange\<close>.  An event the form does not
  offer is not taken: all but opening is in the popover; the button to apply is enabled when something
  changed, a toggle is shown for every filtered item, and select-all for more than one.\<close>

definition form_step :: "selection_props \<Rightarrow> form_event \<Rightarrow> selection_form \<Rightarrow> (selection_form \<times> applied_filter option) js" where
  "form_step p e s =
     bind_js (filteredItems p (ff_query s)) (\<lambda>shown.
      if e = FormOpen then Inr (reset_form p True, None)
      else if \<not> ff_open s then Inr (s, None)
      else case e of
          FormOpen \<Rightarrow> Inr (s, None)
        | FormCancel \<Rightarrow> Inr (reset_form p False, None)
        | FormSetting name checked \<Rightarrow>
            if name \<in> set (fp_settings p) \<and> allItems p \<noteq> []
            then Inr (s\<lparr>ff_settings := obj_spread (ff_settings s) [(name, checked)]\<rparr>, None) else Inr (s, None)
        | FormToggle v \<Rightarrow>
            if array_includes (map item_value shown) v
            then Inr (s\<lparr>ff_values := handleItemToggle v (ff_values s)\<rparr>, None) else Inr (s, None)
        | FormSelectAll checked \<Rightarrow>
            if 1 < length shown
            then Inr (s\<lparr>ff_values := (if checked then map item_value shown else [])\<rparr>, None) else Inr (s, None)
        | FormSearch query \<Rightarrow> Inr (s\<lparr>ff_query := query\<rparr>, None)
        | FormApply \<Rightarrow>
            if hasChanges p s
            then Inr (s\<lparr>ff_open := False, ff_query := []\<rparr>,
              Some (Selected (ff_values s) (map_of (ff_settings s) ''withSubpools'')))
            else Inr (s, None))"

text \<open>The events until one of them hands a filter to \<open>onChange\<close>: then the properties change.\<close>

fun form_session :: "selection_props \<Rightarrow> form_event list \<Rightarrow> selection_form \<Rightarrow> applied_filter option js" where
  "form_session p [] s = Inr None"
| "form_session p (e # es) s =
     bind_js (form_step p e s) (\<lambda>(s', out). case out of Some a \<Rightarrow> Inr (Some a) | None \<Rightarrow> form_session p es s')"

text \<open>The label of the button: nothing, or the first applied value and how many more there are.\<close>

definition selectionLabel :: "selection_props \<Rightarrow> (obj \<Rightarrow> jsval) \<Rightarrow> (jsval \<times> nat) option" where
  "selectionLabel p renderSelectedItem =
     (case applied_list (fp_applied p) of [] \<Rightarrow> None
      | v # vs \<Rightarrow> Some (case find (\<lambda>item. strict_eq (item_value item) v) (rev (fp_items p)) of
            Some item \<Rightarrow> renderSelectedItem item | None \<Rightarrow> Str (to_str v), length vs))"

text \<open>\<open>getSelectionFilterProps\<close> of the page of resources.\<close>

definition getSelectionFilterProps ::
  "filter_env \<Rightarrow> selection_config \<Rightarrow> (string \<times> applied_filter) list \<Rightarrow> jsval \<Rightarrow> selection_props js" where
  "getSelectionFilterProps env c applied filter_data =
     map_js (\<lambda>items. \<lparr>fp_items = items,
        fp_applied = (case map_of applied (sc_id c) of Some a \<Rightarrow> a | None \<Rightarrow> Selected [] None),
        fp_settings = sc_settings c, fp_search = sc_searchPredicate c, fp_lower = fe_lower env\<rparr>) (sc_getItems c filter_data)"

section \<open>The range of days\<close>

datatype range_event = RangeOpen | RangeCancel | RangeFrom rat | RangeTo rat | RangeResetFrom | RangeResetTo | RangeApply

text \<open>The two ends of the picker; \<open>None\<close> is undefined.  \<open>applied\<close> is \<open>appliedRange\<close>.\<close>

definition range_step ::
  "rat option \<times> rat option \<Rightarrow> range_event \<Rightarrow> rat option \<times> rat option \<Rightarrow>
   (rat option \<times> rat option) \<times> (rat option \<times> rat option) option" where
  "range_step applied e s = (case e of
      RangeOpen \<Rightarrow> (applied, None)
    | RangeCancel \<Rightarrow> (applied, None)
    | RangeFrom d \<Rightarrow> ((Some d, snd s), None)
    | RangeTo d \<Rightarrow> ((fst s, Some d), None)
    | RangeResetFrom \<Rightarrow> ((None, snd s), None)
    | RangeResetTo \<Rightarrow> ((fst s, None), None)
    | RangeApply \<Rightarrow> (s, if s \<noteq> applied then Some s else None))"

section \<open>The suggestions\<close>

text \<open>A group of suggestions: the name of its filter and the values of its items.  What is applied is given per
  group; so is what is selected.\<close>

type_synonym suggestion_groups = "(string \<times> jsval list) list"

definition suggested_selection :: "suggestion_groups \<Rightarrow> (string \<Rightarrow> jsval list) \<Rightarrow> suggestion_groups" where
  "suggested_selection groups applied =
     from_entries (map (\<lambda>(k, vs). (k, filter (array_includes (applied k)) vs)) groups)"

definition handleSuggestionToggle :: "jsval \<Rightarrow> string \<Rightarrow> suggestion_groups \<Rightarrow> suggestion_groups" where
  "handleSuggestionToggle suggestion groupId prev =
     (let currentValues = (case map_of prev groupId of Some vs \<Rightarrow> vs | None \<Rightarrow> []) in
      obj_spread prev [(groupId, if array_includes currentValues suggestion
        then filter (\<lambda>v. \<not> strict_eq v suggestion) currentValues else currentValues @ [suggestion])])"

text \<open>\<open>handleApply\<close>: the values that are not suggested are kept, then come the selected suggestions.\<close>

definition suggestion_updates ::
  "suggestion_groups \<Rightarrow> (string \<Rightarrow> jsval list) \<Rightarrow> suggestion_groups \<Rightarrow> suggestion_groups" where
  "suggestion_updates groups applied selected =
     from_entries (map (\<lambda>(k, selectedValues).
       (let suggestedValues = (case map_of groups k of Some vs \<Rightarrow> vs | None \<Rightarrow> []) in
        (k, filter (\<lambda>v. \<not> array_includes suggestedValues v) (applied k) @ selectedValues))) selected)"

text \<open>\<open>hasChanges\<close> of the suggestions compares sorted texts; the sort is by the texts of the values.\<close>

definition suggestions_changed :: "(string \<Rightarrow> jsval list) \<Rightarrow> suggestion_groups \<Rightarrow> bool" where
  "suggestions_changed applied selected \<longleftrightarrow>
     list_ex (\<lambda>(k, vs). json_stringify (Arr (js_sort vs)) \<noteq> json_stringify (Arr (js_sort (applied k)))) selected"

text \<open>The groups of the page: the owner is the current employee, the types of resources are volumes and
  instances, and the two flags are offered as true.\<close>

definition suggestion_groups_of :: "jsval \<Rightarrow> obj \<Rightarrow> suggestion_groups js" where
  "suggestion_groups_of currentEmployeeId filters =
     (let items = (\<lambda>k p f. let v = obj_get filters k in
            if nullish v then Inr [] else bind_js (as_array v) (\<lambda>xs. bind_js (filterM_js p xs) (mapM_js f))) in
      bind_js (items ''owner'' (\<lambda>x. map_js (\<lambda>i. strict_eq i currentEmployeeId) (get_prop x ''id'')) (\<lambda>x. get_prop x ''id'')) (\<lambda>owners.
      bind_js (items ''resource_type'' (\<lambda>x. map_js (array_includes [Str ''Volume'', Str ''Instance'']) (get_prop x ''name''))
        (\<lambda>x. pair_value x ''name'' ''type'')) (\<lambda>types.
      bind_js (items ''active'' (\<lambda>x. Inr (strict_eq x (Bool True))) Inr) (\<lambda>actives.
      map_js (\<lambda>violated. [(''ownerId'', owners), (''resourceType'', types), (''active'', actives), (''constraintViolated'', violated)])
        (items ''constraint_violated'' (\<lambda>x. Inr (strict_eq x (Bool True))) Inr)))))"

text \<open>The suggestions opened, some of them toggled, and applied.\<close>

definition suggestion_session ::
  "suggestion_groups \<Rightarrow> (string \<Rightarrow> jsval list) \<Rightarrow> (jsval \<times> string) list \<Rightarrow> (string \<times> applied_filter) list" where
  "suggestion_session groups applied toggles =
     handleApplySuggestion (map (\<lambda>(k, vs). (k, Arr vs)) (suggestion_updates groups applied
       (fold (\<lambda>(v, k). handleSuggestionToggle v k) toggles (suggested_selection groups applied))))"

end
