(* ===== verification/FilterFormFacts.thy ===== *)
theory FilterFormFacts
  imports ResourceFilterFacts FilterForms
begin

text \<open>
  What the forms of the filters hand to the page, and the pages that can be reached by using them: such
  a page agrees with its address.
\<close>

section \<open>The list of values\<close>

lemma sort_two_classes:
  fixes f :: "'a \<Rightarrow> nat"
  assumes "\<And>x. f x = 0 \<or> f x = 1"
  shows "sort_key f xs = filter (\<lambda>x. f x = 0) xs @ filter (\<lambda>x. f x = 1) xs"
proof (induction xs)
  case (Cons x xs)
  show ?case
  proof (cases "f x = 0")
    case True
    then have "insort_key f x ys = x # ys" for ys by (cases ys) auto
    with Cons True show ?thesis by simp
  next
    case False
    then have one: "f x = 1" using assms [of x] by simp
    have "insort_key f x (as @ bs) = as @ insort_key f x bs" if "\<forall>a \<in> set as. f a = 0" for as bs
      using that by (induction as) (auto simp: one)
    moreover have "insort_key f x bs = x # bs" if "\<forall>b \<in> set bs. f b = 1" for bs
      using that by (cases bs) (auto simp: one)
    ultimately show ?thesis using Cons one by simp
  qed
qed simp

text \<open>The items found, those that are not available first, otherwise in their order.\<close>

lemma filteredItems_order:
  "filteredItems p query = map_js (\<lambda>found.
     filter (\<lambda>i. \<not> has_item p (item_value i)) found @ filter (\<lambda>i. has_item p (item_value i)) found)
     (filterM_js (item_found p query) (allItems p))"
proof -
  let ?f = "\<lambda>i. if has_item p (item_value i) then 1 else 0 :: nat"
  have "sort_by (unavailable_first p) xs = sort_key ?f xs" for xs
    by (rule sort_by_key) (simp add: unavailable_first_def Let_def)
  then have "sort_by (unavailable_first p) xs =
      filter (\<lambda>i. \<not> has_item p (item_value i)) xs @ filter (\<lambda>i. has_item p (item_value i)) xs" for xs
    by (simp add: sort_two_classes cong: filter_cong)
  then have "sort_by (unavailable_first p) = (\<lambda>found. filter (\<lambda>i. \<not> has_item p (item_value i)) found
      @ filter (\<lambda>i. has_item p (item_value i)) found)" by (rule ext)
  then show ?thesis by (simp only: filteredItems_def)
qed

lemma filterM_js_subset: "filterM_js p xs = Inr ys \<Longrightarrow> set ys \<subseteq> set xs"
proof (induction xs arbitrary: ys)
  case (Cons x xs)
  then obtain b zs where "p x = Inr b" "filterM_js p xs = Inr zs" "ys = (if b then x # zs else zs)"
    by (auto simp: bind_js_Inr_iff map_js_Inr_iff)
  with Cons.IH [of zs] show ?case by auto
qed simp

lemma filteredItems_subset: "filteredItems p query = Inr found \<Longrightarrow> set found \<subseteq> set (allItems p)"
  using filterM_js_subset by (force simp: filteredItems_def map_js_Inr_iff)

text \<open>The values the form can select: those of the items and the applied ones.\<close>

definition known_values :: "selection_props \<Rightarrow> jsval set" where
  "known_values p = item_value ` set (allItems p)"

lemma array_includes_member: "array_includes vs v \<Longrightarrow> v \<in> set vs"
  by (auto simp: array_includes_def list_ex_iff strict_eq_def)

lemma known_values_eq: "known_values p = item_value ` set (fp_items p) \<union> set (applied_list (fp_applied p))"
proof -
  have has: "v \<in> item_value ` set (fp_items p)" if "has_item p v" for v
    using array_includes_member that by (force simp: has_item_def)
  have "known_values p = item_value ` set (fp_items p) \<union> {v \<in> set (applied_list (fp_applied p)). \<not> has_item p v}"
  proof -
    have "item_value [(''value'', v), (''name'', v)] = v" for v by (simp add: item_value_def)
    then show ?thesis by (auto simp: known_values_def allItems_def image_Un image_image)
  qed
  with has show ?thesis by auto
qed

definition form_ok :: "selection_props \<Rightarrow> selection_form \<Rightarrow> bool" where
  "form_ok p s \<longleftrightarrow> (ff_open s \<longrightarrow> set (ff_values s) \<subseteq> known_values p
     \<and> (applied_settings (fp_applied p) \<noteq> [] \<longrightarrow> map_of (ff_settings s) ''withSubpools'' \<noteq> None)
     \<and> (fp_settings p = [] \<and> applied_settings (fp_applied p) = [] \<longrightarrow> ff_settings s = []))"

lemma form_init_ok: "form_ok p form_init"
  by (simp add: form_ok_def form_init_def)

lemma reset_form_ok: "form_ok p (reset_form p b)"
  by (auto simp: form_ok_def reset_form_def known_values_eq applied_settings_def split: applied_filter.splits option.splits)

lemma handleItemToggle_subset: "set (handleItemToggle v vs) \<subseteq> insert v (set vs)"
  by (auto simp: handleItemToggle_def)

lemma settings_kept:
  "map_of ss k \<noteq> None \<Longrightarrow> map_of (obj_spread ss [(k', c)]) k \<noteq> None"
  by (simp add: obj_spread_def)

lemma form_step_ok:
  assumes "form_ok p s" "form_step p e s = Inr (s', out)"
  shows "form_ok p s' \<and> (\<forall>a. out = Some a \<longrightarrow> ff_open s \<and> a = Selected (ff_values s) (map_of (ff_settings s) ''withSubpools''))"
proof -
  obtain shown where shown: "filteredItems p (ff_query s) = Inr shown"
    using assms(2) by (auto simp: form_step_def bind_js_Inr_iff)
  have shown_known: "item_value ` set shown \<subseteq> known_values p"
    using filteredItems_subset [OF shown] by (auto simp: known_values_def)
  show ?thesis
  proof (cases "e = FormOpen \<or> \<not> ff_open s")
    case True
    with assms shown reset_form_ok [of p True] show ?thesis by (auto simp: form_step_def split: if_splits)
  next
    case False
    then have is_open: "ff_open s" "e \<noteq> FormOpen" by auto
    show ?thesis
    proof (cases e)
      case (FormToggle v)
      have "v \<in> known_values p" if "array_includes (map item_value shown) v"
        using array_includes_member [OF that] shown_known by auto
      with assms shown is_open FormToggle handleItemToggle_subset [of v "ff_values s"] show ?thesis
        by (auto simp: form_step_def form_ok_def split: if_splits)
    next
      case (FormSelectAll checked)
      have known: "set (map item_value shown) \<subseteq> known_values p" using shown_known by simp
      show ?thesis
        using assms shown is_open FormSelectAll known
        by (cases "1 < length shown"; cases checked) (auto simp: form_step_def form_ok_def simp del: set_map)
    next
      case (FormSetting name checked)
      with assms shown is_open settings_kept show ?thesis
        by (fastforce simp: form_step_def form_ok_def split: if_splits)
    next
      case FormApply
      with assms shown is_open show ?thesis by (auto simp: form_step_def form_ok_def split: if_splits)
    qed (use assms shown is_open reset_form_ok [of p False] in \<open>auto simp: form_step_def form_ok_def\<close>)
  qed
qed

lemma form_session_output:
  "form_session p es s = Inr (Some a) \<Longrightarrow> form_ok p s \<Longrightarrow>
    \<exists>vs settings. a = Selected vs (map_of settings ''withSubpools'') \<and> set vs \<subseteq> known_values p
      \<and> (applied_settings (fp_applied p) \<noteq> [] \<longrightarrow> map_of settings ''withSubpools'' \<noteq> None)
      \<and> (fp_settings p = [] \<and> applied_settings (fp_applied p) = [] \<longrightarrow> settings = [])"
proof (induction es arbitrary: s)
  case (Cons e es)
  then obtain s' out where step: "form_step p e s = Inr (s', out)" by (auto simp: bind_js_Inr_iff)
  note ok = form_step_ok [OF Cons.prems(2) step]
  show ?case
  proof (cases out)
    case None
    with Cons.prems(1) step have "form_session p es s' = Inr (Some a)" by simp
    with Cons.IH ok show ?thesis by blast
  next
    case (Some b)
    with Cons.prems(1) step have "b = a" by simp
    with ok Some have "ff_open s" "a = Selected (ff_values s) (map_of (ff_settings s) ''withSubpools'')" by auto
    with Cons.prems(2) show ?thesis unfolding form_ok_def by blast
  qed
qed simp

text \<open>A filter that is handed to the page can be written when what is offered and what was applied can be.\<close>

definition value_ok :: "(string \<Rightarrow> bool) \<Rightarrow> string \<Rightarrow> jsval \<Rightarrow> bool" where
  "value_ok reads_number k = (if k = ''poolId'' then pool_id reads_number else plain_value reads_number)"

lemma selection_settings:
  "list_all (\<lambda>(k, cfg). case cfg of RangeConfig r \<Rightarrow> True
     | SelectionConfig c \<Rightarrow> sc_id c = k \<and> k \<notin> {''firstSeen'', ''lastSeen''} \<and> (sc_settings c = [] \<longleftrightarrow> k \<noteq> ''poolId'')) (FILTER_CONFIGS env)"
  by (simp add: FILTER_CONFIGS_def filter_defs)

lemma writable_selected:
  "k \<notin> {''firstSeen'', ''lastSeen''} \<Longrightarrow> writable reads_number k (Selected vs settings) \<longleftrightarrow>
    list_all (value_ok reads_number k) vs \<and> (settings = None \<longleftrightarrow> k \<noteq> ''poolId'')"
  by (auto simp: writable_def value_ok_def split: option.split)

lemma writable_selection:
  "k \<notin> {''firstSeen'', ''lastSeen''} \<Longrightarrow> writable reads_number k a \<Longrightarrow> \<exists>vs settings. a = Selected vs settings"
  by (auto simp: writable_def split: if_splits applied_filter.splits)

lemma form_output_writable:
  assumes cfg: "(k, SelectionConfig c) \<in> set (FILTER_CONFIGS env)" and applied: "(k, a) \<in> set applied" "distinct (map fst applied)"
    and good: "writable reads_number k a"
    and props: "getSelectionFilterProps env c applied v = Inr p"
    and items: "list_all (\<lambda>i. value_ok reads_number k (item_value i)) (fp_items p)"
    and session: "form_session p es form_init = Inr (Some b)"
  shows "writable reads_number k b"
proof -
  have c: "sc_id c = k" "k \<notin> {''firstSeen'', ''lastSeen''}" "sc_settings c = [] \<longleftrightarrow> k \<noteq> ''poolId''"
    using selection_settings [of env] cfg by (auto simp: list_all_iff)
  have p: "fp_applied p = a" "fp_settings p = sc_settings c"
    using props applied by (auto simp: getSelectionFilterProps_def map_js_Inr_iff c(1))
  obtain us st where a: "a = Selected us st" using writable_selection [OF c(2) good] by blast
  have us: "list_all (value_ok reads_number k) us" "st = None \<longleftrightarrow> k \<noteq> ''poolId''"
    using good writable_selected [OF c(2), of reads_number us st] by (simp_all add: a)
  obtain vs settings where b: "b = Selected vs (map_of settings ''withSubpools'')" "set vs \<subseteq> known_values p"
    "applied_settings a \<noteq> [] \<longrightarrow> map_of settings ''withSubpools'' \<noteq> None"
    "fp_settings p = [] \<and> applied_settings a = [] \<longrightarrow> settings = []"
    using form_session_output [OF session form_init_ok] unfolding p(1) by blast
  have "known_values p = item_value ` set (fp_items p) \<union> set us" by (simp add: known_values_eq p(1) a applied_list_def)
  with b(2) items us(1) have "list_all (value_ok reads_number k) vs" by (fastforce simp: list_all_iff)
  moreover have "map_of settings ''withSubpools'' = None \<longleftrightarrow> k \<noteq> ''poolId''"
    using b(3,4) us(2) c(3) p(2) by (cases st) (auto simp: a applied_settings_def)
  ultimately show ?thesis by (simp add: b(1) writable_selected [OF c(2)])
qed

section \<open>The suggestions\<close>

lemma suggestion_updates_get:
  assumes "distinct (map fst selected)" "(k, vs) \<in> set selected"
  shows "map_of (suggestion_updates groups applied selected) k =
    Some (filter (\<lambda>v. \<not> array_includes (case map_of groups k of Some us \<Rightarrow> us | None \<Rightarrow> []) v) (applied k) @ vs)"
proof -
  let ?f = "\<lambda>(k, selectedValues). (k, filter (\<lambda>v. \<not> array_includes (case map_of groups k of Some us \<Rightarrow> us | None \<Rightarrow> []) v) (applied k) @ selectedValues)"
  have "map_of (from_entries (map ?f selected)) = map_of (map ?f selected)"
    unfolding from_entries_def map_of_fold_obj_set
    using assms(1) by (subst map_of_rev_distinct) (simp_all add: comp_def case_prod_beta)
  moreover have "map_of (map ?f selected) k = Some (snd (?f (k, vs)))"
    using assms by (intro map_of_is_SomeI) (force simp: comp_def case_prod_beta)+
  ultimately show ?thesis by (simp add: suggestion_updates_def Let_def)
qed

lemma set_obj_spread: "set (obj_spread o1 o2) \<subseteq> set o1 \<union> set o2"
  unfolding obj_spread_def
proof (induction o2 arbitrary: o1)
  case (Cons e es)
  obtain k v where e: "e = (k, v)" by (cases e)
  have "set (fold (\<lambda>(k, v) o'. obj_set k v o') (e # es) o1) \<subseteq> set (obj_set k v o1) \<union> set es"
    using Cons.IH [of "obj_set k v o1"] by (simp add: e)
  with set_obj_set [of k v o1] show ?case by (auto simp: e)
qed simp

lemma set_from_entries: "set (from_entries es) \<subseteq> set es"
  using set_obj_spread [of "[]" es] by (simp add: from_entries_def obj_spread_def)

definition all_plain :: "(string \<Rightarrow> bool) \<Rightarrow> suggestion_groups \<Rightarrow> bool" where
  "all_plain reads_number groups \<longleftrightarrow> (\<forall>(k, vs) \<in> set groups. list_all (plain_value reads_number) vs)"

lemma toggle_plain:
  assumes "all_plain reads_number ss" "plain_value reads_number v"
  shows "all_plain reads_number (handleSuggestionToggle v k ss)"
proof -
  define vs where "vs = (case map_of ss k of Some vs \<Rightarrow> vs | None \<Rightarrow> [])"
  have vs: "list_all (plain_value reads_number) vs"
    using assms(1) by (auto simp: vs_def all_plain_def dest: map_of_SomeD split: option.split)
  define us where "us = (if array_includes vs v then filter (\<lambda>w. \<not> strict_eq w v) vs else vs @ [v])"
  have "list_all (plain_value reads_number) us" using vs assms(2) by (auto simp: us_def list_all_iff)
  moreover have "handleSuggestionToggle v k ss = obj_spread ss [(k, us)]"
    by (simp add: handleSuggestionToggle_def vs_def us_def)
  ultimately show ?thesis using assms(1) set_obj_spread [of ss "[(k, us)]"] by (fastforce simp: all_plain_def)
qed

lemma toggles_plain:
  "all_plain reads_number ss \<Longrightarrow> list_all (\<lambda>(v, k). plain_value reads_number v) toggles \<Longrightarrow>
    all_plain reads_number (fold (\<lambda>(v, k). handleSuggestionToggle v k) toggles ss)"
  by (induction toggles arbitrary: ss) (auto simp: toggle_plain)

lemma suggestion_session_good:
  assumes groups: "all_plain reads_number groups" and toggles: "list_all (\<lambda>(v, k). plain_value reads_number v) toggles"
    and applied: "\<And>k. list_all (plain_value reads_number) (applied k)"
  shows "good_change reads_number (suggestion_session groups applied toggles)"
proof -
  define selected where "selected = fold (\<lambda>(v, k). handleSuggestionToggle v k) toggles (suggested_selection groups applied)"
  have "all_plain reads_number (suggested_selection groups applied)"
    unfolding all_plain_def suggested_selection_def
  proof
    fix e assume "e \<in> set (from_entries (map (\<lambda>(k, vs). (k, filter (array_includes (applied k)) vs)) groups))"
    with set_from_entries have "e \<in> set (map (\<lambda>(k, vs). (k, filter (array_includes (applied k)) vs)) groups)" by blast
    with groups show "case e of (k, vs) \<Rightarrow> list_all (plain_value reads_number) vs"
      by (fastforce simp: all_plain_def list_all_iff)
  qed
  then have selected: "all_plain reads_number selected" unfolding selected_def by (rule toggles_plain [OF _ toggles])
  define updates where "updates = suggestion_updates groups applied selected"
  have updates: "list_all (plain_value reads_number) vs" if "(k, vs) \<in> set updates" for k vs
  proof -
    from that obtain us ws where "(k, ws) \<in> set selected" "vs = filter (\<lambda>v. \<not> array_includes us v) (applied k) @ ws"
      using set_from_entries unfolding updates_def suggestion_updates_def Let_def by fastforce
    with selected applied [of k] show ?thesis by (auto simp: all_plain_def list_all_iff)
  qed
  have plain: "list_all (plain_value reads_number) (case obj_get (map (\<lambda>(k, vs). (k, Arr vs)) updates) k of Arr vs \<Rightarrow> vs | _ \<Rightarrow> [])" for k
  proof -
    have "map_of (map (\<lambda>(k, vs). (k, Arr vs)) updates) k = map_option Arr (map_of updates k)" by (simp add: map_of_map)
    then show ?thesis
      using updates by (cases "map_of updates k") (auto simp: obj_get_def dest: map_of_SomeD)
  qed
  show ?thesis
    using plain [of "''ownerId''"] plain [of "''resourceType''"] plain [of "''active''"] plain [of "''constraintViolated''"]
    by (simp add: suggestion_session_def handleApplySuggestion_def good_change_def filter_ids_def writable_def
        flip: selected_def updates_def)
qed

section \<open>The page in use\<close>

text \<open>The values of a filter of the page.\<close>

definition page_values :: "resources_page \<Rightarrow> string \<Rightarrow> jsval list" where
  "page_values page k = (case map_of (rp_applied page) k of Some a \<Rightarrow> applied_list a | None \<Rightarrow> [])"

definition all_writable :: "(string \<Rightarrow> bool) \<Rightarrow> resources_page \<Rightarrow> bool" where
  "all_writable reads_number page \<longleftrightarrow> list_all (\<lambda>(k, a). writable reads_number k a) (rp_applied page)"

text \<open>The pages that are reached from an opened one by the forms, for values that keep their kind in the
  address: what the opened address selects and what the forms offer is plain, pools do not end in a plus, and
  the days of the pickers are after the first second of the epoch.  The program accepts other values too, and
  loses them: \<open>utils/network.ts\<close> reads a text that looks like a number or a truth value as one.  Such pages
  are not among these.\<close>

inductive used_page :: "filter_env \<Rightarrow> (obj \<Rightarrow> obj) \<Rightarrow> (string \<Rightarrow> bool) \<Rightarrow> resources_page \<Rightarrow> bool"
  for env :: filter_env and reread :: "obj \<Rightarrow> obj" and reads_number :: "string \<Rightarrow> bool" where
  opened: "all_writable reads_number (open_page env (reread q)) \<Longrightarrow> used_page env reread reads_number (open_page env (reread q))"
| listed: "used_page env reread reads_number page \<Longrightarrow> (k, SelectionConfig c) \<in> set (FILTER_CONFIGS env) \<Longrightarrow>
    getSelectionFilterProps env c (rp_applied page) available = Inr p \<Longrightarrow>
    list_all (\<lambda>i. value_ok reads_number k (item_value i)) (fp_items p) \<Longrightarrow>
    form_session p es form_init = Inr (Some a) \<Longrightarrow>
    used_page env reread reads_number (onAppliedFiltersChange env reread selected [(k, a)] page)"
| ranged: "used_page env reread reads_number page \<Longrightarrow> k \<in> {''firstSeen'', ''lastSeen''} \<Longrightarrow>
    (case handleRangeChange env k r of [(k', Range f t)] \<Rightarrow> late_end f \<and> late_end t | _ \<Rightarrow> False) \<Longrightarrow>
    used_page env reread reads_number (onAppliedFiltersChange env reread selected (handleRangeChange env k r) page)"
| suggested: "used_page env reread reads_number page \<Longrightarrow> all_plain reads_number groups \<Longrightarrow>
    list_all (\<lambda>(v, k). plain_value reads_number v) toggles \<Longrightarrow>
    used_page env reread reads_number
      (onAppliedFiltersChange env reread selected (suggestion_session groups (page_values page) toggles) page)"
| reset: "used_page env reread reads_number page \<Longrightarrow>
    used_page env reread reads_number (onAppliedFiltersChange env reread selected (handleResetFilters env) page)"

lemma change_keeps_writable:
  assumes "good_change reads_number new" "all_writable reads_number page" "map fst (rp_applied page) = filter_ids"
  shows "all_writable reads_number (onAppliedFiltersChange env reread selected new page)"
proof -
  have "fst ` set new \<subseteq> fst ` set (rp_applied page)"
    using assms(1,3) by (force simp: good_change_def list_all_iff simp flip: set_map)
  then have "rp_applied (onAppliedFiltersChange env reread selected new page) =
      map (\<lambda>(k, v). (k, case map_of new k of Some w \<Rightarrow> w | None \<Rightarrow> v)) (rp_applied page)"
    using assms(1) by (simp add: onAppliedFiltersChange_def Let_def obj_spread_known good_change_def)
  with assms(1,2) show ?thesis
    by (auto simp: all_writable_def good_change_def list_all_iff dest!: map_of_SomeD split: option.split)
qed

lemma page_values_plain:
  assumes "all_writable reads_number page"
  shows "list_all (plain_value reads_number) (page_values page k)"
proof (cases "map_of (rp_applied page) k")
  case (Some a)
  then have "writable reads_number k a" using assms by (auto simp: all_writable_def list_all_iff dest: map_of_SomeD)
  then have "list_all (plain_value reads_number) (applied_list a)"
    by (cases a) (auto simp: writable_def applied_list_def pool_id_def list_all_iff split: if_splits option.splits)
  with Some show ?thesis by (simp add: page_values_def)
qed (simp add: page_values_def)

lemma used_page_in_sync:
  assumes "query_string reads_number reread" "whole_seconds env" "used_page env reread reads_number page"
  shows "in_sync env reads_number reread page \<and> all_writable reads_number page"
  using assms(3)
proof induction
  case (opened q)
  then show ?case using opened_in_sync by simp
next
  case (listed page k c available p es a selected)
  have ids: "map fst (rp_applied page) = filter_ids" using listed.IH in_sync_ids by blast
  have "k \<in> set (map fst (rp_applied page))" using known_filter_ids [OF listed(2)] ids by simp
  then obtain b where b: "(k, b) \<in> set (rp_applied page)" by auto
  have "writable reads_number k a"
    using form_output_writable [OF listed(2) b _ _ listed(3,4,5)] listed.IH b
    by (auto simp: ids distinct_filter_ids all_writable_def list_all_iff)
  then have "good_change reads_number [(k, a)]" using known_filter_ids [OF listed(2)] by (simp add: good_change_def)
  then show ?case using listed.IH change_keeps_sync [OF assms(1,2)] change_keeps_writable ids by blast
next
  case (ranged page k r selected)
  have "good_change reads_number (handleRangeChange env k r)"
    using ranged(2,3) by (auto simp: good_change_def handleRangeChange_def filter_ids_def writable_def)
  then show ?case using ranged.IH change_keeps_sync [OF assms(1,2)] change_keeps_writable in_sync_ids by blast
next
  case (suggested page groups toggles selected)
  have "good_change reads_number (suggestion_session groups (page_values page) toggles)"
    using suggestion_session_good [OF suggested(2,3)] page_values_plain suggested.IH by blast
  then show ?case using suggested.IH change_keeps_sync [OF assms(1,2)] change_keeps_writable in_sync_ids by blast
next
  case (reset page selected)
  then show ?case using reset_is_good_change change_keeps_sync [OF assms(1,2)] change_keeps_writable in_sync_ids by blast
qed

end
