(* ===== verification/Commitments.thy ===== *)
theory Commitments
  imports BreakdownLines
begin

text \<open>
  Reserved instances and savings plans: the two breakdowns of the API merged by day and data source
  (\<open>hooks/useRiSpBreakdowns.ts\<close>), the page that selects data sources (\<open>pages/RiSpCoverage\<close>), its two bar
  charts and its table, and the summary of the last 30 days (\<open>useRiSpExpensesSummary.ts\<close>).  An hour or
  a cost that the answer lacks is \<open>None\<close>; the days of a breakdown are in the order of its properties.
\<close>

section \<open>The two answers\<close>

record reserved_datum =
  rv_account :: string
  rv_usage_hrs :: "rat option"
  rv_cost_with_offer :: "rat option"
  rv_cost_without_offer :: "rat option"

record savings_datum =
  sv_account :: string
  sv_type :: jsval
  sv_name :: jsval
  sv_total_usage_hrs :: "rat option"
  sv_usage_hrs :: "rat option"
  sv_sp_cost_with_offer :: "rat option"
  sv_sp_cost_without_offer :: "rat option"
  sv_cost_with_offer :: "rat option"
  sv_cost_without_offer :: "rat option"

type_synonym 'a days = "(string \<times> 'a list) list"

definition or_zero :: "rat option \<Rightarrow> rat" where
  "or_zero x = (case x of None \<Rightarrow> 0 | Some r \<Rightarrow> r)"

text \<open>\<open>breakdown[date]?.find(...)?.field\<close>.\<close>

definition datum_of :: "('a \<Rightarrow> string) \<Rightarrow> 'a days \<Rightarrow> string \<Rightarrow> string \<Rightarrow> 'a option" where
  "datum_of account days date dataSourceId =
     Option.bind (map_of days date) (List.find (\<lambda>datum. account datum = dataSourceId))"

definition field_of :: "('a \<Rightarrow> rat option) \<Rightarrow> 'a option \<Rightarrow> rat" where
  "field_of field datum = or_zero (Option.bind datum field)"

section \<open>The merged breakdowns\<close>

record usage_item =
  ui_account :: string
  ui_type :: jsval
  ui_name :: jsval
  ui_total_usage_hrs :: rat
  ui_ri_usage_hrs :: rat
  ui_sp_usage_hrs :: rat

record cost_item =
  ci_account :: string
  ci_type :: jsval
  ci_name :: jsval
  ci_ri_cost_with_offer :: rat
  ci_ri_cost_without_offer :: rat
  ci_sp_cost_with_offer :: rat
  ci_sp_cost_without_offer :: rat
  ci_total_cost_with_offer :: rat
  ci_total_cost_without_offer :: rat

definition label_of :: "('a \<Rightarrow> jsval) \<Rightarrow> 'a option \<Rightarrow> jsval" where
  "label_of field datum = (case datum of None \<Rightarrow> Undef | Some d \<Rightarrow> field d)"

definition to_usage :: "string \<Rightarrow> savings_datum option \<Rightarrow> reserved_datum option \<Rightarrow> usage_item" where
  "to_usage dataSourceId sp ri =
     \<lparr> ui_account = dataSourceId, ui_type = label_of sv_type sp, ui_name = label_of sv_name sp,
       ui_total_usage_hrs = field_of sv_total_usage_hrs sp,
       ui_ri_usage_hrs = field_of rv_usage_hrs ri,
       ui_sp_usage_hrs = field_of sv_usage_hrs sp \<rparr>"

definition to_cost :: "string \<Rightarrow> savings_datum option \<Rightarrow> reserved_datum option \<Rightarrow> cost_item" where
  "to_cost dataSourceId sp ri =
     \<lparr> ci_account = dataSourceId, ci_type = label_of sv_type sp, ci_name = label_of sv_name sp,
       ci_ri_cost_with_offer = field_of rv_cost_with_offer ri,
       ci_ri_cost_without_offer = field_of rv_cost_without_offer ri,
       ci_sp_cost_with_offer = field_of sv_sp_cost_with_offer sp,
       ci_sp_cost_without_offer = field_of sv_sp_cost_without_offer sp,
       ci_total_cost_with_offer = field_of sv_cost_with_offer sp,
       ci_total_cost_without_offer = field_of sv_cost_without_offer sp \<rparr>"

text \<open>The data sources are those of the first day of the savings plans.\<close>

definition first_day_sources :: "savings_datum days \<Rightarrow> string list" where
  "first_day_sources days = (case days of [] \<Rightarrow> [] | (date, items) # _ \<Rightarrow> map sv_account items)"

definition getBreakdown ::
  "(string \<Rightarrow> savings_datum option \<Rightarrow> reserved_datum option \<Rightarrow> 'i)
     \<Rightarrow> reserved_datum days option \<Rightarrow> savings_datum days option \<Rightarrow> 'i days" where
  "getBreakdown item riBreakdown spBreakdown =
     (case (riBreakdown, spBreakdown) of
        (Some ri, Some sp) \<Rightarrow>
          from_entries (map (\<lambda>date. (date, map (\<lambda>dataSourceId.
            item dataSourceId (datum_of sv_account sp date dataSourceId) (datum_of rv_account ri date dataSourceId))
              (first_day_sources sp))) (map fst sp))
      | _ \<Rightarrow> [])"

definition useRiSpBreakdowns ::
  "reserved_datum days option \<Rightarrow> savings_datum days option \<Rightarrow> usage_item days \<times> cost_item days" where
  "useRiSpBreakdowns riBreakdown spBreakdown =
     (getBreakdown to_usage riBreakdown spBreakdown, getBreakdown to_cost riBreakdown spBreakdown)"

section \<open>The page\<close>

definition filterBreakdownByIds :: "('i \<Rightarrow> string) \<Rightarrow> 'i days \<Rightarrow> string list \<Rightarrow> 'i days" where
  "filterBreakdownByIds account breakdown dataSourceIds =
     (if dataSourceIds = [] then breakdown
      else from_entries (map (\<lambda>(date, entries). (date, filter (\<lambda>entry. account entry \<in> set dataSourceIds) entries))
        breakdown))"

definition flat :: "'i days \<Rightarrow> 'i list" where
  "flat breakdown = concat (map snd breakdown)"

definition getDataSourcesTypes :: "usage_item days \<Rightarrow> cost_item days \<Rightarrow> jsval list" where
  "getDataSourcesTypes usageBreakdown expensesBreakdown =
     unique (map ui_type (flat usageBreakdown) @ map ci_type (flat expensesBreakdown))"

section \<open>Shares\<close>

text \<open>\<open>percentXofY\<close> of \<open>utils/math.ts\<close>: \<open>toFixed(2)\<close> takes the nearest hundredth, of two the larger one.
  \<open>None\<close> is a quotient that is infinite.\<close>

definition percentXofY :: "rat \<Rightarrow> rat \<Rightarrow> rat option" where
  "percentXofY x y =
     (if x < 0 \<or> y < 0 then Some 0
      else if x = 0 \<and> y = 0 then Some 0
      else map_option (\<lambda>q. of_int \<lfloor>q * 100 + 1 / 2\<rfloor> / 100) (js_div x y))"

definition js_minus :: "rat option \<Rightarrow> rat option \<Rightarrow> rat option" where
  "js_minus a b = Option.bind a (\<lambda>x. map_option (\<lambda>y. x - y) b)"

section \<open>The chart of the usage\<close>

record usage_bar =
  ub_date :: string
  ub_sp_usage_hrs :: rat
  ub_ri_usage_hrs :: rat
  ub_total_usage_hrs :: rat
  ub_sp_usage_percent :: "rat option"
  ub_ri_usage_percent :: "rat option"
  ub_uncovered_usage_percent :: "rat option"

definition usage_bar_of :: "(string \<Rightarrow> string) \<Rightarrow> string \<times> usage_item list \<Rightarrow> usage_bar" where
  "usage_bar_of formatDay = (\<lambda>(key, value).
     let sp = fold (\<lambda>item result. result + ui_sp_usage_hrs item) value 0;
         ri = fold (\<lambda>item result. result + ui_ri_usage_hrs item) value 0;
         total = fold (\<lambda>item result. result + ui_total_usage_hrs item) value 0;
         spUsagePercent = percentXofY sp total;
         riUsagePercent = percentXofY ri total in
     \<lparr> ub_date = formatDay key, ub_sp_usage_hrs = sp, ub_ri_usage_hrs = ri, ub_total_usage_hrs = total,
       ub_sp_usage_percent = spUsagePercent, ub_ri_usage_percent = riUsagePercent,
       ub_uncovered_usage_percent = js_minus (js_minus (Some 1) spUsagePercent) riUsagePercent \<rparr>)"

definition usage_chart_data :: "(string \<Rightarrow> string) \<Rightarrow> usage_item days \<Rightarrow> usage_bar list" where
  "usage_chart_data formatDay breakdown = map (usage_bar_of formatDay) breakdown"

definition usage_chart_shown :: "usage_bar list \<Rightarrow> usage_bar list" where
  "usage_chart_shown data_arg = (if \<exists>datum \<in> set data_arg. ub_total_usage_hrs datum \<noteq> 0 then data_arg else [])"

section \<open>The chart of the expenses\<close>

text \<open>Each addition is rounded to cents.\<close>

definition rounded_sum :: "('i \<Rightarrow> rat) \<Rightarrow> 'i list \<Rightarrow> rat" where
  "rounded_sum cost items = fold (\<lambda>item result. round_js (result + cost item) 2) items 0"

record cost_bar =
  cb_date :: string
  cb_sp_expenses :: rat
  cb_ri_expenses :: rat
  cb_total_expenses :: rat
  cb_total_savings :: rat
  cb_uncovered_expenses :: rat

definition cost_bar_of :: "(string \<Rightarrow> string) \<Rightarrow> string \<times> cost_item list \<Rightarrow> cost_bar" where
  "cost_bar_of formatDay = (\<lambda>(key, value).
     let sp = rounded_sum ci_sp_cost_with_offer value;
         ri = rounded_sum ci_ri_cost_with_offer value;
         total = rounded_sum ci_total_cost_with_offer value;
         without_offer = rounded_sum ci_total_cost_without_offer value in
     \<lparr> cb_date = formatDay key, cb_sp_expenses = sp, cb_ri_expenses = ri, cb_total_expenses = total,
       cb_total_savings = round_js (without_offer - total) 2,
       cb_uncovered_expenses = round_js (total - sp - ri) 2 \<rparr>)"

definition cost_chart_data :: "(string \<Rightarrow> string) \<Rightarrow> cost_item days \<Rightarrow> cost_bar list" where
  "cost_chart_data formatDay breakdown = map (cost_bar_of formatDay) breakdown"

definition chart_keys :: "bool \<Rightarrow> (cost_bar \<Rightarrow> rat) list" where
  "chart_keys showSavings =
     [cb_sp_expenses, cb_ri_expenses, cb_uncovered_expenses] @ (if showSavings then [cb_total_savings] else [])"

definition cost_chart_shown :: "bool \<Rightarrow> cost_bar list \<Rightarrow> cost_bar list" where
  "cost_chart_shown showSavings data_arg =
     (if \<exists>datum \<in> set data_arg. \<exists>key \<in> set (chart_keys showSavings). key datum \<noteq> 0 then data_arg else [])"

section \<open>The table\<close>

text \<open>A row is the first item of a data source, with the fields of the others added.  The fields that
  the first item does not have are \<open>None\<close>: an item of the usage has no costs and one of the expenses
  has its costs under other names.\<close>

datatype coverage_item = Usage usage_item | Cost cost_item

primrec item_account :: "coverage_item \<Rightarrow> string" where
  "item_account (Usage u) = ui_account u"
| "item_account (Cost c) = ci_account c"

record coverage_row =
  cr_account :: string
  cr_type :: jsval
  cr_name :: jsval
  cr_sp_usage_hrs :: "rat option"
  cr_ri_usage_hrs :: "rat option"
  cr_total_usage_hrs :: "rat option"
  cr_sp_cost_with_offer :: "rat option"
  cr_ri_cost_with_offer :: "rat option"
  cr_total_cost_with_offer :: "rat option"
  cr_total_cost_without_offer :: "rat option"

primrec first_row :: "coverage_item \<Rightarrow> coverage_row" where
  "first_row (Usage u) =
     \<lparr> cr_account = ui_account u, cr_type = ui_type u, cr_name = ui_name u, cr_sp_usage_hrs = Some (ui_sp_usage_hrs u),
       cr_ri_usage_hrs = Some (ui_ri_usage_hrs u), cr_total_usage_hrs = Some (ui_total_usage_hrs u),
       cr_sp_cost_with_offer = None, cr_ri_cost_with_offer = None,
       cr_total_cost_with_offer = None, cr_total_cost_without_offer = None \<rparr>"
| "first_row (Cost c) =
     \<lparr> cr_account = ci_account c, cr_type = ci_type c, cr_name = ci_name c, cr_sp_usage_hrs = None, cr_ri_usage_hrs = None, cr_total_usage_hrs = None,
       cr_sp_cost_with_offer = None, cr_ri_cost_with_offer = None,
       cr_total_cost_with_offer = None, cr_total_cost_without_offer = None \<rparr>"

text \<open>The fields of an item that are added, zero for those it does not have.\<close>

definition added :: "(usage_item \<Rightarrow> rat) \<Rightarrow> (cost_item \<Rightarrow> rat) \<Rightarrow> coverage_item \<Rightarrow> rat" where
  "added usage cost item = (case item of Usage u \<Rightarrow> usage u | Cost c \<Rightarrow> cost c)"

abbreviation no_usage :: "usage_item \<Rightarrow> rat" where "no_usage \<equiv> (\<lambda>_. 0)"
abbreviation no_cost :: "cost_item \<Rightarrow> rat" where "no_cost \<equiv> (\<lambda>_. 0)"

definition add_to_row :: "coverage_item \<Rightarrow> coverage_row \<Rightarrow> coverage_row" where
  "add_to_row item row =
     row \<lparr> cr_sp_usage_hrs := Some (or_zero (cr_sp_usage_hrs row) + added ui_sp_usage_hrs no_cost item),
       cr_ri_usage_hrs := Some (or_zero (cr_ri_usage_hrs row) + added ui_ri_usage_hrs no_cost item),
       cr_total_usage_hrs := Some (or_zero (cr_total_usage_hrs row) + added ui_total_usage_hrs no_cost item),
       cr_sp_cost_with_offer := Some (or_zero (cr_sp_cost_with_offer row) + added no_usage ci_sp_cost_with_offer item),
       cr_ri_cost_with_offer := Some (or_zero (cr_ri_cost_with_offer row) + added no_usage ci_ri_cost_with_offer item),
       cr_total_cost_with_offer :=
         Some (or_zero (cr_total_cost_with_offer row) + added no_usage ci_total_cost_with_offer item),
       cr_total_cost_without_offer :=
         Some (or_zero (cr_total_cost_without_offer row) + added no_usage ci_total_cost_without_offer item) \<rparr>"

fun merge_item :: "coverage_item \<Rightarrow> coverage_row list \<Rightarrow> coverage_row list" where
  "merge_item item [] = [first_row item]"
| "merge_item item (row # rows) =
     (if cr_account row = item_account item then add_to_row item row # rows else row # merge_item item rows)"

definition coverage_rows :: "coverage_item list \<Rightarrow> coverage_row list" where
  "coverage_rows breakdown = fold merge_item breakdown []"

text \<open>\<open>acc + datum || 0\<close>: a missing field makes \<open>NaN\<close> of the sum, hence zero.\<close>

definition footer :: "(coverage_row \<Rightarrow> rat option) \<Rightarrow> coverage_row list \<Rightarrow> rat" where
  "footer field rows = fold (\<lambda>datum acc. case field datum of None \<Rightarrow> 0 | Some x \<Rightarrow> acc + x) rows 0"

text \<open>The cells: hours with one decimal and their share, costs with their share, and the savings.\<close>

definition usage_cell :: "rat \<Rightarrow> rat \<Rightarrow> rat \<times> rat option" where
  "usage_cell usage totalUsage = (let v = round_js usage 1 in (v, percentXofY v totalUsage))"

definition expenses_cell :: "rat \<Rightarrow> rat \<Rightarrow> rat \<times> rat option" where
  "expenses_cell expenses totalExpenses = (expenses, percentXofY expenses totalExpenses)"

definition savings_cell :: "rat \<Rightarrow> rat \<Rightarrow> rat \<times> rat option" where
  "savings_cell totalCostWithoutOffer totalCostWithOffer =
     expenses_cell (totalCostWithoutOffer - totalCostWithOffer) totalCostWithoutOffer"

text \<open>What the page gives to the table.\<close>

definition page_items :: "usage_item days \<Rightarrow> cost_item days \<Rightarrow> coverage_item list" where
  "page_items usageBreakdown expensesBreakdown =
     map Usage (flat usageBreakdown) @ map Cost (flat expensesBreakdown)"

section \<open>The summary\<close>

record commitment_summary =
  cs_totalCostWithOffer :: rat
  cs_totalSaving :: rat
  cs_covered :: rat

definition summarize_commitments :: "cost_item days \<Rightarrow> commitment_summary" where
  "summarize_commitments expensesBreakdown =
     fold (\<lambda>item acc. \<lparr> cs_totalCostWithOffer = cs_totalCostWithOffer acc + ci_total_cost_with_offer item,
         cs_totalSaving = cs_totalSaving acc + (ci_total_cost_without_offer item - ci_total_cost_with_offer item),
         cs_covered = cs_covered acc + ci_ri_cost_with_offer item + ci_sp_cost_with_offer item \<rparr>)
       (flat expensesBreakdown) \<lparr> cs_totalCostWithOffer = 0, cs_totalSaving = 0, cs_covered = 0 \<rparr>"

definition useRiSpExpensesSummary ::
  "reserved_datum days option \<Rightarrow> savings_datum days option \<Rightarrow> rat \<times> rat \<times> rat option" where
  "useRiSpExpensesSummary riBreakdown spBreakdown =
     (let summary = summarize_commitments (snd (useRiSpBreakdowns riBreakdown spBreakdown)) in
      (cs_totalCostWithOffer summary, cs_totalSaving summary,
       percentXofY (cs_covered summary) (cs_totalCostWithOffer summary)))"

end
