(* ===== verification/CommitmentFacts.thy ===== *)
theory CommitmentFacts
  imports Commitments BreakdownData
begin

text \<open>
  What the table of commitments adds up: the footers against the items, the charts and the summary;
  which data sources the merged breakdowns have, and what they take from the two answers; the error of
  the rounded shares and of the sums rounded to cents.
\<close>

section \<open>Rows of the table\<close>

text \<open>A field of the rows with what it takes from an item of the usage and from one of the expenses.\<close>

definition row_field :: "(coverage_row \<Rightarrow> rat option) \<Rightarrow> (usage_item \<Rightarrow> rat) \<Rightarrow> (cost_item \<Rightarrow> rat) \<Rightarrow> bool" where
  "row_field f usage cost \<longleftrightarrow>
     (\<forall>item row. f (add_to_row item row) = Some (or_zero (f row) + added usage cost item))
     \<and> (\<forall>u. or_zero (f (first_row (Usage u))) = usage u)"

lemma row_fields:
  "row_field cr_sp_usage_hrs ui_sp_usage_hrs no_cost"
  "row_field cr_ri_usage_hrs ui_ri_usage_hrs no_cost"
  "row_field cr_total_usage_hrs ui_total_usage_hrs no_cost"
  "row_field cr_sp_cost_with_offer no_usage ci_sp_cost_with_offer"
  "row_field cr_ri_cost_with_offer no_usage ci_ri_cost_with_offer"
  "row_field cr_total_cost_with_offer no_usage ci_total_cost_with_offer"
  "row_field cr_total_cost_without_offer no_usage ci_total_cost_without_offer"
  by (simp_all add: row_field_def add_to_row_def or_zero_def)

lemma account_rows [simp]:
  "cr_account (first_row item) = item_account item"
  "cr_account (add_to_row item row) = cr_account row"
  by (cases item) (simp_all add: add_to_row_def)

lemma merge_accounts:
  "map cr_account (merge_item item rows) =
     (if item_account item \<in> cr_account ` set rows then map cr_account rows
      else map cr_account rows @ [item_account item])"
  by (induction item rows rule: merge_item.induct) auto

lemma coverage_accounts:
  "distinct (map cr_account (fold merge_item xs rows)) = distinct (map cr_account rows)
   \<and> cr_account ` set (fold merge_item xs rows) = cr_account ` set rows \<union> item_account ` set xs"
proof (induction xs arbitrary: rows)
  case (Cons item xs)
  have "distinct (map cr_account (merge_item item rows)) = distinct (map cr_account rows)"
    unfolding merge_accounts by auto
  moreover have "cr_account ` set (merge_item item rows) = insert (item_account item) (cr_account ` set rows)"
    using arg_cong [OF merge_accounts [of item rows], of set] by auto
  ultimately show ?case using Cons.IH [of "merge_item item rows"] by simp
qed simp

text \<open>An item adds what it has, except the first item of a data source when it is one of the
  expenses.\<close>

lemma merge_sum:
  assumes "row_field f usage cost" "(\<exists>u. item = Usage u) \<or> item_account item \<in> cr_account ` set rows"
  shows "sum_list (map (\<lambda>row. or_zero (f row)) (merge_item item rows)) = sum_list (map (\<lambda>row. or_zero (f row)) rows) + added usage cost item"
  using assms(2)
proof (induction item rows rule: merge_item.induct)
  case (1 item)
  then obtain u where "item = Usage u" by auto
  then show ?case using assms(1) by (simp add: row_field_def added_def)
next
  case (2 item row rows)
  show ?case
  proof (cases "cr_account row = item_account item")
    case True
    then show ?thesis using assms(1) by (simp add: row_field_def or_zero_def)
  next
    case False
    then show ?thesis using 2 by auto
  qed
qed

lemma fold_merge_sum:
  assumes "row_field f usage cost" "\<forall>item \<in> set xs. (\<exists>u. item = Usage u) \<or> item_account item \<in> cr_account ` set rows"
  shows "sum_list (map (\<lambda>row. or_zero (f row)) (fold merge_item xs rows))
      = sum_list (map (\<lambda>row. or_zero (f row)) rows) + sum_list (map (added usage cost) xs)"
  using assms(2)
proof (induction xs arbitrary: rows)
  case (Cons item xs)
  have "cr_account ` set rows \<subseteq> cr_account ` set (merge_item item rows)"
    using coverage_accounts [of "[item]" rows] by auto
  with Cons.prems have "\<forall>i \<in> set xs. (\<exists>u. i = Usage u) \<or> item_account i \<in> cr_account ` set (merge_item item rows)"
    by (metis list.set_intros(2) subset_iff)
  from Cons.IH [OF this] merge_sum [OF assms(1), of item rows] Cons.prems show ?case by simp
qed simp

text \<open>A row to which an item was added has every field.\<close>

lemma merge_filled:
  assumes "row_field f usage cost" "distinct (map cr_account rows)" "item_account item \<in> cr_account ` set rows"
    and "\<forall>row \<in> set rows. cr_account row \<in> K \<longrightarrow> f row \<noteq> None"
  shows "\<forall>row \<in> set (merge_item item rows). cr_account row \<in> insert (item_account item) K \<longrightarrow> f row \<noteq> None"
  using assms(2-)
proof (induction item rows rule: merge_item.induct)
  case (2 item row rows)
  show ?case
  proof (cases "cr_account row = item_account item")
    case True
    then have "\<forall>r \<in> set rows. cr_account r \<noteq> item_account item" using 2(2) by (auto simp: image_iff)
    then show ?thesis using True 2(4) assms(1) by (auto simp: row_field_def)
  next
    case False
    then show ?thesis using 2 by auto
  qed
qed simp

lemma fold_merge_filled:
  assumes "row_field f usage cost" "distinct (map cr_account rows)"
    and "\<forall>item \<in> set xs. item_account item \<in> cr_account ` set rows"
    and "\<forall>row \<in> set rows. cr_account row \<in> K \<longrightarrow> f row \<noteq> None"
  shows "\<forall>row \<in> set (fold merge_item xs rows). cr_account row \<in> K \<union> item_account ` set xs \<longrightarrow> f row \<noteq> None"
  using assms(2-)
proof (induction xs arbitrary: rows K)
  case (Cons item xs)
  have same: "map cr_account (merge_item item rows) = map cr_account rows"
    using Cons.prems(2) by (simp add: merge_accounts)
  have "\<forall>i \<in> set xs. item_account i \<in> cr_account ` set (merge_item item rows)"
    using Cons.prems(2) by (metis same list.set_intros(2) set_map)
  from Cons.IH [OF _ this merge_filled [OF assms(1) Cons.prems(1) _ Cons.prems(3)]] Cons.prems(1,2) same
  show ?case by simp
qed simp

lemma footer_sum:
  assumes "\<forall>row \<in> set rows. f row \<noteq> None"
  shows "footer f rows = sum_list (map (\<lambda>row. or_zero (f row)) rows)"
proof -
  have "fold (\<lambda>datum acc. case f datum of None \<Rightarrow> 0 | Some x \<Rightarrow> acc + x) rows a = a + sum_list (map (\<lambda>row. or_zero (f row)) rows)" for a
    using assms by (induction rows arbitrary: a) (auto simp: or_zero_def)
  then show ?thesis by (simp add: footer_def)
qed

text \<open>The footer of a column is the sum over the items when usage and expenses have the same data
  sources.\<close>

lemma page_footer:
  assumes "row_field f usage cost" "ui_account ` set us = ci_account ` set cs"
  shows "footer f (coverage_rows (map Usage us @ map Cost cs)) = sum_list (map usage us) + sum_list (map cost cs)"
proof -
  let ?first = "fold merge_item (map Usage us) []"
  have rows: "cr_account ` set ?first = ui_account ` set us" "distinct (map cr_account ?first)"
    using coverage_accounts [of "map Usage us" "[]"] by (simp_all add: image_image)
  have costs: "\<forall>item \<in> set (map Cost cs). item_account item \<in> cr_account ` set ?first"
    using rows(1) assms(2) by auto
  let ?rows = "fold merge_item (map Cost cs) ?first"
  have all: "cr_account ` set ?rows = item_account ` set (map Cost cs)"
    using coverage_accounts [of "map Cost cs" ?first] rows(1) assms(2) by (auto simp: image_image)
  have "f row \<noteq> None" if "row \<in> set ?rows" for row
    using fold_merge_filled [OF assms(1) rows(2) costs, of "{}"] that all by blast
  then have "\<forall>row \<in> set ?rows. f row \<noteq> None" by blast
  from footer_sum [OF this] fold_merge_sum [OF assms(1), of "map Cost cs" ?first]
    fold_merge_sum [OF assms(1), of "map Usage us" "[]"] costs
  show ?thesis by (simp add: coverage_rows_def comp_def added_def del: merge_item.simps)
qed

section \<open>Data sources of the breakdowns\<close>

lemma from_entries_sub: "set (from_entries es) \<subseteq> set es"
proof -
  have "set (fold (\<lambda>(k, v) o'. obj_set k v o') es m) \<subseteq> set m \<union> set es" for m :: "(string \<times> 'a) list"
  proof (induction es arbitrary: m)
    case (Cons e es)
    from Cons.IH [of "obj_set (fst e) (snd e) m"] set_obj_set [of "fst e" "snd e" m] show ?case
      by (cases e) auto
  qed simp
  from this [of "[]"] show ?thesis by (simp add: from_entries_def)
qed

lemma from_entries_keys: "fst ` set (from_entries es) = fst ` set es"
proof -
  have "fst ` set (fold (\<lambda>(k, v) o'. obj_set k v o') es m) = fst ` set m \<union> fst ` set es" for m :: "(string \<times> 'a) list"
    using keys_obj_spread [of m es] by (simp add: obj_spread_def)
  from this [of "[]"] show ?thesis by (simp add: from_entries_def)
qed

text \<open>The items of a merged breakdown are those of the data sources of the first day.\<close>

lemma breakdown_accounts:
  assumes "\<And>i s r. account (item i s r) = i"
  shows "account ` set (flat (getBreakdown item ri sp)) =
     (case (ri, sp) of (Some r, Some s) \<Rightarrow> set (first_day_sources s) | _ \<Rightarrow> {})"
proof (cases "\<exists>r s. ri = Some r \<and> sp = Some s")
  case True
  then obtain r s where given: "ri = Some r" "sp = Some s" by auto
  let ?entries = "\<lambda>date. map (\<lambda>i. item i (datum_of sv_account s date i) (datum_of rv_account r date i)) (first_day_sources s)"
  let ?es = "map (\<lambda>date. (date, ?entries date)) (map fst s)"
  have b: "getBreakdown item ri sp = from_entries ?es" by (simp add: getBreakdown_def given)
  have own: "account ` set (?entries date) = set (first_day_sources s)" for date
    using assms by (simp add: image_image)
  show ?thesis
  proof (cases s)
    case Nil
    then show ?thesis by (simp add: getBreakdown_def given flat_def from_entries_def first_day_sources_def)
  next
    case (Cons day days)
    then have "fst day \<in> fst ` set (from_entries ?es)" by (simp add: from_entries_keys)
    then obtain v where v: "(fst day, v) \<in> set (from_entries ?es)" by auto
    have each: "\<exists>date. snd e = ?entries date" if "e \<in> set (from_entries ?es)" for e
    proof -
      have "e \<in> set ?es" using that from_entries_sub [of ?es] by blast
      then show ?thesis by auto
    qed
    have "account ` set (flat (from_entries ?es)) = (\<Union>e \<in> set (from_entries ?es). account ` set (snd e))"
      by (auto simp: flat_def)
    also have "\<dots> = set (first_day_sources s)"
    proof
      show "(\<Union>e \<in> set (from_entries ?es). account ` set (snd e)) \<subseteq> set (first_day_sources s)"
        using each own by fastforce
      show "set (first_day_sources s) \<subseteq> (\<Union>e \<in> set (from_entries ?es). account ` set (snd e))"
        using each [OF v] own v by fastforce
    qed
    finally show ?thesis unfolding b unfolding given by (simp only: prod.case option.case)
  qed
next
  case False
  then show ?thesis by (auto simp: getBreakdown_def flat_def split: option.splits)
qed

lemma breakdown_keys: "distinct (map fst (getBreakdown item ri sp))"
  by (simp add: getBreakdown_def distinct_from_entries split: option.split)

lemma flat_mset: "mset b = mset b' \<Longrightarrow> mset (flat b) = mset (flat b')"
  by (simp add: flat_def mset_concat flip: sum_mset_sum_list)

text \<open>Selecting data sources keeps the items of the selected ones.\<close>

lemma flat_filter:
  assumes "distinct (map fst b)"
  shows "mset (flat (filterBreakdownByIds account b ids)) =
    mset (filter (\<lambda>x. ids = [] \<or> account x \<in> set ids) (flat b))"
proof (cases "ids = []")
  case False
  let ?es = "map (\<lambda>(date, entries). (date, filter (\<lambda>entry. account entry \<in> set ids) entries)) b"
  have "map fst ?es = map fst b" by (induction b) auto
  then have "mset (flat (from_entries ?es)) = mset (flat ?es)"
    using assms by (intro flat_mset mset_from_entries) (simp only:)
  also have "flat ?es = filter (\<lambda>x. account x \<in> set ids) (flat b)"
    by (simp add: flat_def filter_concat comp_def case_prod_beta)
  finally show ?thesis using False by (simp add: filterBreakdownByIds_def)
qed (simp add: filterBreakdownByIds_def)

lemma page_accounts:
  "ui_account ` set (flat (filterBreakdownByIds ui_account (getBreakdown to_usage ri sp) ids))
     = ci_account ` set (flat (filterBreakdownByIds ci_account (getBreakdown to_cost ri sp) ids))"
proof -
  have selected: "account ` {x \<in> A. ids = [] \<or> account x \<in> set ids} = {a \<in> account ` A. ids = [] \<or> a \<in> set ids}"
    for account :: "'i \<Rightarrow> string" and A by auto
  have "ui_account ` set (flat (getBreakdown to_usage ri sp)) = ci_account ` set (flat (getBreakdown to_cost ri sp))"
    using breakdown_accounts [of ui_account to_usage ri sp] breakdown_accounts [of ci_account to_cost ri sp]
    by (simp add: to_usage_def to_cost_def)
  then show ?thesis
    by (simp add: mset_eq_setD [OF flat_filter [OF breakdown_keys]] selected)
qed

section \<open>Charts and summary\<close>

lemma usage_chart_sums:
  "sum_list (map ub_sp_usage_hrs (usage_chart_data formatDay b)) = sum_list (map ui_sp_usage_hrs (flat b))"
  "sum_list (map ub_ri_usage_hrs (usage_chart_data formatDay b)) = sum_list (map ui_ri_usage_hrs (flat b))"
  "sum_list (map ub_total_usage_hrs (usage_chart_data formatDay b)) = sum_list (map ui_total_usage_hrs (flat b))"
  by (induction b) (auto simp: usage_chart_data_def usage_bar_of_def flat_def fold_sum Let_def)

lemma summary_sums:
  "cs_totalCostWithOffer (summarize_commitments b) = sum_list (map ci_total_cost_with_offer (flat b))"
  "cs_totalSaving (summarize_commitments b) =
     sum_list (map ci_total_cost_without_offer (flat b)) - sum_list (map ci_total_cost_with_offer (flat b))"
  "cs_covered (summarize_commitments b) =
     sum_list (map ci_ri_cost_with_offer (flat b)) + sum_list (map ci_sp_cost_with_offer (flat b))"
proof -
  have step: "fold (\<lambda>item acc. \<lparr> cs_totalCostWithOffer = cs_totalCostWithOffer acc + ci_total_cost_with_offer item,
         cs_totalSaving = cs_totalSaving acc + (ci_total_cost_without_offer item - ci_total_cost_with_offer item),
         cs_covered = cs_covered acc + ci_ri_cost_with_offer item + ci_sp_cost_with_offer item \<rparr>) xs acc
     = \<lparr> cs_totalCostWithOffer = cs_totalCostWithOffer acc + sum_list (map ci_total_cost_with_offer xs),
         cs_totalSaving = cs_totalSaving acc
           + (sum_list (map ci_total_cost_without_offer xs) - sum_list (map ci_total_cost_with_offer xs)),
         cs_covered = cs_covered acc
           + (sum_list (map ci_ri_cost_with_offer xs) + sum_list (map ci_sp_cost_with_offer xs)) \<rparr>"
    for xs and acc :: commitment_summary
    by (induction xs arbitrary: acc) auto
  show
    "cs_totalCostWithOffer (summarize_commitments b) = sum_list (map ci_total_cost_with_offer (flat b))"
    "cs_totalSaving (summarize_commitments b) =
       sum_list (map ci_total_cost_without_offer (flat b)) - sum_list (map ci_total_cost_with_offer (flat b))"
    "cs_covered (summarize_commitments b) =
       sum_list (map ci_ri_cost_with_offer (flat b)) + sum_list (map ci_sp_cost_with_offer (flat b))"
    unfolding summarize_commitments_def step by simp_all
qed

section \<open>What is taken from the answers\<close>

lemma find_sum:
  assumes "distinct (map key xs)"
  shows "(case List.find (\<lambda>x. key x = k) xs of None \<Rightarrow> 0 | Some x \<Rightarrow> w x)
    = sum_list (map w (filter (\<lambda>x. key x = k) xs))"
  using assms
proof (induction xs)
  case (Cons x xs)
  have "filter (\<lambda>y. key y = key x) xs = []" using Cons.prems by (auto simp: filter_empty_conv image_iff)
  with Cons show ?case by (cases "key x = k") auto
qed simp

lemma lookup_sum:
  assumes "distinct ks" "distinct (map key xs)"
  shows "sum_list (map (\<lambda>k. case List.find (\<lambda>x. key x = k) xs of None \<Rightarrow> 0 | Some x \<Rightarrow> w x) ks)
    = (sum_list (map w (filter (\<lambda>x. key x \<in> set ks) xs)) :: rat)"
proof -
  have "sum_list (map (\<lambda>k. case List.find (\<lambda>x. key x = k) xs of None \<Rightarrow> 0 | Some x \<Rightarrow> w x) ks)
      = sum_list (map (\<lambda>k. sum_list (map w (filter (\<lambda>x. key x = k) (filter (\<lambda>x. key x \<in> set ks) xs)))) ks)"
    by (rule arg_cong [of _ _ sum_list], rule map_cong)
      (auto simp: find_sum [OF assms(2)] conj_commute intro!: arg_cong [of _ _ sum_list] map_cong filter_cong)
  also have "\<dots> = sum_list (map w (filter (\<lambda>x. key x \<in> set ks) xs))"
    using assms(1) by (intro sum_by_key) auto
  finally show ?thesis .
qed

lemma map_of_find: "map_of days date = map_option snd (List.find (\<lambda>e. fst e = date) days)"
  by (induction days) auto

text \<open>The hours of the data sources \<open>ids\<close> on one day.\<close>

lemma day_sum:
  assumes "distinct ids" "\<forall>e \<in> set days. distinct (map account (snd e))"
  shows "sum_list (map (\<lambda>i. field_of f (datum_of account days date i)) ids) =
     (case map_of days date of None \<Rightarrow> 0
      | Some xs \<Rightarrow> sum_list (map (\<lambda>x. or_zero (f x)) (filter (\<lambda>x. account x \<in> set ids) xs)))"
proof (cases "map_of days date")
  case (Some xs)
  then have "distinct (map account xs)" using assms(2) by (auto dest!: map_of_SomeD)
  moreover have "field_of f (datum_of account days date i) =
      (case List.find (\<lambda>x. account x = i) xs of None \<Rightarrow> 0 | Some x \<Rightarrow> or_zero (f x))" for i
    using Some by (simp add: field_of_def datum_of_def or_zero_def split: option.split)
  ultimately show ?thesis using lookup_sum [OF assms(1)] Some by simp
qed (simp add: field_of_def datum_of_def or_zero_def sum_list_0)

text \<open>The hours of the data sources \<open>ids\<close> on the days \<open>dates\<close>.\<close>

lemma days_sum:
  assumes "distinct ids" "distinct dates" "distinct (map fst days)" "\<forall>e \<in> set days. distinct (map account (snd e))"
  shows "sum_list (map (\<lambda>date. sum_list (map (\<lambda>i. field_of f (datum_of account days date i)) ids)) dates) =
     sum_list (map (\<lambda>x. or_zero (f x)) (filter (\<lambda>x. account x \<in> set ids)
       (flat (filter (\<lambda>e. fst e \<in> set dates) days))))"
proof -
  let ?w = "\<lambda>e. sum_list (map (\<lambda>x. or_zero (f x)) (filter (\<lambda>x. account x \<in> set ids) (snd e)))"
  have "sum_list (map (\<lambda>date. sum_list (map (\<lambda>i. field_of f (datum_of account days date i)) ids)) dates)
      = sum_list (map (\<lambda>date. case List.find (\<lambda>e. fst e = date) days of None \<Rightarrow> 0 | Some e \<Rightarrow> ?w e) dates)"
    by (simp add: day_sum [OF assms(1,4)] map_of_find case_map_option cong: option.case_cong)
  also have "\<dots> = sum_list (map ?w (filter (\<lambda>e. fst e \<in> set dates) days))"
    by (rule lookup_sum [OF assms(2,3)])
  also have "\<dots> = sum_list (map (\<lambda>x. or_zero (f x)) (filter (\<lambda>x. account x \<in> set ids)
       (flat (filter (\<lambda>e. fst e \<in> set dates) days))))"
    by (simp add: flat_def filter_concat sum_concat comp_def)
  finally show ?thesis .
qed

lemma breakdown_sum:
  assumes "distinct (map fst s)"
  shows "sum_list (map w (flat (getBreakdown item (Some r) (Some s)))) =
     (sum_list (map (\<lambda>date. sum_list (map (\<lambda>i. w (item i (datum_of sv_account s date i) (datum_of rv_account r date i)))
        (first_day_sources s))) (map fst s)) :: rat)"
proof -
  let ?es = "map (\<lambda>date. (date, map (\<lambda>i. item i (datum_of sv_account s date i) (datum_of rv_account r date i))
      (first_day_sources s))) (map fst s)"
  have "mset (flat (getBreakdown item (Some r) (Some s))) = mset (flat ?es)"
    unfolding getBreakdown_def prod.case option.case
    using assms by (intro flat_mset mset_from_entries) (simp add: comp_def)
  then have "sum_list (map w (flat (getBreakdown item (Some r) (Some s)))) = sum_list (map w (flat ?es))"
    by (rule sum_mset_eq)
  also have "\<dots> = sum_list (map (\<lambda>date. sum_list (map (\<lambda>i. w (item i (datum_of sv_account s date i)
      (datum_of rv_account r date i))) (first_day_sources s))) (map fst s))"
    by (simp add: flat_def sum_concat comp_def)
  finally show ?thesis .
qed

text \<open>The answers of the API: a day is named once, a data source once a day, and every day of the
  savings plans has the data sources of the first one.\<close>

definition plain_answers :: "reserved_datum days \<Rightarrow> savings_datum days \<Rightarrow> bool" where
  "plain_answers ri sp \<longleftrightarrow>
     distinct (map fst ri) \<and> distinct (map fst sp)
     \<and> (\<forall>e \<in> set ri. distinct (map rv_account (snd e)))
     \<and> (\<forall>e \<in> set sp. distinct (map sv_account (snd e)) \<and> set (map sv_account (snd e)) = set (first_day_sources sp))"

lemma answers_taken:
  assumes "plain_answers ri sp"
  shows "(\<And>i s r. w (item i s r) = field_of f s) \<Longrightarrow>
      sum_list (map w (flat (getBreakdown item (Some ri) (Some sp)))) = sum_list (map (\<lambda>x. or_zero (f x)) (flat sp))"
    and "(\<And>i s r. w (item i s r) = field_of g r) \<Longrightarrow>
      sum_list (map w (flat (getBreakdown item (Some ri) (Some sp)))) =
      sum_list (map (\<lambda>x. or_zero (g x)) (filter (\<lambda>x. rv_account x \<in> set (first_day_sources sp))
        (flat (filter (\<lambda>e. fst e \<in> set (map fst sp)) ri))))"
proof -
  have plain: "distinct (map fst ri)" "distinct (map fst sp)" "\<forall>e \<in> set ri. distinct (map rv_account (snd e))"
    "\<forall>e \<in> set sp. distinct (map sv_account (snd e))"
    using assms by (auto simp: plain_answers_def)
  have "distinct (first_day_sources sp)"
    using plain(4) by (cases sp) (auto simp: first_day_sources_def)
  note sums = breakdown_sum [OF plain(2), of w item ri] days_sum [OF this plain(2)]
  have all: "filter (\<lambda>x. sv_account x \<in> set (first_day_sources sp)) (flat sp) = flat sp"
    using assms by (auto simp: plain_answers_def flat_def filter_id_conv)
  have days: "filter (\<lambda>e. fst e \<in> set (map fst sp)) sp = sp" by (auto simp: filter_id_conv)
  show "sum_list (map w (flat (getBreakdown item (Some ri) (Some sp)))) = sum_list (map (\<lambda>x. or_zero (f x)) (flat sp))"
    if "\<And>i s r. w (item i s r) = field_of f s"
    unfolding sums(1) that sums(2) [OF plain(2,4)] days all ..
  show "sum_list (map w (flat (getBreakdown item (Some ri) (Some sp)))) =
      sum_list (map (\<lambda>x. or_zero (g x)) (filter (\<lambda>x. rv_account x \<in> set (first_day_sources sp))
        (flat (filter (\<lambda>e. fst e \<in> set (map fst sp)) ri))))"
    if "\<And>i s r. w (item i s r) = field_of g r"
    unfolding sums(1) that sums(2) [OF plain(1,3)] ..
qed

section \<open>Rounding\<close>

lemma percent_bounds:
  assumes "0 \<le> x" "0 < y"
  shows "\<exists>p. percentXofY x y = Some p \<and> \<bar>p - x / y\<bar> \<le> 1 / 200"
proof -
  define n :: rat where "n = of_int \<lfloor>x / y * 100 + 1 / 2\<rfloor>"
  have "n \<le> x / y * 100 + 1 / 2" "x / y * 100 + 1 / 2 < n + 1"
    using floor_correct [of "x / y * 100 + 1 / 2"] by (simp_all add: n_def)
  then have "\<bar>n / 100 - x / y\<bar> \<le> 1 / 200" by linarith
  moreover have "percentXofY x y = Some (n / 100)" using assms by (simp add: percentXofY_def js_div_def n_def)
  ultimately show ?thesis by blast
qed

text \<open>Sums rounded to cents are off by half a cent for each addition, and by the epsilon.\<close>

lemma round_js_bounds:
  "v - 1 / 200 < round_js v 2" "round_js v 2 \<le> v + 1 / 200 + 1 / 2 ^ 52"
proof -
  let ?q = "(v + 1 / 2 ^ 52) * 100 + 1 / 2"
  have f: "of_int \<lfloor>?q\<rfloor> \<le> ?q" "?q < of_int \<lfloor>?q\<rfloor> + 1" using floor_correct [of ?q] by simp_all
  have "round_js v 2 = of_int \<lfloor>?q\<rfloor> / 100" by (simp add: round_js_def)
  then show "v - 1 / 200 < round_js v 2" "round_js v 2 \<le> v + 1 / 200 + 1 / 2 ^ 52"
    using f by (simp_all add: field_simps)
qed

lemma rounded_sum_error:
  "\<bar>rounded_sum cost xs - sum_list (map cost xs)\<bar> \<le> of_nat (length xs) * (1 / 200 + 1 / 2 ^ 52)"
proof -
  define c :: rat where "c = 1 / 200 + 1 / 2 ^ 52"
  have "\<bar>fold (\<lambda>item result. round_js (result + cost item) 2) xs a - (b + sum_list (map cost xs))\<bar>
      \<le> \<bar>a - b\<bar> + of_nat (length xs) * c" for a b
  proof (induction xs arbitrary: a b)
    case (Cons x xs)
    let ?r = "round_js (a + cost x) 2"
    have "a + cost x - c \<le> ?r" "?r \<le> a + cost x + c"
      using round_js_bounds [of "a + cost x"] by (simp_all add: c_def)
    then have "\<bar>?r - (b + cost x)\<bar> \<le> \<bar>a - b\<bar> + c" by linarith
    with Cons.IH [of ?r "b + cost x"]
    have "\<bar>fold (\<lambda>item result. round_js (result + cost item) 2) xs ?r - (b + cost x + sum_list (map cost xs))\<bar>
        \<le> \<bar>a - b\<bar> + c + of_nat (length xs) * c" by linarith
    then show ?case by (simp add: distrib_right add.assoc)
  qed simp
  from this [of 0 0] show ?thesis by (simp add: rounded_sum_def c_def)
qed

lemma cost_chart_error:
  "\<bar>sum_list (map cb_total_expenses (cost_chart_data formatDay b)) - sum_list (map ci_total_cost_with_offer (flat b))\<bar>
     \<le> of_nat (length (flat b)) * (1 / 200 + 1 / 2 ^ 52)"
proof (induction b)
  case (Cons day b)
  have "cb_total_expenses (cost_bar_of formatDay day) = rounded_sum ci_total_cost_with_offer (snd day)"
    by (simp add: cost_bar_of_def case_prod_beta Let_def)
  with Cons rounded_sum_error [of ci_total_cost_with_offer "snd day"] show ?case
    unfolding cost_chart_data_def flat_def by (simp add: distrib_right del: power_numeral)
qed (simp add: cost_chart_data_def flat_def)

section \<open>The page\<close>

lemma page_rows:
  "distinct (map cr_account (coverage_rows (map Usage us @ map Cost cs)))"
  "cr_account ` set (coverage_rows (map Usage us @ map Cost cs)) = ui_account ` set us \<union> ci_account ` set cs"
  using coverage_accounts [of "map Usage us @ map Cost cs" "[]"]
  by (simp_all add: coverage_rows_def image_Un image_image)

lemmas page_footers = row_fields [THEN page_footer, OF page_accounts]

lemma bar_shares:
  assumes "0 \<le> ub_sp_usage_hrs bar" "0 \<le> ub_ri_usage_hrs bar" "0 < ub_total_usage_hrs bar"
    and "bar = usage_bar_of formatDay day"
  shows "\<exists>p q u. ub_sp_usage_percent bar = Some p \<and> ub_ri_usage_percent bar = Some q
      \<and> ub_uncovered_usage_percent bar = Some u \<and> p + q + u = 1
      \<and> \<bar>p - ub_sp_usage_hrs bar / ub_total_usage_hrs bar\<bar> \<le> 1 / 200
      \<and> \<bar>q - ub_ri_usage_hrs bar / ub_total_usage_hrs bar\<bar> \<le> 1 / 200"
proof -
  have shares: "ub_sp_usage_percent bar = percentXofY (ub_sp_usage_hrs bar) (ub_total_usage_hrs bar)"
    "ub_ri_usage_percent bar = percentXofY (ub_ri_usage_hrs bar) (ub_total_usage_hrs bar)"
    "ub_uncovered_usage_percent bar = js_minus (js_minus (Some 1) (ub_sp_usage_percent bar)) (ub_ri_usage_percent bar)"
    by (simp_all add: assms(4) usage_bar_of_def Let_def split: prod.split)
  obtain p where p: "percentXofY (ub_sp_usage_hrs bar) (ub_total_usage_hrs bar) = Some p"
    "\<bar>p - ub_sp_usage_hrs bar / ub_total_usage_hrs bar\<bar> \<le> 1 / 200"
    using percent_bounds [OF assms(1,3)] by blast
  obtain q where q: "percentXofY (ub_ri_usage_hrs bar) (ub_total_usage_hrs bar) = Some q"
    "\<bar>q - ub_ri_usage_hrs bar / ub_total_usage_hrs bar\<bar> \<le> 1 / 200"
    using percent_bounds [OF assms(2,3)] by blast
  show ?thesis
    using p q by (intro exI [of _ p] exI [of _ q] exI [of _ "1 - p - q"]) (simp add: shares js_minus_def)
qed

end
