(* ===== verification/RawExpenses.thy ===== *)
theory RawExpenses
  imports ArrayOrder
begin

text \<open>
  The raw expenses of a resource by category (\<open>components/ResourceRawExpenses/utils/getData.ts\<close>): the
  rows of the table and the lines of the chart.  \<open>formatISO\<close>, \<open>Date.parse\<close> and the text of the default
  category are parameters; the cost of an item is a number, zero when it is missing, and \<open>NaN\<close> is
  \<open>None\<close> where a usage may be one.
\<close>

section \<open>Items\<close>

datatype cloud_type = AWS_CNR | AZURE_CNR | ALIBABA_CNR | NEBIUS | NOT_SET_CLOUD_TYPE

definition LINE_ITEM_DESCRIPTION :: string where "LINE_ITEM_DESCRIPTION = ''lineItem/LineItemDescription''"
definition LINE_ITEM_BLENDED_RATE :: string where "LINE_ITEM_BLENDED_RATE = ''lineItem/BlendedRate''"
definition AWS_PRICING_UNIT :: string where "AWS_PRICING_UNIT = ''pricing/unit''"
definition BILLING_ITEM :: string where "BILLING_ITEM = ''BillingItem''"
definition SKU_NAME :: string where "SKU_NAME = ''sku_name''"
definition PRICING_QUANTITY :: string where "PRICING_QUANTITY = ''pricing_quantity''"
definition NEBIUS_PRICING_UNIT :: string where "NEBIUS_PRICING_UNIT = ''pricing_unit''"

definition meter_name :: "obj \<Rightarrow> jsval" where
  "meter_name item = opt_prop (obj_get item ''meter_details'') ''meter_name''"

definition getCloudType :: "obj \<Rightarrow> cloud_type" where
  "getCloudType item =
     (if truthy (obj_get item LINE_ITEM_DESCRIPTION) then AWS_CNR
      else if truthy (meter_name item) then AZURE_CNR
      else if truthy (obj_get item BILLING_ITEM) then ALIBABA_CNR
      else if truthy (obj_get item SKU_NAME) then NEBIUS
      else NOT_SET_CLOUD_TYPE)"

definition getCategory :: "string \<Rightarrow> cloud_type \<Rightarrow> obj \<Rightarrow> jsval" where
  "getCategory totalExpenses cloudType item =
     (case cloudType of
        AWS_CNR \<Rightarrow> obj_get item LINE_ITEM_DESCRIPTION
      | AZURE_CNR \<Rightarrow> meter_name item
      | ALIBABA_CNR \<Rightarrow> obj_get item BILLING_ITEM
      | NEBIUS \<Rightarrow> obj_get item SKU_NAME
      | NOT_SET_CLOUD_TYPE \<Rightarrow> Str totalExpenses)"

definition raw_cost :: "obj \<Rightarrow> rat" where
  "raw_cost item = (case obj_get item ''cost'' of Num x \<Rightarrow> x | _ \<Rightarrow> 0)"

text \<open>Unary plus.\<close>

definition unary_plus :: "jsval \<Rightarrow> rat option" where
  "unary_plus v = primitive_number (to_primitive v)"

text \<open>A datum; its usage is missing for the clouds that report none.  Nothing sets \<open>cloudType\<close>.\<close>

record raw_datum =
  rd_date :: string
  rd_expense :: rat
  rd_usage :: "rat option option"
  rd_usageUnit :: jsval
  rd_cloudType :: "cloud_type option"

definition getUsage :: "cloud_type \<Rightarrow> obj \<Rightarrow> rat option option \<times> jsval" where
  "getUsage cloudType item =
     (case cloudType of
        AWS_CNR \<Rightarrow>
          (case unary_plus (obj_get item LINE_ITEM_BLENDED_RATE) of
             None \<Rightarrow> (Some (Some 0), Undef)
           | Some lineItemBlendedRate \<Rightarrow>
               let pricingUnit = obj_get item AWS_PRICING_UNIT in
               if lineItemBlendedRate = 0 \<or> \<not> truthy pricingUnit then (Some (Some 0), Undef)
               else (Some (Some (raw_cost item / lineItemBlendedRate)), pricingUnit))
      | NEBIUS \<Rightarrow> (Some (unary_plus (obj_get item PRICING_QUANTITY)), obj_get item NEBIUS_PRICING_UNIT)
      | _ \<Rightarrow> (None, Undef))"

definition buildData :: "(jsval \<Rightarrow> string) \<Rightarrow> cloud_type \<Rightarrow> obj \<Rightarrow> raw_datum" where
  "buildData formatISO cloudType item =
     \<lparr> rd_date = formatISO (obj_get item ''start_date''), rd_expense = raw_cost item,
       rd_usage = fst (getUsage cloudType item), rd_usageUnit = snd (getUsage cloudType item), rd_cloudType = None \<rparr>"

text \<open>\<open>[...(result[category] ?? []), data]\<close>: a category with the name of something that every object
  inherits is found there, and is no list.\<close>

type_synonym raw_groups = "(string \<times> raw_datum list) list"

definition add_raw :: "(jsval \<Rightarrow> string) \<Rightarrow> string \<Rightarrow> cloud_type \<Rightarrow> raw_groups \<Rightarrow> obj \<Rightarrow> raw_groups js" where
  "add_raw formatISO totalExpenses dataSourceType result item =
     (let category = to_str (getCategory totalExpenses dataSourceType item);
          datum = buildData formatISO dataSourceType item in
      case map_of result category of
        Some vs \<Rightarrow> Inr (obj_set category (vs @ [datum]) result)
      | None \<Rightarrow> if category \<in> set inherited_names then Inl TypeError else Inr (obj_set category [datum] result))"

definition data_source_type :: "obj list \<Rightarrow> cloud_type" where
  "data_source_type expenses = getCloudType (case expenses of [] \<Rightarrow> [] | item # _ \<Rightarrow> item)"

definition group_raw :: "(jsval \<Rightarrow> string) \<Rightarrow> string \<Rightarrow> obj list \<Rightarrow> raw_groups js" where
  "group_raw formatISO totalExpenses expenses =
     foldM_js (add_raw formatISO totalExpenses (data_source_type expenses)) [] expenses"

section \<open>The table\<close>

record raw_row =
  rr_category :: string
  rr_expenses :: rat
  rr_usage :: "rat option option"
  rr_usageUnit :: jsval

definition has_usage :: "raw_datum \<Rightarrow> bool" where
  "has_usage d \<longleftrightarrow>
     (case rd_usage d of Some (Some u) \<Rightarrow> u \<noteq> 0 | _ \<Rightarrow> False) \<and> truthy (rd_usageUnit d)"

definition add_usage :: "raw_datum \<Rightarrow> rat option \<Rightarrow> rat option" where
  "add_usage d usageSum =
     (case rd_usage d of
        None \<Rightarrow> usageSum
      | Some u \<Rightarrow> Option.bind usageSum (\<lambda>s. map_option (\<lambda>x. s + x) u))"

definition raw_row_of :: "string \<times> raw_datum list \<Rightarrow> raw_row" where
  "raw_row_of = (\<lambda>(categoryName, categoryPayload).
     \<lparr> rr_category = categoryName,
       rr_expenses = fold (\<lambda>d expensesSum. expensesSum + rd_expense d) categoryPayload 0,
       rr_usage = (if \<exists>d \<in> set categoryPayload. has_usage d then Some (fold add_usage categoryPayload (Some 0)) else None),
       rr_usageUnit = (if \<exists>d \<in> set categoryPayload. has_usage d
         then (case List.find (\<lambda>d. truthy (rd_usageUnit d)) categoryPayload of Some d \<Rightarrow> rd_usageUnit d | None \<Rightarrow> Undef)
         else Undef) \<rparr>)"

definition prepareTableData :: "raw_groups \<Rightarrow> raw_row list" where
  "prepareTableData groupedExpenses = filter (\<lambda>row. rr_expenses row \<noteq> 0) (map raw_row_of groupedExpenses)"

section \<open>The chart\<close>

record point_values =
  pv_y :: rat
  pv_usage :: "rat option option"
  pv_usageUnit :: jsval

definition zero_point :: point_values where
  "zero_point = \<lparr> pv_y = 0, pv_usage = None, pv_usageUnit = Undef \<rparr>"

text \<open>The values of a point with one more datum; \<open>currentPointValue\<close> is \<open>{}\<close> for a new point.\<close>

definition getFormattedOrdinateValues :: "raw_datum \<Rightarrow> point_values \<Rightarrow> point_values" where
  "getFormattedOrdinateValues currentValue currentPointValue =
     (let y = pv_y currentPointValue + rd_expense currentValue in
      if rd_cloudType currentValue = Some AWS_CNR
      then (let old = (case pv_usage currentPointValue of Some (Some u) \<Rightarrow> u | _ \<Rightarrow> 0);
                new = (case rd_usage currentValue of Some (Some u) \<Rightarrow> u | _ \<Rightarrow> 0) in
            \<lparr> pv_y = y, pv_usage = Some (Some (old + new)),
              pv_usageUnit = (if truthy (rd_usageUnit currentValue) then rd_usageUnit currentValue
                else pv_usageUnit currentPointValue) \<rparr>)
      else \<lparr> pv_y = y, pv_usage = None, pv_usageUnit = Undef \<rparr>)"

text \<open>A \<open>Map\<close> keeps the order in which its keys were first set.\<close>

fun point_set :: "string \<Rightarrow> (point_values option \<Rightarrow> point_values) \<Rightarrow> (string \<times> point_values) list
    \<Rightarrow> (string \<times> point_values) list" where
  "point_set x f [] = [(x, f None)]"
| "point_set x f ((x', v) # m) = (if x' = x then (x', f (Some v)) # m else (x', v) # point_set x f m)"

definition uniqueDays :: "(jsval \<Rightarrow> string) \<Rightarrow> obj list \<Rightarrow> string list" where
  "uniqueDays formatISO expenses = map formatISO (unique (map (\<lambda>item. obj_get item ''start_date'') expenses))"

definition series_points :: "string list \<Rightarrow> raw_datum list \<Rightarrow> (string \<times> point_values) list" where
  "series_points days value =
     fold (\<lambda>d. point_set (rd_date d) (\<lambda>v. getFormattedOrdinateValues d (case v of None \<Rightarrow> zero_point | Some p \<Rightarrow> p))) value
       (fold (\<lambda>x. point_set x (\<lambda>_. zero_point)) (filter (\<lambda>x. x \<notin> set (map rd_date value)) days) [])"

type_synonym raw_series = "string \<times> (string \<times> point_values) list"

definition compare_points :: "(string \<Rightarrow> rat) \<Rightarrow> string \<times> point_values \<Rightarrow> string \<times> point_values \<Rightarrow> rat" where
  "compare_points parse_date a b = (if parse_date (fst a) > parse_date (fst b) then 1 else - 1)"

definition series_sum :: "raw_series \<Rightarrow> rat" where
  "series_sum series = fold (\<lambda>p sum_arg. sum_arg + pv_y (snd p)) (snd series) 0"

definition compare_series :: "raw_series \<Rightarrow> raw_series \<Rightarrow> rat" where
  "compare_series a b = (if series_sum a > series_sum b then 1 else - 1)"

definition prepareChartData ::
  "(jsval \<Rightarrow> string) \<Rightarrow> (string \<Rightarrow> rat) \<Rightarrow> raw_groups \<Rightarrow> obj list \<Rightarrow> raw_series list" where
  "prepareChartData formatISO parse_date groupedData expenses =
     (let days = uniqueDays formatISO expenses;
          formattedData = from_entries (map (\<lambda>(groupName, value). (groupName, series_points days value)) groupedData);
          resultData = map (\<lambda>(groupName, points). (groupName, sort_by (compare_points parse_date) points)) formattedData in
      sort_by compare_series (filter (\<lambda>series. \<exists>p \<in> set (snd series). pv_y (snd p) \<noteq> 0) resultData))"

definition getData :: "(jsval \<Rightarrow> string) \<Rightarrow> (string \<Rightarrow> rat) \<Rightarrow> string \<Rightarrow> obj list
    \<Rightarrow> (raw_row list \<times> raw_series list) js" where
  "getData formatISO parse_date totalExpenses expenses =
     map_js (\<lambda>groupedExpenses. (prepareTableData groupedExpenses,
         prepareChartData formatISO parse_date groupedExpenses expenses))
       (group_raw formatISO totalExpenses expenses)"

end
