(* ===== verification/RawExpenseFacts.thy ===== *)
theory RawExpenseFacts
  imports RawExpenses TrafficFacts BreakdownData
begin

text \<open>
  The table and the chart of raw expenses show the whole cost; every line of the chart has every day
  once, in order, and the lines are in ascending order of their sums.
\<close>

section \<open>Categories\<close>

definition groups_total :: "raw_groups \<Rightarrow> rat" where
  "groups_total g = sum_list (map (\<lambda>(k, vs). sum_list (map rd_expense vs)) g)"

lemma add_raw_groups:
  assumes "to_str (getCategory totalExpenses t item) \<notin> set inherited_names" "distinct (map fst g)"
    and "\<forall>(k, vs) \<in> set g. \<forall>d \<in> set vs. rd_date d \<in> days"
    and "formatISO (obj_get item ''start_date'') \<in> days"
  shows "\<exists>g'. add_raw formatISO totalExpenses t g item = Inr g' \<and> distinct (map fst g')
    \<and> groups_total g' = groups_total g + raw_cost item \<and> (\<forall>(k, vs) \<in> set g'. \<forall>d \<in> set vs. rd_date d \<in> days)"
proof -
  let ?c = "to_str (getCategory totalExpenses t item)"
  let ?d = "buildData formatISO t item"
  define vs where "vs = (case map_of g ?c of None \<Rightarrow> [] | Some vs \<Rightarrow> vs)"
  have "add_raw formatISO totalExpenses t g item = Inr (obj_set ?c (vs @ [?d]) g)"
    using assms(1) by (simp add: add_raw_def vs_def Let_def split: option.split)
  moreover have "groups_total (obj_set ?c (vs @ [?d]) g) = groups_total g + raw_cost item"
    unfolding groups_total_def sum_obj_set [OF assms(2)]
    by (simp add: vs_def buildData_def split: option.split)
  moreover have "\<forall>d \<in> set vs. rd_date d \<in> days"
    using assms(3) by (cases "map_of g ?c") (auto simp: vs_def dest!: map_of_SomeD)
  then have "\<forall>(k, vs) \<in> set (obj_set ?c (vs @ [?d]) g). \<forall>d \<in> set vs. rd_date d \<in> days"
    using set_obj_set [of ?c "vs @ [?d]" g] assms(3,4) by (fastforce simp: buildData_def)
  ultimately show ?thesis using assms(2) by (simp add: distinct_obj_set)
qed

lemma group_raw_total:
  assumes "\<forall>item \<in> set expenses. to_str (getCategory totalExpenses (data_source_type expenses) item) \<notin> set inherited_names"
  shows "\<exists>g. group_raw formatISO totalExpenses expenses = Inr g \<and> distinct (map fst g)
    \<and> groups_total g = sum_list (map raw_cost expenses)
    \<and> (\<forall>(k, vs) \<in> set g. \<forall>d \<in> set vs. rd_date d \<in> set (uniqueDays formatISO expenses))"
proof -
  let ?days = "set (uniqueDays formatISO expenses)"
  have "\<exists>g'. foldM_js (add_raw formatISO totalExpenses t) g xs = Inr g' \<and> distinct (map fst g')
      \<and> groups_total g' = groups_total g + sum_list (map raw_cost xs) \<and> (\<forall>(k, vs) \<in> set g'. \<forall>d \<in> set vs. rd_date d \<in> ?days)"
    if "\<forall>item \<in> set xs. to_str (getCategory totalExpenses t item) \<notin> set inherited_names"
      "\<forall>item \<in> set xs. formatISO (obj_get item ''start_date'') \<in> ?days"
      "distinct (map fst g)" "\<forall>(k, vs) \<in> set g. \<forall>d \<in> set vs. rd_date d \<in> ?days" for xs g t
    using that
  proof (induction xs arbitrary: g)
    case (Cons item xs)
    then obtain g1 where g1: "add_raw formatISO totalExpenses t g item = Inr g1" "distinct (map fst g1)"
      "groups_total g1 = groups_total g + raw_cost item" "\<forall>(k, vs) \<in> set g1. \<forall>d \<in> set vs. rd_date d \<in> ?days"
      using add_raw_groups [of totalExpenses t item g ?days formatISO] by auto
    from Cons.IH [OF _ _ g1(2,4)] Cons.prems(1,2) g1(1,3) show ?case by auto
  qed auto
  from this [of expenses "data_source_type expenses" "[]"] assms show ?thesis
    by (auto simp: group_raw_def groups_total_def uniqueDays_def unique_set)
qed

section \<open>Points\<close>

definition points_total :: "(string \<times> point_values) list \<Rightarrow> rat" where
  "points_total ps = sum_list (map (\<lambda>p. pv_y (snd p)) ps)"

lemma point_set_keys:
  "map fst (point_set x f m) = (if x \<in> fst ` set m then map fst m else map fst m @ [x])"
  by (induction x f m rule: point_set.induct) auto

lemma point_set_distinct: "distinct (map fst (point_set x f m)) = distinct (map fst m)"
  by (simp add: point_set_keys)

lemma point_set_names: "fst ` set (point_set x f m) = insert x (fst ` set m)"
  using arg_cong [OF point_set_keys [of x f m], of set] by auto

lemma fold_point_keys:
  "distinct (map fst (fold (\<lambda>d. point_set (key d) (f d)) xs m)) = distinct (map fst m)
   \<and> fst ` set (fold (\<lambda>d. point_set (key d) (f d)) xs m) = fst ` set m \<union> key ` set xs"
  by (induction xs arbitrary: m) (auto simp: point_set_distinct point_set_names)

lemma zero_points:
  "\<forall>p \<in> set m. pv_y (snd p) = 0 \<Longrightarrow> \<forall>p \<in> set (fold (\<lambda>x. point_set x (\<lambda>_. zero_point)) xs m). pv_y (snd p) = 0"
proof (induction xs arbitrary: m)
  case (Cons x xs)
  have "\<forall>p \<in> set (point_set x (\<lambda>_. zero_point) m). pv_y (snd p) = 0"
    using Cons.prems by (induction x "\<lambda>_ :: point_values option. zero_point" m rule: point_set.induct) (auto simp: zero_point_def)
  with Cons.IH show ?case by simp
qed simp

abbreviation add_datum :: "raw_datum \<Rightarrow> (string \<times> point_values) list \<Rightarrow> (string \<times> point_values) list" where
  "add_datum d \<equiv> point_set (rd_date d) (\<lambda>v. getFormattedOrdinateValues d (case v of None \<Rightarrow> zero_point | Some p \<Rightarrow> p))"

lemma ordinate: "pv_y (getFormattedOrdinateValues d v) = pv_y v + rd_expense d"
  by (simp add: getFormattedOrdinateValues_def Let_def)

lemma add_datum_total: "points_total (add_datum d m) = points_total m + rd_expense d"
  by (induction "rd_date d" "\<lambda>v. getFormattedOrdinateValues d (case v of None \<Rightarrow> zero_point | Some p \<Rightarrow> p)" m
      rule: point_set.induct) (auto simp: points_total_def ordinate zero_point_def)

lemma add_data_total: "points_total (fold add_datum value m) = points_total m + sum_list (map rd_expense value)"
  by (induction "value" arbitrary: m) (auto simp: add_datum_total)

lemma series_points_shape:
  assumes "\<forall>d \<in> set xs. rd_date d \<in> set days"
  shows "distinct (map fst (series_points days xs))" "fst ` set (series_points days xs) = set days"
    "points_total (series_points days xs) = sum_list (map rd_expense xs)"
proof -
  let ?missing = "filter (\<lambda>x. x \<notin> set (map rd_date xs)) days"
  let ?zeros = "fold (\<lambda>x. point_set x (\<lambda>_. zero_point)) ?missing []"
  have zeros: "distinct (map fst ?zeros)" "fst ` set ?zeros = set ?missing"
    using fold_point_keys [of "\<lambda>x. x" "\<lambda>_ _. zero_point" ?missing "[]"] by simp_all
  have "points_total ?zeros = 0"
    using zero_points [of "[]" ?missing] unfolding points_total_def by (simp add: sum_list_0 cong: map_cong)
  then show "points_total (series_points days xs) = sum_list (map rd_expense xs)"
    unfolding series_points_def add_data_total by simp
  show "distinct (map fst (series_points days xs))" "fst ` set (series_points days xs) = set days"
    using fold_point_keys [of rd_date "\<lambda>d v. getFormattedOrdinateValues d (case v of None \<Rightarrow> zero_point | Some p \<Rightarrow> p)" xs ?zeros]
      zeros assms unfolding series_points_def by auto
qed

section \<open>Table and chart\<close>

lemma table_total_raw: "sum_list (map rr_expenses (prepareTableData g)) = groups_total g"
  by (induction g) (auto simp: prepareTableData_def groups_total_def raw_row_of_def fold_sum)

lemma series_sum_total: "series_sum s = points_total (snd s)"
  by (simp add: series_sum_def points_total_def fold_sum)

lemma sort_points: "sort_by (compare_points parse_date) ps = sort_key (parse_date \<circ> fst) ps"
  by (rule sort_by_key) (simp add: compare_points_def)

lemma sorted_points:
  "points_total (sort_key f ps) = points_total ps" "distinct (map fst (sort_key f ps)) = distinct (map fst ps)"
  using sum_mset_eq [of "sort_key f ps" ps "\<lambda>p. pv_y (snd p)"]
    mset_eq_imp_distinct_iff [of "map fst (sort_key f ps)" "map fst ps"]
  by (simp_all add: points_total_def)

lemma sort_series: "sort_by compare_series ss = sort_key series_sum ss"
  by (rule sort_by_key) (simp add: compare_series_def)

lemma chart_lines:
  assumes "distinct (map fst g)" "\<forall>(k, vs) \<in> set g. \<forall>d \<in> set vs. rd_date d \<in> set (uniqueDays formatISO expenses)"
    and "chart = prepareChartData formatISO parse_date g expenses"
  shows "sum_list (map series_sum chart) = groups_total g"
    "sorted (map series_sum chart)"
    "\<forall>line \<in> set chart. distinct (map fst (snd line)) \<and> fst ` set (snd line) = set (uniqueDays formatISO expenses)
       \<and> sorted (map (parse_date \<circ> fst) (snd line))"
proof -
  let ?days = "uniqueDays formatISO expenses"
  let ?points = "\<lambda>(k, vs). (k, series_points ?days vs)"
  let ?sorted = "\<lambda>(k, points). (k, sort_by (compare_points parse_date) points)"
  let ?data = "from_entries (map ?points g)"
  let ?lines = "map ?sorted ?data"
  let ?some = "\<lambda>line. \<exists>p \<in> set (snd line). pv_y (snd p) \<noteq> 0"
  have chart: "chart = sort_key series_sum (filter ?some ?lines)"
    by (simp add: assms(3) prepareChartData_def Let_def sort_series)
  have keys: "map fst (map ?points g) = map fst g" by (induction g) auto
  have same: "mset ?data = mset (map ?points g)"
    by (rule mset_from_entries) (simp only: keys assms(1))
  have totals: "series_sum (?sorted (?points e)) = sum_list (map rd_expense (snd e))" if "e \<in> set g" for e
  proof -
    have "\<forall>d \<in> set (snd e). rd_date d \<in> set ?days" using assms(2) that by (cases e) auto
    from series_points_shape(3) [OF this] show ?thesis
      by (simp add: series_sum_total sort_points sorted_points case_prod_beta)
  qed
  have "sum_list (map series_sum chart) = sum_list (map series_sum (filter ?some ?lines))"
    unfolding chart by (rule sum_mset_eq) simp
  also have "\<dots> = sum_list (map series_sum ?lines)"
    by (rule sum_list_map_filter) (simp add: series_sum_total points_total_def sum_list_0 cong: map_cong)
  also have "\<dots> = sum_list (map (\<lambda>e. series_sum (?sorted e)) ?data)" by (simp add: comp_def)
  also have "\<dots> = sum_list (map (\<lambda>e. series_sum (?sorted e)) (map ?points g))" by (rule sum_mset_eq [OF same])
  also have "\<dots> = sum_list (map (\<lambda>e. sum_list (map rd_expense (snd e))) g)"
    using totals by (simp add: comp_def cong: map_cong)
  finally show "sum_list (map series_sum chart) = groups_total g"
    by (simp add: groups_total_def split_def)
  show "sorted (map series_sum chart)" by (simp add: chart)
  show "\<forall>line \<in> set chart. distinct (map fst (snd line)) \<and> fst ` set (snd line) = set ?days
       \<and> sorted (map (parse_date \<circ> fst) (snd line))"
  proof
    fix line assume "line \<in> set chart"
    then have "line \<in> set ?lines" by (simp add: chart)
    then obtain e where "e \<in> set ?data" "line = ?sorted e" by auto
    then obtain k vs where kv: "(k, vs) \<in> set g" "line = ?sorted (?points (k, vs))"
      using mset_eq_setD [OF same] by auto
    then have "\<forall>d \<in> set vs. rd_date d \<in> set ?days" using assms(2) by auto
    from series_points_shape(1,2) [OF this] show "distinct (map fst (snd line)) \<and> fst ` set (snd line) = set ?days
       \<and> sorted (map (parse_date \<circ> fst) (snd line))"
      by (simp add: kv(2) sort_points sorted_points)
  qed
qed

end
