(* ===== verification/PowerSchedules.thy ===== *)
theory PowerSchedules
  imports AuthApi ArrayOrder
begin

text \<open>
  Power schedules: the form that creates and edits one (\<open>components/PowerScheduleForm\<close>), the chart of
  its day (\<open>PowerScheduleTriggersChart.tsx\<close>), the table of schedules and the form that puts instances on
  one.  A date is its time value in milliseconds.  The functions of \<open>date-fns\<close> and the zone of the
  browser are a record of parameters, with one current time for a whole computation.
\<close>

section \<open>Times of the day\<close>

record clock_env =
  ck_parse :: "string \<Rightarrow> string \<Rightarrow> int option"
  ck_format :: "int \<Rightarrow> string \<Rightarrow> string"
  ck_startOfDay :: "int \<Rightarrow> int"
  ck_endOfDay :: "int \<Rightarrow> int"
  ck_getTimezoneOffset :: "int \<Rightarrow> int"
  ck_differenceInMinutes :: "int \<Rightarrow> int \<Rightarrow> int"
  ck_millisecondsToSeconds :: "int \<Rightarrow> int"
  ck_secondsToMilliseconds :: "int \<Rightarrow> int"
  ck_now :: int

definition EN_TIME_FORMAT_12_HOURS_CLOCK_HH_MM :: string where
  "EN_TIME_FORMAT_12_HOURS_CLOCK_HH_MM = ''hh:mm''"
definition EN_TIME_FORMAT_24_HOURS_CLOCK_HH_MM_SS :: string where
  "EN_TIME_FORMAT_24_HOURS_CLOCK_HH_MM_SS = ''HH:mm:ss''"
definition EN_TIME_FORMAT_24_HOURS_CLOCK_HH_MM :: string where
  "EN_TIME_FORMAT_24_HOURS_CLOCK_HH_MM = ''HH:mm''"
definition EN_TIME_FORMAT :: string where "EN_TIME_FORMAT = ''hh:mm a''"

definition MERIDIEM_AM :: string where "MERIDIEM_AM = ''AM''"
definition MERIDIEM_PM :: string where "MERIDIEM_PM = ''PM''"

text \<open>\<open>addMinutes\<close> and \<open>subHours\<close> of \<open>date-fns\<close> move a date by a number of milliseconds.  An invalid date
  (\<open>None\<close>) has no format: \<open>format\<close> throws a \<open>RangeError\<close>.\<close>

definition formatTimeString :: "clock_env \<Rightarrow> string \<Rightarrow> string \<Rightarrow> string \<Rightarrow> string js" where
  "formatTimeString env timeString timeStringFormat parsedTimeStringFormat =
     (case ck_parse env timeString timeStringFormat of
        None \<Rightarrow> Inl RangeError
      | Some parsedTime \<Rightarrow> Inr (ck_format env parsedTime parsedTimeStringFormat))"

definition minutesFromStartOfDay :: "clock_env \<Rightarrow> string \<Rightarrow> string \<Rightarrow> int option" where
  "minutesFromStartOfDay env dateString formatString =
     map_option (\<lambda>date. ck_differenceInMinutes env date (ck_startOfDay env date))
       (ck_parse env dateString formatString)"

definition moveDateToUTC :: "clock_env \<Rightarrow> int \<Rightarrow> int" where
  "moveDateToUTC env date = date + ck_getTimezoneOffset env date * 60000"

definition moveDateFromUTC :: "clock_env \<Rightarrow> int \<Rightarrow> int" where
  "moveDateFromUTC env date = date - ck_getTimezoneOffset env date * 60000"

text \<open>The loop of \<open>generateDayHours\<close> ends only for a positive step.\<close>

partial_function (option) day_hours_loop ::
  "(int \<Rightarrow> string) \<Rightarrow> int \<Rightarrow> int \<Rightarrow> int \<Rightarrow> string list \<Rightarrow> string list option" where
  "day_hours_loop format_arg stepMinutes timeThreshold time hours =
     (if time < timeThreshold
      then day_hours_loop format_arg stepMinutes timeThreshold (time + stepMinutes * 60000) (hours @ [format_arg time])
      else Some hours)"

definition generateDayHours :: "clock_env \<Rightarrow> int \<Rightarrow> bool \<Rightarrow> string list option" where
  "generateDayHours env stepMinutes twelve_hours =
     (let dayStart = ck_startOfDay env (ck_now env);
          dayEnd = ck_endOfDay env dayStart;
          timeThreshold = (if twelve_hours then dayEnd - 12 * 3600000 else dayEnd);
          dataFormat = (if twelve_hours then EN_TIME_FORMAT_12_HOURS_CLOCK_HH_MM
            else EN_TIME_FORMAT_24_HOURS_CLOCK_HH_MM_SS) in
      day_hours_loop (\<lambda>time. ck_format env time dataFormat) stepMinutes timeThreshold dayStart [])"

definition TIME_VALUES :: "clock_env \<Rightarrow> string list option" where
  "TIME_VALUES env = generateDayHours env 15 True"

section \<open>Triggers\<close>

datatype power_action = POWER_ON | POWER_OFF

record time_point =
  tp_time :: string
  tp_action :: power_action

text \<open>The order of two times; an invalid one compares as equal, since \<open>NaN\<close> counts as zero.\<close>

definition compare_times :: "clock_env \<Rightarrow> time_point \<Rightarrow> time_point \<Rightarrow> rat" where
  "compare_times env a b =
     (case (ck_parse env (tp_time a) EN_TIME_FORMAT_24_HOURS_CLOCK_HH_MM,
            ck_parse env (tp_time b) EN_TIME_FORMAT_24_HOURS_CLOCK_HH_MM) of
        (Some timeA, Some timeB) \<Rightarrow> of_int (timeA - timeB)
      | _ \<Rightarrow> 0)"

definition sort_triggers :: "clock_env \<Rightarrow> time_point list \<Rightarrow> time_point list" where
  "sort_triggers env triggers = sort_by (compare_times env) triggers"

section \<open>The chart of a day\<close>

record time_segment =
  ts_segment :: string
  ts_action :: power_action
  ts_durationInMinutes :: "int option"

definition normalizeTriggers :: "time_point list \<Rightarrow> time_point list js" where
  "normalizeTriggers triggers =
     (if triggers = [] then Inl TypeError
      else (let lastTriggerAction = tp_action (last triggers);
                fullSchedule = (if tp_time (hd triggers) \<noteq> ''00:00''
                  then \<lparr> tp_time = ''00:00'', tp_action = lastTriggerAction \<rparr> # triggers else triggers) in
            Inr (fullSchedule @ [\<lparr> tp_time = ''23:59'', tp_action = lastTriggerAction \<rparr>])))"

definition to_segment :: "clock_env \<Rightarrow> time_point \<times> time_point \<Rightarrow> time_segment js" where
  "to_segment env = (\<lambda>(current_arg, next_arg).
     bind_js (formatTimeString env (tp_time current_arg) EN_TIME_FORMAT_24_HOURS_CLOCK_HH_MM EN_TIME_FORMAT) (\<lambda>rangeStart.
     bind_js (formatTimeString env (tp_time next_arg) EN_TIME_FORMAT_24_HOURS_CLOCK_HH_MM EN_TIME_FORMAT) (\<lambda>rangeEnd.
     Inr \<lparr> ts_segment = rangeStart @ '' - '' @ rangeEnd, ts_action = tp_action current_arg,
       ts_durationInMinutes = (case (ck_parse env rangeEnd EN_TIME_FORMAT, ck_parse env rangeStart EN_TIME_FORMAT) of
            (Some e, Some s) \<Rightarrow> Some (ck_differenceInMinutes env e s) | _ \<Rightarrow> None) \<rparr>)))"

definition prepareSegments :: "clock_env \<Rightarrow> time_point list \<Rightarrow> time_segment list js" where
  "prepareSegments env triggers =
     bind_js (normalizeTriggers (sort_triggers env triggers)) (\<lambda>normalizedTriggers.
       mapM_js (to_segment env) (zip (butlast normalizedTriggers) (drop 1 normalizedTriggers)))"

definition MINUTES_IN_A_DAY :: rat where "MINUTES_IN_A_DAY = 1440"
definition TIME_LABEL_MIN_SPACING :: rat where "TIME_LABEL_MIN_SPACING = 60"

definition chart_segments :: "clock_env \<Rightarrow> time_point list \<Rightarrow> time_segment list js" where
  "chart_segments env triggers = (if triggers = [] then Inr [] else prepareSegments env triggers)"

text \<open>The width of a bar in percent, and the width of the chart, which only a positive measurement
  changes.\<close>

definition widthPercentage :: "time_segment \<Rightarrow> rat option" where
  "widthPercentage segment =
     map_option (\<lambda>durationInMinutes. of_int durationInMinutes / MINUTES_IN_A_DAY * 100) (ts_durationInMinutes segment)"

definition chart_width_step :: "rat \<Rightarrow> rat option \<Rightarrow> rat option" where
  "chart_width_step width chartWidth = (if 0 < width then Some width else chartWidth)"

text \<open>Which labels of the markers are shown: a comparison with an invalid position is false, and
  the position is remembered (\<open>None\<close> then).\<close>

definition trigger_position :: "clock_env \<Rightarrow> rat \<Rightarrow> time_point \<Rightarrow> rat option" where
  "trigger_position env chartWidth trigger =
     map_option (\<lambda>currentMinutes. of_int currentMinutes / MINUTES_IN_A_DAY * chartWidth)
       (minutesFromStartOfDay env (tp_time trigger) EN_TIME_FORMAT_24_HOURS_CLOCK_HH_MM)"

fun visible_labels_loop :: "rat option \<Rightarrow> rat option list \<Rightarrow> bool list" where
  "visible_labels_loop lastVisible [] = []"
| "visible_labels_loop lastVisible (position # positions) =
     (case (position, lastVisible) of
        (Some p, Some l) \<Rightarrow>
          if p - l < TIME_LABEL_MIN_SPACING then False # visible_labels_loop lastVisible positions
          else True # visible_labels_loop position positions
      | _ \<Rightarrow> True # visible_labels_loop position positions)"

definition calculateVisibleLabels :: "clock_env \<Rightarrow> rat option \<Rightarrow> time_point list \<Rightarrow> bool list" where
  "calculateVisibleLabels env chartWidth triggersList =
     (case chartWidth of
        None \<Rightarrow> map (\<lambda>_. False) triggersList
      | Some w \<Rightarrow>
          if w = 0 then map (\<lambda>_. False) triggersList
          else visible_labels_loop (Some (- TIME_LABEL_MIN_SPACING)) (map (trigger_position env w) triggersList))"

section \<open>The form\<close>

record form_trigger =
  ft_time :: string
  ft_meridiem :: string
  ft_action :: power_action

record schedule_form =
  sf_name :: string
  sf_timeZone :: string
  sf_initiationDate :: "int option"
  sf_expirationDate :: "int option"
  sf_triggers :: "form_trigger list"

record schedule_params =
  pp_name :: string
  pp_triggers :: "time_point list"
  pp_timezone :: string
  pp_start_date :: "int option"
  pp_end_date :: "int option"
  pp_enabled :: "bool option"

text \<open>A schedule as the API returns it; while it is loading, every field is missing.\<close>

record power_schedule =
  ps_name :: "string option"
  ps_timezone :: "string option"
  ps_start_date :: "int option"
  ps_end_date :: "int option"
  ps_triggers :: "time_point list option"
  ps_enabled :: "bool option"

definition new_trigger :: form_trigger where
  "new_trigger = \<lparr> ft_time = '''', ft_meridiem = MERIDIEM_AM, ft_action = POWER_ON \<rparr>"

definition create_form :: "string \<Rightarrow> schedule_form" where
  "create_form timeZone =
     \<lparr> sf_name = '''', sf_timeZone = timeZone, sf_initiationDate = None, sf_expirationDate = None,
       sf_triggers = [new_trigger] \<rparr>"

text \<open>The array of triggers: the buttons that add and remove one are there within the bounds only.\<close>

definition MAX_TRIGGERS :: nat where "MAX_TRIGGERS = 8"

datatype trigger_edit =
    Append
  | Remove nat
  | SetTime nat string
  | SetMeridiem nat string
  | SetAction nat power_action

fun edit_triggers :: "trigger_edit \<Rightarrow> form_trigger list \<Rightarrow> form_trigger list" where
  "edit_triggers Append rows = (if length rows < MAX_TRIGGERS then rows @ [new_trigger] else rows)"
| "edit_triggers (Remove i) rows = (if 1 < length rows then take i rows @ drop (Suc i) rows else rows)"
| "edit_triggers (SetTime i time) rows =
     (if i < length rows then rows[i := (rows ! i) \<lparr> ft_time := time \<rparr>] else rows)"
| "edit_triggers (SetMeridiem i meridiem) rows =
     (if i < length rows then rows[i := (rows ! i) \<lparr> ft_meridiem := meridiem \<rparr>] else rows)"
| "edit_triggers (SetAction i action) rows =
     (if i < length rows then rows[i := (rows ! i) \<lparr> ft_action := action \<rparr>] else rows)"

text \<open>Validation: \<open>required\<close>, then the rule of the field.\<close>

definition full_time :: "form_trigger \<Rightarrow> string" where
  "full_time t = ft_time t @ '' '' @ ft_meridiem t"

definition unique_trigger :: "form_trigger list \<Rightarrow> form_trigger \<Rightarrow> bool" where
  "unique_trigger triggers t \<longleftrightarrow> length (filter (\<lambda>time. time = full_time t) (map full_time triggers)) = 1"

definition valid_trigger_times :: "form_trigger list \<Rightarrow> bool" where
  "valid_trigger_times triggers \<longleftrightarrow> (\<forall>t \<in> set triggers. ft_time t \<noteq> '''' \<and> unique_trigger triggers t)"

definition valid_period :: "int option \<Rightarrow> int option \<Rightarrow> bool" where
  "valid_period initiationDate expirationDate =
     (case (initiationDate, expirationDate) of (Some i, Some e) \<Rightarrow> i \<le> e | _ \<Rightarrow> True)"

text \<open>The white space of a regular expression.\<close>

definition is_space :: "char \<Rightarrow> bool" where
  "is_space c \<longleftrightarrow> is_ws c \<or> c \<in> {CHR 0x0B, CHR 0x0C, CHR 0xA0}"

definition valid_schedule_name :: "string \<Rightarrow> bool" where
  "valid_schedule_name name_arg \<longleftrightarrow> name_arg \<noteq> '''' \<and> length name_arg \<le> 255 \<and> \<not> (\<forall>c \<in> set name_arg. is_space c)"

definition valid_schedule_form :: "string list \<Rightarrow> schedule_form \<Rightarrow> bool" where
  "valid_schedule_form supported_time_zones form \<longleftrightarrow>
     valid_schedule_name (sf_name form)
     \<and> sf_timeZone form \<noteq> '''' \<and> sf_timeZone form \<in> set supported_time_zones
     \<and> valid_period (sf_initiationDate form) (sf_expirationDate form)
     \<and> valid_trigger_times (sf_triggers form)"

text \<open>From the form to the parameters of the request (\<open>utils.ts\<close>).\<close>

definition getStartDateApiParam :: "clock_env \<Rightarrow> schedule_form \<Rightarrow> int option" where
  "getStartDateApiParam env formData =
     map_option (\<lambda>date. ck_millisecondsToSeconds env (moveDateFromUTC env (ck_startOfDay env date))) (sf_initiationDate formData)"

definition getEndDateApiParam :: "clock_env \<Rightarrow> schedule_form \<Rightarrow> int option" where
  "getEndDateApiParam env formData =
     map_option (\<lambda>date. ck_millisecondsToSeconds env (moveDateFromUTC env (ck_endOfDay env date))) (sf_expirationDate formData)"

definition trigger_param :: "clock_env \<Rightarrow> form_trigger \<Rightarrow> time_point js" where
  "trigger_param env trigger =
     map_js (\<lambda>time. \<lparr> tp_time = time, tp_action = ft_action trigger \<rparr>)
       (formatTimeString env (full_time trigger) EN_TIME_FORMAT EN_TIME_FORMAT_24_HOURS_CLOCK_HH_MM)"

definition getTriggersApiParam :: "clock_env \<Rightarrow> schedule_form \<Rightarrow> time_point list js" where
  "getTriggersApiParam env formData =
     map_js (sort_triggers env) (mapM_js (trigger_param env) (sf_triggers formData))"

definition create_params :: "clock_env \<Rightarrow> schedule_form \<Rightarrow> schedule_params js" where
  "create_params env formData =
     map_js (\<lambda>triggers. \<lparr> pp_name = sf_name formData, pp_triggers = triggers, pp_timezone = sf_timeZone formData,
       pp_start_date = getStartDateApiParam env formData, pp_end_date = getEndDateApiParam env formData,
       pp_enabled = Some True \<rparr>) (getTriggersApiParam env formData)"

definition edit_params :: "clock_env \<Rightarrow> schedule_form \<Rightarrow> schedule_params js" where
  "edit_params env formData =
     map_js (\<lambda>triggers. \<lparr> pp_name = sf_name formData, pp_triggers = triggers, pp_timezone = sf_timeZone formData,
       pp_start_date = getStartDateApiParam env formData, pp_end_date = getEndDateApiParam env formData,
       pp_enabled = None \<rparr>) (getTriggersApiParam env formData)"

text \<open>From a schedule to the form (\<open>EditPowerScheduleForm.tsx\<close>).  A date of zero is none.  The text after
  the second blank is dropped, and a missing meridiem is \<open>undefined\<close>, shown as an empty text here.\<close>

definition form_date :: "clock_env \<Rightarrow> int option \<Rightarrow> int option" where
  "form_date env d =
     (case d of
        None \<Rightarrow> None
      | Some s \<Rightarrow> if s = 0 then None else Some (moveDateToUTC env (ck_secondsToMilliseconds env s)))"

definition form_trigger_of :: "clock_env \<Rightarrow> time_point \<Rightarrow> form_trigger js" where
  "form_trigger_of env trigger =
     map_js (\<lambda>formatted. case split_char CHR '' '' formatted of
          time # meridiem # _ \<Rightarrow> \<lparr> ft_time = time, ft_meridiem = meridiem, ft_action = tp_action trigger \<rparr>
        | [time] \<Rightarrow> \<lparr> ft_time = time, ft_meridiem = '''', ft_action = tp_action trigger \<rparr>
        | [] \<Rightarrow> \<lparr> ft_time = '''', ft_meridiem = '''', ft_action = tp_action trigger \<rparr>)
       (formatTimeString env (tp_time trigger) EN_TIME_FORMAT_24_HOURS_CLOCK_HH_MM EN_TIME_FORMAT)"

definition getDefaultFormValues :: "clock_env \<Rightarrow> power_schedule \<Rightarrow> schedule_form js" where
  "getDefaultFormValues env powerSchedule =
     map_js (\<lambda>triggers. \<lparr> sf_name = (case ps_name powerSchedule of None \<Rightarrow> '''' | Some n \<Rightarrow> n),
       sf_timeZone = (case ps_timezone powerSchedule of None \<Rightarrow> '''' | Some z \<Rightarrow> z),
       sf_initiationDate = form_date env (ps_start_date powerSchedule),
       sf_expirationDate = form_date env (ps_end_date powerSchedule), sf_triggers = triggers \<rparr>)
       (case ps_triggers powerSchedule of
          None \<Rightarrow> Inr []
        | Some triggers \<Rightarrow> mapM_js (form_trigger_of env) (sort_triggers env triggers))"

section \<open>The table of schedules\<close>

definition isPowerScheduleExpired :: "clock_env \<Rightarrow> int option \<Rightarrow> bool" where
  "isPowerScheduleExpired env endDate =
     (case endDate of None \<Rightarrow> False | Some s \<Rightarrow> s \<noteq> 0 \<and> ck_secondsToMilliseconds env s < ck_now env)"

text \<open>What the column of triggers is searched by, and the messages of the two actions.\<close>

definition triggers_text :: "(string \<Rightarrow> string) \<Rightarrow> clock_env \<Rightarrow> time_point list \<Rightarrow> string js" where
  "triggers_text formatMessage env triggers =
     map_js (join '' '') (mapM_js (\<lambda>trigger.
       map_js (\<lambda>formattedTime. formattedTime @ '': '' @
           (if tp_action trigger = POWER_ON then formatMessage ''on'' else formatMessage ''off''))
         (formatTimeString env (tp_time trigger) EN_TIME_FORMAT_24_HOURS_CLOCK_HH_MM EN_TIME_FORMAT)) triggers)"

section \<open>Putting instances on a schedule\<close>

text \<open>The form keeps the chosen data sources, the filters and the selected rows by their ids; another
  choice of data sources or filters clears the selection.\<close>

record instances_form =
  if_dataSources :: "string list"
  if_filters :: obj
  if_instances :: "(string \<times> bool) list"

definition instances_form_init :: instances_form where
  "instances_form_init = \<lparr> if_dataSources = [], if_filters = [], if_instances = [] \<rparr>"

datatype instances_event =
    ChooseDataSources "string list"
  | AddFilter obj
  | DeleteFilter string jsval
  | DeleteFilters
  | SelectRows "(string \<times> bool) list"

definition without_filter_value :: "obj \<Rightarrow> string \<Rightarrow> jsval \<Rightarrow> obj" where
  "without_filter_value filters_arg filterName filterValue =
     obj_set filterName
       (case obj_get filters_arg filterName of
          Arr vs \<Rightarrow> Arr (filter (\<lambda>val. \<not> strict_eq val filterValue) vs)
        | _ \<Rightarrow> Undef) (obj_remove filterName filters_arg)"

fun instances_step :: "instances_event \<Rightarrow> instances_form \<Rightarrow> instances_form" where
  "instances_step (ChooseDataSources ids) form = form \<lparr> if_dataSources := ids, if_instances := [] \<rparr>"
| "instances_step (AddFilter newFilter) form =
     form \<lparr> if_filters := obj_spread (if_filters form) newFilter, if_instances := [] \<rparr>"
| "instances_step (DeleteFilter filterName filterValue) form =
     form \<lparr> if_filters := without_filter_value (if_filters form) filterName filterValue, if_instances := [] \<rparr>"
| "instances_step DeleteFilters form = form \<lparr> if_filters := [], if_instances := [] \<rparr>"
| "instances_step (SelectRows selection) form = form \<lparr> if_instances := selection \<rparr>"

definition INSTANCES_COUNT_LIMIT :: rat where "INSTANCES_COUNT_LIMIT = 5000"
definition INSTANCE_REGULAR :: string where "INSTANCE_REGULAR = ''Instance:regular''"

text \<open>The request for the instances to choose from, sent once data sources are chosen.\<close>

definition instances_request :: "rat \<Rightarrow> rat \<Rightarrow> instances_form \<Rightarrow> obj option" where
  "instances_request start end_arg form =
     (if if_dataSources form = [] then None
      else Some (obj_spread
        [(''startDate'', Num start), (''endDate'', Num end_arg), (''cloudAccountId'', Arr (map Str (if_dataSources form))),
         (''active'', Bool True), (''resourceType'', Str INSTANCE_REGULAR), (''limit'', Num INSTANCES_COUNT_LIMIT)]
        (if_filters form)))"

definition shown_instances :: "instances_form \<Rightarrow> 'a list \<Rightarrow> 'a list" where
  "shown_instances form instances = (if if_dataSources form = [] then [] else instances)"

definition valid_instances_form :: "instances_form \<Rightarrow> bool" where
  "valid_instances_form form \<longleftrightarrow> if_dataSources form \<noteq> [] \<and> if_instances form \<noteq> []"

definition instances_to_attach :: "instances_form \<Rightarrow> string list" where
  "instances_to_attach form = map fst (if_instances form)"

end
