(* ===== verification/PowerScheduleFacts.thy ===== *)
theory PowerScheduleFacts
  imports PowerSchedules DataCases
begin

text \<open>
  What the chart of a schedule shows, what the form sends, and that editing a schedule without a
  change sends it again.  The behaviour of \<open>date-fns\<close> that this rests on is stated for the two
  notations of a time that the program uses, 24 hours (\<open>clock24\<close>) and 12 hours (\<open>clock12_full\<close>).
\<close>

section \<open>Notations of a time\<close>

definition two_digits :: "nat \<Rightarrow> string" where
  "two_digits n = [digit_char (n div 10), digit_char (n mod 10)]"

definition clock24 :: "nat \<Rightarrow> string" where
  "clock24 m = two_digits (m div 60) @ '':'' @ two_digits (m mod 60)"

definition hour12 :: "nat \<Rightarrow> nat" where
  "hour12 m = (let h = m div 60 mod 12 in if h = 0 then 12 else h)"

definition clock12 :: "nat \<Rightarrow> string" where
  "clock12 m = two_digits (hour12 m) @ '':'' @ two_digits (m mod 60)"

definition meridiem_of :: "nat \<Rightarrow> string" where
  "meridiem_of m = (if m < 720 then MERIDIEM_AM else MERIDIEM_PM)"

definition clock12_full :: "nat \<Rightarrow> string" where
  "clock12_full m = clock12 m @ '' '' @ meridiem_of m"

text \<open>Reading them: the minutes since midnight.\<close>

definition minute_of :: "string \<Rightarrow> nat" where
  "minute_of s = 60 * str_nat (take 2 s) + str_nat (drop 3 s)"

definition minute12 :: "string \<Rightarrow> nat" where
  "minute12 s = 60 * (str_nat (take 2 s) mod 12) + str_nat (take 2 (drop 3 s))
     + (if drop 6 s = MERIDIEM_PM then 720 else 0)"

lemma str_nat_two_digits [simp]: "n < 100 \<Longrightarrow> str_nat (two_digits n) = n"
  by (simp add: two_digits_def str_nat_def)

lemma two_digits_parts [simp]:
  "length (two_digits n) = 2" "take 2 (two_digits n @ s) = two_digits n" "drop 2 (two_digits n @ s) = s"
  "drop 3 (two_digits n @ c # s) = s"
  by (simp_all add: two_digits_def numeral_2_eq_2 numeral_3_eq_3)

lemma hour12_bounds: "hour12 m < 100" "hour12 m mod 12 = m div 60 mod 12"
  by (auto simp: hour12_def Let_def intro: order.strict_trans [of _ 12])

lemma minute_of_clock24 [simp]: "m < 1440 \<Longrightarrow> minute_of (clock24 m) = m"
  by (simp add: minute_of_def clock24_def)

lemma minute12_parts:
  assumes "length h = 2" "length k = 2"
  shows "minute12 (h @ CHR '':'' # k @ CHR '' '' # s)
    = 60 * (str_nat h mod 12) + str_nat k + (if s = MERIDIEM_PM then 720 else 0)"
proof -
  obtain a b where "h = [a, b]" using assms(1) by (auto simp: numeral_2_eq_2 length_Suc_conv)
  moreover obtain c d where "k = [c, d]" using assms(2) by (auto simp: numeral_2_eq_2 length_Suc_conv)
  ultimately show ?thesis by (simp add: minute12_def)
qed

lemma minute12_clock12_full [simp]:
  assumes "m < 1440"
  shows "minute12 (clock12_full m) = m"
proof -
  have "minute12 (clock12_full m) = 60 * (m div 60 mod 12) + m mod 60 + (if m < 720 then 0 else 720)"
    by (simp add: clock12_full_def clock12_def minute12_parts hour12_bounds meridiem_of_def MERIDIEM_AM_def MERIDIEM_PM_def)
  also have "\<dots> = m"
  proof (cases "m < 720")
    case True
    then have "m div 60 < 12" by (simp add: div_less_iff_less_mult)
    then show ?thesis using True by simp
  next
    case False
    define k where "k = m - 720"
    have k: "m = k + 12 * 60" "k < 720" using False assms by (simp_all add: k_def)
    then have "k div 60 < 12" by (simp add: div_less_iff_less_mult)
    moreover have "m div 60 = k div 60 + 12" "m mod 60 = k mod 60" using k(1) by presburger+
    ultimately show ?thesis using False k by simp
  qed
  finally show ?thesis .
qed

section \<open>The clock\<close>

text \<open>The documented behaviour of \<open>parse\<close>, \<open>format\<close>, \<open>startOfDay\<close>, \<open>endOfDay\<close> and \<open>differenceInMinutes\<close>
  on the times of the current day, and the conversions of seconds.  They hold where the current day has
  24 hours; \<open>date-fns\<close> reads and writes local times, so on a day on which the local clock is changed the
  times after the change are an hour nearer to its start, or farther from it, and those in the gap have
  no time of their own.  What rests on these laws says nothing about such a day.\<close>

definition day_start :: "clock_env \<Rightarrow> int" where
  "day_start env = ck_startOfDay env (ck_now env)"

definition at_minute :: "clock_env \<Rightarrow> nat \<Rightarrow> int" where
  "at_minute env m = day_start env + int m * 60000"

definition clock_laws :: "clock_env \<Rightarrow> bool" where
  "clock_laws env \<longleftrightarrow>
     (\<forall>m < 1440. ck_parse env (clock24 m) EN_TIME_FORMAT_24_HOURS_CLOCK_HH_MM = Some (at_minute env m)
       \<and> ck_parse env (clock12_full m) EN_TIME_FORMAT = Some (at_minute env m)
       \<and> ck_format env (at_minute env m) EN_TIME_FORMAT_24_HOURS_CLOCK_HH_MM = clock24 m
       \<and> ck_format env (at_minute env m) EN_TIME_FORMAT = clock12_full m
       \<and> ck_format env (at_minute env m) EN_TIME_FORMAT_12_HOURS_CLOCK_HH_MM = clock12 m
       \<and> ck_startOfDay env (at_minute env m) = day_start env
       \<and> (\<forall>n < 1440. ck_differenceInMinutes env (at_minute env n) (at_minute env m) = int n - int m))
     \<and> ck_endOfDay env (day_start env) = day_start env + 86399999"

lemma clock_lawsD:
  assumes "clock_laws env" "m < 1440"
  shows "ck_parse env (clock24 m) EN_TIME_FORMAT_24_HOURS_CLOCK_HH_MM = Some (at_minute env m)"
    and "ck_parse env (clock12_full m) EN_TIME_FORMAT = Some (at_minute env m)"
    and "ck_format env (at_minute env m) EN_TIME_FORMAT_24_HOURS_CLOCK_HH_MM = clock24 m"
    and "ck_format env (at_minute env m) EN_TIME_FORMAT = clock12_full m"
    and "ck_format env (at_minute env m) EN_TIME_FORMAT_12_HOURS_CLOCK_HH_MM = clock12 m"
    and "ck_startOfDay env (at_minute env m) = day_start env"
    and "n < 1440 \<Longrightarrow> ck_differenceInMinutes env (at_minute env n) (at_minute env m) = int n - int m"
  using assms by (simp_all add: clock_laws_def)

text \<open>The times of the day by their text, and the minute of a trigger.\<close>

definition valid_time :: "string \<Rightarrow> bool" where
  "valid_time s \<longleftrightarrow> s \<in> clock24 ` {..<1440}"

abbreviation trigger_minute :: "time_point \<Rightarrow> nat" where
  "trigger_minute t \<equiv> minute_of (tp_time t)"

lemma valid_timeE:
  assumes "valid_time s"
  obtains "s = clock24 (minute_of s)" "minute_of s < 1440"
  using assms by (auto simp: valid_time_def)

lemma valid_time_clock24 [simp]: "m < 1440 \<Longrightarrow> valid_time (clock24 m)"
  by (simp add: valid_time_def)

lemma parse_valid:
  assumes "clock_laws env" "valid_time s"
  shows "ck_parse env s EN_TIME_FORMAT_24_HOURS_CLOCK_HH_MM = Some (at_minute env (minute_of s))"
  using assms(2) clock_lawsD(1) [OF assms(1)] by (metis valid_timeE)

text \<open>Sorting triggers sorts them by their minutes.\<close>

lemma sort_triggers_minutes:
  assumes "clock_laws env" "\<forall>t \<in> set ts. valid_time (tp_time t)"
  shows "sort_triggers env ts = sort_key trigger_minute ts"
  unfolding sort_triggers_def
proof (rule sort_by_key)
  fix a b assume "a \<in> set ts" "b \<in> set ts"
  then have "compare_times env a b = of_int (60000 * (int (trigger_minute a) - int (trigger_minute b)))"
    using assms(2) by (simp add: compare_times_def parse_valid [OF assms(1)] at_minute_def algebra_simps)
  then have "compare_times env a b \<le> 0 \<longleftrightarrow> 60000 * (int (trigger_minute a) - int (trigger_minute b)) \<le> 0"
    by (simp only: of_int_le_0_iff)
  then show "compare_times env a b \<le> 0 \<longleftrightarrow> trigger_minute a \<le> trigger_minute b" by auto
qed

section \<open>The chart\<close>

text \<open>The state that a schedule puts instances in at a minute of the day: that of the latest trigger
  so far, and before the first one that of the last trigger, which is still in force from the day
  before.\<close>

definition state_at :: "time_point list \<Rightarrow> nat \<Rightarrow> power_action" where
  "state_at triggers m =
     (let sorted_triggers = sort_key trigger_minute triggers;
          past = filter (\<lambda>t. trigger_minute t \<le> m) sorted_triggers in
      tp_action (last (if past = [] then sorted_triggers else past)))"

text \<open>What the bars show at a minute: they follow each other, each as wide as its duration.\<close>

fun shown_at :: "time_segment list \<Rightarrow> nat \<Rightarrow> power_action option" where
  "shown_at [] m = None"
| "shown_at (segment # segments) m =
     Option.bind (ts_durationInMinutes segment) (\<lambda>d.
       if int m < d then Some (ts_action segment) else shown_at segments (m - nat d))"

text \<open>The bar between two triggers.\<close>

definition segment_between :: "time_point \<times> time_point \<Rightarrow> time_segment" where
  "segment_between = (\<lambda>(a, b).
     \<lparr> ts_segment = clock12_full (trigger_minute a) @ '' - '' @ clock12_full (trigger_minute b), ts_action = tp_action a,
       ts_durationInMinutes = Some (int (trigger_minute b) - int (trigger_minute a)) \<rparr>)"

abbreviation day_segments :: "time_point list \<Rightarrow> time_segment list" where
  "day_segments ts \<equiv> map segment_between (zip (butlast ts) (drop 1 ts))"

lemma to_segment_valid:
  assumes "clock_laws env" "valid_time (tp_time a)" "valid_time (tp_time b)"
  shows "to_segment env (a, b) = Inr (segment_between (a, b))"
proof -
  have m: "trigger_minute a < 1440" "trigger_minute b < 1440" using assms(2,3) by (auto elim: valid_timeE)
  show ?thesis
    using clock_lawsD(7) [OF assms(1) m]
    by (simp add: to_segment_def segment_between_def formatTimeString_def parse_valid [OF assms(1)] assms(2,3)
      clock_lawsD(2,4) [OF assms(1) m(1)] clock_lawsD(2,4) [OF assms(1) m(2)])
qed

lemma segments_valid:
  assumes "clock_laws env" "\<forall>t \<in> set ts. valid_time (tp_time t)"
  shows "mapM_js (to_segment env) (zip (butlast ts) (drop 1 ts)) = Inr (day_segments ts)"
proof (rule mapM_js_total)
  fix p assume p: "p \<in> set (zip (butlast ts) (drop 1 ts))"
  obtain a b where ab: "p = (a, b)" by (cases p)
  have "a \<in> set (butlast ts)" "b \<in> set (drop 1 ts)"
    using p ab set_zip_leftD set_zip_rightD by fastforce+
  then have "a \<in> set ts" "b \<in> set ts" using in_set_butlastD in_set_dropD by fast+
  then show "to_segment env p = Inr (segment_between p)"
    unfolding ab using assms by (intro to_segment_valid) auto
qed

lemma day_segments_simps [simp]:
  "day_segments [] = []" "day_segments [a] = []"
  "day_segments (a # b # ts) = segment_between (a, b) # day_segments (b # ts)"
  by simp_all

text \<open>The bars of sorted triggers show the latest trigger, and are as wide as the time they cover.\<close>

lemma shown_latest:
  assumes "sorted (map trigger_minute (a # ts))" "trigger_minute a + m < trigger_minute (last (a # ts))"
  shows "shown_at (day_segments (a # ts)) m =
    Some (tp_action (last (filter (\<lambda>t. trigger_minute t \<le> trigger_minute a + m) (butlast (a # ts)))))"
  using assms
proof (induction ts arbitrary: a m)
  case (Cons b ts)
  let ?d = "trigger_minute b - trigger_minute a"
  have ab: "trigger_minute a \<le> trigger_minute b" using Cons.prems(1) by simp
  show ?case
  proof (cases "m < ?d")
    case True
    then have "\<forall>t \<in> set (b # ts). trigger_minute a + m < trigger_minute t" using Cons.prems(1) by auto
    then have "filter (\<lambda>t. trigger_minute t \<le> trigger_minute a + m) (butlast (b # ts)) = []"
      by (auto simp: filter_empty_conv dest!: in_set_butlastD)
    moreover have "int m < int (trigger_minute b) - int (trigger_minute a)" using True by linarith
    ultimately show ?thesis by (simp add: segment_between_def)
  next
    case False
    then have m: "trigger_minute b + (m - ?d) = trigger_minute a + m" using ab by simp
    then have "ts \<noteq> []" using Cons.prems(2) by auto
    then have "butlast (b # ts) = b # butlast ts" by simp
    moreover have "shown_at (day_segments (b # ts)) (m - ?d) =
        Some (tp_action (last (filter (\<lambda>t. trigger_minute t \<le> trigger_minute a + m) (butlast (b # ts)))))"
      using Cons.IH [of b "m - ?d"] Cons.prems unfolding m by simp
    moreover have "\<not> int m < int (trigger_minute b) - int (trigger_minute a)"
      and "nat (int (trigger_minute b) - int (trigger_minute a)) = ?d"
      using False ab by linarith+
    ultimately show ?thesis using ab \<open>ts \<noteq> []\<close> by (simp add: segment_between_def)
  qed
qed simp

lemma durations_sum:
  assumes "sorted (map trigger_minute (a # ts))"
  shows "\<forall>s \<in> set (day_segments (a # ts)). \<exists>d \<ge> 0. ts_durationInMinutes s = Some d"
    and "sum_list (map (the \<circ> ts_durationInMinutes) (day_segments (a # ts)))
      = int (trigger_minute (last (a # ts))) - int (trigger_minute a)"
  using assms
proof (induction ts arbitrary: a)
  case (Cons b ts)
  { case 1 with Cons(1) [of b] show ?case by (simp add: segment_between_def) }
  { case 2 with Cons(2) [of b] show ?case by (simp add: segment_between_def) }
qed simp_all

text \<open>The day from midnight to one minute before the next.\<close>

lemma valid_time_midnight: "valid_time ''00:00''" "minute_of ''00:00'' = 0"
  and valid_time_last: "valid_time ''23:59''" "minute_of ''23:59'' = 1439"
proof -
  have "clock24 0 = ''00:00''" "clock24 1439 = ''23:59''" by code_simp+
  then show "valid_time ''00:00''" "minute_of ''00:00'' = 0" "valid_time ''23:59''" "minute_of ''23:59'' = 1439"
    using valid_time_clock24 [of 0] valid_time_clock24 [of 1439] minute_of_clock24 [of 0] minute_of_clock24 [of 1439]
    by simp_all
qed

lemma midnight_iff: "valid_time s \<Longrightarrow> s = ''00:00'' \<longleftrightarrow> minute_of s = 0"
  using valid_timeE [of s] valid_timeE [OF valid_time_midnight(1)] valid_time_midnight(2) by metis

lemma normalized_day:
  assumes "ts \<noteq> []" "sorted (map trigger_minute ts)" "\<forall>t \<in> set ts. valid_time (tp_time t)"
  obtains day where "normalizeTriggers ts = Inr day" "day \<noteq> []" "\<forall>t \<in> set day. valid_time (tp_time t)"
    "sorted (map trigger_minute day)" "trigger_minute (hd day) = 0" "trigger_minute (last day) = 1439"
    "\<And>m. tp_action (last (filter (\<lambda>t. trigger_minute t \<le> m) (butlast day)))
       = tp_action (last (if filter (\<lambda>t. trigger_minute t \<le> m) ts = [] then ts
           else filter (\<lambda>t. trigger_minute t \<le> m) ts))"
proof -
  let ?close = "\<lparr> tp_time = ''23:59'', tp_action = tp_action (last ts) \<rparr>"
  let ?start = "\<lparr> tp_time = ''00:00'', tp_action = tp_action (last ts) \<rparr>"
  let ?early = "trigger_minute (hd ts) \<noteq> 0"
  define day where "day = (if ?early then ?start # ts else ts) @ [?close]"
  have hd: "hd ts \<in> set ts" using assms(1) by simp
  have "normalizeTriggers ts = Inr day"
    using assms(1,3) hd midnight_iff [of "tp_time (hd ts)"] by (simp add: normalizeTriggers_def day_def Let_def)
  moreover have "\<forall>t \<in> set ts. trigger_minute t \<le> 1439" using assms(3) by (force elim!: valid_timeE)
  then have "sorted (map trigger_minute day)"
    using assms(2) by (auto simp: day_def sorted_append valid_time_midnight(2) valid_time_last(2))
  moreover have "\<forall>t \<in> set day. valid_time (tp_time t)"
    using assms(3) by (auto simp: day_def valid_time_midnight(1) valid_time_last(1))
  moreover have "trigger_minute (hd day) = 0" "trigger_minute (last day) = 1439"
    using assms(1) by (auto simp: day_def valid_time_midnight(2) valid_time_last(2))
  moreover have "tp_action (last (filter (\<lambda>t. trigger_minute t \<le> m) (butlast day)))
       = tp_action (last (if filter (\<lambda>t. trigger_minute t \<le> m) ts = [] then ts
           else filter (\<lambda>t. trigger_minute t \<le> m) ts))" for m
  proof (cases ?early)
    case True
    then show ?thesis by (simp add: day_def valid_time_midnight(2))
  next
    case False
    then have "filter (\<lambda>t. trigger_minute t \<le> m) ts \<noteq> []" using hd by (auto simp: filter_empty_conv intro: bexI [of _ "hd ts"])
    then show ?thesis using False by (simp add: day_def)
  qed
  moreover have "day \<noteq> []" by (simp add: day_def)
  ultimately show thesis using that by blast
qed

theorem chart_shows_state:
  assumes "clock_laws env" "ts \<noteq> []" "\<forall>t \<in> set ts. valid_time (tp_time t)"
  shows "\<exists>segments. prepareSegments env ts = Inr segments
      \<and> (\<forall>s \<in> set segments. \<exists>d \<ge> 0. ts_durationInMinutes s = Some d)
      \<and> sum_list (map (the \<circ> ts_durationInMinutes) segments) = 1439
      \<and> (\<forall>m < 1439. shown_at segments m = Some (state_at ts m))"
proof -
  let ?ts = "sort_key trigger_minute ts"
  have sorted: "?ts \<noteq> []" "sorted (map trigger_minute ?ts)" "\<forall>t \<in> set ?ts. valid_time (tp_time t)"
    using assms(2,3) by (auto simp flip: set_empty)
  obtain day where day: "normalizeTriggers ?ts = Inr day" "day \<noteq> []" "\<forall>t \<in> set day. valid_time (tp_time t)"
    "sorted (map trigger_minute day)" "trigger_minute (hd day) = 0" "trigger_minute (last day) = 1439"
    "\<And>m. tp_action (last (filter (\<lambda>t. trigger_minute t \<le> m) (butlast day))) = state_at ts m"
    by (rule normalized_day [OF sorted]) (auto simp: state_at_def Let_def)
  obtain a rest where cons: "day = a # rest" using day(2) by (cases day) auto
  have "prepareSegments env ts = Inr (day_segments day)"
    by (simp only: prepareSegments_def sort_triggers_minutes [OF assms(1,3)] day(1) bind_js.simps
      segments_valid [OF assms(1) day(3)])
  moreover have "shown_at (day_segments day) m = Some (state_at ts m)" if "m < 1439" for m
    using shown_latest [of a rest m] day(4-7) that by (simp only: cons) simp
  moreover have "\<forall>s \<in> set (day_segments day). \<exists>d \<ge> 0. ts_durationInMinutes s = Some d"
    and "sum_list (map (the \<circ> ts_durationInMinutes) (day_segments day)) = 1439"
    using durations_sum [of a rest] day(4-6) unfolding cons by simp_all
  ultimately show ?thesis by blast
qed

text \<open>Two labels that are shown are at least the minimal spacing apart, whatever the order of the
  triggers.\<close>

definition shown_positions :: "rat option list \<Rightarrow> bool list \<Rightarrow> rat list" where
  "shown_positions positions visible = map (the \<circ> fst) (filter snd (zip positions visible))"

lemma visible_labels_apart:
  assumes "\<forall>p \<in> set positions. p \<noteq> None"
  shows "sorted_wrt (\<lambda>p q. p + TIME_LABEL_MIN_SPACING \<le> q)
      (l # shown_positions positions (visible_labels_loop (Some l) positions))"
  using assms
proof (induction positions arbitrary: l)
  case (Cons position positions)
  then obtain p where p: "position = Some p" by auto
  show ?case
  proof (cases "p - l < TIME_LABEL_MIN_SPACING")
    case True
    then show ?thesis using Cons p by (simp add: shown_positions_def)
  next
    case False
    then have "l + TIME_LABEL_MIN_SPACING \<le> p" by simp
    moreover have "0 \<le> TIME_LABEL_MIN_SPACING" by (simp add: TIME_LABEL_MIN_SPACING_def)
    ultimately show ?thesis using Cons.IH [of p] Cons.prems False p
      by (fastforce simp: shown_positions_def)
  qed
qed (simp add: shown_positions_def)

section \<open>The form\<close>

text \<open>The times to choose from are the quarters of half a day.\<close>

lemma day_hours_steps:
  assumes "j \<le> k" "\<not> t + int k * 900000 < threshold" "t + (int k - 1) * 900000 < threshold"
  shows "day_hours_loop f 15 threshold (t + int j * 900000) hours
     = Some (hours @ map (\<lambda>i. f (t + int i * 900000)) [j..<k])"
  using assms(1)
proof (induction j arbitrary: hours rule: inc_induct)
  case base
  then show ?case using assms(2) by (subst day_hours_loop.simps) simp
next
  case (step j)
  have "t + int j * 900000 < threshold" using assms(3) step(2) by (simp add: algebra_simps)
  moreover have "t + int j * 900000 + 15 * 60000 = t + int (Suc j) * 900000" by simp
  ultimately have "day_hours_loop f 15 threshold (t + int j * 900000) hours
      = day_hours_loop f 15 threshold (t + int (Suc j) * 900000) (hours @ [f (t + int j * 900000)])"
    by (subst day_hours_loop.simps) (simp only: if_True)
  also have "\<dots> = Some ((hours @ [f (t + int j * 900000)]) @ map (\<lambda>i. f (t + int i * 900000)) [Suc j..<k])"
    by (rule step.IH)
  finally show ?case using step(2) by (simp add: upt_conv_Cons)
qed

lemma TIME_VALUES_quarters:
  assumes "clock_laws env"
  shows "TIME_VALUES env = Some (map (\<lambda>i. clock12 (15 * i)) [0..<48])"
proof -
  let ?f = "\<lambda>time. ck_format env time EN_TIME_FORMAT_12_HOURS_CLOCK_HH_MM"
  have "ck_endOfDay env (day_start env) - 12 * 3600000 = day_start env + 43199999"
    using assms by (simp add: clock_laws_def)
  then have "TIME_VALUES env = day_hours_loop ?f 15 (day_start env + 43199999) (day_start env) []"
    by (simp add: TIME_VALUES_def generateDayHours_def Let_def add.commute flip: day_start_def)
  also have "\<dots> = Some (map (\<lambda>i. ?f (day_start env + int i * 900000)) [0..<48])"
    using day_hours_steps [of 0 48 "day_start env" "day_start env + 43199999" ?f "[]"] by simp
  also have "map (\<lambda>i. ?f (day_start env + int i * 900000)) [0..<48] = map (\<lambda>i. clock12 (15 * i)) [0..<48]"
  proof (rule map_cong)
    fix i assume "i \<in> set [0..<48]"
    then have "15 * i < 1440" by simp
    from clock_lawsD(5) [OF assms this] show "?f (day_start env + int i * 900000) = clock12 (15 * i)"
      by (simp add: at_minute_def mult.commute)
  qed simp
  finally show ?thesis .
qed

text \<open>A trigger of the form with a time to choose from and one of the two meridiems.\<close>

definition filled_trigger :: "clock_env \<Rightarrow> form_trigger \<Rightarrow> bool" where
  "filled_trigger env t \<longleftrightarrow>
     (\<exists>times. TIME_VALUES env = Some times \<and> ft_time t \<in> set times) \<and> ft_meridiem t \<in> {MERIDIEM_AM, MERIDIEM_PM}"

lemma filled_triggerE:
  assumes "clock_laws env" "filled_trigger env t"
  obtains m where "m < 1440" "full_time t = clock12_full m"
proof -
  obtain i where i: "i < 48" "ft_time t = clock12 (15 * i)"
    using assms by (auto simp: filled_trigger_def TIME_VALUES_quarters)
  show thesis
  proof (cases "ft_meridiem t = MERIDIEM_AM")
    case True
    then show thesis using i that [of "15 * i"] by (simp add: full_time_def clock12_full_def meridiem_of_def)
  next
    case False
    then have pm: "ft_meridiem t = MERIDIEM_PM" using assms(2) by (simp add: filled_trigger_def)
    have "(n + 720) div 60 = n div 60 + 12" "(n + 720) mod 60 = n mod 60" for n :: nat
      using div_mult_self1 [of 60 n 12] mod_mult_self1 [of n 12 60] by simp_all
    then have "clock12 (15 * i + 720) = clock12 (15 * i)" by (simp add: clock12_def hour12_def)
    then show thesis using i pm that [of "15 * i + 720"] by (simp add: full_time_def clock12_full_def meridiem_of_def)
  qed
qed

lemma trigger_param_clock:
  assumes "clock_laws env" "m < 1440" "full_time t = clock12_full m"
  shows "trigger_param env t = Inr \<lparr> tp_time = clock24 m, tp_action = ft_action t \<rparr>"
  by (simp add: trigger_param_def formatTimeString_def assms(3) clock_lawsD(2,3) [OF assms(1,2)])

lemma no_blank: "CHR '' '' \<notin> set (clock12 m)" "CHR '' '' \<notin> set (meridiem_of m)"
proof -
  have "CHR '' '' \<noteq> digit_char d" for d
    using is_digit_char [of "d mod 10"] by (auto simp: is_digit_def digit_char_def)
  then show "CHR '' '' \<notin> set (clock12 m)" by (simp add: clock12_def two_digits_def)
qed (simp add: meridiem_of_def MERIDIEM_AM_def MERIDIEM_PM_def)

text \<open>Loading a trigger into the form and reading it back.\<close>

lemma form_trigger_clock:
  assumes "clock_laws env" "valid_time (tp_time t)"
  shows "\<exists>f. form_trigger_of env t = Inr f \<and> trigger_param env f = Inr t"
proof -
  define m where "m = trigger_minute t"
  have m: "m < 1440" "tp_time t = clock24 m" using assms(2) by (auto simp: m_def elim: valid_timeE)
  let ?f = "\<lparr> ft_time = clock12 m, ft_meridiem = meridiem_of m, ft_action = tp_action t \<rparr>"
  have "split_char CHR '' '' (clock12_full m) = [clock12 m, meridiem_of m]"
    using split_char_sep [OF no_blank(1)] split_char_no_sep [OF no_blank(2)] by (simp add: clock12_full_def)
  then have "form_trigger_of env t = Inr ?f"
    by (simp add: form_trigger_of_def formatTimeString_def m(2) clock_lawsD(1,4) [OF assms(1) m(1)])
  moreover have "trigger_param env ?f = Inr t"
    using trigger_param_clock [OF assms(1) m(1), of ?f] m(2) by (simp add: full_time_def clock12_full_def)
  ultimately show ?thesis by blast
qed

text \<open>The zone of the browser without changes of its offset, and the ends of a day.\<close>

definition zone_laws :: "clock_env \<Rightarrow> bool" where
  "zone_laws env \<longleftrightarrow>
     (\<forall>x y. ck_getTimezoneOffset env x = ck_getTimezoneOffset env y)
     \<and> (\<forall>x. ck_startOfDay env (ck_startOfDay env x) = ck_startOfDay env x \<and> ck_startOfDay env x mod 1000 = 0
         \<and> ck_endOfDay env (ck_endOfDay env x - 999) = ck_endOfDay env x \<and> ck_endOfDay env x mod 1000 = 999)
     \<and> (\<forall>s. ck_secondsToMilliseconds env s = s * 1000)
     \<and> (\<forall>m \<ge> 0. ck_millisecondsToSeconds env m = m div 1000)"

lemma zone_lawsD:
  assumes "zone_laws env"
  shows "ck_startOfDay env (ck_startOfDay env x) = ck_startOfDay env x"
    and "ck_startOfDay env x mod 1000 = 0"
    and "ck_endOfDay env (ck_endOfDay env x - 999) = ck_endOfDay env x"
    and "ck_endOfDay env x mod 1000 = 999"
    and "ck_secondsToMilliseconds env y = y * 1000"
    and "0 \<le> y \<Longrightarrow> ck_millisecondsToSeconds env y = y div 1000"
  using assms unfolding zone_laws_def by blast+

lemma same_offset: "zone_laws env \<Longrightarrow> ck_getTimezoneOffset env x = ck_getTimezoneOffset env y"
  unfolding zone_laws_def by blast

text \<open>A schedule as the API keeps it.\<close>

definition kept_schedule :: "schedule_params \<Rightarrow> power_schedule" where
  "kept_schedule p = \<lparr> ps_name = Some (pp_name p), ps_timezone = Some (pp_timezone p), ps_start_date = pp_start_date p,
     ps_end_date = pp_end_date p, ps_triggers = Some (pp_triggers p), ps_enabled = pp_enabled p \<rparr>"

text \<open>Dates after the first second of 1970, in UTC.\<close>

definition dated :: "clock_env \<Rightarrow> schedule_form \<Rightarrow> bool" where
  "dated env form \<longleftrightarrow>
     (\<forall>d. sf_initiationDate form = Some d \<longrightarrow> 1000 \<le> moveDateFromUTC env (ck_startOfDay env d))
     \<and> (\<forall>d. sf_expirationDate form = Some d \<longrightarrow> 1000 \<le> moveDateFromUTC env (ck_endOfDay env d))"

lemma minutes_are_seconds: "(x :: int) * 60000 mod 1000 = 0"
proof -
  have "x * 60000 = (x * 60) * 1000" by simp
  then show ?thesis by (simp only: mod_mult_self2_is_0)
qed

lemma start_date_again:
  assumes "zone_laws env" "1000 \<le> moveDateFromUTC env (ck_startOfDay env d)"
  shows "\<exists>d'. form_date env (Some (ck_millisecondsToSeconds env (moveDateFromUTC env (ck_startOfDay env d)))) = Some d'
      \<and> ck_startOfDay env d' = ck_startOfDay env d"
proof -
  let ?s = "ck_startOfDay env d"
  define c where "c = ck_getTimezoneOffset env ?s * 60000"
  have move: "moveDateFromUTC env ?s = ?s - c" by (simp add: moveDateFromUTC_def c_def)
  have whole: "(?s - c) mod 1000 = 0"
  proof -
    have "?s mod 1000 = 0" by (simp add: zone_lawsD [OF assms(1)])
    moreover have "c mod 1000 = 0" unfolding c_def by (rule minutes_are_seconds)
    ultimately show ?thesis using mod_diff_eq [of ?s 1000 c] by simp
  qed
  have seconds: "ck_millisecondsToSeconds env (?s - c) = (?s - c) div 1000"
    using assms(2) move by (intro zone_lawsD(6) [OF assms(1)]) simp
  have "(?s - c) div 1000 \<noteq> 0" using assms(2) move by auto
  moreover have "ck_secondsToMilliseconds env ((?s - c) div 1000) = ?s - c"
    using whole div_mult_mod_eq [of "?s - c" 1000] unfolding zone_lawsD(5) [OF assms(1)] by linarith
  moreover have "moveDateToUTC env (?s - c) = ?s"
    using same_offset [OF assms(1), of "?s - c" ?s] by (simp add: moveDateToUTC_def c_def)
  ultimately have "form_date env (Some ((?s - c) div 1000)) = Some ?s" by (simp add: form_date_def)
  then show ?thesis using seconds by (simp add: move zone_lawsD [OF assms(1)])
qed

lemma end_date_again:
  assumes "zone_laws env" "1000 \<le> moveDateFromUTC env (ck_endOfDay env d)"
  shows "\<exists>d'. form_date env (Some (ck_millisecondsToSeconds env (moveDateFromUTC env (ck_endOfDay env d)))) = Some d'
      \<and> ck_endOfDay env d' = ck_endOfDay env d"
proof -
  let ?e = "ck_endOfDay env d"
  define c where "c = ck_getTimezoneOffset env ?e * 60000"
  have move: "moveDateFromUTC env ?e = ?e - c" by (simp add: moveDateFromUTC_def c_def)
  have late: "(?e - c) mod 1000 = 999"
  proof -
    have "?e mod 1000 = 999" by (simp add: zone_lawsD [OF assms(1)])
    moreover have "c mod 1000 = 0" unfolding c_def by (rule minutes_are_seconds)
    ultimately show ?thesis using mod_diff_eq [of ?e 1000 c] by simp
  qed
  have seconds: "ck_millisecondsToSeconds env (?e - c) = (?e - c) div 1000"
    using assms(2) move by (intro zone_lawsD(6) [OF assms(1)]) simp
  have "(?e - c) div 1000 \<noteq> 0" using assms(2) move by auto
  moreover have "ck_secondsToMilliseconds env ((?e - c) div 1000) = ?e - c - 999"
    using late div_mult_mod_eq [of "?e - c" 1000] unfolding zone_lawsD(5) [OF assms(1)] by linarith
  moreover have "moveDateToUTC env (?e - c - 999) = ?e - 999"
    using same_offset [OF assms(1), of "?e - c - 999" ?e] by (simp add: moveDateToUTC_def c_def)
  ultimately have "form_date env (Some ((?e - c) div 1000)) = Some (?e - 999)" by (simp add: form_date_def)
  then show ?thesis using seconds by (simp add: move zone_lawsD [OF assms(1)])
qed

lemma mapM_js_back:
  "(\<And>x. x \<in> set xs \<Longrightarrow> \<exists>y. f x = Inr y \<and> g y = Inr x) \<Longrightarrow> \<exists>ys. mapM_js f xs = Inr ys \<and> mapM_js g ys = Inr xs"
proof (induction xs)
  case (Cons x xs)
  then obtain y ys where "f x = Inr y" "g y = Inr x" "mapM_js f xs = Inr ys" "mapM_js g ys = Inr xs"
    by (meson list.set_intros)
  then show ?case by (intro exI [of _ "y # ys"]) simp
qed simp

text \<open>A valid form has no two triggers at one time.\<close>

lemma distinct_times:
  assumes "valid_trigger_times ts"
  shows "distinct (map full_time ts)"
proof -
  have "count (mset (map full_time ts)) s = 1" if "s \<in> set (map full_time ts)" for s
  proof -
    have "length (filter (\<lambda>time. time = s) (map full_time ts)) = 1"
      using assms that by (auto simp: valid_trigger_times_def unique_trigger_def)
    moreover have "(\<lambda>time. time = s) = (=) s" by auto
    ultimately show ?thesis by (simp only: count_mset count_list_eq_length_filter)
  qed
  then show ?thesis
    by (auto simp del: set_map mset_map simp add: distinct_count_atmost_1 count_eq_zero_iff)
qed

lemma sent_triggers:
  assumes "clock_laws env" "valid_trigger_times (sf_triggers form)" "\<forall>t \<in> set (sf_triggers form). filled_trigger env t"
  obtains ts where "getTriggersApiParam env form = Inr ts" "length ts = length (sf_triggers form)"
    "\<forall>t \<in> set ts. valid_time (tp_time t)" "sorted_wrt (<) (map trigger_minute ts)"
proof -
  let ?m = "\<lambda>t. minute12 (full_time t)"
  let ?sent = "\<lambda>t. \<lparr> tp_time = clock24 (?m t), tp_action = ft_action t \<rparr>"
  have minutes: "?m t < 1440 \<and> full_time t = clock12_full (?m t)" if "t \<in> set (sf_triggers form)" for t
    using filled_triggerE [OF assms(1)] assms(3) that by (metis minute12_clock12_full)
  let ?unsorted = "map ?sent (sf_triggers form)"
  have sent: "mapM_js (trigger_param env) (sf_triggers form) = Inr ?unsorted"
    using minutes trigger_param_clock [OF assms(1)] by (intro mapM_js_total) blast
  have valid: "\<forall>t \<in> set ?unsorted. valid_time (tp_time t)" using minutes by auto
  have own: "map trigger_minute ?unsorted = map ?m (sf_triggers form)" using minutes by simp
  have "inj_on minute12 (full_time ` set (sf_triggers form))"
    using minutes by (intro inj_onI) (metis (no_types, lifting) imageE)
  then have "distinct (map ?m (sf_triggers form))"
    using distinct_times [OF assms(2)] by (simp add: distinct_map comp_inj_on [of full_time _ minute12, unfolded comp_def])
  moreover have "mset (map trigger_minute (sort_key trigger_minute ?unsorted)) = mset (map ?m (sf_triggers form))"
    unfolding own [symmetric] by (simp add: multiset.map_comp)
  ultimately have "distinct (map trigger_minute (sort_key trigger_minute ?unsorted))"
    using mset_eq_imp_distinct_iff by blast
  then have "sorted_wrt (<) (map trigger_minute (sort_key trigger_minute ?unsorted))"
    unfolding strict_sorted_iff by simp
  moreover have "getTriggersApiParam env form = Inr (sort_key trigger_minute ?unsorted)"
    using sort_triggers_minutes [OF assms(1) valid] by (simp add: getTriggersApiParam_def sent)
  ultimately show thesis using that [of "sort_key trigger_minute ?unsorted"] valid by simp
qed

text \<open>A schedule that was created with the form is loaded into a form that sends it again.\<close>

lemma submitted_again:
  assumes "clock_laws env" "zone_laws env" "valid_trigger_times (sf_triggers form)"
    and "\<forall>t \<in> set (sf_triggers form). filled_trigger env t" "dated env form"
  shows "\<exists>p again. create_params env form = Inr p \<and> getDefaultFormValues env (kept_schedule p) = Inr again
      \<and> edit_params env again = Inr (p \<lparr> pp_enabled := None \<rparr>)
      \<and> sorted_wrt (<) (map trigger_minute (pp_triggers p)) \<and> length (pp_triggers p) = length (sf_triggers form)"
proof -
  obtain ts where ts: "getTriggersApiParam env form = Inr ts" "length ts = length (sf_triggers form)"
    "\<forall>t \<in> set ts. valid_time (tp_time t)" "sorted_wrt (<) (map trigger_minute ts)"
    using sent_triggers [OF assms(1,3,4)] by blast
  have sorted: "sort_triggers env ts = ts"
    using ts(3,4) sort_triggers_minutes [OF assms(1)] by (simp add: strict_sorted_iff sort_key_id_if_sorted)
  obtain fs where fs: "mapM_js (form_trigger_of env) ts = Inr fs" "mapM_js (trigger_param env) fs = Inr ts"
    using mapM_js_back [of ts "form_trigger_of env" "trigger_param env"] form_trigger_clock [OF assms(1)] ts(3) by blast
  define i where "i = form_date env (getStartDateApiParam env form)"
  define e where "e = form_date env (getEndDateApiParam env form)"
  let ?again = "\<lparr> sf_name = sf_name form, sf_timeZone = sf_timeZone form, sf_initiationDate = i,
      sf_expirationDate = e, sf_triggers = fs \<rparr>"
  have "getStartDateApiParam env ?again = getStartDateApiParam env form"
  proof (cases "sf_initiationDate form")
    case (Some d)
    then obtain d' where "i = Some d'" "ck_startOfDay env d' = ck_startOfDay env d"
      using start_date_again [OF assms(2), of d] assms(5) by (auto simp: dated_def i_def getStartDateApiParam_def)
    then show ?thesis using Some by (simp add: getStartDateApiParam_def)
  qed (simp add: getStartDateApiParam_def i_def form_date_def)
  moreover have "getEndDateApiParam env ?again = getEndDateApiParam env form"
  proof (cases "sf_expirationDate form")
    case (Some d)
    then obtain d' where "e = Some d'" "ck_endOfDay env d' = ck_endOfDay env d"
      using end_date_again [OF assms(2), of d] assms(5) by (auto simp: dated_def e_def getEndDateApiParam_def)
    then show ?thesis using Some by (simp add: getEndDateApiParam_def)
  qed (simp add: getEndDateApiParam_def e_def form_date_def)
  moreover have "getTriggersApiParam env ?again = Inr ts" by (simp add: getTriggersApiParam_def fs(2) sorted)
  ultimately show ?thesis
    using ts by (simp add: create_params_def edit_params_def getDefaultFormValues_def kept_schedule_def sorted fs(1) i_def e_def)
qed

text \<open>The array of triggers stays within its bounds.\<close>

lemma edit_triggers_bounds:
  "length rows \<in> {1..MAX_TRIGGERS} \<Longrightarrow> length (fold edit_triggers edits rows) \<in> {1..MAX_TRIGGERS}"
proof (induction edits arbitrary: rows)
  case (Cons edit edits)
  have "length (edit_triggers edit rows) \<in> {1..MAX_TRIGGERS}" using Cons.prems by (cases edit) auto
  with Cons.IH show ?case by simp
qed simp

section \<open>A clock in UTC\<close>

definition utc_clock :: clock_env where
  "utc_clock = \<lparr> ck_parse = (\<lambda>s f. Some (60000 * int (if f = EN_TIME_FORMAT then minute12 s else minute_of s))),
     ck_format = (\<lambda>date f. let m = nat (date div 60000) in
       if f = EN_TIME_FORMAT then clock12_full m
       else if f = EN_TIME_FORMAT_24_HOURS_CLOCK_HH_MM then clock24 m else clock12 m),
     ck_startOfDay = (\<lambda>date. 86400000 * (date div 86400000)),
     ck_endOfDay = (\<lambda>date. 86400000 * (date div 86400000) + 86399999),
     ck_getTimezoneOffset = (\<lambda>date. 0), ck_differenceInMinutes = (\<lambda>a b. (a - b) div 60000),
     ck_millisecondsToSeconds = (\<lambda>m. m div 1000), ck_secondsToMilliseconds = (\<lambda>s. s * 1000), ck_now = 0 \<rparr>"

lemma utc_clock_laws: "clock_laws utc_clock"
proof -
  have at: "at_minute utc_clock m = int m * 60000" "day_start utc_clock = 0" for m
    by (simp_all add: at_minute_def day_start_def utc_clock_def)
  have diff: "(int n * 60000 - int m * 60000) div 60000 = int n - int m" for n m
  proof -
    have "int n * 60000 - int m * 60000 = (int n - int m) * 60000" by simp
    then show ?thesis by (simp only: nonzero_mult_div_cancel_right [of 60000 "int n - int m"])
  qed
  have today: "int m * 60000 div 86400000 = 0" if "m < 1440" for m
    using that by (intro div_pos_pos_trivial) linarith+
  have names: "EN_TIME_FORMAT \<noteq> EN_TIME_FORMAT_24_HOURS_CLOCK_HH_MM" "EN_TIME_FORMAT \<noteq> EN_TIME_FORMAT_12_HOURS_CLOCK_HH_MM"
    "EN_TIME_FORMAT_24_HOURS_CLOCK_HH_MM \<noteq> EN_TIME_FORMAT_12_HOURS_CLOCK_HH_MM"
    by (simp_all add: EN_TIME_FORMAT_def EN_TIME_FORMAT_24_HOURS_CLOCK_HH_MM_def EN_TIME_FORMAT_12_HOURS_CLOCK_HH_MM_def)
  have fields: "ck_parse utc_clock s f = Some (60000 * int (if f = EN_TIME_FORMAT then minute12 s else minute_of s))"
    "ck_format utc_clock date f = (let m = nat (date div 60000) in if f = EN_TIME_FORMAT then clock12_full m
       else if f = EN_TIME_FORMAT_24_HOURS_CLOCK_HH_MM then clock24 m else clock12 m)"
    "ck_startOfDay utc_clock date = 86400000 * (date div 86400000)"
    "ck_endOfDay utc_clock date = 86400000 * (date div 86400000) + 86399999"
    "ck_differenceInMinutes utc_clock x y = (x - y) div 60000" for s f date x y
    by (simp_all add: utc_clock_def)
  show ?thesis
    unfolding clock_laws_def at fields
    using names today by (simp add: diff Let_def)
qed

lemma utc_zone_laws: "zone_laws utc_clock"
proof -
  have thousand: "(86400000 * x) mod 1000 = 0" "(86400000 * x + 86399999) mod 1000 = 999" for x :: int
  proof -
    have whole: "86400000 * x = 1000 * (86400 * x)" by simp
    show "(86400000 * x) mod 1000 = 0" unfolding whole by (rule mod_mult_self1_is_0)
    then show "(86400000 * x + 86399999) mod 1000 = 999" by (simp add: mod_add_left_eq [symmetric])
  qed
  have day: "(86400000 * x + 86399000) div 86400000 = x" for x :: int by simp
  show ?thesis unfolding zone_laws_def by (simp add: utc_clock_def thousand day)
qed

end
