(* ===== verification/Spec2Isabelle.thy ===== *)
theory Spec2Isabelle
  imports DemoRuns Catalogue ServiceRuns ServiceFollowUps Migrations Permissions ExpensesSplits
    Dashboards Correlations BreakdownLines BreakdownData ServerFacts TrafficFacts RegionMap ViewHooks
    Recommendations FilterFormFacts CommitmentFacts RawExpenseFacts PowerScheduleFacts
begin

text \<open>
  OptScale, the web interface (\<open>src/ngui/ui/src\<close>): how it requests data, what it keeps of the
  answers, and how its components read them; and the server it is delivered by
  (\<open>src/ngui/server\<close>).  Paths below are relative to the first directory unless they begin with \<open>src\<close>.

  \<^bold>\<open>The program.\<close>  A component calls a hook of \<open>services\<close>.  The hook asks \<open>useApiState\<close> whether the
  data of a label is stale (its time to live has passed, or it was fetched with other parameters)
  and if so dispatches an API action, built by one of the action creators in \<open>api\<close>.  The middleware
  (\<open>middleware/api.ts\<close>) cancels the earlier requests of the label through the request manager
  (\<open>utils/requestManager.ts\<close>), starts the request, and reports its outcome to the reducer of the
  statuses (\<open>api/reducer.ts\<close>) and, through the action the request names, to the reducers of the data
  (\<open>api/restapi/reducer.ts\<close>, \<open>api/auth/reducer.ts\<close>, \<open>api/jira_bus/reducer.ts\<close>).  The root reducer
  (\<open>reducers.ts\<close>) puts these slices beside those of the interface; \<open>migrations.ts\<close> brings the slices
  an older version of the program has stored to the current form.  Newer parts of the interface send
  GraphQL requests to the server, which answers each field by requests to four services.

  \<^bold>\<open>The theories.\<close>
  \<^item> \<open>JsPrelude\<close>: the values of JavaScript (\<open>jsval\<close>), objects as ordered property lists, exceptions as
    the left side of a sum.  \<open>JsonText\<close>: \<open>JSON.stringify\<close> and \<open>JSON.parse\<close>; the parser of values
    takes fuel, more than twice the length of the text, and any larger amount gives the same result.
  \<^item> \<open>ApiUtils\<close>: the request record and the cache keys of \<open>api/utils.ts\<close>, the 32-bit hash of
    \<open>utils/strings.ts\<close>.  \<open>RestHandlers\<close>, \<open>RestActionsOrg\<close>, \<open>RestActionsResources\<close>, \<open>RestActionsMl\<close>,
    \<open>RestActionsOps\<close>: the handlers and the action creators of \<open>api/restapi\<close>, one definition per
    function.  \<open>AuthApi\<close>: those of \<open>api/auth\<close> and \<open>api/jira_bus\<close>, with their reducers; the parser of
    macaroons is an argument (\<open>cav\<close>).
  \<^item> \<open>RestReducer\<close>: the reducer of the REST data as a table from action types to cases;
    the locale \<open>data_slice\<close> (each action writes the slot of its label) is interpreted for the REST, the
    auth and the Jira reducer.  \<open>ApiReducer\<close>: the reducer of the statuses.  \<open>UiReducers\<close>: the slices of the interface.  \<open>Store\<close>:
    the root reducer, sign-out included.  \<open>SuccessCodes\<close>: the alerts of successful requests.
  \<^item> \<open>RequestManager\<close>: the registry of pending requests; its contract is the locale
    \<open>request_tracker\<close>, interpreted as \<open>rm\<close> on the model of the class.  \<open>Middleware\<close>: the callbacks of the middleware as
    functions on the world (store, registry, requests in flight, clock), and the relation \<open>step\<close> that
    interleaves them with the transport, the user and the clock.  \<open>MiddlewareInv\<close>, \<open>MiddlewareFlow\<close>,
    \<open>Deliveries\<close>: the invariants of the reachable worlds, the progress of requests, what the callbacks
    leave behind.
  \<^item> \<open>ApiHooks\<close>: \<open>useApiState\<close>, \<open>useApiData\<close> and the other hooks on the status of a label.
    \<open>Permissions\<close>: \<open>hooks/useAllowedActions.ts\<close>.
  \<^item> \<open>ServiceFilters\<close>, \<open>ServiceHooks\<close>, \<open>ServiceReads\<close>, \<open>ServiceCommands\<close>, \<open>ServiceFollowUps\<close>: the hooks of
    \<open>services\<close> that read data (a record of label, parameters, request and defaults), those that send
    a request and settle a promise, and the requests sent after an answer.  \<open>ServiceFacts\<close>: that the
    keys of hooks and requests agree, and which do not; the locales \<open>cached_reads\<close> and \<open>settling\<close>
    say what follows for a component, and are interpreted for all service hooks.
  \<^item> \<open>Migrations\<close>: every migration; the driver \<open>createMigrate\<close> of redux-persist is an argument, and
    \<open>migrates_in_order\<close> states what its documentation says of it.
  \<^item> \<open>Arrays\<close>, \<open>ExpensesSplits\<close>: \<open>utils/arrays.ts\<close> and \<open>utils/getResourceExpensesSplits.ts\<close>.
    \<open>getRecursiveParent\<close> is a partial function, \<open>None\<close> where it does not return.
  \<^item> \<open>Dashboards\<close>: the charts of a task run, \<open>hooks/useTaskRunChartState.ts\<close>, as a state machine on the
    calls of its callbacks and the layouts it loads; \<open>session\<close> and \<open>hook_layout\<close> are the sessions that load nothing
    but the default dashboard and what sessions have saved (\<open>stored_layout\<close>, the answer of the server).  \<open>BreakdownData\<close>, \<open>BreakdownLines\<close>: the data behind
    charts, \<open>hooks/useBreakdownData.ts\<close>, \<open>hooks/useMlBreakdownLines.ts\<close> and \<open>utils/math.ts\<close>.
    \<open>Correlations\<close>: the runs a runset chart selects and the texts of its ticks
    (\<open>components/MlRunsetOverview\<close>, \<open>components/Correlations/utils.ts\<close> in it).  The functions of date-fns, the
    texts of the intl library and the callbacks of a chart configuration are arguments.
  \<^item> \<open>ArrayOrder\<close>: the sorting, ordering and summing functions of \<open>utils/arrays.ts\<close>; a sort is an
    insertion sort by the comparison, which is what a stable sort gives for a consistent one.
    \<open>RecommendationCatalogue\<close>: the classes of
    \<open>containers/RecommendationsOverviewContainer/recommendations\<close> as records, the tables of services and
    the lists of classes.  \<open>Recommendations\<close>: what a recommendation reads from the answer, the filters,
    the order of the overview and the pinned cards; \<open>pinned_since\<close> is the history of one pin.
  \<^item> \<open>TrafficExpenses\<close>, \<open>TrafficFacts\<close>: \<open>hooks/useTrafficExpenses.tsx\<close>, table, map and clicks as
    functions of the expenses and the selection; \<open>plain_traffic\<close> is what the totals need.
    \<open>RegionMap\<close>: \<open>hooks/useGeoClusterer.ts\<close> and \<open>utils/geo.ts\<close>, over the real numbers.
    \<open>ViewHooks\<close>: \<open>useHideActionsForSmallScreens.ts\<close>, whose effect runs until nothing changes
    (\<open>settle\<close>, a partial function), and \<open>usePaginationTableSettings.ts\<close>.
  \<^item> \<open>Server\<close>, \<open>ServerFacts\<close>: \<open>src/ngui/server\<close>.  A method of a client is the request it sends and the
    function that reads the answer (a method whose name an action creator has too ends in \<open>_call\<close>);
    the resolvers are tables from fields to methods; the transport is an argument (\<open>super_fetch\<close>), and
    so are the headers of Apollo, whose documented laws are the locale \<open>header_map\<close>.
  \<^item> \<open>ResourceFilters\<close>: the filters of the page of resources
    (\<open>components/Resources/filterConfigs.tsx\<close>) as records of functions, the page that keeps them in its
    address (\<open>containers/ResourcesContainer\<close>), saved perspectives, the filters and links of constraints.
    \<open>FilterForms\<close>: the forms of \<open>components/FilterComponents\<close> as machines on what the user does.
    \<open>ResourceFilterFacts\<close>, \<open>FilterFormFacts\<close>: what is read back from an address, and the pages in use
    (\<open>used_page\<close>), for values that keep their kind in an address; texts that look like numbers or truth values
    do not (\<open>number_like_tag_is_lost\<close>).  Writing and reading an address is one argument, \<open>query_string\<close> its
    documented laws; \<open>address_reader\<close> satisfies them.
  \<^item> \<open>Commitments\<close>, \<open>CommitmentFacts\<close>: reserved instances and savings plans
    (\<open>hooks/useRiSpBreakdowns.ts\<close>, \<open>pages/RiSpCoverage\<close>, \<open>components/RiSpCoverageTable\<close> and the two bar
    charts): what the table adds up, what is taken from the two answers, the error of rounding.
    \<open>RawExpenses\<close>, \<open>RawExpenseFacts\<close>: table and chart of the raw expenses of a resource
    (\<open>components/ResourceRawExpenses/utils/getData.ts\<close>).
  \<^item> \<open>PowerSchedules\<close>, \<open>PowerScheduleFacts\<close>: the form of power schedules (\<open>components/PowerScheduleForm\<close>),
    the chart of a day (\<open>components/PowerScheduleTriggersChart\<close>), the form that chooses instances.  The
    functions of date-fns are the record \<open>clock_env\<close>; \<open>clock_laws\<close> and \<open>zone_laws\<close> state their documentation
    for the times of a day of 24 hours and for a zone with a fixed offset, and hold of \<open>utc_clock\<close>; days on
    which the local clock is changed are left out.  The loop of
    \<open>generateDayHours\<close> is a partial function; with the step of the form it returns the 48 quarters
    of half a day.  \<open>state_at\<close> is the abstract state of a schedule, \<open>shown_at\<close> what the bars show.
  \<^item> \<open>DataCases\<close>: facts on the cases of the data reducers.  \<open>Catalogue\<close>: all requests of the program
    taken together.  \<open>Scenarios\<close>, \<open>DemoRuns\<close>, \<open>ServiceRuns\<close>: concrete runs at which the properties are
    instantiated.

  \<^bold>\<open>The properties\<close>, in this theory, in the order of the program: the flow of requests (which
  request is current, loading, cancelled, finished), the data and statuses the callbacks leave, the
  service hooks on top of them, the cache keys, the data reducers as updates of maps, the requests
  of the whole program, permissions, migrations, arrays, the splits of expenses, dashboards and charts,
  the UI server, the maps of traffic and regions, the action bar, the page of recommendations, the
  filters of the resources, commitments, raw expenses and power schedules.  Lemmas of this theory that
  are no properties hold for the parts named beside them.

  \<^bold>\<open>Bounds of the model.\<close>  Numbers are exact rationals: the rounding of floating point, NaN and the
  infinities are left out (a quotient that is none is \<open>None\<close>), so sums of costs are exact here unless the code
  rounds them.  Characters are code units below 256.  Objects have no
  prototype, except that groups of elements know the inherited names.  Two objects are never
  identical, as objects of the interface are compared by their keys; arrays are values, so the sort in
  place of \<open>SuggestionFilter\<close> does not reach the page.  Reading a property of
  undefined throws, as it does in the program.

  \<^bold>\<open>Not modelled.\<close>  Rendering (\<open>components\<close>, \<open>containers\<close>; the order and the number of renders is not
  fixed, so a property of a hook holds at every run of its effect), the GraphQL hooks and Apollo,
  redux-persist and the router, dispatches whose outcome the code ignores, the pool form that parses
  floating-point text, formatting and dates; of the UI server the transport, the schema library, the
  proxy and the static files; \<open>src/jira_ui\<close> and the Python services, of which the program sees only the
  answers, here arbitrary.
\<close>

section \<open>The flow of requests\<close>

text \<open>C1: In every reachable state, of two pending requests with the same label at least one was
  started with \<open>allowMultipleRequests\<close>.\<close>

theorem one_request_per_label:
  assumes "reachable cav bare w" "i \<noteq> j"
    "rm_view (w_requests w) i = Some l" "rm_view (w_requests w) j = Some l"
    "started w i = Some ri" "started w j = Some rj"
  shows "rq_allowMultipleRequests ri \<or> rq_allowMultipleRequests rj"
  using reachable_exclusive [OF assms(1)] assms(2-) unfolding exclusive_def by blast

theorem one_request_per_label_witness:
  "rm_view (w_requests w_two) ''r1'' = Some ''GET_USER'' \<and> rm_view (w_requests w_two) ''r2'' = Some ''GET_USER''
    \<and> (rq_allowMultipleRequests demo_user \<or> rq_allowMultipleRequests demo_multi)"
proof -
  have v: "rm_view (w_requests w_two) ''r1'' = Some ''GET_USER''" "rm_view (w_requests w_two) ''r2'' = Some ''GET_USER''"
    by code_simp+
  show ?thesis
    using one_request_per_label [OF w_two_reachable _ v, of demo_user demo_multi] v
    by (simp add: demo_started)
qed

text \<open>C2: A request that is superseded before its response arrived never delivers: once another
  request of its label is dispatched that does not allow others beside it, the earlier request
  is never in the phase in which its success callback runs, whatever happens afterwards.\<close>

theorem superseded_never_delivers:
  assumes "reachable cav bare w" "w_flights w i = Some fl" "fl_phase fl = Queued \<or> fl_phase fl = Flying"
    "rm_view (w_requests w) i = Some (rq_label rq)" "\<not> rq_allowMultipleRequests rq" "rq_label rq \<noteq> []"
    "w_flights w j = None" "handle_request cav j rq w = Inr w1" "(step cav bare)\<^sup>*\<^sup>* w1 w2"
  shows "\<exists>fl2. w_flights w2 i = Some fl2 \<and> (\<forall>resp. fl_phase fl2 \<noteq> Responded resp)"
proof -
  have w: "tracked w" by (rule reachable_tracked [OF assms(1)])
  have "undelivered (fl_phase fl)" using assms(3) by (auto simp: undelivered_def)
  from request_dooms [OF w assms(2) this assms(4-8)] have "doomed w1 i" .
  moreover have "tracked w1"
    using tracked_step [OF w] step.request [OF assms(7,8)] by blast
  ultimately have "doomed w2 i" using doomed_steps [OF assms(9)] by blast
  then show ?thesis by (auto simp: doomed_def undelivered_def)
qed

theorem superseded_never_delivers_witness:
  "\<exists>fl2. w_flights (after_request ''r2'' demo_user w_one) ''r1'' = Some fl2
    \<and> (\<forall>resp. fl_phase fl2 \<noteq> Responded resp)"
proof -
  have "tracked w_one" by (rule reachable_tracked [OF w_one_reachable])
  then obtain w1 where w1: "handle_request demo_cav ''r2'' demo_user w_one = Inr w1"
    using handle_request_total [of w_one demo_cav "''r2''" demo_user] by (auto simp: tracked_def)
  have v: "rm_view (w_requests w_one) ''r1'' = Some (rq_label demo_user)"
    and m: "\<not> rq_allowMultipleRequests demo_user" by code_simp+
  have "w_flights w_one ''r2'' = None" using demo_started(1) started_None [of w_one "''r2''"] by simp
  from superseded_never_delivers [OF w_one_reachable demo_flights(1) _ v m _ this w1 rtranclp.rtrancl_refl]
  show ?thesis by (simp add: after_request_def w1)
qed

text \<open>C3: A label shows as loading only while a request of that label has not finished.\<close>

theorem loading_has_request:
  assumes "reachable cav bare w" "hk_isLoading (useApiState now (w_store w) l p)"
  shows "\<exists>i fl. w_flights w i = Some fl \<and> rq_label (fl_request fl) = l \<and> fl_phase fl \<noteq> Finished"
proof -
  from reachable_loading_live [OF assms] obtain i where "live w i = Some l" by blast
  then show ?thesis by (auto simp: live_def fl_label_def split: option.splits if_splits)
qed

theorem loading_has_request_witness:
  "hk_isLoading (useApiState 0 (w_store w_one) ''GET_USER'' Undef)
    \<and> (\<exists>i fl. w_flights w_one i = Some fl \<and> rq_label (fl_request fl) = ''GET_USER'' \<and> fl_phase fl \<noteq> Finished)"
proof -
  have "hk_isLoading (useApiState 0 (w_store w_one) ''GET_USER'' Undef)" by code_simp
  with loading_has_request [OF w_one_reachable this] show ?thesis by blast
qed

text \<open>C4: A label with a pending request shows as loading, as long as no component resets the
  store without cancelling the requests.\<close>

theorem pending_shows_loading:
  assumes "reachable cav False w" "hasPendingRequest l (w_requests w)"
  shows "hk_isLoading (useApiState now (w_store w) l p)"
proof -
  have "rm_inv (w_requests w)" using reachable_tracked [OF assms(1)] by (simp add: tracked_def)
  then have "l \<in> ran (rm_view (w_requests w))" using assms(2) by (simp add: rm.has_view)
  then have "loading (w_store w) l"
    using reachable_pending_shown [OF assms(1)] by (simp add: pending_shown_def)
  then show ?thesis by (simp add: hk_isLoading_iff)
qed

theorem pending_shows_loading_witness:
  "hasPendingRequest ''GET_USER'' (w_requests w_flying)
    \<and> hk_isLoading (useApiState 5 (w_store w_flying) ''GET_USER'' Undef)"
proof -
  have "hasPendingRequest ''GET_USER'' (w_requests w_flying)" by code_simp
  with pending_shows_loading [OF w_flying_reachable this] show ?thesis by blast
qed

text \<open>C5: From every reachable state all requests can be driven to their end, and then no label
  shows as loading and no request is pending.\<close>

theorem requests_can_finish:
  assumes "reachable cav bare w"
  shows "\<exists>w'. (step cav bare)\<^sup>*\<^sup>* w w' \<and> (\<forall>i fl. w_flights w' i = Some fl \<longrightarrow> fl_phase fl = Finished)
    \<and> rm_view (w_requests w') = Map.empty
    \<and> (\<forall>now l p. \<not> hk_isLoading (useApiState now (w_store w') l p))"
proof -
  obtain w' where run: "(step cav bare)\<^sup>*\<^sup>* w w'" and empty: "live w' = Map.empty"
    using drain [OF reachable_finite [OF assms]] by blast
  have w': "reachable cav bare w'" using reachable_steps [OF assms run] .
  have "fl_phase fl = Finished" if "w_flights w' i = Some fl" for i fl
    using fun_cong [OF empty, of i] that by (auto simp: live_def split: if_splits)
  moreover have "rm_view (w_requests w') = Map.empty"
    using reachable_tracked [OF w'] empty by (auto simp: tracked_def)
  moreover have "\<not> hk_isLoading (useApiState now (w_store w') l p)" for now l p
    using reachable_loading_live [OF w', of now l p] empty by auto
  ultimately show ?thesis using run by blast
qed

theorem requests_can_finish_witness:
  "\<exists>w'. (step demo_cav False)\<^sup>*\<^sup>* w_two w' \<and> (\<forall>i fl. w_flights w' i = Some fl \<longrightarrow> fl_phase fl = Finished)
    \<and> rm_view (w_requests w') = Map.empty
    \<and> (\<forall>now l p. \<not> hk_isLoading (useApiState now (w_store w') l p))"
  by (rule requests_can_finish [OF w_two_reachable])


section \<open>The data a request leaves behind\<close>

text \<open>C6: When the success callback of a request that is still pending runs to its end, the hook
  asks for the data again exactly when the time to live of the request has passed (the hook
  called with the parameters of the request, or with none), for a label whose requests all
  supersede each other.\<close>

theorem fresh_after_success:
  assumes "reachable cav False w" "w_flights w i = Some fl" "fl_phase fl = Responded resp"
    "rm_view (w_requests w) i = Some l" "single_flight w l"
    "then_callback cav (w_now w) (w_requests w) (fl_request fl) resp (w_store w) = (st, None)"
    "p = Undef \<or> hashParams p = rq_hash (fl_request fl)"
  shows "hk_shouldInvoke (useApiState now st l p) \<longleftrightarrow> now > w_now w + rq_ttl (fl_request fl)"
  using refreshed [OF assms(1,2,4,5,6)] fresh_until_ttl [OF _ _ assms(7)] by blast

theorem fresh_after_success_witness:
  "hk_shouldInvoke (useApiState 1800000 (w_store w_delivered) ''GET_USER'' Undef) = False
    \<and> hk_shouldInvoke (useApiState 1800001 (w_store w_delivered) ''GET_USER'' Undef)"
proof -
  have run: "then_callback demo_cav (w_now w_responded) (w_requests w_responded)
      (fl_request (demo_flight (Responded (ok_response user_data)))) (ok_response user_data) (w_store w_responded)
    = (w_store w_delivered, None)"
    by (rule demo_then)
  have v: "rm_view (w_requests w_responded) ''r1'' = Some ''GET_USER''"
    "w_now w_responded + rq_ttl demo_user = 1800000" "\<not> rq_allowMultipleRequests demo_user" by code_simp+
  have "single_flight w_responded ''GET_USER''"
    using v(3) by (auto simp: single_flight_def demo_started split: if_splits)
  from fresh_after_success [OF w_responded_reachable demo_flights(3) _ v(1) this run, of Undef] v(2)
  show ?thesis by simp
qed

text \<open>C7: A success makes the hook of every affected label ask again at once, whatever its
  parameters, and leaves the entries of the other labels alone.\<close>

theorem affected_requests_refetch:
  assumes "then_callback cav now rm rq resp st = (st', None)" "l \<noteq> rq_label rq"
  shows "if l \<in> set (getAffectedRequests (rq_label rq) rm)
    then \<forall>t > 0. \<forall>p. hk_shouldInvoke (useApiState t st' l p)
    else \<forall>t p. useApiState t st' l p = useApiState t st l p"
proof (cases "l \<in> set (getAffectedRequests (rq_label rq) rm)")
  case True
  then have "timestamp (entry_of (st_api st') l) = Some 0" using then_done(3) [OF assms(1)] assms(2) by simp
  with True show ?thesis by (simp add: shouldInvoke_iff)
next
  case False
  then have "entry_of (st_api st') l = entry_of (st_api st) l" using then_done(4) [OF assms(1)] assms(2) by simp
  with False show ?thesis by (simp add: useApiState_def is_error_def)
qed

theorem affected_requests_refetch_witness:
  "\<forall>t p. useApiState t (w_store w_delivered) ''GET_TOKEN'' p = useApiState t (w_store w_responded) ''GET_TOKEN'' p"
proof -
  have "''GET_TOKEN'' \<noteq> rq_label demo_user"
    "''GET_TOKEN'' \<notin> set (getAffectedRequests (rq_label demo_user) (w_requests w_responded))" by code_simp+
  with affected_requests_refetch [OF demo_then, of "''GET_TOKEN''"] show ?thesis by simp
qed

text \<open>C8: A response with status 401 signs the user out: no data and no pending request is left,
  every pending request was aborted, and every other label is back in its initial state.\<close>

theorem unauthorized_signs_out:
  assumes "rm_inv rm" "opt_prop resp ''status'' = Num 401"
    "catch_callback cav now rq (HttpError resp) (st, rm) = (st', rm')"
  shows "data_slices st' = (Map.empty, Map.empty, Map.empty) \<and> rm_view rm' = Map.empty
    \<and> rm_aborted rm' = rm_aborted rm \<union> dom (rm_view rm)
    \<and> (\<forall>l. \<not> loading st' l) \<and> (\<forall>l. l \<noteq> rq_label rq \<longrightarrow> entry_of (st_api st') l = no_entry)"
  using catch_unauthorized [OF assms] by blast

theorem unauthorized_signs_out_witness:
  "\<exists>st' rm'. catch_callback demo_cav 7 demo_user (HttpError (error_response 401)) (w_store w_two, w_requests w_two) = (st', rm')
    \<and> data_slices st' = (Map.empty, Map.empty, Map.empty) \<and> rm_view rm' = Map.empty"
proof -
  have "rm_inv (w_requests w_two)" "opt_prop (error_response 401) ''status'' = Num 401" by code_simp+
  with unauthorized_signs_out show ?thesis by (metis surj_pair)
qed

text \<open>C9: Any other failure of a request, an abort included, keeps all data, the registry and the
  expiry of every label, and changes the entry of no other label.\<close>

theorem failure_keeps_data:
  assumes "benign f" "catch_callback cav now rq f (st, rm) = (st', rm')"
  shows "rm' = rm \<and> (\<forall>l d. useApiData st' l d = useApiData st l d)
    \<and> (\<forall>t l p. hk_shouldInvoke (useApiState t st' l p) = hk_shouldInvoke (useApiState t st l p))
    \<and> (\<forall>l. l \<noteq> rq_label rq \<longrightarrow> entry_of (st_api st') l = entry_of (st_api st) l)"
proof -
  note c = catch_benign [OF assms]
  have "useApiData st' l d = useApiData st l d" for l d
    using c(2) by (simp add: useApiData_def data_slices_def)
  moreover have "hk_shouldInvoke (useApiState t st' l p) = hk_shouldInvoke (useApiState t st l p)" for t l p
    using c(3,4) by (simp add: shouldInvoke_iff cache_key_def same_flags_hash)
  ultimately show ?thesis using c(1,5) by blast
qed

theorem failure_keeps_data_witness:
  "\<exists>st' rm'. catch_callback demo_cav 7 demo_user (HttpError (error_response 500)) (w_store w_two, w_requests w_two) = (st', rm')
    \<and> rm' = w_requests w_two \<and> (\<forall>l d. useApiData st' l d = useApiData (w_store w_two) l d)"
proof -
  have "benign (HttpError (error_response 500))" by code_simp
  with failure_keeps_data show ?thesis by (metis surj_pair)
qed

text \<open>When the reducer throws on the data of a response, the request leaves no trace: the catch
  callback throws in its turn (the exception has no \<open>config\<close>), the store is unchanged, and no
  error is recorded for the label.\<close>

lemma reducer_exception_is_silent:
  assumes "w_flights w i = Some fl" "fl_phase fl = Responded resp" "rq_onSuccess (fl_request fl) = Some f"
    "get_prop resp ''data'' = Inr d"
    "root_reducer cav (w_now w) (w_store w) (Data (f d (rq_label (fl_request fl)))) = Inl e"
  shows "in_phase (do_then cav i fl resp w) i (\<lambda>p. p = Failed (Thrown e))
    \<and> w_store (do_catch cav i fl (Thrown e) (do_then cav i fl resp w)) = w_store w"
  using then_throws [OF assms(3-5)] assms(1)
  by (simp add: do_then_def do_catch_def catch_callback_def in_phase_def phase_after_set)

lemma reducer_exception_is_silent_witness:
  "w_store (do_catch demo_cav ''r1'' (demo_flight (Responded (Obj [(''data'', Undef)]))) (Thrown TypeError)
      (do_then demo_cav ''r1'' (demo_flight (Responded (Obj [(''data'', Undef)]))) (Obj [(''data'', Undef)]) w_broken))
    = w_store w_broken"
proof -
  have "rq_onSuccess demo_user = Some (handleSuccess ''SET_USER'')"
    by (simp add: demo_user_def getUser_def apiAction_def)
  moreover have "get_prop (Obj [(''data'', Undef)]) ''data'' = Inr Undef" by simp
  moreover have "root_reducer demo_cav (w_now w_broken) (w_store w_broken)
      (Data (handleSuccess ''SET_USER'' Undef (rq_label demo_user))) = Inl TypeError"
    by (simp add: root_reducer_def app_reducer_def step_defs handleSuccess_def auth_reducer_def case_SET_USER_def)
  ultimately show ?thesis
    using reducer_exception_is_silent [OF demo_flights(4), of "Obj [(''data'', Undef)]"] by simp
qed

text \<open>C10: A failed request whose parameters differ from those of the data makes that data look
  current: while an earlier success has not expired, the hook called with the new parameters does
  not ask again, and reports the earlier data.\<close>

theorem failed_refetch_serves_earlier_data:
  assumes "reachable cav False w" "w_flights w i = Some fl" "fl_phase fl = Failed f" "benign f"
    "rm_view (w_requests w) i = Some l" "single_flight w l" "hashParams p = rq_hash (fl_request fl)"
    "timestamp (entry_of (st_api (w_store w)) l) = Some t" "now \<le> t"
  shows "\<not> hk_shouldInvoke (useApiState now (w_store (do_catch cav i fl f w)) l p)
    \<and> (\<forall>d. useApiData (w_store (do_catch cav i fl f w)) l d = useApiData (w_store w) l d)"
proof -
  obtain st rm where run: "catch_callback cav (w_now w) (fl_request fl) f (w_store w, w_requests w) = (st, rm)"
    by fastforce
  then have st: "w_store (do_catch cav i fl f w) = st" by (simp add: do_catch_def)
  note c = catch_benign [OF assms(4) run]
  have "started w i = Some (fl_request fl)" using assms(2) by (simp add: started_def)
  then have "cache_key (w_store w) l = hashParams p"
    using reachable_keyed [OF assms(1)] assms(5-7) unfolding keyed_def by simp
  then have "cache_key st l = hashParams p"
    using c(3) by (simp add: cache_key_def same_flags_hash)
  moreover have "timestamp (entry_of (st_api st) l) = Some t" using c(4) assms(8) by simp
  ultimately show ?thesis
    using c(2) assms(9) key_matches [of st l p]
    by (simp add: st shouldInvoke_iff useApiData_def data_slices_def)
qed

theorem failed_refetch_serves_earlier_data_witness:
  "\<not> hk_shouldInvoke (useApiState 9 (w_store (do_catch demo_cav ''r2''
      (the (w_flights w_refailed ''r2'')) (HttpError (error_response 500)) w_refailed)) ''GET_POOL_ALLOWED_ACTIONS'' (Str ''p2''))"
proof -
  obtain st where fl: "w_flights w_refailed ''r2'' = Some ((new_flight (getPoolAllowedActions (Str ''p2'')) st)
      \<lparr>fl_phase := Failed (HttpError (error_response 500))\<rparr>)"
    using w_refailed_flight by blast
  have b: "benign (HttpError (error_response 500))" by code_simp
  have v: "rm_view (w_requests w_refailed) ''r2'' = Some ''GET_POOL_ALLOWED_ACTIONS''"
    "timestamp (entry_of (st_api (w_store w_refailed)) ''GET_POOL_ALLOWED_ACTIONS'') = Some 1800000"
    by code_simp+
  have k: "hashParams (Str ''p2'') = rq_hash (getPoolAllowedActions (Str ''p2''))"
    by (simp add: getPoolAllowedActions_def apiAction_def)
  have sf: "single_flight w_refailed ''GET_POOL_ALLOWED_ACTIONS''" by (rule w_refailed_single)
  from failed_refetch_serves_earlier_data [OF w_refailed_reachable fl _ b v(1) sf _ v(2), of "Str ''p2''" 9] k fl
  show ?thesis by (simp add: new_flight_def)
qed

text \<open>A component that resets the store without cancelling the requests leaves a pending
  request whose label does not show as loading, and lets a request of the earlier session write
  its data into the new one.\<close>

lemma bare_reset_leaks:
  "(\<exists>w. reachable demo_cav True w \<and> hasPendingRequest ''GET_USER'' (w_requests w)
      \<and> \<not> hk_isLoading (useApiState 0 (w_store w) ''GET_USER'' Undef)
      \<and> useApiData (w_store w) ''GET_USER'' Undef = Undef
      \<and> (\<exists>w'. (step demo_cav True)\<^sup>*\<^sup>* w w' \<and> started w' = started w
          \<and> useApiData (w_store w') ''GET_USER'' Undef = Obj [(''name'', Str ''Ann''), (''email'', Str ''ann@x'')]))"
proof (intro exI conjI)
  show "reachable demo_cav True w_reset" by (rule w_reset_reachable)
  show "hasPendingRequest ''GET_USER'' (w_requests w_reset)"
    "\<not> hk_isLoading (useApiState 0 (w_store w_reset) ''GET_USER'' Undef)"
    "useApiData (w_store w_reset) ''GET_USER'' Undef = Undef"
    "useApiData (w_store w_leaked) ''GET_USER'' Undef = Obj [(''name'', Str ''Ann''), (''email'', Str ''ann@x'')]"
    by code_simp+
  show "(step demo_cav True)\<^sup>*\<^sup>* w_reset w_leaked" "started w_leaked = started w_reset"
    by (rule w_leaked_steps, rule w_leaked_started)
qed

text \<open>A form submitted again shows the outcome of its previous submission: after \<open>onSubmit\<close> and
  the start of the request, the next render sets \<open>sendState\<close> to the status stored before, not to
  \<open>UNKNOWN\<close> as the comment in \<open>useApiSendState\<close> intends.\<close>

lemma resubmission_shows_previous_result:
  "sendState (after_render (useLastResult (st\<lparr>st_api := on_start (st_api st) l h e\<rparr>) l) (onSubmit s))
    = result_status (useLastResult st l)"
  by (simp add: after_render_def onSubmit_def useLastResult_def on_start_def)

text \<open>A request that was cancelled, or got no response, is reported as an error of its label,
  even while a later request of the label is loading.\<close>

lemma cancelled_request_reports_error:
  assumes "w_flights w i = Some fl" "fl_phase fl = Failed (NoResponse url)"
  shows "hk_isError (useApiState now (w_store (do_catch cav i fl (NoResponse url) w)) (rq_label (fl_request fl)) p)
    \<and> hk_isLoading (useApiState now (w_store (do_catch cav i fl (NoResponse url) w)) l p)
      = hk_isLoading (useApiState now (w_store w) l p)"
  using apiError_recorded [OF no_response_config, of "rq_label (fl_request fl)" cav "w_now w" url]
  by (simp add: do_catch_def catch_callback_def hk_isLoading_iff) (simp add: useApiState_def Let_def)

lemma cancelled_request_reports_error_witness:
  "hk_isError (useApiState 0 (w_store (do_catch demo_cav ''r1'' (demo_flight (Failed (NoResponse ''/u'')))
      (NoResponse ''/u'') (set_phase ''r1'' (Failed (NoResponse ''/u'')) w_flying))) ''GET_USER'' Undef)"
proof -
  have "w_flights (set_phase ''r1'' (Failed (NoResponse ''/u'')) w_flying) ''r1''
      = Some (demo_flight (Failed (NoResponse ''/u'')))"
    by (simp add: set_phase_flight [OF demo_flights(2)]) (simp add: demo_flight_def)
  from cancelled_request_reports_error [OF this, of "''/u''" 0 demo_cav Undef] show ?thesis by simp
qed

section \<open>The service hooks\<close>

text \<open>C11: Every service hook that reads data dispatches a GET request of the label it reads, and reads
  with the parameters its request is cached by, except the hooks of six labels.\<close>

theorem service_hooks_coherent:
  assumes "service_read h"
  shows "rq_label (rd_request h) = rd_label h \<and> rq_method (rd_request h) = ''GET''
    \<and> (mismatched h \<or> rd_params h = Undef \<or> hashParams (rd_params h) = rq_hash (rd_request h))"
  using service_own_label [OF assms] service_coherent [OF assms] by (auto simp: own_label_def coherent_def)

theorem service_hooks_coherent_witness:
  "hashParams (rd_params (Webhooks_useGet (Str ''o'') (Str ''p'') (Str ''pool'')))
    = rq_hash (rd_request (Webhooks_useGet (Str ''o'') (Str ''p'') (Str ''pool'')))"
proof -
  have "service_read (Webhooks_useGet (Str ''o'') (Str ''p'') (Str ''pool''))"
    by (simp add: service_read_def r_Webhooks_useGet)
  moreover have "\<not> mismatched (Webhooks_useGet (Str ''o'') (Str ''p'') (Str ''pool''))"
    "rd_params (Webhooks_useGet (Str ''o'') (Str ''p'') (Str ''pool'')) \<noteq> Undef" by code_simp+
  ultimately show ?thesis using service_hooks_coherent by blast
qed

text \<open>C12: Once the request of a service hook has succeeded, a run of its effect does nothing until the
  time to live of the request has passed, and dispatches the request again from then on (hooks with
  coherent parameters, labels whose requests supersede each other).\<close>

theorem service_hook_refetches:
  assumes "service_read h" "\<not> mismatched h" "rd_request h = fl_request fl"
    "reachable cav False w" "w_flights w i = Some fl" "rm_view (w_requests w) i = Some l"
    "single_flight w l" "then_callback cav (w_now w) (w_requests w) (fl_request fl) resp (w_store w) = (st, None)"
  shows "rd_effect now st h =
    (if rd_enabled h \<and> now > w_now w + rq_ttl (rd_request h) then Some (rd_request h) else None)"
  using services.refetches [OF _ assms(3-)] assms(1,2) by blast

theorem service_hook_refetches_witness:
  "rd_effect 1800000 (w_store w_delivered) (User_useGet (Str ''u1'')) = None
    \<and> rd_effect 1800001 (w_store w_delivered) (User_useGet (Str ''u1'')) = Some demo_user"
proof -
  let ?h = "User_useGet (Str ''u1'')"
  have h: "service_read ?h" by (simp add: service_read_def r_User_useGet)
  have m: "\<not> mismatched ?h" "rd_enabled ?h" by code_simp+
  have rq: "rd_request ?h = fl_request (demo_flight (Responded (ok_response user_data)))"
    by (simp add: User_useGet_def demo_user_def)
  have v: "rm_view (w_requests w_responded) ''r1'' = Some ''GET_USER''"
    "w_now w_responded + rq_ttl demo_user = 1800000" "\<not> rq_allowMultipleRequests demo_user" by code_simp+
  have "single_flight w_responded ''GET_USER''"
    using v(3) by (auto simp: single_flight_def demo_started split: if_splits)
  from service_hook_refetches [OF h m(1) rq w_responded_reachable demo_flights(3) v(1) this demo_then] v(2) m(2)
  show ?thesis by (simp add: rq)
qed

text \<open>A hook whose parameters differ from those of its request is never satisfied: after its own
  request succeeded, every run of its effect dispatches the request again, at any time, so nothing
  is served from the cache (the six hooks at sample arguments).\<close>

lemma mismatched_hooks_always_ask:
  assumes "h \<in> set mismatch_samples" "rd_request h = fl_request fl"
    "reachable cav False w" "w_flights w i = Some fl" "rm_view (w_requests w) i = Some l"
    "single_flight w l" "then_callback cav (w_now w) (w_requests w) (fl_request fl) resp (w_store w) = (st, None)"
  shows "rd_effect now st h = Some (rd_request h)"
proof -
  note r = refreshed [OF assms(3-7)]
  have "rq_label (rd_request h) = rd_label h" using assms(1) mismatch_samples_own by (simp add: list_all_iff)
  then have "cache_key st (rd_label h) = rq_hash (rd_request h)" using r(1,2) assms(2) by simp
  then show ?thesis by (rule mismatch_samples_ask [OF assms(1)])
qed

lemma mismatched_hooks_always_ask_witness:
  "rd_effect 0 (fst options_delivered) options_hook = Some (rd_request options_hook)"
proof -
  let ?rq = "rd_request options_hook" and ?w = "w_answered (rd_request options_hook) options_response"
  have ne: "rq_label ?rq \<noteq> []" using options_pending(3) by simp
  obtain st where fl: "w_flights ?w ''r1'' = Some (asked_flight ?rq (Responded options_response) st)"
    using answered_flight [OF ne] by blast
  have run: "then_callback demo_cav (w_now ?w) (w_requests ?w) (fl_request (asked_flight ?rq (Responded options_response) st))
      options_response (w_store ?w) = (fst options_delivered, None)"
    using options_done by (simp add: options_delivered_def prod_eq_iff)
  have h: "options_hook \<in> set mismatch_samples" by (simp add: options_hook_def mismatch_samples_def)
  show ?thesis
    using mismatched_hooks_always_ask [OF h _ answered_reachable [OF ne options_pending(2)] fl options_pending(1)
        answered_single [OF ne options_pending(4)] run] by simp
qed

text \<open>C13: The promise a service command returns is rejected when its request failed with an answer or
  without one, and resolved when its success callback ran to the end, whatever the status of the
  label was before (all commands but the deletion of a pool).\<close>

theorem commands_settle_by_own_request:
  assumes "service_command c" "rq_label (cm_request c) \<noteq> ''DELETE_POOL''" "fl_request fl = cm_request c"
  shows "(reported f \<longrightarrow> cm_settle c (w_store (do_finally cav i fl' (do_catch cav i fl f w))) = Rejected)
    \<and> (then_callback cav (w_now w) (w_requests w) (fl_request fl) resp (w_store w) = (st, None) \<longrightarrow>
      cm_settle c (w_store (do_finally cav i fl' (do_then cav i fl resp w))) \<noteq> Rejected)"
  using submits.rejected [OF _ assms(3)] submits.resolved [OF _ assms(3)] assms(1,2) by blast

theorem commands_settle_by_own_request_witness:
  "cm_settle (PowerSchedule_useDelete (Str ''s''))
     (w_store (do_finally demo_cav ''r1'' (asked_flight (deletePowerSchedule (Str ''s'')) Settled store_init)
       (do_catch demo_cav ''r1'' (asked_flight (deletePowerSchedule (Str ''s'')) Queued store_init)
         (HttpError (error_response 500)) (w_asked (deletePowerSchedule (Str ''s'')))))) = Rejected"
proof -
  have c: "service_command (PowerSchedule_useDelete (Str ''s''))"
    by (simp add: service_command_def k_PowerSchedule_useDelete)
  have l: "rq_label (cm_request (PowerSchedule_useDelete (Str ''s''))) \<noteq> ''DELETE_POOL''"
 by code_simp
  have r: "reported (HttpError (error_response 500))"
    by (simp add: reported_def benign_def has_config_def error_response_def)
  have "fl_request (asked_flight (deletePowerSchedule (Str ''s'')) Queued store_init)
      = cm_request (PowerSchedule_useDelete (Str ''s''))"
    by (simp add: PowerSchedule_useDelete_def)
  from commands_settle_by_own_request [OF c l this] r show ?thesis by blast
qed

text \<open>A failed deletion of a pool is reported as a success: the label holds the error, yet the
  promise is resolved, so the caller goes on as if the pool had been deleted.\<close>

lemma failed_pool_deletion_resolves:
  assumes "reported f" "fl_request fl = cm_request (Pools_useDelete i)"
  shows "is_error ''DELETE_POOL'' (w_store (do_finally cav j fl' (do_catch cav j fl f w))) = Some True
    \<and> cm_settle (Pools_useDelete i) (w_store (do_finally cav j fl' (do_catch cav j fl f w))) = Resolved Undef"
proof -
  have "rq_label (cm_request (Pools_useDelete i)) = ''DELETE_POOL''"
    by (simp add: Pools_useDelete_def action_defs)
  with catch_records [OF assms(1), of fl cav j w] assms(2) show ?thesis
    by (simp add: delete_pool_resolves finally_keeps_error)
qed

lemma failed_pool_deletion_resolves_witness:
  "cm_settle (Pools_useDelete (Str ''p''))
     (w_store (do_finally demo_cav ''r1'' (asked_flight (deletePool (Str ''p'')) Settled store_init)
       (do_catch demo_cav ''r1'' (asked_flight (deletePool (Str ''p'')) Queued store_init)
         (HttpError (error_response 500)) (w_asked (deletePool (Str ''p'')))))) = Resolved Undef"
proof -
  have r: "reported (HttpError (error_response 500))"
    by (simp add: reported_def benign_def has_config_def error_response_def)
  have "fl_request (asked_flight (deletePool (Str ''p'')) Queued store_init) = cm_request (Pools_useDelete (Str ''p''))"
    by (simp add: Pools_useDelete_def)
  from failed_pool_deletion_resolves [OF r this] show ?thesis by blast
qed

section \<open>Cache keys\<close>

text \<open>The cache key of a parameter object does not depend on the order of its properties
  (names without a comma, which separates name and value in the sort key).\<close>

lemma hash_ignores_property_order:
  assumes "mset kvs = mset kvs'" "distinct (map fst kvs)" "\<forall>k \<in> fst ` set kvs. CHR '','' \<notin> set k"
  shows "hashParams (Obj kvs) = hashParams (Obj kvs')"
  using assms by (rule hashParams_perm)

lemma hash_ignores_property_order_witness:
  "hashParams (Obj [(''organizationId'', Str ''o1''), (''limit'', Num 5)])
    = hashParams (Obj [(''limit'', Num 5), (''organizationId'', Str ''o1'')])"
  by (rule hash_ignores_property_order) simp_all

text \<open>C14: The hash of a text that is not empty is a 32-bit signed integer, congruent modulo \<open>2 ^ 32\<close> to the
  polynomial with its character codes as coefficients, the last one constant, at 31, however long the text is and however
  often the additions and products of the loop wrap around; the empty text has the hash undefined.\<close>

theorem hash_is_int32_polynomial:
  "getHash [] = Undef \<and> (s \<noteq> [] \<longrightarrow> (\<exists>i. getHash s = Num (of_int i) \<and> - (2 ^ 31) \<le> i \<and> i < 2 ^ 31
    \<and> i mod 2 ^ 32 = int (\<Sum>j < length s. of_char (s ! j) * 31 ^ (length s - 1 - j)) mod 2 ^ 32))"
proof (intro conjI impI exI)
  show "getHash [] = Undef" by (rule getHash_Nil)
  let ?w = "of_nat (code_poly s) :: 32 word"
  assume "s \<noteq> []"
  then show "getHash s = Num (of_int (sint ?w))" by (rule getHash_poly)
  show "- (2 ^ 31) \<le> sint ?w" "sint ?w < 2 ^ 31" using sint_ge [of ?w] sint_lt [of ?w] by simp_all
  show "sint ?w mod 2 ^ 32 = int (\<Sum>j < length s. of_char (s ! j) * 31 ^ (length s - 1 - j)) mod 2 ^ 32"
    unfolding code_poly_sum [symmetric] using uint_sint [of ?w] by (simp add: take_bit_eq_mod unsigned_of_nat zmod_int)
qed

theorem hash_is_int32_polynomial_witness:
  "\<exists>i. getHash ''organizationId'' = Num (of_int i) \<and> - (2 ^ 31) \<le> i \<and> i < 2 ^ 31
    \<and> i mod 2 ^ 32 = int (\<Sum>j < length ''organizationId''. of_char (''organizationId'' ! j) * 31 ^ (length ''organizationId'' - 1 - j)) mod 2 ^ 32"
  by (rule hash_is_int32_polynomial [of "''organizationId''", THEN conjunct2, rule_format]) simp

section \<open>The data reducers\<close>

text \<open>A sequence of actions never loses a slot of the REST data, and leaves a slot alone unless
  one of them carries its label (or is the leaderboard update, which also writes the list of
  leaderboards).\<close>

lemma other_slots_untouched:
  assumes "foldM_js restapi_reducer st as = Inr st'"
  shows "dom st \<subseteq> dom st' \<and>
    (\<forall>l. list_all (\<lambda>a. act_label a \<noteq> l \<and> (act_type a = ''UPDATE_ML_LEADERBOARD'' \<longrightarrow> l \<noteq> ''GET_ML_LEADERBOARDS'')) as
      \<longrightarrow> st' l = st l)"
proof (intro conjI allI impI)
  show "dom st \<subseteq> dom st'" by (rule restapi.run_keeps [OF assms])
  fix l assume "list_all (\<lambda>a. act_label a \<noteq> l \<and> (act_type a = ''UPDATE_ML_LEADERBOARD'' \<longrightarrow> l \<noteq> ''GET_ML_LEADERBOARDS'')) as"
  then have "list_all (restapi.untouched l) as"
    by (rule list.pred_mono_strong) (auto simp: restapi.untouched_def restapi_extra_def)
  then show "st' l = st l" by (rule restapi.run_untouched [OF assms])
qed

lemma other_slots_untouched_witness:
  "foldM_js restapi_reducer [''GET_POOL'' \<mapsto> Num 1] [\<lparr>act_type = ''SET_ML_TASK'', act_label = ''GET_ML_TASK'', act_payload = Num 2\<rparr>]
      = Inr [''GET_POOL'' \<mapsto> Num 1, ''GET_ML_TASK'' \<mapsto> Num 2]
    \<and> [''GET_POOL'' \<mapsto> Num 1, ''GET_ML_TASK'' \<mapsto> Num 2] ''GET_POOL'' = Some (Num 1)"
proof -
  have run: "foldM_js restapi_reducer [''GET_POOL'' \<mapsto> Num 1] [\<lparr>act_type = ''SET_ML_TASK'', act_label = ''GET_ML_TASK'', act_payload = Num 2\<rparr>]
      = Inr [''GET_POOL'' \<mapsto> Num 1, ''GET_ML_TASK'' \<mapsto> Num 2]"
    by (simp add: restapi_reducer_def restapi_cases_defs store_payload_def put_def)
  with other_slots_untouched [OF run] show ?thesis by simp
qed

text \<open>Storing a pool policy is an update of the map from policy types to policies, and keeps
  one policy per type.\<close>

lemma pool_policy_is_map_update:
  assumes "act_type a = ''SET_POOL_POLICY''" "act_payload a = Obj q" "\<not> is_object (obj_get q ''type'')"
    "current st (act_label a) = Obj kvs" "obj_get kvs ''poolPolicies'' = Arr (map Obj ps)" "keyed_list ''type'' ps"
  shows "\<exists>ps'. restapi_reducer st a = Inr (put st a (Obj [(''poolPolicies'', Arr (map Obj ps'))]))
    \<and> keyed_list ''type'' ps' \<and> by_key ''type'' ps' = (by_key ''type'' ps)(obj_get q ''type'' \<mapsto> q)"
  using set_pool_policy [OF assms(1,2,4,5)] upsert_keyed [OF assms(6,3)] upsert_map [OF assms(6)] by blast

lemma pool_policy_is_map_update_witness:
  "\<exists>ps'. restapi_reducer [''GET_POOL_POLICIES'' \<mapsto> Obj [(''poolPolicies'', Arr (map Obj [[(''type'', Str ''ttl''), (''limit'', Num 1)]]))]]
      \<lparr>act_type = ''SET_POOL_POLICY'', act_label = ''GET_POOL_POLICIES'', act_payload = Obj [(''type'', Str ''ttl''), (''limit'', Num 2)]\<rparr>
      = Inr ([''GET_POOL_POLICIES'' \<mapsto> Obj [(''poolPolicies'', Arr (map Obj ps'))]])
    \<and> by_key ''type'' ps' (Str ''ttl'') = Some [(''type'', Str ''ttl''), (''limit'', Num 2)]"
  using pool_policy_is_map_update [of "\<lparr>act_type = ''SET_POOL_POLICY'', act_label = ''GET_POOL_POLICIES'',
        act_payload = Obj [(''type'', Str ''ttl''), (''limit'', Num 2)]\<rparr>" "[(''type'', Str ''ttl''), (''limit'', Num 2)]"
      "[''GET_POOL_POLICIES'' \<mapsto> Obj [(''poolPolicies'', Arr (map Obj [[(''type'', Str ''ttl''), (''limit'', Num 1)]]))]]" _
      "[[(''type'', Str ''ttl''), (''limit'', Num 1)]]"]
  by (force simp: put_def current_def keyed_list_def key_of_def)

text \<open>Deleting a webhook removes its id from the map of webhooks and no other.\<close>

lemma delete_webhook_is_map_removal:
  assumes "a = onSuccessDeleteWebhook i d l" "current st ''GET_WEBHOOKS'' = Arr (map Obj ps)" "keyed_list ''id'' ps"
  shows "\<exists>ps'. restapi_reducer st a = Inr (put st a (Arr (map Obj ps')))
    \<and> keyed_list ''id'' ps' \<and> by_key ''id'' ps' = (by_key ''id'' ps)(i := None)"
proof -
  have "list_all (\<lambda>p. \<not> is_object (key_of ''id'' p)) ps" using assms(3) by (simp add: keyed_list_def)
  with delete_webhook [of a st ps] assms keyed_filter [OF assms(3)] show ?thesis
    by (auto simp: onSuccessDeleteWebhook_def strict_filter by_key_filter)
qed

lemma delete_webhook_is_map_removal_witness:
  "\<exists>ps'. restapi_reducer [''GET_WEBHOOKS'' \<mapsto> Arr (map Obj [[(''id'', Str ''w1'')], [(''id'', Str ''w2'')]])]
      (onSuccessDeleteWebhook (Str ''w1'') Undef ''DELETE_WEBHOOK'')
      = Inr ([''GET_WEBHOOKS'' \<mapsto> Arr (map Obj ps')])
    \<and> by_key ''id'' ps' (Str ''w1'') = None"
  using delete_webhook_is_map_removal [OF refl, of "[''GET_WEBHOOKS'' \<mapsto> Arr (map Obj [[(''id'', Str ''w1'')], [(''id'', Str ''w2'')]])]"
      "[[(''id'', Str ''w1'')], [(''id'', Str ''w2'')]]" "Str ''w1''" Undef "''DELETE_WEBHOOK''"]
  by (force simp: put_def current_def keyed_list_def key_of_def onSuccessDeleteWebhook_def)

text \<open>A successful update of a webhook appends the new version and keeps the old one: the list
  then has two webhooks with one id.\<close>

lemma update_webhook_duplicates:
  assumes "a = onSuccessUpdateWebhook (Obj q) l" "current st ''GET_WEBHOOKS'' = Arr (map Obj ps)"
    "p \<in> set ps" "obj_get p ''id'' = obj_get q ''id''"
  shows "\<exists>ps'. restapi_reducer st a = Inr (put st a (Arr (map Obj ps')))
    \<and> length ps' = Suc (length ps) \<and> \<not> distinct (map (key_of ''id'') ps')"
proof -
  have "restapi_reducer st a = Inr (put st a (Arr (map Obj (ps @ [q]))))"
    by (rule update_webhook) (use assms(1,2) in \<open>simp_all add: onSuccessUpdateWebhook_def\<close>)
  moreover have "\<not> distinct (map (key_of ''id'') (ps @ [q]))"
    using assms(3,4) by (auto simp: key_of_def intro: rev_image_eqI)
  ultimately show ?thesis by (intro exI [of _ "ps @ [q]"]) simp
qed

lemma update_webhook_duplicates_witness:
  "\<exists>ps'. restapi_reducer [''GET_WEBHOOKS'' \<mapsto> Arr (map Obj [[(''id'', Str ''w1''), (''active'', Bool True)]])]
      (onSuccessUpdateWebhook (Obj [(''id'', Str ''w1''), (''active'', Bool False)]) ''UPDATE_WEBHOOK'')
      = Inr ([''GET_WEBHOOKS'' \<mapsto> Arr (map Obj ps')])
    \<and> length ps' = 2 \<and> \<not> distinct (map (key_of ''id'') ps')"
  using update_webhook_duplicates [OF refl, of "[''GET_WEBHOOKS'' \<mapsto> Arr (map Obj [[(''id'', Str ''w1''), (''active'', Bool True)]])]"
      "[[(''id'', Str ''w1''), (''active'', Bool True)]]" "[(''id'', Str ''w1''), (''active'', Bool True)]"
      "[(''id'', Str ''w1''), (''active'', Bool False)]" "''UPDATE_WEBHOOK''"]
  by (simp add: put_def current_def onSuccessUpdateWebhook_def numeral_2_eq_2)

text \<open>Storing a resource constraint sets the entry of its type and keeps the entries of the
  other types.\<close>

lemma resource_constraint_is_update:
  assumes "a = onSuccessCreateResourceConstraint (Obj q) l" "obj_get q ''type'' = Str t"
    "has_constraints (current st ''GET_RESOURCE'') cs" "distinct (map fst cs)"
  shows "\<exists>v cs'. restapi_reducer st a = Inr (put st a v) \<and> has_constraints v cs'
    \<and> (\<forall>k. obj_get cs' k = (if k = t then Obj q else obj_get cs k))"
  using set_resource_constraint [of a q t st cs] assms
  by (simp add: onSuccessCreateResourceConstraint_def)

definition demo_resource :: "obj \<Rightarrow> data_state" where
  "demo_resource cs = [''GET_RESOURCE'' \<mapsto>
     Obj [(''resource'', Obj [(''details'', Obj [(''constraints'', Obj cs)])])]]"

lemma demo_constraints: "has_constraints (current (demo_resource cs) ''GET_RESOURCE'') cs"
  by (simp add: demo_resource_def has_constraints_def current_def)

lemma resource_constraint_is_update_witness:
  "\<exists>v cs'. restapi_reducer (demo_resource [(''ttl'', Obj [(''id'', Num 1)])])
      (onSuccessCreateResourceConstraint (Obj [(''type'', Str ''daily'')]) ''x'')
      = Inr (put (demo_resource [(''ttl'', Obj [(''id'', Num 1)])])
          (onSuccessCreateResourceConstraint (Obj [(''type'', Str ''daily'')]) ''x'') v)
    \<and> has_constraints v cs' \<and> obj_get cs' ''daily'' = Obj [(''type'', Str ''daily'')]
    \<and> obj_get cs' ''ttl'' = Obj [(''id'', Num 1)]"
  using resource_constraint_is_update [OF refl _ demo_constraints,
      of "[(''type'', Str ''daily'')]" "''daily''" "[(''ttl'', Obj [(''id'', Num 1)])]" "''x''"]
  by fastforce

text \<open>Deleting a constraint removes exactly the entries with its id.\<close>

lemma delete_constraint_is_removal:
  assumes "a = onSuccessDeleteResourceConstraint i" "\<forall>(k, c) \<in> set cs. \<exists>p. c = Obj p"
    "has_constraints (current st ''GET_RESOURCE'') cs" "distinct (map fst cs)"
  shows "\<exists>v cs'. restapi_reducer st a = Inr (put st a v) \<and> has_constraints v cs'
    \<and> (\<forall>k. obj_get cs' k = (if strict_eq (opt_prop (obj_get cs k) ''id'') i then Undef else obj_get cs k))"
  using delete_resource_constraint [of a cs st] assms
  by (simp add: onSuccessDeleteResourceConstraint_def)

lemma delete_constraint_is_removal_witness:
  "\<exists>v cs'. restapi_reducer (demo_resource [(''ttl'', Obj [(''id'', Num 1)]), (''daily'', Obj [(''id'', Num 2)])])
      (onSuccessDeleteResourceConstraint (Num 1))
      = Inr (put (demo_resource [(''ttl'', Obj [(''id'', Num 1)]), (''daily'', Obj [(''id'', Num 2)])])
          (onSuccessDeleteResourceConstraint (Num 1)) v)
    \<and> has_constraints v cs' \<and> obj_get cs' ''ttl'' = Undef \<and> obj_get cs' ''daily'' = Obj [(''id'', Num 2)]"
  using delete_constraint_is_removal [OF refl _ demo_constraints,
      of "[(''ttl'', Obj [(''id'', Num 1)]), (''daily'', Obj [(''id'', Num 2)])]" "Num 1"]
  by (fastforce simp: strict_eq_def)

text \<open>\<open>reformatBreakdown\<close> keeps the timestamps of the breakdown, and turns the object of each
  into the array of its bodies in order, each with its key as \<open>id\<close> unless it has one.\<close>

lemma reformatBreakdown_rows:
  assumes "distinct (map fst es)" "\<forall>(t, d) \<in> set es. \<not> nullish d"
  shows "\<exists>es'. reformatBreakdown (Obj es) = Inr (Obj es') \<and> fst ` set es' = fst ` set es
    \<and> (\<forall>t \<in> fst ` set es. obj_get es' t = Arr (map (\<lambda>(i, body).
        Obj (obj_spread [(''id'', Str i)] (own_props body))) (own_props (obj_get es t))))"
  using reformatBreakdown_lookup [OF assms] by (simp add: breakdown_row_def)

lemma reformatBreakdown_rows_witness:
  "\<exists>es'. reformatBreakdown (Obj [(''1643673600'', Obj [(''e1'', Obj [(''cost'', Num 12)])])]) = Inr (Obj es')
    \<and> obj_get es' ''1643673600'' = Arr [Obj [(''id'', Str ''e1''), (''cost'', Num 12)]]"
proof -
  have "obj_spread [(''id'', Str ''e1'')] [(''cost'', Num 12)] = [(''id'', Str ''e1''), (''cost'', Num 12)]"
    by code_simp
  with reformatBreakdown_rows [of "[(''1643673600'', Obj [(''e1'', Obj [(''cost'', Num 12)])])]"]
  show ?thesis by auto
qed

text \<open>Every caveat \<open>key:value\<close> of a token is a property of the stored token data, the words
  true and false as booleans; of two caveats with one key the later counts.\<close>

lemma caveats_are_properties:
  assumes "list_all plain_caveat kvs"
  shows "\<exists>r. processCaveats (Arr (map caveat kvs)) = Inr r
    \<and> (\<forall>k. obj_get r k = (case map_of (rev kvs) k of Some v \<Rightarrow> booleanStringToBoolean v | None \<Rightarrow> Undef))"
  using fold_caveats [OF assms, of "[]"] by (simp add: processCaveats_def js_coalesce_def as_array_def cong: option.case_cong)

lemma caveats_are_properties_witness:
  "\<exists>r. processCaveats (Arr [caveat (''provider'', ''google''), caveat (''register'', ''True'')]) = Inr r
    \<and> obj_get r ''register'' = Bool True \<and> obj_get r ''provider'' = Str ''google''"
proof -
  have ok: "list_all plain_caveat [(''provider'', ''google''), (''register'', ''True'')]"
    and b: "booleanStringToBoolean ''True'' = Bool True" "booleanStringToBoolean ''google'' = Str ''google''"
    by code_simp+
  from caveats_are_properties [OF ok] b show ?thesis by auto
qed

text \<open>Allowed actions accumulate: the new ones replace those of the same entity and keep the
  others.\<close>

lemma allowed_actions_accumulate:
  assumes "act_type a = ''SET_ALLOWED_ACTIONS''" "act_payload a = Obj [(''allowed_actions'', Obj new)]"
    "distinct (map fst new)" "current st (act_label a) = Obj [(''allowedActions'', Obj old)]" "distinct (map fst old)"
  shows "\<exists>as. auth_reducer cav st a = Inr (put st a (Obj [(''allowedActions'', Obj as)]))
    \<and> (\<forall>k. obj_get as k = (if k \<in> fst ` set new then obj_get new k else obj_get old k))"
  using set_allowed_actions [OF assms(2-5)] assms(1) by (simp add: auth_reducer_def)

lemma allowed_actions_accumulate_witness:
  "\<exists>as. auth_reducer demo_cav [''GET_POOL_ALLOWED_ACTIONS'' \<mapsto> Obj [(''allowedActions'', Obj [(''p1'', Arr [])])]]
      \<lparr>act_type = ''SET_ALLOWED_ACTIONS'', act_label = ''GET_POOL_ALLOWED_ACTIONS'',
       act_payload = Obj [(''allowed_actions'', Obj [(''p2'', Arr [Str ''EDIT''])])]\<rparr>
      = Inr ([''GET_POOL_ALLOWED_ACTIONS'' \<mapsto> Obj [(''allowedActions'', Obj as)]])
    \<and> obj_get as ''p1'' = Arr [] \<and> obj_get as ''p2'' = Arr [Str ''EDIT'']"
  using allowed_actions_accumulate [of "\<lparr>act_type = ''SET_ALLOWED_ACTIONS'', act_label = ''GET_POOL_ALLOWED_ACTIONS'',
       act_payload = Obj [(''allowed_actions'', Obj [(''p2'', Arr [Str ''EDIT''])])]\<rparr>" "[(''p2'', Arr [Str ''EDIT''])]"
      "[''GET_POOL_ALLOWED_ACTIONS'' \<mapsto> Obj [(''allowedActions'', Obj [(''p1'', Arr [])])]]" "[(''p1'', Arr [])]" demo_cav]
  by (fastforce simp: put_def current_def)

text \<open>The alerts of an organization keep at most one alert per id, and an update leaves the
  alerts of other organizations alone.\<close>

lemma alerts_stay_unique:
  assumes "alerts_ok (case state organizationId of None \<Rightarrow> [] | Some as \<Rightarrow> as)" "alert_ok alert"
    "alerts_reducer state (UPDATE_ORGANIZATION_TOP_ALERT organizationId alert) = state'"
  shows "\<exists>as. state' organizationId = Some as \<and> alerts_ok as
    \<and> obj_get alert ''id'' \<in> set (alert_ids as) \<and> (\<forall>o'. o' \<noteq> organizationId \<longrightarrow> state' o' = state o')"
proof -
  let ?as = "case state organizationId of None \<Rightarrow> [] | Some as \<Rightarrow> as"
  let ?new = "if alertExists ?as alert then updateAlertState ?as alert else addAlertState ?as alert"
  have ok: "list_all alert_ok ?as" using assms(1) by (simp add: alerts_ok_def)
  have "obj_get alert ''id'' \<in> set (alert_ids ?new)"
    using assms(2) updateAlert_ids [OF ok assms(2)]
    by (auto simp: alertExists_ids addAlertState_def) (simp add: alert_ids_def)
  moreover have "state' = state(organizationId \<mapsto> ?new)"
    using assms(3) by (simp add: alerts_reducer_def Let_def)
  ultimately show ?thesis using alerts_ok_step [OF assms(1,2)] by simp
qed

lemma alerts_stay_unique_witness:
  "\<exists>as. alerts_reducer [''o1'' \<mapsto> [[(''id'', Num 4), (''closed'', Bool False)]]]
      (UPDATE_ORGANIZATION_TOP_ALERT ''o1'' [(''id'', Num 4), (''closed'', Bool True)]) ''o1'' = Some as \<and> alerts_ok as"
proof -
  have ok: "alerts_ok [[(''id'', Num 4), (''closed'', Bool False)]]" "alert_ok [(''id'', Num 4), (''closed'', Bool True)]"
    by (simp_all add: alerts_ok_def alert_ok_def alert_ids_def)
  then show ?thesis
    using alerts_stay_unique [OF _ ok(2) refl, of "[''o1'' \<mapsto> [[(''id'', Num 4), (''closed'', Bool False)]]]" "''o1''"]
    by auto
qed

text \<open>The pinned recommendations stay without repetitions; pinning adds and unpinning removes
  exactly the given one.\<close>

lemma pinned_recommendations_are_a_set:
  assumes "distinct state"
  shows "distinct (pinned_recommendations_reducer state a)
    \<and> set (pinned_recommendations_reducer state (PIN_RECOMMENDATION t)) = insert t (set state)
    \<and> set (pinned_recommendations_reducer state (UNPIN_RECOMMENDATION t)) = set state - {t}"
  using pinned_distinct [OF assms] by (simp add: pinned_set)

lemma pinned_recommendations_are_a_set_witness:
  "set (pinned_recommendations_reducer [''x''] (PIN_RECOMMENDATION ''y'')) = {''x'', ''y''}"
  using pinned_recommendations_are_a_set [of "[''x'']" RESET_SELECTION "''y''"] by auto

section \<open>All requests of the program\<close>

text \<open>C15: Every request the action creators build has a label and a known method; only GET
  requests are cached, and a cached one supersedes the earlier ones of its label and makes no
  other data stale.\<close>

theorem requests_well_formed:
  assumes "created r"
  shows "rq_label r \<noteq> [] \<and> rq_method r \<in> {''GET'', ''POST'', ''PUT'', ''PATCH'', ''DELETE''} \<and> 0 \<le> rq_ttl r
    \<and> (0 < rq_ttl r \<longrightarrow> rq_method r = ''GET'' \<and> \<not> rq_allowMultipleRequests r \<and> rq_affectedRequests r = [])"
  using created_all(1) [OF assms] by (simp add: well_formed_def)

theorem requests_well_formed_witness:
  "rq_method (getUser (Str ''u'')) \<in> {''GET'', ''POST'', ''PUT'', ''PATCH'', ''DELETE''} \<and> \<not> rq_allowMultipleRequests (getUser (Str ''u''))"
proof -
  have "0 < rq_ttl (getUser (Str ''u''))" by (simp add: getUser_def apiAction_def duration_defs)
  with requests_well_formed [OF created_intros(5) [OF c_getUser, of "Str ''u''"]] show ?thesis by blast
qed

text \<open>C16: The action that a successful response becomes has a case in one of the data reducers,
  except for the settings update of S3 duplicates and the creation of a user, whose actions no
  reducer handles.\<close>

theorem successes_are_handled:
  assumes "created r" "rq_onSuccess r = Some f"
  shows "act_type (f d (rq_label r)) \<in> set (handled_types @ auth_types @ jira_bus_types)
    \<or> rq_label r \<in> {''UPDATE_S3_DUPLICATES_ORGANIZATION_SETTINGS'', ''CREATE_USER''}"
  using created_all(2) [OF assms(1)] assms(2) by (auto simp: success_handled_def has_case_def all_types_def)

theorem successes_are_handled_witness:
  "act_type (handleSuccess ''SET_USER'' Undef (rq_label (getUser (Str ''u'')))) \<in> set (handled_types @ auth_types @ jira_bus_types)
    \<or> rq_label (getUser (Str ''u'')) \<in> {''UPDATE_S3_DUPLICATES_ORGANIZATION_SETTINGS'', ''CREATE_USER''}"
  by (rule successes_are_handled [OF created_intros(5) [OF c_getUser]]) (simp add: getUser_def apiAction_def)

text \<open>A GET request writes only the slot of its own label, and a cached one carries the hash
  of its parameters, except the user and the model versions of a task, which carry none.\<close>

lemma getters_write_own_slot:
  assumes "created r" "rq_method r = ''GET''"
  shows "(\<forall>f d. rq_onSuccess r = Some f \<longrightarrow> act_label (f d (rq_label r)) = rq_label r)
    \<and> (0 < rq_ttl r \<longrightarrow> (\<exists>p. rq_hash r = hashParams p) \<or> rq_label r \<in> {''GET_USER'', ''GET_ML_TASK_MODEL_VERSIONS''})"
  using created_all(3,4) [OF assms(1)] assms(2) by (auto simp: reads_own_slot_def cached_by_key_def is_key_def)

lemma getters_write_own_slot_witness:
  "act_label (handleSuccess ''SET_USER'' Undef (rq_label (getUser (Str ''u'')))) = rq_label (getUser (Str ''u''))"
proof -
  have "rq_method (getUser (Str ''u'')) = ''GET''" "rq_onSuccess (getUser (Str ''u'')) = Some (handleSuccess ''SET_USER'')"
    by (simp_all add: getUser_def apiAction_def)
  with getters_write_own_slot [OF created_intros(5) [OF c_getUser], of "Str ''u''"] show ?thesis by blast
qed

text \<open>The labels a request makes stale are labels of GET requests, except \<open>GET_OPTIMIZATIONS\<close>,
  which no request carries; and what a success writes is the slot of a GET request, the
  request's own slot, or one of four named slots.\<close>

lemma affected_labels_are_getters:
  assumes "created r"
  shows "(\<forall>l \<in> set (rq_affectedRequests r). is_get_label l \<or> l = ''GET_OPTIMIZATIONS'')
    \<and> (\<forall>f d l. rq_onSuccess r = Some f \<longrightarrow> l = act_label (f d (rq_label r)) \<longrightarrow> l = rq_label r \<or> is_get_label l
        \<or> l \<in> {''GET_TOKEN'', ''GET_OPTIMIZATIONS'', ''CREATE_ML_LEADERBOARD'', ''UPDATE_POOL_EXPENSES_EXPORT''})"
  using created_all(5,6) [OF assms] by (auto simp: affects_getters_def writes_getters_def list_all_iff Let_def)

lemma affected_labels_are_getters_witness:
  "is_get_label ''GET_ORGANIZATION_OPTIONS'' \<or> ''GET_ORGANIZATION_OPTIONS'' = ''GET_OPTIMIZATIONS''"
proof -
  have "''GET_ORGANIZATION_OPTIONS'' \<in> set (rq_affectedRequests (createOrganizationOption (Str ''o'') (Str ''n'') Undef))"
    by (simp add: createOrganizationOption_def apiAction_def)
  with affected_labels_are_getters [OF created_intros(1) [OF c_createOrganizationOption]] show ?thesis by blast
qed

text \<open>A bulk operation reports how many of its objects succeeded out of all, and shows an error
  when none did.\<close>

lemma bulk_success_alert:
  assumes "resp = Obj [(''data'', d)]" "opt_prop d ''succeeded'' = Arr ss" "opt_prop d ''failed'' = Arr fs"
    "l \<in> {''MARK_RESOURCES_AS_ENVIRONMENTS'', ''ATTACH_INSTANCES_TO_SCHEDULE'', ''REMOVE_INSTANCES_FROM_SCHEDULE''}"
  shows "messageParams (getSuccessAlertSettingsByLabel l) params resp payload
      = Inr (Arr [Num (of_nat (length ss)), Num (of_nat (length ss + length fs))])
    \<and> alertSeverity (getSuccessAlertSettingsByLabel l) params resp payload
      = Inr (if ss = [] then SEVERITY_ERROR else SEVERITY_SUCCESS)"
proof -
  obtain c where "getSuccessAlertSettingsByLabel l = bulk_settings c"
    using bulk_label_settings [OF assms(4)] ..
  then show ?thesis by (simp only: bulk_settings_report bulk_message_params_lists [OF assms(1-3)] simp_thms)
qed

lemma bulk_success_alert_witness:
  "alertSeverity (getSuccessAlertSettingsByLabel ''ATTACH_INSTANCES_TO_SCHEDULE'') Undef
      (Obj [(''data'', Obj [(''succeeded'', Arr []), (''failed'', Arr [Str ''i''])])]) Undef = Inr SEVERITY_ERROR"
  using bulk_success_alert [OF refl, of "Obj [(''succeeded'', Arr []), (''failed'', Arr [Str ''i''])]" "[]" "[Str ''i'']"
      "''ATTACH_INSTANCES_TO_SCHEDULE''" Undef Undef] by simp

text \<open>Updating a leaderboard also updates its copy in the list of leaderboards, and nothing
  else.\<close>

lemma leaderboard_update_syncs_list:
  assumes "act_type a = ''UPDATE_ML_LEADERBOARD''" "act_payload a = Obj q"
    "current st ''GET_ML_LEADERBOARDS'' = Arr (map Obj ps)" "act_label a \<noteq> ''GET_ML_LEADERBOARDS''"
  shows "\<exists>st'. restapi_reducer st a = Inr st' \<and> st' (act_label a) = Some (Obj q)
    \<and> st' ''GET_ML_LEADERBOARDS'' = Some (Arr (map Obj (map (\<lambda>p. if strict_eq (obj_get p ''id'') (obj_get q ''id'')
        then obj_spread (obj_spread [] p) q else p) ps)))
    \<and> (\<forall>l. l \<noteq> act_label a \<longrightarrow> l \<noteq> ''GET_ML_LEADERBOARDS'' \<longrightarrow> st' l = st l)"
  using update_leaderboard [OF assms(1-3)] assms(4) by (auto simp: put_def)

lemma leaderboard_update_syncs_list_witness:
  "\<exists>st'. restapi_reducer [''GET_ML_LEADERBOARDS'' \<mapsto> Arr (map Obj [[(''id'', Num 1)]])]
      \<lparr>act_type = ''UPDATE_ML_LEADERBOARD'', act_label = ''GET_ML_LEADERBOARD'', act_payload = Obj [(''id'', Num 1), (''name'', Str ''b'')]\<rparr> = Inr st'
    \<and> st' ''GET_ML_LEADERBOARD'' = Some (Obj [(''id'', Num 1), (''name'', Str ''b'')])"
  using leaderboard_update_syncs_list [of "\<lparr>act_type = ''UPDATE_ML_LEADERBOARD'', act_label = ''GET_ML_LEADERBOARD'',
      act_payload = Obj [(''id'', Num 1), (''name'', Str ''b'')]\<rparr>" "[(''id'', Num 1), (''name'', Str ''b'')]"
      "[''GET_ML_LEADERBOARDS'' \<mapsto> Arr (map Obj [[(''id'', Num 1)]])]" "[[(''id'', Num 1)]]"]
  by (auto simp: current_def)

section \<open>Permissions\<close>

text \<open>C17: A pool or resource passes the permission check exactly when one of the required actions is
  allowed for it, with the condition \<open>and\<close> when all are, and when none is required; filtering a
  list of pools or resources keeps exactly those that pass, in order.\<close>

theorem permission_checks_agree:
  assumes "entityType = Str ''pool'' \<or> entityType = Str ''resource''"
    "\<forall>i \<in> set ids. actions_of st entityType i (acts i)" "ids \<noteq> []" "\<forall>r \<in> set req. \<not> is_object r"
    "condition = Str ''and'' \<or> condition = Str ''or'' \<or> condition = Undef"
  shows "(\<forall>i \<in> set ids. useIsAllowed st org oid (Str i) entityType (Arr req) condition
      = Inr (if condition = Str ''and'' then set req \<subseteq> set (acts i) else req = [] \<or> set req \<inter> set (acts i) \<noteq> {}))
    \<and> useFilterByPermissions st org (map Str ids) entityType (Arr req) condition
      = Inr (map Str (filter (\<lambda>i. useIsAllowed st org oid (Str i) entityType (Arr req) condition = Inr True) ids))"
proof -
  have p: "useIsAllowed st org oid (Str i) entityType (Arr req) condition
      = Inr (satisfied (condition = Str ''and'') (set req) (set (acts i)))" if "i \<in> set ids" for i
    using permission [OF _ assms(1,4,5)] assms(2) that by blast
  then have "filter (\<lambda>i. useIsAllowed st org oid (Str i) entityType (Arr req) condition = Inr True) ids
      = filter (\<lambda>i. satisfied (condition = Str ''and'') (set req) (set (acts i))) ids"
    by (intro filter_cong) auto
  with p filter_permission [OF assms] show ?thesis by (simp add: satisfied_def)
qed

theorem permission_checks_agree_witness:
  "useFilterByPermissions permitted_store Undef (map Str [''p1'', ''p2'']) (Str ''pool'') (Arr [Str ''MANAGE_POOLS'']) Undef
    = Inr (map Str (filter (\<lambda>i. useIsAllowed permitted_store Undef Undef (Str i) (Str ''pool'') (Arr [Str ''MANAGE_POOLS'']) Undef = Inr True)
        [''p1'', ''p2'']))"
proof -
  have "actions_of permitted_store (Str ''pool'') ''p1'' [Str ''MANAGE_POOLS'']"
    "actions_of permitted_store (Str ''pool'') ''p2'' []"
    by (simp_all add: actions_of_def stored_actions_def getLabel_def permitted_store_def useApiData_def
        get_default_def js_default_def js_or_def current_def store_init_def)
  then show ?thesis
    using permission_checks_agree [of "Str ''pool''" "[''p1'', ''p2'']" permitted_store
        "\<lambda>i. if i = ''p1'' then [Str ''MANAGE_POOLS''] else []" "[Str ''MANAGE_POOLS'']" Undef Undef Undef]
    by simp
qed

section \<open>Migrations of the persisted state\<close>

text \<open>C18: Reading a state of version 10, 11 or 12 ends in the current version: the alerts of every
  organization lose exactly those with the ids 6 and 4, the model breakdown becomes the task
  breakdown with its leaderboard and its runs under their new names, and nothing else changes.\<close>

theorem migration_from_version_10:
  assumes "migrates_in_order createMigrate" "inbound \<in> {10, 11, 12}" "distinct (map fst st)"
    "alerts_are st f" "objects_are ''modelBreakdown'' st g" "\<forall>p \<in> ran g. distinct (map fst p)"
  shows "\<exists>st' h. createMigrate (migrations toSeconds) CURRENT_VERSION inbound st = Inr st'
    \<and> only_changes {''taskBreakdown'', ''modelBreakdown'', ''alerts''} st st'
    \<and> alerts_are st' (map_option (filter (\<lambda>a. obj_get a ''id'' \<notin> {Num 6, Num 4})) \<circ> f)
    \<and> objects_are ''taskBreakdown'' st' h \<and> dom h = dom g
    \<and> (\<forall>t p k. g t = Some p \<longrightarrow> obj_get (the (h t)) k =
        (if k = ''leaderboard_id'' then obj_get p ''leaderboard_dataset_id''
         else if k = ''leaderboard_dataset_id'' then Undef
         else if k = ''runs_breakdown'' then obj_get p ''model_runs'' else obj_get p k))"
proof -
  have "pending inbound toSeconds = [(13, migrate_13), (14, migrate_14), (15, migrate_15), (16, migrate_16)]"
    using assms(2) by (auto simp: pending_def migrations_def CURRENT_VERSION_def)
  then obtain st' where st': "createMigrate (migrations toSeconds) CURRENT_VERSION inbound st = Inr st'"
    "only_changes {''taskBreakdown'', ''modelBreakdown'', ''alerts''} st st'"
    "alerts_are st' (map_option (without_id 4 \<circ> without_id 6) \<circ> f)"
    "objects_are ''taskBreakdown'' st' (map_option (leaderboard_renamed \<circ> runs_moved) \<circ> g)"
    using from_version_10 [OF assms(3-5)] by (auto simp: run_pending [OF assms(1)])
  have "without_id 4 \<circ> without_id 6 = filter (\<lambda>a. obj_get a ''id'' \<notin> {Num 6, Num 4})"
    unfolding without_id_def fun_eq_iff by (simp add: conj_commute)
  moreover have "obj_get (the ((map_option (leaderboard_renamed \<circ> runs_moved) \<circ> g) t)) k =
        (if k = ''leaderboard_id'' then obj_get p ''leaderboard_dataset_id''
         else if k = ''leaderboard_dataset_id'' then Undef
         else if k = ''runs_breakdown'' then obj_get p ''model_runs'' else obj_get p k)" if "g t = Some p" for t p k
  proof -
    have "p \<in> ran g" using that by (rule ranI)
    with assms(6) have "distinct (map fst p)" by blast
    then show ?thesis using migrated_task [of p k] that by simp
  qed
  moreover have "dom (map_option (leaderboard_renamed \<circ> runs_moved) \<circ> g) = dom g" by (rule dom_map_option_comp)
  ultimately show ?thesis
    using st'
    by (intro exI [of _ st'] exI [of _ "map_option (leaderboard_renamed \<circ> runs_moved) \<circ> g"] conjI allI impI)
      (simp_all only:)
qed

theorem migration_from_version_10_witness:
  "\<exists>st' h. in_order (migrations id) CURRENT_VERSION 11 old_state = Inr st'
    \<and> only_changes {''taskBreakdown'', ''modelBreakdown'', ''alerts''} old_state st'
    \<and> alerts_are st' [''o'' \<mapsto> [[(''id'', Num 2)]]]
    \<and> objects_are ''taskBreakdown'' st' h
    \<and> obj_get (the (h ''t'')) ''leaderboard_id'' = Str ''d''"
proof -
  let ?p = "[(''leaderboard_dataset_id'', Str ''d''), (''model_runs'', Arr [])] :: obj"
  have f: "map_option (filter (\<lambda>a. obj_get a ''id'' \<notin> {Num 6, Num 4})) \<circ> [''o'' \<mapsto> [[(''id'', Num 6)], [(''id'', Num 2)]]]
      = [''o'' \<mapsto> [[(''id'', Num 2)]]]" by (simp add: fun_eq_iff)
  have g: "\<forall>p \<in> ran [''t'' \<mapsto> ?p]. distinct (map fst p)" by simp
  have "(11 :: nat) \<in> {10, 11, 12}" by simp
  from migration_from_version_10 [OF in_order_ok this old_state_maps g, of id] obtain st' h where st':
    "in_order (migrations id) CURRENT_VERSION 11 old_state = Inr st'"
    "only_changes {''taskBreakdown'', ''modelBreakdown'', ''alerts''} old_state st'"
    "alerts_are st' [''o'' \<mapsto> [[(''id'', Num 2)]]]" "objects_are ''taskBreakdown'' st' h"
    and h: "\<forall>t p k. [''t'' \<mapsto> ?p] t = Some p \<longrightarrow> obj_get (the (h t)) k =
        (if k = ''leaderboard_id'' then obj_get p ''leaderboard_dataset_id''
         else if k = ''leaderboard_dataset_id'' then Undef
         else if k = ''runs_breakdown'' then obj_get p ''model_runs'' else obj_get p k)"
    unfolding f by blast
  have "obj_get (the (h ''t'')) ''leaderboard_id'' = Str ''d''"
    using h [rule_format, of "''t''" ?p "''leaderboard_id''"] by simp
  with st' show ?thesis by blast
qed

text \<open>A state of version 10, 11 or 12 that lacks the model breakdown cannot be migrated: the
  exception of version 13 ends the migration.\<close>

lemma migration_without_breakdown_throws:
  assumes "migrates_in_order createMigrate" "inbound \<in> {10, 11, 12}" "obj_get st ''modelBreakdown'' = Undef"
  shows "createMigrate (migrations toSeconds) CURRENT_VERSION inbound st = Inl TypeError"
proof -
  have "pending inbound toSeconds = [(13, migrate_13), (14, migrate_14), (15, migrate_15), (16, migrate_16)]"
    using assms(2) by (auto simp: pending_def migrations_def CURRENT_VERSION_def)
  then show ?thesis
    using run_pending [OF assms(1)] assms(3) by (simp add: migrate_13_def map_entries_def entries_js_def)
qed

lemma migration_without_breakdown_throws_witness:
  "in_order (migrations id) CURRENT_VERSION 12 [(''alerts'', Obj [])] = Inl TypeError"
  using migration_without_breakdown_throws [OF in_order_ok, of 12 "[(''alerts'', Obj [])]" id] by simp

section \<open>Arrays\<close>

text \<open>\<open>splitIntoChunks\<close>, which computes the bounds of every slice, equals cutting off one chunk
  after the other: the chunks put together are the array, all are as long as asked but the last,
  which is not empty; for the length 0 it throws.\<close>

lemma splitIntoChunks_is_chunks:
  shows "splitIntoChunks xs n = (if n = 0 then Inl RangeError else Inr (chunks n xs))
    \<and> (n \<noteq> 0 \<longrightarrow> concat (chunks n xs) = xs \<and> getChunks xs n = Inr (chunks n xs)
      \<and> (\<forall>c \<in> set (chunks n xs). c \<noteq> []) \<and> (\<forall>c \<in> set (butlast (chunks n xs)). length c = n)
      \<and> (\<forall>c \<in> set (chunks n xs). length c \<le> n))"
  using splitIntoChunks_chunks [of n xs] concat_chunks [of n xs] getChunks_split [of n xs]
    chunks_length [of _ n xs] chunks_full [of _ n xs]
  by (auto simp: splitIntoChunks_def)

lemma splitIntoChunks_is_chunks_witness:
  "splitIntoChunks [1 :: nat, 2, 3] 2 = Inr (chunks 2 [1, 2, 3]) \<and> concat (chunks 2 [1 :: nat, 2, 3]) = [1, 2, 3]"
  using splitIntoChunks_is_chunks [of "[1 :: nat, 2, 3]" 2] by simp

text \<open>C19: \<open>getRecursiveParent\<close> returns for every element of a flat list exactly when no chain of
  parents runs in a circle.  What it returns for an element is the chain of the element's parents from the
  root down, and it returns nothing where there is no such chain.\<close>

theorem recursive_parent_returns_iff:
  "((\<forall>c \<in> set src. getRecursiveParent c src key \<noteq> None)
      \<longleftrightarrow> (\<forall>c. (c, c) \<notin> {(c, p). c \<in> set src \<and> parent_of src c = Some p}\<^sup>+))
    \<and> (getRecursiveParent child src key = Some r \<longleftrightarrow> (\<exists>ps. ancestors src child ps \<and> r = map (parent_result key) ps))"
proof
  have "getRecursiveParent c src key \<noteq> None \<longleftrightarrow> (\<exists>ps. ancestors src c ps)" for c
    using returned_iff [of c src key] by (cases "getRecursiveParent c src key") auto
  then have "(\<forall>c \<in> set src. getRecursiveParent c src key \<noteq> None) \<longleftrightarrow> acyclic (parent_links src)"
    using ancestors_exist no_cycle by blast
  then show "(\<forall>c \<in> set src. getRecursiveParent c src key \<noteq> None)
      \<longleftrightarrow> (\<forall>c. (c, c) \<notin> {(c, p). c \<in> set src \<and> parent_of src c = Some p}\<^sup>+)"
    by (simp only: acyclic_def parent_links_def)
qed (rule returned_iff)

definition pool_tree :: "obj list" where
  "pool_tree = [[(''id'', Str ''root''), (''parent_id'', Null)], [(''id'', Str ''team''), (''parent_id'', Str ''root'')],
     [(''id'', Str ''unit''), (''parent_id'', Str ''team'')], [(''id'', Str ''own''), (''parent_id'', Str ''own'')]]"

theorem recursive_parent_returns_iff_witness:
  "getRecursiveParent (pool_tree ! 2) pool_tree (Some ''id'') = Some [Str ''root'', Str ''team'']
    \<and> getRecursiveParent (pool_tree ! 3) pool_tree (Some ''id'') = None"
proof
  have parents: "parent_of pool_tree (pool_tree ! 0) = None" "parent_of pool_tree (pool_tree ! 1) = Some (pool_tree ! 0)"
    "parent_of pool_tree (pool_tree ! 2) = Some (pool_tree ! 1)" "parent_of pool_tree (pool_tree ! 3) = Some (pool_tree ! 3)"
    by (simp_all add: parent_of_def find_parent_def pool_tree_def)
  note chain0 = ancestors.root [OF parents(1)]
  note chain1 = ancestors.parent [OF parents(2) chain0, unfolded append_Nil]
  note chain2 = ancestors.parent [OF parents(3) chain1, unfolded append_Cons append_Nil]
  note iff = recursive_parent_returns_iff [of pool_tree "Some ''id''"]
  have returns: "getRecursiveParent p pool_tree (Some ''id'') = Some (map (parent_result (Some ''id'')) ps)"
    if "ancestors pool_tree p ps" for p ps using iff [THEN conjunct2] that by blast
  have "map (parent_result (Some ''id'')) [pool_tree ! 0, pool_tree ! 1] = [Str ''root'', Str ''team'']" by code_simp
  with returns [OF chain2] show "getRecursiveParent (pool_tree ! 2) pool_tree (Some ''id'') = Some [Str ''root'', Str ''team'']"
    by (simp only:)
  have "pool_tree ! 3 \<in> set pool_tree" by (simp add: pool_tree_def)
  then have "(pool_tree ! 3, pool_tree ! 3) \<in> {(c, p). c \<in> set pool_tree \<and> parent_of pool_tree c = Some p}\<^sup>+"
    using parents(4) by auto
  with iff [THEN conjunct1] obtain c where c: "c \<in> set pool_tree" "getRecursiveParent c pool_tree (Some ''id'') = None" by blast
  have "set pool_tree = {pool_tree ! 0, pool_tree ! 1, pool_tree ! 2, pool_tree ! 3}" by (simp add: pool_tree_def)
  then have "c = pool_tree ! 3" using c(1,2) returns [OF chain0] returns [OF chain1] returns [OF chain2] by auto
  with c(2) show "getRecursiveParent (pool_tree ! 3) pool_tree (Some ''id'') = None" by simp
qed

section \<open>The expenses of a resource\<close>

text \<open>C20: No cost is lost in the splits of the expenses of a resource: the daily, the weekly and the
  monthly split have the same total under every name, that of the breakdown; a week sums up seven
  successive days, a month the days with its label (exact numbers, all names but the two dates).\<close>

theorem expense_splits_keep_totals:
  assumes "\<forall>b \<in> set bs. plain_expenses b" "\<And>d. formatUTC d ''MMM, yyyy'' \<notin> set inherited_names"
  shows "\<exists>daily weekly monthly months.
    getResourceExpensesSplits formatUTC bs
      = Inr (Obj [(''daily'', Arr daily), (''weekly'', Arr weekly), (''monthly'', Arr monthly)])
    \<and> length daily = length bs \<and> distinct months
    \<and> (\<forall>name. name \<notin> {''date'', ''dateMonthYear''} \<longrightarrow>
        total name daily = total name (map Obj bs) \<and> total name weekly = total name (map Obj bs)
        \<and> total name monthly = total name (map Obj bs)
        \<and> map (amount name) weekly = map (total name) (chunks 7 daily)
        \<and> map (amount name) monthly = map (\<lambda>m. total name (filter (\<lambda>v. month_of v = m) daily)) months)"
proof -
  let ?days = "map (\<lambda>b. Obj (with_dates formatUTC b)) bs"
  obtain weekly monthly months where s: "getResourceExpensesSplits formatUTC bs
      = Inr (Obj [(''daily'', Arr ?days), (''weekly'', Arr weekly), (''monthly'', Arr monthly)])"
    "summed_by (\<lambda>name. map (total name) (chunks 7 ?days)) weekly" "distinct months" "set months = month_of ` set ?days"
    "summed_by (\<lambda>name. map (\<lambda>m. total name (filter (\<lambda>v. month_of v = m) ?days)) months) monthly"
    using splits_summed [of bs formatUTC, OF assms] by blast
  show ?thesis
  proof (intro exI conjI allI impI)
    show "getResourceExpensesSplits formatUTC bs
      = Inr (Obj [(''daily'', Arr ?days), (''weekly'', Arr weekly), (''monthly'', Arr monthly)])" by (rule s(1))
    fix name :: string assume n: "name \<notin> {''date'', ''dateMonthYear''}"
    show d: "total name ?days = total name (map Obj bs)" by (rule total_with_dates [OF assms(1) n])
    show "total name weekly = total name (map Obj bs)" "total name monthly = total name (map Obj bs)"
      using totals_agree [OF s(3,4) n s(2,5)] d by simp_all
    show "map (amount name) weekly = map (total name) (chunks 7 ?days)"
      "map (amount name) monthly = map (\<lambda>m. total name (filter (\<lambda>v. month_of v = m) ?days)) months"
      using s(2,5) n by (simp_all add: summed_by_def)
  qed (simp_all add: s(3))
qed

theorem expense_splits_keep_totals_witness:
  "\<exists>daily weekly monthly. getResourceExpensesSplits (\<lambda>d fmt. ''May, 2024'') [[(''date'', Num 1), (''EC2'', Num 5)], [(''date'', Num 2), (''EC2'', Num 2)]]
      = Inr (Obj [(''daily'', Arr daily), (''weekly'', Arr weekly), (''monthly'', Arr monthly)])
    \<and> total ''EC2'' weekly = 7 \<and> total ''EC2'' monthly = 7"
proof -
  let ?bs = "[[(''date'', Num 1), (''EC2'', Num 5)], [(''date'', Num 2), (''EC2'', Num 2)]] :: obj list"
  have p: "\<forall>b \<in> set ?bs. plain_expenses b" by (simp add: plain_expenses_def)
  have l: "(\<lambda>d fmt. ''May, 2024'') d ''MMM, yyyy'' \<notin> set inherited_names" for d :: jsval
    by (simp add: inherited_names_def)
  have "total ''EC2'' (map Obj ?bs) = 7" by (simp add: amount_def)
  moreover have "''EC2'' \<notin> {''date'', ''dateMonthYear''}" by simp
  ultimately show ?thesis
    using expense_splits_keep_totals [of ?bs "\<lambda>d fmt. ''May, 2024''", OF p l] by metis
qed

section \<open>Dashboards and charts\<close>

text \<open>C21: No two charts of a dashboard have one id, the ids are positive numbers, and the dashboard of a
  public run never counts as changed.  This holds in every session that begins with the default dashboard
  or one that such a session has saved before, with the same or other breakdowns, that loads no layouts but
  these, and in which every callback is one of a render after the last change (\<open>session\<close>); what was saved has no
  value undefined and whole numbers only.\<close>

theorem dashboard_charts_have_own_ids:
  assumes "session cf s"
  shows "distinct (map (\<lambda>c. obj_get c ''id'') (chart_state_charts s))
    \<and> (\<forall>c \<in> set (chart_state_charts s). \<exists>n > 0. obj_get c ''id'' = Num n)
    \<and> (cf_isPublicRun cf \<longrightarrow> cs_saved s)"
proof -
  have n: "numbered (chart_state_charts s)" by (rule sessions_numbered(2) [OF assms])
  then obtain ns where ns: "map (\<lambda>c. obj_get c ''id'') (chart_state_charts s) = map Num ns" "\<forall>n \<in> set ns. 0 < n"
    by (auto simp: numbered_def)
  have "\<exists>n > 0. obj_get c ''id'' = Num n" if "c \<in> set (chart_state_charts s)" for c
  proof -
    have "obj_get c ''id'' \<in> set (map Num ns)" using that by (simp flip: ns(1))
    with ns(2) show ?thesis by auto
  qed
  then show ?thesis using numbered_distinct [OF n] session_public [OF assms] by blast
qed

theorem dashboard_charts_have_own_ids_witness:
  "distinct (map (\<lambda>c. obj_get c ''id'') (chart_state_charts demo_reloaded)) \<and> length (chart_state_charts demo_reloaded) = 3"
proof -
  have "length (chart_state_charts demo_reloaded) = 3" by code_simp
  with dashboard_charts_have_own_ids [OF demo_reloaded_reached] show ?thesis by blast
qed

text \<open>C22: A dashboard that was loaded and is saved comes back unchanged: loading the layout that
  \<open>updateDashboard\<close> sends gives the same charts, breakdowns and settings (whole numbers, no value
  undefined).\<close>

theorem saved_dashboard_loads_unchanged:
  assumes "initializeDashboardState names layout = Inr d" "json_ok (data_value (db_data d))" "i \<noteq> Str ''default''"
  shows "initializeDashboardState names (stored_layout i owner (updateDashboard_params name shared d)) =
    Inr \<lparr>db_id = i, db_name = name, db_ownerId = owner, db_shared = shared, db_data = db_data d\<rparr>"
  by (rule load_saved [OF assms(2) loaded_stable [OF assms(1,2)] assms(3)])

theorem saved_dashboard_loads_unchanged_witness:
  "initializeDashboardState (cf_breakdownNames demo_config)
      (stored_layout (Str ''d1'') (Str ''e'') (updateDashboard_params (Str ''Mine'') (Bool False) (cs_dashboard demo_start)))
    = Inr \<lparr>db_id = Str ''d1'', db_name = Str ''Mine'', db_ownerId = Str ''e'', db_shared = Bool False,
        db_data = db_data (cs_dashboard demo_start)\<rparr>"
proof -
  have l: "initializeDashboardState (cf_breakdownNames demo_config) DEFAULT_DASHBOARD = Inr (cs_dashboard demo_start)"
    by (rule demo_start_dashboard)
  have ok: "json_ok (data_value (db_data (cs_dashboard demo_start)))" by code_simp
  show ?thesis using saved_dashboard_loads_unchanged [OF l ok] by simp
qed

text \<open>C23: The chart of a runset selects exactly the runs that meet the constraint of every dimension.  The ticks
  of its axis are at the positions of the runs, and the text of a tick is the name of its run or blank.
  Only names of selected runs are written, no two names that are written overlap (14 pixels high, on an
  axis of 260), and each selected run whose name is left out overlaps one that is written; unless no run is
  selected, no two ticks have one text.  Assumed of the dimensions: each is of one of the three groups, its
  ranges are pairs of bounds, and the value it looks at can be read for every run without an exception
  (\<open>testable\<close>).  Assumed of the runs: they have different full names, as runs with different numbers do.\<close>

theorem run_labels_do_not_overlap:
  assumes "data = getChartRunsData (indexed_runs colorScale runs)" "distinct (map cr_runName data)"
    "\<forall>d \<in> set dims. testable ticks data d"
  shows "\<exists>selected texts. getSelectedRuns data dims ticks = Inr selected
    \<and> selected = filter (\<lambda>run. \<forall>d \<in> set dims. passes ticks d run) data
    \<and> getRunNamesDimensionTicks data selected = (map of_nat [0..<length runs], texts) \<and> length texts = length runs
    \<and> (selected \<noteq> [] \<longrightarrow> distinct texts)
    \<and> (\<forall>i < length runs. written data texts i \<or> set (texts ! i) \<subseteq> {CHR '' ''})
    \<and> (\<forall>i < length runs. written data texts i \<longrightarrow> (\<forall>d \<in> set dims. passes ticks d (data ! i)))
    \<and> (\<forall>j < length runs. \<forall>i < j. written data texts i \<and> written data texts j \<longrightarrow> 14 * int (length runs) < 260 * \<bar>int j - int i\<bar>)
    \<and> (\<forall>i < length runs. (\<forall>d \<in> set dims. passes ticks d (data ! i)) \<longrightarrow> written data texts i
        \<or> (\<exists>j < length runs. written data texts j \<and> 260 * \<bar>int j - int i\<bar> \<le> 14 * int (length runs)))"
proof (intro exI conjI allI impI ballI)
  let ?P = "\<lambda>run. \<forall>d \<in> set dims. passes ticks d run"
  let ?texts = "snd (getRunNamesDimensionTicks data (filter ?P data))"
  note n = chart_runs_nth(1) [OF assms(1)]
  have sub: "set (filter ?P data) \<subseteq> set data" by auto
  show "getSelectedRuns data dims ticks = Inr (filter ?P data)" by (rule selected_spec [OF assms(3)])
  show "getRunNamesDimensionTicks data (filter ?P data) = (map of_nat [0..<length runs], ?texts)" "length ?texts = length runs"
    using chart_runs_index [of colorScale runs] by (simp_all add: getRunNamesDimensionTicks_def n flip: assms(1))
  show "distinct ?texts" if "filter ?P data \<noteq> []" using ticks_distinct [OF assms(1,2) sub that] .
  show "written data ?texts i \<or> set (?texts ! i) \<subseteq> {CHR '' ''}" if "i < length runs" for i
    using tick_text(2) [OF assms(1,2) sub, of i] that n by (cases "written data ?texts i") (simp_all add: set_replicate_conv_if)
  show "passes ticks d (data ! i)" if "i < length runs" "written data ?texts i" "d \<in> set dims" for i d
    using tick_labels_spec(1) [OF assms(1,2), of i ?P] that by (simp add: n)
  show "14 * int (length runs) < 260 * \<bar>int j - int i\<bar>"
    if "j < length runs" "i < j" "written data ?texts i \<and> written data ?texts j" for i j
    using tick_labels_spec(2) [OF assms(1,2) that(2), of ?P] that by (simp add: n)
  show "written data ?texts i \<or> (\<exists>j < length runs. written data ?texts j \<and> 260 * \<bar>int j - int i\<bar> \<le> 14 * int (length runs))"
    if "i < length runs" "\<forall>d \<in> set dims. passes ticks d (data ! i)" for i
    using tick_labels_spec(3) [OF assms(1,2), of i ?P, unfolded n] that by blast
qed (rule refl)

theorem run_labels_do_not_overlap_witness:
  "\<exists>selected ticks texts. getSelectedRuns (getChartRunsData (indexed_runs Num demo_runs)) [demo_dimension] (Obj []) = Inr selected
    \<and> getRunNamesDimensionTicks (getChartRunsData (indexed_runs Num demo_runs)) selected = (ticks, texts) \<and> distinct texts
    \<and> (texts ! 0 = ''#1_run'') \<noteq> (texts ! 1 = ''#2_run'') \<and> set (texts ! 5) \<subseteq> {CHR '' ''}"
proof -
  let ?data = "getChartRunsData (indexed_runs Num demo_runs)"
  have names: "distinct (map cr_runName ?data)" by code_simp
  have "\<forall>d \<in> set [demo_dimension]. testable (Obj []) ?data d"
    by (simp add: testable_def demo_dimension_def dimension_ranges_def isArrayOfArrays_def js_coalesce_def dimension_value_def)
  note labels = run_labels_do_not_overlap [OF refl names this]
  have n: "length demo_runs = 20" by (simp add: demo_runs_def)
  have pass: "(\<forall>d \<in> set [demo_dimension]. passes (Obj []) d (?data ! j)) \<longleftrightarrow> j \<le> 1" if "j < 20" for j
    using that by (simp add: passes_def dimension_ranges_def demo_dimension_def js_coalesce_def isArrayOfArrays_def
        dimension_value_def chart_runs_nth [OF refl] lies_in_def js_le_def nth_js_def n)
  have run: "cr_runName (?data ! 0) = ''#1_run''" "cr_runName (?data ! 1) = ''#2_run''" by code_simp+
  from labels [unfolded n] obtain selected texts where s: "getSelectedRuns ?data [demo_dimension] (Obj []) = Inr selected"
    "selected = filter (\<lambda>run. \<forall>d \<in> set [demo_dimension]. passes (Obj []) d run) ?data"
    and t: "getRunNamesDimensionTicks ?data selected = (map of_nat [0..<20], texts)" "selected \<noteq> [] \<longrightarrow> distinct texts"
    and blank: "\<forall>i < 20. written ?data texts i \<or> set (texts ! i) \<subseteq> {CHR '' ''}"
    and sel: "\<forall>i < 20. written ?data texts i \<longrightarrow> (\<forall>d \<in> set [demo_dimension]. passes (Obj []) d (?data ! i))"
    and apart: "\<forall>j < 20. \<forall>i < j. written ?data texts i \<and> written ?data texts j \<longrightarrow> 14 * int 20 < 260 * \<bar>int j - int i\<bar>"
    and covered: "\<forall>i < 20. (\<forall>d \<in> set [demo_dimension]. passes (Obj []) d (?data ! i)) \<longrightarrow> written ?data texts i
        \<or> (\<exists>j < 20. written ?data texts j \<and> 260 * \<bar>int j - int i\<bar> \<le> 14 * int 20)"
    by (elim exE conjE) (rule that)
  have "?data ! 0 \<in> set ?data" by (rule nth_mem) (simp add: chart_runs_nth [OF refl] n)
  then have "selected \<noteq> []" using pass [of 0] s(2) by (auto simp: filter_empty_conv)
  moreover have "\<not> (written ?data texts 0 \<and> written ?data texts 1)" using apart [rule_format, of 1 0] by auto
  moreover have "written ?data texts 0 \<or> written ?data texts 1"
  proof -
    have "written ?data texts 0 \<or> (\<exists>j < 20. written ?data texts j \<and> 260 * \<bar>int j - int 0\<bar> \<le> 14 * int 20)"
      using covered [THEN spec, of 0] pass [of 0] by simp
    then obtain j where "j < 20" "written ?data texts j" by (elim disjE exE conjE) (rule that [of 0], simp, assumption, rule that)
    moreover from this have "j \<le> 1" using sel pass by blast
    ultimately show ?thesis by (cases j) auto
  qed
  moreover have "set (texts ! 5) \<subseteq> {CHR '' ''}" using blank [THEN spec, of 5] sel [THEN spec, of 5] pass [of 5] by simp
  ultimately show ?thesis using s(1) t run by (auto simp: written_def)
qed

text \<open>C24: Every point of a metrics line lies between -1 and 1, and the axis shows the value the point
  was scaled from, rounded (percentages between 0 and 100; the units of the program).\<close>

theorem breakdown_lines_are_scaled:
  assumes "line \<in> set (useMlBreakdownLines breakdown configs selected)" "p \<in> set (cl_data line)"
    "\<forall>c \<in> set configs. bc_unit c \<in> {None, Some PERCENT, Some MEBIBYTE}
      \<and> (bc_unit c = Some PERCENT \<longrightarrow> (\<forall>(x, y) \<in> set (breakdown_data c breakdown). 0 \<le> y \<and> y \<le> 100))"
  shows "\<exists>c v y. c \<in> set configs \<and> bc_name c = cl_id line \<and> (lp_x p, y) \<in> set (breakdown_data c breakdown)
    \<and> lp_y p = Some v \<and> - 1 \<le> v \<and> v \<le> 1 \<and> cl_formatAxis line v = bc_formatAxis c (Some (round_js y 2))"
proof -
  let ?bs = "map (\<lambda>c. breakdown_values c breakdown) (filter (\<lambda>c. bc_name c \<in> set selected) configs)"
  obtain c where c: "c \<in> set configs" "bc_name c \<in> set selected"
    and line: "line = breakdown_line ?bs (breakdown_values c breakdown)"
    using assms(1) by (auto simp: useMlBreakdownLines_def Let_def)
  let ?b = "breakdown_values c breakdown"
  have data: "bv_data ?b = breakdown_data c breakdown" "bv_config ?b = c" by (simp_all add: breakdown_values_def Let_def)
  obtain y where y: "(lp_x p, y) \<in> set (breakdown_data c breakdown)" "lp_y p = normalize_line ?bs ?b y"
    using assms(2) by (auto simp: line breakdown_line_def Let_def data)
  have "bv_unit ?b = (case bc_unit c of None \<Rightarrow> UNITLESS | Some u \<Rightarrow> u)" by (simp add: breakdown_values_def Let_def)
  moreover have u: "bc_unit c \<in> {None, Some PERCENT, Some MEBIBYTE}"
    "bc_unit c = Some PERCENT \<longrightarrow> (\<forall>(x, y) \<in> set (breakdown_data c breakdown). 0 \<le> y \<and> y \<le> 100)"
    using assms(3) c(1) by blast+
  ultimately have "drawable ?b" using unit_names by (auto simp: drawable_def data)
  moreover have "y \<in> snd ` set (bv_data ?b)" using y(1) by (force simp: data)
  ultimately obtain v where v: "normalize_line ?bs ?b y = Some v" "- 1 \<le> v" "v \<le> 1" "denormalize_line ?bs ?b v = Some y"
    using line_point_bounds [of ?b ?bs c breakdown y] c by auto
  have "cl_id line = bc_name c" "cl_formatAxis line v = bc_formatAxis c (Some (round_js y 2))"
    using v(4) by (simp_all add: line breakdown_line_def Let_def data)
  with c y v show ?thesis by metis
qed

theorem breakdown_lines_are_scaled_witness:
  "\<exists>line p v. line \<in> set (useMlBreakdownLines demo_metrics [demo_metric] [''loss'']) \<and> p \<in> set (cl_data line)
    \<and> lp_y p = Some v \<and> - 1 \<le> v \<and> v \<le> 1"
proof -
  obtain line p where l: "line \<in> set (useMlBreakdownLines demo_metrics [demo_metric] [''loss''])" "p \<in> set (cl_data line)"
    using demo_metric_point by blast
  have "\<forall>c \<in> set [demo_metric]. bc_unit c \<in> {None, Some PERCENT, Some MEBIBYTE}
      \<and> (bc_unit c = Some PERCENT \<longrightarrow> (\<forall>(x, y) \<in> set (breakdown_data c demo_metrics). 0 \<le> y \<and> y \<le> 100))"
    by (simp add: demo_metric_def)
  from breakdown_lines_are_scaled [OF l this] l show ?thesis by blast
qed

text \<open>No expense of a breakdown is lost by grouping it: under every name the days, the weeks and
  the months have the total of the breakdown, as long as no two days and no two weeks have one
  label.\<close>

lemma breakdown_groups_keep_totals:
  assumes "\<forall>e \<in> set breakdown. plain_entry e"
    "distinct (map (\<lambda>e. df_formatUTC df (Str (fst e)) ''MM/dd/yy'') breakdown)"
    "distinct (map (week_of df) (chunks 7 breakdown))"
    "\<forall>e \<in> set breakdown. month_label df (entry_value e) \<notin> set inherited_names"
  shows "\<exists>daily weekly monthly. useBreakdownData df breakdown
      = Inr (Obj [(''daily'', Obj daily), (''weekly'', Obj weekly), (''monthly'', Obj monthly)])
    \<and> (\<forall>n. total_spent n daily = total_spent n breakdown \<and> total_spent n weekly = total_spent n breakdown
        \<and> total_spent n monthly = total_spent n breakdown)"
proof -
  obtain daily weekly monthly where r: "getDailyBreakdownData df breakdown = Inr (Obj daily)"
    "getWeeklyBreakdownData df breakdown = Inr (Obj weekly)" "getMonthlyBreakdownData df breakdown = Inr (Obj monthly)"
    using daily_total [OF assms(1,2)] weekly_total [OF assms(1,3)] monthly_total [OF assms(1,4)] by metis
  then have "total_spent n daily = total_spent n breakdown" "total_spent n weekly = total_spent n breakdown"
    "total_spent n monthly = total_spent n breakdown" for n
    using daily_total [OF assms(1,2), of n] weekly_total [OF assms(1,3), of n] monthly_total [OF assms(1,4), of n] by auto
  with r show ?thesis by (simp add: useBreakdownData_def)
qed

lemma breakdown_groups_keep_totals_witness:
  "\<exists>daily weekly monthly. useBreakdownData demo_dates demo_breakdown
      = Inr (Obj [(''daily'', Obj daily), (''weekly'', Obj weekly), (''monthly'', Obj monthly)])
    \<and> total_spent ''EC2'' weekly = 7 \<and> total_spent ''EC2'' monthly = 7"
proof -
  have p: "\<forall>e \<in> set demo_breakdown. plain_entry e"
    by (simp add: demo_breakdown_def plain_entry_def plain_expense_def)
  have d: "distinct (map (\<lambda>e. df_formatUTC demo_dates (Str (fst e)) ''MM/dd/yy'') demo_breakdown)"
    "distinct (map (week_of demo_dates) (chunks 7 demo_breakdown))" by code_simp+
  have m: "\<forall>e \<in> set demo_breakdown. month_label demo_dates (entry_value e) \<notin> set inherited_names" by code_simp
  have "total_spent ''EC2'' demo_breakdown = 7" by code_simp
  with breakdown_groups_keep_totals [OF p d m] show ?thesis by metis
qed

section \<open>The UI server\<close>

text \<open>C25: A GraphQL query only reads: its answer depends on the services through nothing but GET
  requests without a body, sent to the addresses of the services with the token of the user.  Two
  networks that agree on these give the same answer, whatever they do with any other request.\<close>

theorem queries_only_read:
  assumes "\<And>url request. url \<in> set (service_addresses env) \<Longrightarrow> rr_method request = ''GET'' \<Longrightarrow>
      rr_body request = Undef \<Longrightarrow>
      send1 url (''authorization'', ''Bearer '' @ to_str token) request
        = send2 url (''authorization'', ''Bearer '' @ to_str token) request"
  shows "resolve_field send1 (clients env token) False field args store
    = resolve_field send2 (clients env token) False field args store"
  using assms client_of [of _ env token] by (intro resolve_field_cong) auto

theorem queries_only_read_witness:
  "resolve_field (\<lambda>url _ request. if rr_method request = ''GET'' then Inr (Str url, \<lambda>_. None) else Inr (Undef, \<lambda>_. None))
      (clients (\<lambda>_. None) (Str ''t'')) False ''organizations'' [] []
    = resolve_field (\<lambda>url _ request. if rr_method request = ''GET'' then Inr (Str url, \<lambda>_. None) else Inl (OtherFailure ''offline''))
      (clients (\<lambda>_. None) (Str ''t'')) False ''organizations'' [] []"
  by (rule queries_only_read) simp

text \<open>Of the services that answer with a header that is forwarded, the browser sees one value: a
  header the response does not have yet gets the last value of the service that was stored last, and
  under the name prefixed with a service nothing is added; a header the response has keeps its
  value.\<close>

lemma one_forwarded_value:
  assumes "h \<in> set FORWARD_RESPONSE_HEADERS" "lower h \<notin> set (map lower (map fst headers))"
    "HeaderMap_get headers h = None" "HeaderMap_get headers k = Some v" "take 2 (lower k) \<noteq> ''x-''"
  shows "HeaderMap_get (response_headers responses headers) h =
      (let vs = service_values (responses_stored responses) h in if vs = [] then None else Some (last vs))
    \<and> HeaderMap_get (response_headers responses headers) (''x-'' @ service @ ''-'' @ h)
      = HeaderMap_get headers (''x-'' @ service @ ''-'' @ h)
    \<and> HeaderMap_get (response_headers responses headers) k = Some v"
  using response_headers_get [OF assms(1-3)] response_headers_keep [OF assms(4,5)] by (simp add: Let_def)

lemma one_forwarded_value_witness:
  "HeaderMap_get (response_headers
      [(''restapi'', \<lambda>h. Some ''a''), (''auth'', \<lambda>h. Some ''b''), (''restapi'', \<lambda>h. Some ''c'')]
      [(''etag'', ''own'')]) ''x-trace-id'' = Some ''b''"
proof -
  let ?rs = "[(''restapi'', \<lambda>h :: string. Some ''a''), (''auth'', \<lambda>h. Some ''b''), (''restapi'', \<lambda>h. Some ''c'')]"
  have "service_values (responses_stored ?rs) ''x-trace-id'' = [''c'', ''b'']" by code_simp
  moreover have h: "''x-trace-id'' \<in> set FORWARD_RESPONSE_HEADERS"
    "lower ''x-trace-id'' \<notin> set (map lower (map fst [(''etag'', ''own'')]))"
    "HeaderMap_get [(''etag'', ''own'')] ''x-trace-id'' = None"
    "HeaderMap_get [(''etag'', ''own'')] ''etag'' = Some ''own''" "take 2 (lower ''etag'') \<noteq> ''x-''"
    by code_simp+
  ultimately show ?thesis using one_forwarded_value [OF h, of ?rs] by (simp add: Let_def)
qed

section \<open>Maps and tables\<close>

text \<open>C26: Whatever is selected, the rows of the table, the locations and the flows of the map have the
  total cost of the selected expenses (sources with coordinates, one expense per pair of regions).\<close>

theorem traffic_view_keeps_totals:
  assumes "plain_traffic expenses"
  shows "sum_list (map row_total (tv_tableData (useTrafficExpenses expenses sel)))
       = total_cost (selectedTrafficExpenses expenses sel)
    \<and> sum_list (map lo_totalExpenses (mk_locations (tv_markers (useTrafficExpenses expenses sel))))
       = total_cost (selectedTrafficExpenses expenses sel)
    \<and> sum_list (map fl_cost (mk_flows (tv_markers (useTrafficExpenses expenses sel))))
       = total_cost (selectedTrafficExpenses expenses sel)"
  using view_totals [OF assms] by simp

definition demo_traffic :: "traffic_expense list" where
  "demo_traffic =
     (let a = \<lparr>pl_name = ''us'', pl_latitude = Some 38, pl_longitude = Some (- 77)\<rparr>;
          b = \<lparr>pl_name = ''eu'', pl_latitude = Some 53, pl_longitude = Some (- 6)\<rparr>;
          c = \<lparr>pl_name = ''cdn'', pl_latitude = None, pl_longitude = None\<rparr>;
          d = \<lparr>pl_name = ''vpn'', pl_latitude = None, pl_longitude = None\<rparr> in
      [\<lparr>te_from = a, te_to = b, te_cost = 5, te_usage = 1\<rparr>, \<lparr>te_from = b, te_to = a, te_cost = 4, te_usage = 2\<rparr>,
       \<lparr>te_from = a, te_to = c, te_cost = 2, te_usage = 1\<rparr>, \<lparr>te_from = a, te_to = d, te_cost = 1, te_usage = 3\<rparr>])"

theorem traffic_view_keeps_totals_witness:
  "sum_list (map fl_cost (mk_flows (tv_markers (useTrafficExpenses demo_traffic \<lparr>sel_rows = [''us''], sel_columns = []\<rparr>)))) = 8"
proof -
  have "plain_traffic demo_traffic" by code_simp
  moreover have "total_cost (selectedTrafficExpenses demo_traffic \<lparr>sel_rows = [''us''], sel_columns = []\<rparr>) = 8" by code_simp
  ultimately show ?thesis using traffic_view_keeps_totals by simp
qed



text \<open>C28: Clustering only regroups the markers of the regions: none is lost or doubled and the total is
  kept; a cluster has at least two items, by descending total, its total is theirs, and one of them is
  near all the others; markers that stay single are pairwise not near.\<close>

theorem clusters_regroup_markers:
  "mset (concat (map marker_items (useGeoClusterer markers zoom))) = mset markers
    \<and> sum_list (map shown_total (useGeoClusterer markers zoom)) = sum_list (map mk_total markers)
    \<and> list_all (well_shaped (geo_near zoom)) (useGeoClusterer markers zoom)
    \<and> sorted_wrt (\<lambda>a b. \<not> geo_near zoom (mk_point a) (mk_point b)) (shown_singles (useGeoClusterer markers zoom))"
  unfolding useGeoClusterer_def
  using marker_items_cluster_markers cluster_markers_total cluster_markers_shaped cluster_markers_singles by blast

text \<open>C29: The bar of actions comes to rest: its effect, run again after every change, ends.  At rest the
  buttons fit or all are hidden, and at most two more than before are shown.\<close>

theorem action_bar_comes_to_rest:
  "\<exists>s'. settle bar s = Some s' \<and> (ab_enabled bar \<and> ab_mode bar = HideMode \<and> ab_rendered bar \<longrightarrow>
     (ab_isOverflow bar (bs_hidden s') \<longrightarrow> ab_itemsLength bar \<le> bs_hidden s') \<and> bs_hidden s \<le> bs_hidden s' + 2)"
proof (cases "ab_enabled bar \<and> ab_mode bar = HideMode \<and> ab_rendered bar")
  case True
  then obtain s' where s': "settle bar s = Some s'" "bs_hidden s \<le> bs_hidden s' + may_show bar s"
    using settle_hide by blast
  moreover have "may_show bar s \<le> 2" by (simp add: may_show_def)
  ultimately show ?thesis using rest_fits [OF s'(1)] True by auto
next
  case False
  then show ?thesis using settle_total by blast
qed

theorem action_bar_comes_to_rest_witness:
  "\<exists>s'. settle (wide_bar\<lparr>ab_isOverflow := (\<lambda>n. n < 3)\<rparr>) bar_init = Some s' \<and>
     (bs_hidden s' < 3 \<longrightarrow> 5 \<le> bs_hidden s')"
  using action_bar_comes_to_rest [of "wide_bar\<lparr>ab_isOverflow := (\<lambda>n. n < 3)\<rparr>" bar_init]
  by (auto simp: wide_bar_def)

section \<open>Recommendations\<close>

text \<open>C30: The overview shows the recommendations that pass the filters, first those with a saving by
  descending saving, then the others by descending count, in the order of the catalogue where these are
  equal.\<close>

theorem overview_order:
  "RecommendationsOverview formatMessage toLower classes data controls =
     (let shown = filter (is_shown formatMessage toLower controls) (map (new_recommendation ''active'' data) (map snd classes)) in
      sort_key (\<lambda>r. - amount_of (re_saving r)) (filter hasSaving shown)
      @ sort_key (\<lambda>r. - amount_of (re_count r)) (filter (\<lambda>r. \<not> hasSaving r) shown))"
  by (simp add: RecommendationsOverview_def sort_recommendations by_saving_def by_count_def)

text \<open>C31: Whatever the user pinned and unpinned, the page has one card for every class of the catalogue
  that passes the filters, and no other.  The pinned cards come first, a card that was pinned later before
  one that was pinned earlier (pinning a pinned one again does not count), and the others follow in the
  order of the overview.\<close>

theorem cards_show_every_recommendation_once:
  "let overview = RecommendationsOverview formatMessage toLower (useOptscaleRecommendations nebius deprecated) data controls;
       cards = useOrderedRecommendations overview (foldl pinned_recommendations_reducer [] actions) in
     mset (map re_class cards) = mset (filter (\<lambda>c. is_shown formatMessage toLower controls
         (new_recommendation ''active'' data c)) (optscale_classes nebius deprecated))
     \<and> distinct (map re_type cards)
     \<and> sorted_wrt (\<lambda>a b. pinned_since actions (re_type b) = None \<or> pinned_after actions (re_type a) (re_type b)) cards
     \<and> filter (\<lambda>r. pinned_since actions (re_type r) = None) cards = filter (\<lambda>r. pinned_since actions (re_type r) = None) overview"
proof -
  let ?rs = "RecommendationsOverview formatMessage toLower (useOptscaleRecommendations nebius deprecated) data controls"
  let ?pinned = "foldl pinned_recommendations_reducer [] actions"
  let ?cards = "useOrderedRecommendations ?rs ?pinned"
  have "distinct ?pinned" by (rule reached_pins_distinct) simp
  from ordered_perm [OF overview_types_distinct this] have perm: "mset ?cards = mset ?rs" .
  then have "mset (map re_class ?cards) = mset (map re_class ?rs)" by (simp only: mset_map)
  moreover have "distinct (map re_type ?cards)"
    using overview_types_distinct mset_eq_imp_distinct_iff [of "map re_type ?cards" "map re_type ?rs"] perm
    by (metis mset_map)
  ultimately show ?thesis
    using overview_classes [of formatMessage toLower nebius deprecated data controls] cards_follow_history [of actions ?rs]
    unfolding Let_def by simp
qed

section \<open>The filters of the resources\<close>

text \<open>C32: A page of resources in use agrees with its address: a reload shows the same filters, but for the
  milliseconds of a day and the sub-pools of no pool, and requests the same data.  A page is in use
  (\<open>used_page\<close>) when it was opened at an address and then changed by the forms any number of times: values
  toggled, searched and selected, days picked, suggestions, the reset, with a perspective selected or not.
  This is for values that keep their kind in an address: what the address selects and what the forms
  offer are whole numbers, truth values and texts that are not empty and read neither as a number nor as a
  truth value, a pool does not end in a plus, and days lie after the first second of 1970.  It does
  not hold of other values, such as the tag 007, which comes back as the number 7.  Of \<open>query-string\<close> and of
  the conversions of \<open>date-fns\<close> it assumes \<open>query_string\<close> and \<open>whole_seconds\<close>.\<close>

theorem filters_survive_reload:
  assumes "query_string reads_number reread" "whole_seconds env" "used_page env reread reads_number page"
  shows "list_all2 (reads_as env reads_number) (rp_applied page) (rp_applied (open_page env (rp_address page)))
    \<and> page_request env (open_page env (rp_address page)) from_date to_date page_limit = page_request env page from_date to_date page_limit"
proof -
  have sync: "in_sync env reads_number reread page" using used_page_in_sync [OF assms] by simp
  with in_sync_requests [OF assms(2) sync] show ?thesis by (simp add: in_sync_def)
qed

definition region_page :: resources_page where
  "region_page = onAppliedFiltersChange plain_env address_reader True [(''region'', Selected [Str ''eu''] None)]
     (open_page plain_env (address_reader []))"

definition dated_page :: resources_page where
  "dated_page = onAppliedFiltersChange plain_env address_reader False
     (handleRangeChange plain_env ''lastSeen'' (None, Some 1700000000000)) region_page"

lemma dated_page_used: "used_page plain_env address_reader digits_only dated_page"
  unfolding dated_page_def
proof (rule used_page.ranged)
  have empty: "rp_applied (open_page plain_env (address_reader [])) = map (\<lambda>(k, cfg). (k, getDefaultValue cfg)) (FILTER_CONFIGS plain_env)"
    by (simp add: page_filters address_reader_def FILTER_CONFIGS_def filter_defs getValuesFromSearchParams_def getDefaultValue_def
        getSelectionAppliedValuesFromSearchParams_def getRangeAppliedFilterValuesFromSearchParams_def pool_values_def
        js_number_def to_primitive_def)
  have start: "used_page plain_env address_reader digits_only (open_page plain_env (address_reader []))"
    using defaults_are_plain [of digits_only plain_env]
    by (intro used_page.opened) (auto simp: all_writable_def empty list_all_iff)
  define p where "p = \<lparr>fp_items = [[(''name'', Str ''eu''), (''value'', Str ''eu'')], [(''name'', Str ''us''), (''value'', Str ''us'')]],
    fp_applied = Selected [] None, fp_settings = [], fp_search = sc_searchPredicate (region_filter plain_env), fp_lower = fe_lower plain_env\<rparr>"
  have props: "getSelectionFilterProps plain_env (region_filter plain_env) (rp_applied (open_page plain_env (address_reader [])))
      (Arr [Obj [(''name'', Str ''eu'')], Obj [(''name'', Str ''us'')]]) = Inr p"
    unfolding p_def by (simp add: empty getSelectionFilterProps_def region_filter_def map_items_def as_array_def with_value_def
        obj_spread_def obj_set_def obj_insert_plain is_index_alpha is_digit_def FILTER_CONFIGS_def getDefaultValue_def)
  have session: "form_session p [FormOpen, FormToggle (Str ''eu''), FormApply] form_init = Inr (Some (Selected [Str ''eu''] None))"
    unfolding p_def by code_simp
  have cfg: "(''region'', SelectionConfig (region_filter plain_env)) \<in> set (FILTER_CONFIGS plain_env)"
    by (simp add: FILTER_CONFIGS_def)
  have items: "list_all (\<lambda>i. value_ok digits_only ''region'' (item_value i)) (fp_items p)"
    by (simp add: p_def value_ok_def item_value_def plain_value_def digits_only_def is_digit_def to_lower_def)
  show "used_page plain_env address_reader digits_only region_page"
    unfolding region_page_def by (rule used_page.listed [OF start cfg props items session])
  show "case handleRangeChange plain_env ''lastSeen'' (None, Some 1700000000000) of [(k', Range f t)] \<Rightarrow> late_end f \<and> late_end t | _ \<Rightarrow> False"
    by code_simp
qed simp

theorem filters_survive_reload_witness:
  "list_all2 (reads_as plain_env digits_only) (rp_applied dated_page) (rp_applied (open_page plain_env (rp_address dated_page)))
    \<and> page_request plain_env (open_page plain_env (rp_address dated_page)) Undef Undef (Num 100)
      = page_request plain_env dated_page Undef Undef (Num 100)"
  by (rule filters_survive_reload [OF address_reader_laws plain_env_seconds dated_page_used])

text \<open>A tag that reads as a number is lost: the page has selected the tag 007, the reload shows the number
  7, and requests the resources of another tag.\<close>

lemma number_like_tag_is_lost:
  defines "page \<equiv> onAppliedFiltersChange plain_env address_reader False [(''tag'', Selected [Str ''007''] None)]
      (open_page plain_env (address_reader []))"
  shows "map_of (rp_applied page) ''tag'' = Some (Selected [Str ''007''] None)
    \<and> map_of (rp_applied (open_page plain_env (rp_address page))) ''tag'' = Some (Selected [Num 7] None)"
  unfolding page_def by code_simp

text \<open>C33: A perspective restores the filters it was saved with: the page opened at the address of the
  perspective shows the filters that were applied when it was saved, but for the milliseconds of a day
  and the sub-pools of no pool, and does not take the perspective for changed.  The stored filters are known
  up to the order of their properties and the undefined ones.  This is for filters that keep their kind in
  an address (\<open>writable\<close>: whole numbers, truth values and texts that are not empty and read neither as a number
  nor as a truth value, pools that do not end in a plus, days after the first second of 1970), for a breakdown
  whose fields are undefined or of the same kind (\<open>readable_breakdown\<close>), and for an address whose other
  parameters are none of the filters.  A saved tag such as 007 comes back as a number.  Of \<open>query-string\<close> and of the
  conversions of \<open>date-fns\<close> it assumes \<open>query_string\<close> and \<open>whole_seconds\<close>.\<close>

theorem perspective_restores_filters:
  assumes "query_string reads_number reread" "whole_seconds env" "map fst applied = filter_ids"
    "list_all (\<lambda>(k, a). writable reads_number k a) applied"
    "distinct (map fst kept)" "\<forall>n. obj_get kept n = obj_get (perspectiveAppliedFilters env applied) n"
    "list_all (\<lambda>n. obj_get restParams n = Undef) all_param_names" "readable_breakdown reads_number breakdownData"
  shows "rp_applied (open_page env (perspective_address reread restParams name kept breakdownBy breakdownData)) = map (\<lambda>(k, a). (k, as_read env a)) applied
    \<and> \<not> someParamHasChanged (perspective_address reread restParams name kept breakdownBy breakdownData) breakdownBy breakdownData"
  using perspective_reads_back [OF assms(1-7)] perspective_stays_selected [OF assms(1,8)] by blast

definition saved_filters :: "(string \<times> applied_filter) list" where
  "saved_filters = [(''cloudAccountId'', Selected [Str ''aws'', Str ''gcp''] None), (''poolId'', Selected [Str ''p1''] (Some True)),
     (''ownerId'', Selected [] None), (''region'', Selected [] None), (''serviceName'', Selected [] None),
     (''resourceType'', Selected [Str ''disk:regular''] None), (''active'', Selected [Bool True] None),
     (''recommendations'', Selected [] None), (''constraintViolated'', Selected [] None),
     (''firstSeen'', Range (Some 86400000) None), (''lastSeen'', Range None None), (''tag'', Selected [] None),
     (''meta'', Selected [] None), (''withoutTag'', Selected [] None), (''networkTrafficFrom'', Selected [Str ''ANY''] None),
     (''networkTrafficTo'', Selected [] None), (''k8sNode'', Selected [] None), (''k8sService'', Selected [] None),
     (''k8sNamespace'', Selected [] None)]"

theorem perspective_restores_filters_witness:
  "rp_applied (open_page plain_env (perspective_address address_reader [(''limit'', Num 100)] ''mine''
     (perspectiveAppliedFilters plain_env saved_filters) (Str ''expenses'') [(''breakdownBy'', Str ''region'')]))
   = map (\<lambda>(k, a). (k, as_read plain_env a)) saved_filters
   \<and> \<not> someParamHasChanged (perspective_address address_reader [(''limit'', Num 100)] ''mine''
     (perspectiveAppliedFilters plain_env saved_filters) (Str ''expenses'') [(''breakdownBy'', Str ''region'')])
     (Str ''expenses'') [(''breakdownBy'', Str ''region'')]"
proof (rule perspective_restores_filters [OF address_reader_laws plain_env_seconds])
  show ids: "map fst saved_filters = filter_ids" by (simp add: saved_filters_def filter_ids_def)
  show "list_all (\<lambda>(k, a). writable digits_only k a) saved_filters"
    by (simp add: saved_filters_def writable_def late_end_def pool_id_def plain_value_def digits_only_def is_digit_def to_lower_def)
  show "distinct (map fst (perspectiveAppliedFilters plain_env saved_filters))"
    by (simp add: perspectiveAppliedFilters_request [OF ids] distinct_api_filter_params)
  show "list_all (\<lambda>n. obj_get [(''limit'', Num 100)] n = Undef) all_param_names" by (simp add: all_param_names_def)
  show "readable_breakdown digits_only [(''breakdownBy'', Str ''region'')]"
    by (simp add: readable_breakdown_def plain_value_def digits_only_def is_digit_def to_lower_def)
qed simp

text \<open>C34: The link of an anomaly opens the page on the data of the anomaly's chart: of every filter with
  selected values, the page behind the link requests exactly the values that the chart requests.  Charts are
  shown for the two kinds of anomalies, no other constraint has one.  This is for links whose values keep
  their kind in an address (\<open>readable\<close>: whole numbers, truth values and texts that are not empty and read neither
  as a number nor as a truth value, pools that do not end in a plus); for a tag such as 007 the page requests
  the number 7.  Of \<open>query-string\<close> it assumes \<open>query_string\<close>.\<close>

theorem link_requests_chart_data:
  assumes "query_string reads_number reread" "obj_get constraint ''type'' \<in> {Str ''resource_count_anomaly'', Str ''expense_anomaly''}"
    "getFiltersParams env constraint = Inr ps" "readable reads_number ps"
    "mapFiltersToApiParams (Str (fe_nil env)) (own_props (obj_get constraint ''filters'')) = Inr chart"
    "(k, SelectionConfig c) \<in> set (FILTER_CONFIGS env)" "(k, m) \<in> set (sent_as (SelectionConfig c))"
  shows "selected_values (obj_get (page_request env (open_page env (reread ps)) from_date to_date page_limit) m)
    = selected_values (obj_get chart m)"
proof (rule link_selects_chart_data [OF assms(1) _ assms(5,4,6,7)])
  show "link_params env (own_props (obj_get constraint ''filters'')) = Inr ps"
    using assms(2,3) by (auto simp: getFiltersParams_def getFilterValues_def obj_spread_def)
qed

definition anomaly_constraint :: obj where
  "anomaly_constraint = [(''type'', Str ''resource_count_anomaly''),
     (''filters'', Obj [(''region'', Arr [Obj [(''name'', Str ''eu-west'')], Null]), (''pool'', Arr [Obj [(''id'', Str ''p1'')]]),
        (''tag'', Arr [Str ''owner''])])]"

theorem link_requests_chart_data_witness:
  "\<exists>ps chart. getFiltersParams plain_env anomaly_constraint = Inr ps
    \<and> mapFiltersToApiParams (Str (fe_nil plain_env)) (own_props (obj_get anomaly_constraint ''filters'')) = Inr chart
    \<and> selected_values (obj_get (page_request plain_env (open_page plain_env (address_reader ps)) Undef Undef (Num 100)) ''region'')
      = [Str ''eu-west'', Str (fe_nil plain_env)]"
proof -
  have link: "getFiltersParams plain_env anomaly_constraint = Inr [(''poolId'', Arr [Str ''p1'']),
      (''region'', Arr [Str ''eu-west'', Str (fe_nil plain_env)]), (''tag'', Arr [Str ''owner''])]"
    by (simp add: getFiltersParams_def getFilterValues_def link_params_def anomaly_constraint_def FILTER_CONFIGS_def filter_defs
        obj_spread_def js_coalesce_def nullish_def isEmptyArray_def as_array_def from_entries_def obj_set_def obj_insert_plain is_index_alpha
        is_digit_def)
  obtain chart where chart: "mapFiltersToApiParams (Str (fe_nil plain_env)) (own_props (obj_get anomaly_constraint ''filters'')) = Inr chart"
      "obj_get chart ''region'' = Arr [Str ''eu-west'', Str (fe_nil plain_env)]"
    by (simp add: mapFiltersToApiParams_def anomaly_constraint_def map_filter_values_def nullish_def as_array_def getObjectValue_def)
  have readable: "readable digits_only [(''poolId'', Arr [Str ''p1'']),
      (''region'', Arr [Str ''eu-west'', Str (fe_nil plain_env)]), (''tag'', Arr [Str ''owner''])]"
    by (simp add: readable_def selected_values_def pool_id_def plain_value_def digits_only_def is_digit_def to_lower_def plain_env_def)
  have cfg: "(''region'', SelectionConfig (region_filter plain_env)) \<in> set (FILTER_CONFIGS plain_env)"
    by (simp add: FILTER_CONFIGS_def)
  have sent: "(''region'', ''region'') \<in> set (sent_as (SelectionConfig (region_filter plain_env)))"
    by (simp add: sent_as_def region_filter_def)
  have type: "obj_get anomaly_constraint ''type'' \<in> {Str ''resource_count_anomaly'', Str ''expense_anomaly''}" by (simp add: anomaly_constraint_def)
  note link_requests_chart_data [OF address_reader_laws type link readable chart(1) cfg sent]
  with link chart show ?thesis by (fastforce simp: selected_values_def)
qed

section \<open>Commitments and raw expenses\<close>

text \<open>C35: On the page of commitments, whatever data sources are selected, the table has one row per data
  source, its footers are the sums of the bars of the usage chart and what the summary reports of the
  same costs, and the chart of the costs is off by at most half a cent, and an epsilon, for each item.\<close>

theorem commitment_views_agree:
  "let (all_usage, all_costs) = useRiSpBreakdowns ri sp;
       usage = filterBreakdownByIds ui_account all_usage ids;
       costs = filterBreakdownByIds ci_account all_costs ids;
       bars = usage_chart_data formatDay usage;
       summary = summarize_commitments costs;
       rows = coverage_rows (page_items usage costs) in
   distinct (map cr_account rows) \<and> set (map cr_account rows) = set (map ui_account (flat usage))
   \<and> footer cr_sp_usage_hrs rows = sum_list (map ub_sp_usage_hrs bars)
   \<and> footer cr_ri_usage_hrs rows = sum_list (map ub_ri_usage_hrs bars)
   \<and> footer cr_total_usage_hrs rows = sum_list (map ub_total_usage_hrs bars)
   \<and> footer cr_total_cost_with_offer rows = cs_totalCostWithOffer summary
   \<and> footer cr_total_cost_without_offer rows - footer cr_total_cost_with_offer rows = cs_totalSaving summary
   \<and> footer cr_ri_cost_with_offer rows + footer cr_sp_cost_with_offer rows = cs_covered summary
   \<and> \<bar>sum_list (map cb_total_expenses (cost_chart_data formatDay costs)) - footer cr_total_cost_with_offer rows\<bar>
       \<le> of_nat (length (flat costs)) * (1 / 200 + 1 / 2 ^ 52)"
proof -
  let ?u = "filterBreakdownByIds ui_account (getBreakdown to_usage ri sp) ids"
  let ?c = "filterBreakdownByIds ci_account (getBreakdown to_cost ri sp) ids"
  have rows: "distinct (map cr_account (coverage_rows (page_items ?u ?c)))"
    "set (map cr_account (coverage_rows (page_items ?u ?c))) = set (map ui_account (flat ?u))"
    unfolding page_items_def set_map page_rows by (simp_all only: page_accounts Un_absorb page_rows(1))
  show ?thesis
    unfolding useRiSpBreakdowns_def Let_def prod.case
    using rows cost_chart_error [of formatDay ?c]
    by (simp only: page_items_def page_footers usage_chart_sums summary_sums sum_list_0 add_0_left add_0_right)
qed

text \<open>C36: The page counts everything of the answer on savings plans; of the answer on reserved instances it
  counts the data sources and days that the first answer has, and no other, such as the reservations
  of a cloud that has no savings plans.\<close>

theorem commitment_answers_counted:
  assumes "plain_answers ri sp"
  shows "let bars = usage_chart_data formatDay (fst (useRiSpBreakdowns (Some ri) (Some sp)));
      summary = summarize_commitments (snd (useRiSpBreakdowns (Some ri) (Some sp)));
      counted = filter (\<lambda>x. rv_account x \<in> set (first_day_sources sp)) (flat (filter (\<lambda>day. fst day \<in> set (map fst sp)) ri)) in
    sum_list (map ub_total_usage_hrs bars) = sum_list (map (\<lambda>x. or_zero (sv_total_usage_hrs x)) (flat sp))
    \<and> sum_list (map ub_sp_usage_hrs bars) = sum_list (map (\<lambda>x. or_zero (sv_usage_hrs x)) (flat sp))
    \<and> sum_list (map ub_ri_usage_hrs bars) = sum_list (map (\<lambda>x. or_zero (rv_usage_hrs x)) counted)
    \<and> cs_totalCostWithOffer summary = sum_list (map (\<lambda>x. or_zero (sv_cost_with_offer x)) (flat sp))
    \<and> cs_covered summary = sum_list (map (\<lambda>x. or_zero (rv_cost_with_offer x)) counted)
        + sum_list (map (\<lambda>x. or_zero (sv_sp_cost_with_offer x)) (flat sp))"
proof -
  note sp = answers_taken(1) [OF assms] and ri = answers_taken(2) [OF assms]
  show ?thesis
    unfolding useRiSpBreakdowns_def Let_def fst_conv snd_conv usage_chart_sums summary_sums
    by (intro conjI arg_cong2 [of _ _ _ _ "(+)"] sp ri) (simp_all add: to_usage_def to_cost_def)
qed

definition demo_savings :: "savings_datum days" where
  "demo_savings = map (\<lambda>day. (day, [\<lparr> sv_account = ''aws'', sv_type = Str ''aws_cnr'', sv_name = Str ''AWS'', sv_total_usage_hrs = Some 10,
     sv_usage_hrs = Some 4, sv_sp_cost_with_offer = Some 2, sv_sp_cost_without_offer = Some 3, sv_cost_with_offer = Some 8,
     sv_cost_without_offer = Some 9 \<rparr>])) [''1700000000'', ''1700086400'']"

definition demo_reserved :: "reserved_datum days" where
  "demo_reserved = map (\<lambda>day. (day, [\<lparr> rv_account = ''aws'', rv_usage_hrs = Some 1, rv_cost_with_offer = Some 1,
       rv_cost_without_offer = Some 2 \<rparr>,
     \<lparr> rv_account = ''azure'', rv_usage_hrs = Some 100, rv_cost_with_offer = Some 50, rv_cost_without_offer = Some 80 \<rparr>]))
     [''1700000000'', ''1700086400'']"

theorem commitment_answers_counted_witness:
  "sum_list (map ub_ri_usage_hrs (usage_chart_data (\<lambda>day. day) (fst (useRiSpBreakdowns (Some demo_reserved) (Some demo_savings))))) = 2
    \<and> sum_list (map (\<lambda>x. or_zero (rv_usage_hrs x)) (flat demo_reserved)) = 202"
proof -
  have "plain_answers demo_reserved demo_savings"
    by (simp add: plain_answers_def demo_reserved_def demo_savings_def first_day_sources_def)
  from commitment_answers_counted [OF this, of "\<lambda>day. day"] show ?thesis
    by (simp add: Let_def demo_reserved_def demo_savings_def first_day_sources_def flat_def or_zero_def)
qed

text \<open>C37: Of a day with usage, the three shares of the chart make up the whole, and those of the savings plans
  and of the reserved instances are within half a percent of the exact ones.  The rest is taken from
  the rounded shares, so it can be below zero on a day that is covered in full.\<close>

theorem coverage_shares:
  assumes "bar = usage_bar_of formatDay day" "0 \<le> ub_sp_usage_hrs bar" "0 \<le> ub_ri_usage_hrs bar" "0 < ub_total_usage_hrs bar"
    "ub_sp_usage_hrs bar + ub_ri_usage_hrs bar \<le> ub_total_usage_hrs bar"
  shows "\<exists>p q u. ub_sp_usage_percent bar = Some p \<and> ub_ri_usage_percent bar = Some q
    \<and> ub_uncovered_usage_percent bar = Some u \<and> p + q + u = 1 \<and> - (1 / 100) \<le> u
    \<and> \<bar>p - ub_sp_usage_hrs bar / ub_total_usage_hrs bar\<bar> \<le> 1 / 200
    \<and> \<bar>q - ub_ri_usage_hrs bar / ub_total_usage_hrs bar\<bar> \<le> 1 / 200"
proof -
  obtain p q u where shares: "ub_sp_usage_percent bar = Some p" "ub_ri_usage_percent bar = Some q"
    "ub_uncovered_usage_percent bar = Some u" "p + q + u = 1"
    "\<bar>p - ub_sp_usage_hrs bar / ub_total_usage_hrs bar\<bar> \<le> 1 / 200"
    "\<bar>q - ub_ri_usage_hrs bar / ub_total_usage_hrs bar\<bar> \<le> 1 / 200"
    using bar_shares [OF assms(2-4,1)] by blast
  have "ub_sp_usage_hrs bar / ub_total_usage_hrs bar + ub_ri_usage_hrs bar / ub_total_usage_hrs bar \<le> 1"
    using assms(4,5) by (simp flip: add_divide_distrib)
  then have "- (1 / 100) \<le> u" using shares(4-6) by linarith
  with shares show ?thesis by blast
qed

definition covered_day :: "string \<times> usage_item list" where
  "covered_day = (''1700000000'', [\<lparr> ui_account = ''aws'', ui_type = Str ''aws_cnr'', ui_name = Str ''AWS'', ui_total_usage_hrs = 200,
     ui_ri_usage_hrs = 67, ui_sp_usage_hrs = 133 \<rparr>])"

theorem coverage_shares_witness:
  "(\<exists>u. ub_uncovered_usage_percent (usage_bar_of (\<lambda>day. day) covered_day) = Some u \<and> - (1 / 100) \<le> u)
    \<and> ub_uncovered_usage_percent (usage_bar_of (\<lambda>day. day) covered_day) = Some (- (1 / 100))"
proof
  have bar: "ub_sp_usage_hrs (usage_bar_of (\<lambda>day. day) covered_day) = 133"
    "ub_ri_usage_hrs (usage_bar_of (\<lambda>day. day) covered_day) = 67"
    "ub_total_usage_hrs (usage_bar_of (\<lambda>day. day) covered_day) = 200"
    by (simp_all add: usage_bar_of_def covered_day_def Let_def)
  show "\<exists>u. ub_uncovered_usage_percent (usage_bar_of (\<lambda>day. day) covered_day) = Some u \<and> - (1 / 100) \<le> u"
    using coverage_shares [OF refl, of "\<lambda>day. day" covered_day] by (auto simp: bar)
  show "ub_uncovered_usage_percent (usage_bar_of (\<lambda>day. day) covered_day) = Some (- (1 / 100))"
    by (simp add: usage_bar_of_def covered_day_def Let_def percentXofY_def js_div_def js_minus_def floor_eq_iff)
qed

text \<open>C38: The table and the chart of the raw expenses of a resource both add up to its whole cost, and
  every line of the chart has every day once, in the order of the dates.  This is for expenses whose
  categories are no names that every object inherits, such as \<open>constructor\<close>: the code collects the
  expenses of a category in an object.\<close>

theorem raw_expenses_views_agree:
  assumes "\<forall>item \<in> set expenses. to_str (getCategory totalExpenses (data_source_type expenses) item) \<notin> set inherited_names"
  shows "\<exists>table chart. getData formatISO parse_date totalExpenses expenses = Inr (table, chart)
    \<and> sum_list (map rr_expenses table) = sum_list (map raw_cost expenses)
    \<and> sum_list (map series_sum chart) = sum_list (map raw_cost expenses)
    \<and> (\<forall>line \<in> set chart. distinct (map fst (snd line)) \<and> fst ` set (snd line) = set (uniqueDays formatISO expenses)
        \<and> sorted (map (parse_date \<circ> fst) (snd line)))"
proof -
  obtain g where g: "group_raw formatISO totalExpenses expenses = Inr g" "distinct (map fst g)"
    "groups_total g = sum_list (map raw_cost expenses)"
    "\<forall>(k, vs) \<in> set g. \<forall>d \<in> set vs. rd_date d \<in> set (uniqueDays formatISO expenses)"
    using group_raw_total [OF assms] by blast
  show ?thesis
    using chart_lines [OF g(2,4) refl, of parse_date] by (simp add: getData_def g(1,3) table_total_raw)
qed

definition raw_items :: "obj list" where
  "raw_items = map (\<lambda>(day, item, cost). [(''start_date'', Str day), (LINE_ITEM_DESCRIPTION, Str item), (''cost'', Num cost)])
     [(''2024-01-01'', ''CPU'', 5), (''2024-01-02'', ''Disk'', 1), (''2024-01-01'', ''CPU'', 2)]"

theorem raw_expenses_views_agree_witness:
  "\<exists>table chart. getData to_str (\<lambda>day. of_nat (str_nat day)) ''Total'' raw_items = Inr (table, chart)
    \<and> sum_list (map series_sum chart) = 8"
proof -
  have names: "\<forall>item \<in> set raw_items. to_str (getCategory ''Total'' (data_source_type raw_items) item) \<notin> set inherited_names"
    by code_simp
  have "sum_list (map raw_cost raw_items) = 8" by code_simp
  with raw_expenses_views_agree [OF names, of to_str "\<lambda>day. of_nat (str_nat day)"] show ?thesis by auto
qed

section \<open>Power schedules\<close>

text \<open>C39: The chart of a power schedule shows, at every minute from 00:00 until 23:59, where it ends, the
  state that the schedule puts instances in: that of the latest trigger so far, and before the first trigger
  that of the last one.  No bar has a negative width.  This is for triggers at times of the form HH:mm, and for a
  chart that is drawn on a day without a change of the clock: \<open>clock_laws\<close> says of \<open>date-fns\<close> that the times of
  the current day are as many minutes after its start as they say, which is so on days of 24 hours.\<close>

theorem chart_shows_schedule:
  assumes "clock_laws env" "triggers \<noteq> []" "\<forall>t \<in> set triggers. valid_time (tp_time t)"
  shows "\<exists>segments. chart_segments env triggers = Inr segments
    \<and> (\<forall>s \<in> set segments. \<exists>d \<ge> 0. ts_durationInMinutes s = Some d)
    \<and> (\<forall>m < 1439. shown_at segments m = Some (state_at triggers m))"
  using chart_shows_state [OF assms] assms(2) by (auto simp: chart_segments_def)

definition office_hours :: "time_point list" where
  "office_hours = [\<lparr> tp_time = ''18:30'', tp_action = POWER_OFF \<rparr>, \<lparr> tp_time = ''08:00'', tp_action = POWER_ON \<rparr>]"

theorem chart_shows_schedule_witness:
  "\<exists>segments. chart_segments utc_clock office_hours = Inr segments \<and> shown_at segments 60 = Some POWER_OFF
    \<and> shown_at segments 600 = Some POWER_ON \<and> shown_at segments 1200 = Some POWER_OFF"
proof -
  have times: "''18:30'' = clock24 1110" "''08:00'' = clock24 480" by code_simp+
  have valid: "\<forall>t \<in> set office_hours. valid_time (tp_time t)" unfolding office_hours_def times by simp
  have states: "state_at office_hours 60 = POWER_OFF" "state_at office_hours 600 = POWER_ON" "state_at office_hours 1200 = POWER_OFF"
    unfolding office_hours_def times by (simp_all add: state_at_def Let_def)
  have "office_hours \<noteq> []" by (simp add: office_hours_def)
  from chart_shows_schedule [OF utc_clock_laws this valid] obtain segments where
    "chart_segments utc_clock office_hours = Inr segments" "\<forall>m < 1439. shown_at segments m = Some (state_at office_hours m)" by blast
  moreover from this(2) have "shown_at segments 60 = Some (state_at office_hours 60)"
    "shown_at segments 600 = Some (state_at office_hours 600)" "shown_at segments 1200 = Some (state_at office_hours 1200)" by simp_all
  ultimately show ?thesis using states by auto
qed

text \<open>C40: A power schedule that was created with the form and is opened for editing and saved without a change
  is sent again as it was: name, zone, dates and triggers, which are sent in strictly ascending order
  of their times.  In a zone whose offset does not change.\<close>

theorem schedule_is_sent_again:
  assumes "clock_laws env" "zone_laws env" "valid_schedule_form zones form" "\<forall>t \<in> set (sf_triggers form). filled_trigger env t"
    "dated env form"
  shows "\<exists>p again. create_params env form = Inr p \<and> getDefaultFormValues env (kept_schedule p) = Inr again
    \<and> edit_params env again = Inr (p \<lparr> pp_enabled := None \<rparr>)
    \<and> sorted_wrt (<) (map trigger_minute (pp_triggers p)) \<and> length (pp_triggers p) = length (sf_triggers form)"
  using submitted_again [OF assms(1,2) _ assms(4,5)] assms(3) by (simp add: valid_schedule_form_def)

definition office_form :: schedule_form where
  "office_form = \<lparr> sf_name = ''office'', sf_timeZone = ''Europe/Berlin'', sf_initiationDate = Some 1700000000000,
     sf_expirationDate = Some 1710000000000,
     sf_triggers = [\<lparr> ft_time = ''06:30'', ft_meridiem = ''PM'', ft_action = POWER_OFF \<rparr>,
       \<lparr> ft_time = ''12:15'', ft_meridiem = ''AM'', ft_action = POWER_ON \<rparr>] \<rparr>"

theorem schedule_is_sent_again_witness:
  "\<exists>p again. create_params utc_clock office_form = Inr p \<and> getDefaultFormValues utc_clock (kept_schedule p) = Inr again
    \<and> edit_params utc_clock again = Inr (p \<lparr> pp_enabled := None \<rparr>) \<and> length (pp_triggers p) = 2"
proof -
  have form: "valid_schedule_form [''Europe/Berlin''] office_form" by code_simp
  have "clock12 (15 * i) \<in> set (map (\<lambda>i. clock12 (15 * i)) [0..<48])" if "i < 48" for i using that by auto
  from this [of 26] this [of 1] have choices: "clock12 (15 * 26) \<in> set (map (\<lambda>i. clock12 (15 * i)) [0..<48])"
    "clock12 (15 * 1) \<in> set (map (\<lambda>i. clock12 (15 * i)) [0..<48])" by simp_all
  have times: "''06:30'' = clock12 (15 * 26)" "''12:15'' = clock12 (15 * 1)" by code_simp+
  have filled: "\<forall>t \<in> set (sf_triggers office_form). filled_trigger utc_clock t"
    using choices unfolding office_form_def filled_trigger_def TIME_VALUES_quarters [OF utc_clock_laws] times
    by (simp add: MERIDIEM_AM_def MERIDIEM_PM_def)
  have dates: "dated utc_clock office_form"
    by (simp add: dated_def office_form_def moveDateFromUTC_def utc_clock_def)
  from schedule_is_sent_again [OF utc_clock_laws utc_zone_laws form filled dates] show ?thesis
    by (auto simp: office_form_def)
qed

end
